(* ===== verification/Prelude.thy ===== *)
theory Prelude
  imports Complex_Main "HOL-Library.Product_Lexorder"
begin

text \<open>
  Shared vocabulary of the development: the Python string functions the bridge uses,
  decimal parsing and printing, the \<open>ORDER BY ... LIMIT\<close> selections of its queries, and the
  lemma collections the component theories add to.

  A Python \<open>str\<close> is a list of code points; the model keeps the code points below 256, one
  HOL \<open>char\<close> each, so that digits outside ASCII (the superscript two, for one) are present.
  Instants and durations are exact rationals in seconds.
\<close>

type_synonym time = rat

named_theorems frame_simps \<open>what an operation leaves alone\<close>
named_theorems row_simps \<open>reading a row back after a table operation\<close>

section \<open>Characters and strings\<close>

definition cc :: "char \<Rightarrow> nat" where
  "cc c = of_char c"

definition is_ascii_digit :: "char \<Rightarrow> bool" where
  "is_ascii_digit c \<longleftrightarrow> 48 \<le> cc c \<and> cc c \<le> 57"

text \<open>\<open>str.isspace\<close> and \<open>str.isdigit\<close> on code points below 256, and \<open>str.lower\<close>.\<close>

definition py_isspace :: "char \<Rightarrow> bool" where
  "py_isspace c \<longleftrightarrow> (9 \<le> cc c \<and> cc c \<le> 13) \<or> (28 \<le> cc c \<and> cc c \<le> 32) \<or> cc c = 133 \<or> cc c = 160"

definition py_isdigit :: "char \<Rightarrow> bool" where
  "py_isdigit c \<longleftrightarrow> is_ascii_digit c \<or> cc c = 178 \<or> cc c = 179 \<or> cc c = 185"

definition py_lower_char :: "char \<Rightarrow> char" where
  "py_lower_char c =
     (if (65 \<le> cc c \<and> cc c \<le> 90) \<or> (192 \<le> cc c \<and> cc c \<le> 222 \<and> cc c \<noteq> 215)
      then char_of (cc c + 32) else c)"

definition py_lower :: "string \<Rightarrow> string" where
  "py_lower s = map py_lower_char s"

definition lstrip :: "string \<Rightarrow> string" where
  "lstrip s = dropWhile py_isspace s"

definition rstrip :: "string \<Rightarrow> string" where
  "rstrip s = rev (dropWhile py_isspace (rev s))"

definition strip :: "string \<Rightarrow> string" where
  "strip s = rstrip (lstrip s)"

lemma length_strip_le: "length (strip s) \<le> length s"
proof -
  have "length (strip s) \<le> length (lstrip s)"
    by (simp add: strip_def rstrip_def length_dropWhile_le [THEN order_trans])
  also have "\<dots> \<le> length s"
    by (simp add: lstrip_def length_dropWhile_le)
  finally show ?thesis .
qed

lemma last_dropWhile:
  "dropWhile P xs \<noteq> [] \<Longrightarrow> last (dropWhile P xs) = last xs"
  by (induction xs) (auto split: if_splits)

lemma hd_rev_dropWhile_rev:
  "dropWhile P (rev xs) \<noteq> [] \<Longrightarrow> hd (rev (dropWhile P (rev xs))) = hd xs"
  by (metis last_dropWhile hd_rev last_rev)

text \<open>A stripped string starts and ends with a character that is no white space.\<close>

lemma strip_hd_last:
  assumes "strip s \<noteq> []"
  shows "\<not> py_isspace (hd (strip s)) \<and> \<not> py_isspace (last (strip s))"
proof
  have ne: "dropWhile py_isspace (rev (lstrip s)) \<noteq> []"
    using assms by (simp add: strip_def rstrip_def)
  then have "lstrip s \<noteq> []" by auto
  then have "\<not> py_isspace (hd (lstrip s))"
    by (simp add: lstrip_def hd_dropWhile)
  then show "\<not> py_isspace (hd (strip s))"
    using hd_rev_dropWhile_rev [OF ne] by (simp add: strip_def rstrip_def)
  show "\<not> py_isspace (last (strip s))"
    using hd_dropWhile [OF ne] ne by (simp add: strip_def rstrip_def last_rev)
qed

lemma dropWhile_id: "xs = [] \<or> \<not> P (hd xs) \<Longrightarrow> dropWhile P xs = xs"
  by (cases xs) auto

lemma strip_strip [simp]: "strip (strip s) = strip s"
proof (cases "strip s = []")
  case False
  with strip_hd_last [OF False] have "dropWhile py_isspace (strip s) = strip s"
    "dropWhile py_isspace (rev (strip s)) = rev (strip s)"
    by (auto intro!: dropWhile_id simp: hd_rev)
  then show ?thesis by (simp add: strip_def [of "strip s"] lstrip_def rstrip_def)
next
  case True
  have "strip [] = []" by (simp add: strip_def lstrip_def rstrip_def)
  with True show ?thesis by (simp only:)
qed

section \<open>Decimal numbers\<close>

definition digit_val :: "char \<Rightarrow> nat" where
  "digit_val c = cc c - 48"

definition digits_to_nat :: "string \<Rightarrow> nat" where
  "digits_to_nat s = foldl (\<lambda>n c. 10 * n + digit_val c) 0 s"

definition digit_char :: "nat \<Rightarrow> char" where
  "digit_char d = char_of (48 + d)"

fun show_nat :: "nat \<Rightarrow> string" where
  "show_nat n = (if n < 10 then [digit_char n] else show_nat (n div 10) @ [digit_char (n mod 10)])"

declare show_nat.simps [simp del]

definition show_int :: "int \<Rightarrow> string" where
  "show_int i = (if i < 0 then CHR ''-'' # show_nat (nat (- i)) else show_nat (nat i))"

lemma digit_char_val [simp]: "d < 10 \<Longrightarrow> digit_val (digit_char d) = d"
  by (simp add: digit_val_def digit_char_def cc_def)

lemma digit_char_digit [simp]: "d < 10 \<Longrightarrow> is_ascii_digit (digit_char d)"
  by (simp add: is_ascii_digit_def digit_char_def cc_def)

lemma digits_to_nat_snoc [simp]: "digits_to_nat (s @ [c]) = 10 * digits_to_nat s + digit_val c"
  by (simp add: digits_to_nat_def)

lemma show_nat_digits: "list_all is_ascii_digit (show_nat n)"
proof (induction n rule: show_nat.induct)
  case (1 n)
  then show ?case by (subst show_nat.simps) auto
qed

lemma show_nat_ne [simp]: "show_nat n \<noteq> []"
  by (subst show_nat.simps) simp

text \<open>Printing a number and parsing the digits gives the number back.\<close>

lemma digits_to_nat_show_nat [simp]: "digits_to_nat (show_nat n) = n"
proof (induction n rule: show_nat.induct)
  case (1 n)
  show ?case
  proof (cases "n < 10")
    case True
    then show ?thesis by (subst show_nat.simps) (simp add: digits_to_nat_def)
  next
    case False
    with 1 show ?thesis by (subst show_nat.simps) simp
  qed
qed

lemma show_nat_inject [simp]: "show_nat a = show_nat b \<longleftrightarrow> a = b"
  by (metis digits_to_nat_show_nat)

lemma show_int_inject [simp]: "show_int a = show_int b \<longleftrightarrow> a = b"
proof
  have minus: "show_nat n \<noteq> CHR ''-'' # s" for s n
  proof
    assume "show_nat n = CHR ''-'' # s"
    then show False
      using show_nat_digits [of n] by (simp add: is_ascii_digit_def cc_def)
  qed
  assume "show_int a = show_int b"
  then show "a = b"
    using minus minus [symmetric] by (auto simp: show_int_def split: if_splits)
qed simp

text \<open>
  \<open>int(s)\<close> on a string of ASCII digits: CPython refuses more than 4300 digits with a
  \<open>ValueError\<close>, here \<open>None\<close>.
\<close>

definition py_int_max_digits :: nat where
  "py_int_max_digits = 4300"

definition is_ascii_decimal :: "string \<Rightarrow> bool" where
  "is_ascii_decimal s \<longleftrightarrow> s \<noteq> [] \<and> list_all is_ascii_digit s"

definition py_int_of_digits :: "string \<Rightarrow> int option" where
  "py_int_of_digits s =
     (if length s \<le> py_int_max_digits then Some (int (digits_to_nat s)) else None)"

lemma is_ascii_decimal_show_nat [simp]: "is_ascii_decimal (show_nat n)"
  by (simp add: is_ascii_decimal_def show_nat_digits)

text \<open>Python's \<open>round(x)\<close>: the nearest integer, the even one of two.\<close>

definition py_round :: "rat \<Rightarrow> int" where
  "py_round x =
     (let f = \<lfloor>x\<rfloor>; r = x - of_int f
      in if r < 1 / 2 then f else if r > 1 / 2 then f + 1 else if even f then f else f + 1)"

section \<open>Ordered selection\<close>

text \<open>
  \<open>ORDER BY key LIMIT 1\<close>: the least key, the first row of the table among equal keys (SQL
  leaves the choice among equal keys open). PostgreSQL sorts NULL last in ascending order;
  \<open>nulls_first\<close> is the other choice.
\<close>

definition first_by :: "('a \<Rightarrow> 'b::linorder) \<Rightarrow> 'a list \<Rightarrow> 'a option" where
  "first_by key xs = (case sort_key key xs of [] \<Rightarrow> None | x # _ \<Rightarrow> Some x)"

definition nulls_last :: "time option \<Rightarrow> nat \<times> time" where
  "nulls_last v = (case v of None \<Rightarrow> (1, 0) | Some t \<Rightarrow> (0, t))"

definition nulls_first :: "time option \<Rightarrow> nat \<times> time" where
  "nulls_first v = (case v of None \<Rightarrow> (0, 0) | Some t \<Rightarrow> (1, t))"

lemma first_by_None [simp]: "first_by key xs = None \<longleftrightarrow> xs = []"
  by (cases "sort_key key xs")
     (auto simp: first_by_def dest: arg_cong [where f = set])

lemma first_by_Some:
  assumes "first_by key xs = Some x"
  shows "x \<in> set xs" and "\<And>y. y \<in> set xs \<Longrightarrow> key x \<le> key y"
proof -
  from assms obtain ys where ys: "sort_key key xs = x # ys"
    by (auto simp: first_by_def split: list.splits)
  then have set_xs: "set xs = set (x # ys)"
    by (metis set_sort)
  then show "x \<in> set xs" by simp
  fix y assume "y \<in> set xs"
  moreover have "sorted (map key (x # ys))"
    by (metis sorted_sort_key ys)
  ultimately show "key x \<le> key y"
    using set_xs by auto
qed

text \<open>\<open>ORDER BY key LIMIT n\<close>\<close>

definition first_n_by :: "('a \<Rightarrow> 'b::linorder) \<Rightarrow> nat \<Rightarrow> 'a list \<Rightarrow> 'a list" where
  "first_n_by key n xs = take n (sort_key key xs)"

lemma set_first_n_by: "set (first_n_by key n xs) \<subseteq> set xs"
  by (metis first_n_by_def set_sort set_take_subset)

lemma length_first_n_by: "length (first_n_by key n xs) \<le> n"
  by (simp add: first_n_by_def)

lemma distinct_map_sort_key: "distinct (map f xs) \<Longrightarrow> distinct (map f (sort_key key xs))"
  by (simp add: distinct_map)

lemma distinct_first_n_by: "distinct (map f xs) \<Longrightarrow> distinct (map f (first_n_by key n xs))"
  by (simp add: first_n_by_def take_map [symmetric] distinct_map_sort_key)

section \<open>Splitting at a separator\<close>

text \<open>\<open>s.split(c)\<close> for a one-character separator.\<close>

fun split_at :: "char \<Rightarrow> string \<Rightarrow> string list" where
  "split_at c [] = [[]]"
| "split_at c (x # xs) = (if x = c then [] # split_at c xs
     else case split_at c xs of [] \<Rightarrow> [[x]] | y # ys \<Rightarrow> (x # y) # ys)"

lemma split_at_ne [simp]: "split_at c xs \<noteq> []"
  by (induction xs) (auto split: list.split)

lemma split_at_none: "c \<notin> set xs \<Longrightarrow> split_at c xs = [xs]"
  by (induction xs) auto

lemma split_at_append: "c \<notin> set xs \<Longrightarrow> split_at c (xs @ c # ys) = xs # split_at c ys"
  by (induction xs) auto

lemma split_at_three:
  "c \<notin> set x \<Longrightarrow> c \<notin> set y \<Longrightarrow> c \<notin> set z \<Longrightarrow> split_at c (x @ c # y @ c # z) = [x, y, z]"
  by (simp add: split_at_append split_at_none)

section \<open>Options\<close>

text \<open>Python's \<open>a or b\<close> for an optional value.\<close>

definition or_else :: "'a option \<Rightarrow> 'a option \<Rightarrow> 'a option" where
  "or_else a b = (case a of None \<Rightarrow> b | Some _ \<Rightarrow> a)"

text \<open>Python's \<open>or\<close> on optional strings skips the empty string too.\<close>

definition str_or :: "string option \<Rightarrow> string option \<Rightarrow> string option" where
  "str_or a b = (if a \<in> {None, Some []} then b else a)"

definition coalesce :: "'a option \<Rightarrow> 'a \<Rightarrow> 'a" where
  "coalesce a b = (case a of None \<Rightarrow> b | Some x \<Rightarrow> x)"

lemma coalesce_simps [simp]: "coalesce None b = b" "coalesce (Some a) b = a"
  by (simp_all add: coalesce_def)

lemma find_mem: "distinct (map f xs) \<Longrightarrow> x \<in> set xs \<Longrightarrow> find (\<lambda>y. f y = f x) xs = Some x"
proof (induction xs)
  case (Cons y ys)
  show ?case
  proof (cases "f y = f x")
    case True
    with Cons.prems have "y = x" by (force simp: image_iff)
    then show ?thesis by simp
  next
    case False
    with Cons.prems have "x \<in> set ys" by auto
    with Cons False show ?thesis by simp
  qed
qed simp

lemma find_SomeD:
  "find P xs = Some x \<Longrightarrow> x \<in> set xs \<and> P x"
  by (induction xs) (auto split: if_splits)

end
