(* ===== verification/Models.thy ===== *)
theory Models
  imports Prelude
begin

text \<open>
  The data model (\<open>app/models.py\<close>, \<open>app/reasons.py\<close>, \<open>app/exceptions.py\<close>, the fields of
  \<open>app/config.py\<close> the services read) and the database session.

  A table is the list of its rows in primary-key order. A session holds the committed
  database and its own working copy: \<open>commit\<close> publishes the working copy, \<open>rollback\<close> drops it.
  Sequences are outside both, as in PostgreSQL: an id drawn in a transaction that rolls back
  is not given out again. \<open>updated_at\<close> columns, which only reports print, are left out.
\<close>

section \<open>JSON values\<close>

text \<open>
  What \<open>json.loads\<close> returns and what event data holds. A float is a finite rational or
  (\<open>None\<close>) an infinity or NaN; \<open>JTime\<close> is the ISO text of an instant.
\<close>

datatype json =
    JNull
  | JBool bool
  | JInt int
  | JFloat "rat option"
  | JStr string
  | JTime time
  | JArr "json list"
  | JObj "(string \<times> json) list"

type_synonym jdict = "(string \<times> json) list"

text \<open>\<open>dict.get(key)\<close>: \<open>None\<close> for a missing key and for an explicit null.\<close>

definition jget :: "jdict \<Rightarrow> string \<Rightarrow> json" where
  "jget d k = coalesce (map_of d k) JNull"

fun py_truthy :: "json \<Rightarrow> bool" where
  "py_truthy JNull = False"
| "py_truthy (JBool b) = b"
| "py_truthy (JInt i) = (i \<noteq> 0)"
| "py_truthy (JFloat f) = (f \<noteq> Some 0)"
| "py_truthy (JStr s) = (s \<noteq> [])"
| "py_truthy (JTime t) = True"
| "py_truthy (JArr xs) = (xs \<noteq> [])"
| "py_truthy (JObj d) = (d \<noteq> [])"

definition jopt_str :: "string option \<Rightarrow> json" where
  "jopt_str v = (case v of None \<Rightarrow> JNull | Some s \<Rightarrow> JStr s)"

definition jopt_int :: "int option \<Rightarrow> json" where
  "jopt_int v = (case v of None \<Rightarrow> JNull | Some i \<Rightarrow> JInt i)"

section \<open>Enumerations\<close>

datatype payment_status =
    CREATED
  | LINK_CREATED
  | GETLINK_FAILED
  | GATEWAY_VERIFIED
  | BOT_NOTIFY_PENDING
  | BOT_NOTIFY_ACCEPTED
  | MANUAL_REVIEW

fun status_value :: "payment_status \<Rightarrow> string" where
  "status_value CREATED = ''created''"
| "status_value LINK_CREATED = ''link_created''"
| "status_value GETLINK_FAILED = ''getlink_failed''"
| "status_value GATEWAY_VERIFIED = ''gateway_verified''"
| "status_value BOT_NOTIFY_PENDING = ''bot_notify_pending''"
| "status_value BOT_NOTIFY_ACCEPTED = ''bot_notify_accepted''"
| "status_value MANUAL_REVIEW = ''manual_review''"

datatype reason_code =
    BOT_DNS_FAILED
  | BOT_CONNECTION_REFUSED
  | BOT_CONNECTION_FAILED
  | BOT_TIMEOUT_AMBIGUOUS
  | BOT_HTTP_400
  | BOT_HTTP_401
  | BOT_HTTP_403
  | BOT_HTTP_404
  | BOT_HTTP_409
  | BOT_HTTP_422
  | BOT_HTTP_429
  | BOT_HTTP_500
  | BOT_HTTP_502
  | BOT_HTTP_503
  | BOT_HTTP_504
  | BOT_HTTP_OTHER
  | BOT_INVALID_CONFIGURATION
  | BOT_ACCEPTED_REASON
  | MANUAL_REVIEW_REQUIRED
  | RETRY_LIMIT_REACHED

fun reason_value :: "reason_code \<Rightarrow> string" where
  "reason_value BOT_DNS_FAILED = ''bot_dns_failed''"
| "reason_value BOT_CONNECTION_REFUSED = ''bot_connection_refused''"
| "reason_value BOT_CONNECTION_FAILED = ''bot_connection_failed''"
| "reason_value BOT_TIMEOUT_AMBIGUOUS = ''bot_timeout_ambiguous''"
| "reason_value BOT_HTTP_400 = ''bot_http_400''"
| "reason_value BOT_HTTP_401 = ''bot_http_401''"
| "reason_value BOT_HTTP_403 = ''bot_http_403''"
| "reason_value BOT_HTTP_404 = ''bot_http_404''"
| "reason_value BOT_HTTP_409 = ''bot_http_409''"
| "reason_value BOT_HTTP_422 = ''bot_http_422''"
| "reason_value BOT_HTTP_429 = ''bot_http_429''"
| "reason_value BOT_HTTP_500 = ''bot_http_500''"
| "reason_value BOT_HTTP_502 = ''bot_http_502''"
| "reason_value BOT_HTTP_503 = ''bot_http_503''"
| "reason_value BOT_HTTP_504 = ''bot_http_504''"
| "reason_value BOT_HTTP_OTHER = ''bot_http_other''"
| "reason_value BOT_INVALID_CONFIGURATION = ''bot_invalid_configuration''"
| "reason_value BOT_ACCEPTED_REASON = ''bot_notify_accepted''"
| "reason_value MANUAL_REVIEW_REQUIRED = ''manual_review_required''"
| "reason_value RETRY_LIMIT_REACHED = ''retry_limit_reached''"

datatype identity_type = TELEGRAM_USER | ORDER_FALLBACK

datatype identity_scheme = TELEGRAM_RAW | ORDER_HMAC | HISTORICAL_HMAC

fun identity_type_value :: "identity_type \<Rightarrow> string" where
  "identity_type_value TELEGRAM_USER = ''telegram_user''"
| "identity_type_value ORDER_FALLBACK = ''order_fallback''"

fun identity_scheme_value :: "identity_scheme \<Rightarrow> string" where
  "identity_scheme_value TELEGRAM_RAW = ''telegram_raw_v1''"
| "identity_scheme_value ORDER_HMAC = ''order_hmac_v1''"
| "identity_scheme_value HISTORICAL_HMAC = ''historical_hmac_v1''"

datatype alert_status =
    AL_PENDING
  | AL_SENDING
  | AL_DELIVERED
  | AL_RETRY_SCHEDULED
  | AL_FAILED
  | AL_SUPPRESSED

fun alert_status_value :: "alert_status \<Rightarrow> string" where
  "alert_status_value AL_PENDING = ''pending''"
| "alert_status_value AL_SENDING = ''sending''"
| "alert_status_value AL_DELIVERED = ''delivered''"
| "alert_status_value AL_RETRY_SCHEDULED = ''retry_scheduled''"
| "alert_status_value AL_FAILED = ''failed''"
| "alert_status_value AL_SUPPRESSED = ''suppressed''"

section \<open>Rows\<close>

record fee_policy =
  fp_id :: int
  fp_rate_bps :: int
  fp_effective_at :: time
  fp_created_at :: time
  fp_created_by :: string
  fp_note :: string
  fp_cancelled_at :: "time option"
  fp_cancelled_by :: "string option"
  fp_cancellation_note :: "string option"

record payer_row =
  pi_id :: int
  pi_customer_key_hash :: string
  pi_gateway_user_id :: int
  pi_derivation_version :: int
  pi_identity_scheme :: identity_scheme
  pi_created_at :: time

record payment =
  p_id :: int
  p_bot_order_id :: string
  p_gateway_order_id :: int
  p_gateway_user_id :: int
  p_payer_identity_id :: "int option"
  p_payer_identity_type :: "identity_type option"
  p_payer_derivation_version :: "int option"
  p_amount :: int
  p_fee_policy_id :: "int option"
  p_fee_rate_bps :: int
  p_fee_amount :: int
  p_payable_amount :: int
  p_status :: payment_status
  p_redirect_url :: "string option"
  p_reference_id :: "string option"
  p_callback_token_hash :: "string option"
  p_callback_token_issued_at :: "time option"
  p_review_acknowledged_at :: "time option"
  p_review_resolved_at :: "time option"
  p_review_resolution :: "string option"
  p_attention_resolved_at :: "time option"
  p_attention_resolution :: "string option"
  p_attention_resolved_by :: "string option"
  p_attention_resolution_note :: "string option"
  p_card_last4 :: "string option"
  p_last_error :: "string option"
  p_gateway_verified_at :: "time option"
  p_bot_notify_reason :: "reason_code option"
  p_bot_notify_attempts :: int
  p_bot_last_http_status :: "int option"
  p_bot_last_error_code :: "string option"
  p_bot_notify_started_at :: "time option"
  p_bot_notify_accepted_at :: "time option"
  p_next_retry_at :: "time option"
  p_manual_review_at :: "time option"
  p_notification_claimed_at :: "time option"
  p_notification_claimed_by :: "string option"
  p_reconciliation_attempts :: int
  p_reconciliation_next_at :: "time option"
  p_reconciliation_last_at :: "time option"
  p_reconciliation_last_error_code :: "string option"
  p_reconciliation_claimed_at :: "time option"
  p_reconciliation_claimed_by :: "string option"
  p_created_at :: time

record admin_alert =
  al_id :: int
  al_alert_type :: string
  al_severity :: string
  al_payment_id :: "int option"
  al_deduplication_key :: "string option"
  al_payload :: jdict
  al_status :: alert_status
  al_attempts :: int
  al_next_retry_at :: "time option"
  al_claimed_at :: "time option"
  al_claimed_by :: "string option"
  al_delivered_at :: "time option"
  al_last_error_code :: "string option"
  al_created_at :: time

record payment_event =
  ev_id :: int
  ev_payment_id :: "int option"
  ev_event_type :: string
  ev_level :: string
  ev_request_id :: "string option"
  ev_data :: jdict
  ev_created_at :: time

section \<open>Settings\<close>

text \<open>The retry mode is a \<open>Literal\<close> of two strings.\<close>

datatype retry_mode = Safe | Idempotent

fun retry_mode_value :: "retry_mode \<Rightarrow> string" where
  "retry_mode_value Safe = ''safe''"
| "retry_mode_value Idempotent = ''idempotent''"

record settings =
  inbound_api_key :: string
  callback_hmac_secret :: string
  public_base_url :: string
  min_payment_amount_toman :: int
  max_payment_amount_toman :: int
  centralpay_user_id :: int
  centralpay_payer_id_secret :: string
  payment_creation_enabled :: bool
  bot_notify_retry_mode :: retry_mode
  bot_notify_max_attempts :: int
  bot_notify_claim_timeout_seconds :: rat
  reconciliation_enabled :: bool
  reconciliation_min_age_seconds :: int
  reconciliation_interval_seconds :: rat
  reconciliation_batch_size :: int
  reconciliation_slow_tier_reserved_slots :: int
  reconciliation_max_attempts :: int
  reconciliation_fast_window_seconds :: int
  reconciliation_fast_interval_seconds :: int
  reconciliation_slow_interval_seconds :: int
  reconciliation_max_age_seconds :: int
  reconciliation_initial_backoff_seconds :: int
  reconciliation_max_backoff_seconds :: int
  first_payment_guard_enabled :: bool
  admin_bot_enabled :: bool
  admin_bot_alerts_enabled :: bool
  admin_bot_payment_success_alerts :: bool
  admin_bot_error_alerts :: bool
  admin_bot_manual_review_alerts :: bool
  admin_bot_backup_alerts :: bool
  admin_bot_alert_dedup_minutes :: int
  admin_bot_alert_max_attempts :: int
  admin_bot_alert_claim_timeout_seconds :: rat

section \<open>Errors\<close>

text \<open>
  The exceptions of \<open>app/exceptions.py\<close>, each with its message where the code passes one.
  \<open>CentralPayError\<close> is the base of the three gateway failures.
\<close>

datatype centralpay_error =
    CentralPayConnectionError string
  | CentralPayRejectedError string
  | CentralPayInvalidResponseError string

datatype bridge_error =
    InvalidApiKeyError
  | AmountOutOfRangeError string
  | PayableAmountOutOfRangeError string
  | DuplicateOrderAmountMismatchError
  | OrderAlreadyVerifiedError
  | OrderUnderReviewError
  | InvalidCallbackSignatureError
  | InvalidCallbackTokenError
  | PaymentNotFoundError
  | VerificationFailedError
  | CentralPayError centralpay_error
  | RateLimitedError "int option"
  | GatewayOrderIdAllocationError
  | PaymentCreationDisabledError
  | PayerIdentityMisconfiguredError
  | PayerIdentityAllocationError
  | PayerIdentityCollisionError
  | DuplicateOrderCustomerMismatchError
  | PyValueError string

fun cp_code :: "centralpay_error \<Rightarrow> string" where
  "cp_code (CentralPayConnectionError _) = ''centralpay_connection_error''"
| "cp_code (CentralPayRejectedError _) = ''centralpay_rejected''"
| "cp_code (CentralPayInvalidResponseError _) = ''centralpay_invalid_response''"

fun cp_message :: "centralpay_error \<Rightarrow> string" where
  "cp_message (CentralPayConnectionError m) = m"
| "cp_message (CentralPayRejectedError m) = m"
| "cp_message (CentralPayInvalidResponseError m) = m"

section \<open>The database and the session\<close>

record alert_creation_policy =
  ap_payment_success_alerts :: bool
  ap_error_alerts :: bool
  ap_manual_review_alerts :: bool
  ap_backup_alerts :: bool
  ap_dedup_minutes :: int

record db =
  payments :: "payment list"
  fee_policies :: "fee_policy list"
  payer_identities :: "payer_row list"
  payment_events :: "payment_event list"
  admin_alerts :: "admin_alert list"

text \<open>
  \<open>clock\<close> is what \<open>utcnow()\<close> and the server's \<open>now()\<close> read, \<open>request_id\<close> the context variable
  audit events carry, \<open>alert_policy\<close> the process-wide \<open>_policy\<close> of \<open>app/adminbot/alerts.py\<close>.
  \<open>seq\<close> is the last id handed out by each sequence.
\<close>

record sequences =
  sq_payment :: int
  sq_policy :: int
  sq_identity :: int
  sq_event :: int
  sq_alert :: int

record session =
  durable :: db
  work :: db
  seq :: sequences
  clock :: time
  request_id :: "string option"
  alert_policy :: "alert_creation_policy option"

definition commit :: "session \<Rightarrow> session" where
  "commit s = s\<lparr>durable := work s\<rparr>"

definition rollback :: "session \<Rightarrow> session" where
  "rollback s = s\<lparr>work := durable s\<rparr>"

lemma commit_sel [simp]:
  "durable (commit s) = work s" "work (commit s) = work s" "seq (commit s) = seq s"
  "clock (commit s) = clock s" "alert_policy (commit s) = alert_policy s"
  "request_id (commit s) = request_id s"
  by (simp_all add: commit_def)

lemma rollback_sel [simp]:
  "durable (rollback s) = durable s" "work (rollback s) = durable s" "seq (rollback s) = seq s"
  "clock (rollback s) = clock s" "alert_policy (rollback s) = alert_policy s"
  "request_id (rollback s) = request_id s"
  by (simp_all add: rollback_def)

text \<open>
  The start of the next transaction of a session: the commits other sessions made meanwhile
  (\<open>f\<close>) are visible, uncommitted work of this one is gone.
\<close>

definition rollback_seeing :: "(db \<Rightarrow> db) \<Rightarrow> session \<Rightarrow> session" where
  "rollback_seeing f s = (let d = f (durable s) in s\<lparr>durable := d, work := d\<rparr>)"

lemma rollback_seeing_sel [simp]:
  "durable (rollback_seeing f s) = f (durable s)" "work (rollback_seeing f s) = f (durable s)"
  "seq (rollback_seeing f s) = seq s" "clock (rollback_seeing f s) = clock s"
  "alert_policy (rollback_seeing f s) = alert_policy s" "request_id (rollback_seeing f s) = request_id s"
  by (simp_all add: rollback_seeing_def Let_def)

section \<open>Keyed tables\<close>

text \<open>
  What every primary-key table promises its clients: a lookup after an UPDATE sees the new row
  under its own key and the old rows under the others, and no UPDATE adds, drops or reorders
  keys.
\<close>

locale keyed_table =
  fixes key :: "'r \<Rightarrow> int"
    and look :: "'r list \<Rightarrow> int \<Rightarrow> 'r option"
    and put :: "'r \<Rightarrow> 'r list \<Rightarrow> 'r list"
  assumes look_put: "look (put r xs) i = (if i = key r \<and> look xs i \<noteq> None then Some r else look xs i)"
    and keys_put: "map key (put r xs) = map key xs"
    and look_key: "look xs i = Some r \<Longrightarrow> r \<in> set xs \<and> key r = i"
    and look_mem: "distinct (map key xs) \<Longrightarrow> r \<in> set xs \<Longrightarrow> look xs (key r) = Some r"
begin

lemma look_put_same: "look xs (key r) \<noteq> None \<Longrightarrow> look (put r xs) (key r) = Some r"
  by (simp add: look_put)

lemma look_put_other: "i \<noteq> key r \<Longrightarrow> look (put r xs) i = look xs i"
  by (simp add: look_put)

lemma put_length: "length (put r xs) = length xs"
  using keys_put [of r xs] by (metis length_map)

lemma put_distinct: "distinct (map key xs) \<Longrightarrow> distinct (map key (put r xs))"
  by (simp add: keys_put)

lemma put_key_set: "key ` set (put r xs) = key ` set xs"
  using keys_put [of r xs] by (metis set_map)

lemma put_mem:
  assumes "distinct (map key xs)" and "r' \<in> set (put r xs)"
  shows "r' = r \<or> r' \<in> set xs \<and> key r' \<noteq> key r"
proof -
  have l: "look (put r xs) (key r') = Some r'"
    using assms by (simp add: look_mem put_distinct)
  show ?thesis
  proof (cases "key r' = key r")
    case True
    have "key r' \<in> key ` set xs"
      using assms(2) put_key_set by blast
    then obtain q where q: "q \<in> set xs" and kq: "key r' = key q" by (rule imageE)
    have "look xs (key r') = Some q"
      unfolding kq by (rule look_mem [OF assms(1) q])
    then have "look (put r xs) (key r') = Some r"
      unfolding look_put using True by simp
    with l have "r' = r" by simp
    then show ?thesis ..
  next
    case False
    have "look xs (key r') = Some r'"
      using l unfolding look_put_other [OF False] .
    with False show ?thesis using look_key by blast
  qed
qed

end

definition find_row :: "('r \<Rightarrow> int) \<Rightarrow> 'r list \<Rightarrow> int \<Rightarrow> 'r option" where
  "find_row key xs i = find (\<lambda>r. key r = i) xs"

definition put_row :: "('r \<Rightarrow> int) \<Rightarrow> 'r \<Rightarrow> 'r list \<Rightarrow> 'r list" where
  "put_row key r xs = map (\<lambda>q. if key q = key r then r else q) xs"

lemma find_row_Some: "find_row key xs i = Some r \<Longrightarrow> r \<in> set xs \<and> key r = i"
  by (auto simp: find_row_def dest: find_SomeD)

lemma find_row_mem: "distinct (map key xs) \<Longrightarrow> r \<in> set xs \<Longrightarrow> find_row key xs (key r) = Some r"
  unfolding find_row_def by (rule find_mem)

lemma find_row_None: "find_row key xs i = None \<longleftrightarrow> i \<notin> key ` set xs"
  by (induction xs) (auto simp: find_row_def)

lemma find_row_put_row:
  "find_row key (put_row key r xs) i =
     (if i = key r \<and> find_row key xs i \<noteq> None then Some r else find_row key xs i)"
  by (induction xs) (auto simp: find_row_def put_row_def)

lemma find_row_append:
  "find_row key (xs @ ys) i = (case find_row key xs i of None \<Rightarrow> find_row key ys i | Some r \<Rightarrow> Some r)"
  by (induction xs) (auto simp: find_row_def)

text \<open>
  Rows before and after an update, position by position: one row moves along \<open>R\<close>, the
  others stay.
\<close>

lemma put_row_list_all2:
  assumes "distinct (map key xs)" "find_row key xs i = Some p" "key p' = i" "R p p'" "\<And>q. R q q"
  shows "list_all2 R xs (put_row key p' xs)"
proof -
  have p: "p \<in> set xs" "key p = i" using find_row_Some [OF assms(2)] by auto
  have "R x (if key x = key p' then p' else x)" if "x \<in> set xs" for x
  proof (cases "key x = i")
    case True
    with that p assms(1) have "x = p" by (metis distinct_map inj_onD)
    then show ?thesis using assms(3,4) True by simp
  qed (use assms(3,5) in simp)
  then show ?thesis
    by (simp add: put_row_def list_all2_map2 list.rel_refl_strong)
qed

lemma put_row_put_row [simp]: "key p = key q \<Longrightarrow> put_row key p (put_row key q xs) = put_row key p xs"
  by (simp add: put_row_def)

lemma put_row_absent: "i \<notin> key ` set xs \<Longrightarrow> key p' = i \<Longrightarrow> put_row key p' xs = xs"
  unfolding put_row_def by (intro map_idI) (metis image_eqI)

section \<open>Table operations\<close>

definition payment_by_id :: "db \<Rightarrow> int \<Rightarrow> payment option" where
  "payment_by_id d i = find_row p_id (payments d) i"

definition payment_by_bot_order_id :: "db \<Rightarrow> string \<Rightarrow> payment option" where
  "payment_by_bot_order_id d b = find (\<lambda>p. p_bot_order_id p = b) (payments d)"

definition payment_by_gateway_order_id :: "db \<Rightarrow> int \<Rightarrow> payment option" where
  "payment_by_gateway_order_id d g = find (\<lambda>p. p_gateway_order_id p = g) (payments d)"

text \<open>Flushing the changed attributes of one payment object: an UPDATE of its row.\<close>

definition put_payment :: "session \<Rightarrow> payment \<Rightarrow> session" where
  "put_payment s p = s\<lparr>work := (work s)\<lparr>payments := put_row p_id p (payments (work s))\<rparr>\<rparr>"

text \<open>
  The CHECK constraints of \<open>payments\<close>. The one on the identity scope is the type
  \<open>identity_type\<close>.
\<close>

definition ck_payment :: "payment \<Rightarrow> bool" where
  "ck_payment p \<longleftrightarrow>
     p_amount p > 0
   \<and> p_bot_notify_attempts p \<ge> 0
   \<and> (0 \<le> p_fee_rate_bps p \<and> p_fee_rate_bps p \<le> 10000)
   \<and> p_fee_amount p \<ge> 0
   \<and> p_payable_amount p > 0
   \<and> p_payable_amount p = p_amount p + p_fee_amount p
   \<and> (p_status p \<notin> {BOT_NOTIFY_PENDING, BOT_NOTIFY_ACCEPTED} \<or> p_gateway_verified_at p \<noteq> None)
   \<and> ((p_attention_resolved_at p = None \<and> p_attention_resolution p = None
       \<and> p_attention_resolved_by p = None \<and> p_attention_resolution_note p = None)
      \<or> (p_attention_resolved_at p \<noteq> None \<and> p_attention_resolution p \<noteq> None
       \<and> p_attention_resolved_by p \<noteq> None \<and> p_attention_resolution_note p \<noteq> None))
   \<and> (p_attention_resolved_at p = None
      \<or> (p_attention_resolution p \<noteq> Some [] \<and> p_attention_resolved_by p \<noteq> Some []
         \<and> p_attention_resolution_note p \<noteq> Some []))"

text \<open>The unique columns: no two rows agree on one of them. NULL never conflicts.\<close>

definition payment_conflict :: "payment \<Rightarrow> payment \<Rightarrow> bool" where
  "payment_conflict p q \<longleftrightarrow>
     p_bot_order_id p = p_bot_order_id q
   \<or> p_gateway_order_id p = p_gateway_order_id q
   \<or> (p_reference_id p \<noteq> None \<and> p_reference_id p = p_reference_id q)"

text \<open>
  \<open>db.add(payment); db.flush()\<close>: the row with the next id, or (\<open>None\<close>) an
  \<open>IntegrityError\<close>; the sequence advances either way.
\<close>

definition insert_payment :: "session \<Rightarrow> payment \<Rightarrow> session \<times> payment option" where
  "insert_payment s p =
     (let i = sq_payment (seq s) + 1;
          p' = p\<lparr>p_id := i, p_created_at := clock s\<rparr>;
          s1 = s\<lparr>seq := (seq s)\<lparr>sq_payment := i\<rparr>\<rparr>
      in if ck_payment p' \<and> \<not> list_ex (payment_conflict p') (payments (work s))
         then (s1\<lparr>work := (work s)\<lparr>payments := payments (work s) @ [p']\<rparr>\<rparr>, Some p')
         else (s1, None))"

lemma keyed_table_rows: "keyed_table key (find_row key) (put_row key)"
proof
  show "find_row key (put_row key r xs) i =
      (if i = key r \<and> find_row key xs i \<noteq> None then Some r else find_row key xs i)" for r xs i
    by (rule find_row_put_row)
  show "map key (put_row key r xs) = map key xs" for r xs
    by (simp add: put_row_def)
  show "find_row key xs i = Some r \<Longrightarrow> r \<in> set xs \<and> key r = i" for xs i r
    by (rule find_row_Some)
  show "distinct (map key xs) \<Longrightarrow> r \<in> set xs \<Longrightarrow> find_row key xs (key r) = Some r" for xs r
    by (rule find_row_mem)
qed

interpretation payment_table: keyed_table p_id "find_row p_id" "put_row p_id"
  by (rule keyed_table_rows)

interpretation alert_table: keyed_table al_id "find_row al_id" "put_row al_id"
  by (rule keyed_table_rows)

interpretation policy_table: keyed_table fp_id "find_row fp_id" "put_row fp_id"
  by (rule keyed_table_rows)

lemma put_payment_sel [simp]:
  "durable (put_payment s p) = durable s" "seq (put_payment s p) = seq s"
  "clock (put_payment s p) = clock s" "alert_policy (put_payment s p) = alert_policy s"
  "request_id (put_payment s p) = request_id s"
  "payments (work (put_payment s p)) = put_row p_id p (payments (work s))"
  "fee_policies (work (put_payment s p)) = fee_policies (work s)"
  "payer_identities (work (put_payment s p)) = payer_identities (work s)"
  "payment_events (work (put_payment s p)) = payment_events (work s)"
  "admin_alerts (work (put_payment s p)) = admin_alerts (work s)"
  by (simp_all add: put_payment_def)

section \<open>What delivery and bookkeeping must not touch\<close>

text \<open>
  \<open>financial_eq\<close>: two versions of a row agree on its identity, its amounts, its payer, its link,
  the settlement facts and the operator's attention marks.
\<close>

definition financial_eq :: "payment \<Rightarrow> payment \<Rightarrow> bool" where
  "financial_eq p q \<longleftrightarrow>
     p_id p = p_id q \<and> p_bot_order_id p = p_bot_order_id q \<and> p_gateway_order_id p = p_gateway_order_id q
   \<and> p_gateway_user_id p = p_gateway_user_id q \<and> p_payer_identity_id p = p_payer_identity_id q
   \<and> p_amount p = p_amount q \<and> p_fee_policy_id p = p_fee_policy_id q \<and> p_fee_rate_bps p = p_fee_rate_bps q
   \<and> p_fee_amount p = p_fee_amount q \<and> p_payable_amount p = p_payable_amount q
   \<and> p_reference_id p = p_reference_id q \<and> p_gateway_verified_at p = p_gateway_verified_at q
   \<and> p_card_last4 p = p_card_last4 q \<and> p_callback_token_hash p = p_callback_token_hash q
   \<and> p_created_at p = p_created_at q \<and> p_redirect_url p = p_redirect_url q
   \<and> p_callback_token_issued_at p = p_callback_token_issued_at q
   \<and> p_payer_identity_type p = p_payer_identity_type q
   \<and> p_payer_derivation_version p = p_payer_derivation_version q
   \<and> p_attention_resolved_at p = p_attention_resolved_at q \<and> p_attention_resolution p = p_attention_resolution q
   \<and> p_attention_resolved_by p = p_attention_resolved_by q
   \<and> p_attention_resolution_note p = p_attention_resolution_note q"

lemma financial_eq_refl [simp, intro]: "financial_eq p p"
  by (simp add: financial_eq_def)

lemma financial_eq_trans [trans]: "financial_eq p q \<Longrightarrow> financial_eq q r \<Longrightarrow> financial_eq p r"
  by (simp add: financial_eq_def)

lemma list_all2_id_map: "list_all2 R xs ys \<Longrightarrow> (\<And>p q. R p q \<Longrightarrow> f p = f q) \<Longrightarrow> map f ys = map f xs"
  by (induction rule: list_all2_induct) auto

section \<open>Concrete states\<close>

text \<open>An empty database, a session on it and one row of each kind, for the concrete runs.\<close>

definition empty_db :: db where
  "empty_db = \<lparr>payments = [], fee_policies = [], payer_identities = [], payment_events = [], admin_alerts = []\<rparr>"

definition new_session :: "db \<Rightarrow> time \<Rightarrow> session" where
  "new_session d t =
     \<lparr>durable = d, work = d,
      seq = \<lparr>sq_payment = 100, sq_policy = 100, sq_identity = 100, sq_event = 0, sq_alert = 0\<rparr>,
      clock = t, request_id = None, alert_policy = None\<rparr>"

definition demo_payment :: "int \<Rightarrow> string \<Rightarrow> payment" where
  "demo_payment i b =
     \<lparr>p_id = i, p_bot_order_id = b, p_gateway_order_id = 1000000 + i, p_gateway_user_id = 777,
      p_payer_identity_id = None, p_payer_identity_type = None, p_payer_derivation_version = None,
      p_amount = 50000, p_fee_policy_id = None, p_fee_rate_bps = 0, p_fee_amount = 0,
      p_payable_amount = 50000, p_status = LINK_CREATED, p_redirect_url = None, p_reference_id = None,
      p_callback_token_hash = None, p_callback_token_issued_at = None,
      p_review_acknowledged_at = None, p_review_resolved_at = None, p_review_resolution = None,
      p_attention_resolved_at = None, p_attention_resolution = None, p_attention_resolved_by = None,
      p_attention_resolution_note = None, p_card_last4 = None, p_last_error = None,
      p_gateway_verified_at = None, p_bot_notify_reason = None, p_bot_notify_attempts = 0,
      p_bot_last_http_status = None, p_bot_last_error_code = None, p_bot_notify_started_at = None,
      p_bot_notify_accepted_at = None, p_next_retry_at = None, p_manual_review_at = None,
      p_notification_claimed_at = None, p_notification_claimed_by = None,
      p_reconciliation_attempts = 0, p_reconciliation_next_at = None, p_reconciliation_last_at = None,
      p_reconciliation_last_error_code = None, p_reconciliation_claimed_at = None,
      p_reconciliation_claimed_by = None, p_created_at = 0\<rparr>"

definition demo_settings :: settings where
  "demo_settings =
     \<lparr>inbound_api_key = ''k'', callback_hmac_secret = ''s'', public_base_url = ''https://me'',
      min_payment_amount_toman = 1000, max_payment_amount_toman = 100000000, centralpay_user_id = 777,
      centralpay_payer_id_secret = ''p'', payment_creation_enabled = True, bot_notify_retry_mode = Safe,
      bot_notify_max_attempts = 6, bot_notify_claim_timeout_seconds = 120, reconciliation_enabled = True,
      reconciliation_min_age_seconds = 120, reconciliation_interval_seconds = 30,
      reconciliation_batch_size = 10, reconciliation_slow_tier_reserved_slots = 2,
      reconciliation_max_attempts = 20, reconciliation_fast_window_seconds = 3600,
      reconciliation_fast_interval_seconds = 60, reconciliation_slow_interval_seconds = 3600,
      reconciliation_max_age_seconds = 86400, reconciliation_initial_backoff_seconds = 60,
      reconciliation_max_backoff_seconds = 3600, first_payment_guard_enabled = False,
      admin_bot_enabled = False, admin_bot_alerts_enabled = False, admin_bot_payment_success_alerts = False,
      admin_bot_error_alerts = False, admin_bot_manual_review_alerts = False, admin_bot_backup_alerts = False,
      admin_bot_alert_dedup_minutes = 30, admin_bot_alert_max_attempts = 5,
      admin_bot_alert_claim_timeout_seconds = 120\<rparr>"

end
