(* ===== verification/Audit_Trail.thy ===== *)
theory Audit_Trail
  imports Models
begin

text \<open>
  The append-only audit trail (\<open>app/audit.py\<close>) and the creation side of the administrator
  alert outbox (\<open>app/adminbot/alerts.py\<close>), which \<open>record_event\<close> calls in the caller's
  transaction.

  In the source the two call each other: \<open>create_alert\<close> records \<open>admin_alert_created\<close>, whose own
  hook maps to no alert. The model gives \<open>create_alert\<close> the event insertion without the hook and
  proves (\<open>create_alert_unfold\<close>) that the hook would have done nothing.
\<close>

section \<open>Inserting an event\<close>

definition audit_levels :: "string list" where
  "audit_levels = [''debug'', ''info'', ''warning'', ''error'', ''critical'']"

definition insert_event :: "session \<Rightarrow> int option \<Rightarrow> string \<Rightarrow> string \<Rightarrow> jdict \<Rightarrow> session" where
  "insert_event s pid event_type level data =
     (let i = sq_event (seq s) + 1;
          lv = (if level \<in> set audit_levels then level else ''info'');
          e = \<lparr>ev_id = i, ev_payment_id = pid, ev_event_type = event_type, ev_level = lv,
               ev_request_id = request_id s, ev_data = data, ev_created_at = clock s\<rparr>
      in s\<lparr>seq := (seq s)\<lparr>sq_event := i\<rparr>,
           work := (work s)\<lparr>payment_events := payment_events (work s) @ [e]\<rparr>\<rparr>)"

section \<open>Creating an alert\<close>

definition configure_alert_creation :: "settings \<Rightarrow> session \<Rightarrow> session" where
  "configure_alert_creation cfg s =
     (if \<not> admin_bot_enabled cfg \<or> \<not> admin_bot_alerts_enabled cfg then s\<lparr>alert_policy := None\<rparr>
      else s\<lparr>alert_policy := Some
        \<lparr>ap_payment_success_alerts = admin_bot_payment_success_alerts cfg,
         ap_error_alerts = admin_bot_error_alerts cfg,
         ap_manual_review_alerts = admin_bot_manual_review_alerts cfg,
         ap_backup_alerts = admin_bot_backup_alerts cfg,
         ap_dedup_minutes = admin_bot_alert_dedup_minutes cfg\<rparr>\<rparr>)"

definition alert_duplicate :: "admin_alert list \<Rightarrow> string \<Rightarrow> time \<Rightarrow> bool" where
  "alert_duplicate als k cutoff \<longleftrightarrow>
     list_ex (\<lambda>a. al_deduplication_key a = Some k \<and> al_created_at a \<ge> cutoff
                \<and> al_status a \<noteq> AL_SUPPRESSED) als"

definition new_alert_status ::
  "session \<Rightarrow> string option \<Rightarrow> int option \<Rightarrow> time \<Rightarrow> alert_status" where
  "new_alert_status s dedup dedup_minutes now =
     (case dedup of
        None \<Rightarrow> AL_PENDING
      | Some k \<Rightarrow>
          (let window = (case dedup_minutes of
                           Some m \<Rightarrow> m
                         | None \<Rightarrow> (case alert_policy s of Some pol \<Rightarrow> ap_dedup_minutes pol | None \<Rightarrow> 30));
               cutoff = now - of_int (60 * window)
           in if alert_duplicate (admin_alerts (work s)) k cutoff then AL_SUPPRESSED else AL_PENDING))"

text \<open>
  \<open>record\<close> is the function that records \<open>admin_alert_created\<close>: \<open>record_event\<close> in the source,
  \<open>insert_event\<close> in \<open>create_alert\<close> below.
\<close>

definition create_alert_with ::
  "(session \<Rightarrow> int option \<Rightarrow> string \<Rightarrow> string \<Rightarrow> jdict \<Rightarrow> session) \<Rightarrow>
   session \<Rightarrow> string \<Rightarrow> string \<Rightarrow> int option \<Rightarrow> string option \<Rightarrow> jdict \<Rightarrow> int option \<Rightarrow> time \<Rightarrow>
   session \<times> admin_alert" where
  "create_alert_with record s alert_type severity pid dedup payload dedup_minutes now =
     (let st = new_alert_status s dedup dedup_minutes now;
          i = sq_alert (seq s) + 1;
          a = \<lparr>al_id = i, al_alert_type = alert_type, al_severity = severity, al_payment_id = pid,
               al_deduplication_key = dedup, al_payload = payload, al_status = st, al_attempts = 0,
               al_next_retry_at = (if st = AL_PENDING then Some now else None),
               al_claimed_at = None, al_claimed_by = None, al_delivered_at = None,
               al_last_error_code = None, al_created_at = now\<rparr>;
          s1 = s\<lparr>seq := (seq s)\<lparr>sq_alert := i\<rparr>,
                 work := (work s)\<lparr>admin_alerts := admin_alerts (work s) @ [a]\<rparr>\<rparr>
      in (record s1 pid ''admin_alert_created'' ''info''
            [(''alert_id'', JInt i), (''alert_type'', JStr alert_type),
             (''status'', JStr (alert_status_value st))], a))"

definition create_alert ::
  "session \<Rightarrow> string \<Rightarrow> string \<Rightarrow> int option \<Rightarrow> string option \<Rightarrow> jdict \<Rightarrow> int option \<Rightarrow> time \<Rightarrow>
   session \<times> admin_alert" where
  "create_alert = create_alert_with insert_event"

section \<open>Mapping an event to an alert\<close>

definition mismatch_reasons :: "string list" where
  "mismatch_reasons =
     [''verify_payable_amount_mismatch'', ''verify_user_id_mismatch'',
      ''verify_missing_reference_id'', ''verify_invalid_reference_id'']"

text \<open>\<open>str(data.get("reason", ""))\<close>; every writer of \<open>manual_review_required\<close> stores a string.\<close>

definition reason_text :: "jdict \<Rightarrow> string" where
  "reason_text data = (case map_of data ''reason'' of Some (JStr r) \<Rightarrow> r | _ \<Rightarrow> [])"

definition show_opt_int :: "int option \<Rightarrow> string" where
  "show_opt_int v = (case v of None \<Rightarrow> ''None'' | Some i \<Rightarrow> show_int i)"

definition drop_key :: "string \<Rightarrow> jdict \<Rightarrow> jdict" where
  "drop_key k d = filter (\<lambda>(k', _). k' \<noteq> k) d"

definition map_event ::
  "session \<Rightarrow> alert_creation_policy \<Rightarrow> string \<Rightarrow> int option \<Rightarrow> jdict \<Rightarrow> session" where
  "map_event s pol event_type pid data =
     (let alert = (\<lambda>ty sev pid dedup payload. fst (create_alert s ty sev pid dedup payload None (clock s)))
      in if event_type \<in> {''gateway_payment_verified'', ''bot_notification_accepted''} then
           (if ap_payment_success_alerts pol
            then alert (if event_type = ''gateway_payment_verified'' then ''gateway_payment_verified''
                        else ''bot_notify_accepted'') ''info'' pid None data
            else s)
         else if event_type \<in> set mismatch_reasons
              \<or> event_type \<in> {''reference_id_collision'', ''first_production_payment_verified''} then
           alert event_type ''critical'' pid None data
         else if event_type = ''manual_review_required'' then
           (if \<not> ap_manual_review_alerts pol then s
            else let reason = reason_text data
                 in if reason \<in> set mismatch_reasons then s
                    else alert (if reason \<in> {''retry_limit_reached'', ''bot_timeout_ambiguous''}
                                then reason else ''manual_review_required'')
                           ''critical'' pid None data)
         else if event_type \<in> {''centralpay_getlink_failed'', ''centralpay_verify_failed''} then
           (if ap_error_alerts pol
            then alert event_type ''warning'' pid
                   (Some (event_type @ '':'' @ show_opt_int pid)) (drop_key ''reason'' data)
            else s)
         else if event_type = ''reconciliation_exhausted'' then
           (if ap_error_alerts pol
            then alert ''reconciliation_exhausted'' ''error'' pid
                   (Some (''reconciliation_exhausted:'' @ show_opt_int pid)) (drop_key ''worker_id'' data)
            else s)
         else if event_type = ''notification_recovered_after_restart'' then
           (if ap_error_alerts pol
            then alert ''notification_recovered_after_restart'' ''warning'' pid
                   (Some (''worker_recovery:'' @ show_opt_int pid)) data
            else s)
         else if event_type \<in> {''backup_succeeded'', ''backup_failed''} \<and> ap_backup_alerts pol then
           alert event_type (if event_type = ''backup_succeeded'' then ''info'' else ''error'') None None data
         else s)"

definition on_audit_event :: "session \<Rightarrow> string \<Rightarrow> int option \<Rightarrow> jdict \<Rightarrow> session" where
  "on_audit_event s event_type pid data =
     (case alert_policy s of None \<Rightarrow> s | Some pol \<Rightarrow> map_event s pol event_type pid data)"

definition record_event :: "session \<Rightarrow> int option \<Rightarrow> string \<Rightarrow> string \<Rightarrow> jdict \<Rightarrow> session" where
  "record_event s pid event_type level data =
     on_audit_event (insert_event s pid event_type level data) event_type pid data"

section \<open>The alert hook of an alert's own event does nothing\<close>

lemma map_event_admin_alert_created [simp]: "map_event s pol ''admin_alert_created'' pid data = s"
  by (simp add: map_event_def mismatch_reasons_def)

lemma record_event_admin_alert_created:
  "record_event s pid ''admin_alert_created'' lv data = insert_event s pid ''admin_alert_created'' lv data"
  by (simp add: record_event_def on_audit_event_def split: option.split)

lemma create_alert_unfold: "create_alert = create_alert_with record_event"
  by (intro ext) (simp add: create_alert_def create_alert_with_def record_event_admin_alert_created)

section \<open>What recording leaves alone\<close>

text \<open>
  Recording touches the event table, the alert outbox and their two sequences. \<open>quiet s s'\<close>
  collects that: everything else is equal, both tables only grow.
\<close>

definition grows :: "'a list \<Rightarrow> 'a list \<Rightarrow> bool" where
  "grows xs ys \<longleftrightarrow> (\<exists>zs. ys = xs @ zs)"

definition quiet :: "session \<Rightarrow> session \<Rightarrow> bool" where
  "quiet s s' \<longleftrightarrow>
     durable s' = durable s \<and> clock s' = clock s \<and> request_id s' = request_id s
   \<and> alert_policy s' = alert_policy s
   \<and> payments (work s') = payments (work s) \<and> fee_policies (work s') = fee_policies (work s)
   \<and> payer_identities (work s') = payer_identities (work s)
   \<and> sq_payment (seq s') = sq_payment (seq s) \<and> sq_policy (seq s') = sq_policy (seq s)
   \<and> sq_identity (seq s') = sq_identity (seq s)
   \<and> grows (payment_events (work s)) (payment_events (work s'))
   \<and> grows (admin_alerts (work s)) (admin_alerts (work s'))"

lemma grows_refl [simp, intro]: "grows xs xs"
  by (simp add: grows_def)

lemma grows_append [simp, intro]: "grows xs (xs @ ys)"
  by (simp add: grows_def)

lemma grows_trans [trans]: "grows xs ys \<Longrightarrow> grows ys zs \<Longrightarrow> grows xs zs"
  by (auto simp: grows_def)

lemma grows_mem: "grows xs ys \<Longrightarrow> x \<in> set xs \<Longrightarrow> x \<in> set ys"
  by (auto simp: grows_def)

lemma quiet_refl [simp, intro]: "quiet s s"
  by (simp add: quiet_def)

lemma quiet_trans [trans]: "quiet s t \<Longrightarrow> quiet t u \<Longrightarrow> quiet s u"
  by (auto simp: quiet_def intro: grows_trans)

lemma quiet_insert_event: "quiet s (insert_event s pid ty lv d)"
  by (simp add: quiet_def insert_event_def Let_def)

lemma quiet_create_alert: "quiet s (fst (create_alert s ty sev pid k pl m now))"
proof -
  have "quiet s (s\<lparr>seq := (seq s)\<lparr>sq_alert := i\<rparr>,
                   work := (work s)\<lparr>admin_alerts := admin_alerts (work s) @ [a]\<rparr>\<rparr>)" for i a
    by (simp add: quiet_def)
  then show ?thesis
    unfolding create_alert_def create_alert_with_def Let_def fst_conv
    by (blast intro: quiet_trans quiet_insert_event)
qed

lemma quiet_map_event: "quiet s (map_event s pol ty pid d)"
  by (simp add: map_event_def Let_def quiet_create_alert)

lemma quiet_record_event [intro]: "quiet s (record_event s pid ty lv d)"
  unfolding record_event_def on_audit_event_def
  by (auto intro: quiet_trans quiet_insert_event quiet_map_event split: option.split)

lemma record_event_sel [simp, frame_simps]:
  "durable (record_event s pid ty lv d) = durable s"
  "clock (record_event s pid ty lv d) = clock s"
  "request_id (record_event s pid ty lv d) = request_id s"
  "alert_policy (record_event s pid ty lv d) = alert_policy s"
  "payments (work (record_event s pid ty lv d)) = payments (work s)"
  "fee_policies (work (record_event s pid ty lv d)) = fee_policies (work s)"
  "payer_identities (work (record_event s pid ty lv d)) = payer_identities (work s)"
  "sq_payment (seq (record_event s pid ty lv d)) = sq_payment (seq s)"
  "sq_policy (seq (record_event s pid ty lv d)) = sq_policy (seq s)"
  "sq_identity (seq (record_event s pid ty lv d)) = sq_identity (seq s)"
  using quiet_record_event [of s pid ty lv d] by (simp_all add: quiet_def)

lemma record_event_grows [intro]:
  "grows (payment_events (work s)) (payment_events (work (record_event s pid ty lv d)))"
  using quiet_record_event [of s pid ty lv d] by (simp add: quiet_def)

lemma create_alert_sel [simp, frame_simps]:
  "durable (fst (create_alert s ty sev pid k pl m now)) = durable s"
  "payments (work (fst (create_alert s ty sev pid k pl m now))) = payments (work s)"
  using quiet_create_alert [of s ty sev pid k pl m now] by (simp_all add: quiet_def)

section \<open>The recorded event is in the trail\<close>

text \<open>\<open>has_event s pid ty\<close>: the working copy holds an event of that type for that payment.\<close>

definition has_event :: "session \<Rightarrow> int option \<Rightarrow> string \<Rightarrow> bool" where
  "has_event s pid ty \<longleftrightarrow>
     list_ex (\<lambda>e. ev_payment_id e = pid \<and> ev_event_type e = ty) (payment_events (work s))"

lemma has_event_grows:
  "has_event s pid ty \<Longrightarrow> grows (payment_events (work s)) (payment_events (work t)) \<Longrightarrow> has_event t pid ty"
  by (auto simp: has_event_def list_ex_iff intro: grows_mem)

lemma has_event_insert: "has_event (insert_event s pid ty lv d) pid ty"
  by (simp add: has_event_def insert_event_def Let_def)

lemma has_event_record [simp, intro]: "has_event (record_event s pid ty lv d) pid ty"
proof -
  have "quiet (insert_event s pid ty lv d) (record_event s pid ty lv d)"
    by (auto simp: record_event_def on_audit_event_def quiet_map_event split: option.split)
  then have "grows (payment_events (work (insert_event s pid ty lv d)))
      (payment_events (work (record_event s pid ty lv d)))"
    by (simp add: quiet_def)
  then show ?thesis by (rule has_event_grows [OF has_event_insert])
qed

lemma has_event_record_mono: "has_event s pid ty \<Longrightarrow> has_event (record_event s pid' ty' lv d) pid ty"
  by (blast intro: has_event_grows)

lemma has_event_commit [simp]: "has_event (commit s) pid ty = has_event s pid ty"
  by (simp add: has_event_def)

lemma has_event_put [simp]: "has_event (put_payment s p) pid ty = has_event s pid ty"
  by (simp add: has_event_def)

end
