(* ===== verification/Fees.thy ===== *)
theory Fees
  imports Audit_Trail
begin

text \<open>
  The dynamic service fee (\<open>app/services/fees.py\<close>): the integer fee calculation, the operator's
  percentage syntax, the time-based selection of the policy in force, and the two operations on
  the append-only policy table. Shown: the fee is the exact amount rounded half up and stays
  between zero and the amount; parsing inverts printing; selection takes the newest policy in
  force; cancelling a policy never changes the rate in force.
\<close>

definition MAX_RATE_BPS :: int where
  "MAX_RATE_BPS = 10000"

definition NOTE_MAX_LENGTH :: nat where
  "NOTE_MAX_LENGTH = 500"

section \<open>Operations\<close>

definition calculate_fee :: "int \<Rightarrow> int \<Rightarrow> bridge_error + int \<times> int" where
  "calculate_fee amount rate_bps =
     (if amount \<le> 0 then Inl (PyValueError ''amount must be positive'')
      else if \<not> (0 \<le> rate_bps \<and> rate_bps \<le> MAX_RATE_BPS)
        then Inl (PyValueError ''rate_bps must be within 0..10000'')
      else let fee_amount = (amount * rate_bps + 5000) div 10000
           in Inr (fee_amount, amount + fee_amount))"

text \<open>The pattern \<open>^(\d{1,3})(?:\.(\d{1,2}))?\Z\<close>: the whole part and the decimals, if any.\<close>

definition match_rate :: "string \<Rightarrow> (string \<times> string) option" where
  "match_rate v =
     (let whole = takeWhile is_ascii_digit v; rest = dropWhile is_ascii_digit v
      in if \<not> (1 \<le> length whole \<and> length whole \<le> 3) then None
         else case rest of
                [] \<Rightarrow> Some (whole, [])
              | c # ds \<Rightarrow> if c = CHR ''.'' \<and> list_all is_ascii_digit ds \<and> 1 \<le> length ds \<and> length ds \<le> 2
                          then Some (whole, ds) else None)"

definition parse_rate_percent :: "string \<Rightarrow> bridge_error + int" where
  "parse_rate_percent v =
     (case match_rate v of
        None \<Rightarrow> Inl (PyValueError ''invalid fee rate: use 0..100 with at most two decimal places (e.g. 10 or 7.5)'')
      | Some (whole, decimals) \<Rightarrow>
          (let bps = int (digits_to_nat whole) * 100 + int (digits_to_nat (take 2 (decimals @ ''00'')))
           in if bps > MAX_RATE_BPS then Inl (PyValueError ''fee rate cannot exceed 100'') else Inr bps))"

definition rstrip_zeros :: "string \<Rightarrow> string" where
  "rstrip_zeros s = rev (dropWhile (\<lambda>c. c = CHR ''0'') (rev s))"

definition pad2 :: "nat \<Rightarrow> string" where
  "pad2 n = (if n < 10 then CHR ''0'' # show_nat n else show_nat n)"

definition format_rate_percent :: "int \<Rightarrow> string" where
  "format_rate_percent rate_bps =
     (let whole = rate_bps div 100; frac = rate_bps mod 100
      in if frac = 0 then show_int whole @ ''%''
         else rstrip_zeros (show_int whole @ ''.'' @ pad2 (nat frac)) @ ''%'')"

definition select_effective_policy :: "db \<Rightarrow> time \<Rightarrow> fee_policy option" where
  "select_effective_policy d now =
     first_by (\<lambda>f. (- fp_effective_at f, - fp_id f))
       (filter (\<lambda>f. fp_effective_at f \<le> now \<and> fp_cancelled_at f = None) (fee_policies d))"

definition next_scheduled_policy :: "db \<Rightarrow> time \<Rightarrow> fee_policy option" where
  "next_scheduled_policy d now =
     first_by (\<lambda>f. (fp_effective_at f, fp_id f))
       (filter (\<lambda>f. fp_effective_at f > now \<and> fp_cancelled_at f = None) (fee_policies d))"

definition validate_note :: "string \<Rightarrow> bridge_error + string" where
  "validate_note note =
     (let n = strip note
      in if n = [] then Inl (PyValueError ''a non-empty --note is required'')
         else if length n > NOTE_MAX_LENGTH then Inl (PyValueError ''note must be at most 500 characters'')
         else Inr n)"

definition policy_event_data :: "fee_policy \<Rightarrow> string \<Rightarrow> string \<Rightarrow> jdict" where
  "policy_event_data f actor note =
     [(''policy_id'', JInt (fp_id f)), (''rate_bps'', JInt (fp_rate_bps f)),
      (''effective_at'', JTime (fp_effective_at f)), (''actor'', JStr actor), (''note'', JStr note)]"

text \<open>
  \<open>tz_aware\<close> says whether \<open>effective_at\<close> carries a timezone; a naive value is refused. The
  caller commits.
\<close>

definition create_policy ::
  "session \<Rightarrow> int \<Rightarrow> bool \<Rightarrow> time \<Rightarrow> string \<Rightarrow> string \<Rightarrow> bool \<Rightarrow> session \<times> (bridge_error + fee_policy)" where
  "create_policy s rate_bps tz_aware effective_at actor note scheduled =
     (if \<not> (0 \<le> rate_bps \<and> rate_bps \<le> MAX_RATE_BPS)
        then (s, Inl (PyValueError ''rate_bps must be within 0..10000''))
      else if \<not> tz_aware then (s, Inl (PyValueError ''effective_at must carry an explicit timezone''))
      else case validate_note note of
             Inl e \<Rightarrow> (s, Inl e)
           | Inr n \<Rightarrow>
               (let i = sq_policy (seq s) + 1;
                    f = \<lparr>fp_id = i, fp_rate_bps = rate_bps, fp_effective_at = effective_at,
                         fp_created_at = clock s, fp_created_by = actor, fp_note = n,
                         fp_cancelled_at = None, fp_cancelled_by = None, fp_cancellation_note = None\<rparr>;
                    s1 = s\<lparr>seq := (seq s)\<lparr>sq_policy := i\<rparr>,
                           work := (work s)\<lparr>fee_policies := fee_policies (work s) @ [f]\<rparr>\<rparr>
                in (record_event s1 None (if scheduled then ''fee_policy_scheduled'' else ''fee_policy_created'')
                      ''info'' (policy_event_data f actor n), Inr f)))"

definition cancel_policy ::
  "session \<Rightarrow> int \<Rightarrow> string \<Rightarrow> string \<Rightarrow> time \<Rightarrow> session \<times> (bridge_error + fee_policy)" where
  "cancel_policy s policy_id actor note now =
     (case validate_note note of
        Inl e \<Rightarrow> (s, Inl e)
      | Inr n \<Rightarrow>
          (case find_row fp_id (fee_policies (work s)) policy_id of
             None \<Rightarrow> (s, Inl (PyValueError (''fee policy '' @ show_int policy_id @ '' does not exist'')))
           | Some f \<Rightarrow>
               if fp_cancelled_at f \<noteq> None
               then (s, Inl (PyValueError (''fee policy '' @ show_int policy_id @ '' is already cancelled'')))
               else if fp_effective_at f \<le> now
               then (s, Inl (PyValueError (''fee policy '' @ show_int policy_id @
                 '' is (or was) effective and cannot be cancelled: cancellation would silently fall back to an older '' @
                 ''rate. Change the current fee explicitly with '' @ [CHR 0x27] @ ''fee set'' @ [CHR 0x27] @ '' (use '' @
                 [CHR 0x27] @ ''fee set 0'' @ [CHR 0x27] @ '' to remove the fee).'')))
               else let f' = f\<lparr>fp_cancelled_at := Some now, fp_cancelled_by := Some actor,
                               fp_cancellation_note := Some n\<rparr>;
                        s1 = s\<lparr>work := (work s)\<lparr>fee_policies := put_row fp_id f' (fee_policies (work s))\<rparr>\<rparr>
                    in (record_event s1 None ''fee_policy_cancelled'' ''info'' (policy_event_data f' actor n),
                        Inr f')))"

section \<open>The fee\<close>

lemma fee_div_bounds:
  fixes a r :: int
  defines "fee \<equiv> (a * r + 5000) div 10000"
  shows "10000 * fee - 5000 \<le> a * r" and "a * r < 10000 * fee + 5000"
  unfolding fee_def by linarith+

lemma calculate_fee_ok:
  assumes "0 < amount" and "0 \<le> rate" and "rate \<le> 10000"
  shows "calculate_fee amount rate =
           Inr ((amount * rate + 5000) div 10000, amount + (amount * rate + 5000) div 10000)"
  using assms by (simp add: calculate_fee_def MAX_RATE_BPS_def Let_def)

text \<open>
  C18. The fee of a positive amount at a rate of 0 to 10000 basis points is the exact quotient
  rounded half up to a whole Toman, it lies between zero and the amount, and the payable amount
  is the amount plus the fee.
\<close>

theorem calculate_fee_round_half_up:
  assumes "0 < amount" and "0 \<le> rate" and "rate \<le> 10000"
  shows "\<exists>fee. calculate_fee amount rate = Inr (fee, amount + fee)
           \<and> fee = \<lfloor>of_int (amount * rate) / (10000 :: rat) + 1 / 2\<rfloor>
           \<and> 0 \<le> fee \<and> fee \<le> amount"
proof (intro exI conjI)
  let ?fee = "(amount * rate + 5000) div 10000"
  show "calculate_fee amount rate = Inr (?fee, amount + ?fee)"
    using assms by (rule calculate_fee_ok)
  have "of_int (amount * rate) / (10000 :: rat) + 1 / 2 = of_int (amount * rate + 5000) / of_int 10000"
    by (simp add: field_simps)
  then show "?fee = \<lfloor>of_int (amount * rate) / (10000 :: rat) + 1 / 2\<rfloor>"
    by (metis floor_divide_of_int_eq)
  have nn: "0 \<le> amount * rate" using assms by simp
  then show "0 \<le> ?fee" by simp
  have "amount * rate \<le> amount * 10000" using assms by (intro mult_left_mono) auto
  then show "?fee \<le> amount" by linarith
qed

theorem calculate_fee_round_half_up_witness:
  "\<exists>fee. calculate_fee 1550 1000 = Inr (fee, 1550 + fee)
       \<and> fee = \<lfloor>of_int (1550 * 1000) / (10000 :: rat) + 1 / 2\<rfloor> \<and> 0 \<le> fee \<and> fee \<le> 1550"
  by (rule calculate_fee_round_half_up) simp_all

section \<open>Percentages\<close>

lemma takeWhile_digits_append:
  "list_all is_ascii_digit ds \<Longrightarrow> \<not> is_ascii_digit c \<Longrightarrow>
     takeWhile is_ascii_digit (ds @ c # r) = ds \<and> dropWhile is_ascii_digit (ds @ c # r) = c # r"
  by (induction ds) auto

lemma takeWhile_show_nat [simp]:
  "takeWhile is_ascii_digit (show_nat n) = show_nat n" "dropWhile is_ascii_digit (show_nat n) = []"
  using show_nat_digits [of n] by (simp_all add: takeWhile_eq_all_conv dropWhile_eq_Nil_conv list_all_iff)

lemma show_nat_unfold: "show_nat n = (if n < 10 then [digit_char n] else show_nat (n div 10) @ [digit_char (n mod 10)])"
  by (rule show_nat.simps)

lemma length_show_nat_le3: "n < 1000 \<Longrightarrow> 1 \<le> length (show_nat n) \<and> length (show_nat n) \<le> 3"
  by (auto simp: show_nat_unfold [of n] show_nat_unfold [of "n div 10"] show_nat_unfold [of "n div 10 div 10"])

lemma dot_no_digit [simp]: "\<not> is_ascii_digit (CHR ''.'')"
  by (simp add: is_ascii_digit_def cc_def)

lemma digit_char_zero [simp]: "digit_char 0 = CHR ''0''"
  by (simp add: digit_char_def) code_simp

lemma digit_char_eq_zero: "d < 10 \<Longrightarrow> digit_char d = CHR ''0'' \<longleftrightarrow> d = 0"
  by (metis digit_char_val digit_char_zero zero_less_numeral)

lemma pad2_digits: "n < 100 \<Longrightarrow> pad2 n = [digit_char (n div 10), digit_char (n mod 10)]"
  by (auto simp: pad2_def show_nat_unfold [of n] show_nat_unfold [of "n div 10"])

text \<open>Two decimals with trailing zeros dropped, padded again, are the two decimals.\<close>

lemma rstrip_decimals:
  assumes "0 < f" and "f < 100"
  obtains ds where "rstrip_zeros (w @ ''.'' @ pad2 f) = w @ CHR ''.'' # ds"
    and "list_all is_ascii_digit ds" and "1 \<le> length ds" and "length ds \<le> 2"
    and "digits_to_nat (take 2 (ds @ ''00'')) = f"
proof (cases "f mod 10 = 0")
  case True
  then have "f div 10 \<noteq> 0" "f div 10 < 10" using assms by auto
  moreover have "digits_to_nat [digit_char (f div 10), CHR ''0''] = f"
    using True assms digit_char_val [of 0] by (auto simp: digits_to_nat_def)
  ultimately show ?thesis
    using assms True that [of "[digit_char (f div 10)]"]
    by (simp add: rstrip_zeros_def pad2_digits digit_char_eq_zero)
next
  case False
  have lt: "f div 10 < 10" "f mod 10 < 10" using assms by auto
  moreover have "digits_to_nat [digit_char (f div 10), digit_char (f mod 10)] = f"
    using lt by (simp add: digits_to_nat_def)
  ultimately show ?thesis
    using assms False that [of "[digit_char (f div 10), digit_char (f mod 10)]"]
    by (simp add: rstrip_zeros_def pad2_digits digit_char_eq_zero)
qed

lemma match_rate_whole: "n < 1000 \<Longrightarrow> match_rate (show_nat n) = Some (show_nat n, [])"
  using length_show_nat_le3 [of n] by (simp add: match_rate_def Let_def)

lemma match_rate_decimals:
  assumes "n < 1000" "list_all is_ascii_digit ds" "1 \<le> length ds" "length ds \<le> 2"
  shows "match_rate (show_nat n @ CHR ''.'' # ds) = Some (show_nat n, ds)"
  using length_show_nat_le3 [OF assms(1)] takeWhile_digits_append [OF show_nat_digits [of n] dot_no_digit] assms
  by (simp add: match_rate_def Let_def)

text \<open>
  C19. Printing a rate and parsing the printed percentage (without its percent sign) gives the
  rate back, for every rate from 0 to 10000 basis points.
\<close>

theorem parse_format_rate:
  assumes "0 \<le> bps" and "bps \<le> 10000"
  shows "parse_rate_percent (butlast (format_rate_percent bps)) = Inr bps"
proof -
  define w where "w = nat (bps div 100)"
  have w: "bps div 100 = int w" "w < 1000"
    using assms by (auto simp: w_def)
  have sw: "show_int (bps div 100) = show_nat w"
    using w by (simp add: show_int_def)
  show ?thesis
  proof (cases "bps mod 100 = 0")
    case True
    then have b: "bps = int w * 100" using w(1) div_mult_mod_eq [of bps 100] by linarith
    have "butlast (format_rate_percent bps) = show_nat w"
      using True sw by (simp add: format_rate_percent_def Let_def)
    moreover have "digits_to_nat ''00'' = 0"
      by (simp add: digits_to_nat_def digit_val_def cc_def)
    ultimately show ?thesis
      using match_rate_whole [OF w(2)] b assms by (simp add: parse_rate_percent_def MAX_RATE_BPS_def)
  next
    case False
    define f where "f = nat (bps mod 100)"
    have f: "bps mod 100 = int f" "0 < f" "f < 100" using False by (auto simp: f_def)
    obtain ds where ds: "rstrip_zeros (show_nat w @ ''.'' @ pad2 f) = show_nat w @ CHR ''.'' # ds"
      "list_all is_ascii_digit ds" "1 \<le> length ds" "length ds \<le> 2"
      "digits_to_nat (take 2 (ds @ ''00'')) = f"
      using rstrip_decimals [OF f(2,3)] .
    have "butlast (format_rate_percent bps) = show_nat w @ CHR ''.'' # ds"
      using False sw f(1) ds(1) by (simp add: format_rate_percent_def Let_def butlast_append)
    moreover have "bps = int w * 100 + int f" using w(1) f(1) div_mult_mod_eq [of bps 100] by linarith
    ultimately show ?thesis
      using match_rate_decimals [OF w(2) ds(2-4)] ds(5) assms
      by (simp add: parse_rate_percent_def MAX_RATE_BPS_def)
  qed
qed

theorem parse_format_rate_witness:
  "parse_rate_percent (butlast (format_rate_percent 750)) = Inr 750"
  by (rule parse_format_rate) simp_all

section \<open>Selection\<close>

lemma select_effective_policy_Some:
  assumes "select_effective_policy d now = Some f"
  shows "f \<in> set (fee_policies d)" "fp_effective_at f \<le> now" "fp_cancelled_at f = None"
    and "\<And>g. g \<in> set (fee_policies d) \<Longrightarrow> fp_effective_at g \<le> now \<Longrightarrow> fp_cancelled_at g = None \<Longrightarrow>
           (fp_effective_at g, fp_id g) \<le> (fp_effective_at f, fp_id f)"
proof -
  note sel = assms [unfolded select_effective_policy_def]
  from first_by_Some(1) [OF sel]
  show "f \<in> set (fee_policies d)" "fp_effective_at f \<le> now" "fp_cancelled_at f = None"
    by auto
  fix g assume "g \<in> set (fee_policies d)" "fp_effective_at g \<le> now" "fp_cancelled_at g = None"
  then have "(- fp_effective_at f, - fp_id f) \<le> (- fp_effective_at g, - fp_id g)"
    using first_by_Some(2) [OF sel, of g] by simp
  then show "(fp_effective_at g, fp_id g) \<le> (fp_effective_at f, fp_id f)"
    by (auto simp: less_eq_prod_simp)
qed

text \<open>Selection reads only the policies in force; changing one that is not leaves it alone.\<close>

lemma filter_put_row:
  assumes "distinct (map fp_id fs)" "find_row fp_id fs i = Some f" "fp_id f' = i" "\<not> P f" "\<not> P f'"
  shows "filter P (put_row fp_id f' fs) = filter P fs"
proof -
  have "f \<in> set fs" "fp_id f = i" using find_row_Some [OF assms(2)] by auto
  then have same: "x = f" if "x \<in> set fs" "fp_id x = i" for x
    using that assms(1) by (metis distinct_map inj_onD)
  have out: "\<not> P x" if "x \<in> set fs" "fp_id x = fp_id f'" for x
    using same [OF that(1)] that(2) assms(3,4) by simp
  have "filter P (map (\<lambda>q. if fp_id q = fp_id f' then f' else q) xs) = filter P xs" if "set xs \<subseteq> set fs" for xs
    using that assms(5) out by (induction xs) simp_all
  then show ?thesis by (simp add: put_row_def)
qed

text \<open>
  Cancelling a policy never changes the policy in force: at the time of the cancellation and
  at any earlier time, selection gives the same answer before and after, whether the cancellation
  went through or was refused (so no cancellation brings an old rate back).
\<close>

theorem cancel_policy_keeps_effective:
  assumes "distinct (map fp_id (fee_policies (work s)))" and "t \<le> now"
  shows "select_effective_policy (work (fst (cancel_policy s i actor note now))) t
           = select_effective_policy (work s) t"
proof -
  have "filter (\<lambda>f. fp_effective_at f \<le> t \<and> fp_cancelled_at f = None)
          (put_row fp_id (f\<lparr>fp_cancelled_at := Some now, fp_cancelled_by := Some actor,
                           fp_cancellation_note := Some n\<rparr>) (fee_policies (work s)))
      = filter (\<lambda>f. fp_effective_at f \<le> t \<and> fp_cancelled_at f = None) (fee_policies (work s))"
    if "find_row fp_id (fee_policies (work s)) i = Some f" "\<not> fp_effective_at f \<le> now" for f n
    using that assms(2) find_row_Some [OF that(1)] by (intro filter_put_row [OF assms(1) that(1)]) auto
  then show ?thesis
    by (simp add: cancel_policy_def select_effective_policy_def Let_def split: sum.split option.split)
qed

definition demo_policy :: "int \<Rightarrow> int \<Rightarrow> time \<Rightarrow> fee_policy" where
  "demo_policy i rate eff =
     \<lparr>fp_id = i, fp_rate_bps = rate, fp_effective_at = eff, fp_created_at = 0, fp_created_by = ''ops'',
      fp_note = ''n'', fp_cancelled_at = None, fp_cancelled_by = None, fp_cancellation_note = None\<rparr>"

theorem cancel_policy_keeps_effective_witness:
  "select_effective_policy (work (fst (cancel_policy
       (new_session (empty_db\<lparr>fee_policies := [demo_policy 1 1000 10, demo_policy 2 500 90]\<rparr>) 50)
       2 ''ops'' ''wrong rate'' 50))) 50
   = select_effective_policy
       (work (new_session (empty_db\<lparr>fee_policies := [demo_policy 1 1000 10, demo_policy 2 500 90]\<rparr>) 50)) 50"
  by (rule cancel_policy_keeps_effective) (simp_all add: new_session_def empty_db_def demo_policy_def)

end
