(* ===== verification/Security.thy ===== *)
theory Security
  imports Models
begin

text \<open>
  Callback authentication (\<open>app/security.py\<close>): the signature that binds an order id to its
  one-time token, the stored token hash, and the callback URL the gateway sends the payer back to.

  HMAC-SHA256 and SHA-256 (both as lower-case hex text) come from the \<open>crypto\<close> record, the
  randomness of \<open>secrets\<close> from the caller; no property of either function is assumed unless a
  theorem names it.
  Shown: a signature made for one order and token is accepted for no other (given that the MAC
  separates the two messages), and the built URL, split at its separators, is exactly the three
  signed parameters.
\<close>

record crypto =
  hmac_sha256_hex :: "string \<Rightarrow> string \<Rightarrow> string"
  sha256_hex :: "string \<Rightarrow> string"

section \<open>Operations\<close>

text \<open>\<open>hmac.compare_digest\<close> on the UTF-8 encodings: equality of the texts.\<close>

definition constant_time_equals :: "string \<Rightarrow> string \<Rightarrow> bool" where
  "constant_time_equals provided expected \<longleftrightarrow> provided = expected"

definition callback_message :: "int \<Rightarrow> string \<Rightarrow> string" where
  "callback_message gateway_order_id callback_token =
     ''orderId='' @ show_int gateway_order_id @ ''&ct='' @ callback_token"

definition callback_signature :: "crypto \<Rightarrow> string \<Rightarrow> int \<Rightarrow> string \<Rightarrow> string" where
  "callback_signature C secret gateway_order_id callback_token =
     hmac_sha256_hex C secret (callback_message gateway_order_id callback_token)"

definition verify_callback_signature :: "crypto \<Rightarrow> string \<Rightarrow> int \<Rightarrow> string \<Rightarrow> string \<Rightarrow> bool" where
  "verify_callback_signature C secret gateway_order_id callback_token signature =
     constant_time_equals (callback_signature C secret gateway_order_id callback_token) signature"

definition callback_token_hash :: "crypto \<Rightarrow> string \<Rightarrow> string" where
  "callback_token_hash C callback_token = sha256_hex C callback_token"

definition callback_token_matches :: "crypto \<Rightarrow> string \<Rightarrow> string option \<Rightarrow> bool" where
  "callback_token_matches C callback_token stored_hash =
     (case stored_hash of
        None \<Rightarrow> False
      | Some h \<Rightarrow> h \<noteq> [] \<and> constant_time_equals (callback_token_hash C callback_token) h)"

definition CALLBACK_PATH :: string where
  "CALLBACK_PATH = ''/api/centralpay/callback''"

definition rstrip_slash :: "string \<Rightarrow> string" where
  "rstrip_slash s = rev (dropWhile (\<lambda>c. c = CHR ''/'') (rev s))"

definition build_callback_url :: "crypto \<Rightarrow> settings \<Rightarrow> int \<Rightarrow> string \<Rightarrow> string" where
  "build_callback_url C cfg gateway_order_id callback_token =
     (let signature = callback_signature C (callback_hmac_secret cfg) gateway_order_id callback_token;
          base = rstrip_slash (public_base_url cfg)
      in base @ CALLBACK_PATH @ ''?orderId='' @ show_int gateway_order_id @ ''&ct='' @ callback_token
         @ ''&sig='' @ signature)"

section \<open>The signed message determines the order and the token\<close>

lemma show_int_no_amp: "CHR ''&'' \<notin> set (show_int i)"
proof -
  have "CHR ''&'' \<notin> set (show_nat n)" for n
  proof
    assume "CHR ''&'' \<in> set (show_nat n)"
    then have "is_ascii_digit (CHR ''&'')"
      using show_nat_digits [of n] by (auto simp: list_all_iff)
    then show False by (simp add: is_ascii_digit_def cc_def)
  qed
  then show ?thesis by (simp add: show_int_def)
qed

lemma append_sep_inject:
  "c \<notin> set xs \<Longrightarrow> c \<notin> set xs' \<Longrightarrow> xs @ c # ys = xs' @ c # ys' \<longleftrightarrow> xs = xs' \<and> ys = ys'"
proof (induction xs arbitrary: xs')
  case Nil
  then show ?case by (cases xs') auto
next
  case (Cons x xs)
  then show ?case by (cases xs') auto
qed

lemma callback_message_inject [simp]:
  "callback_message o1 t1 = callback_message o2 t2 \<longleftrightarrow> o1 = o2 \<and> t1 = t2"
  using append_sep_inject [OF show_int_no_amp [of o1] show_int_no_amp [of o2]]
  by (simp add: callback_message_def)

text \<open>
  A callback signature made for one order and token verifies for that pair, and, when the MAC
  gives different values to different messages under this secret, for no other pair: neither the
  order id nor the token can be swapped.
\<close>

theorem callback_signature_binds:
  assumes "inj (hmac_sha256_hex C secret)"
  shows "verify_callback_signature C secret o' t' (callback_signature C secret ord tok)
           \<longleftrightarrow> o' = ord \<and> t' = tok"
  unfolding verify_callback_signature_def callback_signature_def constant_time_equals_def
    inj_eq [OF assms] by (rule callback_message_inject)

definition demo_crypto :: crypto where
  "demo_crypto = \<lparr>hmac_sha256_hex = (\<lambda>k m. m @ ''.'' @ k), sha256_hex = (\<lambda>m. CHR ''h'' # m)\<rparr>"

theorem callback_signature_binds_witness:
  "verify_callback_signature demo_crypto ''k'' 12 ''ab'' (callback_signature demo_crypto ''k'' 12 ''ab'')
     \<longleftrightarrow> (12 :: int) = 12 \<and> ''ab'' = ''ab''"
  by (rule callback_signature_binds) (simp add: demo_crypto_def inj_def)

lemma callback_token_matches_issued:
  "callback_token_hash C t \<noteq> [] \<Longrightarrow> callback_token_matches C t (Some (callback_token_hash C t))"
  by (simp add: callback_token_matches_def constant_time_equals_def)

lemma callback_token_matches_D:
  "callback_token_matches C t h \<Longrightarrow> h = Some (callback_token_hash C t)"
  by (auto simp: callback_token_matches_def constant_time_equals_def split: option.splits)

section \<open>The callback URL\<close>

text \<open>
  The callback URL is the public origin, the fixed path and one question mark followed by a
  query that splits at \<open>&\<close> into exactly three parameters (order id, token, signature), and the
  signature it carries verifies for the order and token it carries. The token and the MAC are
  required to be free of \<open>&\<close>, which hex text is.
\<close>

theorem build_callback_url_parameters:
  assumes "CHR ''&'' \<notin> set token"
    and "CHR ''&'' \<notin> set (hmac_sha256_hex C (callback_hmac_secret cfg) (callback_message ord token))"
  shows "\<exists>query sig.
           build_callback_url C cfg ord token = rstrip_slash (public_base_url cfg) @ CALLBACK_PATH @ CHR ''?'' # query
         \<and> split_at (CHR ''&'') query = [''orderId='' @ show_int ord, ''ct='' @ token, ''sig='' @ sig]
         \<and> verify_callback_signature C (callback_hmac_secret cfg) ord token sig"
proof (intro exI conjI)
  let ?sig = "callback_signature C (callback_hmac_secret cfg) ord token"
  let ?query = "(''orderId='' @ show_int ord) @ CHR ''&'' # (''ct='' @ token) @ CHR ''&'' # (''sig='' @ ?sig)"
  show "build_callback_url C cfg ord token
      = rstrip_slash (public_base_url cfg) @ CALLBACK_PATH @ CHR ''?'' # ?query"
    by (simp add: build_callback_url_def)
  have "CHR ''&'' \<notin> set (''orderId='' @ show_int ord)" "CHR ''&'' \<notin> set (''ct='' @ token)"
    "CHR ''&'' \<notin> set (''sig='' @ ?sig)"
    using assms show_int_no_amp [of ord] by (simp_all add: callback_signature_def)
  then show "split_at (CHR ''&'') ?query = [''orderId='' @ show_int ord, ''ct='' @ token, ''sig='' @ ?sig]"
    by (rule split_at_three)
  show "verify_callback_signature C (callback_hmac_secret cfg) ord token ?sig"
    by (simp add: verify_callback_signature_def constant_time_equals_def)
qed

theorem build_callback_url_parameters_witness:
  "\<forall>cfg. \<exists>query sig.
     build_callback_url (demo_crypto\<lparr>hmac_sha256_hex := \<lambda>k m. show_nat (length m)\<rparr>) cfg 7 ''ab''
       = rstrip_slash (public_base_url cfg) @ CALLBACK_PATH @ CHR ''?'' # query
   \<and> split_at (CHR ''&'') query = [''orderId='' @ show_int 7, ''ct='' @ ''ab'', ''sig='' @ sig]
   \<and> verify_callback_signature (demo_crypto\<lparr>hmac_sha256_hex := \<lambda>k m. show_nat (length m)\<rparr>)
       (callback_hmac_secret cfg) 7 ''ab'' sig"
proof
  fix cfg
  show "\<exists>query sig.
     build_callback_url (demo_crypto\<lparr>hmac_sha256_hex := \<lambda>k m. show_nat (length m)\<rparr>) cfg 7 ''ab''
       = rstrip_slash (public_base_url cfg) @ CALLBACK_PATH @ CHR ''?'' # query
   \<and> split_at (CHR ''&'') query = [''orderId='' @ show_int 7, ''ct='' @ ''ab'', ''sig='' @ sig]
   \<and> verify_callback_signature (demo_crypto\<lparr>hmac_sha256_hex := \<lambda>k m. show_nat (length m)\<rparr>)
       (callback_hmac_secret cfg) 7 ''ab'' sig"
    by (rule build_callback_url_parameters)
       (use show_int_no_amp [of "int _"] in \<open>auto simp: demo_crypto_def show_int_def\<close>)
qed

end
