(* ===== verification/Urls.thy ===== *)
theory Urls
  imports Prelude
begin

text \<open>
  The parts of Python's \<open>urllib.parse.urlsplit\<close> and \<open>ipaddress\<close> the bridge uses. \<open>urlsplit\<close> is
  modelled on the strings its callers pass: no character up to the space, no DEL. The check of a
  bracketed host is a parameter (\<open>bracket_ok\<close>): it is the library's IPv6 parser. The NFKC check of
  the authority never fails on code points below 256.
\<close>

record url_parts =
  u_scheme :: string
  u_netloc :: string
  u_path :: string
  u_query :: string
  u_fragment :: string

section \<open>Cutting strings\<close>

text \<open>\<open>s.partition(c)\<close>: the text before the first \<open>c\<close>, whether there is one, the text after it.\<close>

definition partition_at :: "char \<Rightarrow> string \<Rightarrow> string \<times> bool \<times> string" where
  "partition_at c s =
     (case dropWhile (\<lambda>x. x \<noteq> c) s of
        [] \<Rightarrow> (s, False, [])
      | _ # r \<Rightarrow> (takeWhile (\<lambda>x. x \<noteq> c) s, True, r))"

text \<open>\<open>s.rpartition(c)[2]\<close>: the text after the last \<open>c\<close>, all of it when there is none.\<close>

definition after_last :: "char \<Rightarrow> string \<Rightarrow> string" where
  "after_last c s = rev (takeWhile (\<lambda>x. x \<noteq> c) (rev s))"

definition is_ascii_alpha :: "char \<Rightarrow> bool" where
  "is_ascii_alpha c \<longleftrightarrow> (65 \<le> cc c \<and> cc c \<le> 90) \<or> (97 \<le> cc c \<and> cc c \<le> 122)"

definition scheme_char :: "char \<Rightarrow> bool" where
  "scheme_char c \<longleftrightarrow> is_ascii_alpha c \<or> is_ascii_digit c \<or> c \<in> {CHR ''+'', CHR ''-'', CHR ''.''}"

lemma partition_at_append: "c \<notin> set xs \<Longrightarrow> partition_at c (xs @ c # ys) = (xs, True, ys)"
  by (induction xs) (auto simp: partition_at_def split: list.splits)

lemma partition_at_absent: "c \<notin> set xs \<Longrightarrow> partition_at c xs = (xs, False, [])"
proof -
  assume "c \<notin> set xs"
  then have "dropWhile (\<lambda>x. x \<noteq> c) xs = []" by auto
  then show ?thesis by (simp only: partition_at_def list.case)
qed

lemma partition_at_found:
  assumes "partition_at c s = (a, True, b)"
  shows "s = a @ c # b" and "c \<notin> set a"
proof -
  from assms obtain x where x: "dropWhile (\<lambda>x. x \<noteq> c) s = x # b" "a = takeWhile (\<lambda>x. x \<noteq> c) s"
    by (auto simp: partition_at_def split: list.splits)
  then have "x = c" using hd_dropWhile [of "\<lambda>x. x \<noteq> c" s] by force
  then show "s = a @ c # b"
    using x takeWhile_dropWhile_id [of "\<lambda>x. x \<noteq> c" s] by simp
  show "c \<notin> set a" using x by (auto dest: set_takeWhileD)
qed

lemma partition_at_not_found: "partition_at c s = (a, False, b) \<Longrightarrow> c \<notin> set s \<and> a = s"
  by (auto simp: partition_at_def dropWhile_eq_Nil_conv split: list.splits)

section \<open>urlsplit\<close>

definition split_scheme :: "string \<Rightarrow> string \<times> string" where
  "split_scheme url =
     (case partition_at (CHR '':'') url of
        (pre, found, rest) \<Rightarrow>
          if found \<and> pre \<noteq> [] \<and> is_ascii_alpha (hd pre) \<and> list_all scheme_char pre
          then (py_lower pre, rest) else ([], url))"

definition is_netloc_end :: "char \<Rightarrow> bool" where
  "is_netloc_end c \<longleftrightarrow> c \<in> {CHR ''/'', CHR ''?'', CHR ''#''}"

definition brackets_ok :: "(string \<Rightarrow> bool) \<Rightarrow> string \<Rightarrow> bool" where
  "brackets_ok bracket_ok netloc \<longleftrightarrow>
     (CHR ''['' \<in> set netloc) = (CHR '']'' \<in> set netloc)
   \<and> (CHR ''['' \<in> set netloc \<longrightarrow>
       bracket_ok (fst (partition_at (CHR '']'') (snd (snd (partition_at (CHR ''['') netloc))))))"

text \<open>\<open>None\<close> is the \<open>ValueError\<close> of a malformed authority.\<close>

definition urlsplit :: "(string \<Rightarrow> bool) \<Rightarrow> string \<Rightarrow> url_parts option" where
  "urlsplit bracket_ok url =
     (let (scheme, rest) = split_scheme url;
          has_netloc = (take 2 rest = ''//'');
          netloc = (if has_netloc then takeWhile (\<lambda>c. \<not> is_netloc_end c) (drop 2 rest) else []);
          tail = (if has_netloc then dropWhile (\<lambda>c. \<not> is_netloc_end c) (drop 2 rest) else rest);
          (before, _, fragment) = partition_at (CHR ''#'') tail;
          (path, _, query) = partition_at (CHR ''?'') before
      in if brackets_ok bracket_ok netloc
         then Some \<lparr>u_scheme = scheme, u_netloc = netloc, u_path = path, u_query = query,
                    u_fragment = fragment\<rparr>
         else None)"

text \<open>\<open>_hostinfo\<close>: the host text and the port text, \<open>None\<close> when it is empty.\<close>

definition hostinfo :: "string \<Rightarrow> string \<times> string option" where
  "hostinfo netloc =
     (let hi = after_last (CHR ''@'') netloc;
          (_, have_open_br, bracketed) = partition_at (CHR ''['') hi;
          (hostname, port) =
            (if have_open_br
             then (let (h, _, p) = partition_at (CHR '']'') bracketed in (h, snd (snd (partition_at (CHR '':'') p))))
             else (let (h, _, p) = partition_at (CHR '':'') hi in (h, p)))
      in (hostname, if port = [] then None else Some port))"

text \<open>\<open>.hostname\<close>: \<open>None\<close> for an empty host, lower-cased up to a zone marker.\<close>

definition url_hostname :: "url_parts \<Rightarrow> string option" where
  "url_hostname u =
     (let h = fst (hostinfo (u_netloc u))
      in if h = [] then None
         else let (a, found, zone) = partition_at (CHR ''%'') h
              in Some (py_lower a @ (if found then ''%'' else []) @ zone))"

text \<open>\<open>.port\<close>: \<open>Inl ()\<close> is the \<open>ValueError\<close>.\<close>

definition url_port :: "url_parts \<Rightarrow> unit + nat option" where
  "url_port u =
     (case snd (hostinfo (u_netloc u)) of
        None \<Rightarrow> Inr None
      | Some p \<Rightarrow>
          if is_ascii_decimal p \<and> length p \<le> py_int_max_digits \<and> digits_to_nat p \<le> 65535
          then Inr (Some (digits_to_nat p)) else Inl ())"

text \<open>\<open>username\<close> and \<open>password\<close> are both \<open>None\<close> exactly when the authority has no \<open>@\<close>.\<close>

definition has_userinfo :: "url_parts \<Rightarrow> bool" where
  "has_userinfo u \<longleftrightarrow> CHR ''@'' \<in> set (u_netloc u)"

section \<open>The pieces of a URL with an authority\<close>

lemma takeWhile_dropWhile_app:
  "list_all P xs \<Longrightarrow> ys = [] \<or> \<not> P (hd ys) \<Longrightarrow> takeWhile P (xs @ ys) = xs \<and> dropWhile P (xs @ ys) = ys"
  by (induction xs) (cases ys; auto)+

lemma split_scheme_https:
  assumes "split_scheme url = (''https'', rest)"
  shows "\<exists>pre. url = pre @ CHR '':'' # rest \<and> py_lower pre = ''https'' \<and> CHR '':'' \<notin> set pre"
proof -
  obtain pre found r where p: "partition_at (CHR '':'') url = (pre, found, r)"
    by (metis prod.exhaust)
  have found: "found" "py_lower pre = ''https''" "r = rest"
    using assms p by (auto simp: split_scheme_def split: if_splits)
  then have "partition_at (CHR '':'') url = (pre, True, rest)"
    using p by simp
  from partition_at_found [OF this] found show ?thesis by blast
qed

text \<open>
  What a successful split tells of the text: its authority stands right after the scheme and two
  slashes, and is followed by the end or by a path, query or fragment delimiter.
\<close>

lemma urlsplit_https:
  assumes "urlsplit ok url = Some u" and "u_scheme u = ''https''" and "u_netloc u \<noteq> []"
  shows "\<exists>pre tail. url = pre @ ''://'' @ u_netloc u @ tail \<and> py_lower pre = ''https''
           \<and> (tail = [] \<or> is_netloc_end (hd tail)) \<and> list_all (\<lambda>c. \<not> is_netloc_end c) (u_netloc u)"
proof -
  obtain rest where s: "split_scheme url = (''https'', rest)"
    and n: "u_netloc u = (if take 2 rest = ''//'' then takeWhile (\<lambda>c. \<not> is_netloc_end c) (drop 2 rest) else [])"
    using assms by (auto simp: urlsplit_def Let_def split: prod.splits if_splits)
  obtain pre where pre: "url = pre @ CHR '':'' # rest" "py_lower pre = ''https''"
    using split_scheme_https [OF s] by blast
  have sl: "take 2 rest = ''//''" using n assms(3) by (metis)
  define tail where "tail = dropWhile (\<lambda>c. \<not> is_netloc_end c) (drop 2 rest)"
  have "rest = ''//'' @ u_netloc u @ tail"
    using append_take_drop_id [of 2 rest] sl n by (simp add: tail_def)
  moreover have "tail = [] \<or> is_netloc_end (hd tail)"
    unfolding tail_def using hd_dropWhile by blast
  moreover have "list_all (\<lambda>c. \<not> is_netloc_end c) (u_netloc u)"
    using n sl by (auto simp: list_all_iff dest: set_takeWhileD)
  ultimately show ?thesis using pre by (intro exI [of _ pre] exI [of _ tail]) simp
qed

end
