(* ===== verification/Gateway.thy ===== *)
theory Gateway
  imports Models Urls
begin

text \<open>
  The CentralPay client (\<open>app/centralpay.py\<close>). The HTTP exchange is a parameter: a function from
  the URL and the JSON payload to what came back (a transport failure with its exception name, or
  a status and a body, \<open>None\<close> for a body that is not JSON). Logging is left out.
  Shown: \<open>verify\<close> reports success exactly for the replies that carry an explicit success marker,
  no failure marker and a data object; the fields it extracts satisfy the storage contract; what
  leaves the module on a failure is one of a fixed set of texts.
\<close>

datatype http_outcome =
    HttpError string
  | HttpReply int "json option"

type_synonym transport = "string \<Rightarrow> jdict \<Rightarrow> http_outcome"

record verify_result =
  vr_gateway_success :: bool
  vr_reference_id :: "string option"
  vr_amount :: "int option"
  vr_user_id :: "int option"
  vr_card_number :: "string option"
  vr_failure_reason :: "string option"
  vr_field_errors :: "string list"
  vr_reference_id_invalid :: bool

record centralpay_client =
  cl_base_url :: string
  cl_getlink_api_key :: string
  cl_verify_api_key :: string

definition FAILURE_STATUS_VALUES :: "string list" where
  "FAILURE_STATUS_VALUES = [''error'', ''failed'', ''fail'', ''0'', ''-1'']"

definition SUCCESS_STATUS_VALUES :: "string list" where
  "SUCCESS_STATUS_VALUES = [''1'', ''success'', ''ok'', ''completed'', ''done'', ''true'']"

definition CENTRALPAY_REFERENCE_ID_MAX_LENGTH :: nat where
  "CENTRALPAY_REFERENCE_ID_MAX_LENGTH = 128"

definition REDIRECT_URL_MAX_LENGTH :: nat where
  "REDIRECT_URL_MAX_LENGTH = 2048"

section \<open>Reading fields\<close>

text \<open>\<open>str(status).strip().lower()\<close> of an int or str that is no bool; \<open>None\<close> for other values.\<close>

definition status_text :: "json \<Rightarrow> string option" where
  "status_text v =
     (case v of
        JInt i \<Rightarrow> Some (py_lower (strip (show_int i)))
      | JStr s \<Rightarrow> Some (py_lower (strip s))
      | _ \<Rightarrow> None)"

definition explicit_success :: "jdict \<Rightarrow> bool" where
  "explicit_success body =
     (if jget body ''success'' = JBool True then True
      else if (case jget body ''success'' of JStr s \<Rightarrow> py_lower (strip s) = ''true'' | _ \<Rightarrow> False) then True
      else if jget body ''status'' = JBool True then True
      else case status_text (jget body ''status'') of
             None \<Rightarrow> False
           | Some t \<Rightarrow> t \<in> set SUCCESS_STATUS_VALUES)"

definition is_ascii_int :: "string \<Rightarrow> bool" where
  "is_ascii_int s \<longleftrightarrow>
     (case s of [] \<Rightarrow> False | c # r \<Rightarrow> if c = CHR ''-'' then is_ascii_decimal r else is_ascii_decimal s)"

definition py_int_signed :: "string \<Rightarrow> int option" where
  "py_int_signed s =
     (case s of
        [] \<Rightarrow> None
      | c # r \<Rightarrow> if c = CHR ''-'' then map_option uminus (py_int_of_digits r) else py_int_of_digits s)"

definition to_int_field :: "json \<Rightarrow> int option" where
  "to_int_field v =
     (case v of
        JBool _ \<Rightarrow> None
      | JInt i \<Rightarrow> Some i
      | JStr s \<Rightarrow> (let stripped = strip s in if is_ascii_int stripped then py_int_signed stripped else None)
      | _ \<Rightarrow> None)"

definition is_control :: "char \<Rightarrow> bool" where
  "is_control c \<longleftrightarrow> cc c < 32 \<or> cc c = 127"

definition parse_reference_id :: "json \<Rightarrow> string option \<times> bool" where
  "parse_reference_id v =
     (case v of
        JNull \<Rightarrow> (None, False)
      | JBool _ \<Rightarrow> (None, True)
      | JInt i \<Rightarrow>
          (let decimal = show_int i
           in if length decimal > CENTRALPAY_REFERENCE_ID_MAX_LENGTH then (None, True) else (Some decimal, False))
      | JStr s \<Rightarrow>
          (let normalized = strip s
           in if normalized = [] then (None, False)
              else if length normalized > CENTRALPAY_REFERENCE_ID_MAX_LENGTH then (None, True)
              else if list_ex is_control normalized then (None, True)
              else (Some normalized, False))
      | _ \<Rightarrow> (None, True))"

definition to_nonempty_str :: "json \<Rightarrow> string option" where
  "to_nonempty_str v =
     (case v of
        JInt i \<Rightarrow> Some (show_int i)
      | JStr s \<Rightarrow> if strip s \<noteq> [] then Some (strip s) else None
      | _ \<Rightarrow> None)"

definition gateway_reason_code :: "jdict \<Rightarrow> string option \<times> string option" where
  "gateway_reason_code body =
     (if py_truthy (jget body ''error'') then (Some ''gateway_error_field'', Some ''error_field'')
      else if jget body ''success'' = JBool False then (Some ''gateway_rejected'', Some ''success_false'')
      else if (case status_text (jget body ''status'') of
                 None \<Rightarrow> False | Some t \<Rightarrow> t \<in> set FAILURE_STATUS_VALUES)
        then (Some ''gateway_rejected'', Some ''failure_status'')
      else if \<not> explicit_success body then (Some ''gateway_response_invalid'', Some ''no_success_marker'')
      else (None, None))"

definition validate_redirect_url :: "(string \<Rightarrow> bool) \<Rightarrow> json \<Rightarrow> string option" where
  "validate_redirect_url bracket_ok v =
     (case v of
        JStr s \<Rightarrow>
          (let url = strip s
           in if url = [] \<or> length url > REDIRECT_URL_MAX_LENGTH then None
              else if list_ex (\<lambda>c. cc c \<le> 32 \<or> cc c = 127) url then None
              else case urlsplit bracket_ok url of
                     None \<Rightarrow> None
                   | Some parts \<Rightarrow>
                       if url_port parts = Inl () then None
                       else if u_scheme parts \<noteq> ''https'' then None
                       else if url_hostname parts = None then None
                       else if has_userinfo parts then None
                       else Some url)
      | _ \<Rightarrow> None)"

section \<open>The client\<close>

definition post_json ::
  "centralpay_client \<Rightarrow> transport \<Rightarrow> string \<Rightarrow> jdict \<Rightarrow> centralpay_error + jdict" where
  "post_json cl http endpoint payload =
     (case http (cl_base_url cl @ ''/'' @ endpoint) payload of
        HttpError type_name \<Rightarrow> Inl (CentralPayConnectionError (endpoint @ '' request failed: '' @ type_name))
      | HttpReply status body \<Rightarrow>
          if status \<noteq> 200
          then Inl (CentralPayRejectedError (endpoint @ '' returned HTTP '' @ show_int status))
          else case body of
                 None \<Rightarrow> Inl (CentralPayInvalidResponseError (endpoint @ '' returned a non-JSON body''))
               | Some (JObj d) \<Rightarrow> Inr d
               | Some _ \<Rightarrow> Inl (CentralPayInvalidResponseError (endpoint @ '' returned a non-object JSON body'')))"

definition get_link ::
  "centralpay_client \<Rightarrow> transport \<Rightarrow> (string \<Rightarrow> bool) \<Rightarrow> int \<Rightarrow> int \<Rightarrow> int \<Rightarrow> string \<Rightarrow>
   centralpay_error + string" where
  "get_link cl http bracket_ok amount user_id order_id return_url =
     (let payload = [(''api_key'', JStr (cl_getlink_api_key cl)), (''type'', JStr ''deposit''),
                     (''amount'', JInt amount), (''userId'', JInt user_id), (''orderId'', JInt order_id),
                     (''returnUrl'', JStr return_url)]
      in case post_json cl http ''getLink.php'' payload of
           Inl e \<Rightarrow> Inl e
         | Inr body \<Rightarrow>
             (let rejected = (\<lambda>reason. Inl (CentralPayRejectedError (''getLink rejected: '' @ reason)))
              in case fst (gateway_reason_code body) of
                   Some reason \<Rightarrow> rejected reason
                 | None \<Rightarrow>
                     (case jget body ''data'' of
                        JObj data \<Rightarrow>
                          (case validate_redirect_url bracket_ok (jget data ''redirectUrl'') of
                             None \<Rightarrow> rejected ''gateway_invalid_redirect_url''
                           | Some url \<Rightarrow> Inr url)
                      | _ \<Rightarrow> rejected ''gateway_missing_data'')))"

definition failed_verify :: "string \<Rightarrow> verify_result" where
  "failed_verify reason =
     \<lparr>vr_gateway_success = False, vr_reference_id = None, vr_amount = None, vr_user_id = None,
      vr_card_number = None, vr_failure_reason = Some reason, vr_field_errors = [],
      vr_reference_id_invalid = False\<rparr>"

definition read_verify_data :: "jdict \<Rightarrow> verify_result" where
  "read_verify_data data =
     (let (reference_id, reference_id_invalid) = parse_reference_id (jget data ''referenceId'');
          amount = to_int_field (jget data ''amount'');
          user_id = to_int_field (jget data ''userId'')
      in \<lparr>vr_gateway_success = True, vr_reference_id = reference_id, vr_amount = amount,
          vr_user_id = user_id, vr_card_number = to_nonempty_str (jget data ''cardNumber''),
          vr_failure_reason = None,
          vr_field_errors = (if reference_id = None then [''gateway_invalid_reference_id''] else [])
                          @ (if amount = None then [''gateway_invalid_amount''] else [])
                          @ (if user_id = None then [''gateway_invalid_user_id''] else []),
          vr_reference_id_invalid = reference_id_invalid\<rparr>)"

definition verify :: "centralpay_client \<Rightarrow> transport \<Rightarrow> int \<Rightarrow> centralpay_error + verify_result" where
  "verify cl http order_id =
     (case post_json cl http ''verify.php''
             [(''api_key'', JStr (cl_verify_api_key cl)), (''orderId'', JInt order_id)] of
        Inl e \<Rightarrow> Inl e
      | Inr body \<Rightarrow>
          (case fst (gateway_reason_code body) of
             Some reason \<Rightarrow> Inr (failed_verify reason)
           | None \<Rightarrow>
               (case jget body ''data'' of
                  JObj data \<Rightarrow> Inr (read_verify_data data)
                | _ \<Rightarrow> Inr (failed_verify ''gateway_missing_data''))))"

section \<open>Success is explicit\<close>

lemma gateway_reason_code_None_iff:
  "fst (gateway_reason_code body) = None \<longleftrightarrow>
     \<not> py_truthy (jget body ''error'') \<and> jget body ''success'' \<noteq> JBool False
   \<and> status_text (jget body ''status'') \<notin> Some ` set FAILURE_STATUS_VALUES
   \<and> explicit_success body"
  by (auto simp: gateway_reason_code_def split: option.split)

lemma failed_verify_sel [simp]:
  "vr_gateway_success (failed_verify r) = False" "vr_failure_reason (failed_verify r) = Some r"
  by (simp_all add: failed_verify_def)

lemma read_verify_data_sel [simp]:
  "vr_gateway_success (read_verify_data d)"
  "vr_reference_id (read_verify_data d) = fst (parse_reference_id (jget d ''referenceId''))"
  "vr_reference_id_invalid (read_verify_data d) = snd (parse_reference_id (jget d ''referenceId''))"
  "vr_amount (read_verify_data d) = to_int_field (jget d ''amount'')"
  "vr_user_id (read_verify_data d) = to_int_field (jget d ''userId'')"
  "vr_failure_reason (read_verify_data d) = None"
  by (simp_all add: read_verify_data_def split_beta Let_def)

lemma post_json_Inr:
  "post_json cl http ep pl = Inr body \<longleftrightarrow> http (cl_base_url cl @ ''/'' @ ep) pl = HttpReply 200 (Some (JObj body))"
  by (auto simp: post_json_def split: http_outcome.split option.split json.split)

lemma explicit_success_iff:
  "explicit_success body \<longleftrightarrow>
     jget body ''success'' = JBool True \<or> jget body ''status'' = JBool True
   \<or> jget body ''success'' \<in> JStr ` {t. py_lower (strip t) = ''true''}
   \<or> status_text (jget body ''status'') \<in> Some ` set SUCCESS_STATUS_VALUES"
  by (auto simp: explicit_success_def split: json.splits option.splits)

text \<open>
  C16. \<open>verify\<close> reports a gateway success exactly when the exchange returned HTTP 200 with a JSON
  object that has no truthy error field, no \<open>success: false\<close>, no failure status, an explicit
  success marker (\<open>success\<close> true or the text "true", \<open>status\<close> true or one of the success texts), and a
  data object; success is inferred from nothing else.
\<close>

theorem verify_success_iff:
  "(\<exists>r. verify cl http ord = Inr r \<and> vr_gateway_success r) \<longleftrightarrow>
   (\<exists>body data.
      http (cl_base_url cl @ ''/verify.php'')
        [(''api_key'', JStr (cl_verify_api_key cl)), (''orderId'', JInt ord)] = HttpReply 200 (Some (JObj body))
    \<and> \<not> py_truthy (jget body ''error'') \<and> jget body ''success'' \<noteq> JBool False
    \<and> status_text (jget body ''status'') \<notin> Some ` set FAILURE_STATUS_VALUES
    \<and> (jget body ''success'' = JBool True \<or> jget body ''status'' = JBool True
       \<or> jget body ''success'' \<in> JStr ` {t. py_lower (strip t) = ''true''}
       \<or> status_text (jget body ''status'') \<in> Some ` set SUCCESS_STATUS_VALUES)
    \<and> jget body ''data'' = JObj data)"
  (is "?lhs \<longleftrightarrow> ?rhs")
proof
  let ?pl = "[(''api_key'', JStr (cl_verify_api_key cl)), (''orderId'', JInt ord)]"
  assume ?lhs
  then obtain body data where "post_json cl http ''verify.php'' ?pl = Inr body"
    and r: "fst (gateway_reason_code body) = None" and "jget body ''data'' = JObj data"
    by (auto simp: verify_def split: sum.splits option.splits json.splits)
  then show ?rhs
    using r [unfolded gateway_reason_code_None_iff explicit_success_iff] post_json_Inr [of cl http "''verify.php''" ?pl body]
    by auto
next
  assume ?rhs
  then obtain body data where
    "http (cl_base_url cl @ ''/verify.php'')
        [(''api_key'', JStr (cl_verify_api_key cl)), (''orderId'', JInt ord)] = HttpReply 200 (Some (JObj body))"
    and "fst (gateway_reason_code body) = None" and "jget body ''data'' = JObj data"
    by (auto simp: gateway_reason_code_None_iff explicit_success_iff)
  then show ?lhs
    by (auto simp: verify_def post_json_def)
qed

section \<open>Extracted fields\<close>

lemma strip_show_int [simp]: "strip (show_int i) = show_int i"
proof -
  have ns: "\<not> py_isspace c" if "c \<in> set (show_int i)" for c
  proof -
    have "is_ascii_digit c \<or> c = CHR ''-''"
      using that show_nat_digits [of "nat i"] show_nat_digits [of "nat (- i)"]
      by (auto simp: show_int_def list_all_iff split: if_splits)
    then show ?thesis by (auto simp: is_ascii_digit_def py_isspace_def cc_def)
  qed
  then have "dropWhile py_isspace (show_int i) = show_int i"
    "dropWhile py_isspace (rev (show_int i)) = rev (show_int i)"
    by (metis dropWhile_eq_self_iff hd_in_set set_rev)+
  then show ?thesis by (simp add: strip_def lstrip_def rstrip_def)
qed

lemma is_ascii_int_show_int: "is_ascii_int (show_int i)"
proof (cases "i < 0")
  case False
  obtain c r where cr: "show_nat (nat i) = c # r" by (cases "show_nat (nat i)") auto
  then have "is_ascii_digit c" using show_nat_digits [of "nat i"] by simp
  then have "c \<noteq> CHR ''-''" by (auto simp: is_ascii_digit_def cc_def)
  then show ?thesis
    using False cr is_ascii_decimal_show_nat [of "nat i"] by (simp add: is_ascii_int_def show_int_def)
qed (simp add: is_ascii_int_def show_int_def)

text \<open>
  A gateway number sent as a decimal string, with any white space around it, is read as that
  number, and the same number sent as a JSON integer gives the same value. (The length bound is
  CPython's limit on decimal conversion.)
\<close>

theorem to_int_field_roundtrip:
  assumes "strip s = show_int i" and "length (show_int i) \<le> py_int_max_digits"
  shows "to_int_field (JStr s) = Some i \<and> to_int_field (JInt i) = Some i"
proof -
  have "py_int_signed (show_int i) = Some i"
  proof (cases "i < 0")
    case True
    then show ?thesis using assms(2)
      by (simp add: py_int_signed_def show_int_def py_int_of_digits_def)
  next
    case False
    obtain c r where cr: "show_nat (nat i) = c # r" by (cases "show_nat (nat i)") auto
    then have "is_ascii_digit c" using show_nat_digits [of "nat i"] by simp
    then have "c \<noteq> CHR ''-''" by (auto simp: is_ascii_digit_def cc_def)
    then have "py_int_signed (show_int i) = py_int_of_digits (show_nat (nat i))"
      using False cr by (simp add: py_int_signed_def show_int_def)
    then show ?thesis using assms(2) False by (simp add: py_int_of_digits_def show_int_def)
  qed
  then show ?thesis using assms(1) is_ascii_int_show_int [of i] by (simp add: to_int_field_def)
qed

theorem to_int_field_roundtrip_witness:
  "to_int_field (JStr '' -205 '') = Some (- 205) \<and> to_int_field (JInt (- 205)) = Some (- 205)"
  by (rule to_int_field_roundtrip) code_simp+

text \<open>
  A reference id that passes the parser is non-empty, at most 128 characters, free of control
  characters, and unchanged by a second normalisation; the "present but invalid" flag is set
  exactly when nothing was extracted from a value that is neither null nor blank text.
\<close>

theorem parse_reference_id_contract:
  "case parse_reference_id v of
     (Some r, invalid) \<Rightarrow> \<not> invalid \<and> r \<noteq> [] \<and> length r \<le> 128 \<and> \<not> list_ex is_control r \<and> strip r = r
   | (None, invalid) \<Rightarrow> invalid = (v \<noteq> JNull \<and> v \<notin> JStr ` {s. strip s = []})"
proof -
  have digit: "\<not> is_control c" if "c \<in> set (show_int i)" for c i
  proof -
    have "is_ascii_digit c \<or> c = CHR ''-''"
      using that show_nat_digits [of "nat i"] show_nat_digits [of "nat (- i)"]
      by (auto simp: show_int_def list_all_iff split: if_splits)
    then show ?thesis by (auto simp: is_ascii_digit_def is_control_def cc_def)
  qed
  have "show_int i \<noteq> []" for i by (simp add: show_int_def)
  then show ?thesis using digit
    by (cases v) (auto simp: parse_reference_id_def CENTRALPAY_REFERENCE_ID_MAX_LENGTH_def Let_def list_ex_iff)
qed

section \<open>What leaves the module\<close>

definition gateway_vocabulary :: "string set" where
  "gateway_vocabulary =
     {''gateway_response_invalid'', ''gateway_rejected'', ''gateway_error_field'', ''gateway_missing_data'',
      ''gateway_invalid_redirect_url''}"

definition http_failure_texts :: "string \<Rightarrow> int \<Rightarrow> string set" where
  "http_failure_texts ep st =
     {ep @ '' returned HTTP '' @ show_int st, ep @ '' returned a non-JSON body'',
      ep @ '' returned a non-object JSON body''}"

lemma gateway_reason_code_vocabulary: "fst (gateway_reason_code body) = Some r \<Longrightarrow> r \<in> gateway_vocabulary"
  by (auto simp: gateway_reason_code_def gateway_vocabulary_def split: if_splits)

lemma post_json_error_text:
  "post_json cl http ep pl = Inl e \<Longrightarrow>
     (\<exists>ty. http (cl_base_url cl @ ''/'' @ ep) pl = HttpError ty \<and> cp_message e = ep @ '' request failed: '' @ ty)
   \<or> (\<exists>st b. http (cl_base_url cl @ ''/'' @ ep) pl = HttpReply st b
        \<and> cp_message e \<in> {ep @ '' returned HTTP '' @ show_int st, ep @ '' returned a non-JSON body'',
                          ep @ '' returned a non-object JSON body''})"
  by (auto simp: post_json_def split: http_outcome.splits option.splits json.splits if_splits)

text \<open>
  No text of the gateway's body reaches an error: for a reply with a given status, every
  failure of \<open>get_link\<close> and every failure or failure reason of \<open>verify\<close> is one of a fixed set of
  texts that depends on the endpoint and the status only.
\<close>

theorem gateway_failure_texts_fixed:
  assumes "\<And>url pl. \<exists>b. http url pl = HttpReply st b"
  shows "(case get_link cl http ok amount user ord ret of
            Inr _ \<Rightarrow> True
          | Inl e \<Rightarrow> cp_message e \<in> (@) ''getLink rejected: '' ` gateway_vocabulary
                                  \<union> http_failure_texts ''getLink.php'' st)
       \<and> (case verify cl http ord of
            Inl e \<Rightarrow> cp_message e \<in> http_failure_texts ''verify.php'' st
          | Inr r \<Rightarrow> vr_failure_reason r \<in> insert None (Some ` gateway_vocabulary))"
proof -
  have post: "cp_message x \<in> http_failure_texts ep st" if "post_json cl http ep pl = Inl x" for ep pl x
    using post_json_error_text [OF that] assms [of "cl_base_url cl @ ''/'' @ ep" pl]
    by (auto simp: http_failure_texts_def)
  have voc: "''gateway_missing_data'' \<in> gateway_vocabulary" "''gateway_invalid_redirect_url'' \<in> gateway_vocabulary"
    by (simp_all add: gateway_vocabulary_def)
  show ?thesis
  proof
    show "case get_link cl http ok amount user ord ret of
            Inr _ \<Rightarrow> True
          | Inl e \<Rightarrow> cp_message e \<in> (@) ''getLink rejected: '' ` gateway_vocabulary
                                  \<union> http_failure_texts ''getLink.php'' st"
      using voc post gateway_reason_code_vocabulary
      by (fastforce simp: get_link_def Let_def split: sum.splits option.splits json.splits)
    show "case verify cl http ord of
            Inl e \<Rightarrow> cp_message e \<in> http_failure_texts ''verify.php'' st
          | Inr r \<Rightarrow> vr_failure_reason r \<in> insert None (Some ` gateway_vocabulary)"
      using voc post gateway_reason_code_vocabulary
      by (auto simp: verify_def split: sum.splits option.splits json.splits)
  qed
qed

definition demo_client :: centralpay_client where
  "demo_client = \<lparr>cl_base_url = ''https://gw'', cl_getlink_api_key = ''a'', cl_verify_api_key = ''b''\<rparr>"

theorem gateway_failure_texts_fixed_witness:
  "(case get_link demo_client (\<lambda>u p. HttpReply 500 None) (\<lambda>h. False) 50000 777 12 ''https://me'' of
      Inr _ \<Rightarrow> True
    | Inl e \<Rightarrow> cp_message e \<in> (@) ''getLink rejected: '' ` gateway_vocabulary
                            \<union> http_failure_texts ''getLink.php'' 500)
 \<and> (case verify demo_client (\<lambda>u p. HttpReply 500 None) 12 of
      Inl e \<Rightarrow> cp_message e \<in> http_failure_texts ''verify.php'' 500
    | Inr r \<Rightarrow> vr_failure_reason r \<in> insert None (Some ` gateway_vocabulary))"
  by (rule gateway_failure_texts_fixed) simp

section \<open>Redirect URLs\<close>

text \<open>
  A redirect URL handed to the payer is an https URL with a non-empty host, no user
  information before it, no white space or control character, and at most 2048 characters.
\<close>

theorem validate_redirect_url_safe:
  assumes "validate_redirect_url ok v = Some url"
  shows "\<exists>pre netloc tail.
           url = pre @ ''://'' @ netloc @ tail \<and> py_lower pre = ''https''
         \<and> netloc \<noteq> [] \<and> CHR ''@'' \<notin> set netloc \<and> fst (hostinfo netloc) \<noteq> []
         \<and> (tail = [] \<or> is_netloc_end (hd tail))
         \<and> length url \<le> 2048 \<and> list_all (\<lambda>c. 32 < cc c \<and> cc c \<noteq> 127) url"
proof -
  obtain parts where u: "urlsplit ok url = Some parts" "u_scheme parts = ''https''"
    "url_hostname parts \<noteq> None" "\<not> has_userinfo parts"
    and len: "length url \<le> 2048" and ctl: "\<not> list_ex (\<lambda>c. cc c \<le> 32 \<or> cc c = 127) url"
    using assms
    by (auto simp: validate_redirect_url_def REDIRECT_URL_MAX_LENGTH_def Let_def
        split: json.splits if_splits option.splits)
  have host: "fst (hostinfo (u_netloc parts)) \<noteq> []"
    using u(3) by (auto simp: url_hostname_def Let_def)
  then have ne: "u_netloc parts \<noteq> []"
    by (auto simp: hostinfo_def after_last_def partition_at_def)
  from urlsplit_https [OF u(1,2) ne] obtain pre tail where
    "url = pre @ ''://'' @ u_netloc parts @ tail" "py_lower pre = ''https''" "tail = [] \<or> is_netloc_end (hd tail)"
    by blast
  moreover have "list_all (\<lambda>c. 32 < cc c \<and> cc c \<noteq> 127) url"
    using ctl by (auto simp: list_all_iff list_ex_iff not_le)
  ultimately show ?thesis
    using ne host u(4) len by (intro exI [of _ pre] exI [of _ "u_netloc parts"] exI [of _ tail]) (simp add: has_userinfo_def)
qed

theorem validate_redirect_url_safe_witness:
  "\<exists>pre netloc tail.
     ''https://pay.ir/x?t=1'' = pre @ ''://'' @ netloc @ tail \<and> py_lower pre = ''https''
   \<and> netloc \<noteq> [] \<and> CHR ''@'' \<notin> set netloc \<and> fst (hostinfo netloc) \<noteq> []
   \<and> (tail = [] \<or> is_netloc_end (hd tail))
   \<and> length ''https://pay.ir/x?t=1'' \<le> 2048 \<and> list_all (\<lambda>c. 32 < cc c \<and> cc c \<noteq> 127) ''https://pay.ir/x?t=1''"
  by (rule validate_redirect_url_safe [of "\<lambda>h. False" "JStr ''https://pay.ir/x?t=1''"]) code_simp

end
