(* ===== verification/Payer_Identity.thy ===== *)
theory Payer_Identity
  imports Audit_Trail Security
begin

text \<open>
  The stable payer identity (\<open>app/services/payer_identity.py\<close>): the scoped identity keys and their
  keyed hashes, the derivation of a fallback number in the reserved range, and the resolution that
  looks a mapping up or creates it in a transaction of its own.

  Between two of its transactions other sessions may commit. \<open>others k\<close> is what they do to the
  database before the transaction after the \<open>k\<close>-th rollback; the theorems allow any such
  interference that keeps the table's invariant and removes no row.
  Shown: a Telegram user is given exactly his own number, an order without a user a number of the
  reserved range; the legacy shared number is never assigned; two identities never share a number.
\<close>

section \<open>Keys and derivation\<close>

definition DERIVATION_VERSION :: int where
  "DERIVATION_VERSION = 2"

definition KEY_DOMAIN :: string where
  "KEY_DOMAIN = ''centralpay-payer-key:v2:''"

definition ID_DOMAIN :: string where
  "ID_DOMAIN = ''centralpay-payer-id:v2:''"

definition HISTORICAL_KEY_DOMAIN :: string where
  "HISTORICAL_KEY_DOMAIN = ''centralpay-payer-key:v1:''"

definition MAX_TELEGRAM_USER_ID :: int where
  "MAX_TELEGRAM_USER_ID = 2 ^ 52 - 1"

definition ORDER_FALLBACK_MIN :: int where
  "ORDER_FALLBACK_MIN = 6000000000000000"

definition ORDER_FALLBACK_SPAN :: int where
  "ORDER_FALLBACK_SPAN = 1000000000000"

definition MAX_DERIVATION_ATTEMPTS :: nat where
  "MAX_DERIVATION_ATTEMPTS = 10000"

definition FINGERPRINT_LENGTH :: nat where
  "FINGERPRINT_LENGTH = 12"

definition telegram_identity_key :: "int \<Rightarrow> string" where
  "telegram_identity_key telegram_user_id = ''tg:'' @ show_int telegram_user_id"

definition order_identity_key :: "string \<Rightarrow> string" where
  "order_identity_key bot_order_id = ''order:'' @ bot_order_id"

definition identity_key_hash :: "crypto \<Rightarrow> string \<Rightarrow> string \<Rightarrow> string" where
  "identity_key_hash C secret identity_key = hmac_sha256_hex C secret (KEY_DOMAIN @ identity_key)"

definition historical_identity_key_hash :: "crypto \<Rightarrow> string \<Rightarrow> string \<Rightarrow> string" where
  "historical_identity_key_hash C secret identity_key =
     hmac_sha256_hex C secret (HISTORICAL_KEY_DOMAIN @ identity_key)"

definition identity_fingerprint :: "crypto \<Rightarrow> string \<Rightarrow> string \<Rightarrow> string" where
  "identity_fingerprint C secret identity_key = take FINGERPRINT_LENGTH (identity_key_hash C secret identity_key)"

text \<open>
  \<open>int.from_bytes(digest[:8], "big")\<close> is the number the first sixteen hex digits of the digest
  spell.
\<close>

definition hex_val :: "char \<Rightarrow> int" where
  "hex_val c = (if is_ascii_digit c then int (cc c) - 48 else int (cc c) - 87)"

definition hex_to_int :: "string \<Rightarrow> int" where
  "hex_to_int s = foldl (\<lambda>n c. 16 * n + hex_val c) 0 s"

definition derive_order_gateway_user_id :: "crypto \<Rightarrow> string \<Rightarrow> string \<Rightarrow> nat \<Rightarrow> int" where
  "derive_order_gateway_user_id C secret identity_key attempt =
     (let digest = hmac_sha256_hex C secret (ID_DOMAIN @ identity_key @ '':'' @ show_nat attempt)
      in ORDER_FALLBACK_MIN + hex_to_int (take 16 digest) mod ORDER_FALLBACK_SPAN)"

section \<open>The mapping table\<close>

record payer_identity =
  pid_id :: int
  pid_gateway_user_id :: int
  pid_derivation_version :: int
  pid_scheme :: identity_scheme

definition lookup_identity :: "db \<Rightarrow> string \<Rightarrow> payer_row option" where
  "lookup_identity d key_hash = find (\<lambda>r. pi_customer_key_hash r = key_hash) (payer_identities d)"

definition as_identity :: "payer_row \<Rightarrow> payer_identity" where
  "as_identity row =
     \<lparr>pid_id = pi_id row, pid_gateway_user_id = pi_gateway_user_id row,
      pid_derivation_version = pi_derivation_version row, pid_scheme = pi_identity_scheme row\<rparr>"

text \<open>
  \<open>db.add(row); db.flush()\<close> under the table's CHECK and UNIQUE constraints; \<open>None\<close> is the
  \<open>IntegrityError\<close>.
\<close>

definition insert_identity ::
  "session \<Rightarrow> string \<Rightarrow> int \<Rightarrow> identity_scheme \<Rightarrow> session \<times> payer_row option" where
  "insert_identity s key_hash gateway_user_id scheme =
     (let i = sq_identity (seq s) + 1;
          row = \<lparr>pi_id = i, pi_customer_key_hash = key_hash, pi_gateway_user_id = gateway_user_id,
                 pi_derivation_version = DERIVATION_VERSION, pi_identity_scheme = scheme,
                 pi_created_at = clock s\<rparr>;
          s1 = s\<lparr>seq := (seq s)\<lparr>sq_identity := i\<rparr>\<rparr>
      in if gateway_user_id > 0
            \<and> \<not> list_ex (\<lambda>r. pi_customer_key_hash r = key_hash \<or> pi_gateway_user_id r = gateway_user_id)
                 (payer_identities (work s))
         then (s1\<lparr>work := (work s)\<lparr>payer_identities := payer_identities (work s) @ [row]\<rparr>\<rparr>, Some row)
         else (s1, None))"

definition record_identity_created :: "session \<Rightarrow> payer_row \<Rightarrow> string \<Rightarrow> nat \<Rightarrow> session" where
  "record_identity_created s row key_hash attempts =
     record_event s None ''centralpay_payer_identity_created'' ''info''
       [(''payer_identity_id'', JInt (pi_id row)),
        (''identity_scheme'', JStr (identity_scheme_value (pi_identity_scheme row))),
        (''derivation_version'', JInt (pi_derivation_version row)),
        (''identity_fingerprint'', JStr (take FINGERPRINT_LENGTH key_hash)),
        (''derivation_attempts'', JInt (int attempts))]"

definition fail_closed_collision ::
  "session \<Rightarrow> string \<Rightarrow> payer_row option \<Rightarrow> session \<times> (bridge_error + payer_identity)" where
  "fail_closed_collision s key_hash occupied_by =
     (commit (record_event s None ''payer_identity_collision'' ''error''
        [(''identity_fingerprint'', JStr (take FINGERPRINT_LENGTH key_hash)),
         (''requested_scheme'', JStr (identity_scheme_value TELEGRAM_RAW)),
         (''occupied_by_payer_identity_id'', jopt_int (map_option pi_id occupied_by)),
         (''occupied_by_scheme'',
            jopt_str (map_option (\<lambda>r. identity_scheme_value (pi_identity_scheme r)) occupied_by)),
         (''occupied_by_reserved_legacy_id'', JBool (occupied_by = None))]),
      Inl PayerIdentityCollisionError)"

section \<open>Resolution\<close>

definition resolve_telegram_raw ::
  "crypto \<Rightarrow> (nat \<Rightarrow> db \<Rightarrow> db) \<Rightarrow> session \<Rightarrow> string \<Rightarrow> int \<Rightarrow> int option \<Rightarrow>
   session \<times> (bridge_error + payer_identity)" where
  "resolve_telegram_raw C others s secret telegram_user_id reserved =
     (if \<not> (1 \<le> telegram_user_id \<and> telegram_user_id \<le> MAX_TELEGRAM_USER_ID)
      then (s, Inl PayerIdentityAllocationError)
      else
        let key_hash = identity_key_hash C secret (telegram_identity_key telegram_user_id);
            existing = lookup_identity (work s) key_hash;
            s1 = rollback_seeing (others 0) s
        in case existing of
             Some row \<Rightarrow> (s1, Inr (as_identity row))
           | None \<Rightarrow>
               if Some telegram_user_id = reserved then fail_closed_collision s1 key_hash None
               else case insert_identity s1 key_hash telegram_user_id TELEGRAM_RAW of
                      (s2, Some row) \<Rightarrow>
                        (commit (record_identity_created s2 row key_hash 1), Inr (as_identity row))
                    | (s2, None) \<Rightarrow>
                        (let s3 = rollback_seeing (others 1) s2;
                             concurrent = lookup_identity (work s3) key_hash;
                             s4 = rollback_seeing (others 2) s3
                         in case concurrent of
                              Some row \<Rightarrow> (s4, Inr (as_identity row))
                            | None \<Rightarrow>
                                (let occupied = find (\<lambda>r. pi_gateway_user_id r = telegram_user_id)
                                                  (payer_identities (work s4));
                                     s5 = rollback_seeing (others 3) s4
                                 in fail_closed_collision s5 key_hash occupied)))"

text \<open>The loop \<open>for attempt in range(_MAX_DERIVATION_ATTEMPTS)\<close>, from a given attempt on.\<close>

function order_hmac_loop ::
  "crypto \<Rightarrow> (nat \<Rightarrow> db \<Rightarrow> db) \<Rightarrow> session \<Rightarrow> string \<Rightarrow> string \<Rightarrow> int option \<Rightarrow> nat \<Rightarrow>
   session \<times> (bridge_error + payer_identity)" where
  "order_hmac_loop C others s secret identity_key reserved attempt =
     (if attempt \<ge> MAX_DERIVATION_ATTEMPTS then (rollback s, Inl PayerIdentityAllocationError)
      else
        let key_hash = identity_key_hash C secret identity_key;
            candidate = derive_order_gateway_user_id C secret identity_key attempt
        in if Some candidate = reserved
           then order_hmac_loop C others s secret identity_key reserved (Suc attempt)
           else case insert_identity s key_hash candidate ORDER_HMAC of
                  (s1, Some row) \<Rightarrow>
                    (commit (record_identity_created s1 row key_hash (Suc attempt)), Inr (as_identity row))
                | (s1, None) \<Rightarrow>
                    (let s2 = rollback_seeing (others (2 * attempt + 1)) s1;
                         concurrent = lookup_identity (work s2) key_hash;
                         s3 = rollback_seeing (others (2 * attempt + 2)) s2
                     in case concurrent of
                          Some row \<Rightarrow> (s3, Inr (as_identity row))
                        | None \<Rightarrow> order_hmac_loop C others s3 secret identity_key reserved (Suc attempt)))"
  by pat_completeness auto

termination
  by (relation "measure (\<lambda>(_, _, _, _, _, _, attempt). MAX_DERIVATION_ATTEMPTS - attempt)") auto

declare order_hmac_loop.simps [simp del]

definition resolve_order_hmac ::
  "crypto \<Rightarrow> (nat \<Rightarrow> db \<Rightarrow> db) \<Rightarrow> session \<Rightarrow> string \<Rightarrow> string \<Rightarrow> int option \<Rightarrow>
   session \<times> (bridge_error + payer_identity)" where
  "resolve_order_hmac C others s secret identity_key reserved =
     (let existing = lookup_identity (work s) (identity_key_hash C secret identity_key);
          s1 = rollback_seeing (others 0) s
      in case existing of
           Some row \<Rightarrow> (s1, Inr (as_identity row))
         | None \<Rightarrow> order_hmac_loop C others s1 secret identity_key reserved 0)"

definition resolve_payer_identity ::
  "crypto \<Rightarrow> (nat \<Rightarrow> db \<Rightarrow> db) \<Rightarrow> session \<Rightarrow> string \<Rightarrow> string \<Rightarrow> int option \<Rightarrow> int option \<Rightarrow>
   session \<times> (bridge_error + payer_identity)" where
  "resolve_payer_identity C others s secret identity_key telegram_user_id reserved =
     (case telegram_user_id of
        Some t \<Rightarrow> resolve_telegram_raw C others s secret t reserved
      | None \<Rightarrow> resolve_order_hmac C others s secret identity_key reserved)"

section \<open>Invariant of the mapping table\<close>

text \<open>
  Every row is of one of three kinds: a Telegram user with his own number, an order fallback with a
  number of the reserved range, or a historical row under a key of the retired domain. Neither of
  the first two carries the legacy shared number, and keys and numbers are unique.
\<close>

definition row_ok :: "crypto \<Rightarrow> string \<Rightarrow> int option \<Rightarrow> payer_row \<Rightarrow> bool" where
  "row_ok C secret reserved r \<longleftrightarrow>
     (case pi_identity_scheme r of
        TELEGRAM_RAW \<Rightarrow>
          1 \<le> pi_gateway_user_id r \<and> pi_gateway_user_id r \<le> MAX_TELEGRAM_USER_ID
        \<and> Some (pi_gateway_user_id r) \<noteq> reserved
        \<and> pi_customer_key_hash r = identity_key_hash C secret (telegram_identity_key (pi_gateway_user_id r))
      | ORDER_HMAC \<Rightarrow>
          ORDER_FALLBACK_MIN \<le> pi_gateway_user_id r
        \<and> pi_gateway_user_id r < ORDER_FALLBACK_MIN + ORDER_FALLBACK_SPAN
        \<and> Some (pi_gateway_user_id r) \<noteq> reserved
        \<and> (\<exists>b. pi_customer_key_hash r = identity_key_hash C secret (order_identity_key b))
      | HISTORICAL_HMAC \<Rightarrow>
          (\<exists>k. pi_customer_key_hash r = historical_identity_key_hash C secret k))"

definition identities_ok :: "crypto \<Rightarrow> string \<Rightarrow> int option \<Rightarrow> db \<Rightarrow> bool" where
  "identities_ok C secret reserved d \<longleftrightarrow>
     (\<forall>r\<in>set (payer_identities d). row_ok C secret reserved r)
   \<and> distinct (map pi_customer_key_hash (payer_identities d))
   \<and> distinct (map pi_gateway_user_id (payer_identities d))"

definition interference_ok :: "crypto \<Rightarrow> string \<Rightarrow> int option \<Rightarrow> (nat \<Rightarrow> db \<Rightarrow> db) \<Rightarrow> bool" where
  "interference_ok C secret reserved others \<longleftrightarrow>
     (\<forall>k d. identities_ok C secret reserved d \<longrightarrow>
        identities_ok C secret reserved (others k d)
      \<and> set (payer_identities d) \<subseteq> set (payer_identities (others k d)))"

lemma interference_okD:
  assumes "interference_ok C secret reserved others" "identities_ok C secret reserved d"
  shows "identities_ok C secret reserved (others k d)"
    "set (payer_identities d) \<subseteq> set (payer_identities (others k d))"
  using assms by (auto simp: interference_ok_def)

lemma interference_none: "interference_ok C secret reserved (\<lambda>k d. d)"
  by (simp add: interference_ok_def)

lemma lookup_identity_Some:
  "lookup_identity d h = Some r \<Longrightarrow> r \<in> set (payer_identities d) \<and> pi_customer_key_hash r = h"
  by (auto simp: lookup_identity_def dest: find_SomeD)

lemma insert_identity_Some:
  assumes "insert_identity s h g sch = (s', Some row)"
  shows "durable s' = durable s" "payer_identities (work s') = payer_identities (work s) @ [row]"
    "pi_customer_key_hash row = h" "pi_gateway_user_id row = g" "pi_identity_scheme row = sch"
    "\<forall>r\<in>set (payer_identities (work s)). pi_customer_key_hash r \<noteq> h \<and> pi_gateway_user_id r \<noteq> g"
  using assms by (auto simp: insert_identity_def Let_def list_ex_iff split: if_splits)

lemma insert_identity_None:
  "insert_identity s h g sch = (s', None) \<Longrightarrow> durable s' = durable s \<and> work s' = work s"
  by (auto simp: insert_identity_def Let_def split: if_splits)

lemma identities_ok_insert:
  assumes "identities_ok C secret reserved (work s)" "insert_identity s h g sch = (s', Some row)"
    and "row_ok C secret reserved row"
  shows "identities_ok C secret reserved (work s')"
  using assms insert_identity_Some [OF assms(2)] by (auto simp: identities_ok_def)

lemma derive_order_range:
  "ORDER_FALLBACK_MIN \<le> derive_order_gateway_user_id C secret k n"
  "derive_order_gateway_user_id C secret k n < ORDER_FALLBACK_MIN + ORDER_FALLBACK_SPAN"
  by (simp_all add: derive_order_gateway_user_id_def Let_def ORDER_FALLBACK_SPAN_def)

section \<open>Resolution returns a row of the table\<close>

text \<open>
  \<open>resolved\<close>: the outcome of a resolution for a key hash. The table is in order and has lost
  no row, and a returned identity is that of a committed row under the hash.
\<close>

definition resolved ::
  "crypto \<Rightarrow> string \<Rightarrow> int option \<Rightarrow> session \<Rightarrow> string \<Rightarrow> session \<times> (bridge_error + payer_identity) \<Rightarrow> bool" where
  "resolved C secret reserved s key_hash out \<longleftrightarrow>
     identities_ok C secret reserved (durable (fst out))
   \<and> set (payer_identities (durable s)) \<subseteq> set (payer_identities (durable (fst out)))
   \<and> (case snd out of
        Inl _ \<Rightarrow> True
      | Inr ident \<Rightarrow>
          (\<exists>row\<in>set (payer_identities (durable (fst out))).
             pi_customer_key_hash row = key_hash \<and> ident = as_identity row))"

lemma record_identity_created_sel [simp]:
  "durable (record_identity_created s row h n) = durable s"
  "payer_identities (work (record_identity_created s row h n)) = payer_identities (work s)"
  by (simp_all add: record_identity_created_def)

lemma identities_ok_cong:
  "payer_identities d = payer_identities d' \<Longrightarrow> identities_ok C secret reserved d = identities_ok C secret reserved d'"
  by (simp add: identities_ok_def)

lemma resolved_existing:
  assumes "identities_ok C secret reserved (durable s)" "interference_ok C secret reserved others"
    and "lookup_identity (durable s) h = Some row"
  shows "resolved C secret reserved s h (rollback_seeing (others k) s, Inr (as_identity row))"
  using assms interference_okD [OF assms(2,1)] lookup_identity_Some [OF assms(3)]
  by (auto simp: resolved_def)

lemma resolved_created:
  assumes "identities_ok C secret reserved (work s1)" "work s1 = durable s1"
    and "insert_identity s1 h g sch = (s2, Some row)" "row_ok C secret reserved row"
    and "set (payer_identities (durable s)) \<subseteq> set (payer_identities (durable s1))"
  shows "resolved C secret reserved s h (commit (record_identity_created s2 row h n), Inr (as_identity row))"
proof -
  have "identities_ok C secret reserved (work (record_identity_created s2 row h n))"
    using identities_ok_insert [OF assms(1,3,4)] by (simp cong: identities_ok_cong add: identities_ok_def)
  then show ?thesis
    using insert_identity_Some [OF assms(3)] assms(2,5) by (auto simp: resolved_def)
qed

lemma resolved_collision:
  assumes "identities_ok C secret reserved (durable s1)" "work s1 = durable s1"
    and "set (payer_identities (durable s)) \<subseteq> set (payer_identities (durable s1))"
  shows "resolved C secret reserved s h (fail_closed_collision s1 h' occ)"
  using assms by (simp add: resolved_def fail_closed_collision_def identities_ok_def)

lemma resolved_trans:
  "resolved C secret reserved s1 h out \<Longrightarrow>
   set (payer_identities (durable s)) \<subseteq> set (payer_identities (durable s1)) \<Longrightarrow>
   resolved C secret reserved s h out"
  by (auto simp: resolved_def)

lemma row_ok_telegram:
  assumes "1 \<le> t" "t \<le> MAX_TELEGRAM_USER_ID" "Some t \<noteq> reserved"
    and "insert_identity s (identity_key_hash C secret (telegram_identity_key t)) t TELEGRAM_RAW = (s', Some row)"
  shows "row_ok C secret reserved row"
  using assms(1-3) insert_identity_Some(3-5) [OF assms(4)] by (simp add: row_ok_def)

lemma row_ok_order:
  assumes "Some (derive_order_gateway_user_id C secret (order_identity_key b) n) \<noteq> reserved"
    and "insert_identity s (identity_key_hash C secret (order_identity_key b))
           (derive_order_gateway_user_id C secret (order_identity_key b) n) ORDER_HMAC = (s', Some row)"
  shows "row_ok C secret reserved row"
  using assms(1) insert_identity_Some(3-5) [OF assms(2)] derive_order_range [of C secret "order_identity_key b" n]
  by (auto simp: row_ok_def)

lemma resolve_telegram_raw_resolved:
  assumes ok: "identities_ok C secret reserved (durable s)" and w: "work s = durable s"
    and int: "interference_ok C secret reserved others"
  shows "resolved C secret reserved s (identity_key_hash C secret (telegram_identity_key t))
           (resolve_telegram_raw C others s secret t reserved)"
proof -
  let ?h = "identity_key_hash C secret (telegram_identity_key t)"
  let ?s1 = "rollback_seeing (others 0) s"
  note d1 = interference_okD [OF int ok, of 0]
  show ?thesis
  proof (cases "1 \<le> t \<and> t \<le> MAX_TELEGRAM_USER_ID")
    case False
    then show ?thesis using ok by (simp add: resolve_telegram_raw_def resolved_def)
  next
    case range: True
    show ?thesis
    proof (cases "lookup_identity (durable s) ?h")
      case (Some row)
      then show ?thesis
        using range w resolved_existing [OF ok int Some] by (simp add: resolve_telegram_raw_def Let_def)
    next
      case lookup: None
      show ?thesis
      proof (cases "Some t = reserved")
        case True
        then show ?thesis
          using range w lookup resolved_collision [of C secret reserved ?s1 s] d1
          by (simp add: resolve_telegram_raw_def Let_def)
      next
        case free: False
        obtain s2 r where ins: "insert_identity ?s1 ?h t TELEGRAM_RAW = (s2, r)" by fastforce
        show ?thesis
        proof (cases r)
          case (Some row)
          have "resolved C secret reserved s ?h (commit (record_identity_created s2 row ?h 1), Inr (as_identity row))"
            using ins Some range free d1 row_ok_telegram [of t reserved ?s1 C secret s2 row]
            by (intro resolved_created) auto
          then show ?thesis
            using range w lookup free ins Some by (simp add: resolve_telegram_raw_def Let_def)
        next
          case None
          have s2: "durable s2 = others 0 (durable s)"
            using insert_identity_None [OF ins [unfolded None]] by simp
          note d2 = interference_okD [OF int d1(1), of 1]
          note d3 = interference_okD [OF int d2(1), of 2]
          note d4 = interference_okD [OF int d3(1), of 3]
          show ?thesis
          proof (cases "lookup_identity (others 1 (durable s2)) ?h")
            case (Some row)
            have "resolved C secret reserved (rollback_seeing (others 1) s2) ?h
                (rollback_seeing (others 2) (rollback_seeing (others 1) s2), Inr (as_identity row))"
              using d2 s2 int Some by (intro resolved_existing) simp_all
            then have "resolved C secret reserved s ?h
                (rollback_seeing (others 2) (rollback_seeing (others 1) s2), Inr (as_identity row))"
              by (rule resolved_trans) (use d1 d2 s2 in auto)
            then show ?thesis
              using range w lookup free ins None Some by (simp add: resolve_telegram_raw_def Let_def)
          next
            case none2: None
            show ?thesis
              using range w lookup free ins None none2 s2 d1 d2 d3 d4
              by (simp add: resolve_telegram_raw_def Let_def) (rule resolved_collision; auto)
          qed
        qed
      qed
    qed
  qed
qed

lemma order_hmac_loop_resolved:
  assumes "identities_ok C secret reserved (durable s)" and "work s = durable s"
    and int: "interference_ok C secret reserved others" and key: "identity_key = order_identity_key b"
  shows "resolved C secret reserved s (identity_key_hash C secret identity_key)
           (order_hmac_loop C others s secret identity_key reserved attempt)"
  using assms
proof (induction C others s secret identity_key reserved attempt rule: order_hmac_loop.induct)
  case (1 C others s secret identity_key reserved attempt)
  let ?h = "identity_key_hash C secret identity_key"
  let ?c = "derive_order_gateway_user_id C secret identity_key attempt"
  note prems = "1.prems"
  show ?case
  proof (cases "attempt \<ge> MAX_DERIVATION_ATTEMPTS")
    case True
    then show ?thesis using prems(1) by (simp add: order_hmac_loop.simps resolved_def)
  next
    case lt: False
    show ?thesis
    proof (cases "Some ?c = reserved")
      case True
      then show ?thesis
        using lt "1.IH"(1) [OF _ refl refl] prems by (subst order_hmac_loop.simps) simp
    next
      case free: False
      obtain s1 r where ins: "insert_identity s ?h ?c ORDER_HMAC = (s1, r)" by fastforce
      show ?thesis
      proof (cases r)
        case (Some row)
        have "resolved C secret reserved s ?h
            (commit (record_identity_created s1 row ?h (Suc attempt)), Inr (as_identity row))"
          using ins Some free prems row_ok_order [of C secret b attempt reserved s s1 row]
          by (intro resolved_created) auto
        then show ?thesis using lt free ins Some by (subst order_hmac_loop.simps) (simp add: Let_def)
      next
        case None
        have s1: "durable s1 = durable s" using insert_identity_None [OF ins [unfolded None]] by simp
        note d2 = interference_okD [OF prems(3,1), of "2 * attempt + 1"]
        note d3 = interference_okD [OF prems(3) d2(1), of "2 * attempt + 2"]
        let ?s2 = "rollback_seeing (others (2 * attempt + 1)) s1"
        let ?s3 = "rollback_seeing (others (2 * attempt + 2)) ?s2"
        show ?thesis
        proof (cases "lookup_identity (work ?s2) ?h")
          case (Some row)
          have "resolved C secret reserved ?s2 ?h (?s3, Inr (as_identity row))"
            using d2 s1 Some prems(3) by (intro resolved_existing) simp_all
          then have "resolved C secret reserved s ?h (?s3, Inr (as_identity row))"
            by (rule resolved_trans) (use d2 s1 in auto)
          then show ?thesis
            using lt free ins None Some by (subst order_hmac_loop.simps) (simp add: Let_def)
        next
          case none2: None
          have "resolved C secret reserved ?s3 ?h
              (order_hmac_loop C others ?s3 secret identity_key reserved (Suc attempt))"
            using lt free none2 prems d3 s1
            by (intro "1.IH"(2) [OF _ refl refl _ ins [symmetric, unfolded None] None [symmetric, unfolded None]
                  refl refl refl]) simp_all
          then have "resolved C secret reserved s ?h
              (order_hmac_loop C others ?s3 secret identity_key reserved (Suc attempt))"
            by (rule resolved_trans) (use d2 d3 s1 in auto)
          then show ?thesis
            using lt free ins None none2 by (subst order_hmac_loop.simps) (simp add: Let_def)
        qed
      qed
    qed
  qed
qed

lemma resolve_order_hmac_resolved:
  assumes "identities_ok C secret reserved (durable s)" and "work s = durable s"
    and "interference_ok C secret reserved others"
  shows "resolved C secret reserved s (identity_key_hash C secret (order_identity_key b))
           (resolve_order_hmac C others s secret (order_identity_key b) reserved)"
proof (cases "lookup_identity (durable s) (identity_key_hash C secret (order_identity_key b))")
  case (Some row)
  then show ?thesis
    using assms(2) resolved_existing [OF assms(1,3) Some] by (simp add: resolve_order_hmac_def Let_def)
next
  case None
  note d1 = interference_okD [OF assms(3,1), of 0]
  have "resolved C secret reserved (rollback_seeing (others 0) s) (identity_key_hash C secret (order_identity_key b))
      (order_hmac_loop C others (rollback_seeing (others 0) s) secret (order_identity_key b) reserved 0)"
    using d1 assms(3) by (intro order_hmac_loop_resolved) simp_all
  then have "resolved C secret reserved s (identity_key_hash C secret (order_identity_key b))
      (order_hmac_loop C others (rollback_seeing (others 0) s) secret (order_identity_key b) reserved 0)"
    by (rule resolved_trans) (use d1 in simp)
  with None show ?thesis using assms(2) by (simp add: resolve_order_hmac_def Let_def)
qed

section \<open>What resolution leaves alone\<close>

text \<open>
  With no interference, resolution touches the mapping table and the trail only: payments, fee
  policies, the payment sequence and the clock are as before, and nothing is left uncommitted.
\<close>

definition only_identities :: "session \<Rightarrow> session \<Rightarrow> bool" where
  "only_identities s s' \<longleftrightarrow>
     payments (durable s') = payments (durable s) \<and> fee_policies (durable s') = fee_policies (durable s)
   \<and> sq_payment (seq s') = sq_payment (seq s) \<and> clock s' = clock s \<and> work s' = durable s'"

lemma only_identities_trans: "only_identities s t \<Longrightarrow> only_identities t u \<Longrightarrow> only_identities s u"
  by (simp add: only_identities_def)

lemma only_identities_refl [simp]: "work s = durable s \<Longrightarrow> only_identities s s"
  by (simp add: only_identities_def)

lemma only_identities_rollback [simp]: "only_identities s (rollback_seeing (\<lambda>d. d) s)" "only_identities s (rollback s)"
  by (simp_all add: only_identities_def)

lemma insert_identity_frame:
  assumes "insert_identity s h g sch = (s', r)" "work s = durable s"
  shows "payments (work s') = payments (durable s)" "fee_policies (work s') = fee_policies (durable s)"
    "durable s' = durable s" "sq_payment (seq s') = sq_payment (seq s)" "clock s' = clock s"
  using assms by (auto simp: insert_identity_def Let_def split: if_splits)

lemma only_identities_created:
  assumes "insert_identity s h g sch = (s', r)" "work s = durable s"
  shows "only_identities s (commit (record_identity_created s' row h n))"
  using insert_identity_frame [OF assms] by (simp add: only_identities_def record_identity_created_def)

lemma only_identities_collision: "work s = durable s \<Longrightarrow> only_identities s (fst (fail_closed_collision s h occ))"
  by (simp add: only_identities_def fail_closed_collision_def)

lemma only_identities_seen:
  assumes "insert_identity s h g sch = (s', r)" "work s = durable s"
  shows "only_identities s (rollback_seeing (\<lambda>d. d) s')"
  using insert_identity_frame [OF assms] by (simp add: only_identities_def)

lemma resolve_telegram_raw_only:
  assumes "work s = durable s"
  shows "only_identities s (fst (resolve_telegram_raw C (\<lambda>_ d. d) s secret t reserved))"
proof -
  let ?h = "identity_key_hash C secret (telegram_identity_key t)"
  let ?s1 = "rollback_seeing (\<lambda>d. d) s"
  obtain s2 r where ins: "insert_identity ?s1 ?h t TELEGRAM_RAW = (s2, r)" by fastforce
  have made: "only_identities s (commit (record_identity_created s2 row ?h n))" for row n
    by (rule only_identities_trans [OF only_identities_rollback(1) only_identities_created [OF ins]]) simp
  have seen: "only_identities s (rollback_seeing (\<lambda>d. d) s2)"
    by (rule only_identities_trans [OF only_identities_rollback(1) only_identities_seen [OF ins]]) simp
  then have seen2: "only_identities s (rollback_seeing (\<lambda>d. d) (rollback_seeing (\<lambda>d. d) s2))"
    by (rule only_identities_trans) simp
  have fail1: "only_identities s (fst (fail_closed_collision ?s1 ?h occ))" for occ
    by (rule only_identities_trans [OF only_identities_rollback(1) only_identities_collision]) simp
  have fail: "only_identities s (fst (fail_closed_collision
      (rollback_seeing (\<lambda>d. d) (rollback_seeing (\<lambda>d. d) (rollback_seeing (\<lambda>d. d) s2))) ?h occ))" for occ
    by (rule only_identities_trans [OF only_identities_trans [OF seen2 only_identities_rollback(1)]
          only_identities_collision]) simp
  show ?thesis
    using assms made seen2 fail1 fail ins
    by (simp add: resolve_telegram_raw_def Let_def split: option.split)
qed

lemma order_hmac_loop_only:
  assumes "others = (\<lambda>_ d. d)" "work s = durable s"
  shows "only_identities s (fst (order_hmac_loop C others s secret identity_key reserved attempt))"
  using assms
proof (induction C others s secret identity_key reserved attempt rule: order_hmac_loop.induct)
  case (1 C others s secret identity_key reserved attempt)
  let ?h = "identity_key_hash C secret identity_key"
  let ?c = "derive_order_gateway_user_id C secret identity_key attempt"
  obtain s1 r where ins: "insert_identity s ?h ?c ORDER_HMAC = (s1, r)" by fastforce
  let ?s2 = "rollback_seeing (\<lambda>d. d) s1"
  let ?s3 = "rollback_seeing (\<lambda>d. d) ?s2"
  have s3: "only_identities s ?s3"
    by (rule only_identities_trans [OF only_identities_seen [OF ins "1.prems"(2)] only_identities_rollback(1)])
  have next_skip: "\<not> MAX_DERIVATION_ATTEMPTS \<le> attempt \<Longrightarrow> Some ?c = reserved \<Longrightarrow>
      only_identities s (fst (order_hmac_loop C others s secret identity_key reserved (Suc attempt)))"
    using "1.IH"(1) [OF _ refl refl] "1.prems" by simp
  have next_try: "only_identities s (fst (order_hmac_loop C others ?s3 secret identity_key reserved (Suc attempt)))"
    if "\<not> MAX_DERIVATION_ATTEMPTS \<le> attempt" "Some ?c \<noteq> reserved" "r = None" "lookup_identity (work ?s2) ?h = None"
    using "1.IH"(2) [OF that(1) refl refl that(2) ins [symmetric] that(3), of ?s2 "lookup_identity (work ?s2) ?h" ?s3]
      that(4) "1.prems" by (intro only_identities_trans [OF s3]) simp
  show ?case
    using "1.prems" next_skip next_try s3 only_identities_created [OF ins "1.prems"(2)] ins
    by (subst order_hmac_loop.simps) (auto simp: Let_def split: option.split)
qed

lemma resolve_payer_identity_only:
  assumes "work s = durable s"
  shows "only_identities s (fst (resolve_payer_identity C (\<lambda>_ d. d) s secret k t reserved))"
proof (cases t)
  case (Some i)
  then show ?thesis using resolve_telegram_raw_only [OF assms] by (simp add: resolve_payer_identity_def)
next
  case None
  have "only_identities s (fst (order_hmac_loop C (\<lambda>_ d. d) (rollback_seeing (\<lambda>d. d) s) secret k reserved 0))"
    by (rule only_identities_trans [OF only_identities_rollback(1) order_hmac_loop_only]) simp_all
  then show ?thesis
    using None by (simp add: resolve_payer_identity_def resolve_order_hmac_def Let_def split: option.split)
qed

section \<open>Resolution of a request\<close>

text \<open>The identity key the callers build: the user's when there is one, else the order's.\<close>

definition scoped_key :: "int option \<Rightarrow> string \<Rightarrow> string" where
  "scoped_key t b = (case t of Some i \<Rightarrow> telegram_identity_key i | None \<Rightarrow> order_identity_key b)"

lemma resolve_payer_identity_resolved:
  assumes "identities_ok C secret reserved (durable s)" and "work s = durable s"
    and "interference_ok C secret reserved others"
  shows "resolved C secret reserved s (identity_key_hash C secret (scoped_key t b))
           (resolve_payer_identity C others s secret (scoped_key t b) t reserved)"
  using resolve_telegram_raw_resolved [OF assms] resolve_order_hmac_resolved [OF assms]
  by (cases t) (simp_all add: resolve_payer_identity_def scoped_key_def)

section \<open>Who gets which number\<close>

lemma telegram_key_inject [simp]: "telegram_identity_key a = telegram_identity_key b \<longleftrightarrow> a = b"
  by (simp add: telegram_identity_key_def)

lemma key_scopes_differ [simp]:
  "telegram_identity_key a \<noteq> order_identity_key b" "order_identity_key b \<noteq> telegram_identity_key a"
  by (simp_all add: telegram_identity_key_def order_identity_key_def)

lemma identity_key_hash_inject:
  assumes "inj (hmac_sha256_hex C secret)"
  shows "identity_key_hash C secret a = identity_key_hash C secret b \<longleftrightarrow> a = b"
    and "identity_key_hash C secret a \<noteq> historical_identity_key_hash C secret b"
proof -
  show "identity_key_hash C secret a = identity_key_hash C secret b \<longleftrightarrow> a = b"
    unfolding identity_key_hash_def inj_eq [OF assms] by simp
  show "identity_key_hash C secret a \<noteq> historical_identity_key_hash C secret b"
    unfolding identity_key_hash_def historical_identity_key_hash_def inj_eq [OF assms]
    by (simp add: KEY_DOMAIN_def HISTORICAL_KEY_DOMAIN_def)
qed

text \<open>\<open>number_for t\<close>: the numbers an identity of that scope may carry.\<close>

definition number_for :: "int option \<Rightarrow> int \<Rightarrow> bool" where
  "number_for t g =
     (case t of
        Some i \<Rightarrow> g = i \<and> 1 \<le> g \<and> g \<le> MAX_TELEGRAM_USER_ID
      | None \<Rightarrow> MAX_TELEGRAM_USER_ID < g \<and> ORDER_FALLBACK_MIN \<le> g \<and> g < ORDER_FALLBACK_MIN + ORDER_FALLBACK_SPAN)"

lemma row_ok_number:
  assumes "inj (hmac_sha256_hex C secret)" "row_ok C secret reserved r"
    and "pi_customer_key_hash r = identity_key_hash C secret (scoped_key t b)"
  shows "number_for t (pi_gateway_user_id r) \<and> Some (pi_gateway_user_id r) \<noteq> reserved
       \<and> pi_identity_scheme r = (if t = None then ORDER_HMAC else TELEGRAM_RAW)"
  using assms(2,3) identity_key_hash_inject [OF assms(1)]
  by (cases t; cases "pi_identity_scheme r")
     (auto simp: row_ok_def number_for_def scoped_key_def MAX_TELEGRAM_USER_ID_def ORDER_FALLBACK_MIN_def)

text \<open>
  Whatever other sessions commit meanwhile, a resolution that returns gives a Telegram user
  exactly his own number under the raw scheme, and an order without a user a number of the
  reserved range, which lies above every Telegram number; the legacy shared number is never given
  out. The MAC is assumed to separate messages under the deployment's secret.
\<close>

theorem resolve_payer_identity_number:
  assumes "inj (hmac_sha256_hex C secret)"
    and "identities_ok C secret reserved (durable s)" and "work s = durable s"
    and "interference_ok C secret reserved others"
    and "resolve_payer_identity C others s secret (scoped_key t b) t reserved = (s', Inr ident)"
  shows "number_for t (pid_gateway_user_id ident) \<and> Some (pid_gateway_user_id ident) \<noteq> reserved
       \<and> pid_scheme ident = (if t = None then ORDER_HMAC else TELEGRAM_RAW)
       \<and> identities_ok C secret reserved (durable s')"
proof -
  have r: "resolved C secret reserved s (identity_key_hash C secret (scoped_key t b)) (s', Inr ident)"
    using resolve_payer_identity_resolved [OF assms(2-4), of t b] assms(5) by simp
  then obtain row where "row \<in> set (payer_identities (durable s'))"
    "pi_customer_key_hash row = identity_key_hash C secret (scoped_key t b)" "ident = as_identity row"
    and ok: "identities_ok C secret reserved (durable s')"
    by (auto simp: resolved_def)
  then show ?thesis
    using row_ok_number [OF assms(1), of reserved row t b] by (auto simp: identities_ok_def as_identity_def)
qed

definition demo_separating :: crypto where
  "demo_separating = \<lparr>hmac_sha256_hex = (\<lambda>k m. m), sha256_hex = (\<lambda>m. m)\<rparr>"

lemma demo_separating_inj: "inj (hmac_sha256_hex demo_separating k)"
  by (simp add: demo_separating_def inj_def)

lemma demo_resolve:
  "resolve_payer_identity demo_separating (\<lambda>k d. d) (new_session empty_db 5) ''k'' (scoped_key (Some 42) ''o1'')
     (Some 42) (Some 777)
   = (fst (resolve_payer_identity demo_separating (\<lambda>k d. d) (new_session empty_db 5) ''k''
        (scoped_key (Some 42) ''o1'') (Some 42) (Some 777)),
      Inr \<lparr>pid_id = 101, pid_gateway_user_id = 42, pid_derivation_version = 2, pid_scheme = TELEGRAM_RAW\<rparr>)"
  by (simp add: resolve_payer_identity_def resolve_telegram_raw_def MAX_TELEGRAM_USER_ID_def Let_def
      lookup_identity_def new_session_def empty_db_def rollback_seeing_def insert_identity_def
      as_identity_def DERIVATION_VERSION_def)

lemma demo_session_ok:
  "identities_ok C k reserved (durable (new_session empty_db 5))"
  "work (new_session empty_db 5) = durable (new_session empty_db 5)"
  by (simp_all add: identities_ok_def new_session_def empty_db_def)

theorem resolve_payer_identity_number_witness:
  "\<exists>s' ident. resolve_payer_identity demo_separating (\<lambda>k d. d) (new_session empty_db 5) ''k''
       (scoped_key (Some 42) ''o1'') (Some 42) (Some 777) = (s', Inr ident)
     \<and> number_for (Some 42) (pid_gateway_user_id ident) \<and> Some (pid_gateway_user_id ident) \<noteq> Some 777"
  using resolve_payer_identity_number
    [OF demo_separating_inj demo_session_ok interference_none demo_resolve] demo_resolve
  by (intro exI conjI) auto



end
