(* ===== verification/Bot.thy ===== *)
theory Bot
  imports Models
begin

text \<open>
  The bot notification client (\<open>app/bot.py\<close>): what an HTTP reply or a transport failure says about
  a delivery attempt. The exchange itself is a parameter of the delivery layer: it yields a
  \<open>bot_reply\<close>, the response's status and Retry-After header or the exception raised. The body is
  not part of it: classification never reads it.
\<close>

datatype outcome_kind = ACCEPTED | RETRYABLE | AMBIGUOUS | MANUAL

record attempt_outcome =
  oc_kind :: outcome_kind
  oc_reason_code :: reason_code
  oc_log_event :: string
  oc_http_status :: "int option"
  oc_error_code :: "string option"
  oc_retry_after_seconds :: "int option"

text \<open>The exceptions the classifier tells apart, each with the name of its class.\<close>

datatype transport_error =
    ConnectError string string
  | ConnectTimeout string
  | PoolTimeout string
  | OtherHttpError string

datatype bot_reply =
    BotResponse int "string option"
  | BotFailure transport_error

definition RETRYABLE_HTTP :: "(int \<times> reason_code) list" where
  "RETRYABLE_HTTP = [(500, BOT_HTTP_500), (502, BOT_HTTP_502), (503, BOT_HTTP_503), (504, BOT_HTTP_504)]"

definition MANUAL_HTTP :: "(int \<times> reason_code) list" where
  "MANUAL_HTTP = [(400, BOT_HTTP_400), (401, BOT_HTTP_401), (403, BOT_HTTP_403), (404, BOT_HTTP_404),
                  (409, BOT_HTTP_409), (422, BOT_HTTP_422)]"

definition DNS_MARKERS :: "string list" where
  "DNS_MARKERS = [''getaddrinfo'', ''name or service not known'', ''temporary failure in name resolution'',
     ''no address associated'', ''nodename nor servname'', ''[errno -2]'', ''[errno -3]'', ''[errno -5]'']"

definition REFUSED_MARKERS :: "string list" where
  "REFUSED_MARKERS = [''connection refused'', ''[errno 111]'', ''econnrefused'']"

definition MAX_RETRY_AFTER_SECONDS :: int where
  "MAX_RETRY_AFTER_SECONDS = 3600"

text \<open>\<open>sub in s\<close>\<close>

fun contains :: "string \<Rightarrow> string \<Rightarrow> bool" where
  "contains sub [] = (sub = [])"
| "contains sub (c # s) = (take (length sub) (c # s) = sub \<or> contains sub s)"

definition parse_retry_after :: "string option \<Rightarrow> int option" where
  "parse_retry_after v =
     (case v of
        None \<Rightarrow> None
      | Some t \<Rightarrow>
          (let stripped = strip t
           in if \<not> is_ascii_decimal stripped then None
              else case py_int_of_digits stripped of
                     None \<Rightarrow> None
                   | Some seconds \<Rightarrow> if seconds \<le> 0 then None else Some (min seconds MAX_RETRY_AFTER_SECONDS)))"

definition classify_response :: "int \<Rightarrow> string option \<Rightarrow> attempt_outcome" where
  "classify_response status retry_after =
     (if 200 \<le> status \<and> status < 300 then
        \<lparr>oc_kind = ACCEPTED, oc_reason_code = BOT_ACCEPTED_REASON, oc_log_event = ''bot_notification_accepted'',
         oc_http_status = Some status, oc_error_code = None, oc_retry_after_seconds = None\<rparr>
      else case map_of RETRYABLE_HTTP status of
        Some rc \<Rightarrow>
          \<lparr>oc_kind = RETRYABLE, oc_reason_code = rc, oc_log_event = ''bot_http_5xx'',
           oc_http_status = Some status, oc_error_code = Some (''http_'' @ show_int status),
           oc_retry_after_seconds = None\<rparr>
      | None \<Rightarrow>
          if status = 429 then
            \<lparr>oc_kind = RETRYABLE, oc_reason_code = BOT_HTTP_429, oc_log_event = ''bot_http_4xx'',
             oc_http_status = Some status, oc_error_code = Some ''http_429'',
             oc_retry_after_seconds = parse_retry_after retry_after\<rparr>
          else case map_of MANUAL_HTTP status of
            Some rc \<Rightarrow>
              \<lparr>oc_kind = MANUAL, oc_reason_code = rc, oc_log_event = ''bot_http_4xx'',
               oc_http_status = Some status, oc_error_code = Some (''http_'' @ show_int status),
               oc_retry_after_seconds = None\<rparr>
          | None \<Rightarrow>
              \<lparr>oc_kind = MANUAL, oc_reason_code = BOT_HTTP_OTHER,
               oc_log_event = (if status \<ge> 500 then ''bot_http_5xx'' else ''bot_http_4xx''),
               oc_http_status = Some status, oc_error_code = Some (''http_'' @ show_int status),
               oc_retry_after_seconds = None\<rparr>)"

definition classify_transport_error :: "transport_error \<Rightarrow> attempt_outcome" where
  "classify_transport_error exc =
     (let connection_failed = (\<lambda>reason name.
            \<lparr>oc_kind = RETRYABLE, oc_reason_code = reason, oc_log_event = ''bot_connection_failed'',
             oc_http_status = None, oc_error_code = Some name, oc_retry_after_seconds = None\<rparr>)
      in case exc of
           ConnectError name text \<Rightarrow>
             (let message = py_lower text;
                  reason = (if list_ex (\<lambda>m. contains m message) DNS_MARKERS then BOT_DNS_FAILED
                            else if list_ex (\<lambda>m. contains m message) REFUSED_MARKERS then BOT_CONNECTION_REFUSED
                            else BOT_CONNECTION_FAILED)
              in connection_failed reason name)
         | ConnectTimeout name \<Rightarrow> connection_failed BOT_CONNECTION_FAILED name
         | PoolTimeout name \<Rightarrow> connection_failed BOT_CONNECTION_FAILED name
         | OtherHttpError name \<Rightarrow>
             \<lparr>oc_kind = AMBIGUOUS, oc_reason_code = BOT_TIMEOUT_AMBIGUOUS, oc_log_event = ''bot_timeout_ambiguous'',
              oc_http_status = None, oc_error_code = Some name, oc_retry_after_seconds = None\<rparr>)"

definition classify_reply :: "bot_reply \<Rightarrow> attempt_outcome" where
  "classify_reply r =
     (case r of
        BotResponse status retry_after \<Rightarrow> classify_response status retry_after
      | BotFailure exc \<Rightarrow> classify_transport_error exc)"

section \<open>What the classification says\<close>

lemma parse_retry_after_bounds: "parse_retry_after v = Some n \<Longrightarrow> 1 \<le> n \<and> n \<le> 3600"
  by (auto simp: parse_retry_after_def MAX_RETRY_AFTER_SECONDS_def Let_def split: option.splits if_splits)

lemma map_of_RETRYABLE_HTTP:
  "map_of RETRYABLE_HTTP status = Some rc \<longleftrightarrow> (status, rc) \<in> set RETRYABLE_HTTP"
  by (rule map_of_eq_Some_iff) (simp add: RETRYABLE_HTTP_def)

text \<open>
  A delivery attempt is classified accepted exactly for a 2xx reply, ambiguous exactly for a
  transport failure after a connection was made, and retryable exactly when the reply was 429,
  500, 502, 503 or 504 or the connection was never made; every other reply needs a person.
\<close>

theorem classify_reply_kind:
  "oc_kind (classify_reply r) =
     (case r of
        BotResponse status _ \<Rightarrow>
          if status \<in> {200..<300} then ACCEPTED
          else if status \<in> {429, 500, 502, 503, 504} then RETRYABLE else MANUAL
      | BotFailure (OtherHttpError _) \<Rightarrow> AMBIGUOUS
      | BotFailure _ \<Rightarrow> RETRYABLE)"
proof (cases r)
  case (BotResponse status ra)
  show ?thesis
  proof (cases "map_of RETRYABLE_HTTP status")
    case None
    then have "status \<notin> {500, 502, 503, 504}" by (auto simp: RETRYABLE_HTTP_def)
    with None show ?thesis
      by (auto simp: BotResponse classify_reply_def classify_response_def split: option.split)
  next
    case (Some rc)
    then have "status \<in> {500, 502, 503, 504}"
      unfolding map_of_RETRYABLE_HTTP by (auto simp: RETRYABLE_HTTP_def)
    with Some show ?thesis
      by (auto simp: BotResponse classify_reply_def classify_response_def)
  qed
qed (simp add: classify_reply_def classify_transport_error_def Let_def split: transport_error.split)

end
