(* ===== verification/Contracts.thy ===== *)
theory Contracts
  imports Audit_Trail
begin

text \<open>
  The contracts the operations on the payment table share. \<open>row_protocol\<close> is a protocol for single
  rows, \<open>evolves\<close> the development of the table along it (rows move, none disappears, new ones are
  appended); \<open>row_operation\<close> is a whole transaction that keeps to a protocol; \<open>batch_operation\<close> is
  the loop that updates a list of locked rows one after another. The components interpret them
  with their own operations.
\<close>

section \<open>Protocols for rows\<close>

definition evolves :: "(payment \<Rightarrow> payment \<Rightarrow> bool) \<Rightarrow> db \<Rightarrow> db \<Rightarrow> bool" where
  "evolves R d d' \<longleftrightarrow>
     (\<exists>ys new. payments d' = ys @ new \<and> list_all2 R\<^sup>*\<^sup>* (payments d) ys)
   \<and> (distinct (map p_id (payments d)) \<longrightarrow> distinct (map p_id (payments d')))"

locale row_protocol =
  fixes R :: "payment \<Rightarrow> payment \<Rightarrow> bool"
  assumes step_id: "R p q \<Longrightarrow> p_id q = p_id p"
begin

lemma steps_id: "R\<^sup>*\<^sup>* p q \<Longrightarrow> p_id q = p_id p"
  by (induction rule: rtranclp_induct) (simp_all add: step_id)

lemma rows_ids: "list_all2 R\<^sup>*\<^sup>* xs ys \<Longrightarrow> map p_id ys = map p_id xs"
  by (erule list_all2_id_map) (simp add: steps_id)

lemma evolves_rows: "list_all2 R\<^sup>*\<^sup>* (payments d) (payments d') \<Longrightarrow> evolves R d d'"
  unfolding evolves_def using rows_ids [of "payments d" "payments d'"] by (intro conjI exI [of _ "payments d'"] exI [of _ "[]"]) auto

lemma evolves_same: "payments d' = payments d \<Longrightarrow> evolves R d d'"
  by (rule evolves_rows) (simp add: list.rel_refl_strong)

lemma evolves_put:
  assumes "distinct (map p_id (payments d))" "payment_by_id d (p_id p) = Some p" "R\<^sup>*\<^sup>* p q"
    and "payments d' = put_row p_id q (payments d)"
  shows "evolves R d d'"
  using assms steps_id [OF assms(3)]
  by (intro evolves_rows) (auto simp: payment_by_id_def intro!: put_row_list_all2 [of _ _ "p_id p" p])

lemma evolves_append:
  assumes "payments d' = payments d @ [p]" "p_id p \<notin> p_id ` set (payments d)"
  shows "evolves R d d'"
  unfolding evolves_def using assms
  by (intro conjI exI [of _ "payments d"] exI [of _ "[p]"]) (auto simp: list.rel_refl_strong)

lemma rows_trans: "list_all2 R\<^sup>*\<^sup>* xs ys \<Longrightarrow> list_all2 R\<^sup>*\<^sup>* ys zs \<Longrightarrow> list_all2 R\<^sup>*\<^sup>* xs zs"
  by (rule list_all2_trans [of _ _ _ xs ys zs]) auto

lemma evolves_trans:
  assumes "evolves R d e" "evolves R e f"
  shows "evolves R d f"
proof -
  obtain ys new where y: "payments e = ys @ new" "list_all2 R\<^sup>*\<^sup>* (payments d) ys"
    using assms(1) by (auto simp: evolves_def)
  obtain zs new' where z: "payments f = zs @ new'" "list_all2 R\<^sup>*\<^sup>* (ys @ new) zs"
    using assms(2) y(1) by (auto simp: evolves_def)
  obtain zs1 zs2 where "zs = zs1 @ zs2" "list_all2 R\<^sup>*\<^sup>* ys zs1"
    using z(2) by (auto simp: list_all2_append1)
  then have "payments f = zs1 @ (zs2 @ new')" "list_all2 R\<^sup>*\<^sup>* (payments d) zs1"
    using z(1) rows_trans [OF y(2)] by simp_all
  then show ?thesis using assms unfolding evolves_def by blast
qed

lemma rows_find:
  "list_all2 R\<^sup>*\<^sup>* xs ys \<Longrightarrow> find_row p_id xs i = Some p \<Longrightarrow> \<exists>q. find_row p_id ys i = Some q \<and> R\<^sup>*\<^sup>* p q"
  by (induction rule: list_all2_induct) (auto simp: find_row_def steps_id split: if_splits)

text \<open>A payment is never lost, and its later version is further along the protocol.\<close>

lemma evolves_find:
  assumes "evolves R d d'" "payment_by_id d i = Some p"
  obtains q where "payment_by_id d' i = Some q" "R\<^sup>*\<^sup>* p q"
proof -
  obtain ys new where "payments d' = ys @ new" "list_all2 R\<^sup>*\<^sup>* (payments d) ys"
    using assms(1) by (auto simp: evolves_def)
  moreover from this obtain q where "find_row p_id ys i = Some q" "R\<^sup>*\<^sup>* p q"
    using rows_find assms(2) unfolding payment_by_id_def by blast
  ultimately show ?thesis using that by (simp add: payment_by_id_def find_row_append)
qed

lemma steps_invariant: "R\<^sup>*\<^sup>* p q \<Longrightarrow> (\<And>p q. R p q \<Longrightarrow> I p \<Longrightarrow> I q) \<Longrightarrow> I p \<Longrightarrow> I q"
  by (induction rule: rtranclp_induct) auto

lemma rows_invariant:
  assumes "list_all2 R\<^sup>*\<^sup>* xs ys" "\<And>p q. R p q \<Longrightarrow> I p \<Longrightarrow> I q" "list_all I xs"
  shows "list_all I ys"
  using assms(1,3) by (induction rule: list_all2_induct) (auto intro: steps_invariant assms(2))

end

section \<open>Transactions that keep to a protocol\<close>

locale row_operation = row_protocol R for R +
  fixes op :: "session \<Rightarrow> session"
  assumes op_rows: "work s = durable s \<Longrightarrow> distinct (map p_id (payments (durable s))) \<Longrightarrow>
      evolves R (durable s) (durable (op s))"
    and op_clean: "work s = durable s \<Longrightarrow> distinct (map p_id (payments (durable s))) \<Longrightarrow>
      work (op s) = durable (op s)"
begin

lemma op_distinct:
  "work s = durable s \<Longrightarrow> distinct (map p_id (payments (durable s))) \<Longrightarrow> distinct (map p_id (payments (durable (op s))))"
  using op_rows by (auto simp: evolves_def)

lemma op_find:
  assumes "work s = durable s" "distinct (map p_id (payments (durable s)))" "payment_by_id (durable s) i = Some p"
  obtains q where "payment_by_id (durable (op s)) i = Some q" "R\<^sup>*\<^sup>* p q"
  using evolves_find [OF op_rows [OF assms(1,2)] assms(3)] .

end

section \<open>Updating a batch of locked rows\<close>

text \<open>
  \<open>one\<close> handles one row of the batch; what it writes is a function \<open>upd\<close> of the row as the batch
  read it. Since the rows are distinct, each is still as it was read when its turn comes, and the
  batch as a whole is the update of exactly its rows.
\<close>

locale batch_operation =
  fixes one :: "session \<Rightarrow> payment \<Rightarrow> session" and upd :: "payment \<Rightarrow> payment"
  assumes one_rows: "payments (work (one s p)) = put_row p_id (upd p) (payments (work s))"
    and one_durable: "durable (one s p) = durable s"
    and one_clock: "clock (one s p) = clock s"
    and upd_id: "p_id (upd p) = p_id p"
begin

lemma one_row_map:
  assumes "distinct (map p_id xs)" "p \<in> set xs"
  shows "put_row p_id (upd p) xs = map (\<lambda>q. if q = p then upd p else q) xs"
  unfolding put_row_def using assms by (intro map_cong refl) (auto simp: upd_id distinct_map inj_on_def)

lemma fold_durable [simp]: "durable (foldl one s ps) = durable s"
  by (induction ps arbitrary: s) (simp_all add: one_durable)

lemma fold_clock [simp]: "clock (foldl one s ps) = clock s"
  by (induction ps arbitrary: s) (simp_all add: one_clock)

lemma fold_rows:
  assumes "distinct (map p_id (payments (work s)))" "distinct (map p_id ps)" "set ps \<subseteq> set (payments (work s))"
  shows "payments (work (foldl one s ps)) = map (\<lambda>q. if q \<in> set ps then upd q else q) (payments (work s))"
  using assms
proof (induction ps arbitrary: s)
  case (Cons p ps)
  let ?xs = "payments (work s)"
  have p: "p \<in> set ?xs" and new: "p \<notin> set ps" "upd p \<notin> set ps"
    using Cons.prems(2,3) upd_id [of p] by (auto simp: image_iff)
  have rows: "payments (work (one s p)) = map (\<lambda>q. if q = p then upd p else q) ?xs"
    using one_row_map [OF Cons.prems(1) p] by (simp add: one_rows)
  have "distinct (map p_id (payments (work (one s p))))"
    using Cons.prems(1) by (simp add: one_rows payment_table.put_distinct)
  moreover have "set ps \<subseteq> set (payments (work (one s p)))"
    using Cons.prems(3) new(1) unfolding rows by auto
  ultimately have "payments (work (foldl one (one s p) ps))
      = map (\<lambda>q. if q \<in> set ps then upd q else q) (payments (work (one s p)))"
    using Cons.prems(2) by (intro Cons.IH) simp_all
  then show ?case using new unfolding rows by (auto simp: comp_def)
qed simp

end

text \<open>A batch whose every row also gets its own audit event.\<close>

locale recorded_batch = batch_operation one upd for one upd +
  fixes event :: string
  assumes one_event: "has_event (one s p) (Some (p_id p)) event"
    and one_keeps: "has_event s i ty \<Longrightarrow> has_event (one s p) i ty"
begin

lemma fold_keeps: "has_event s i ty \<Longrightarrow> has_event (foldl one s ps) i ty"
  by (induction ps arbitrary: s) (simp_all add: one_keeps)

lemma fold_events: "p \<in> set ps \<Longrightarrow> has_event (foldl one s ps) (Some (p_id p)) event"
  by (induction ps arbitrary: s) (auto intro: fold_keeps one_event)

end

end
