(* ===== verification/Notification.thy ===== *)
theory Notification
  imports Contracts Bot
begin

text \<open>
  Delivery of verified payments to the bot (\<open>app/services/notification.py\<close>). A delivery attempt is
  two transactions with an HTTP exchange between them: the claim (\<open>claim_next_due\<close>) and the
  recording of the outcome (\<open>record_attempt_result\<close>); \<open>release_stale_claims\<close> recovers claims whose
  worker died in between, and \<open>execute_manual_accept\<close> is the operator's acceptance.

  A session enters each operation at the start of a transaction. \<open>locked\<close> says which rows other
  sessions hold locked when \<open>FOR UPDATE SKIP LOCKED\<close> scans; the drawn jitter, the clock readings,
  the measured duration and the reply of the bot are arguments.
\<close>

section \<open>Operations\<close>

definition RETRY_DELAYS_SECONDS :: "int list" where
  "RETRY_DELAYS_SECONDS = [60, 120, 300, 600, 1800, 3600]"

definition SAFE_MODE_NON_RETRYABLE_HTTP_STATUSES :: "int list" where
  "SAFE_MODE_NON_RETRYABLE_HTTP_STATUSES = [500, 502, 503, 504]"

definition DEFAULT_BATCH_SIZE :: nat where
  "DEFAULT_BATCH_SIZE = 20"

definition retry_delay_seconds :: "int \<Rightarrow> int option \<Rightarrow> rat \<Rightarrow> rat" where
  "retry_delay_seconds attempts_completed retry_after jitter =
     (let index = min (max attempts_completed 1) (int (length RETRY_DELAYS_SECONDS)) - 1;
          delay = of_int (RETRY_DELAYS_SECONDS ! nat index) * jitter
      in case retry_after of
           Some r \<Rightarrow> if of_int r > delay then of_int r else delay
         | None \<Rightarrow> delay)"

record claimed_payment =
  cn_payment_id :: int
  cn_bot_order_id :: string
  cn_gateway_order_id :: int
  cn_attempt :: int
  cn_worker_id :: string

definition queue_notification :: "session \<Rightarrow> payment \<Rightarrow> time \<Rightarrow> session \<times> payment" where
  "queue_notification s p now =
     (let p' = p\<lparr>p_status := BOT_NOTIFY_PENDING, p_bot_notify_reason := None, p_next_retry_at := Some now\<rparr>
      in (record_event (put_payment s p') (Some (p_id p)) ''bot_notification_queued'' ''info''
            [(''bot_order_id'', JStr (p_bot_order_id p)), (''gateway_order_id'', JInt (p_gateway_order_id p))],
          p'))"

definition clear_claim :: "payment \<Rightarrow> payment" where
  "clear_claim p = p\<lparr>p_notification_claimed_at := None, p_notification_claimed_by := None\<rparr>"

definition apply_accepted_state :: "payment \<Rightarrow> time \<Rightarrow> payment" where
  "apply_accepted_state p now =
     clear_claim (p\<lparr>p_status := BOT_NOTIFY_ACCEPTED, p_bot_notify_reason := Some BOT_ACCEPTED_REASON,
                    p_bot_notify_accepted_at := Some now, p_next_retry_at := None, p_last_error := None\<rparr>)"

definition notification_due :: "time \<Rightarrow> payment \<Rightarrow> bool" where
  "notification_due now p \<longleftrightarrow>
     p_status p = BOT_NOTIFY_PENDING \<and> p_gateway_verified_at p \<noteq> None
   \<and> (case p_next_retry_at p of None \<Rightarrow> True | Some t \<Rightarrow> t \<le> now)
   \<and> p_notification_claimed_at p = None"

definition claim_payment :: "payment \<Rightarrow> string \<Rightarrow> time \<Rightarrow> payment" where
  "claim_payment p worker_id now =
     p\<lparr>p_bot_notify_attempts := p_bot_notify_attempts p + 1, p_notification_claimed_at := Some now,
       p_notification_claimed_by := Some worker_id,
       p_bot_notify_started_at := (if p_bot_notify_started_at p = None then Some now else p_bot_notify_started_at p)\<rparr>"

definition claim_next_due ::
  "(int \<Rightarrow> bool) \<Rightarrow> session \<Rightarrow> string \<Rightarrow> time \<Rightarrow> session \<times> claimed_payment option" where
  "claim_next_due locked s worker_id now =
     (case first_by (\<lambda>p. nulls_last (p_next_retry_at p))
             (filter (\<lambda>p. notification_due now p \<and> \<not> locked (p_id p)) (payments (work s))) of
        None \<Rightarrow> (rollback s, None)
      | Some p \<Rightarrow>
          (let p' = claim_payment p worker_id now;
               attempt = p_bot_notify_attempts p';
               s1 = record_event (put_payment s p') (Some (p_id p)) ''bot_notification_started'' ''info''
                      [(''attempt'', JInt attempt), (''worker_id'', JStr worker_id)]
           in (commit s1,
               Some \<lparr>cn_payment_id = p_id p, cn_bot_order_id = p_bot_order_id p,
                     cn_gateway_order_id = p_gateway_order_id p, cn_attempt = attempt,
                     cn_worker_id = worker_id\<rparr>)))"

definition review_state :: "payment \<Rightarrow> reason_code \<Rightarrow> time \<Rightarrow> payment" where
  "review_state p reason now =
     clear_claim (p\<lparr>p_status := MANUAL_REVIEW, p_bot_notify_reason := Some reason,
                    p_manual_review_at := Some now, p_next_retry_at := None,
                    p_last_error := Some (''bot notification: '' @ reason_value reason)\<rparr>)"

definition notify_manual_review :: "session \<Rightarrow> payment \<Rightarrow> reason_code \<Rightarrow> int \<Rightarrow> time \<Rightarrow> session" where
  "notify_manual_review s p reason attempt now =
     record_event (put_payment s (review_state p reason now)) (Some (p_id p)) ''manual_review_required'' ''error''
       [(''reason'', JStr (reason_value reason)), (''attempt'', JInt attempt)]"

definition owns_claim :: "claimed_payment \<Rightarrow> payment \<Rightarrow> bool" where
  "owns_claim c p \<longleftrightarrow>
     p_status p = BOT_NOTIFY_PENDING \<and> p_notification_claimed_by p = Some (cn_worker_id c)
   \<and> p_bot_notify_attempts p = cn_attempt c"

definition effective_kind :: "settings \<Rightarrow> attempt_outcome \<Rightarrow> outcome_kind" where
  "effective_kind cfg outcome =
     (if oc_kind outcome = AMBIGUOUS \<and> bot_notify_retry_mode cfg = Idempotent then RETRYABLE
      else if oc_kind outcome = RETRYABLE \<and> bot_notify_retry_mode cfg = Safe
              \<and> (case oc_http_status outcome of
                   Some st \<Rightarrow> st \<in> set SAFE_MODE_NON_RETRYABLE_HTTP_STATUSES | None \<Rightarrow> False)
        then MANUAL
      else oc_kind outcome)"

definition failed_event_data :: "claimed_payment \<Rightarrow> attempt_outcome \<Rightarrow> rat \<Rightarrow> jdict" where
  "failed_event_data c outcome duration_ms =
     [(''attempt'', JInt (cn_attempt c)), (''reason_code'', JStr (reason_value (oc_reason_code outcome))),
      (''http_status'', jopt_int (oc_http_status outcome)), (''error_code'', jopt_str (oc_error_code outcome)),
      (''duration_ms'', JFloat (Some duration_ms))]"

definition retry_state :: "payment \<Rightarrow> reason_code \<Rightarrow> time \<Rightarrow> payment" where
  "retry_state p reason next_retry_at =
     clear_claim (p\<lparr>p_bot_notify_reason := Some reason,
                    p_last_error := Some (''bot notification failed: '' @ reason_value reason),
                    p_next_retry_at := Some next_retry_at\<rparr>)"

text \<open>
  The row is read again under its lock, as other sessions left it. A missing row, which
  \<open>scalar_one\<close> would raise on, does not occur: payments are never deleted; the model leaves the
  session as it is.
\<close>

definition record_attempt_result ::
  "settings \<Rightarrow> session \<Rightarrow> claimed_payment \<Rightarrow> attempt_outcome \<Rightarrow> rat \<Rightarrow> time \<Rightarrow> rat \<Rightarrow> session" where
  "record_attempt_result cfg s c outcome duration_ms now jitter =
     (case payment_by_id (work s) (cn_payment_id c) of
        None \<Rightarrow> s
      | Some p0 \<Rightarrow>
          if \<not> owns_claim c p0 then
            commit (record_event (rollback s) (Some (cn_payment_id c)) ''bot_notification_result_discarded'' ''warning''
              [(''attempt'', JInt (cn_attempt c)), (''worker_id'', JStr (cn_worker_id c)),
               (''reason_code'', JStr (reason_value (oc_reason_code outcome))),
               (''http_status'', jopt_int (oc_http_status outcome))])
          else
            let p = p0\<lparr>p_bot_last_http_status := oc_http_status outcome,
                       p_bot_last_error_code := oc_error_code outcome\<rparr>
            in commit (case effective_kind cfg outcome of
                 ACCEPTED \<Rightarrow>
                   record_event (put_payment s (apply_accepted_state p now)) (Some (p_id p))
                     ''bot_notification_accepted'' ''info''
                     [(''attempt'', JInt (cn_attempt c)), (''http_status'', jopt_int (oc_http_status outcome)),
                      (''duration_ms'', JFloat (Some duration_ms))]
               | RETRYABLE \<Rightarrow>
                   (let s1 = record_event (put_payment s p) (Some (p_id p)) ''bot_notification_failed'' ''warning''
                               (failed_event_data c outcome duration_ms)
                    in if cn_attempt c \<ge> bot_notify_max_attempts cfg
                       then notify_manual_review s1 p RETRY_LIMIT_REACHED (cn_attempt c) now
                       else let delay = retry_delay_seconds (cn_attempt c) (oc_retry_after_seconds outcome) jitter;
                                next_retry_at = now + delay
                            in record_event (put_payment s1 (retry_state p (oc_reason_code outcome) next_retry_at))
                                 (Some (p_id p)) ''bot_notification_retry_scheduled'' ''info''
                                 [(''attempt'', JInt (cn_attempt c)),
                                  (''reason_code'', JStr (reason_value (oc_reason_code outcome))),
                                  (''delay_seconds'', JInt (py_round delay)),
                                  (''next_retry_at'', JTime next_retry_at)])
               | AMBIGUOUS \<Rightarrow>
                   notify_manual_review
                     (record_event (put_payment s p) (Some (p_id p)) ''bot_timeout_ambiguous'' ''critical''
                        [(''attempt'', JInt (cn_attempt c)),
                         (''reason_code'', JStr (reason_value (oc_reason_code outcome))),
                         (''error_code'', jopt_str (oc_error_code outcome)),
                         (''duration_ms'', JFloat (Some duration_ms))])
                     p BOT_TIMEOUT_AMBIGUOUS (cn_attempt c) now
               | MANUAL \<Rightarrow>
                   notify_manual_review
                     (record_event (put_payment s p) (Some (p_id p)) ''bot_notification_failed'' ''error''
                        (failed_event_data c outcome duration_ms))
                     p (oc_reason_code outcome) (cn_attempt c) now))"

definition invalid_configuration_outcome :: attempt_outcome where
  "invalid_configuration_outcome =
     \<lparr>oc_kind = MANUAL, oc_reason_code = BOT_INVALID_CONFIGURATION, oc_log_event = ''bot_invalid_configuration'',
      oc_http_status = None, oc_error_code = None, oc_retry_after_seconds = None\<rparr>"

text \<open>
  The request runs with no transaction open: \<open>others\<close> is what other sessions commit while it does.
\<close>

definition execute_claimed_attempt ::
  "settings \<Rightarrow> (string \<Rightarrow> bot_reply) option \<Rightarrow> (db \<Rightarrow> db) \<Rightarrow> session \<Rightarrow> claimed_payment \<Rightarrow> rat \<Rightarrow> time \<Rightarrow> rat \<Rightarrow>
   session \<times> attempt_outcome" where
  "execute_claimed_attempt cfg notifier others s c duration_ms now jitter =
     (case notifier of
        None \<Rightarrow>
          (record_attempt_result cfg (rollback_seeing others s) c invalid_configuration_outcome 0 now jitter,
           invalid_configuration_outcome)
      | Some send \<Rightarrow>
          (let outcome = classify_reply (send (cn_bot_order_id c))
           in (record_attempt_result cfg (rollback_seeing others s) c outcome duration_ms now jitter, outcome)))"

definition stale_claim :: "settings \<Rightarrow> time \<Rightarrow> payment \<Rightarrow> bool" where
  "stale_claim cfg now p \<longleftrightarrow>
     p_status p = BOT_NOTIFY_PENDING
   \<and> (case p_notification_claimed_at p of
        None \<Rightarrow> False | Some t \<Rightarrow> t \<le> now - bot_notify_claim_timeout_seconds cfg)"

definition release_one :: "settings \<Rightarrow> time \<Rightarrow> (int \<Rightarrow> rat) \<Rightarrow> session \<Rightarrow> payment \<Rightarrow> session" where
  "release_one cfg now jitter s p =
     (let attempt = p_bot_notify_attempts p;
          data = [(''attempt'', JInt attempt), (''stale_worker_id'', jopt_str (p_notification_claimed_by p)),
                  (''retry_mode'', JStr (retry_mode_value (bot_notify_retry_mode cfg)))];
          recovered = (\<lambda>t extra. record_event t (Some (p_id p)) ''notification_recovered_after_restart'' ''warning''
                                   (data @ extra))
      in if bot_notify_retry_mode cfg = Idempotent \<and> attempt \<ge> bot_notify_max_attempts cfg then
           notify_manual_review (recovered s [(''action'', JStr ''retry_limit_reached'')])
             p RETRY_LIMIT_REACHED attempt now
         else if bot_notify_retry_mode cfg = Idempotent then
           (let next_retry_at = now + retry_delay_seconds attempt None (jitter (p_id p));
                p' = clear_claim (p\<lparr>p_bot_notify_reason := Some BOT_TIMEOUT_AMBIGUOUS,
                                    p_next_retry_at := Some next_retry_at\<rparr>)
            in recovered (put_payment s p')
                 [(''action'', JStr ''requeued''), (''next_retry_at'', JTime next_retry_at)])
         else
           notify_manual_review
             (record_event (recovered s [(''action'', JStr ''manual_review'')])
                (Some (p_id p)) ''bot_timeout_ambiguous'' ''critical'' (data @ [(''stage'', JStr ''stale_claim'')]))
             p BOT_TIMEOUT_AMBIGUOUS attempt now)"

definition release_stale_claims ::
  "settings \<Rightarrow> (int \<Rightarrow> bool) \<Rightarrow> session \<Rightarrow> time \<Rightarrow> (int \<Rightarrow> rat) \<Rightarrow> nat \<Rightarrow> session \<times> nat" where
  "release_stale_claims cfg locked s now jitter limit =
     (let stale = first_n_by (\<lambda>p. nulls_last (p_notification_claimed_at p)) limit
                    (filter (\<lambda>p. stale_claim cfg now p \<and> \<not> locked (p_id p)) (payments (work s)))
      in if stale = [] then (rollback s, 0)
         else (commit (foldl (release_one cfg now jitter) s stale), length stale))"

text \<open>
  The surroundings of a polling pass, by iteration: request ids, clock readings, locks held by
  others, what others commit before a claim and during a request, durations and jitter.
\<close>

record notify_env =
  ne_rid :: "nat \<Rightarrow> string"
  ne_claim_now :: "nat \<Rightarrow> time"
  ne_result_now :: "nat \<Rightarrow> time"
  ne_locked :: "nat \<Rightarrow> int \<Rightarrow> bool"
  ne_before :: "nat \<Rightarrow> db \<Rightarrow> db"
  ne_during :: "nat \<Rightarrow> db \<Rightarrow> db"
  ne_duration :: "nat \<Rightarrow> rat"
  ne_jitter :: "nat \<Rightarrow> rat"

text \<open>\<open>while processed < batch_size\<close>: the remaining budget, the number processed so far.\<close>

fun worker_loop ::
  "settings \<Rightarrow> (string \<Rightarrow> bot_reply) option \<Rightarrow> notify_env \<Rightarrow> string \<Rightarrow> nat \<Rightarrow> nat \<Rightarrow> session \<Rightarrow> session \<times> nat" where
  "worker_loop cfg notifier env worker_id 0 processed s = (s, processed)"
| "worker_loop cfg notifier env worker_id (Suc budget) processed s =
     (let s1 = (rollback_seeing (ne_before env processed) s)\<lparr>request_id := Some (ne_rid env processed)\<rparr>
      in case claim_next_due (ne_locked env processed) s1 worker_id (ne_claim_now env processed) of
           (s2, None) \<Rightarrow> (s2\<lparr>request_id := request_id s\<rparr>, processed)
         | (s2, Some c) \<Rightarrow>
             (let s3 = fst (execute_claimed_attempt cfg notifier (ne_during env processed) s2 c
                              (ne_duration env processed) (ne_result_now env processed) (ne_jitter env processed))
              in worker_loop cfg notifier env worker_id budget (Suc processed)
                   (s3\<lparr>request_id := request_id s\<rparr>)))"

definition run_worker_pass ::
  "settings \<Rightarrow> (string \<Rightarrow> bot_reply) option \<Rightarrow> notify_env \<Rightarrow> session \<Rightarrow> string \<Rightarrow> string \<Rightarrow> time \<Rightarrow> (int \<Rightarrow> bool) \<Rightarrow>
   (int \<Rightarrow> rat) \<Rightarrow> nat \<Rightarrow> session \<times> nat \<times> nat" where
  "run_worker_pass cfg notifier env s worker_id rid now locked stale_jitter batch_size =
     (let (s1, recovered) = release_stale_claims cfg locked (s\<lparr>request_id := Some rid\<rparr>) now stale_jitter 100;
          (s2, processed) = worker_loop cfg notifier env worker_id batch_size 0 (s1\<lparr>request_id := request_id s\<rparr>)
      in (s2, recovered, processed))"

section \<open>Manual acceptance\<close>

datatype manual_accept_refusal = NOT_BOT_NOTIFY_PENDING | NOT_GATEWAY_VERIFIED

record manual_accept_outcome =
  ma_accepted :: bool
  ma_status :: payment_status
  ma_gateway_verified :: bool
  ma_refusal :: "manual_accept_refusal option"

definition determine_manual_accept_refusal :: "payment \<Rightarrow> manual_accept_refusal option" where
  "determine_manual_accept_refusal p =
     (if p_status p \<noteq> BOT_NOTIFY_PENDING then Some NOT_BOT_NOTIFY_PENDING
      else if p_gateway_verified_at p = None then Some NOT_GATEWAY_VERIFIED
      else None)"

definition jopt_reason :: "reason_code option \<Rightarrow> json" where
  "jopt_reason r = jopt_str (map_option reason_value r)"

definition execute_manual_accept ::
  "session \<Rightarrow> int \<Rightarrow> string \<Rightarrow> time \<Rightarrow> session \<times> manual_accept_outcome option" where
  "execute_manual_accept s payment_id note now =
     (case payment_by_id (work s) payment_id of
        None \<Rightarrow> (rollback s, None)
      | Some p \<Rightarrow>
          (case determine_manual_accept_refusal p of
             Some refusal \<Rightarrow>
               (rollback s,
                Some \<lparr>ma_accepted = False, ma_status = p_status p,
                      ma_gateway_verified = (p_gateway_verified_at p \<noteq> None), ma_refusal = Some refusal\<rparr>)
           | None \<Rightarrow>
               (commit (record_event (put_payment s (apply_accepted_state p now)) (Some (p_id p))
                  ''manual_bot_notification_accepted'' ''info''
                  [(''operator'', JStr ''host-cli''), (''note'', JStr (take 500 note)),
                   (''previous_reason'', jopt_reason (p_bot_notify_reason p))]),
                Some \<lparr>ma_accepted = True, ma_status = BOT_NOTIFY_ACCEPTED,
                      ma_gateway_verified = (p_gateway_verified_at p \<noteq> None), ma_refusal = None\<rparr>)))"

section \<open>The delivery of one payment as a state machine\<close>

text \<open>
  The abstract delivery protocol of a single row. A verified pending row is claimed, which counts
  an attempt; a claimed row is retried (only below the attempt limit), accepted or sent to review;
  an operator may accept a pending row. Nothing else happens to it, and its financial fields stay.
\<close>

inductive delivery_step :: "settings \<Rightarrow> payment \<Rightarrow> payment \<Rightarrow> bool" for cfg where
  claim: "p_status p = BOT_NOTIFY_PENDING \<Longrightarrow> p_gateway_verified_at p \<noteq> None \<Longrightarrow>
     p_notification_claimed_at p = None \<Longrightarrow> financial_eq p q \<Longrightarrow> p_status q = BOT_NOTIFY_PENDING \<Longrightarrow>
     p_notification_claimed_at q \<noteq> None \<Longrightarrow> p_notification_claimed_by q \<noteq> None \<Longrightarrow>
     p_bot_notify_attempts q = p_bot_notify_attempts p + 1 \<Longrightarrow> delivery_step cfg p q"
| retry: "p_status p = BOT_NOTIFY_PENDING \<Longrightarrow>
     p_notification_claimed_at p \<noteq> None \<or> p_notification_claimed_by p \<noteq> None \<Longrightarrow>
     p_bot_notify_attempts p < bot_notify_max_attempts cfg \<Longrightarrow> financial_eq p q \<Longrightarrow>
     p_status q = BOT_NOTIFY_PENDING \<Longrightarrow> p_notification_claimed_at q = None \<Longrightarrow>
     p_notification_claimed_by q = None \<Longrightarrow> p_next_retry_at q \<noteq> None \<Longrightarrow>
     p_bot_notify_attempts q = p_bot_notify_attempts p \<Longrightarrow> delivery_step cfg p q"
| accept: "p_status p = BOT_NOTIFY_PENDING \<Longrightarrow> financial_eq p q \<Longrightarrow> p_status q = BOT_NOTIFY_ACCEPTED \<Longrightarrow>
     p_notification_claimed_at q = None \<Longrightarrow> p_notification_claimed_by q = None \<Longrightarrow>
     p_next_retry_at q = None \<Longrightarrow> p_bot_notify_attempts q = p_bot_notify_attempts p \<Longrightarrow> delivery_step cfg p q"
| review: "p_status p = BOT_NOTIFY_PENDING \<Longrightarrow>
     p_notification_claimed_at p \<noteq> None \<or> p_notification_claimed_by p \<noteq> None \<Longrightarrow> financial_eq p q \<Longrightarrow>
     p_status q = MANUAL_REVIEW \<Longrightarrow> p_notification_claimed_at q = None \<Longrightarrow>
     p_notification_claimed_by q = None \<Longrightarrow> p_next_retry_at q = None \<Longrightarrow>
     p_bot_notify_attempts q = p_bot_notify_attempts p \<Longrightarrow> delivery_step cfg p q"

lemma delivery_step_financial: "delivery_step cfg p q \<Longrightarrow> financial_eq p q"
  by (induction rule: delivery_step.induct)

lemma delivery_steps_financial: "(delivery_step cfg)\<^sup>*\<^sup>* p q \<Longrightarrow> financial_eq p q"
  by (induction rule: rtranclp_induct) (auto intro: financial_eq_trans dest: delivery_step_financial)

text \<open>A row in delivery is verified, its claim stamps agree, its attempts respect the limit.\<close>

definition delivery_ok :: "settings \<Rightarrow> payment \<Rightarrow> bool" where
  "delivery_ok cfg p \<longleftrightarrow>
     (p_notification_claimed_at p = None) = (p_notification_claimed_by p = None)
   \<and> (p_status p = BOT_NOTIFY_PENDING \<longrightarrow>
        p_gateway_verified_at p \<noteq> None
      \<and> (if p_notification_claimed_at p = None then p_bot_notify_attempts p < bot_notify_max_attempts cfg
         else p_bot_notify_attempts p \<le> bot_notify_max_attempts cfg))
   \<and> (p_status p = BOT_NOTIFY_ACCEPTED \<longrightarrow> p_gateway_verified_at p \<noteq> None)"

lemma delivery_step_ok: "delivery_step cfg p q \<Longrightarrow> delivery_ok cfg p \<Longrightarrow> delivery_ok cfg q"
  by (induction rule: delivery_step.induct) (auto simp: delivery_ok_def financial_eq_def)

lemma delivery_steps_ok: "(delivery_step cfg)\<^sup>*\<^sup>* p q \<Longrightarrow> delivery_ok cfg p \<Longrightarrow> delivery_ok cfg q"
  by (induction rule: rtranclp_induct) (auto dest: delivery_step_ok)

section \<open>The operations are steps of the machine\<close>

lemma clear_claim_sel [simp]:
  "p_id (clear_claim p) = p_id p" "p_status (clear_claim p) = p_status p"
  "p_notification_claimed_at (clear_claim p) = None" "p_notification_claimed_by (clear_claim p) = None"
  "p_next_retry_at (clear_claim p) = p_next_retry_at p"
  "p_bot_notify_attempts (clear_claim p) = p_bot_notify_attempts p"
  "financial_eq q (clear_claim p) = financial_eq q p"
  by (simp_all add: clear_claim_def financial_eq_def)

lemma state_ids [simp]:
  "p_id (apply_accepted_state p now) = p_id p" "p_id (review_state p r now) = p_id p"
  "p_id (retry_state p r t) = p_id p" "p_id (claim_payment p w now) = p_id p"
  by (simp_all add: apply_accepted_state_def review_state_def retry_state_def claim_payment_def)

lemma claim_payment_step: "notification_due now p \<Longrightarrow> delivery_step cfg p (claim_payment p w now)"
  by (rule delivery_step.claim) (auto simp: notification_due_def claim_payment_def financial_eq_def)

lemma accepted_step:
  "p_status p = BOT_NOTIFY_PENDING \<Longrightarrow> financial_eq p q \<Longrightarrow> p_bot_notify_attempts q = p_bot_notify_attempts p \<Longrightarrow>
   delivery_step cfg p (apply_accepted_state q now)"
  by (rule delivery_step.accept) (auto simp: apply_accepted_state_def clear_claim_def financial_eq_def)

lemma review_step:
  "p_status p = BOT_NOTIFY_PENDING \<Longrightarrow>
   p_notification_claimed_at p \<noteq> None \<or> p_notification_claimed_by p \<noteq> None \<Longrightarrow> financial_eq p q \<Longrightarrow>
   p_bot_notify_attempts q = p_bot_notify_attempts p \<Longrightarrow> delivery_step cfg p (review_state q r now)"
  by (rule delivery_step.review) (auto simp: review_state_def clear_claim_def financial_eq_def)

lemma retry_step:
  "p_status p = BOT_NOTIFY_PENDING \<Longrightarrow>
   p_notification_claimed_at p \<noteq> None \<or> p_notification_claimed_by p \<noteq> None \<Longrightarrow>
   p_bot_notify_attempts p < bot_notify_max_attempts cfg \<Longrightarrow> financial_eq p q \<Longrightarrow>
   p_status q = BOT_NOTIFY_PENDING \<Longrightarrow> p_bot_notify_attempts q = p_bot_notify_attempts p \<Longrightarrow>
   p_next_retry_at q \<noteq> None \<Longrightarrow> delivery_step cfg p (clear_claim q)"
  by (rule delivery_step.retry) auto

text \<open>The rows of a session before and after, each along the closure of the machine.\<close>

abbreviation delivers :: "settings \<Rightarrow> payment list \<Rightarrow> payment list \<Rightarrow> bool" where
  "delivers cfg \<equiv> list_all2 (delivery_step cfg)\<^sup>*\<^sup>*"

lemma delivers_refl [simp, intro]: "delivers cfg xs xs"
  by (simp add: list.rel_refl_strong)

lemma delivers_trans [trans]: "delivers cfg xs ys \<Longrightarrow> delivers cfg ys zs \<Longrightarrow> delivers cfg xs zs"
  by (rule list_all2_trans [of _ _ _ xs ys zs]) auto

lemma delivers_ids: "delivers cfg xs ys \<Longrightarrow> map p_id ys = map p_id xs"
  by (erule list_all2_id_map) (auto dest: delivery_steps_financial simp: financial_eq_def)

lemma delivers_put:
  assumes "distinct (map p_id xs)" "find_row p_id xs i = Some p" "p_id q = i" "delivery_step cfg p q"
  shows "delivers cfg xs (put_row p_id q xs)"
  using assms by (intro put_row_list_all2) auto

lemma delivers_all_ok:
  assumes "delivers cfg xs ys" "list_all (delivery_ok cfg) xs"
  shows "list_all (delivery_ok cfg) ys"
  using assms by (induction rule: list_all2_induct) (auto dest: delivery_steps_ok)

lemma claim_next_due_None:
  "claim_next_due locked s w now = (s', None) \<longleftrightarrow>
     s' = rollback s \<and> filter (\<lambda>p. notification_due now p \<and> \<not> locked (p_id p)) (payments (work s)) = []"
  by (auto simp: claim_next_due_def Let_def dest: first_by_Some(1) split: option.splits)

lemma claim_next_due_Some:
  assumes "claim_next_due locked s w now = (s', Some c)"
  obtains p where "p \<in> set (payments (work s))" "notification_due now p" "\<not> locked (p_id p)"
    "payments (work s') = put_row p_id (claim_payment p w now) (payments (work s))" "durable s' = work s'"
    "cn_payment_id c = p_id p" "cn_bot_order_id c = p_bot_order_id p"
    "cn_attempt c = p_bot_notify_attempts p + 1" "cn_worker_id c = w"
proof -
  obtain p where f: "first_by (\<lambda>p. nulls_last (p_next_retry_at p))
      (filter (\<lambda>p. notification_due now p \<and> \<not> locked (p_id p)) (payments (work s))) = Some p"
    using assms by (auto simp: claim_next_due_def Let_def split: option.splits)
  have "p \<in> set (payments (work s))" "notification_due now p" "\<not> locked (p_id p)"
    using first_by_Some(1) [OF f] by auto
  then show ?thesis
    using that f assms by (auto simp: claim_next_due_def Let_def claim_payment_def)
qed

lemma claim_next_due_delivers:
  assumes "work s = durable s" "distinct (map p_id (payments (durable s)))"
  shows "delivers cfg (payments (durable s)) (payments (durable (fst (claim_next_due locked s w now))))
       \<and> work (fst (claim_next_due locked s w now)) = durable (fst (claim_next_due locked s w now))"
proof (cases "claim_next_due locked s w now")
  case (Pair s' r)
  show ?thesis
  proof (cases r)
    case None
    then show ?thesis using Pair assms(1) claim_next_due_None [of locked s w now s'] by simp
  next
    case (Some c)
    obtain p where p: "p \<in> set (payments (durable s))" "notification_due now p"
      "payments (work s') = put_row p_id (claim_payment p w now) (payments (durable s))" "durable s' = work s'"
      using claim_next_due_Some [OF Pair [unfolded Some]] assms(1) by metis
    have "find_row p_id (payments (durable s)) (p_id p) = Some p"
      using find_row_mem [OF assms(2) p(1)] .
    then show ?thesis
      using p Pair delivers_put [OF assms(2) _ _ claim_payment_step [OF p(2)]] by simp
  qed
qed

text \<open>Recording a result: the row moves one step when the claim is still owned, else not at all.\<close>

lemma record_attempt_result_stale:
  assumes "payment_by_id (work s) (cn_payment_id c) = Some p" "\<not> owns_claim c p"
  shows "payments (durable (record_attempt_result cfg s c oc ms now jit)) = payments (durable s)
       \<and> work (record_attempt_result cfg s c oc ms now jit) = durable (record_attempt_result cfg s c oc ms now jit)
       \<and> has_event (record_attempt_result cfg s c oc ms now jit) (Some (cn_payment_id c))
           ''bot_notification_result_discarded''"
  using assms by (simp add: record_attempt_result_def)

lemma record_attempt_result_owned:
  assumes "payment_by_id (work s) (cn_payment_id c) = Some p" "owns_claim c p"
  obtains q where "payments (work (record_attempt_result cfg s c oc ms now jit)) = put_row p_id q (payments (work s))"
    "durable (record_attempt_result cfg s c oc ms now jit) = work (record_attempt_result cfg s c oc ms now jit)"
    "p_id q = p_id p" "delivery_step cfg p q"
proof -
  let ?p = "p\<lparr>p_bot_last_http_status := oc_http_status oc, p_bot_last_error_code := oc_error_code oc\<rparr>"
  let ?t = "now + retry_delay_seconds (cn_attempt c) (oc_retry_after_seconds oc) jit"
  have own: "p_status p = BOT_NOTIFY_PENDING" "p_notification_claimed_by p \<noteq> None"
    "p_bot_notify_attempts p = cn_attempt c" and fin: "financial_eq p ?p"
    using assms(2) by (auto simp: owns_claim_def financial_eq_def)
  have acc: "delivery_step cfg p (apply_accepted_state ?p now)"
    using own fin by (intro accepted_step) simp_all
  have rev: "delivery_step cfg p (review_state ?p r now)" for r
    using own fin by (intro review_step) simp_all
  have ret: "cn_attempt c < bot_notify_max_attempts cfg \<Longrightarrow>
      delivery_step cfg p (retry_state ?p (oc_reason_code oc) ?t)"
    unfolding retry_state_def using own fin by (intro retry_step) (simp_all add: financial_eq_def)
  show ?thesis
  proof (cases "effective_kind cfg oc")
    case ACCEPTED
    then show ?thesis
      using that [of "apply_accepted_state ?p now"] acc assms by (simp add: record_attempt_result_def Let_def)
  next
    case RETRYABLE
    show ?thesis
    proof (cases "cn_attempt c \<ge> bot_notify_max_attempts cfg")
      case True
      then show ?thesis
        using that [of "review_state ?p RETRY_LIMIT_REACHED now"] rev assms RETRYABLE
        by (simp add: record_attempt_result_def Let_def notify_manual_review_def)
    next
      case False
      then show ?thesis
        using that [of "retry_state ?p (oc_reason_code oc) ?t"] ret assms RETRYABLE
        by (simp add: record_attempt_result_def Let_def)
    qed
  next
    case AMBIGUOUS
    then show ?thesis
      using that [of "review_state ?p BOT_TIMEOUT_AMBIGUOUS now"] rev assms
      by (simp add: record_attempt_result_def Let_def notify_manual_review_def)
  next
    case MANUAL
    then show ?thesis
      using that [of "review_state ?p (oc_reason_code oc) now"] rev assms
      by (simp add: record_attempt_result_def Let_def notify_manual_review_def)
  qed
qed

lemma record_attempt_result_delivers:
  assumes "work s = durable s" "distinct (map p_id (payments (durable s)))"
  shows "delivers cfg (payments (durable s)) (payments (durable (record_attempt_result cfg s c oc ms now jit)))
       \<and> work (record_attempt_result cfg s c oc ms now jit) = durable (record_attempt_result cfg s c oc ms now jit)"
proof (cases "payment_by_id (work s) (cn_payment_id c)")
  case None
  then show ?thesis using assms(1) by (simp add: record_attempt_result_def)
next
  case (Some p)
  show ?thesis
  proof (cases "owns_claim c p")
    case True
    obtain q where "payments (work (record_attempt_result cfg s c oc ms now jit)) = put_row p_id q (payments (work s))"
      "durable (record_attempt_result cfg s c oc ms now jit) = work (record_attempt_result cfg s c oc ms now jit)"
      "p_id q = p_id p" "delivery_step cfg p q"
      using record_attempt_result_owned [OF Some True] .
    then show ?thesis
      using Some assms delivers_put [OF assms(2), of "cn_payment_id c" p q cfg]
        find_row_Some [of p_id "payments (durable s)" "cn_payment_id c" p]
      by (simp add: payment_by_id_def)
  next
    case False
    then show ?thesis using record_attempt_result_stale [OF Some False] by simp
  qed
qed

text \<open>What the recovery of one stale claim writes.\<close>

definition released :: "settings \<Rightarrow> time \<Rightarrow> (int \<Rightarrow> rat) \<Rightarrow> payment \<Rightarrow> payment" where
  "released cfg now jitter p =
     (if bot_notify_retry_mode cfg = Safe then review_state p BOT_TIMEOUT_AMBIGUOUS now
      else if p_bot_notify_attempts p \<ge> bot_notify_max_attempts cfg then review_state p RETRY_LIMIT_REACHED now
      else clear_claim (p\<lparr>p_bot_notify_reason := Some BOT_TIMEOUT_AMBIGUOUS,
             p_next_retry_at := Some (now + retry_delay_seconds (p_bot_notify_attempts p) None (jitter (p_id p)))\<rparr>))"

interpretation release_batch:
  recorded_batch "release_one cfg now jitter" "released cfg now jitter" "''notification_recovered_after_restart''"
  for cfg now jitter
proof
  fix s p
  have mode: "bot_notify_retry_mode cfg = Idempotent \<longleftrightarrow> bot_notify_retry_mode cfg \<noteq> Safe"
    by (cases "bot_notify_retry_mode cfg") simp_all
  show "payments (work (release_one cfg now jitter s p)) = put_row p_id (released cfg now jitter p) (payments (work s))"
    by (simp add: release_one_def released_def Let_def notify_manual_review_def mode)
  show "durable (release_one cfg now jitter s p) = durable s" "clock (release_one cfg now jitter s p) = clock s"
    by (simp_all add: release_one_def Let_def notify_manual_review_def)
  show "p_id (released cfg now jitter p) = p_id p"
    by (simp add: released_def review_state_def clear_claim_def)
  show "has_event (release_one cfg now jitter s p) (Some (p_id p)) ''notification_recovered_after_restart''"
    "has_event s i ty \<Longrightarrow> has_event (release_one cfg now jitter s p) i ty" for i ty
    by (simp_all add: release_one_def Let_def notify_manual_review_def has_event_record_mono)
qed

lemma released_step:
  assumes "stale_claim cfg now p"
  shows "delivery_step cfg p (released cfg now jitter p)"
proof -
  have st: "p_status p = BOT_NOTIFY_PENDING" "p_notification_claimed_at p \<noteq> None"
    using assms by (auto simp: stale_claim_def split: option.splits)
  then have "delivery_step cfg p (review_state p r now)" for r
    by (intro review_step) simp_all
  then show ?thesis
    using st by (auto simp: released_def financial_eq_def intro!: retry_step)
qed

lemma release_stale_claims_delivers:
  assumes "work s = durable s" "distinct (map p_id (payments (durable s)))"
  shows "delivers cfg (payments (durable s)) (payments (durable (fst (release_stale_claims cfg locked s now jit n))))
       \<and> work (fst (release_stale_claims cfg locked s now jit n)) = durable (fst (release_stale_claims cfg locked s now jit n))"
proof -
  let ?cand = "filter (\<lambda>p. stale_claim cfg now p \<and> \<not> locked (p_id p)) (payments (work s))"
  let ?stale = "first_n_by (\<lambda>p. nulls_last (p_notification_claimed_at p)) n ?cand"
  have sub: "set ?stale \<subseteq> set ?cand" by (rule set_first_n_by)
  have "distinct (map p_id ?cand)" using assms by (simp add: distinct_map_filter)
  then have "distinct (map p_id ?stale)" by (rule distinct_first_n_by)
  then have "payments (work (foldl (release_one cfg now jit) s ?stale))
      = map (\<lambda>q. if q \<in> set ?stale then released cfg now jit q else q) (payments (work s))"
    using assms sub by (intro release_batch.fold_rows) auto
  moreover have "delivers cfg (payments (work s)) (map (\<lambda>q. if q \<in> set ?stale then released cfg now jit q else q) (payments (work s)))"
    using sub by (auto simp: list_all2_map2 intro!: list.rel_refl_strong r_into_rtranclp released_step)
  ultimately show ?thesis
    using assms(1) by (simp add: release_stale_claims_def Let_def)
qed

lemma execute_manual_accept_delivers:
  assumes "work s = durable s" "distinct (map p_id (payments (durable s)))"
  shows "delivers cfg (payments (durable s)) (payments (durable (fst (execute_manual_accept s i note now))))
       \<and> work (fst (execute_manual_accept s i note now)) = durable (fst (execute_manual_accept s i note now))"
proof (cases "payment_by_id (durable s) i")
  case None
  then show ?thesis using assms(1) by (simp add: execute_manual_accept_def)
next
  case (Some p)
  show ?thesis
  proof (cases "determine_manual_accept_refusal p")
    case None
    then have "delivery_step cfg p (apply_accepted_state p now)"
      by (intro accepted_step) (auto simp: determine_manual_accept_refusal_def split: if_splits)
    then show ?thesis
      using Some None assms delivers_put [OF assms(2), of i p "apply_accepted_state p now" cfg]
        find_row_Some [of p_id "payments (durable s)" i p]
      by (simp add: execute_manual_accept_def payment_by_id_def)
  next
    case refused: (Some r)
    then show ?thesis using Some assms(1) by (simp add: execute_manual_accept_def)
  qed
qed

text \<open>The four operations as transactions that keep to the delivery machine.\<close>

interpretation delivery: row_protocol "delivery_step cfg" for cfg
  by unfold_locales (auto dest: delivery_step_financial simp: financial_eq_def)

interpretation claim_op: row_operation "delivery_step cfg" "\<lambda>s. fst (claim_next_due locked s w now)" for cfg locked w now
  using claim_next_due_delivers by unfold_locales (blast intro: delivery.evolves_rows)+

interpretation result_op: row_operation "delivery_step cfg" "\<lambda>s. record_attempt_result cfg s c oc ms now jit"
  for cfg c oc ms now jit
  using record_attempt_result_delivers by unfold_locales (blast intro: delivery.evolves_rows)+

interpretation release_op: row_operation "delivery_step cfg" "\<lambda>s. fst (release_stale_claims cfg locked s now jit n)"
  for cfg locked now jit n
  using release_stale_claims_delivers by unfold_locales (blast intro: delivery.evolves_rows)+

interpretation accept_op: row_operation "delivery_step cfg" "\<lambda>s. fst (execute_manual_accept s i memo now)"
  for cfg i memo now
  using execute_manual_accept_delivers by unfold_locales (blast intro: delivery.evolves_rows)+

section \<open>Properties of delivery\<close>

text \<open>
  C10. Refinement: every delivery operation (claiming, recording a result, recovering stale claims,
  the operator's acceptance) moves each row along the delivery machine and leaves everything it
  does committed; in particular it never changes an amount, a payer or a settlement fact.
\<close>

theorem delivery_operations_refine:
  assumes "work s = durable s" and "distinct (map p_id (payments (durable s)))"
    and "op \<in> {(\<lambda>s. fst (claim_next_due locked s w now)),
                (\<lambda>s. record_attempt_result cfg s c oc ms now jit),
                (\<lambda>s. fst (release_stale_claims cfg locked s now jitf n)),
                (\<lambda>s. fst (execute_manual_accept s i note now))}"
  shows "delivers cfg (payments (durable s)) (payments (durable (op s)))
       \<and> list_all2 financial_eq (payments (durable s)) (payments (durable (op s)))
       \<and> work (op s) = durable (op s)"
proof -
  have "delivers cfg (payments (durable s)) (payments (durable (op s))) \<and> work (op s) = durable (op s)"
    using assms(3) claim_next_due_delivers [OF assms(1,2)] record_attempt_result_delivers [OF assms(1,2)]
      release_stale_claims_delivers [OF assms(1,2)] execute_manual_accept_delivers [OF assms(1,2)]
    by blast
  then show ?thesis by (auto elim: list_all2_mono intro: delivery_steps_financial)
qed

definition pending_payment :: "int \<Rightarrow> string \<Rightarrow> payment" where
  "pending_payment i b =
     (demo_payment i b)\<lparr>p_status := BOT_NOTIFY_PENDING, p_gateway_verified_at := Some 1,
        p_reference_id := Some ''R1'', p_next_retry_at := Some 1\<rparr>"

definition delivery_session :: "payment list \<Rightarrow> session" where
  "delivery_session ps = new_session (empty_db\<lparr>payments := ps\<rparr>) 50"

lemma delivery_session_sel [simp]:
  "work (delivery_session ps) = empty_db\<lparr>payments := ps\<rparr>"
  "durable (delivery_session ps) = empty_db\<lparr>payments := ps\<rparr>"
  by (simp_all add: delivery_session_def new_session_def)

theorem delivery_operations_refine_witness:
  "delivers demo_settings [pending_payment 1 ''a'']
     (payments (durable (fst (claim_next_due (\<lambda>_. False) (delivery_session [pending_payment 1 ''a'']) ''w'' 60))))"
  using delivery_operations_refine [of "delivery_session [pending_payment 1 ''a'']"
      "\<lambda>s. fst (claim_next_due (\<lambda>_. False) s ''w'' 60)" "\<lambda>_. False" "''w''" 60 demo_settings]
  by simp

text \<open>
  C2. In safe mode, an attempt whose reply was an unrecognised transport failure (the request may
  have been processed) or a 500, 502, 503 or 504 sends the row it owns to manual review: unclaimed,
  with no retry time, and due at no later time, so no worker sends it again.
\<close>

theorem safe_mode_never_resends:
  assumes "bot_notify_retry_mode cfg = Safe"
    and "send (cn_bot_order_id c) \<in> range (\<lambda>n. BotFailure (OtherHttpError n))
           \<union> {BotResponse st h | st h. st \<in> {500, 502, 503, 504}}"
    and "payment_by_id (others (durable s)) (cn_payment_id c) = Some p" and "owns_claim c p"
  shows "\<exists>q. payment_by_id (durable (fst (execute_claimed_attempt cfg (Some send) others s c ms now jit)))
                (cn_payment_id c) = Some q
           \<and> p_status q = MANUAL_REVIEW \<and> p_notification_claimed_by q = None \<and> p_next_retry_at q = None
           \<and> financial_eq p q \<and> (\<forall>t. \<not> notification_due t q)"
proof -
  let ?oc = "classify_reply (send (cn_bot_order_id c))"
  let ?p = "p\<lparr>p_bot_last_http_status := oc_http_status ?oc, p_bot_last_error_code := oc_error_code ?oc\<rparr>"
  let ?s = "rollback_seeing others s"
  have r: "effective_kind cfg ?oc \<in> {AMBIGUOUS, MANUAL}"
    using assms(1,2)
    by (auto simp: effective_kind_def classify_reply_def classify_transport_error_def classify_response_def
        RETRYABLE_HTTP_def SAFE_MODE_NON_RETRYABLE_HTTP_STATUSES_def)
  obtain rc where "payments (durable (record_attempt_result cfg ?s c ?oc ms now jit))
      = put_row p_id (review_state ?p rc now) (payments (others (durable s)))"
    using r assms(3,4)
    by (auto simp: record_attempt_result_def Let_def notify_manual_review_def)
  moreover have "find_row p_id (payments (others (durable s))) (cn_payment_id c) = Some p" "p_id p = cn_payment_id c"
    using assms(3) find_row_Some [of p_id _ "cn_payment_id c" p] by (auto simp: payment_by_id_def)
  ultimately have "payment_by_id (durable (fst (execute_claimed_attempt cfg (Some send) others s c ms now jit)))
      (cn_payment_id c) = Some (review_state ?p rc now)"
    by (simp add: execute_claimed_attempt_def Let_def payment_by_id_def find_row_put_row)
  then show ?thesis
    by (intro exI [of _ "review_state ?p rc now"] conjI allI)
       (simp_all add: review_state_def clear_claim_def financial_eq_def notification_due_def)
qed

definition claimed_demo :: payment where
  "claimed_demo = claim_payment (pending_payment 1 ''a'') ''w'' 60"

definition demo_claim :: claimed_payment where
  "demo_claim = \<lparr>cn_payment_id = 1, cn_bot_order_id = ''a'', cn_gateway_order_id = 1000001, cn_attempt = 1,
                 cn_worker_id = ''w''\<rparr>"

lemma demo_claim_owned:
  "payment_by_id (durable (delivery_session [claimed_demo])) (cn_payment_id demo_claim) = Some claimed_demo"
  "owns_claim demo_claim claimed_demo"
  by (simp_all add: payment_by_id_def find_row_def owns_claim_def demo_claim_def claimed_demo_def
      claim_payment_def pending_payment_def demo_payment_def)

theorem safe_mode_never_resends_witness:
  "\<exists>q. payment_by_id (durable (fst (execute_claimed_attempt demo_settings (Some (\<lambda>_. BotResponse 500 None))
          (\<lambda>d. d) (delivery_session [claimed_demo]) demo_claim 12 61 1))) (cn_payment_id demo_claim) = Some q
     \<and> p_status q = MANUAL_REVIEW \<and> p_notification_claimed_by q = None \<and> p_next_retry_at q = None
     \<and> financial_eq claimed_demo q \<and> (\<forall>t. \<not> notification_due t q)"
  by (rule safe_mode_never_resends)
     (simp_all add: demo_settings_def demo_claim_owned demo_claim_owned(1) [simplified])

text \<open>
  C3. A result whose claim is no longer owned (recovered, taken over by another worker or attempt,
  or settled by an operator while the request ran) changes no payment at all; the discard is
  recorded in the trail and committed.
\<close>

theorem stale_result_discarded:
  assumes "payment_by_id (others (durable s)) (cn_payment_id c) = Some p"
    and "p_status p \<noteq> BOT_NOTIFY_PENDING \<or> p_notification_claimed_by p \<noteq> Some (cn_worker_id c)
           \<or> p_bot_notify_attempts p \<noteq> cn_attempt c"
  shows "payments (durable (fst (execute_claimed_attempt cfg notifier others s c ms now jit)))
           = payments (others (durable s))
       \<and> has_event (fst (execute_claimed_attempt cfg notifier others s c ms now jit)) (Some (cn_payment_id c))
           ''bot_notification_result_discarded''
       \<and> work (fst (execute_claimed_attempt cfg notifier others s c ms now jit))
           = durable (fst (execute_claimed_attempt cfg notifier others s c ms now jit))"
proof -
  have "\<not> owns_claim c p" using assms(2) by (auto simp: owns_claim_def)
  from record_attempt_result_stale [of "rollback_seeing others s" c p, OF _ this] assms(1)
  show ?thesis by (simp add: execute_claimed_attempt_def Let_def split: option.split)
qed

theorem stale_result_discarded_witness:
  "payments (durable (fst (execute_claimed_attempt demo_settings None (\<lambda>d. d) (delivery_session [claimed_demo])
      (demo_claim\<lparr>cn_attempt := 2\<rparr>) 12 61 1))) = payments ((\<lambda>d. d) (durable (delivery_session [claimed_demo])))
   \<and> has_event (fst (execute_claimed_attempt demo_settings None (\<lambda>d. d) (delivery_session [claimed_demo])
      (demo_claim\<lparr>cn_attempt := 2\<rparr>) 12 61 1)) (Some (cn_payment_id (demo_claim\<lparr>cn_attempt := 2\<rparr>)))
      ''bot_notification_result_discarded''
   \<and> work (fst (execute_claimed_attempt demo_settings None (\<lambda>d. d) (delivery_session [claimed_demo])
      (demo_claim\<lparr>cn_attempt := 2\<rparr>) 12 61 1))
     = durable (fst (execute_claimed_attempt demo_settings None (\<lambda>d. d) (delivery_session [claimed_demo])
      (demo_claim\<lparr>cn_attempt := 2\<rparr>) 12 61 1))"
  by (rule stale_result_discarded [where p = claimed_demo])
     (use demo_claim_owned(1) in \<open>simp_all add: claimed_demo_def claim_payment_def pending_payment_def
        demo_payment_def\<close>)

text \<open>
  Rows that keep the delivery invariant through a whole pass, whatever other sessions do in
  between as long as they keep it too.
\<close>

definition table_ok :: "settings \<Rightarrow> db \<Rightarrow> bool" where
  "table_ok cfg d \<longleftrightarrow> distinct (map p_id (payments d)) \<and> list_all (delivery_ok cfg) (payments d)"

lemma delivers_table_ok:
  "table_ok cfg d \<Longrightarrow> delivers cfg (payments d) (payments d') \<Longrightarrow> table_ok cfg d'"
  unfolding table_ok_def using delivers_all_ok delivers_ids by metis

definition keeps_table :: "settings \<Rightarrow> notify_env \<Rightarrow> bool" where
  "keeps_table cfg env \<longleftrightarrow>
     (\<forall>k d. table_ok cfg d \<longrightarrow> table_ok cfg (ne_before env k d) \<and> table_ok cfg (ne_during env k d))"

lemma execute_claimed_attempt_ok:
  assumes "table_ok cfg (others (durable s))"
  shows "table_ok cfg (durable (fst (execute_claimed_attempt cfg notifier others s c ms now jit)))"
  using assms record_attempt_result_delivers [of "rollback_seeing others s"]
  by (auto simp: execute_claimed_attempt_def Let_def table_ok_def intro!: delivers_table_ok [OF assms, unfolded table_ok_def]
      split: option.split)

lemma worker_loop_ok:
  assumes "keeps_table cfg env" and "table_ok cfg (durable s)"
  shows "table_ok cfg (durable (fst (worker_loop cfg notifier env w budget processed s)))
       \<and> snd (worker_loop cfg notifier env w budget processed s) \<le> processed + budget"
  using assms(2)
proof (induction budget arbitrary: processed s)
  case (Suc budget)
  let ?s1 = "(rollback_seeing (ne_before env processed) s)\<lparr>request_id := Some (ne_rid env processed)\<rparr>"
  obtain s2 r where cl: "claim_next_due (ne_locked env processed) ?s1 w (ne_claim_now env processed) = (s2, r)"
    by fastforce
  have ok1: "table_ok cfg (ne_before env processed (durable s))" using assms(1) Suc.prems by (simp add: keeps_table_def)
  have ok2: "table_ok cfg (durable s2)"
    using claim_next_due_delivers [of ?s1 cfg "ne_locked env processed" w "ne_claim_now env processed"] cl ok1
    by (auto simp: table_ok_def intro!: delivers_table_ok [OF ok1, unfolded table_ok_def])
  show ?case
  proof (cases r)
    case None
    then show ?thesis using cl ok2 by (simp add: Let_def)
  next
    case (Some c)
    let ?s3 = "fst (execute_claimed_attempt cfg notifier (ne_during env processed) s2 c
        (ne_duration env processed) (ne_result_now env processed) (ne_jitter env processed))"
    have "table_ok cfg (durable (?s3\<lparr>request_id := request_id s\<rparr>))"
      using execute_claimed_attempt_ok [of cfg "ne_during env processed" s2] assms(1) ok2 by (simp add: keeps_table_def)
    from Suc.IH [OF this, of "Suc processed"] show ?thesis using cl Some by (simp add: Let_def)
  qed
qed simp

text \<open>
  A polling pass keeps the delivery invariant of every row (delivery only after verification,
  consistent claim stamps, at most the configured number of attempts, and fewer while unclaimed)
  under any interference that keeps it, recovers at most 100 stale claims and sends at most
  \<open>batch_size\<close> notifications.
\<close>

theorem run_worker_pass_bounded:
  assumes "work s = durable s" and "table_ok cfg (durable s)"
    and "keeps_table cfg env"
  shows "case run_worker_pass cfg notifier env s w rid now locked jit batch of
           (s', recovered, processed) \<Rightarrow>
             table_ok cfg (durable s') \<and> recovered \<le> 100 \<and> processed \<le> batch
           \<and> list_all (\<lambda>p. p_status p \<noteq> BOT_NOTIFY_PENDING
                        \<or> p_bot_notify_attempts p \<le> bot_notify_max_attempts cfg) (payments (durable s'))"
proof -
  let ?s = "s\<lparr>request_id := Some rid\<rparr>"
  obtain s1 n where rel: "release_stale_claims cfg locked ?s now jit 100 = (s1, n)" by fastforce
  have n: "n \<le> 100" using rel length_first_n_by [of "\<lambda>p. nulls_last (p_notification_claimed_at p)" 100]
    by (auto simp: release_stale_claims_def Let_def split: if_splits)
  have "table_ok cfg (durable s1)"
    using release_stale_claims_delivers [of ?s cfg locked now jit 100] rel assms(1,2)
    by (auto simp: table_ok_def intro!: delivers_table_ok [OF assms(2), unfolded table_ok_def])
  then have "table_ok cfg (durable (s1\<lparr>request_id := request_id s\<rparr>))" by simp
  from worker_loop_ok [OF assms(3) this, of notifier w batch 0]
  obtain s2 m where wl: "worker_loop cfg notifier env w batch 0 (s1\<lparr>request_id := request_id s\<rparr>) = (s2, m)"
    and ok: "table_ok cfg (durable s2)" "m \<le> batch"
    by (cases "worker_loop cfg notifier env w batch 0 (s1\<lparr>request_id := request_id s\<rparr>)") simp
  have "list_all (\<lambda>p. p_status p \<noteq> BOT_NOTIFY_PENDING
                        \<or> p_bot_notify_attempts p \<le> bot_notify_max_attempts cfg) (payments (durable s2))"
    using ok(1) by (auto simp: table_ok_def list_all_iff delivery_ok_def split: if_splits)
  then show ?thesis using rel wl ok n by (simp add: run_worker_pass_def)
qed

definition demo_env :: notify_env where
  "demo_env = \<lparr>ne_rid = (\<lambda>_. ''ntf''), ne_claim_now = (\<lambda>_. 60), ne_result_now = (\<lambda>_. 61), ne_locked = (\<lambda>_ _. False),
     ne_before = (\<lambda>_ d. d), ne_during = (\<lambda>_ d. d), ne_duration = (\<lambda>_. 5), ne_jitter = (\<lambda>_. 1)\<rparr>"

theorem run_worker_pass_bounded_witness:
  "case run_worker_pass demo_settings (Some (\<lambda>_. BotResponse 500 None)) demo_env
          (delivery_session [pending_payment 1 ''a'']) ''w'' ''r'' 60 (\<lambda>_. False) (\<lambda>_. 1) 20 of
     (s', recovered, processed) \<Rightarrow>
       table_ok demo_settings (durable s') \<and> recovered \<le> 100 \<and> processed \<le> 20
     \<and> list_all (\<lambda>p. p_status p \<noteq> BOT_NOTIFY_PENDING
                  \<or> p_bot_notify_attempts p \<le> bot_notify_max_attempts demo_settings) (payments (durable s'))"
  by (rule run_worker_pass_bounded)
     (simp_all add: demo_env_def keeps_table_def table_ok_def delivery_ok_def pending_payment_def demo_payment_def demo_settings_def)

section \<open>A healthy bot drains the queue\<close>

lemma length_filter_put_row:
  assumes "distinct (map p_id xs)" "p \<in> set xs" "P p" "\<not> P q" "p_id q = p_id p"
  shows "Suc (length (filter P (put_row p_id q xs))) = length (filter P xs)"
  using assms
proof (induction xs)
  case (Cons x xs)
  show ?case
  proof (cases "p_id x = p_id p")
    case True
    then have "x = p" "p_id p \<notin> p_id ` set xs" using Cons.prems by (auto simp: image_iff)
    then show ?thesis using Cons.prems put_row_absent [of "p_id p" p_id xs q] True
      by (simp add: put_row_def)
  next
    case False
    then have "p \<in> set xs" using Cons.prems by auto
    then show ?thesis using Cons False by (simp add: put_row_def)
  qed
qed simp

definition due_rows :: "time \<Rightarrow> db \<Rightarrow> payment list" where
  "due_rows now d = filter (notification_due now) (payments d)"

text \<open>One round with a bot that answers 2xx: the claimed row is accepted, the queue shrinks by one.\<close>

lemma accepted_round:
  assumes "work s = durable s" "distinct (map p_id (payments (durable s)))"
    and "claim_next_due (\<lambda>_. False) s w now = (s2, Some c)" "200 \<le> st" "st < 300"
    and "s3 = fst (execute_claimed_attempt cfg (Some (\<lambda>_. BotResponse st None)) (\<lambda>d. d) s2 c ms now' jit)"
  shows "Suc (length (due_rows now (durable s3))) = length (due_rows now (durable s))"
    and "work s3 = durable s3" and "distinct (map p_id (payments (durable s3)))"
proof -
  obtain p where p: "p \<in> set (payments (durable s))" "notification_due now p"
    "payments (work s2) = put_row p_id (claim_payment p w now) (payments (durable s))" "durable s2 = work s2"
    "cn_payment_id c = p_id p" "cn_attempt c = p_bot_notify_attempts p + 1" "cn_worker_id c = w"
    using claim_next_due_Some [OF assms(3)] assms(1) by metis
  let ?q = "claim_payment p w now"
  have f: "payment_by_id (durable s2) (cn_payment_id c) = Some ?q"
    using find_row_mem [OF assms(2) p(1)] p by (simp add: payment_by_id_def find_row_put_row)
  have own: "owns_claim c ?q"
    using p by (simp add: owns_claim_def claim_payment_def notification_due_def)
  let ?r = "apply_accepted_state (?q\<lparr>p_bot_last_http_status := Some st, p_bot_last_error_code := None\<rparr>) now'"
  have rows: "payments (durable s3) = put_row p_id ?r (payments (durable s))"
    using assms(4-6) f own p(3,4)
    by (simp add: execute_claimed_attempt_def record_attempt_result_def Let_def classify_reply_def
        classify_response_def effective_kind_def)
  show "Suc (length (due_rows now (durable s3))) = length (due_rows now (durable s))"
    unfolding due_rows_def rows
    using assms(2) p(1,2)
    by (intro length_filter_put_row) (simp_all add: apply_accepted_state_def clear_claim_def notification_due_def)
  show "work s3 = durable s3" "distinct (map p_id (payments (durable s3)))"
    using assms(6) record_attempt_result_delivers [of "rollback_seeing (\<lambda>d. d) s2"] rows assms(2)
      payment_table.put_distinct [OF assms(2)]
    by (auto simp: execute_claimed_attempt_def Let_def p(3,4))
qed

text \<open>A pass no other session interferes with, all of its claims reading one instant.\<close>

definition undisturbed :: "time \<Rightarrow> notify_env \<Rightarrow> bool" where
  "undisturbed now env \<longleftrightarrow>
     ne_claim_now env = (\<lambda>_. now) \<and> ne_locked env = (\<lambda>_ _. False)
   \<and> ne_before env = (\<lambda>_ d. d) \<and> ne_during env = (\<lambda>_ d. d)"

lemma worker_loop_drains:
  assumes "undisturbed now env" and st: "200 \<le> st" "st < 300"
    and "work s = durable s" "distinct (map p_id (payments (durable s)))"
    and "length (due_rows now (durable s)) \<le> budget"
  shows "due_rows now (durable (fst (worker_loop cfg (Some (\<lambda>_. BotResponse st None)) env w budget processed s))) = []
       \<and> snd (worker_loop cfg (Some (\<lambda>_. BotResponse st None)) env w budget processed s)
           = processed + length (due_rows now (durable s))"
  using assms(4-)
proof (induction budget arbitrary: processed s)
  case (Suc budget)
  let ?loop = "worker_loop cfg (Some (\<lambda>_. BotResponse st None)) env w"
  let ?s1 = "(rollback_seeing (\<lambda>d. d) s)\<lparr>request_id := Some (ne_rid env processed)\<rparr>"
  obtain s2 r where cl: "claim_next_due (\<lambda>_. False) ?s1 w now = (s2, r)" by fastforce
  show ?case
  proof (cases r)
    case None
    then have "due_rows now (durable s) = []" "durable s2 = durable s"
      using cl by (auto simp: claim_next_due_None due_rows_def)
    with None cl assms(1) show ?thesis by (simp add: undisturbed_def Let_def)
  next
    case (Some c)
    let ?s3 = "fst (execute_claimed_attempt cfg (Some (\<lambda>_. BotResponse st None)) (\<lambda>d. d) s2 c
        (ne_duration env processed) (ne_result_now env processed) (ne_jitter env processed))"
    let ?s4 = "?s3\<lparr>request_id := request_id s\<rparr>"
    have d: "distinct (map p_id (payments (durable ?s1)))" using Suc.prems(2) by simp
    note round = accepted_round [OF _ d cl [unfolded Some] st refl]
    have n: "Suc (length (due_rows now (durable ?s4))) = length (due_rows now (durable s))"
      using round(1) [of cfg "ne_duration env processed" "ne_result_now env processed" "ne_jitter env processed"] by simp
    have "due_rows now (durable (fst (?loop budget (Suc processed) ?s4))) = []
       \<and> snd (?loop budget (Suc processed) ?s4) = Suc processed + length (due_rows now (durable ?s4))"
      using n Suc.prems(3)
        round(2,3) [of cfg "ne_duration env processed" "ne_result_now env processed" "ne_jitter env processed"]
      by (intro Suc.IH) auto
    moreover have "?loop (Suc budget) processed s = ?loop budget (Suc processed) ?s4"
      using cl Some assms(1) by (simp add: undisturbed_def Let_def)
    ultimately show ?thesis using n by simp
  qed
qed (simp add: due_rows_def)



section \<open>Retry delays\<close>

text \<open>
  With the jitter the code draws (0.85 to 1.15) and a Retry-After taken from a reply header,
  the delay before the next attempt is between 51 and 4140 seconds, and never shorter than the
  Retry-After asked for.
\<close>

theorem retry_delay_seconds_bounds:
  assumes "85 / 100 \<le> jitter" and "jitter \<le> 115 / 100"
  shows "51 \<le> retry_delay_seconds n (parse_retry_after h) jitter
       \<and> retry_delay_seconds n (parse_retry_after h) jitter \<le> 4140
       \<and> of_int (coalesce (parse_retry_after h) 0) \<le> retry_delay_seconds n (parse_retry_after h) jitter"
proof -
  let ?i = "min (max n 1) (int (length RETRY_DELAYS_SECONDS)) - 1"
  have "?i \<in> {0, 1, 2, 3, 4, 5}" by (auto simp: RETRY_DELAYS_SECONDS_def)
  then have "RETRY_DELAYS_SECONDS ! nat ?i \<in> set RETRY_DELAYS_SECONDS"
    by (auto simp: RETRY_DELAYS_SECONDS_def)
  then have d: "60 \<le> RETRY_DELAYS_SECONDS ! nat ?i" "RETRY_DELAYS_SECONDS ! nat ?i \<le> 3600"
    by (auto simp: RETRY_DELAYS_SECONDS_def)
  define D :: rat where "D = of_int (RETRY_DELAYS_SECONDS ! nat ?i)"
  have D: "60 \<le> D" "D \<le> 3600" using d by (simp_all add: D_def)
  have "60 * (85 / 100) \<le> D * jitter" using D assms by (intro mult_mono) auto
  moreover have "D * jitter \<le> 3600 * (115 / 100)" using D assms by (intro mult_mono) auto
  ultimately have b: "51 \<le> D * jitter" "D * jitter \<le> 4140" by simp_all
  have eq: "retry_delay_seconds n r jitter = (case r of Some x \<Rightarrow> if of_int x > D * jitter then of_int x else D * jitter
      | None \<Rightarrow> D * jitter)" for r
    unfolding retry_delay_seconds_def D_def Let_def ..
  show ?thesis
  proof (cases "parse_retry_after h")
    case None
    then show ?thesis using b by (simp add: eq)
  next
    case (Some x)
    then have "(of_int x :: rat) \<le> 3600" using parse_retry_after_bounds [OF Some] by simp
    then show ?thesis using b Some by (simp add: eq)
  qed
qed

theorem retry_delay_seconds_bounds_witness:
  "51 \<le> retry_delay_seconds 3 (parse_retry_after (Some '' 900 '')) 1
   \<and> retry_delay_seconds 3 (parse_retry_after (Some '' 900 '')) 1 \<le> 4140
   \<and> of_int (coalesce (parse_retry_after (Some '' 900 '')) 0) \<le> retry_delay_seconds 3 (parse_retry_after (Some '' 900 '')) 1"
  by (rule retry_delay_seconds_bounds) simp_all

end
