(* ===== verification/Verification.thy ===== *)
theory Verification
  imports Notification Gateway Security
begin

text \<open>
  Callback processing and settlement (\<open>app/services/verification.py\<close>). \<open>verify_and_settle\<close> is the
  one settlement path of the browser callback and of reconciliation; the caller holds the row
  lock, so the row \<open>p\<close> it passes is the current one. \<open>http\<close> is the exchange with the gateway.
  Shown: a payment settles exactly when the gateway's explicit success agrees with the recorded
  amount, payer and an unused reference id; every other answer leaves the settlement facts alone;
  verification and the queued notification commit together; a callback for a settled or reviewed
  payment never depends on the gateway.
\<close>

section \<open>Operations\<close>

definition ERROR_MAX_LENGTH :: nat where
  "ERROR_MAX_LENGTH = 500"

definition VERIFIED_STATUSES :: "payment_status list" where
  "VERIFIED_STATUSES = [GATEWAY_VERIFIED, BOT_NOTIFY_PENDING, BOT_NOTIFY_ACCEPTED]"

datatype callback_status = CB_BOT_ACCEPTED | CB_BOT_PENDING | CB_UNDER_REVIEW

datatype settlement_outcome = VERIFIED | GATEWAY_NOT_PAID | UNDER_REVIEW

record callback_result =
  cr_status :: callback_status
  cr_bot_order_id :: string

datatype settle_source = Callback_Source | Reconciliation_Source | Recovery_Source

fun settle_source_value :: "settle_source \<Rightarrow> string" where
  "settle_source_value Callback_Source = ''callback''"
| "settle_source_value Reconciliation_Source = ''reconciliation''"
| "settle_source_value Recovery_Source = ''aged_out_recovery''"

definition card_last4 :: "string option \<Rightarrow> string option" where
  "card_last4 card_number =
     (case card_number of
        None \<Rightarrow> None
      | Some n \<Rightarrow>
          if n = [] then None
          else let digits = filter py_isdigit n
               in if length digits \<ge> 4 then Some (drop (length digits - 4) digits) else None)"

definition move_to_manual_review :: "session \<Rightarrow> payment \<Rightarrow> string \<Rightarrow> jdict \<Rightarrow> session" where
  "move_to_manual_review s p mismatch_event data =
     (let s1 = record_event s (Some (p_id p)) mismatch_event ''error'' data;
          p' = p\<lparr>p_status := MANUAL_REVIEW, p_manual_review_at := Some (clock s),
                 p_last_error := Some mismatch_event\<rparr>
      in commit (record_event (put_payment s1 p') (Some (p_id p)) ''manual_review_required'' ''error''
           [(''reason'', JStr mismatch_event)]))"

definition maybe_record_first_payment :: "session \<Rightarrow> payment \<Rightarrow> session" where
  "maybe_record_first_payment s p =
     (if length (filter (\<lambda>q. p_gateway_verified_at q \<noteq> None) (payments (work s))) = 1
      then record_event s (Some (p_id p)) ''first_production_payment_verified'' ''critical''
             [(''gateway_order_id'', JInt (p_gateway_order_id p)), (''amount'', JInt (p_amount p)),
              (''checklist'', JStr ''run the first-payment checklist (PRODUCTION_CHECKLIST_FA.md)'')]
      else s)"

definition settled_state :: "payment \<Rightarrow> verify_result \<Rightarrow> time \<Rightarrow> payment" where
  "settled_state p r now =
     p\<lparr>p_gateway_verified_at := Some now, p_reference_id := vr_reference_id r,
       p_card_last4 := card_last4 (vr_card_number r), p_last_error := None\<rparr>"

definition jstrs :: "string list \<Rightarrow> json" where
  "jstrs xs = JArr (map JStr xs)"

definition colliding_payment :: "db \<Rightarrow> payment \<Rightarrow> string \<Rightarrow> payment option" where
  "colliding_payment d p ref = find (\<lambda>q. p_reference_id q = Some ref \<and> p_id q \<noteq> p_id p) (payments d)"

definition validate_and_apply_verification ::
  "settings option \<Rightarrow> session \<Rightarrow> payment \<Rightarrow> verify_result \<Rightarrow> session \<times> callback_result" where
  "validate_and_apply_verification cfg s p r =
     (let under_review = \<lparr>cr_status = CB_UNDER_REVIEW, cr_bot_order_id = p_bot_order_id p\<rparr>;
          goid = (''gateway_order_id'', JInt (p_gateway_order_id p));
          field_errors = (''field_errors'', jstrs (vr_field_errors r))
      in case vr_reference_id r of
           None \<Rightarrow>
             (move_to_manual_review s p
                (if vr_reference_id_invalid r then ''verify_invalid_reference_id'' else ''verify_missing_reference_id'')
                [goid, field_errors], under_review)
         | Some ref \<Rightarrow>
             if vr_amount r \<noteq> Some (p_payable_amount p) then
               (move_to_manual_review s p ''verify_payable_amount_mismatch''
                  [goid, (''original_amount'', JInt (p_amount p)), (''fee_rate_bps'', JInt (p_fee_rate_bps p)),
                   (''fee_amount'', JInt (p_fee_amount p)),
                   (''expected_payable_amount'', JInt (p_payable_amount p)),
                   (''reported_amount'', jopt_int (vr_amount r)), field_errors], under_review)
             else if vr_user_id r \<noteq> Some (p_gateway_user_id p) then
               (move_to_manual_review s p ''verify_user_id_mismatch''
                  [goid, (''payer_identity_type'', jopt_str (map_option identity_type_value (p_payer_identity_type p))),
                   field_errors], under_review)
             else case colliding_payment (work s) p ref of
               Some q \<Rightarrow>
                 (move_to_manual_review s p ''reference_id_collision''
                    [goid, (''colliding_payment_id'', JInt (p_id q))], under_review)
             | None \<Rightarrow>
                 (let now = clock s;
                      p1 = settled_state p r now;
                      s1 = record_event (put_payment s p1) (Some (p_id p)) ''gateway_payment_verified'' ''info''
                             [goid, (''reference_id'', JStr ref), (''original_amount'', JInt (p_amount p)),
                              (''fee_rate_bps'', JInt (p_fee_rate_bps p)), (''fee_amount'', JInt (p_fee_amount p)),
                              (''payable_amount'', JInt (p_payable_amount p))];
                      (s2, p2) = queue_notification s1 p1 now;
                      s3 = (case cfg of
                              Some c \<Rightarrow> if first_payment_guard_enabled c then maybe_record_first_payment s2 p2 else s2
                            | None \<Rightarrow> s2)
                  in (commit s3, \<lparr>cr_status = CB_BOT_PENDING, cr_bot_order_id = p_bot_order_id p\<rparr>)))"

definition verify_and_settle ::
  "centralpay_client \<Rightarrow> transport \<Rightarrow> settings option \<Rightarrow> settle_source \<Rightarrow> session \<Rightarrow> payment \<Rightarrow>
   session \<times> (centralpay_error + settlement_outcome)" where
  "verify_and_settle cl http cfg source s p =
     (let goid = (''gateway_order_id'', JInt (p_gateway_order_id p))
      in case verify cl http (p_gateway_order_id p) of
           Inl exc \<Rightarrow>
             (let text = take ERROR_MAX_LENGTH (cp_message exc);
                  p' = p\<lparr>p_last_error := Some text\<rparr>
              in (commit (record_event (put_payment s p') (Some (p_id p)) ''centralpay_verify_failed'' ''error''
                    [goid, (''stage'', JStr ''transport''), (''error_code'', JStr (cp_code exc)), (''reason'', JStr text)]),
                  Inl exc))
         | Inr r \<Rightarrow>
             if \<not> vr_gateway_success r then
               (let reason = take ERROR_MAX_LENGTH
                               (case vr_failure_reason r of
                                  Some f \<Rightarrow> if f = [] then ''verify not successful'' else f
                                | None \<Rightarrow> ''verify not successful'');
                    s1 = put_payment s (p\<lparr>p_last_error := Some reason\<rparr>)
                in (commit (if source = Callback_Source
                      then record_event s1 (Some (p_id p)) ''centralpay_verify_failed'' ''warning''
                             [goid, (''stage'', JStr ''gateway''), (''reason'', JStr reason)]
                      else record_event s1 (Some (p_id p)) ''centralpay_verify_not_paid'' ''info''
                             [goid, (''stage'', JStr ''gateway''), (''reason'', JStr reason),
                              (''source'', JStr (settle_source_value source))]),
                    Inr GATEWAY_NOT_PAID))
             else
               (let (s1, applied) = validate_and_apply_verification cfg s p r
                in (s1, Inr (if cr_status applied = CB_UNDER_REVIEW then UNDER_REVIEW else VERIFIED))))"

definition process_callback ::
  "crypto \<Rightarrow> centralpay_client \<Rightarrow> transport \<Rightarrow> settings option \<Rightarrow> session \<Rightarrow> int \<Rightarrow> string \<Rightarrow>
   session \<times> (bridge_error + callback_result)" where
  "process_callback C cl http cfg s gateway_order_id callback_token =
     (let goid = (''gateway_order_id'', JInt gateway_order_id)
      in case payment_by_gateway_order_id (work s) gateway_order_id of
           None \<Rightarrow>
             (commit (record_event s None ''callback_received'' ''warning'' [goid, (''result'', JStr ''payment_not_found'')]),
              Inl PaymentNotFoundError)
         | Some p \<Rightarrow>
             (let state = (''payment_status'', JStr (status_value (p_status p)));
                  res = (\<lambda>st. \<lparr>cr_status = st, cr_bot_order_id = p_bot_order_id p\<rparr>)
              in if \<not> callback_token_matches C callback_token (p_callback_token_hash p) then
                   (commit (record_event s (Some (p_id p)) ''callback_token_invalid'' ''warning'' [goid, state]),
                    Inl InvalidCallbackTokenError)
                 else
                   let s1 = record_event s (Some (p_id p)) ''callback_received'' ''info'' [goid, state]
                   in if p_status p \<in> set VERIFIED_STATUSES \<or> p_gateway_verified_at p \<noteq> None then
                        (commit (record_event s1 (Some (p_id p)) ''duplicate_callback_ignored'' ''info'' [goid, state]),
                         Inr (res (if p_status p = BOT_NOTIFY_ACCEPTED then CB_BOT_ACCEPTED
                                   else if p_status p = MANUAL_REVIEW then CB_UNDER_REVIEW
                                   else CB_BOT_PENDING)))
                      else if p_status p = MANUAL_REVIEW then (commit s1, Inr (res CB_UNDER_REVIEW))
                      else case verify_and_settle cl http cfg Callback_Source s1 p of
                             (s2, Inl exc) \<Rightarrow> (s2, Inl (CentralPayError exc))
                           | (s2, Inr GATEWAY_NOT_PAID) \<Rightarrow> (s2, Inl VerificationFailedError)
                           | (s2, Inr UNDER_REVIEW) \<Rightarrow> (s2, Inr (res CB_UNDER_REVIEW))
                           | (s2, Inr VERIFIED) \<Rightarrow> (s2, Inr (res CB_BOT_PENDING))))"

section \<open>When a payment settles\<close>

definition settles :: "db \<Rightarrow> payment \<Rightarrow> verify_result \<Rightarrow> bool" where
  "settles d p r \<longleftrightarrow>
     vr_gateway_success r \<and> vr_amount r = Some (p_payable_amount p) \<and> vr_user_id r = Some (p_gateway_user_id p)
   \<and> (\<exists>ref. vr_reference_id r = Some ref \<and> (\<forall>q\<in>set (payments d). p_id q = p_id p \<or> p_reference_id q \<noteq> Some ref))"

lemma colliding_payment_None:
  "colliding_payment d p ref = None \<longleftrightarrow> (\<forall>q\<in>set (payments d). p_id q = p_id p \<or> p_reference_id q \<noteq> Some ref)"
  by (auto simp: colliding_payment_def find_None_iff)

lemma move_to_manual_review_sel [simp]:
  "durable (move_to_manual_review s p m d) = work (move_to_manual_review s p m d)"
  "payments (work (move_to_manual_review s p m d)) =
     put_row p_id (p\<lparr>p_status := MANUAL_REVIEW, p_manual_review_at := Some (clock s), p_last_error := Some m\<rparr>)
       (payments (work s))"
  by (simp_all add: move_to_manual_review_def Let_def)

lemma move_to_manual_review_events:
  "has_event (move_to_manual_review s p m d) (Some (p_id p)) m"
  "has_event (move_to_manual_review s p m d) (Some (p_id p)) ''manual_review_required''"
  by (simp_all add: move_to_manual_review_def Let_def has_event_record_mono)

lemma maybe_record_first_payment_sel [simp]:
  "payments (work (maybe_record_first_payment s p)) = payments (work s)"
  "durable (maybe_record_first_payment s p) = durable s"
  by (simp_all add: maybe_record_first_payment_def)

lemma maybe_record_first_payment_event:
  "has_event s pid ty \<Longrightarrow> has_event (maybe_record_first_payment s p) pid ty"
  by (simp add: maybe_record_first_payment_def has_event_record_mono)

text \<open>The three endings of applying a successful reply.\<close>

definition queued_state :: "payment \<Rightarrow> verify_result \<Rightarrow> time \<Rightarrow> payment" where
  "queued_state p r now =
     (settled_state p r now)\<lparr>p_status := BOT_NOTIFY_PENDING, p_bot_notify_reason := None,
        p_next_retry_at := Some now\<rparr>"

lemma queued_state_id [simp]: "p_id (queued_state p r now) = p_id p" "p_id (settled_state p r now) = p_id p"
  by (simp_all add: queued_state_def settled_state_def)

lemma apply_settles:
  assumes "settles (work s) p r"
  shows "cr_status (snd (validate_and_apply_verification cfg s p r)) = CB_BOT_PENDING"
    and "payments (work (fst (validate_and_apply_verification cfg s p r)))
           = put_row p_id (queued_state p r (clock s)) (payments (work s))"
    and "durable (fst (validate_and_apply_verification cfg s p r)) = work (fst (validate_and_apply_verification cfg s p r))"
    and "has_event (fst (validate_and_apply_verification cfg s p r)) (Some (p_id p)) ''gateway_payment_verified''"
    and "has_event (fst (validate_and_apply_verification cfg s p r)) (Some (p_id p)) ''bot_notification_queued''"
proof -
  obtain ref where ref: "vr_reference_id r = Some ref" "colliding_payment (work s) p ref = None"
    and am: "vr_amount r = Some (p_payable_amount p)" "vr_user_id r = Some (p_gateway_user_id p)"
    using assms by (auto simp: settles_def colliding_payment_None)
  note unfold = validate_and_apply_verification_def Let_def queue_notification_def
  show "cr_status (snd (validate_and_apply_verification cfg s p r)) = CB_BOT_PENDING"
    using ref am by (simp add: unfold)
  show "payments (work (fst (validate_and_apply_verification cfg s p r)))
           = put_row p_id (queued_state p r (clock s)) (payments (work s))"
    using ref am by (simp add: unfold queued_state_def settled_state_def split: option.split)
  show "durable (fst (validate_and_apply_verification cfg s p r)) = work (fst (validate_and_apply_verification cfg s p r))"
    using ref am by (simp add: unfold)
  show "has_event (fst (validate_and_apply_verification cfg s p r)) (Some (p_id p)) ''gateway_payment_verified''"
    "has_event (fst (validate_and_apply_verification cfg s p r)) (Some (p_id p)) ''bot_notification_queued''"
    using ref am
    by (simp_all add: unfold has_event_record_mono maybe_record_first_payment_event settled_state_def split: option.split)
qed

lemma apply_refuses:
  assumes "vr_gateway_success r" "\<not> settles (work s) p r"
  shows "\<exists>m d. validate_and_apply_verification cfg s p r
      = (move_to_manual_review s p m d, \<lparr>cr_status = CB_UNDER_REVIEW, cr_bot_order_id = p_bot_order_id p\<rparr>)
      \<and> m \<in> set mismatch_reasons \<union> {''reference_id_collision''}"
proof -
  let ?refused = "\<lambda>m. \<exists>d. validate_and_apply_verification cfg s p r
      = (move_to_manual_review s p m d, \<lparr>cr_status = CB_UNDER_REVIEW, cr_bot_order_id = p_bot_order_id p\<rparr>)"
  note unfold = validate_and_apply_verification_def Let_def
  consider "vr_reference_id r = None"
    | ref where "vr_reference_id r = Some ref" "vr_amount r \<noteq> Some (p_payable_amount p)"
    | ref where "vr_reference_id r = Some ref" "vr_amount r = Some (p_payable_amount p)"
        "vr_user_id r \<noteq> Some (p_gateway_user_id p)"
    | ref q where "vr_reference_id r = Some ref" "vr_amount r = Some (p_payable_amount p)"
        "vr_user_id r = Some (p_gateway_user_id p)" "colliding_payment (work s) p ref = Some q"
    using assms by (cases "vr_reference_id r") (auto simp: settles_def colliding_payment_None [symmetric])
  then have "\<exists>m. ?refused m \<and> m \<in> set mismatch_reasons \<union> {''reference_id_collision''}"
  proof cases
    case 1
    then have R: "?refused (if vr_reference_id_invalid r then ''verify_invalid_reference_id'' else ''verify_missing_reference_id'')"
      by (auto simp: unfold)
    show ?thesis by (rule exI, rule conjI [OF R]) (simp add: mismatch_reasons_def)
  next
    case 2
    then have R: "?refused ''verify_payable_amount_mismatch''" by (auto simp: unfold)
    show ?thesis by (rule exI, rule conjI [OF R]) (simp add: mismatch_reasons_def)
  next
    case 3
    then have R: "?refused ''verify_user_id_mismatch''" by (auto simp: unfold)
    show ?thesis by (rule exI, rule conjI [OF R]) (simp add: mismatch_reasons_def)
  next
    case 4
    then have R: "?refused ''reference_id_collision''" by (auto simp: unfold)
    show ?thesis by (rule exI, rule conjI [OF R]) simp
  qed
  then show ?thesis by blast
qed

text \<open>The outcome and the row a settlement leaves, in all of its cases.\<close>

lemma verify_and_settle_cases:
  obtains (settled) r where "verify cl http (p_gateway_order_id p) = Inr r" "settles (work s) p r"
      "verify_and_settle cl http cfg src s p = (fst (validate_and_apply_verification cfg s p r), Inr VERIFIED)"
  | (review) r m d where "verify cl http (p_gateway_order_id p) = Inr r" "\<not> settles (work s) p r"
      "verify_and_settle cl http cfg src s p = (move_to_manual_review s p m d, Inr UNDER_REVIEW)"
      "m \<in> set mismatch_reasons \<union> {''reference_id_collision''}"
  | (noted) e s' out where "verify_and_settle cl http cfg src s p = (s', out)"
      "out \<in> range Inl \<union> {Inr GATEWAY_NOT_PAID}" "durable s' = work s'"
      "payments (work s') = put_row p_id (p\<lparr>p_last_error := Some e\<rparr>) (payments (work s))"
      "\<nexists>r. verify cl http (p_gateway_order_id p) = Inr r \<and> settles (work s) p r"
proof (cases "verify cl http (p_gateway_order_id p)")
  case (Inl exc)
  then show ?thesis by (intro noted) (auto simp: verify_and_settle_def Let_def)
next
  case (Inr r)
  show ?thesis
  proof (cases "vr_gateway_success r")
    case False
    then show ?thesis using Inr by (intro noted) (auto simp: verify_and_settle_def Let_def settles_def)
  next
    case True
    show ?thesis
    proof (cases "settles (work s) p r")
      case settles: True
      then show ?thesis
        using Inr True apply_settles(1) [OF settles, of cfg]
        by (intro settled) (auto simp: verify_and_settle_def Let_def split: prod.splits)
    next
      case False
      then obtain m d where "validate_and_apply_verification cfg s p r
          = (move_to_manual_review s p m d, \<lparr>cr_status = CB_UNDER_REVIEW, cr_bot_order_id = p_bot_order_id p\<rparr>)"
        "m \<in> set mismatch_reasons \<union> {''reference_id_collision''}"
        using apply_refuses [OF True False, of cfg] by blast
      then show ?thesis using Inr True False by (intro review) (auto simp: verify_and_settle_def Let_def)
    qed
  qed
qed

text \<open>
  C1. A payment settles exactly when the gateway's verify reply is an explicit success that
  reports the payable amount, the payer recorded on the row, and a valid reference id that no
  other payment carries. Every other reply or failure ends in review, "not paid" or an error.
\<close>

theorem settlement_iff:
  "snd (verify_and_settle cl http cfg src s p) = Inr VERIFIED \<longleftrightarrow>
     (\<exists>r. verify cl http (p_gateway_order_id p) = Inr r \<and> vr_gateway_success r
        \<and> vr_amount r = Some (p_payable_amount p) \<and> vr_user_id r = Some (p_gateway_user_id p)
        \<and> (\<exists>ref. vr_reference_id r = Some ref
             \<and> {q \<in> set (payments (work s)). p_id q \<noteq> p_id p \<and> p_reference_id q = Some ref} = {}))"
proof -
  have eq: "settles (work s) p r \<longleftrightarrow> vr_gateway_success r \<and> vr_amount r = Some (p_payable_amount p)
        \<and> vr_user_id r = Some (p_gateway_user_id p)
        \<and> (\<exists>ref. vr_reference_id r = Some ref
             \<and> {q \<in> set (payments (work s)). p_id q \<noteq> p_id p \<and> p_reference_id q = Some ref} = {})" for r
    by (auto simp: settles_def)
  show ?thesis
    unfolding eq [symmetric]
    by (cases rule: verify_and_settle_cases [of cl http p s cfg src]) auto
qed

lemma find_put_same:
  "find_row p_id xs (p_id p) \<noteq> None \<Longrightarrow> p_id q = p_id p \<Longrightarrow> find_row p_id (put_row p_id q xs) (p_id p) = Some q"
  by (simp add: find_row_put_row)


definition paid_reply :: "jdict \<Rightarrow> transport" where
  "paid_reply data = (\<lambda>url pl. HttpReply 200 (Some (JObj [(''success'', JBool True), (''data'', JObj data)])))"

definition good_data :: jdict where
  "good_data = [(''referenceId'', JStr ''R9''), (''amount'', JInt 50000), (''userId'', JInt 777),
                (''cardNumber'', JStr ''6037********1234'')]"

lemma demo_settles:
  "snd (verify_and_settle demo_client (paid_reply good_data) None Callback_Source
     (delivery_session [demo_payment 1 ''a'']) (demo_payment 1 ''a'')) = Inr VERIFIED"
  by code_simp


text \<open>
  C9. A verify attempt that does not settle changes no settlement fact of any row: no amount, no
  payer, no reference id, no verification time; and it leaves the row's status as it was or moves it
  to manual review.
\<close>

theorem unsettled_keeps_facts:
  assumes "snd (verify_and_settle cl http cfg src s p) \<noteq> Inr VERIFIED"
    and "distinct (map p_id (payments (work s)))" and "payment_by_id (work s) (p_id p) = Some p"
  shows "list_all2 (\<lambda>q q'. financial_eq q q' \<and> p_status q' \<in> {p_status q, MANUAL_REVIEW})
           (payments (work s)) (payments (durable (fst (verify_and_settle cl http cfg src s p))))"
proof -
  let ?R = "\<lambda>q q'. financial_eq q q' \<and> p_status q' \<in> {p_status q, MANUAL_REVIEW}"
  have put: "list_all2 ?R (payments (work s)) (put_row p_id q (payments (work s)))"
    if "p_id q = p_id p" "?R p q" for q
    using assms(2,3) that by (intro put_row_list_all2 [of _ _ "p_id p" p]) (auto simp: payment_by_id_def)
  show ?thesis
  proof (cases rule: verify_and_settle_cases [of cl http p s cfg src])
    case (settled r)
    then show ?thesis using assms(1) by simp
  next
    case (review r m d)
    then have e: "payments (durable (fst (verify_and_settle cl http cfg src s p)))
        = put_row p_id (p\<lparr>p_status := MANUAL_REVIEW, p_manual_review_at := Some (clock s), p_last_error := Some m\<rparr>)
            (payments (work s))"
      by simp
    show ?thesis unfolding e by (rule put) (simp_all add: financial_eq_def)
  next
    case (noted e s' out)
    then have e: "payments (durable (fst (verify_and_settle cl http cfg src s p)))
        = put_row p_id (p\<lparr>p_last_error := Some e\<rparr>) (payments (work s))"
      by simp
    show ?thesis unfolding e by (rule put) (simp_all add: financial_eq_def)
  qed
qed

theorem unsettled_keeps_facts_witness:
  "list_all2 (\<lambda>q q'. financial_eq q q' \<and> p_status q' \<in> {p_status q, MANUAL_REVIEW})
     [demo_payment 1 ''a'']
     (payments (durable (fst (verify_and_settle demo_client
        (paid_reply [(''referenceId'', JStr ''R9''), (''amount'', JInt 1), (''userId'', JInt 777)]) None Callback_Source
        (delivery_session [demo_payment 1 ''a'']) (demo_payment 1 ''a'')))))"
proof -
  have "snd (verify_and_settle demo_client
        (paid_reply [(''referenceId'', JStr ''R9''), (''amount'', JInt 1), (''userId'', JInt 777)]) None Callback_Source
        (delivery_session [demo_payment 1 ''a'']) (demo_payment 1 ''a'')) \<noteq> Inr VERIFIED"
    by code_simp
  from unsettled_keeps_facts [OF this] show ?thesis by (simp add: payment_by_id_def find_row_def)
qed

section \<open>Callbacks\<close>

text \<open>
  A callback that names no payment, carries a token other than the stored one, or arrives for a
  payment that is verified or under manual review leaves the payment table as it was, and its
  result is the same whatever the gateway would answer: no verify request is made.
\<close>

theorem callback_without_verify:
  assumes "\<And>p. payment_by_gateway_order_id (work s) g = Some p \<Longrightarrow>
             \<not> callback_token_matches C tok (p_callback_token_hash p)
           \<or> p_status p \<in> {GATEWAY_VERIFIED, BOT_NOTIFY_PENDING, BOT_NOTIFY_ACCEPTED, MANUAL_REVIEW}
           \<or> p_gateway_verified_at p \<noteq> None"
  shows "process_callback C cl http cfg s g tok = process_callback C cl http' cfg s g tok
       \<and> payments (durable (fst (process_callback C cl http cfg s g tok))) = payments (work s)"
proof (cases "payment_by_gateway_order_id (work s) g")
  case None
  then show ?thesis by (simp add: process_callback_def Let_def)
next
  case (Some p)
  with assms [OF Some] show ?thesis
    by (auto simp: process_callback_def Let_def VERIFIED_STATUSES_def)
qed

theorem callback_without_verify_witness:
  "process_callback demo_crypto demo_client (paid_reply good_data) None (delivery_session [pending_payment 1 ''a'']) 1000001 ''t''
     = process_callback demo_crypto demo_client (\<lambda>u p. HttpError ''x'') None (delivery_session [pending_payment 1 ''a'']) 1000001 ''t''
   \<and> payments (durable (fst (process_callback demo_crypto demo_client (paid_reply good_data) None
        (delivery_session [pending_payment 1 ''a'']) 1000001 ''t'')))
     = payments (work (delivery_session [pending_payment 1 ''a'']))"
  by (rule callback_without_verify)
     (simp add: payment_by_gateway_order_id_def pending_payment_def demo_payment_def)

text \<open>What any callback may do to a row: keep it, note an error, send it to review, or settle it once.\<close>

definition callback_step :: "payment \<Rightarrow> payment \<Rightarrow> bool" where
  "callback_step p q \<longleftrightarrow>
     p_notification_claimed_at q = p_notification_claimed_at p
   \<and> ((financial_eq p q \<and> p_status q \<in> {p_status p, MANUAL_REVIEW}
      \<and> p_bot_notify_reason q = p_bot_notify_reason p \<and> p_bot_notify_attempts q = p_bot_notify_attempts p
      \<and> (p_gateway_verified_at p \<noteq> None \<longrightarrow> q = p))
   \<or> (p_gateway_verified_at p = None \<and> p_status p \<noteq> MANUAL_REVIEW \<and> p_gateway_verified_at q \<noteq> None
      \<and> p_reference_id q \<noteq> None \<and> p_status q = BOT_NOTIFY_PENDING
      \<and> p_bot_notify_reason q = None \<and> p_bot_notify_attempts q = p_bot_notify_attempts p
      \<and> financial_eq (q\<lparr>p_gateway_verified_at := None, p_reference_id := p_reference_id p,
                         p_card_last4 := p_card_last4 p\<rparr>) p))"

lemma callback_step_refl [simp]: "callback_step p p"
  by (simp add: callback_step_def)

lemma verify_and_settle_callback_step:
  assumes "p_gateway_verified_at p = None" "p_status p \<noteq> MANUAL_REVIEW"
    and "distinct (map p_id (payments (work s)))" "find_row p_id (payments (work s)) (p_id p) = Some p"
  shows "list_all2 callback_step (payments (work s)) (payments (durable (fst (verify_and_settle cl http cfg src s p))))"
proof -
  have put: "list_all2 callback_step (payments (work s)) (put_row p_id q (payments (work s)))"
    if "p_id q = p_id p" "callback_step p q" for q
    using assms(3,4) that by (intro put_row_list_all2 [of _ _ "p_id p" p]) auto
  show ?thesis
  proof (cases rule: verify_and_settle_cases [of cl http p s cfg src])
    case (settled r)
    have "vr_reference_id r \<noteq> None" using settled(2) by (auto simp: settles_def)
    then have "callback_step p (queued_state p r (clock s))"
      using assms(1,2) by (simp add: callback_step_def queued_state_def settled_state_def financial_eq_def)
    then show ?thesis using settled apply_settles(2,3) [OF settled(2), of cfg] by (simp add: put)
  next
    case (review r m d)
    then show ?thesis using assms(1) by (simp add: put callback_step_def financial_eq_def)
  next
    case (noted e s' out)
    then show ?thesis using assms(1) by (simp add: put callback_step_def financial_eq_def)
  qed
qed

definition received :: "session \<Rightarrow> payment \<Rightarrow> int \<Rightarrow> session" where
  "received s p g = record_event s (Some (p_id p)) ''callback_received'' ''info''
     [(''gateway_order_id'', JInt g), (''payment_status'', JStr (status_value (p_status p)))]"

lemma process_callback_verifies:
  assumes "payment_by_gateway_order_id (work s) g = Some p"
    and "callback_token_matches C tok (p_callback_token_hash p)"
    and "p_status p \<notin> set VERIFIED_STATUSES" "p_gateway_verified_at p = None" "p_status p \<noteq> MANUAL_REVIEW"
  shows "fst (process_callback C cl http cfg s g tok) = fst (verify_and_settle cl http cfg Callback_Source (received s p g) p)"
proof -
  have "process_callback C cl http cfg s g tok =
      (case verify_and_settle cl http cfg Callback_Source (received s p g) p of
         (s2, Inl exc) \<Rightarrow> (s2, Inl (CentralPayError exc))
       | (s2, Inr GATEWAY_NOT_PAID) \<Rightarrow> (s2, Inl VerificationFailedError)
       | (s2, Inr UNDER_REVIEW) \<Rightarrow> (s2, Inr \<lparr>cr_status = CB_UNDER_REVIEW, cr_bot_order_id = p_bot_order_id p\<rparr>)
       | (s2, Inr VERIFIED) \<Rightarrow> (s2, Inr \<lparr>cr_status = CB_BOT_PENDING, cr_bot_order_id = p_bot_order_id p\<rparr>))"
    using assms by (simp add: process_callback_def Let_def received_def)
  then show ?thesis by (simp split: prod.split sum.split settlement_outcome.split)
qed

text \<open>A callback either leaves the payment table alone or is one verify attempt on an open row.\<close>

lemma process_callback_cases:
  obtains (ignored) "payments (durable (fst (process_callback C cl http cfg s g tok))) = payments (work s)"
  | (attempted) p where "p \<in> set (payments (work s))" "p_gateway_verified_at p = None" "p_status p \<noteq> MANUAL_REVIEW"
      "fst (process_callback C cl http cfg s g tok) = fst (verify_and_settle cl http cfg Callback_Source (received s p g) p)"
proof (cases "payment_by_gateway_order_id (work s) g")
  case None
  then show ?thesis by (intro ignored) (simp add: process_callback_def Let_def)
next
  case (Some p)
  then have p: "p \<in> set (payments (work s))"
    by (auto simp: payment_by_gateway_order_id_def dest: find_SomeD)
  show ?thesis
  proof (cases "callback_token_matches C tok (p_callback_token_hash p) \<and> p_status p \<notin> set VERIFIED_STATUSES
      \<and> p_gateway_verified_at p = None \<and> p_status p \<noteq> MANUAL_REVIEW")
    case True
    then show ?thesis using process_callback_verifies [OF Some] p by (intro attempted) blast+
  next
    case False
    then show ?thesis using Some by (intro ignored) (auto simp: process_callback_def Let_def)
  qed
qed

lemma received_sel [simp]: "payments (work (received s p g)) = payments (work s)"
  by (simp add: received_def)

lemma process_callback_callback_step:
  assumes "distinct (map p_id (payments (work s)))"
  shows "list_all2 callback_step (payments (work s)) (payments (durable (fst (process_callback C cl http cfg s g tok))))"
proof (cases rule: process_callback_cases [of C cl http cfg s g tok])
  case ignored
  then show ?thesis by (simp add: list.rel_refl_strong)
next
  case (attempted p)
  then show ?thesis
    using verify_and_settle_callback_step [of p "received s p g" cl http cfg Callback_Source] assms
      find_row_mem [OF assms attempted(1)] by simp
qed

text \<open>
  C8. Whatever a callback carries and whatever the gateway answers, every row keeps its identity,
  amounts and payer; a verified row is not touched at all; and a row becomes verified only from an
  unverified, unreviewed one, together with a reference id and a queued delivery.
\<close>

theorem callback_settles_once:
  assumes "distinct (map p_id (payments (work s)))"
  shows "list_all2 callback_step (payments (work s))
           (payments (durable (fst (process_callback C cl http cfg s g tok))))"
  using assms by (rule process_callback_callback_step)

theorem callback_settles_once_witness:
  "list_all2 callback_step [demo_payment 1 ''a'']
     (payments (durable (fst (process_callback demo_crypto demo_client (paid_reply good_data) None
        (delivery_session [demo_payment 1 ''a'']) 1000001 ''t''))))"
  using callback_settles_once [of "delivery_session [demo_payment 1 ''a'']"] by simp

section \<open>Reference ids stay unique\<close>

definition unique_references :: "db \<Rightarrow> bool" where
  "unique_references d \<longleftrightarrow>
     (\<forall>p\<in>set (payments d). \<forall>q\<in>set (payments d).
        p_reference_id p \<noteq> None \<and> p_reference_id p = p_reference_id q \<longrightarrow> p_id p = p_id q)"

lemma unique_references_put:
  assumes "unique_references d" "distinct (map p_id (payments d))"
    and "\<And>r q. p_reference_id p' = Some r \<Longrightarrow> q \<in> set (payments d) \<Longrightarrow> p_id q \<noteq> p_id p' \<Longrightarrow> p_reference_id q \<noteq> Some r"
    and "payments d' = put_row p_id p' (payments d)"
  shows "unique_references d'"
  unfolding unique_references_def
proof (intro ballI impI)
  fix p q assume pq: "p \<in> set (payments d')" "q \<in> set (payments d')"
    and ref: "p_reference_id p \<noteq> None \<and> p_reference_id p = p_reference_id q"
  have "p = p' \<or> p \<in> set (payments d) \<and> p_id p \<noteq> p_id p'" "q = p' \<or> q \<in> set (payments d) \<and> p_id q \<noteq> p_id p'"
    using pq payment_table.put_mem [OF assms(2)] unfolding assms(4) by blast+
  then show "p_id p = p_id q"
    using assms(1,3) ref unfolding unique_references_def by (metis not_None_eq)
qed

lemma verify_and_settle_unique:
  assumes "unique_references (work s)" and "distinct (map p_id (payments (work s)))"
    and "payment_by_id (work s) (p_id p) = Some p"
  shows "unique_references (durable (fst (verify_and_settle cl http cfg src s p)))"
proof -
  have own: "p_reference_id q \<noteq> Some r"
    if "p_reference_id p = Some r" "q \<in> set (payments (work s))" "p_id q \<noteq> p_id p" for q r
  proof -
    have "p \<in> set (payments (work s))"
      using assms(3) find_row_Some [of p_id "payments (work s)" "p_id p" p] by (simp add: payment_by_id_def)
    then show ?thesis using assms(1) that unfolding unique_references_def by (metis option.distinct(1))
  qed
  show ?thesis
  proof (cases rule: verify_and_settle_cases [of cl http p s cfg src])
    case (settled r)
    show ?thesis
    proof (rule unique_references_put [OF assms(1,2)])
      show "payments (durable (fst (verify_and_settle cl http cfg src s p)))
          = put_row p_id (queued_state p r (clock s)) (payments (work s))"
        using settled apply_settles(2,3) [OF settled(2), of cfg] by simp
    qed (use settled(2) in \<open>auto simp: settles_def queued_state_def settled_state_def\<close>)
  next
    case (review r m d)
    show ?thesis
    proof (rule unique_references_put [OF assms(1,2)])
      show "payments (durable (fst (verify_and_settle cl http cfg src s p)))
          = put_row p_id (p\<lparr>p_status := MANUAL_REVIEW, p_manual_review_at := Some (clock s), p_last_error := Some m\<rparr>)
              (payments (work s))"
        using review by simp
    qed (use own in auto)
  next
    case (noted e s' out)
    show ?thesis
    proof (rule unique_references_put [OF assms(1,2)])
      show "payments (durable (fst (verify_and_settle cl http cfg src s p)))
          = put_row p_id (p\<lparr>p_last_error := Some e\<rparr>) (payments (work s))"
        using noted by simp
    qed (use own in auto)
  qed
qed

text \<open>
  Settlement keeps reference ids unique: if no two payments share one before, none do after,
  whatever the gateway reports.
\<close>

theorem settlement_unique_references:
  assumes "unique_references (work s)" and "distinct (map p_id (payments (work s)))"
    and "payment_by_id (work s) (p_id p) = Some p"
  shows "unique_references (durable (fst (verify_and_settle cl http cfg src s p)))"
  using assms by (rule verify_and_settle_unique)

theorem settlement_unique_references_witness:
  "unique_references (durable (fst (verify_and_settle demo_client (paid_reply good_data) None Callback_Source
     (delivery_session [demo_payment 1 ''a'', pending_payment 2 ''b'']) (demo_payment 1 ''a''))))"
  by (rule settlement_unique_references)
     (simp_all add: unique_references_def payment_by_id_def find_row_def pending_payment_def demo_payment_def)

section \<open>Card numbers\<close>

text \<open>
  Of a card number at most its last four digits are kept: nothing when it has fewer than four,
  else exactly the last four of its digits.
\<close>

theorem card_last4_keeps_four:
  "case card_last4 number of
     None \<Rightarrow> number = None \<or> length (filter py_isdigit (coalesce number [])) < 4
   | Some l \<Rightarrow> length l = 4 \<and> (\<exists>front. filter py_isdigit (coalesce number []) = front @ l)"
proof (cases number)
  case (Some n)
  let ?d = "filter py_isdigit n"
  have "\<exists>front. ?d = front @ drop (length ?d - 4) ?d" by (metis append_take_drop_id)
  then show ?thesis using Some by (auto simp: card_last4_def Let_def)
qed (simp add: card_last4_def)

end
