(* ===== verification/Payments.thy ===== *)
theory Payments
  imports Fees Payer_Identity Verification
begin

text \<open>
  Payment creation (\<open>app/services/payments.py\<close>): idempotent by the bot's order id. The code runs in
  several transactions: the row is created (\<open>ensure_payment_row\<close>), the payer of an existing row is
  resolved (\<open>payer_of_request\<close>), and the link is issued under the row lock (\<open>issue_link\<close>).
  \<open>create_payment\<close> is their composition. What other sessions commit between the transactions, the
  random draws, the one-time token and the clock reading after the getLink call come from a
  \<open>create_env\<close>.
\<close>

section \<open>Constants and small parts\<close>

definition LINKED_STATUSES :: "payment_status list" where
  "LINKED_STATUSES = [LINK_CREATED, GATEWAY_VERIFIED, BOT_NOTIFY_PENDING, BOT_NOTIFY_ACCEPTED, MANUAL_REVIEW]"

definition GATEWAY_ORDER_ID_MIN :: int where
  "GATEWAY_ORDER_ID_MIN = 10 ^ 11"

definition GATEWAY_ORDER_ID_SPAN :: int where
  "GATEWAY_ORDER_ID_SPAN = 9 * 10 ^ 11"

definition GATEWAY_ORDER_ID_ATTEMPTS :: nat where
  "GATEWAY_ORDER_ID_ATTEMPTS = 5"

text \<open>\<open>random k\<close> is the \<open>k\<close>-th value of \<open>secrets.randbelow(_GATEWAY_ORDER_ID_SPAN)\<close>.\<close>

definition generate_gateway_order_id :: "db \<Rightarrow> (nat \<Rightarrow> int) \<Rightarrow> bridge_error + int" where
  "generate_gateway_order_id d random =
     (case find (\<lambda>k. payment_by_gateway_order_id d (GATEWAY_ORDER_ID_MIN + random k) = None)
             [0..<GATEWAY_ORDER_ID_ATTEMPTS] of
        Some k \<Rightarrow> Inr (GATEWAY_ORDER_ID_MIN + random k)
      | None \<Rightarrow> Inl GatewayOrderIdAllocationError)"

record create_env =
  ce_others :: "nat \<Rightarrow> db \<Rightarrow> db"
  ce_payer_others :: "nat \<Rightarrow> db \<Rightarrow> db"
  ce_payer_others_again :: "nat \<Rightarrow> db \<Rightarrow> db"
  ce_random :: "nat \<Rightarrow> int"
  ce_random_again :: "nat \<Rightarrow> int"
  ce_token :: string
  ce_link_now :: time

definition requested_type :: "int option \<Rightarrow> identity_type" where
  "requested_type telegram_user_id = (if telegram_user_id = None then ORDER_FALLBACK else TELEGRAM_USER)"

text \<open>The row \<open>Payment(...)\<close> builds; its id and creation time are filled in by the insert.\<close>

definition new_payment ::
  "string \<Rightarrow> int \<Rightarrow> payer_identity \<Rightarrow> identity_type \<Rightarrow> int \<Rightarrow> int option \<Rightarrow> int \<Rightarrow> int \<Rightarrow> int \<Rightarrow> payment" where
  "new_payment bot_order_id gateway_order_id payer identity_type amount fee_policy_id rate_bps fee_amount payable =
     \<lparr>p_id = 0, p_bot_order_id = bot_order_id, p_gateway_order_id = gateway_order_id,
      p_gateway_user_id = pid_gateway_user_id payer, p_payer_identity_id = Some (pid_id payer),
      p_payer_identity_type = Some identity_type, p_payer_derivation_version = Some (pid_derivation_version payer),
      p_amount = amount, p_fee_policy_id = fee_policy_id, p_fee_rate_bps = rate_bps,
      p_fee_amount = fee_amount, p_payable_amount = payable, p_status = CREATED,
      p_redirect_url = None, p_reference_id = None, p_callback_token_hash = None,
      p_callback_token_issued_at = None, p_review_acknowledged_at = None, p_review_resolved_at = None,
      p_review_resolution = None, p_attention_resolved_at = None, p_attention_resolution = None,
      p_attention_resolved_by = None, p_attention_resolution_note = None, p_card_last4 = None,
      p_last_error = None, p_gateway_verified_at = None, p_bot_notify_reason = None,
      p_bot_notify_attempts = 0, p_bot_last_http_status = None, p_bot_last_error_code = None,
      p_bot_notify_started_at = None, p_bot_notify_accepted_at = None, p_next_retry_at = None,
      p_manual_review_at = None, p_notification_claimed_at = None, p_notification_claimed_by = None,
      p_reconciliation_attempts = 0, p_reconciliation_next_at = None, p_reconciliation_last_at = None,
      p_reconciliation_last_error_code = None, p_reconciliation_claimed_at = None,
      p_reconciliation_claimed_by = None, p_created_at = 0\<rparr>"

section \<open>The row\<close>

text \<open>\<open>Inr (Some payer)\<close>: this call created the row. \<open>Inr None\<close>: it existed or another session won.\<close>

definition insert_new_payment ::
  "create_env \<Rightarrow> session \<Rightarrow> payment \<Rightarrow> payer_identity \<Rightarrow> session \<times> (bridge_error + payer_identity option)" where
  "insert_new_payment env s p payer =
     (case insert_payment s p of
        (s1, None) \<Rightarrow> (rollback_seeing (ce_others env 2) s1, Inr None)
      | (s1, Some row) \<Rightarrow>
          (let amounts = [(''fee_rate_bps'', JInt (p_fee_rate_bps row)), (''fee_amount'', JInt (p_fee_amount row)),
                          (''payable_amount'', JInt (p_payable_amount row))];
               s2 = record_event s1 (Some (p_id row)) ''payment_created'' ''info''
                      ([(''bot_order_id'', JStr (p_bot_order_id row)),
                        (''gateway_order_id'', JInt (p_gateway_order_id row)),
                        (''original_amount'', JInt (p_amount row))] @ amounts);
               s3 = record_event s2 (Some (p_id row)) ''payment_fee_snapshotted'' ''info''
                      [(''fee_policy_id'', jopt_int (p_fee_policy_id row)), (''fee_rate_bps'', JInt (p_fee_rate_bps row)),
                       (''original_amount'', JInt (p_amount row)), (''fee_amount'', JInt (p_fee_amount row)),
                       (''payable_amount'', JInt (p_payable_amount row))]
           in (commit s3, Inr (Some payer))))"

definition ensure_payment_row ::
  "crypto \<Rightarrow> settings \<Rightarrow> create_env \<Rightarrow> session \<Rightarrow> string \<Rightarrow> int \<Rightarrow> int option \<Rightarrow>
   session \<times> (bridge_error + payer_identity option)" where
  "ensure_payment_row C cfg env s bot_order_id amount telegram_user_id =
     (let s1 = rollback_seeing (ce_others env 0) s
      in if payment_by_bot_order_id (work s) bot_order_id \<noteq> None then (s1, Inr None)
         else
           let policy = select_effective_policy (work s1) (clock s1);
               rate_bps = (case policy of Some f \<Rightarrow> fp_rate_bps f | None \<Rightarrow> 0)
           in case calculate_fee amount rate_bps of
                Inl e \<Rightarrow> (s1, Inl e)
              | Inr (fee_amount, payable_amount) \<Rightarrow>
                  if payable_amount > max_payment_amount_toman cfg then
                    (rollback s1, Inl (PayableAmountOutOfRangeError
                       (''Payable amount '' @ show_int payable_amount @ '' TOMAN (original '' @ show_int amount @
                        '' + fee '' @ show_int fee_amount @ '') exceeds the maximum '' @
                        show_int (max_payment_amount_toman cfg) @ '' TOMAN'')))
                  else
                    case resolve_payer_identity C (ce_payer_others env) s1 (centralpay_payer_id_secret cfg)
                           (scoped_key telegram_user_id bot_order_id) telegram_user_id
                           (Some (centralpay_user_id cfg)) of
                      (s2, Inl e) \<Rightarrow> (s2, Inl e)
                    | (s2, Inr payer) \<Rightarrow>
                        (let s3 = rollback_seeing (ce_others env 1) s2
                         in case generate_gateway_order_id (work s3) (ce_random env) of
                              Inl e \<Rightarrow> (s3, Inl e)
                            | Inr goid \<Rightarrow>
                                insert_new_payment env s3
                                  (new_payment bot_order_id goid payer (requested_type telegram_user_id) amount
                                     (map_option fp_id policy) rate_bps fee_amount payable_amount)
                                  payer))"

section \<open>The payer of an existing row\<close>

text \<open>The key hash of the mapping the stored row points to (the JOIN on \<open>payer_identity_id\<close>).\<close>

definition stored_key_hash :: "db \<Rightarrow> string \<Rightarrow> string option" where
  "stored_key_hash d bot_order_id =
     (case payment_by_bot_order_id d bot_order_id of
        None \<Rightarrow> None
      | Some p \<Rightarrow>
          (case p_payer_identity_id p of
             None \<Rightarrow> None
           | Some i \<Rightarrow> map_option pi_customer_key_hash (find_row pi_id (payer_identities d) i)))"

definition payer_of_request ::
  "crypto \<Rightarrow> settings \<Rightarrow> create_env \<Rightarrow> session \<Rightarrow> string \<Rightarrow> int option \<Rightarrow>
   session \<times> (bridge_error + payer_identity option)" where
  "payer_of_request C cfg env s bot_order_id telegram_user_id =
     (let stored = stored_key_hash (work s) bot_order_id;
          s1 = rollback_seeing (ce_others env 3) s;
          secret = centralpay_payer_id_secret cfg
      in if stored = Some (historical_identity_key_hash C secret (scoped_key telegram_user_id bot_order_id))
         then (s1, Inr None)
         else case resolve_payer_identity C (ce_payer_others_again env) s1 secret
                     (scoped_key telegram_user_id bot_order_id) telegram_user_id (Some (centralpay_user_id cfg)) of
                (s2, Inl e) \<Rightarrow> (s2, Inl e)
              | (s2, Inr payer) \<Rightarrow> (s2, Inr (Some payer)))"

datatype identity_decision = Reuse | Adopt | Reject

definition reconcile_identity :: "payment \<Rightarrow> identity_type \<Rightarrow> payer_identity \<Rightarrow> bool \<Rightarrow> identity_decision" where
  "reconcile_identity p requested payer has_live_link =
     (case p_payer_identity_id p of
        None \<Rightarrow> if has_live_link then Reuse else Adopt
      | Some existing \<Rightarrow>
          if existing = pid_id payer then Reuse
          else case p_payer_identity_type p of
                 None \<Rightarrow> if has_live_link then Reuse else Adopt
               | Some existing_type \<Rightarrow>
                   if existing_type = TELEGRAM_USER \<and> requested = ORDER_FALLBACK then Reuse
                   else if existing_type = ORDER_FALLBACK \<and> requested = TELEGRAM_USER
                        then (if \<not> has_live_link then Adopt else Reuse)
                   else Reject)"

definition find_safe_replay_redirect_url :: "db \<Rightarrow> string \<Rightarrow> int \<Rightarrow> int option \<Rightarrow> string option" where
  "find_safe_replay_redirect_url d bot_order_id amount telegram_user_id =
     (case payment_by_bot_order_id d bot_order_id of
        None \<Rightarrow> None
      | Some p \<Rightarrow>
          if p_status p \<noteq> LINK_CREATED \<or> p_redirect_url p \<in> {None, Some []} then None
          else if p_amount p \<noteq> amount then None
          else let identity_matches =
                     (case telegram_user_id of
                        Some t \<Rightarrow> p_payer_identity_type p = Some TELEGRAM_USER \<and> p_gateway_user_id p = t
                      | None \<Rightarrow> p_payer_identity_type p = Some ORDER_FALLBACK)
               in if \<not> identity_matches then None else p_redirect_url p)"

section \<open>The link\<close>

definition adopt_identity :: "payment \<Rightarrow> payer_identity \<Rightarrow> identity_type \<Rightarrow> payment" where
  "adopt_identity p payer requested =
     p\<lparr>p_gateway_user_id := pid_gateway_user_id payer, p_payer_identity_id := Some (pid_id payer),
       p_payer_identity_type := Some requested,
       p_payer_derivation_version := Some (pid_derivation_version payer)\<rparr>"

text \<open>
  From the identity decision on: adopt, draw a fresh order id after a failed attempt, renew the
  token, call getLink, and record the result.
\<close>

definition request_link ::
  "crypto \<Rightarrow> centralpay_client \<Rightarrow> transport \<Rightarrow> (string \<Rightarrow> bool) \<Rightarrow> settings \<Rightarrow> create_env \<Rightarrow> session \<Rightarrow> payment \<Rightarrow>
   session \<times> (bridge_error + string)" where
  "request_link C cl http bracket_ok cfg env s p =
     (case (if p_status p = GETLINK_FAILED then generate_gateway_order_id (work s) (ce_random_again env)
            else Inr (p_gateway_order_id p)) of
        Inl e \<Rightarrow> (s, Inl e)
      | Inr goid \<Rightarrow>
          (let p1 = p\<lparr>p_gateway_order_id := goid,
                      p_callback_token_hash := Some (callback_token_hash C (ce_token env))\<rparr>;
               return_url = build_callback_url C cfg goid (ce_token env)
           in case get_link cl http bracket_ok (p_payable_amount p1) (p_gateway_user_id p1) goid return_url of
                Inl exc \<Rightarrow>
                  (let text = take ERROR_MAX_LENGTH (cp_message exc);
                       p2 = p1\<lparr>p_status := GETLINK_FAILED, p_last_error := Some text\<rparr>
                   in (commit (record_event (put_payment s p2) (Some (p_id p)) ''centralpay_getlink_failed'' ''error''
                         [(''gateway_order_id'', JInt goid), (''error_code'', JStr (cp_code exc)),
                          (''reason'', JStr text)]),
                       Inl (CentralPayError exc)))
              | Inr redirect_url \<Rightarrow>
                  (let p2 = p1\<lparr>p_callback_token_issued_at := Some (ce_link_now env), p_status := LINK_CREATED,
                               p_redirect_url := Some redirect_url, p_last_error := None\<rparr>
                   in (commit (record_event (put_payment s p2) (Some (p_id p)) ''payment_link_created'' ''info''
                         [(''gateway_order_id'', JInt goid), (''original_amount'', JInt (p_amount p)),
                          (''fee_rate_bps'', JInt (p_fee_rate_bps p)), (''fee_amount'', JInt (p_fee_amount p)),
                          (''payable_amount'', JInt (p_payable_amount p))]),
                       Inr redirect_url))))"

definition has_live_link :: "payment \<Rightarrow> bool" where
  "has_live_link p \<longleftrightarrow>
     p_redirect_url p \<noteq> None \<or> p_gateway_verified_at p \<noteq> None \<or> p_status p \<in> set LINKED_STATUSES"

definition issue_link ::
  "crypto \<Rightarrow> centralpay_client \<Rightarrow> transport \<Rightarrow> (string \<Rightarrow> bool) \<Rightarrow> settings \<Rightarrow> create_env \<Rightarrow> session \<Rightarrow> string \<Rightarrow> int \<Rightarrow>
   int option \<Rightarrow> payer_identity option \<Rightarrow> session \<times> (bridge_error + string)" where
  "issue_link C cl http bracket_ok cfg env s bot_order_id amount telegram_user_id payer =
     (case payment_by_bot_order_id (work s) bot_order_id of
        None \<Rightarrow> (s, Inl GatewayOrderIdAllocationError)
      | Some p \<Rightarrow>
          (let requested = requested_type telegram_user_id;
               decision = (case payer of
                             None \<Rightarrow> Reuse
                           | Some pay \<Rightarrow> reconcile_identity p requested pay (has_live_link p))
           in if decision = Reject then
                (commit (record_event s (Some (p_id p)) ''duplicate_order_customer_mismatch'' ''warning''
                   [(''existing_payer_identity_id'', jopt_int (p_payer_identity_id p)),
                    (''existing_payer_identity_type'',
                       jopt_str (map_option identity_type_value (p_payer_identity_type p))),
                    (''requested_payer_identity_id'', jopt_int (map_option pid_id payer)),
                    (''requested_payer_identity_type'', JStr (identity_type_value requested))]),
                 Inl DuplicateOrderCustomerMismatchError)
              else if p_amount p \<noteq> amount then
                (commit (record_event s (Some (p_id p)) ''duplicate_order_amount_mismatch'' ''warning''
                   [(''existing_amount'', JInt (p_amount p)), (''requested_amount'', JInt amount)]),
                 Inl DuplicateOrderAmountMismatchError)
              else if p_gateway_verified_at p \<noteq> None \<or> p_status p \<in> set VERIFIED_STATUSES then
                (rollback s, Inl OrderAlreadyVerifiedError)
              else if p_status p = MANUAL_REVIEW then (rollback s, Inl OrderUnderReviewError)
              else if p_status p = LINK_CREATED \<and> p_redirect_url p \<notin> {None, Some []} then
                (rollback s, Inr (the (p_redirect_url p)))
              else case (decision, payer) of
                     (Adopt, Some pay) \<Rightarrow>
                       (let p' = adopt_identity p pay requested
                        in request_link C cl http bracket_ok cfg env
                             (record_event (put_payment s p') (Some (p_id p)) ''payment_payer_identity_adopted'' ''info''
                                [(''payer_identity_id'', JInt (pid_id pay)),
                                 (''identity_scheme'', JStr (identity_scheme_value (pid_scheme pay))),
                                 (''derivation_version'', JInt (pid_derivation_version pay)),
                                 (''identity_type'', JStr (identity_type_value requested))]) p')
                   | _ \<Rightarrow> request_link C cl http bracket_ok cfg env s p))"

definition create_payment ::
  "crypto \<Rightarrow> centralpay_client \<Rightarrow> transport \<Rightarrow> (string \<Rightarrow> bool) \<Rightarrow> settings \<Rightarrow> create_env \<Rightarrow> session \<Rightarrow> string \<Rightarrow> int \<Rightarrow>
   int option \<Rightarrow> session \<times> (bridge_error + string)" where
  "create_payment C cl http bracket_ok cfg env s bot_order_id amount telegram_user_id =
     (case ensure_payment_row C cfg env s bot_order_id amount telegram_user_id of
        (s1, Inl e) \<Rightarrow> (s1, Inl e)
      | (s1, Inr created) \<Rightarrow>
          (case (case created of
                   Some payer \<Rightarrow> (s1, Inr (Some payer))
                 | None \<Rightarrow> payer_of_request C cfg env s1 bot_order_id telegram_user_id) of
             (s2, Inl e) \<Rightarrow> (s2, Inl e)
           | (s2, Inr payer) \<Rightarrow>
               issue_link C cl http bracket_ok cfg env (rollback_seeing (ce_others env 4) s2)
                 bot_order_id amount telegram_user_id payer))"

section \<open>Identities on an existing order\<close>

text \<open>
  A retry is rejected exactly when the order already has a payer of the same scope (a Telegram
  user, or the order itself) and the request resolved to another one; and a stored payer is
  replaced only while no link exists, so no issued link is ever re-pointed.
\<close>

theorem reconcile_identity_decisions:
  "(reconcile_identity p requested payer live = Reject \<longleftrightarrow>
      p_payer_identity_id p \<notin> {None, Some (pid_id payer)} \<and> p_payer_identity_type p = Some requested)
   \<and> (reconcile_identity p requested payer True \<noteq> Adopt)
   \<and> (reconcile_identity p requested payer live = Adopt \<longleftrightarrow>
        \<not> live \<and> (p_payer_identity_id p = None
                \<or> p_payer_identity_id p \<noteq> Some (pid_id payer)
                  \<and> (p_payer_identity_type p = None
                    \<or> p_payer_identity_type p = Some ORDER_FALLBACK \<and> requested = TELEGRAM_USER)))"
proof -
  have ty: "ty = TELEGRAM_USER \<or> ty = ORDER_FALLBACK" for ty by (cases ty) auto
  show ?thesis
    using ty [of requested] ty [of "the (p_payer_identity_type p)"]
    by (auto simp: reconcile_identity_def split: option.splits)
qed

section \<open>Issuing a link\<close>

text \<open>\<open>keeps_order p q\<close>: what creation may never change on a row that exists.\<close>

definition keeps_order :: "payment \<Rightarrow> payment \<Rightarrow> bool" where
  "keeps_order p q \<longleftrightarrow>
     p_id q = p_id p \<and> p_bot_order_id q = p_bot_order_id p \<and> p_amount q = p_amount p
   \<and> p_fee_policy_id q = p_fee_policy_id p \<and> p_fee_rate_bps q = p_fee_rate_bps p
   \<and> p_fee_amount q = p_fee_amount p \<and> p_payable_amount q = p_payable_amount p
   \<and> p_reference_id q = p_reference_id p \<and> p_gateway_verified_at q = p_gateway_verified_at p
   \<and> p_card_last4 q = p_card_last4 p \<and> p_created_at q = p_created_at p
   \<and> p_bot_notify_attempts q = p_bot_notify_attempts p
   \<and> p_notification_claimed_at q = p_notification_claimed_at p
   \<and> p_notification_claimed_by q = p_notification_claimed_by p
   \<and> p_next_retry_at q = p_next_retry_at p \<and> p_bot_notify_reason q = p_bot_notify_reason p
   \<and> p_attention_resolved_at q = p_attention_resolved_at p \<and> p_attention_resolution q = p_attention_resolution p
   \<and> p_attention_resolved_by q = p_attention_resolved_by p
   \<and> p_attention_resolution_note q = p_attention_resolution_note p"

definition frozen :: "payment \<Rightarrow> bool" where
  "frozen p \<longleftrightarrow>
     p_gateway_verified_at p \<noteq> None \<or> p_status p \<in> set VERIFIED_STATUSES \<or> p_status p = MANUAL_REVIEW
   \<or> p_status p = LINK_CREATED \<and> p_redirect_url p \<notin> {None, Some []}"

definition creation_step :: "payment \<Rightarrow> payment \<Rightarrow> bool" where
  "creation_step p q \<longleftrightarrow>
     q = p \<or> \<not> frozen p \<and> keeps_order p q \<and> p_callback_token_hash q \<noteq> None
   \<and> (p_status q = GETLINK_FAILED \<and> p_redirect_url q = p_redirect_url p
      \<or> p_status q = LINK_CREATED \<and> p_redirect_url q \<notin> {None, Some []})"

lemma creation_step_refl [simp]: "creation_step p p"
  by (simp add: creation_step_def)

text \<open>The row a link request leaves, and what the gateway was asked for.\<close>

definition linked_row :: "crypto \<Rightarrow> create_env \<Rightarrow> payment \<Rightarrow> int \<Rightarrow> string \<Rightarrow> payment" where
  "linked_row C env p goid url =
     p\<lparr>p_gateway_order_id := goid, p_callback_token_hash := Some (callback_token_hash C (ce_token env)),
       p_callback_token_issued_at := Some (ce_link_now env), p_status := LINK_CREATED,
       p_redirect_url := Some url, p_last_error := None\<rparr>"

text \<open>A row keeps its gateway order id or takes one that no row has.\<close>

definition goid_fresh :: "db \<Rightarrow> payment \<Rightarrow> payment \<Rightarrow> bool" where
  "goid_fresh d p q \<longleftrightarrow>
     p_gateway_order_id q = p_gateway_order_id p \<or> payment_by_gateway_order_id d (p_gateway_order_id q) = None"

lemma payment_by_gateway_order_id_None:
  "payment_by_gateway_order_id d g = None \<longleftrightarrow> g \<notin> p_gateway_order_id ` set (payments d)"
  by (auto simp: payment_by_gateway_order_id_def find_None_iff)

lemma goid_fresh_record [simp]: "goid_fresh (work (record_event s pid ty lv d)) p q = goid_fresh (work s) p q"
  by (simp add: goid_fresh_def payment_by_gateway_order_id_def)

lemma generate_gateway_order_id_fresh:
  "generate_gateway_order_id d random = Inr g \<Longrightarrow> payment_by_gateway_order_id d g = None"
  by (auto simp: generate_gateway_order_id_def dest: find_SomeD split: option.splits)

lemma request_link_cases:
  obtains (failed) q e where "request_link C cl http ok cfg env s p = (fst (request_link C cl http ok cfg env s p), Inl e)"
      "payments (work (fst (request_link C cl http ok cfg env s p))) = put_row p_id q (payments (work s))"
      "durable (fst (request_link C cl http ok cfg env s p)) = work (fst (request_link C cl http ok cfg env s p))"
      "keeps_order p q" "p_status q = GETLINK_FAILED" "p_redirect_url q = p_redirect_url p" "p_callback_token_hash q \<noteq> None"
      "goid_fresh (work s) p q"
  | (unallocated) e where "request_link C cl http ok cfg env s p = (s, Inl e)"
  | (linked) goid url where
      "request_link C cl http ok cfg env s p = (fst (request_link C cl http ok cfg env s p), Inr url)"
      "payments (work (fst (request_link C cl http ok cfg env s p))) = put_row p_id (linked_row C env p goid url) (payments (work s))"
      "durable (fst (request_link C cl http ok cfg env s p)) = work (fst (request_link C cl http ok cfg env s p))"
      "get_link cl http ok (p_payable_amount p) (p_gateway_user_id p) goid (build_callback_url C cfg goid (ce_token env)) = Inr url"
      "goid_fresh (work s) p (linked_row C env p goid url)"
proof (cases "if p_status p = GETLINK_FAILED then generate_gateway_order_id (work s) (ce_random_again env)
            else Inr (p_gateway_order_id p)")
  case (Inl e)
  then show ?thesis by (intro unallocated) (simp add: request_link_def)
next
  case (Inr goid)
  then have g: "goid = p_gateway_order_id p \<or> payment_by_gateway_order_id (work s) goid = None"
    by (auto dest: generate_gateway_order_id_fresh split: if_splits)
  show ?thesis
  proof (cases "get_link cl http ok (p_payable_amount p) (p_gateway_user_id p) goid (build_callback_url C cfg goid (ce_token env))")
    case (Inl exc)
    then show ?thesis using Inr g
      by (intro failed [of "CentralPayError exc"
            "p\<lparr>p_gateway_order_id := goid, p_callback_token_hash := Some (callback_token_hash C (ce_token env)),
               p_status := GETLINK_FAILED, p_last_error := Some (take ERROR_MAX_LENGTH (cp_message exc))\<rparr>"])
         (simp_all add: request_link_def Let_def keeps_order_def goid_fresh_def)
  next
    case url: (Inr url)
    then show ?thesis using Inr g
      by (intro linked [of url goid]) (simp_all add: request_link_def Let_def linked_row_def goid_fresh_def)
  qed
qed

lemma linked_row_keeps: "keeps_order p (linked_row C env p goid url)" "p_status (linked_row C env p goid url) = LINK_CREATED"
  "p_id (linked_row C env p goid url) = p_id p"
  by (simp_all add: linked_row_def keeps_order_def)

lemma keeps_order_adopt: "keeps_order (adopt_identity p pay ty) q \<Longrightarrow> keeps_order p q"
  by (simp add: keeps_order_def adopt_identity_def)

lemma adopt_identity_sel [simp]:
  "p_redirect_url (adopt_identity p pay ty) = p_redirect_url p"
  "p_id (adopt_identity p pay ty) = p_id p" "p_payable_amount (adopt_identity p pay ty) = p_payable_amount p"
  "p_amount (adopt_identity p pay ty) = p_amount p" "p_bot_order_id (adopt_identity p pay ty) = p_bot_order_id p"
  by (simp_all add: adopt_identity_def)

lemma payment_by_bot_order_id_Some:
  "payment_by_bot_order_id d b = Some p \<Longrightarrow> p \<in> set (payments d) \<and> p_bot_order_id p = b"
  by (auto simp: payment_by_bot_order_id_def dest: find_SomeD)

text \<open>The endings of the link transaction.\<close>

definition issued :: "crypto \<Rightarrow> centralpay_client \<Rightarrow> transport \<Rightarrow> (string \<Rightarrow> bool) \<Rightarrow> settings \<Rightarrow> create_env \<Rightarrow> payment \<Rightarrow> payment \<Rightarrow> string \<Rightarrow> bool" where
  "issued C cl http ok cfg env p q url \<longleftrightarrow>
     keeps_order p q \<and> p_status q = LINK_CREATED \<and> p_redirect_url q = Some url
   \<and> p_callback_token_hash q = Some (callback_token_hash C (ce_token env))
   \<and> get_link cl http ok (p_payable_amount q) (p_gateway_user_id q) (p_gateway_order_id q)
       (build_callback_url C cfg (p_gateway_order_id q) (ce_token env)) = Inr url"

inductive link_outcome ::
  "crypto \<Rightarrow> centralpay_client \<Rightarrow> transport \<Rightarrow> (string \<Rightarrow> bool) \<Rightarrow> settings \<Rightarrow> create_env \<Rightarrow> session \<Rightarrow> string \<Rightarrow> int \<Rightarrow>
   session \<times> (bridge_error + string) \<Rightarrow> bool"
  for C cl http ok cfg env s b amount where
  lo_refused: "payments (durable s') = payments (durable s) \<Longrightarrow>
     link_outcome C cl http ok cfg env s b amount (s', Inl e)"
| lo_replayed: "payment_by_bot_order_id (durable s) b = Some p \<Longrightarrow> p_status p = LINK_CREATED \<Longrightarrow>
     p_redirect_url p = Some url \<Longrightarrow> p_amount p = amount \<Longrightarrow> p_gateway_verified_at p = None \<Longrightarrow>
     durable s' = durable s \<Longrightarrow>
     link_outcome C cl http ok cfg env s b amount (s', Inr url)"
| lo_failed: "payment_by_bot_order_id (durable s) b = Some p \<Longrightarrow> \<not> frozen p \<Longrightarrow> keeps_order p q \<Longrightarrow>
     p_status q = GETLINK_FAILED \<Longrightarrow> p_redirect_url q = p_redirect_url p \<Longrightarrow> p_callback_token_hash q \<noteq> None \<Longrightarrow>
     (distinct (map p_id (payments (durable s))) \<longrightarrow> goid_fresh (durable s) p q) \<Longrightarrow> payments (durable s') = put_row p_id q (payments (durable s)) \<Longrightarrow>
     link_outcome C cl http ok cfg env s b amount (s', Inl e)"
| lo_linked: "payment_by_bot_order_id (durable s) b = Some p \<Longrightarrow> \<not> frozen p \<Longrightarrow> p_amount p = amount \<Longrightarrow>
     issued C cl http ok cfg env p q url \<Longrightarrow>
     (distinct (map p_id (payments (durable s))) \<longrightarrow> goid_fresh (durable s) p q) \<Longrightarrow> payments (durable s') = put_row p_id q (payments (durable s)) \<Longrightarrow>
     link_outcome C cl http ok cfg env s b amount (s', Inr url)"

lemma request_link_outcome:
  assumes "payment_by_bot_order_id (durable s) b = Some p" "\<not> frozen p" "p_amount p = amount"
    and dur: "durable s' = durable s"
    and put: "\<And>q. p_id q = p_id p \<Longrightarrow> put_row p_id q (payments (work s')) = put_row p_id q (payments (durable s))"
    and keep: "\<And>q. keeps_order p' q \<Longrightarrow> keeps_order p q" and "p_redirect_url p' = p_redirect_url p"
    and fresh: "\<And>q. distinct (map p_id (payments (durable s))) \<Longrightarrow> goid_fresh (work s') p' q \<Longrightarrow> goid_fresh (durable s) p q"
  shows "link_outcome C cl http ok cfg env s b amount (request_link C cl http ok cfg env s' p')"
proof (cases rule: request_link_cases [of C cl http ok cfg env s' p'])
  case (failed q e)
  have k: "keeps_order p q" using keep failed(4) .
  then have "put_row p_id q (payments (work s')) = put_row p_id q (payments (durable s))"
    by (intro put) (simp add: keeps_order_def)
  then have "link_outcome C cl http ok cfg env s b amount (fst (request_link C cl http ok cfg env s' p'), Inl e)"
    using failed(2,3,6-8) fresh assms(7) by (intro lo_failed [OF assms(1,2) k failed(5)]) simp_all
  then show ?thesis using failed(1) by simp
next
  case (unallocated e)
  then show ?thesis using dur by (simp add: lo_refused)
next
  case (linked goid url)
  let ?q = "linked_row C env p' goid url"
  have k: "keeps_order p ?q" using keep linked_row_keeps(1) .
  then have "put_row p_id ?q (payments (work s')) = put_row p_id ?q (payments (durable s))"
    by (intro put) (simp add: keeps_order_def)
  moreover have "issued C cl http ok cfg env p ?q url"
    using linked(4) k by (simp add: issued_def linked_row_def)
  ultimately have "link_outcome C cl http ok cfg env s b amount (fst (request_link C cl http ok cfg env s' p'), Inr url)"
    using linked(2,3,5) fresh by (intro lo_linked [OF assms(1-3)]) simp_all
  then show ?thesis using linked(1) by simp
qed

text \<open>Adopting a payer does not touch gateway order ids.\<close>

lemma adopt_identity_fresh:
  assumes "distinct (map p_id (payments d))" "payment_by_bot_order_id d b = Some p" "work s = d"
    and "goid_fresh (work (put_payment s (adopt_identity p pay ty))) (adopt_identity p pay ty) q"
  shows "goid_fresh d p q"
proof -
  have "map p_gateway_order_id (put_row p_id (adopt_identity p pay ty) (payments d)) = map p_gateway_order_id (payments d)"
    using assms(1) payment_by_bot_order_id_Some [OF assms(2)]
    by (auto simp: put_row_def adopt_identity_def distinct_map inj_on_def)
  then have "p_gateway_order_id ` set (put_row p_id (adopt_identity p pay ty) (payments d)) = p_gateway_order_id ` set (payments d)"
    by (metis set_map)
  then show ?thesis
    using assms(3,4) unfolding goid_fresh_def payment_by_gateway_order_id_None by (simp add: adopt_identity_def)
qed

lemma issue_link_outcome:
  assumes "work s = durable s"
  shows "link_outcome C cl http ok cfg env s b amount (issue_link C cl http ok cfg env s b amount t payer)"
proof (cases "payment_by_bot_order_id (durable s) b")
  case None
  then show ?thesis using assms by (simp add: issue_link_def lo_refused)
next
  case (Some p)
  let ?decision = "case payer of None \<Rightarrow> Reuse
      | Some pay \<Rightarrow> reconcile_identity p (requested_type t) pay (has_live_link p)"
  show ?thesis
  proof (cases "?decision = Reject \<or> p_amount p \<noteq> amount \<or> p_gateway_verified_at p \<noteq> None
      \<or> p_status p \<in> set VERIFIED_STATUSES \<or> p_status p = MANUAL_REVIEW")
    case True
    then have "\<exists>s' e. issue_link C cl http ok cfg env s b amount t payer = (s', Inl e)
        \<and> payments (durable s') = payments (durable s)"
      using assms Some by (auto simp: issue_link_def Let_def)
    then show ?thesis by (auto intro: lo_refused)
  next
    case pass: False
    show ?thesis
    proof (cases "p_status p = LINK_CREATED \<and> p_redirect_url p \<notin> {None, Some []}")
      case True
      then obtain url where "p_redirect_url p = Some url" by auto
      moreover from this have "issue_link C cl http ok cfg env s b amount t payer = (rollback s, Inr url)"
        using assms Some True pass by (simp add: issue_link_def Let_def)
      ultimately show ?thesis using Some True pass by (auto intro: lo_replayed)
    next
      case False
      then have nf: "\<not> frozen p" using pass by (auto simp: frozen_def)
      have am: "p_amount p = amount" using pass by simp
      show ?thesis
      proof (cases "\<exists>pay. payer = Some pay \<and> ?decision = Adopt")
        case True
        then obtain pay where pay: "payer = Some pay" "?decision = Adopt" by blast
        let ?p' = "adopt_identity p pay (requested_type t)"
        obtain d where eq: "issue_link C cl http ok cfg env s b amount t payer = request_link C cl http ok cfg env
            (record_event (put_payment s ?p') (Some (p_id p)) ''payment_payer_identity_adopted'' ''info'' d) ?p'"
          using assms Some pass False pay by (auto simp: issue_link_def Let_def)
        have fresh: "goid_fresh (durable s) p q"
          if "distinct (map p_id (payments (durable s)))" "goid_fresh (work (put_payment s ?p')) ?p' q" for q
          using that adopt_identity_fresh [OF _ Some] assms by auto
        show ?thesis
          unfolding eq using assms fresh
          by (intro request_link_outcome [OF Some nf am]) (auto dest: keeps_order_adopt)
      next
        case reuse: False
        have "issue_link C cl http ok cfg env s b amount t payer = request_link C cl http ok cfg env s p"
          using assms Some pass False reuse
          by (auto simp: issue_link_def Let_def split: identity_decision.split option.splits)
        then show ?thesis
          using request_link_outcome [OF Some nf am, of s p C cl http ok cfg env] assms by simp
      qed
    qed
  qed
qed

lemma find_put_bot_order:
  assumes "distinct (map p_id xs)" "find (\<lambda>p. p_bot_order_id p = b) xs = Some p" "p_id q = p_id p" "p_bot_order_id q = b"
  shows "find (\<lambda>p. p_bot_order_id p = b) (put_row p_id q xs) = Some q"
  using assms
proof (induction xs)
  case (Cons x xs)
  show ?case
  proof (cases "p_bot_order_id x = b")
    case True
    then show ?thesis using Cons.prems by (simp add: put_row_def)
  next
    case False
    then have f: "find (\<lambda>p. p_bot_order_id p = b) xs = Some p" using Cons.prems(2) by simp
    then have "p \<in> set xs" by (auto dest: find_SomeD)
    then have "p_id p \<in> p_id ` set xs" by (rule imageI)
    then have "p_id x \<noteq> p_id p" using Cons.prems(1) by fastforce
    then show ?thesis using Cons.IH [OF _ f Cons.prems(3,4)] Cons.prems(1,3) False by (simp add: put_row_def)
  qed
qed simp

lemma create_payment_last_transaction:
  assumes "create_payment C cl http ok cfg env s b amount t = (s', Inr url)"
  obtains s2 payer where
    "issue_link C cl http ok cfg env (rollback_seeing (ce_others env 4) s2) b amount t payer = (s', Inr url)"
  using assms by (auto simp: create_payment_def split: prod.splits sum.splits option.splits)

text \<open>
  A URL that \<open>create_payment\<close> returns is the one durably stored on the order's row, whose amount
  is the requested one and which is open for payment (link created, not verified). Either it
  was there already, or the gateway issued it in this call for exactly the payable amount, payer and
  order id the row stores, with a return URL whose one-time token matches the stored hash. This
  holds (payment ids being unique) whatever other sessions commit between the transactions of the call.
\<close>

theorem create_payment_returns_stored_link:
  assumes "create_payment C cl http ok cfg env s b amount t = (s', Inr url)"
    and "distinct (map p_id (payments (durable s')))"
  shows "\<exists>q. payment_by_bot_order_id (durable s') b = Some q \<and> p_status q = LINK_CREATED
           \<and> p_redirect_url q = Some url \<and> p_amount q = amount \<and> p_gateway_verified_at q = None
           \<and> ((\<exists>d. payment_by_bot_order_id (ce_others env 4 d) b = Some q)
              \<or> p_callback_token_hash q = Some (callback_token_hash C (ce_token env))
                \<and> get_link cl http ok (p_payable_amount q) (p_gateway_user_id q) (p_gateway_order_id q)
                    (build_callback_url C cfg (p_gateway_order_id q) (ce_token env)) = Inr url)"
proof -
  obtain s2 payer where
    il: "issue_link C cl http ok cfg env (rollback_seeing (ce_others env 4) s2) b amount t payer = (s', Inr url)"
    using create_payment_last_transaction [OF assms(1)] .
  let ?s = "rollback_seeing (ce_others env 4) s2"
  have "link_outcome C cl http ok cfg env ?s b amount (s', Inr url)"
    using issue_link_outcome [of ?s C cl http ok cfg env b amount t payer] il by simp
  then show ?thesis
  proof cases
    case (lo_replayed p)
    then show ?thesis by auto
  next
    case (lo_linked p q)
    let ?d = "ce_others env 4 (durable s2)"
    have p: "p \<in> set (payments ?d)" "p_bot_order_id p = b"
      using payment_by_bot_order_id_Some lo_linked(1) by auto
    have q: "p_id q = p_id p" "p_bot_order_id q = b" "p_amount q = amount" "p_gateway_verified_at q = None"
      using lo_linked(2-4) p(2) by (auto simp: issued_def keeps_order_def frozen_def)
    have "distinct (map p_id (payments ?d))"
      using assms(2) lo_linked(6) by (simp add: payment_table.keys_put)
    then have "payment_by_bot_order_id (durable s') b = Some q"
      using find_put_bot_order [of "payments ?d" b p q] lo_linked(1,6) q
      by (simp add: payment_by_bot_order_id_def)
    then show ?thesis using q lo_linked(4) by (auto simp: issued_def)
  qed
qed

definition quiet_env :: create_env where
  "quiet_env = \<lparr>ce_others = (\<lambda>_ d. d), ce_payer_others = (\<lambda>_ d. d), ce_payer_others_again = (\<lambda>_ d. d),
     ce_random = (\<lambda>k. int k + 7), ce_random_again = (\<lambda>k. int k + 70), ce_token = ''tok'', ce_link_now = 60\<rparr>"

definition link_reply :: transport where
  "link_reply = (\<lambda>url pl. HttpReply 200 (Some (JObj [(''success'', JBool True),
      (''data'', JObj [(''redirectUrl'', JStr ''https://pay.ir/x'')])])))"

abbreviation demo_creation :: "session \<times> (bridge_error + string)" where
  "demo_creation \<equiv> create_payment demo_separating demo_client link_reply (\<lambda>_. False) demo_settings quiet_env
     (delivery_session []) ''o1'' 50000 (Some 42)"

lemma link_reply_accepted: "get_link cl link_reply (\<lambda>_. False) amount user ord ret = Inr ''https://pay.ir/x''"
proof -
  have "validate_redirect_url (\<lambda>_. False) (JStr ''https://pay.ir/x'') = Some ''https://pay.ir/x''" by code_simp
  moreover have "gateway_reason_code [(''success'', JBool True),
      (''data'', JObj [(''redirectUrl'', JStr ''https://pay.ir/x'')])] = (None, None)" by code_simp
  ultimately show ?thesis
    by (simp add: get_link_def link_reply_def post_json_def jget_def Let_def)
qed

lemma generate_gateway_order_id_first:
  "payment_by_gateway_order_id d (GATEWAY_ORDER_ID_MIN + r 0) = None \<Longrightarrow>
   generate_gateway_order_id d r = Inr (GATEWAY_ORDER_ID_MIN + r 0)"
  by (simp add: generate_gateway_order_id_def GATEWAY_ORDER_ID_ATTEMPTS_def upt_conv_Cons)

lemma demo_payer:
  obtains s2 payer where
    "resolve_payer_identity demo_separating (\<lambda>_ d. d) (rollback_seeing (\<lambda>d. d) (delivery_session [])) ''p''
       (scoped_key (Some 42) ''o1'') (Some 42) (Some 777) = (s2, Inr payer)"
    "payments (durable s2) = []" "pid_id payer = 101" "sq_payment (seq s2) = 100"
  by (simp add: resolve_payer_identity_def resolve_telegram_raw_def MAX_TELEGRAM_USER_ID_def Let_def
      lookup_identity_def insert_identity_def as_identity_def delivery_session_def new_session_def
      rollback_seeing_def empty_db_def record_identity_created_def)

lemma demo_row:
  obtains s1 payer p where
    "ensure_payment_row demo_separating demo_settings quiet_env (delivery_session []) ''o1'' 50000 (Some 42) = (s1, Inr (Some payer))"
    "payments (durable s1) = [p]" "p_id p = 101" "p_bot_order_id p = ''o1''" "p_amount p = 50000" "p_status p = CREATED"
    "p_gateway_verified_at p = None" "p_payer_identity_id p = Some (pid_id payer)"
proof -
  obtain s2 payer where r: "resolve_payer_identity demo_separating (\<lambda>_ d. d) (rollback_seeing (\<lambda>d. d) (delivery_session [])) ''p''
       (scoped_key (Some 42) ''o1'') (Some 42) (Some 777) = (s2, Inr payer)"
    "payments (durable s2) = []" "pid_id payer = 101" "sq_payment (seq s2) = 100"
    using demo_payer .
  have pol: "select_effective_policy (empty_db\<lparr>payments := []\<rparr>) c = None" for c
    by (simp add: select_effective_policy_def empty_db_def)
  have fee: "calculate_fee 50000 0 = Inr (0, 50000)" by (simp add: calculate_fee_def MAX_RATE_BPS_def)
  have cfg: "centralpay_payer_id_secret demo_settings = ''p''" "centralpay_user_id demo_settings = 777"
    "max_payment_amount_toman demo_settings = 100000000" by (simp_all add: demo_settings_def)
  have env: "ce_others quiet_env = (\<lambda>_ d. d)" "ce_payer_others quiet_env = (\<lambda>_ d. d)"
    by (simp_all add: quiet_env_def)
  have gen: "generate_gateway_order_id (durable s2) (ce_random quiet_env) = Inr (GATEWAY_ORDER_ID_MIN + 7)"
    using generate_gateway_order_id_first [of "durable s2" "ce_random quiet_env"] r(2)
    by (simp add: quiet_env_def payment_by_gateway_order_id_def)
  let ?p = "(new_payment ''o1'' (GATEWAY_ORDER_ID_MIN + 7) payer TELEGRAM_USER 50000 None 0 0 50000)"
  have "ensure_payment_row demo_separating demo_settings quiet_env (delivery_session []) ''o1'' 50000 (Some 42)
      = insert_new_payment quiet_env (rollback_seeing (\<lambda>d. d) s2) ?p payer"
    using r(1) gen
    by (simp add: ensure_payment_row_def Let_def payment_by_bot_order_id_def pol fee cfg env requested_type_def)
  moreover have "\<exists>s1. insert_new_payment quiet_env (rollback_seeing (\<lambda>d. d) s2) ?p payer = (s1, Inr (Some payer))
      \<and> payments (durable s1) = [?p\<lparr>p_id := 101, p_created_at := clock s2\<rparr>]"
    using r(2,4) by (simp add: insert_new_payment_def insert_payment_def new_payment_def ck_payment_def Let_def)
  ultimately obtain s1 where "ensure_payment_row demo_separating demo_settings quiet_env (delivery_session []) ''o1'' 50000 (Some 42)
      = (s1, Inr (Some payer))" "payments (durable s1) = [?p\<lparr>p_id := 101, p_created_at := clock s2\<rparr>]"
    by metis
  then show ?thesis by (rule that) (simp_all add: new_payment_def)
qed

lemma demo_create:
  "snd demo_creation = Inr ''https://pay.ir/x''" "map p_id (payments (durable (fst demo_creation))) = [101]"
proof -
  obtain s1 payer p where row:
    "ensure_payment_row demo_separating demo_settings quiet_env (delivery_session []) ''o1'' 50000 (Some 42) = (s1, Inr (Some payer))"
    "payments (durable s1) = [p]" "p_id p = 101" "p_bot_order_id p = ''o1''" "p_amount p = 50000" "p_status p = CREATED"
    "p_gateway_verified_at p = None" "p_payer_identity_id p = Some (pid_id payer)"
    using demo_row .
  then show "snd demo_creation = Inr ''https://pay.ir/x''" "map p_id (payments (durable (fst demo_creation))) = [101]"
    by (simp_all add: create_payment_def issue_link_def Let_def payment_by_bot_order_id_def quiet_env_def
        reconcile_identity_def VERIFIED_STATUSES_def request_link_def link_reply_accepted put_row_def)
qed

theorem create_payment_returns_stored_link_witness:
  "\<exists>q. payment_by_bot_order_id (durable (fst demo_creation)) ''o1'' = Some q \<and> p_status q = LINK_CREATED
     \<and> p_redirect_url q = Some ''https://pay.ir/x'' \<and> p_amount q = 50000"
proof -
  have "demo_creation = (fst demo_creation, Inr ''https://pay.ir/x'')"
    using demo_create(1) by (metis prod.collapse)
  from create_payment_returns_stored_link [OF this] demo_create(2) show ?thesis by auto
qed

section \<open>The whole creation, undisturbed\<close>

text \<open>An environment in which no other session commits anything between the transactions.\<close>

definition undisturbed_env :: "create_env \<Rightarrow> bool" where
  "undisturbed_env env \<longleftrightarrow>
     ce_others env = (\<lambda>_ d. d) \<and> ce_payer_others env = (\<lambda>_ d. d) \<and> ce_payer_others_again env = (\<lambda>_ d. d)"

text \<open>
  \<open>snapshot_of\<close>: the amounts of a new row are the request's amount and the fee of the policy in
  force, the payable amount within the configured maximum.
\<close>

definition snapshot_of :: "settings \<Rightarrow> db \<Rightarrow> time \<Rightarrow> string \<Rightarrow> int \<Rightarrow> payment \<Rightarrow> bool" where
  "snapshot_of cfg d now b amount p \<longleftrightarrow>
     p_bot_order_id p = b \<and> p_amount p = amount
   \<and> p_fee_policy_id p = map_option fp_id (select_effective_policy d now)
   \<and> p_fee_rate_bps p = (case select_effective_policy d now of Some f \<Rightarrow> fp_rate_bps f | None \<Rightarrow> 0)
   \<and> calculate_fee amount (p_fee_rate_bps p) = Inr (p_fee_amount p, p_payable_amount p)
   \<and> p_payable_amount p \<le> max_payment_amount_toman cfg \<and> ck_payment p"

lemma ensure_payment_row_rows:
  assumes "work s = durable s" "undisturbed_env env"
  shows "\<exists>new. payments (durable (fst (ensure_payment_row C cfg env s b amount t))) = payments (durable s) @ new
           \<and> (new = [] \<or> (\<exists>p. new = [p] \<and> snapshot_of cfg (durable s) (clock s) b amount p
                              \<and> p_id p = sq_payment (seq s) + 1))
           \<and> work (fst (ensure_payment_row C cfg env s b amount t)) = durable (fst (ensure_payment_row C cfg env s b amount t))"
proof -
  let ?out = "ensure_payment_row C cfg env s b amount t"
  let ?s1 = "rollback_seeing (\<lambda>d. d) s"
  let ?pol = "select_effective_policy (durable s) (clock s)"
  let ?rate = "case ?pol of Some f \<Rightarrow> fp_rate_bps f | None \<Rightarrow> 0"
  have env: "ce_others env = (\<lambda>_ d. d)" "ce_payer_others env = (\<lambda>_ d. d)"
    using assms(2) by (simp_all add: undisturbed_env_def)
  show ?thesis
  proof (cases "payment_by_bot_order_id (durable s) b \<noteq> None")
    case True
    then show ?thesis using assms(1) by (simp add: ensure_payment_row_def env)
  next
    case fresh: False
    show ?thesis
    proof (cases "calculate_fee amount ?rate")
      case (Inl e)
      then show ?thesis using assms(1) fresh by (simp add: ensure_payment_row_def env Let_def)
    next
      case (Inr fp)
      obtain fee payable where fp: "fp = (fee, payable)" by fastforce
      show ?thesis
      proof (cases "payable > max_payment_amount_toman cfg")
        case True
        then show ?thesis using assms(1) fresh Inr fp by (simp add: ensure_payment_row_def env Let_def)
      next
        case small: False
        obtain s2 r where res: "resolve_payer_identity C (\<lambda>_ d. d) ?s1 (centralpay_payer_id_secret cfg)
            (scoped_key t b) t (Some (centralpay_user_id cfg)) = (s2, r)" by fastforce
        have oi: "only_identities s s2"
          using only_identities_trans [OF only_identities_rollback(1) resolve_payer_identity_only [of ?s1]] res
          by (metis fst_conv rollback_seeing_sel(1,2))
        show ?thesis
        proof (cases r)
          case (Inl e)
          then show ?thesis using assms(1) fresh Inr fp small res oi
            by (simp add: ensure_payment_row_def env Let_def only_identities_def)
        next
          case payer: (Inr payer)
          let ?s3 = "rollback_seeing (\<lambda>d. d) s2"
          show ?thesis
          proof (cases "generate_gateway_order_id (work ?s3) (ce_random env)")
            case (Inl e)
            then show ?thesis using assms(1) fresh Inr fp small res oi payer
              by (simp add: ensure_payment_row_def env Let_def only_identities_def)
          next
            case goid: (Inr goid)
            let ?p = "new_payment b goid payer (requested_type t) amount (map_option fp_id ?pol) ?rate fee payable"
            let ?q = "?p\<lparr>p_id := sq_payment (seq s) + 1, p_created_at := clock s\<rparr>"
            have out: "?out = insert_new_payment env ?s3 ?p payer"
              using assms(1) fresh Inr fp small res payer goid by (simp add: ensure_payment_row_def env Let_def)
            have snap: "snapshot_of cfg (durable s) (clock s) b amount ?q" if "ck_payment ?q"
              using that Inr fp small by (simp add: snapshot_of_def new_payment_def)
            show ?thesis
              unfolding out
              using oi snap
              by (auto simp: insert_new_payment_def insert_payment_def Let_def env only_identities_def)
          qed
        qed
      qed
    qed
  qed
qed

lemma get_link_nonempty: "get_link cl http ok amount u g ret = Inr url \<Longrightarrow> url \<noteq> []"
  by (auto simp: get_link_def validate_redirect_url_def Let_def split: sum.splits option.splits json.splits if_splits)

lemma link_outcome_rows:
  assumes "link_outcome C cl http ok cfg env s b amount out" "distinct (map p_id (payments (durable s)))"
  shows "list_all2 creation_step (payments (durable s)) (payments (durable (fst out)))"
  using assms
proof cases
  case (lo_failed p q s' e)
  have "p \<in> set (payments (durable s))" using payment_by_bot_order_id_Some lo_failed(2) by blast
  then have "find_row p_id (payments (durable s)) (p_id p) = Some p" by (rule find_row_mem [OF assms(2)])
  then show ?thesis
    using lo_failed assms(2)
    by (auto intro!: put_row_list_all2 [of _ _ "p_id p" p] simp: creation_step_def keeps_order_def)
next
  case (lo_linked p q url s')
  have "p \<in> set (payments (durable s))" using payment_by_bot_order_id_Some lo_linked(2) by blast
  then have "find_row p_id (payments (durable s)) (p_id p) = Some p" by (rule find_row_mem [OF assms(2)])
  moreover have "url \<noteq> []" using lo_linked by (auto simp: issued_def dest: get_link_nonempty)
  ultimately show ?thesis
    using lo_linked assms(2)
    by (auto intro!: put_row_list_all2 [of _ _ "p_id p" p] simp: creation_step_def issued_def keeps_order_def)
qed (simp_all add: list.rel_refl_strong)

text \<open>
  C4. An undisturbed creation adds at most one row, whose amounts are the snapshot of the request
  and the fee policy in force, with a payable amount within the maximum; on the rows that existed it
  changes no amount, fee, verification or delivery column, and it does not touch a row that is
  verified, under review or already has its link.
\<close>

theorem create_payment_rows:
  assumes "work s = durable s" and "undisturbed_env env"
    and "distinct (map p_id (payments (durable s)))"
    and "list_all (\<lambda>p. p_id p \<le> sq_payment (seq s)) (payments (durable s))"
  shows "\<exists>new. list_all2 creation_step (payments (durable s) @ new)
                 (payments (durable (fst (create_payment C cl http ok cfg env s b amount t))))
             \<and> length new \<le> 1 \<and> list_all (snapshot_of cfg (durable s) (clock s) b amount) new"
proof -
  obtain s1 r where e: "ensure_payment_row C cfg env s b amount t = (s1, r)" by fastforce
  obtain new where new: "payments (durable s1) = payments (durable s) @ new" "work s1 = durable s1"
    "new = [] \<or> (\<exists>p. new = [p] \<and> snapshot_of cfg (durable s) (clock s) b amount p \<and> p_id p = sq_payment (seq s) + 1)"
    using ensure_payment_row_rows [OF assms(1,2), of C cfg b amount t] e by auto
  have d1: "distinct (map p_id (payments (durable s1)))"
    using new(1,3) assms(3,4) by (auto simp: list_all_iff)
  have facts: "length new \<le> 1" "list_all (snapshot_of cfg (durable s) (clock s) b amount) new"
    using new(3) by auto
  have env: "ce_others env = (\<lambda>_ d. d)" "ce_payer_others_again env = (\<lambda>_ d. d)"
    using assms(2) by (simp_all add: undisturbed_env_def)
  have payer: "payments (durable s2) = payments (durable s1)" "work s2 = durable s2"
    if "payer_of_request C cfg env s1 b t = (s2, r2)" for s2 r2
    using that resolve_payer_identity_only [of "rollback_seeing (\<lambda>d. d) s1" C "centralpay_payer_id_secret cfg"
        "scoped_key t b" t "Some (centralpay_user_id cfg)"]
    by (auto simp: payer_of_request_def Let_def env only_identities_def split: if_splits prod.splits sum.splits)
  have link: "list_all2 creation_step (payments (durable s1))
      (payments (durable (fst (issue_link C cl http ok cfg env (rollback_seeing (\<lambda>d. d) s2) b amount t pay))))"
    if "payments (durable s2) = payments (durable s1)" for s2 pay
    using link_outcome_rows [OF issue_link_outcome [of "rollback_seeing (\<lambda>d. d) s2" C cl http ok cfg env b amount t pay]]
      that d1 by simp
  have "list_all2 creation_step (payments (durable s1))
      (payments (durable (fst (create_payment C cl http ok cfg env s b amount t))))"
  proof (cases r)
    case (Inl err)
    then show ?thesis using e by (simp add: create_payment_def list.rel_refl_strong)
  next
    case (Inr created)
    show ?thesis
    proof (cases created)
      case (Some pay)
      then show ?thesis using e Inr link [OF refl] by (simp add: create_payment_def env)
    next
      case None
      obtain s2 r2 where p: "payer_of_request C cfg env s1 b t = (s2, r2)" by fastforce
      show ?thesis
        using e Inr None p payer [OF p] link [OF payer(1) [OF p]]
        by (cases r2) (simp_all add: create_payment_def env list.rel_refl_strong)
    qed
  qed
  then show ?thesis using facts unfolding new(1) by blast
qed

theorem create_payment_rows_witness:
  "\<exists>new. list_all2 creation_step (payments (durable (delivery_session [pending_payment 1 ''a''])) @ new)
       (payments (durable (fst (create_payment demo_separating demo_client link_reply (\<lambda>_. False) demo_settings quiet_env
          (delivery_session [pending_payment 1 ''a'']) ''o2'' 50000 (Some 42)))))
     \<and> length new \<le> 1
     \<and> list_all (snapshot_of demo_settings (durable (delivery_session [pending_payment 1 ''a'']))
          (clock (delivery_session [pending_payment 1 ''a''])) ''o2'' 50000) new"
  by (rule create_payment_rows)
     (simp_all add: undisturbed_env_def quiet_env_def pending_payment_def demo_payment_def delivery_session_def new_session_def)

section \<open>Safe replays\<close>

text \<open>
  The stored mapping of a row is the one its scope names: a raw Telegram mapping, or a mapping of
  the order's own key under the current or the retired scheme.
\<close>

definition mapping_current :: "crypto \<Rightarrow> settings \<Rightarrow> db \<Rightarrow> payment \<Rightarrow> bool" where
  "mapping_current C cfg d p \<longleftrightarrow>
     (\<exists>i r. p_payer_identity_id p = Some i \<and> find_row pi_id (payer_identities d) i = Some r
        \<and> pi_gateway_user_id r = p_gateway_user_id p
        \<and> (p_payer_identity_type p = Some TELEGRAM_USER \<longrightarrow> pi_identity_scheme r = TELEGRAM_RAW)
        \<and> (p_payer_identity_type p = Some ORDER_FALLBACK \<longrightarrow>
             pi_customer_key_hash r \<in>
               {identity_key_hash C (centralpay_payer_id_secret cfg) (order_identity_key (p_bot_order_id p)),
                historical_identity_key_hash C (centralpay_payer_id_secret cfg) (order_identity_key (p_bot_order_id p))}))"

lemma lookup_identity_mem:
  "identities_ok C secret reserved d \<Longrightarrow> r \<in> set (payer_identities d) \<Longrightarrow>
   lookup_identity d (pi_customer_key_hash r) = Some r"
  unfolding lookup_identity_def by (rule find_mem) (simp_all add: identities_ok_def)

lemma resolve_existing_mapping:
  assumes "identities_ok C secret reserved d" "r \<in> set (payer_identities d)" "work s = d"
    and "pi_customer_key_hash r = identity_key_hash C secret (scoped_key t b)"
    and "\<And>i. t = Some i \<Longrightarrow> 1 \<le> i \<and> i \<le> MAX_TELEGRAM_USER_ID"
  shows "resolve_payer_identity C others s secret (scoped_key t b) t reserved
           = (rollback_seeing (others 0) s, Inr (as_identity r))"
  using assms lookup_identity_mem [OF assms(1,2)]
  by (cases t) (simp_all add: resolve_payer_identity_def resolve_telegram_raw_def resolve_order_hmac_def scoped_key_def Let_def)

text \<open>
  The replay exemption is sound: when \<open>find_safe_replay_redirect_url\<close> answers with a URL for an
  unverified order whose stored mapping is the one its scope names, an undisturbed \<open>create_payment\<close>
  returns that URL, leaves the database exactly as it was (no row, mapping or event), and does so
  whatever the gateway would answer: no request is made.
\<close>

theorem safe_replay_is_work_free:
  assumes "inj (hmac_sha256_hex C (centralpay_payer_id_secret cfg))"
    and "work s = durable s" and "undisturbed_env env"
    and "identities_ok C (centralpay_payer_id_secret cfg) (Some (centralpay_user_id cfg)) (durable s)"
    and "payment_by_bot_order_id (durable s) b = Some p" and "mapping_current C cfg (durable s) p"
    and "p_gateway_verified_at p = None"
    and "find_safe_replay_redirect_url (durable s) b amount t = Some url"
  shows "snd (create_payment C cl http ok cfg env s b amount t) = Inr url
       \<and> durable (fst (create_payment C cl http ok cfg env s b amount t)) = durable s"
proof -
  let ?secret = "centralpay_payer_id_secret cfg" let ?res = "Some (centralpay_user_id cfg)"
  have env: "ce_others env = (\<lambda>_ d. d)" "ce_payer_others_again env = (\<lambda>_ d. d)"
    using assms(3) by (simp_all add: undisturbed_env_def)
  have p: "p_status p = LINK_CREATED" "p_redirect_url p = Some url" "url \<noteq> []" "p_amount p = amount" "p_bot_order_id p = b"
    and scope: "case t of Some i \<Rightarrow> p_payer_identity_type p = Some TELEGRAM_USER \<and> p_gateway_user_id p = i
      | None \<Rightarrow> p_payer_identity_type p = Some ORDER_FALLBACK"
    using assms(5,8) payment_by_bot_order_id_Some [OF assms(5)]
    by (auto simp: find_safe_replay_redirect_url_def Let_def split: if_splits option.splits)
  obtain i r where r: "p_payer_identity_id p = Some i" "find_row pi_id (payer_identities (durable s)) i = Some r"
    "pi_gateway_user_id r = p_gateway_user_id p"
    and tg: "p_payer_identity_type p = Some TELEGRAM_USER \<Longrightarrow> pi_identity_scheme r = TELEGRAM_RAW"
    and od: "p_payer_identity_type p = Some ORDER_FALLBACK \<Longrightarrow> pi_customer_key_hash r \<in>
        {identity_key_hash C ?secret (order_identity_key b), historical_identity_key_hash C ?secret (order_identity_key b)}"
    using assms(6) p(5) by (auto simp: mapping_current_def)
  have rmem: "r \<in> set (payer_identities (durable s))" "pi_id r = i" using find_row_Some [OF r(2)] by auto
  have rok: "row_ok C ?secret ?res r" using assms(4) rmem by (simp add: identities_ok_def)
  let ?s1 = "rollback_seeing (\<lambda>d. d) s"
  have payer: "\<exists>s2 pay. payer_of_request C cfg env ?s1 b t = (s2, Inr pay) \<and> durable s2 = durable s
      \<and> (pay = None \<or> pay = Some (as_identity r))"
  proof (cases "pi_customer_key_hash r = historical_identity_key_hash C ?secret (scoped_key t b)")
    case True
    then show ?thesis using assms(5) r by (simp add: payer_of_request_def stored_key_hash_def env)
  next
    case False
    have "pi_customer_key_hash r = identity_key_hash C ?secret (scoped_key t b)"
      "\<And>j. t = Some j \<Longrightarrow> 1 \<le> j \<and> j \<le> MAX_TELEGRAM_USER_ID"
      using False scope tg od rok r(3) by (auto simp: scoped_key_def row_ok_def split: option.splits)
    from resolve_existing_mapping [OF assms(4) rmem(1) _ this, of "rollback_seeing (\<lambda>d. d) ?s1"]
    show ?thesis using assms(5) r False by (simp add: payer_of_request_def stored_key_hash_def env)
  qed
  then obtain s2 pay where s2: "payer_of_request C cfg env ?s1 b t = (s2, Inr pay)" "durable s2 = durable s"
    "pay = None \<or> pay = Some (as_identity r)" by blast
  have "issue_link C cl http ok cfg env (rollback_seeing (\<lambda>d. d) s2) b amount t pay
      = (rollback (rollback_seeing (\<lambda>d. d) s2), Inr url)"
    using s2(2,3) assms(5,7) p r(1) rmem(2)
    by (auto simp: issue_link_def Let_def reconcile_identity_def as_identity_def VERIFIED_STATUSES_def)
  moreover have "ensure_payment_row C cfg env s b amount t = (?s1, Inr None)"
    using assms(2,5) by (simp add: ensure_payment_row_def env)
  ultimately show ?thesis using s2 by (simp add: create_payment_def env)
qed

definition linked_demo :: "string \<Rightarrow> identity_type \<Rightarrow> payment" where
  "linked_demo b ty = (demo_payment 1 b)\<lparr>p_redirect_url := Some ''https://pay.ir/x'', p_payer_identity_id := Some 9,
     p_payer_identity_type := Some ty, p_gateway_user_id := 42\<rparr>"

definition mapping_demo :: "string \<Rightarrow> identity_scheme \<Rightarrow> payer_row" where
  "mapping_demo h scheme = \<lparr>pi_id = 9, pi_customer_key_hash = h, pi_gateway_user_id = 42, pi_derivation_version = 2,
     pi_identity_scheme = scheme, pi_created_at = 0\<rparr>"

definition replay_session :: "payment \<Rightarrow> payer_row \<Rightarrow> session" where
  "replay_session p r = new_session (empty_db\<lparr>payments := [p], payer_identities := [r]\<rparr>) 50"

lemma replay_session_sel [simp]:
  "work (replay_session p r) = empty_db\<lparr>payments := [p], payer_identities := [r]\<rparr>"
  "durable (replay_session p r) = empty_db\<lparr>payments := [p], payer_identities := [r]\<rparr>"
  by (simp_all add: replay_session_def new_session_def)

theorem safe_replay_is_work_free_witness:
  "\<exists>s. snd (create_payment demo_separating demo_client link_reply (\<lambda>_. False) demo_settings quiet_env s ''o1'' 50000 (Some 42))
         = Inr ''https://pay.ir/x''
     \<and> durable (fst (create_payment demo_separating demo_client link_reply (\<lambda>_. False) demo_settings quiet_env s ''o1'' 50000 (Some 42)))
         = durable s"
proof -
  let ?r = "mapping_demo (identity_key_hash demo_separating ''p'' (telegram_identity_key 42)) TELEGRAM_RAW"
  let ?s = "replay_session (linked_demo ''o1'' TELEGRAM_USER) ?r"
  note defs = linked_demo_def mapping_demo_def demo_payment_def demo_settings_def
  show ?thesis
  proof (rule exI [of _ ?s], rule safe_replay_is_work_free)
    show "inj (hmac_sha256_hex demo_separating (centralpay_payer_id_secret demo_settings))"
      by (rule demo_separating_inj)
    show "work ?s = durable ?s" "undisturbed_env quiet_env"
      by (simp_all add: undisturbed_env_def quiet_env_def)
    show "identities_ok demo_separating (centralpay_payer_id_secret demo_settings) (Some (centralpay_user_id demo_settings)) (durable ?s)"
      by (simp add: identities_ok_def row_ok_def MAX_TELEGRAM_USER_ID_def defs)
    show "payment_by_bot_order_id (durable ?s) ''o1'' = Some (linked_demo ''o1'' TELEGRAM_USER)"
      by (simp add: payment_by_bot_order_id_def defs)
    show "mapping_current demo_separating demo_settings (durable ?s) (linked_demo ''o1'' TELEGRAM_USER)"
      by (simp add: mapping_current_def find_row_def defs)
    show "p_gateway_verified_at (linked_demo ''o1'' TELEGRAM_USER) = None" by (simp add: defs)
    show "find_safe_replay_redirect_url (durable ?s) ''o1'' 50000 (Some 42) = Some ''https://pay.ir/x''"
      by (simp add: find_safe_replay_redirect_url_def payment_by_bot_order_id_def defs)
  qed
qed

text \<open>
  The condition on the mapping is needed: for a historical row (a Telegram scope mapped by the
  retired derivation) and a request whose Telegram id equals the derived number, the exemption
  answers with the stored URL although \<open>create_payment\<close> does real work: it fails closed with a
  collision error and commits an audit event.
\<close>

theorem safe_replay_historical_row:
  "\<exists>s. find_safe_replay_redirect_url (durable s) ''o1'' 50000 (Some 42) = Some ''https://pay.ir/x''
     \<and> snd (create_payment demo_separating demo_client link_reply (\<lambda>_. False) demo_settings quiet_env s ''o1'' 50000 (Some 42))
         = Inl PayerIdentityCollisionError
     \<and> payment_events (durable s) = []
     \<and> has_event (fst (create_payment demo_separating demo_client link_reply (\<lambda>_. False) demo_settings quiet_env s ''o1'' 50000 (Some 42)))
         None ''payer_identity_collision''"
proof -
  let ?r = "mapping_demo (historical_identity_key_hash demo_separating ''p'' (telegram_identity_key 5)) HISTORICAL_HMAC"
  let ?s = "replay_session (linked_demo ''o1'' TELEGRAM_USER) ?r"
  note defs = linked_demo_def mapping_demo_def demo_payment_def demo_settings_def quiet_env_def empty_db_def
  have h1: "historical_identity_key_hash demo_separating ''p'' a = historical_identity_key_hash demo_separating ''p'' c \<longleftrightarrow> a = c"
    for a c by (simp add: historical_identity_key_hash_def demo_separating_def)
  have h2: "historical_identity_key_hash demo_separating ''p'' a \<noteq> identity_key_hash demo_separating ''p'' c" for a c
    using identity_key_hash_inject(2) [OF demo_separating_inj, of "''p''" c a] by metis
  have "find_safe_replay_redirect_url (durable ?s) ''o1'' 50000 (Some 42) = Some ''https://pay.ir/x''"
    by (simp add: find_safe_replay_redirect_url_def payment_by_bot_order_id_def defs)
  moreover have "\<exists>s'. create_payment demo_separating demo_client link_reply (\<lambda>_. False) demo_settings quiet_env ?s ''o1'' 50000 (Some 42)
      = (s', Inl PayerIdentityCollisionError) \<and> has_event s' None ''payer_identity_collision''"
    by (simp add: create_payment_def ensure_payment_row_def payer_of_request_def stored_key_hash_def payment_by_bot_order_id_def
        find_row_def scoped_key_def h1 h2 resolve_payer_identity_def resolve_telegram_raw_def MAX_TELEGRAM_USER_ID_def
        lookup_identity_def insert_identity_def fail_closed_collision_def Let_def defs)
  moreover have "payment_events (durable ?s) = []" by (simp add: empty_db_def)
  ultimately show ?thesis by (intro exI [of _ ?s]) auto
qed

end
