(* ===== verification/Reconciliation.thy ===== *)
theory Reconciliation
  imports Verification
begin

text \<open>
  Server-side reconciliation (\<open>app/services/reconciliation.py\<close>): the age tiers and their predicates,
  the claim, the bookkeeping after a settlement attempt, and the pass.

  The claim is not committed by itself: it rides in the transaction of the settlement outcome
  (\<open>verify_and_settle\<close>). The bookkeeping (\<open>finalize\<close>) is a transaction of its own. Its
  \<open>SELECT ... FOR UPDATE\<close> does not refresh the object the session already holds (the sessions are
  made with \<open>expire_on_commit=False\<close> and the query does not ask for \<open>populate_existing\<close>), so it
  reads the row as this session last saw it (\<open>cached\<close>), and its UPDATE writes the columns
  that differ from that copy (\<open>recon_flush\<close>) onto the current row.
\<close>

section \<open>Ages and tiers\<close>

definition reconciliation_backoff_seconds :: "settings \<Rightarrow> int \<Rightarrow> int" where
  "reconciliation_backoff_seconds cfg attempt =
     (let exponent = max (attempt - 1) 0
      in if exponent > 30 then reconciliation_max_backoff_seconds cfg
         else min (reconciliation_initial_backoff_seconds cfg * 2 ^ nat exponent)
                (reconciliation_max_backoff_seconds cfg))"

definition link_age_anchor :: "payment \<Rightarrow> time" where
  "link_age_anchor p = coalesce (p_callback_token_issued_at p) (p_created_at p)"

definition reconciliation_retry_delay_seconds :: "settings \<Rightarrow> payment \<Rightarrow> time \<Rightarrow> int" where
  "reconciliation_retry_delay_seconds cfg p now =
     (let age_seconds = max (now - link_age_anchor p) 0
      in if age_seconds < of_int (reconciliation_fast_window_seconds cfg)
         then reconciliation_fast_interval_seconds cfg else reconciliation_slow_interval_seconds cfg)"

definition aged_out_age_condition :: "settings \<Rightarrow> time \<Rightarrow> payment \<Rightarrow> bool" where
  "aged_out_age_condition cfg now p \<longleftrightarrow> link_age_anchor p \<le> now - of_int (reconciliation_max_age_seconds cfg)"

definition tier_age_conditions :: "time \<Rightarrow> int option \<Rightarrow> int option \<Rightarrow> payment \<Rightarrow> bool" where
  "tier_age_conditions now age_floor age_ceiling p \<longleftrightarrow>
     p_status p = LINK_CREATED \<and> p_gateway_verified_at p = None
   \<and> (case age_floor of None \<Rightarrow> True | Some f \<Rightarrow> link_age_anchor p \<le> now - of_int f)
   \<and> (case age_ceiling of None \<Rightarrow> True | Some c \<Rightarrow> link_age_anchor p > now - of_int c)"

definition active_tier_age_conditions :: "settings \<Rightarrow> time \<Rightarrow> payment \<Rightarrow> bool" where
  "active_tier_age_conditions cfg now = tier_age_conditions now None (Some (reconciliation_fast_window_seconds cfg))"

definition expiring_tier_age_conditions :: "settings \<Rightarrow> time \<Rightarrow> payment \<Rightarrow> bool" where
  "expiring_tier_age_conditions cfg now =
     tier_age_conditions now (Some (reconciliation_fast_window_seconds cfg)) (Some (reconciliation_max_age_seconds cfg))"

definition aged_out_conditions :: "settings \<Rightarrow> time \<Rightarrow> payment \<Rightarrow> bool" where
  "aged_out_conditions cfg now p \<longleftrightarrow>
     p_status p = LINK_CREATED \<and> p_gateway_verified_at p = None \<and> aged_out_age_condition cfg now p"

definition tier_due_conditions :: "settings \<Rightarrow> time \<Rightarrow> int \<Rightarrow> int \<Rightarrow> payment \<Rightarrow> bool" where
  "tier_due_conditions cfg now age_floor age_ceiling p \<longleftrightarrow>
     tier_age_conditions now (Some age_floor) (Some age_ceiling) p
   \<and> (case p_reconciliation_next_at p of None \<Rightarrow> True | Some t \<Rightarrow> t \<le> now)
   \<and> p_reconciliation_attempts p < reconciliation_max_attempts cfg"

definition active_tier_due_conditions :: "settings \<Rightarrow> time \<Rightarrow> payment \<Rightarrow> bool" where
  "active_tier_due_conditions cfg now =
     tier_due_conditions cfg now (reconciliation_min_age_seconds cfg) (reconciliation_fast_window_seconds cfg)"

definition expiring_tier_due_conditions :: "settings \<Rightarrow> time \<Rightarrow> payment \<Rightarrow> bool" where
  "expiring_tier_due_conditions cfg now =
     tier_due_conditions cfg now (reconciliation_fast_window_seconds cfg) (reconciliation_max_age_seconds cfg)"

definition reconciliation_exhausted_conditions :: "settings \<Rightarrow> time \<Rightarrow> payment \<Rightarrow> bool" where
  "reconciliation_exhausted_conditions cfg now p \<longleftrightarrow>
     p_status p = LINK_CREATED \<and> p_gateway_verified_at p = None \<and> \<not> aged_out_age_condition cfg now p
   \<and> p_reconciliation_next_at p = None \<and> p_reconciliation_attempts p \<ge> reconciliation_max_attempts cfg"

definition reconciliation_exhausted_ever_conditions :: "settings \<Rightarrow> payment \<Rightarrow> bool" where
  "reconciliation_exhausted_ever_conditions cfg p \<longleftrightarrow>
     p_status p = LINK_CREATED \<and> p_gateway_verified_at p = None \<and> p_reconciliation_next_at p = None
   \<and> p_reconciliation_attempts p \<ge> reconciliation_max_attempts cfg"

definition reconciliation_recently_exhausted_conditions :: "settings \<Rightarrow> time \<Rightarrow> int \<Rightarrow> payment \<Rightarrow> bool" where
  "reconciliation_recently_exhausted_conditions cfg now window p \<longleftrightarrow>
     reconciliation_exhausted_ever_conditions cfg p
   \<and> (case p_reconciliation_last_at p of None \<Rightarrow> True | Some t \<Rightarrow> t \<ge> now - of_int window)"

definition reconciliation_actionable_exhausted_conditions :: "settings \<Rightarrow> time \<Rightarrow> int \<Rightarrow> payment \<Rightarrow> bool" where
  "reconciliation_actionable_exhausted_conditions cfg now window p \<longleftrightarrow>
     reconciliation_exhausted_ever_conditions cfg p
   \<and> (\<not> aged_out_age_condition cfg now p
      \<or> (case p_reconciliation_last_at p of None \<Rightarrow> True | Some t \<Rightarrow> t \<ge> now - of_int window))"

section \<open>Claiming\<close>

definition recon_claim :: "settings \<Rightarrow> payment \<Rightarrow> string \<Rightarrow> time \<Rightarrow> payment" where
  "recon_claim cfg p worker_id now =
     p\<lparr>p_reconciliation_attempts := p_reconciliation_attempts p + 1, p_reconciliation_last_at := Some now,
       p_reconciliation_claimed_at := Some now, p_reconciliation_claimed_by := Some worker_id,
       p_reconciliation_next_at := Some (now + of_int (reconciliation_retry_delay_seconds cfg p now))\<rparr>"

text \<open>\<open>locked\<close>: the rows other sessions hold locked; the claimed row stays uncommitted.\<close>

definition claim_in_age_range ::
  "settings \<Rightarrow> (int \<Rightarrow> bool) \<Rightarrow> session \<Rightarrow> string \<Rightarrow> time \<Rightarrow> int \<Rightarrow> int \<Rightarrow> session \<times> payment option" where
  "claim_in_age_range cfg locked s worker_id now age_floor age_ceiling =
     (case first_by (\<lambda>p. coalesce (p_reconciliation_next_at p) (p_created_at p))
             (filter (\<lambda>p. tier_due_conditions cfg now age_floor age_ceiling p \<and> \<not> locked (p_id p)) (payments (work s))) of
        None \<Rightarrow> (rollback s, None)
      | Some p \<Rightarrow> (let p' = recon_claim cfg p worker_id now in (put_payment s p', Some p')))"

definition claim_active_tier :: "settings \<Rightarrow> (int \<Rightarrow> bool) \<Rightarrow> session \<Rightarrow> string \<Rightarrow> time \<Rightarrow> session \<times> payment option" where
  "claim_active_tier cfg locked s worker_id now =
     claim_in_age_range cfg locked s worker_id now
       (reconciliation_min_age_seconds cfg) (reconciliation_fast_window_seconds cfg)"

definition claim_expiring_tier :: "settings \<Rightarrow> (int \<Rightarrow> bool) \<Rightarrow> session \<Rightarrow> string \<Rightarrow> time \<Rightarrow> session \<times> payment option" where
  "claim_expiring_tier cfg locked s worker_id now =
     claim_in_age_range cfg locked s worker_id now
       (reconciliation_fast_window_seconds cfg) (reconciliation_max_age_seconds cfg)"

definition recon_claim_next_due ::
  "settings \<Rightarrow> (int \<Rightarrow> bool) \<Rightarrow> session \<Rightarrow> string \<Rightarrow> time \<Rightarrow> int \<Rightarrow> session \<times> payment option" where
  "recon_claim_next_due cfg locked s worker_id now slot_index =
     (let prefer_expiring = (1 \<le> slot_index \<and> slot_index \<le> reconciliation_slow_tier_reserved_slots cfg)
      in if prefer_expiring
         then (case claim_expiring_tier cfg locked s worker_id now of
                 (s1, Some p) \<Rightarrow> (s1, Some p)
               | (s1, None) \<Rightarrow> claim_active_tier cfg locked s1 worker_id now)
         else (case claim_active_tier cfg locked s worker_id now of
                 (s1, Some p) \<Rightarrow> (s1, Some p)
               | (s1, None) \<Rightarrow> claim_expiring_tier cfg locked s1 worker_id now))"

section \<open>Bookkeeping\<close>

datatype recon_outcome = Recon_Verified | Recon_Under_Review | Recon_Not_Paid | Recon_Transport

datatype disposition = Disp_Verified | Disp_Retry_Scheduled | Disp_Under_Review | Disp_Exhausted | Disp_Superseded

text \<open>The UPDATE of the bookkeeping columns that differ from the copy the session read.\<close>

definition recon_flush :: "payment \<Rightarrow> payment \<Rightarrow> payment \<Rightarrow> payment" where
  "recon_flush cached new row =
     row\<lparr>p_reconciliation_attempts :=
           (if p_reconciliation_attempts new \<noteq> p_reconciliation_attempts cached
            then p_reconciliation_attempts new else p_reconciliation_attempts row),
         p_reconciliation_next_at :=
           (if p_reconciliation_next_at new \<noteq> p_reconciliation_next_at cached
            then p_reconciliation_next_at new else p_reconciliation_next_at row),
         p_reconciliation_last_at :=
           (if p_reconciliation_last_at new \<noteq> p_reconciliation_last_at cached
            then p_reconciliation_last_at new else p_reconciliation_last_at row),
         p_reconciliation_last_error_code :=
           (if p_reconciliation_last_error_code new \<noteq> p_reconciliation_last_error_code cached
            then p_reconciliation_last_error_code new else p_reconciliation_last_error_code row),
         p_reconciliation_claimed_at :=
           (if p_reconciliation_claimed_at new \<noteq> p_reconciliation_claimed_at cached
            then p_reconciliation_claimed_at new else p_reconciliation_claimed_at row),
         p_reconciliation_claimed_by :=
           (if p_reconciliation_claimed_by new \<noteq> p_reconciliation_claimed_by cached
            then p_reconciliation_claimed_by new else p_reconciliation_claimed_by row)\<rparr>"

text \<open>The result is \<open>None\<close> when \<open>scalar_one\<close> finds no row and raises; nothing was changed then.\<close>

definition finalize ::
  "settings \<Rightarrow> payment \<Rightarrow> session \<Rightarrow> int \<Rightarrow> string \<Rightarrow> int \<Rightarrow> recon_outcome \<Rightarrow> string option \<Rightarrow> time \<Rightarrow>
   session \<times> disposition option" where
  "finalize cfg cached s payment_id worker_id attempt outcome error_code now =
     (case payment_by_id (work s) payment_id of
        None \<Rightarrow> (s, None)
      | Some row \<Rightarrow>
          (let repaired = (if p_reconciliation_attempts cached < attempt
                           then cached\<lparr>p_reconciliation_attempts := attempt, p_reconciliation_last_at := Some now\<rparr>
                           else cached);
               p0 = repaired\<lparr>p_reconciliation_claimed_at := None, p_reconciliation_claimed_by := None\<rparr>;
               flush = (\<lambda>t p. put_payment t (recon_flush cached p row));
               goid = (''gateway_order_id'', JInt (p_gateway_order_id cached));
               att = (''attempt'', JInt attempt); wid = (''worker_id'', JStr worker_id)
           in case outcome of
                Recon_Verified \<Rightarrow>
                  (let p = p0\<lparr>p_reconciliation_next_at := None, p_reconciliation_last_error_code := None\<rparr>
                   in (commit (record_event (flush s p) (Some payment_id) ''reconciliation_verified'' ''info'' [goid, att, wid]),
                       Some Disp_Verified))
              | Recon_Under_Review \<Rightarrow>
                  (commit (flush s (p0\<lparr>p_reconciliation_next_at := None\<rparr>)), Some Disp_Under_Review)
              | _ \<Rightarrow>
                  if p_status cached \<noteq> LINK_CREATED then (commit (flush s p0), Some Disp_Superseded)
                  else
                    let p1 = p0\<lparr>p_reconciliation_last_error_code := error_code\<rparr>;
                        err = (''error_code'', jopt_str error_code);
                        s1 = record_event (flush s p1) (Some payment_id)
                               (if outcome = Recon_Not_Paid then ''reconciliation_gateway_not_paid''
                                else ''reconciliation_transport_failed'') ''warning'' [goid, att, wid, err]
                    in if attempt \<ge> reconciliation_max_attempts cfg then
                         (commit (record_event (flush s1 (p1\<lparr>p_reconciliation_next_at := None\<rparr>)) (Some payment_id)
                            ''reconciliation_exhausted'' ''error'' [goid, att, wid, err]),
                          Some Disp_Exhausted)
                       else
                         let delay = reconciliation_retry_delay_seconds cfg cached now;
                             next_at = now + of_int delay
                         in (commit (record_event (flush s1 (p1\<lparr>p_reconciliation_next_at := Some next_at\<rparr>)) (Some payment_id)
                               ''reconciliation_retry_scheduled'' ''info''
                               [goid, att, wid, (''delay_seconds'', JInt delay), (''next_at'', JTime next_at)]),
                             Some Disp_Retry_Scheduled)))"

section \<open>The pass\<close>

record recon_stats =
  rs_processed :: nat
  rs_verified :: nat
  rs_retry_scheduled :: nat
  rs_under_review :: nat
  rs_exhausted :: nat
  rs_superseded :: nat

definition no_stats :: recon_stats where
  "no_stats = \<lparr>rs_processed = 0, rs_verified = 0, rs_retry_scheduled = 0, rs_under_review = 0, rs_exhausted = 0,
               rs_superseded = 0\<rparr>"

definition count_disposition :: "disposition \<Rightarrow> recon_stats \<Rightarrow> recon_stats" where
  "count_disposition d st =
     (case d of
        Disp_Verified \<Rightarrow> st\<lparr>rs_verified := rs_verified st + 1\<rparr>
      | Disp_Retry_Scheduled \<Rightarrow> st\<lparr>rs_retry_scheduled := rs_retry_scheduled st + 1\<rparr>
      | Disp_Under_Review \<Rightarrow> st\<lparr>rs_under_review := rs_under_review st + 1\<rparr>
      | Disp_Exhausted \<Rightarrow> st\<lparr>rs_exhausted := rs_exhausted st + 1\<rparr>
      | Disp_Superseded \<Rightarrow> st\<lparr>rs_superseded := rs_superseded st + 1\<rparr>)"

text \<open>
  The surroundings of a pass, by slot: request ids, clock readings, the elapsed monotonic time
  before the slot, locks of others, what others commit before the claim and between settlement and
  bookkeeping, the gateway's replies, and whether the attempt died of an unexpected exception.
\<close>

record recon_env =
  re_rid :: "nat \<Rightarrow> string"
  re_now :: "nat \<Rightarrow> time"
  re_finalize_now :: "nat \<Rightarrow> time"
  re_elapsed :: "nat \<Rightarrow> rat"
  re_locked :: "nat \<Rightarrow> int \<Rightarrow> bool"
  re_before :: "nat \<Rightarrow> db \<Rightarrow> db"
  re_gap :: "nat \<Rightarrow> db \<Rightarrow> db"
  re_http :: "nat \<Rightarrow> transport"
  re_crash :: "nat \<Rightarrow> bool"

definition recon_attempt ::
  "centralpay_client \<Rightarrow> settings \<Rightarrow> recon_env \<Rightarrow> string \<Rightarrow> nat \<Rightarrow> session \<Rightarrow> payment \<Rightarrow> session \<times> disposition option" where
  "recon_attempt cl cfg env worker_id k s p =
     (let attempt = p_reconciliation_attempts p;
          fin = (\<lambda>cached t outcome code. finalize cfg cached t (p_id p) worker_id attempt outcome code (re_finalize_now env k))
      in if re_crash env k then
           (let s1 = rollback_seeing (re_gap env k) s
            in fin (coalesce (payment_by_id (work s1) (p_id p)) p) s1 Recon_Transport (Some ''internal_error''))
         else case verify_and_settle cl (re_http env k) (Some cfg) Reconciliation_Source s p of
                (s1, r) \<Rightarrow>
                  (let cached = coalesce (payment_by_id (work s1) (p_id p)) p;
                       s2 = rollback_seeing (re_gap env k) s1
                   in case r of
                        Inl exc \<Rightarrow> fin cached s2 Recon_Transport (Some (cp_code exc))
                      | Inr VERIFIED \<Rightarrow> fin cached s2 Recon_Verified None
                      | Inr UNDER_REVIEW \<Rightarrow> fin cached s2 Recon_Under_Review None
                      | Inr GATEWAY_NOT_PAID \<Rightarrow> fin cached s2 Recon_Not_Paid (Some ''gateway_not_paid'')))"

text \<open>\<open>remaining\<close> is \<open>limit - processed\<close>; the budget stops the loop only after the mandatory slots.
  The statistics are \<open>None\<close> when the bookkeeping of a slot raised.\<close>

fun recon_loop ::
  "centralpay_client \<Rightarrow> settings \<Rightarrow> recon_env \<Rightarrow> string \<Rightarrow> nat \<Rightarrow> rat \<Rightarrow> nat \<Rightarrow> recon_stats \<Rightarrow> session \<Rightarrow>
   session \<times> recon_stats option" where
  "recon_loop cl cfg env worker_id mandatory budget 0 st s = (s, Some st)"
| "recon_loop cl cfg env worker_id mandatory budget (Suc remaining) st s =
     (let k = rs_processed st
      in if \<not> (k < mandatory \<or> re_elapsed env k < budget) then (s, Some st)
         else
           let s1 = (rollback_seeing (re_before env k) s)\<lparr>request_id := Some (re_rid env k)\<rparr>
           in case recon_claim_next_due cfg (re_locked env k) s1 worker_id (re_now env k) (int k) of
                (s2, None) \<Rightarrow> (s2\<lparr>request_id := request_id s\<rparr>, Some st)
              | (s2, Some p) \<Rightarrow>
                  (case recon_attempt cl cfg env worker_id k s2 p of
                     (s3, None) \<Rightarrow> (s3\<lparr>request_id := request_id s\<rparr>, None)
                   | (s3, Some d) \<Rightarrow>
                       recon_loop cl cfg env worker_id mandatory budget remaining
                         (count_disposition d (st\<lparr>rs_processed := k + 1\<rparr>))
                         (s3\<lparr>request_id := request_id s\<rparr>)))"

definition run_reconciliation_pass ::
  "centralpay_client \<Rightarrow> settings \<Rightarrow> recon_env \<Rightarrow> session \<Rightarrow> string \<Rightarrow> nat option \<Rightarrow> rat option \<Rightarrow> session \<times> recon_stats option" where
  "run_reconciliation_pass cl cfg env s worker_id batch_size time_budget =
     (if \<not> reconciliation_enabled cfg then (s, Some no_stats)
      else let limit = coalesce batch_size (nat (reconciliation_batch_size cfg));
               budget = coalesce time_budget (reconciliation_interval_seconds cfg);
               mandatory = min (nat (1 + reconciliation_slow_tier_reserved_slots cfg)) limit
           in recon_loop cl cfg env worker_id mandatory budget limit no_stats s)"

section \<open>Tiers\<close>

text \<open>
  When the fast window is not longer than the maximum age, the three age buckets (active,
  expiring, aged out) partition the unverified payments with a link: each of them is in exactly one
  bucket, and no other payment is in any.
\<close>

theorem age_tiers_partition:
  assumes "reconciliation_fast_window_seconds cfg \<le> reconciliation_max_age_seconds cfg"
  shows "length (filter (\<lambda>bucket. bucket cfg now p)
           [active_tier_age_conditions, expiring_tier_age_conditions, aged_out_conditions])
         = (if p_status p = LINK_CREATED \<and> p_gateway_verified_at p = None then 1 else 0)"
proof -
  have "(of_int (reconciliation_fast_window_seconds cfg) :: rat) \<le> of_int (reconciliation_max_age_seconds cfg)"
    using assms by simp
  then show ?thesis
    by (auto simp: active_tier_age_conditions_def expiring_tier_age_conditions_def aged_out_conditions_def
        tier_age_conditions_def aged_out_age_condition_def)
qed

theorem age_tiers_partition_witness:
  "length (filter (\<lambda>bucket. bucket demo_settings 5000 (demo_payment 1 ''a''))
     [active_tier_age_conditions, expiring_tier_age_conditions, aged_out_conditions])
   = (if p_status (demo_payment 1 ''a'') = LINK_CREATED \<and> p_gateway_verified_at (demo_payment 1 ''a'') = None
      then 1 else 0)"
  by (rule age_tiers_partition) (simp add: demo_settings_def)

lemma actionable_is_union:
  "reconciliation_actionable_exhausted_conditions cfg now w p \<longleftrightarrow>
     reconciliation_exhausted_conditions cfg now p \<or> reconciliation_recently_exhausted_conditions cfg now w p"
  by (auto simp: reconciliation_actionable_exhausted_conditions_def reconciliation_exhausted_conditions_def
      reconciliation_recently_exhausted_conditions_def reconciliation_exhausted_ever_conditions_def)

section \<open>What a claim takes\<close>

lemma claim_in_age_range_None:
  "claim_in_age_range cfg locked s w now fl ce = (s', None) \<longleftrightarrow>
     s' = rollback s \<and> filter (\<lambda>p. tier_due_conditions cfg now fl ce p \<and> \<not> locked (p_id p)) (payments (work s)) = []"
  by (auto simp: claim_in_age_range_def Let_def dest: first_by_Some(1) split: option.splits)

lemma claim_in_age_range_Some:
  assumes "claim_in_age_range cfg locked s w now fl ce = (s', Some p')"
  obtains p where "p \<in> set (payments (work s))" "tier_due_conditions cfg now fl ce p" "\<not> locked (p_id p)"
    "p' = recon_claim cfg p w now" "s' = put_payment s p'"
proof -
  obtain p where f: "first_by (\<lambda>p. coalesce (p_reconciliation_next_at p) (p_created_at p))
      (filter (\<lambda>p. tier_due_conditions cfg now fl ce p \<and> \<not> locked (p_id p)) (payments (work s))) = Some p"
    using assms by (auto simp: claim_in_age_range_def Let_def split: option.splits)
  have "p \<in> set (payments (work s))" "tier_due_conditions cfg now fl ce p" "\<not> locked (p_id p)"
    using first_by_Some(1) [OF f] by auto
  then show ?thesis using that f assms by (auto simp: claim_in_age_range_def Let_def)
qed

definition recon_due :: "settings \<Rightarrow> time \<Rightarrow> payment \<Rightarrow> bool" where
  "recon_due cfg now p \<longleftrightarrow> active_tier_due_conditions cfg now p \<or> expiring_tier_due_conditions cfg now p"

lemma recon_claim_next_due_Some:
  assumes "recon_claim_next_due cfg locked s w now k = (s', Some p')" "work s = durable s"
  obtains p where "p \<in> set (payments (durable s))" "recon_due cfg now p" "\<not> locked (p_id p)"
    "p' = recon_claim cfg p w now" "durable s' = durable s" "payments (work s') = put_row p_id p' (payments (durable s))"
proof -
  have "\<exists>t fl ce. claim_in_age_range cfg locked t w now fl ce = (s', Some p') \<and> work t = durable s \<and> durable t = durable s
      \<and> (tier_due_conditions cfg now fl ce = active_tier_due_conditions cfg now
         \<or> tier_due_conditions cfg now fl ce = expiring_tier_due_conditions cfg now)"
    using assms
    by (auto simp: recon_claim_next_due_def Let_def claim_active_tier_def claim_expiring_tier_def
        active_tier_due_conditions_def expiring_tier_due_conditions_def claim_in_age_range_None
        split: prod.splits option.splits if_splits) (metis assms(2) claim_in_age_range_None rollback_sel(1,2))+
  then obtain t fl ce where t: "claim_in_age_range cfg locked t w now fl ce = (s', Some p')" "work t = durable s" "durable t = durable s"
    "tier_due_conditions cfg now fl ce = active_tier_due_conditions cfg now
       \<or> tier_due_conditions cfg now fl ce = expiring_tier_due_conditions cfg now" by blast
  obtain p where "p \<in> set (payments (work t))" "tier_due_conditions cfg now fl ce p" "\<not> locked (p_id p)"
    "p' = recon_claim cfg p w now" "s' = put_payment t p'"
    using claim_in_age_range_Some [OF t(1)] .
  then show ?thesis using that t(2-4) by (auto simp: recon_due_def)
qed

lemma recon_due_link: "recon_due cfg now p \<Longrightarrow>
    p_status p = LINK_CREATED \<and> p_gateway_verified_at p = None \<and> p_reconciliation_attempts p < reconciliation_max_attempts cfg"
  by (auto simp: recon_due_def active_tier_due_conditions_def expiring_tier_due_conditions_def tier_due_conditions_def
      tier_age_conditions_def)

lemma recon_claim_sel [simp]:
  "p_id (recon_claim cfg p w now) = p_id p" "p_status (recon_claim cfg p w now) = p_status p"
  "p_gateway_verified_at (recon_claim cfg p w now) = p_gateway_verified_at p"
  "p_reference_id (recon_claim cfg p w now) = p_reference_id p"
  "p_reconciliation_attempts (recon_claim cfg p w now) = p_reconciliation_attempts p + 1"
  "p_reconciliation_next_at (recon_claim cfg p w now) = Some (now + of_int (reconciliation_retry_delay_seconds cfg p now))"
  by (simp_all add: recon_claim_def)


definition recon_session :: "payment list \<Rightarrow> session" where
  "recon_session ps = new_session (empty_db\<lparr>payments := ps\<rparr>) 5000"

lemma recon_session_sel [simp]:
  "work (recon_session ps) = empty_db\<lparr>payments := ps\<rparr>" "durable (recon_session ps) = empty_db\<lparr>payments := ps\<rparr>"
  by (simp_all add: recon_session_def new_session_def)

lemma demo_recon_claim:
  "recon_claim_next_due demo_settings (\<lambda>_. False) (recon_session [demo_payment 1 ''a'']) ''w'' 5000 0
   = (fst (recon_claim_next_due demo_settings (\<lambda>_. False) (recon_session [demo_payment 1 ''a'']) ''w'' 5000 0),
      Some (recon_claim demo_settings (demo_payment 1 ''a'') ''w'' 5000))"
  by (simp add: recon_claim_next_due_def claim_active_tier_def claim_expiring_tier_def claim_in_age_range_def
      tier_due_conditions_def tier_age_conditions_def link_age_anchor_def demo_payment_def demo_settings_def first_by_def
      Let_def)


text \<open>
  Fairness of a slot: in the reserved slots a due row of the expiring tier is claimed before any
  active one, in every other slot a due row of the active tier before any expiring one, and a slot
  comes back empty only when neither tier has an unlocked due row.
\<close>

theorem slot_preference:
  assumes "work s = durable s"
  shows "case snd (recon_claim_next_due cfg locked s w now k) of
           None \<Rightarrow> filter (\<lambda>p. recon_due cfg now p \<and> \<not> locked (p_id p)) (payments (durable s)) = []
         | Some p' \<Rightarrow>
             (let first = (if 1 \<le> k \<and> k \<le> reconciliation_slow_tier_reserved_slots cfg
                           then expiring_tier_due_conditions else active_tier_due_conditions);
                  due = filter (\<lambda>p. first cfg now p \<and> \<not> locked (p_id p)) (payments (durable s))
              in due = [] \<or> p' \<in> (\<lambda>p. recon_claim cfg p w now) ` set due)"
proof -
  let ?pref = "1 \<le> k \<and> k \<le> reconciliation_slow_tier_reserved_slots cfg"
  define f1 c1 f2 c2 where
    "f1 = (if ?pref then reconciliation_fast_window_seconds cfg else reconciliation_min_age_seconds cfg)"
    "c1 = (if ?pref then reconciliation_max_age_seconds cfg else reconciliation_fast_window_seconds cfg)"
    "f2 = (if ?pref then reconciliation_min_age_seconds cfg else reconciliation_fast_window_seconds cfg)"
    "c2 = (if ?pref then reconciliation_fast_window_seconds cfg else reconciliation_max_age_seconds cfg)"
  note bounds = f1_c1_f2_c2_def
  have eq: "recon_claim_next_due cfg locked s w now k =
      (case claim_in_age_range cfg locked s w now f1 c1 of
         (s1, Some p) \<Rightarrow> (s1, Some p)
       | (s1, None) \<Rightarrow> claim_in_age_range cfg locked s1 w now f2 c2)"
    by (simp add: bounds recon_claim_next_due_def claim_active_tier_def claim_expiring_tier_def Let_def)
  have first: "(if ?pref then expiring_tier_due_conditions else active_tier_due_conditions) cfg now = tier_due_conditions cfg now f1 c1"
    by (simp add: bounds active_tier_due_conditions_def expiring_tier_due_conditions_def)
  have either: "recon_due cfg now p \<longleftrightarrow> tier_due_conditions cfg now f1 c1 p \<or> tier_due_conditions cfg now f2 c2 p" for p
    by (auto simp: bounds recon_due_def active_tier_due_conditions_def expiring_tier_due_conditions_def)
  obtain s1 r1 where r1: "claim_in_age_range cfg locked s w now f1 c1 = (s1, r1)" by fastforce
  show ?thesis
  proof (cases r1)
    case (Some p')
    obtain p where "p \<in> set (payments (durable s))" "tier_due_conditions cfg now f1 c1 p" "\<not> locked (p_id p)"
      "p' = recon_claim cfg p w now"
      using claim_in_age_range_Some [OF r1 [unfolded Some]] assms by metis
    moreover have out: "snd (recon_claim_next_due cfg locked s w now k) = Some p'" using r1 Some by (simp add: eq)
    ultimately show ?thesis unfolding out option.case Let_def first by auto
  next
    case None
    have s1: "s1 = rollback s" "filter (\<lambda>p. tier_due_conditions cfg now f1 c1 p \<and> \<not> locked (p_id p)) (payments (durable s)) = []"
      using r1 None assms by (auto simp: claim_in_age_range_None)
    obtain s2 r2 where r2: "claim_in_age_range cfg locked s1 w now f2 c2 = (s2, r2)" by fastforce
    show ?thesis
    proof (cases r2)
      case (Some p')
      then have out: "snd (recon_claim_next_due cfg locked s w now k) = Some p'" using r1 None r2 by (simp add: eq)
      show ?thesis unfolding out option.case Let_def first using s1(2) by simp
    next
      case n2: None
      then have out: "snd (recon_claim_next_due cfg locked s w now k) = None" using r1 None r2 by (simp add: eq)
      have "filter (\<lambda>p. tier_due_conditions cfg now f2 c2 p \<and> \<not> locked (p_id p)) (payments (durable s)) = []"
        using r2 n2 s1(1) by (simp add: claim_in_age_range_None)
      then show ?thesis unfolding out option.case using s1(2) by (auto simp: either filter_empty_conv)
    qed
  qed
qed

theorem slot_preference_witness:
  "case snd (recon_claim_next_due demo_settings (\<lambda>_. False) (recon_session [demo_payment 1 ''a'']) ''w'' 5000 1) of
     None \<Rightarrow> filter (\<lambda>p. recon_due demo_settings 5000 p \<and> \<not> (\<lambda>_. False) (p_id p))
               (payments (durable (recon_session [demo_payment 1 ''a'']))) = []
   | Some p' \<Rightarrow>
       (let first = (if 1 \<le> (1 :: int) \<and> 1 \<le> reconciliation_slow_tier_reserved_slots demo_settings
                     then expiring_tier_due_conditions else active_tier_due_conditions);
            due = filter (\<lambda>p. first demo_settings 5000 p \<and> \<not> (\<lambda>_. False) (p_id p))
                    (payments (durable (recon_session [demo_payment 1 ''a''])))
        in due = [] \<or> p' \<in> (\<lambda>p. recon_claim demo_settings p ''w'' 5000) ` set due)"
  by (rule slot_preference) simp

section \<open>Bookkeeping touches bookkeeping columns only\<close>

definition bookkeeping :: "payment \<Rightarrow> payment \<Rightarrow> bool" where
  "bookkeeping p q \<longleftrightarrow>
     (\<exists>att nx la ec ca cb.
        q = p\<lparr>p_reconciliation_attempts := att, p_reconciliation_next_at := nx, p_reconciliation_last_at := la,
              p_reconciliation_last_error_code := ec, p_reconciliation_claimed_at := ca,
              p_reconciliation_claimed_by := cb\<rparr>)"

lemma bookkeeping_claim: "bookkeeping p (recon_claim cfg p w now)"
proof -
  have "recon_claim cfg p w now = p\<lparr>p_reconciliation_attempts := p_reconciliation_attempts p + 1,
      p_reconciliation_next_at := Some (now + of_int (reconciliation_retry_delay_seconds cfg p now)),
      p_reconciliation_last_at := Some now, p_reconciliation_last_error_code := p_reconciliation_last_error_code p,
      p_reconciliation_claimed_at := Some now, p_reconciliation_claimed_by := Some w\<rparr>"
    by (simp add: recon_claim_def)
  then show ?thesis unfolding bookkeeping_def by blast
qed

lemma bookkeeping_flush: "bookkeeping p (recon_flush c n p)"
  unfolding bookkeeping_def recon_flush_def by blast

lemma recon_flush_id [simp]: "p_id (recon_flush c n p) = p_id p"
  by (simp add: recon_flush_def)

lemma bookkeeping_eqs:
  assumes "bookkeeping p q"
  shows "p_id q = p_id p" "p_status q = p_status p" "financial_eq p q" "p_redirect_url q = p_redirect_url p"
    "p_notification_claimed_at q = p_notification_claimed_at p" "p_notification_claimed_by q = p_notification_claimed_by p"
    "p_bot_notify_attempts q = p_bot_notify_attempts p" "p_reference_id q = p_reference_id p"
    "p_next_retry_at q = p_next_retry_at p"
  using assms by (auto simp: bookkeeping_def financial_eq_def)

text \<open>The object at the end of the bookkeeping, and the row it leaves.\<close>

definition finalized :: "settings \<Rightarrow> payment \<Rightarrow> int \<Rightarrow> recon_outcome \<Rightarrow> string option \<Rightarrow> time \<Rightarrow> payment" where
  "finalized cfg cached att oc ec now =
     (let repaired = (if p_reconciliation_attempts cached < att
                      then cached\<lparr>p_reconciliation_attempts := att, p_reconciliation_last_at := Some now\<rparr> else cached);
          p0 = repaired\<lparr>p_reconciliation_claimed_at := None, p_reconciliation_claimed_by := None\<rparr>
      in case oc of
           Recon_Verified \<Rightarrow> p0\<lparr>p_reconciliation_next_at := None, p_reconciliation_last_error_code := None\<rparr>
         | Recon_Under_Review \<Rightarrow> p0\<lparr>p_reconciliation_next_at := None\<rparr>
         | _ \<Rightarrow>
             if p_status cached \<noteq> LINK_CREATED then p0
             else if att \<ge> reconciliation_max_attempts cfg
             then p0\<lparr>p_reconciliation_last_error_code := ec, p_reconciliation_next_at := None\<rparr>
             else p0\<lparr>p_reconciliation_last_error_code := ec,
                     p_reconciliation_next_at := Some (now + of_int (reconciliation_retry_delay_seconds cfg cached now))\<rparr>)"

lemma finalize_row:
  assumes "payment_by_id (work s) i = Some row"
  shows "payments (durable (fst (finalize cfg cached s i w att oc ec now)))
           = put_row p_id (recon_flush cached (finalized cfg cached att oc ec now) row) (payments (work s))"
    and "work (fst (finalize cfg cached s i w att oc ec now)) = durable (fst (finalize cfg cached s i w att oc ec now))"
proof -
  have i: "p_id row = i" using assms find_row_Some [of p_id "payments (work s)" i row] by (simp add: payment_by_id_def)
  have pp: "put_row p_id (recon_flush a b row) (put_row p_id (recon_flush c d row) xs) = put_row p_id (recon_flush a b row) xs" for a b c d xs
    by (rule put_row_put_row) simp
  show "payments (durable (fst (finalize cfg cached s i w att oc ec now)))
           = put_row p_id (recon_flush cached (finalized cfg cached att oc ec now) row) (payments (work s))"
    using assms by (cases oc) (simp_all add: finalize_def finalized_def Let_def pp)
  show "work (fst (finalize cfg cached s i w att oc ec now)) = durable (fst (finalize cfg cached s i w att oc ec now))"
    using assms by (cases oc) (simp_all add: finalize_def Let_def)
qed

lemma finalize_absent:
  "payment_by_id (work s) i = None \<Longrightarrow> finalize cfg cached s i w att oc ec now = (s, None)"
  by (simp add: finalize_def)

lemma finalize_bookkeeping:
  assumes "work s = durable s" "distinct (map p_id (payments (durable s)))"
  shows "list_all2 bookkeeping\<^sup>*\<^sup>* (payments (durable s)) (payments (durable (fst (finalize cfg cached s i w att oc ec now))))
       \<and> work (fst (finalize cfg cached s i w att oc ec now)) = durable (fst (finalize cfg cached s i w att oc ec now))"
proof (cases "payment_by_id (work s) i")
  case None
  then show ?thesis using assms(1) by (simp add: finalize_absent list.rel_refl_strong)
next
  case (Some row)
  let ?q = "recon_flush cached (finalized cfg cached att oc ec now) row"
  have "list_all2 bookkeeping\<^sup>*\<^sup>* (payments (durable s)) (put_row p_id ?q (payments (durable s)))"
    using assms Some find_row_Some [of p_id "payments (durable s)" i row]
    by (intro put_row_list_all2 [of _ _ i row]) (auto simp: payment_by_id_def intro: r_into_rtranclp bookkeeping_flush)
  then show ?thesis using finalize_row [OF Some] assms(1) by simp
qed

lemma bookkeeping_trans: "bookkeeping p q \<Longrightarrow> bookkeeping q r \<Longrightarrow> bookkeeping p r"
  unfolding bookkeeping_def by (elim exE, simp) blast

lemma bookkeeping_closure: "bookkeeping\<^sup>*\<^sup>* p q \<Longrightarrow> q = p \<or> bookkeeping p q"
  by (induction rule: rtranclp_induct) (auto intro: bookkeeping_trans)

text \<open>
  The bookkeeping transaction changes nothing but bookkeeping columns, on whatever row it finds:
  status, settlement facts and delivery columns stay as other sessions left them, even when the copy
  the session works from is stale.
\<close>

theorem finalize_keeps_settlement:
  assumes "work s = durable s" and "distinct (map p_id (payments (durable s)))"
  shows "list_all2 (\<lambda>p q. financial_eq p q \<and> p_status q = p_status p \<and> p_redirect_url q = p_redirect_url p
             \<and> p_next_retry_at q = p_next_retry_at p \<and> p_bot_notify_attempts q = p_bot_notify_attempts p)
           (payments (durable s)) (payments (durable (fst (finalize cfg cached s i w att oc ec now))))"
proof (rule list_all2_mono)
  show "list_all2 bookkeeping\<^sup>*\<^sup>* (payments (durable s)) (payments (durable (fst (finalize cfg cached s i w att oc ec now))))"
    using finalize_bookkeeping [OF assms] by blast
  fix p q assume "bookkeeping\<^sup>*\<^sup>* p q"
  then show "financial_eq p q \<and> p_status q = p_status p \<and> p_redirect_url q = p_redirect_url p
             \<and> p_next_retry_at q = p_next_retry_at p \<and> p_bot_notify_attempts q = p_bot_notify_attempts p"
    using bookkeeping_closure bookkeeping_eqs by blast
qed

theorem finalize_keeps_settlement_witness:
  "list_all2 (\<lambda>p q. financial_eq p q \<and> p_status q = p_status p \<and> p_redirect_url q = p_redirect_url p
       \<and> p_next_retry_at q = p_next_retry_at p \<and> p_bot_notify_attempts q = p_bot_notify_attempts p)
     (payments (durable (recon_session [pending_payment 1 ''a''])))
     (payments (durable (fst (finalize demo_settings (demo_payment 1 ''a'') (recon_session [pending_payment 1 ''a''])
        1 ''w'' 1 Recon_Not_Paid (Some ''gateway_not_paid'') 5010))))"
  by (rule finalize_keeps_settlement) simp_all

section \<open>A settlement in the gap is not noticed\<close>

text \<open>
  C20. After a "not paid" or failed verify attempt, the bookkeeping decides on the copy of the row the
  session already holds: below the attempt limit it always schedules a retry and records
  \<open>reconciliation_retry_scheduled\<close>, whatever other sessions committed between the two transactions,
  also when a callback settled the payment in that gap. The "superseded" branch for that case is
  not reached.
\<close>

theorem gap_settlement_unnoticed:
  assumes "\<not> re_crash env k" and "p_status p = LINK_CREATED"
    and "payment_by_id (work s) (p_id p) = Some p"
    and "verify cl (re_http env k) (p_gateway_order_id p) \<in> range Inl \<union> Inr ` {r. \<not> vr_gateway_success r}"
    and "p_reconciliation_attempts p < reconciliation_max_attempts cfg"
    and "payment_by_id (re_gap env k (durable (fst (verify_and_settle cl (re_http env k) (Some cfg) Reconciliation_Source s p))))
           (p_id p) = Some row"
  shows "snd (recon_attempt cl cfg env w k s p) = Some Disp_Retry_Scheduled
       \<and> has_event (fst (recon_attempt cl cfg env w k s p)) (Some (p_id p)) ''reconciliation_retry_scheduled''"
proof -
  obtain s1 r where vs: "verify_and_settle cl (re_http env k) (Some cfg) Reconciliation_Source s p = (s1, r)" by fastforce
  obtain e where s1: "payments (work s1) = put_row p_id (p\<lparr>p_last_error := Some e\<rparr>) (payments (work s))"
    and r: "r \<in> range Inl \<union> {Inr GATEWAY_NOT_PAID}"
  proof (cases rule: verify_and_settle_cases [of cl "re_http env k" p s "Some cfg" Reconciliation_Source])
    case (settled v)
    then show ?thesis using assms(4) by (auto simp: settles_def)
  next
    case (review v m d)
    then show ?thesis using assms(4) vs by (auto simp: verify_and_settle_def Let_def)
  next
    case (noted e s' out)
    then show ?thesis using that vs by simp
  qed
  let ?c = "p\<lparr>p_last_error := Some e\<rparr>"
  have cached: "payment_by_id (work s1) (p_id p) = Some ?c"
    using assms(3) by (simp add: payment_by_id_def s1 find_row_put_row)
  have row: "payment_by_id (re_gap env k (durable s1)) (p_id p) = Some row" using assms(6) vs by simp
  have fin: "snd (finalize cfg ?c (rollback_seeing (re_gap env k) s1) (p_id p) w (p_reconciliation_attempts p) oc code now) = Some Disp_Retry_Scheduled
      \<and> has_event (fst (finalize cfg ?c (rollback_seeing (re_gap env k) s1) (p_id p) w (p_reconciliation_attempts p) oc code now))
          (Some (p_id p)) ''reconciliation_retry_scheduled''" if "oc \<in> {Recon_Not_Paid, Recon_Transport}" for oc code now
    using that row assms(2,5) by (auto simp: finalize_def Let_def)
  show ?thesis using assms(1) vs cached r fin by (auto simp: recon_attempt_def Let_def)
qed

definition unpaid_env :: "(db \<Rightarrow> db) \<Rightarrow> recon_env" where
  "unpaid_env gap = \<lparr>re_rid = (\<lambda>_. ''rec''), re_now = (\<lambda>_. 5000), re_finalize_now = (\<lambda>_. 5010), re_elapsed = (\<lambda>_. 0),
     re_locked = (\<lambda>_ _. False), re_before = (\<lambda>_ d. d), re_gap = (\<lambda>_. gap),
     re_http = (\<lambda>_ _ _. HttpReply 200 (Some (JObj [(''success'', JBool False)]))), re_crash = (\<lambda>_. False)\<rparr>"

text \<open>A callback that settles the only payment, as another session would commit it.\<close>

definition settle_gap :: "db \<Rightarrow> db" where
  "settle_gap d = d\<lparr>payments := [pending_payment 1 ''a'']\<rparr>"

theorem gap_settlement_unnoticed_witness:
  "snd (recon_attempt demo_client demo_settings (unpaid_env settle_gap) ''w'' 0
      (recon_session [demo_payment 1 ''a'']) (demo_payment 1 ''a'')) = Some Disp_Retry_Scheduled
   \<and> has_event (fst (recon_attempt demo_client demo_settings (unpaid_env settle_gap) ''w'' 0
      (recon_session [demo_payment 1 ''a'']) (demo_payment 1 ''a''))) (Some (p_id (demo_payment 1 ''a'')))
      ''reconciliation_retry_scheduled''"
proof (rule gap_settlement_unnoticed)
  show "\<not> re_crash (unpaid_env settle_gap) 0" by (simp add: unpaid_env_def)
  show "p_status (demo_payment 1 ''a'') = LINK_CREATED" by (simp add: demo_payment_def)
  show "payment_by_id (work (recon_session [demo_payment 1 ''a''])) (p_id (demo_payment 1 ''a'')) = Some (demo_payment 1 ''a'')"
    by (simp add: payment_by_id_def find_row_def)
  show "verify demo_client (re_http (unpaid_env settle_gap) 0) (p_gateway_order_id (demo_payment 1 ''a''))
      \<in> range Inl \<union> Inr ` {r. \<not> vr_gateway_success r}"
    by (simp add: unpaid_env_def verify_def post_json_def gateway_reason_code_def jget_def)
  show "p_reconciliation_attempts (demo_payment 1 ''a'') < reconciliation_max_attempts demo_settings"
    by (simp add: demo_payment_def demo_settings_def)
  show "payment_by_id (re_gap (unpaid_env settle_gap) 0 (durable (fst (verify_and_settle demo_client
      (re_http (unpaid_env settle_gap) 0) (Some demo_settings) Reconciliation_Source (recon_session [demo_payment 1 ''a''])
      (demo_payment 1 ''a''))))) (p_id (demo_payment 1 ''a'')) = Some (pending_payment 1 ''a'')"
    by (simp add: unpaid_env_def settle_gap_def payment_by_id_def find_row_def pending_payment_def demo_payment_def)
qed

section \<open>The bounds of a pass\<close>

definition dispositions_total :: "recon_stats \<Rightarrow> nat" where
  "dispositions_total st = rs_verified st + rs_retry_scheduled st + rs_under_review st + rs_exhausted st + rs_superseded st"

lemma count_disposition_sel [simp]:
  "rs_processed (count_disposition d st) = rs_processed st"
  "dispositions_total (count_disposition d st) = Suc (dispositions_total st)"
  "dispositions_total (st\<lparr>rs_processed := n\<rparr>) = dispositions_total st"
  by (cases d; simp add: count_disposition_def dispositions_total_def)+

lemma recon_claim_next_due_None:
  assumes "recon_claim_next_due cfg locked s w now k = (s', None)" "work s = durable s"
  shows "durable s' = durable s" "filter (\<lambda>p. recon_due cfg now p \<and> \<not> locked (p_id p)) (payments (durable s)) = []"
  using assms
  by (auto simp: recon_claim_next_due_def claim_active_tier_def claim_expiring_tier_def claim_in_age_range_None recon_due_def
      active_tier_due_conditions_def expiring_tier_due_conditions_def filter_empty_conv
      split: prod.splits option.splits if_splits)

lemma recon_loop_bounds:
  assumes "recon_loop cl cfg env w mandatory budget n st s = (s', Some st')"
  shows "rs_processed st \<le> rs_processed st' \<and> rs_processed st' \<le> rs_processed st + n
       \<and> dispositions_total st' + rs_processed st = dispositions_total st + rs_processed st'
       \<and> (rs_processed st' < rs_processed st + n \<and> rs_processed st' < mandatory \<longrightarrow>
            filter (\<lambda>p. recon_due cfg (re_now env (rs_processed st')) p \<and> \<not> re_locked env (rs_processed st') (p_id p))
              (payments (durable s')) = [])"
  using assms
proof (induction n arbitrary: st s)
  case 0
  then show ?case by simp
next
  case (Suc n)
  let ?k = "rs_processed st"
  let ?s1 = "(rollback_seeing (re_before env ?k) s)\<lparr>request_id := Some (re_rid env ?k)\<rparr>"
  obtain s2 r where claim: "recon_claim_next_due cfg (re_locked env ?k) ?s1 w (re_now env ?k) (int ?k) = (s2, r)"
    by fastforce
  show ?case
  proof (cases "?k < mandatory \<or> re_elapsed env ?k < budget")
    case False
    then show ?thesis using Suc.prems by simp
  next
    case go: True
    show ?thesis
    proof (cases r)
      case None
      then have "s' = s2\<lparr>request_id := request_id s\<rparr>" "st' = st" using Suc.prems go claim by (auto simp: Let_def)
      then show ?thesis using recon_claim_next_due_None [OF claim [unfolded None]] by simp
    next
      case (Some p)
      obtain s3 d where att: "recon_attempt cl cfg env w ?k s2 p = (s3, Some d)"
        using Suc.prems go claim Some by (cases "recon_attempt cl cfg env w ?k s2 p"; cases "snd (recon_attempt cl cfg env w ?k s2 p)") (auto simp: Let_def)
      have "recon_loop cl cfg env w mandatory budget n (count_disposition d (st\<lparr>rs_processed := ?k + 1\<rparr>))
          (s3\<lparr>request_id := request_id s\<rparr>) = (s', Some st')"
        using Suc.prems go claim Some att by (auto simp: Let_def)
      from Suc.IH [OF this] show ?thesis by auto
    qed
  qed
qed

text \<open>
  C11. Whatever the gateway, the clock and other sessions do, a pass over an enabled configuration that
  returns statistics starts at most \<open>limit\<close> verify attempts, accounts for each of them with exactly
  one disposition, and ends before its mandatory slots are used only when the database it leaves
  has no due payment it could lock: the time budget cannot cut that prefix short.
\<close>

theorem reconciliation_pass_bounds:
  assumes "reconciliation_enabled cfg"
    and "run_reconciliation_pass cl cfg env s w batch budget = (s', Some st)"
  shows "rs_processed st \<le> coalesce batch (nat (reconciliation_batch_size cfg))
       \<and> dispositions_total st = rs_processed st
       \<and> (rs_processed st \<ge> min (nat (1 + reconciliation_slow_tier_reserved_slots cfg))
                                 (coalesce batch (nat (reconciliation_batch_size cfg)))
          \<or> filter (\<lambda>p. recon_due cfg (re_now env (rs_processed st)) p \<and> \<not> re_locked env (rs_processed st) (p_id p))
              (payments (durable s')) = [])"
proof -
  have "recon_loop cl cfg env w (min (nat (1 + reconciliation_slow_tier_reserved_slots cfg)) (coalesce batch (nat (reconciliation_batch_size cfg))))
      (coalesce budget (reconciliation_interval_seconds cfg)) (coalesce batch (nat (reconciliation_batch_size cfg))) no_stats s = (s', Some st)"
    using assms by (simp add: run_reconciliation_pass_def Let_def)
  from recon_loop_bounds [OF this] show ?thesis by (auto simp: no_stats_def dispositions_total_def)
qed

theorem reconciliation_pass_bounds_witness:
  "\<exists>s' st. run_reconciliation_pass demo_client demo_settings (unpaid_env id) (recon_session []) ''w'' None None = (s', Some st)
     \<and> rs_processed st \<le> coalesce None (nat (reconciliation_batch_size demo_settings))
     \<and> dispositions_total st = rs_processed st"
proof -
  obtain s' where pass: "run_reconciliation_pass demo_client demo_settings (unpaid_env id) (recon_session []) ''w'' None None
      = (s', Some no_stats)"
    by (simp add: run_reconciliation_pass_def Let_def demo_settings_def unpaid_env_def no_stats_def numeral_eq_Suc
        recon_claim_next_due_def claim_active_tier_def claim_expiring_tier_def claim_in_age_range_def first_by_def)
  have "reconciliation_enabled demo_settings" by (simp add: demo_settings_def)
  from reconciliation_pass_bounds [OF this pass] pass show ?thesis by blast
qed

end
