(* ===== verification/Bulk_Resend.thy ===== *)
theory Bulk_Resend
  imports Notification "HOL-Library.Multiset"
begin

text \<open>
  The administrator's requeue of delivery failures (\<open>app/services/bulk_resend.py\<close>): eligibility,
  the preview, and the loop that requeues the eligible rows in locked batches.

  The loop runs until a batch is empty, so it is a partial function: \<open>None\<close> is a run that never
  stops, which needs other sessions that keep making rows eligible. \<open>locked k\<close> are the rows
  others hold locked when batch \<open>k\<close> is selected, \<open>others k\<close> what they commit before it.
\<close>

section \<open>Operations\<close>

definition ELIGIBLE_RESEND_REASONS :: "reason_code list" where
  "ELIGIBLE_RESEND_REASONS = [RETRY_LIMIT_REACHED, BOT_TIMEOUT_AMBIGUOUS]"

definition PREVIEW_ORDER_LIMIT :: nat where
  "PREVIEW_ORDER_LIMIT = 20"

definition RESEND_BATCH_SIZE :: nat where
  "RESEND_BATCH_SIZE = 100"

definition eligible_predicate :: "payment \<Rightarrow> bool" where
  "eligible_predicate p \<longleftrightarrow>
     p_status p = MANUAL_REVIEW \<and> p_gateway_verified_at p \<noteq> None \<and> p_review_resolved_at p = None
   \<and> p_notification_claimed_at p = None
   \<and> (case p_bot_notify_reason p of None \<Rightarrow> False | Some r \<Rightarrow> r \<in> set ELIGIBLE_RESEND_REASONS)"

definition resend_order :: "payment \<Rightarrow> (nat \<times> time) \<times> int" where
  "resend_order p = (nulls_first (p_manual_review_at p), p_id p)"

record bulk_resend_preview =
  bp_count :: nat
  bp_total_amount :: int
  bp_order_ids :: "string list"

record bulk_resend_result =
  br_selected_count :: nat
  br_requeued_count :: nat
  br_skipped_count :: nat
  br_total_amount :: int
  br_order_ids :: "string list"

definition preview_bulk_resend :: "session \<Rightarrow> session \<times> bulk_resend_preview" where
  "preview_bulk_resend s =
     (let rows = sort_key resend_order (filter eligible_predicate (payments (work s)))
      in (rollback s,
          \<lparr>bp_count = length rows, bp_total_amount = sum_list (map p_amount rows),
           bp_order_ids = map p_bot_order_id (take PREVIEW_ORDER_LIMIT rows)\<rparr>))"

definition requeued_state :: "time \<Rightarrow> payment \<Rightarrow> payment" where
  "requeued_state now p =
     p\<lparr>p_status := BOT_NOTIFY_PENDING, p_next_retry_at := Some now,
       p_notification_claimed_at := None, p_notification_claimed_by := None\<rparr>"

definition requeue_one :: "int option \<Rightarrow> time \<Rightarrow> session \<Rightarrow> payment \<Rightarrow> session" where
  "requeue_one telegram_user_id now s p =
     record_event (put_payment s (requeued_state now p)) (Some (p_id p)) ''admin_bulk_resend_requested'' ''warning''
       [(''telegram_user_id'', jopt_int telegram_user_id), (''previous_reason'', jopt_reason (p_bot_notify_reason p)),
        (''previous_attempts'', JInt (p_bot_notify_attempts p)), (''command'', JStr ''resend_failed'')]"

text \<open>The running totals: the count, the amount, the first order ids.\<close>

type_synonym resend_totals = "nat \<times> int \<times> string list"

fun count_requeued :: "resend_totals \<Rightarrow> payment \<Rightarrow> resend_totals" where
  "count_requeued (n, total_amount, ids) p =
     (n + 1, total_amount + p_amount p, if length ids < PREVIEW_ORDER_LIMIT then ids @ [p_bot_order_id p] else ids)"

partial_function (option) requeue_loop ::
  "(nat \<Rightarrow> int \<Rightarrow> bool) \<Rightarrow> (nat \<Rightarrow> db \<Rightarrow> db) \<Rightarrow> int option \<Rightarrow> time \<Rightarrow> nat \<Rightarrow> nat \<Rightarrow> resend_totals \<Rightarrow> session \<Rightarrow>
   (session \<times> resend_totals) option" where
  "requeue_loop locked others telegram_user_id now batch_size k totals s =
     (let s1 = rollback_seeing (others k) s;
          rows = first_n_by resend_order batch_size
                   (filter (\<lambda>p. eligible_predicate p \<and> \<not> locked k (p_id p)) (payments (work s1)))
      in if rows = [] then Some (rollback s1, totals)
         else requeue_loop locked others telegram_user_id now batch_size (Suc k) (foldl count_requeued totals rows)
                (commit (foldl (requeue_one telegram_user_id now) s1 rows)))"

declare requeue_loop.simps [code]

definition requeue_failed_deliveries ::
  "(nat \<Rightarrow> int \<Rightarrow> bool) \<Rightarrow> (nat \<Rightarrow> db \<Rightarrow> db) \<Rightarrow> session \<Rightarrow> int option \<Rightarrow> time \<Rightarrow> nat \<Rightarrow>
   (session \<times> bulk_resend_result) option" where
  "requeue_failed_deliveries locked others s telegram_user_id now batch_size =
     (let selected_count = length (filter eligible_predicate (payments (work s)))
      in case requeue_loop locked others telegram_user_id now batch_size 0 (0, 0, []) (rollback s) of
           None \<Rightarrow> None
         | Some (s1, requeued_count, total_amount, order_ids) \<Rightarrow>
             (let skipped_count = selected_count - requeued_count
              in Some (commit (record_event s1 None ''admin_bulk_resend_completed'' ''info''
                         [(''telegram_user_id'', jopt_int telegram_user_id),
                          (''selected_count'', JInt (int selected_count)),
                          (''requeued_count'', JInt (int requeued_count)),
                          (''skipped_count'', JInt (int skipped_count))]),
                       \<lparr>br_selected_count = selected_count, br_requeued_count = requeued_count,
                        br_skipped_count = skipped_count, br_total_amount = total_amount,
                        br_order_ids = order_ids\<rparr>)))"

section \<open>One batch\<close>

interpretation requeue_batch:
  recorded_batch "requeue_one tg now" "requeued_state now" "''admin_bulk_resend_requested''" for tg now
  by unfold_locales (simp_all add: requeue_one_def requeued_state_def has_event_record_mono)

lemma requeued_state_id [simp]: "p_id (requeued_state now p) = p_id p"
  by (rule requeue_batch.upd_id)

lemma requeued_not_eligible [simp]: "\<not> eligible_predicate (requeued_state now p)"
  by (simp add: eligible_predicate_def requeued_state_def)

text \<open>The batch of a selection, and what is left for the next one.\<close>

lemma first_n_by_split:
  assumes "distinct xs"
  shows "mset xs = mset (first_n_by key n xs) + mset (filter (\<lambda>x. x \<notin> set (first_n_by key n xs)) xs)"
proof -
  let ?ys = "sort_key key xs"
  have d: "distinct ?ys" using assms by simp
  have "mset (drop n ?ys) = mset (filter (\<lambda>x. x \<notin> set (take n ?ys)) xs)"
  proof (rule set_eq_iff_mset_eq_distinct [THEN iffD1])
    show "distinct (drop n ?ys)" "distinct (filter (\<lambda>x. x \<notin> set (take n ?ys)) xs)" using d assms by simp_all
    have "set (take n ?ys) \<inter> set (drop n ?ys) = {}" using d by (simp add: set_take_disj_set_drop_if_distinct)
    moreover have "set (take n ?ys) \<union> set (drop n ?ys) = set xs" by (metis append_take_drop_id set_append set_sort)
    ultimately show "set (drop n ?ys) = set (filter (\<lambda>x. x \<notin> set (take n ?ys)) xs)" by auto
  qed
  moreover have "mset xs = mset (take n ?ys) + mset (drop n ?ys)"
    by (metis append_take_drop_id mset_append mset_sort)
  ultimately show ?thesis by (simp add: first_n_by_def)
qed

lemma first_n_by_totals:
  assumes "distinct xs"
  shows "length xs = length (first_n_by key n xs) + length (filter (\<lambda>x. x \<notin> set (first_n_by key n xs)) xs)"
    and "sum_list (map g xs) = sum_list (map g (first_n_by key n xs))
           + sum_list (map g (filter (\<lambda>x. x \<notin> set (first_n_by key n xs)) xs) :: int list)"
proof -
  let ?l = "filter (\<lambda>x. x \<notin> set (first_n_by key n xs)) xs"
  have perm: "mset xs = mset (first_n_by key n xs @ ?l)" using first_n_by_split [OF assms] by simp
  show "length xs = length (first_n_by key n xs) + length ?l"
    using mset_eq_length [OF perm] by (simp only: length_append)
  have "mset (map g xs) = mset (map g (first_n_by key n xs @ ?l))" using perm by (simp only: mset_map)
  then have "sum_list (map g xs) = sum_list (map g (first_n_by key n xs @ ?l))"
    by (metis sum_mset_sum_list)
  then show "sum_list (map g xs) = sum_list (map g (first_n_by key n xs)) + sum_list (map g ?l)"
    by (simp only: map_append sum_list_append)
qed

lemma first_n_by_empty: "first_n_by key n xs = [] \<longleftrightarrow> n = 0 \<or> xs = []"
  by (auto simp: first_n_by_def dest: arg_cong [where f = set])

lemma count_requeued_fold:
  "fst (foldl count_requeued t ps) = fst t + length ps"
  "fst (snd (foldl count_requeued t ps)) = fst (snd t) + sum_list (map p_amount ps)"
  by (induction ps arbitrary: t) (auto simp: split: prod.splits)

section \<open>The whole run\<close>

text \<open>The selection of a run with fixed locks and what it makes of the table.\<close>

definition resendable :: "(int \<Rightarrow> bool) \<Rightarrow> payment \<Rightarrow> bool" where
  "resendable locked p \<longleftrightarrow> eligible_predicate p \<and> \<not> locked (p_id p)"

definition resent :: "(int \<Rightarrow> bool) \<Rightarrow> time \<Rightarrow> payment \<Rightarrow> payment" where
  "resent locked now p = (if resendable locked p then requeued_state now p else p)"

lemma resent_not_resendable: "\<not> resendable locked (requeued_state now p)"
  by (simp add: resendable_def)

lemma resendable_left:
  "filter (resendable locked) (map (\<lambda>q. if q \<in> R then requeued_state now q else q) xs)
     = filter (\<lambda>q. q \<notin> R) (filter (resendable locked) xs)"
  by (induction xs) (auto simp: resent_not_resendable)

lemma requeue_loop_returns:
  assumes "batch_size > 0" "work s = durable s" "distinct (map p_id (payments (durable s)))"
  shows "\<exists>s' t'. requeue_loop (\<lambda>_. locked) (\<lambda>_ d. d) tg now batch_size k t s = Some (s', t')
      \<and> payments (durable s') = map (resent locked now) (payments (durable s)) \<and> work s' = durable s'
      \<and> fst t' = fst t + length (filter (resendable locked) (payments (durable s)))
      \<and> fst (snd t') = fst (snd t) + sum_list (map p_amount (filter (resendable locked) (payments (durable s))))"
  using assms(2,3)
proof (induction "length (filter (resendable locked) (payments (durable s)))" arbitrary: k t s rule: less_induct)
  case less
  let ?xs = "payments (durable s)"
  let ?cand = "filter (resendable locked) ?xs"
  let ?rows = "first_n_by resend_order batch_size ?cand"
  let ?s1 = "rollback_seeing (\<lambda>d. d) s"
  let ?s2 = "commit (foldl (requeue_one tg now) ?s1 ?rows)"
  have sel: "filter (\<lambda>p. eligible_predicate p \<and> \<not> locked (p_id p)) ?xs = ?cand"
    by (simp add: resendable_def [abs_def])
  show ?case
  proof (cases "?cand = []")
    case True
    then have "requeue_loop (\<lambda>_. locked) (\<lambda>_ d. d) tg now batch_size k t s = Some (rollback ?s1, t)"
      by (subst requeue_loop.simps) (simp add: Let_def sel first_n_by_empty)
    moreover have "map (resent locked now) ?xs = ?xs"
      using True by (intro map_idI) (auto simp: resent_def filter_empty_conv)
    ultimately show ?thesis using True by auto
  next
    case False
    then have rows: "?rows \<noteq> []" using assms(1) by (simp add: first_n_by_empty)
    have sub: "set ?rows \<subseteq> set ?cand" by (rule set_first_n_by)
    have dc: "distinct (map p_id ?cand)" using less.prems(2) by (simp add: distinct_map_filter)
    have tab: "payments (work (foldl (requeue_one tg now) ?s1 ?rows)) = map (\<lambda>q. if q \<in> set ?rows then requeued_state now q else q) ?xs"
      using requeue_batch.fold_rows [of ?s1 ?rows tg now] less.prems(2) distinct_first_n_by [OF dc] sub by auto
    have s2: "payments (durable ?s2) = map (\<lambda>q. if q \<in> set ?rows then requeued_state now q else q) ?xs"
      "work ?s2 = durable ?s2" using tab by simp_all
    have left: "filter (resendable locked) (payments (durable ?s2)) = filter (\<lambda>q. q \<notin> set ?rows) ?cand"
      unfolding s2(1) by (rule resendable_left)
    have dist: "distinct ?cand" using dc by (simp add: distinct_map)
    note len = first_n_by_totals(1) [OF dist, of resend_order batch_size]
    note sum = first_n_by_totals(2) [OF dist, of p_amount resend_order batch_size]
    have step: "requeue_loop (\<lambda>_. locked) (\<lambda>_ d. d) tg now batch_size k t s
        = requeue_loop (\<lambda>_. locked) (\<lambda>_ d. d) tg now batch_size (Suc k) (foldl count_requeued t ?rows) ?s2"
      using rows by (subst requeue_loop.simps) (simp add: Let_def sel)
    have "length (filter (resendable locked) (payments (durable ?s2))) < length ?cand"
      unfolding left using len length_greater_0_conv [THEN iffD2, OF rows] by linarith
    moreover have "distinct (map p_id (payments (durable ?s2)))"
      unfolding s2(1) using less.prems(2) by (simp add: comp_def if_distrib [of p_id] cong: if_cong)
    ultimately obtain s' t' where IH: "requeue_loop (\<lambda>_. locked) (\<lambda>_ d. d) tg now batch_size (Suc k) (foldl count_requeued t ?rows) ?s2 = Some (s', t')"
      "payments (durable s') = map (resent locked now) (payments (durable ?s2))" "work s' = durable s'"
      "fst t' = fst (foldl count_requeued t ?rows) + length (filter (resendable locked) (payments (durable ?s2)))"
      "fst (snd t') = fst (snd (foldl count_requeued t ?rows)) + sum_list (map p_amount (filter (resendable locked) (payments (durable ?s2))))"
      using less.hyps [of ?s2 "Suc k" "foldl count_requeued t ?rows"] s2(2) by blast
    have "map (resent locked now) (payments (durable ?s2)) = map (resent locked now) ?xs"
      unfolding s2(1) using sub by (auto simp: resent_def resent_not_resendable)
    then show ?thesis
      using IH len sum unfolding step left count_requeued_fold by (simp only: add.assoc) blast
  qed
qed

text \<open>
  C21. An undisturbed requeue returns, and it requeues exactly the eligible rows it can lock: each of
  them becomes pending and due now with its attempt count kept, no other row changes, the reported
  count and amount are theirs, every eligible row is requeued or counted as skipped, and the
  completion is recorded.
\<close>

theorem requeue_complete:
  assumes "batch_size > 0" and "work s = durable s" and "distinct (map p_id (payments (durable s)))"
  shows "\<exists>s' res. requeue_failed_deliveries (\<lambda>_. locked) (\<lambda>_ d. d) s tg now batch_size = Some (s', res)
      \<and> payments (durable s') =
          map (\<lambda>p. if eligible_predicate p \<and> \<not> locked (p_id p)
                    then p\<lparr>p_status := BOT_NOTIFY_PENDING, p_next_retry_at := Some now,
                           p_notification_claimed_at := None, p_notification_claimed_by := None\<rparr>
                    else p) (payments (durable s))
      \<and> br_requeued_count res = length (filter (\<lambda>p. eligible_predicate p \<and> \<not> locked (p_id p)) (payments (durable s)))
      \<and> br_total_amount res = sum_list (map p_amount (filter (\<lambda>p. eligible_predicate p \<and> \<not> locked (p_id p)) (payments (durable s))))
      \<and> br_requeued_count res + br_skipped_count res = length (filter eligible_predicate (payments (durable s)))
      \<and> has_event s' None ''admin_bulk_resend_completed''"
proof -
  have fn: "(\<lambda>p. if eligible_predicate p \<and> \<not> locked (p_id p)
                then p\<lparr>p_status := BOT_NOTIFY_PENDING, p_next_retry_at := Some now,
                       p_notification_claimed_at := None, p_notification_claimed_by := None\<rparr> else p) = resent locked now"
    and sel: "(\<lambda>p. eligible_predicate p \<and> \<not> locked (p_id p)) = resendable locked"
    by (auto simp: resent_def resendable_def requeued_state_def)
  obtain s1 n amt ids where loop: "requeue_loop (\<lambda>_. locked) (\<lambda>_ d. d) tg now batch_size 0 (0, 0, []) (rollback s) = Some (s1, n, amt, ids)"
    "payments (durable s1) = map (resent locked now) (payments (durable s))" "work s1 = durable s1"
    "n = length (filter (resendable locked) (payments (durable s)))"
    "amt = sum_list (map p_amount (filter (resendable locked) (payments (durable s))))"
    using requeue_loop_returns [of batch_size "rollback s" locked tg now 0 "(0, 0, [])"] assms by auto
  have "filter (resendable locked) (payments (durable s)) = filter (resendable locked) (filter eligible_predicate (payments (durable s)))"
    by (auto simp: resendable_def intro: filter_cong)
  then have "n \<le> length (filter eligible_predicate (payments (durable s)))"
    unfolding loop(4) by (simp only: length_filter_le)
  then show ?thesis
    unfolding fn sel using loop assms(2) by (auto simp: requeue_failed_deliveries_def Let_def)
qed

definition failed_delivery :: "int \<Rightarrow> string \<Rightarrow> payment" where
  "failed_delivery i b =
     (pending_payment i b)\<lparr>p_status := MANUAL_REVIEW, p_bot_notify_reason := Some RETRY_LIMIT_REACHED,
        p_bot_notify_attempts := 6, p_next_retry_at := None\<rparr>"

theorem requeue_complete_witness:
  "\<exists>s' res. requeue_failed_deliveries (\<lambda>_ _. False) (\<lambda>_ d. d)
       (delivery_session [failed_delivery 1 ''a'', pending_payment 2 ''b'']) (Some 42) 60 100 = Some (s', res)
     \<and> map p_status (payments (durable s')) = [BOT_NOTIFY_PENDING, BOT_NOTIFY_PENDING] \<and> br_requeued_count res = 1
     \<and> br_total_amount res = 50000 \<and> has_event s' None ''admin_bulk_resend_completed''"
  using requeue_complete [of 100 "delivery_session [failed_delivery 1 ''a'', pending_payment 2 ''b'']" "\<lambda>_. False" "Some 42" 60]
  by (auto simp: failed_delivery_def pending_payment_def demo_payment_def eligible_predicate_def ELIGIBLE_RESEND_REASONS_def)

text \<open>Every requeued row keeps its settlement facts and its attempt count.\<close>

lemma requeued_state_financial: "financial_eq p (requeued_state now p)"
  by (simp add: requeued_state_def financial_eq_def)

end
