(* ===== verification/Review_Resolution.thy ===== *)
theory Review_Resolution
  imports Bulk_Resend
begin

text \<open>
  Looking up a payment by what an operator typed (\<open>app/services/payment_lookup.py\<close>) and the bulk
  resolution of open manual reviews (\<open>app/services/review_resolution.py\<close>): the per-row guard, the
  report on a batch, and the all-or-nothing resolution under row locks.

  \<open>others\<close> is what other sessions commit between the report and the moment the row locks are
  granted. The texts of the report are left out; the refusal codes they render are kept.
\<close>

section \<open>Lookup\<close>

text \<open>\<open>OrderIdValueError\<close>: \<open>int()\<close> refused a string of more than 4300 digits.\<close>

datatype lookup_error = AmbiguousOrderIdError | OrderIdValueError

definition POSTGRES_BIGINT_MAX :: int where
  "POSTGRES_BIGINT_MAX = 2 ^ 63 - 1"

text \<open>On code points below 256, \<open>str.isdecimal\<close> holds of the non-empty strings of ASCII digits.\<close>

definition find_payment_by_order_id :: "db \<Rightarrow> string \<Rightarrow> lookup_error + payment option" where
  "find_payment_by_order_id d order_id =
     (let p = payment_by_bot_order_id d order_id
      in if \<not> is_ascii_decimal order_id then Inr p
         else case py_int_of_digits order_id of
                None \<Rightarrow> Inl OrderIdValueError
              | Some n \<Rightarrow>
                  if n \<le> POSTGRES_BIGINT_MAX then
                    (case payment_by_gateway_order_id d n of
                       None \<Rightarrow> Inr p
                     | Some g \<Rightarrow>
                         (case p of
                            None \<Rightarrow> Inr (Some g)
                          | Some q \<Rightarrow> if p_id q \<noteq> p_id g then Inl AmbiguousOrderIdError else Inr p))
                  else Inr p)"

section \<open>Guards\<close>

definition REVIEW_NOTE_MAX_LENGTH :: nat where
  "REVIEW_NOTE_MAX_LENGTH = 500"

definition REVIEW_ACTOR_MAX_LENGTH :: nat where
  "REVIEW_ACTOR_MAX_LENGTH = 128"

definition MAX_BULK_SIZE :: nat where
  "MAX_BULK_SIZE = 100"

definition RESOLUTIONS_REQUIRING_GATEWAY_VERIFIED :: "string list" where
  "RESOLUTIONS_REQUIRING_GATEWAY_VERIFIED = [''confirmed_by_bot_operator'', ''duplicate_notification_confirmed_safe'']"

datatype bulk_review_refusal =
    NOT_FOUND
  | AMBIGUOUS_ORDER_ID
  | NOT_MANUAL_REVIEW
  | ALREADY_RESOLVED
  | FINANCIAL_REVIEW_REQUIRES_INDIVIDUAL_RESOLUTION
  | DELIVERY_REASON_NOT_BULK_ELIGIBLE
  | REQUIRES_GATEWAY_VERIFIED
  | DUPLICATE_ORDER_ID
  | MIXED_VERIFICATION_SET
  | BATCH_TOO_LARGE
  | EMPTY_BATCH

record bulk_review_row =
  rr_order_id :: string
  rr_payment_id :: "int option"
  rr_bot_order_id :: "string option"
  rr_status :: "payment_status option"
  rr_gateway_verified :: "bool option"
  rr_amount :: "int option"
  rr_bot_notify_reason :: "reason_code option"
  rr_refusal :: "bulk_review_refusal option"

record bulk_review_report =
  rp_rows :: "bulk_review_row list"
  rp_set_refusal :: "bulk_review_refusal option"
  rp_resolution :: string

definition report_eligible :: "bulk_review_report \<Rightarrow> bool" where
  "report_eligible r \<longleftrightarrow> rp_set_refusal r = None \<and> list_all (\<lambda>row. rr_refusal row = None) (rp_rows r)"

record bulk_review_result =
  rv_resolved :: bool
  rv_resolved_count :: nat
  rv_report :: bulk_review_report

definition review_refuse_reason :: "payment \<Rightarrow> string \<Rightarrow> bulk_review_refusal option" where
  "review_refuse_reason p resolution =
     (if p_status p \<noteq> MANUAL_REVIEW then Some NOT_MANUAL_REVIEW
      else if p_review_resolved_at p \<noteq> None then Some ALREADY_RESOLVED
      else case p_bot_notify_reason p of
             None \<Rightarrow> Some FINANCIAL_REVIEW_REQUIRES_INDIVIDUAL_RESOLUTION
           | Some reason \<Rightarrow>
               if reason \<notin> set ELIGIBLE_RESEND_REASONS then Some DELIVERY_REASON_NOT_BULK_ELIGIBLE
               else if resolution \<in> set RESOLUTIONS_REQUIRING_GATEWAY_VERIFIED \<and> p_gateway_verified_at p = None
                 then Some REQUIRES_GATEWAY_VERIFIED
               else None)"

definition row_for :: "string \<Rightarrow> string \<Rightarrow> payment \<Rightarrow> bulk_review_row" where
  "row_for resolution order_id p =
     \<lparr>rr_order_id = order_id, rr_payment_id = Some (p_id p), rr_bot_order_id = Some (p_bot_order_id p),
      rr_status = Some (p_status p), rr_gateway_verified = Some (p_gateway_verified_at p \<noteq> None),
      rr_amount = Some (p_amount p), rr_bot_notify_reason = p_bot_notify_reason p,
      rr_refusal = review_refuse_reason p resolution\<rparr>"

definition refused_row :: "string \<Rightarrow> bulk_review_refusal \<Rightarrow> bulk_review_row" where
  "refused_row order_id refusal =
     \<lparr>rr_order_id = order_id, rr_payment_id = None, rr_bot_order_id = None, rr_status = None,
      rr_gateway_verified = None, rr_amount = None, rr_bot_notify_reason = None, rr_refusal = Some refusal\<rparr>"

definition set_refusal :: "bulk_review_row list \<Rightarrow> bulk_review_refusal option" where
  "set_refusal rows =
     (if length (remdups (map rr_gateway_verified rows)) > 1 then Some MIXED_VERIFICATION_SET else None)"

definition refusal_of_set :: "bulk_review_row list \<Rightarrow> bulk_review_refusal option" where
  "refusal_of_set rows = (if list_all (\<lambda>row. rr_refusal row = None) rows then set_refusal rows else None)"

section \<open>The report\<close>

text \<open>
  The loop over the typed ids, with the strings and the payments seen so far; \<open>None\<close> when the
  lookup raised something the loop does not catch.
\<close>

fun report_rows :: "db \<Rightarrow> string \<Rightarrow> string list \<Rightarrow> string list \<Rightarrow> int list \<Rightarrow> bulk_review_row list option" where
  "report_rows d resolution [] seen seen_payment_ids = Some []"
| "report_rows d resolution (order_id # rest) seen seen_payment_ids =
     (if order_id \<in> set seen then
        map_option ((#) (refused_row order_id DUPLICATE_ORDER_ID)) (report_rows d resolution rest seen seen_payment_ids)
      else case find_payment_by_order_id d order_id of
             Inl AmbiguousOrderIdError \<Rightarrow>
               map_option ((#) (refused_row order_id AMBIGUOUS_ORDER_ID))
                 (report_rows d resolution rest (order_id # seen) seen_payment_ids)
           | Inl OrderIdValueError \<Rightarrow> None
           | Inr None \<Rightarrow>
               map_option ((#) (refused_row order_id NOT_FOUND))
                 (report_rows d resolution rest (order_id # seen) seen_payment_ids)
           | Inr (Some p) \<Rightarrow>
               if p_id p \<in> set seen_payment_ids then
                 map_option ((#) ((row_for resolution order_id p)\<lparr>rr_refusal := Some DUPLICATE_ORDER_ID\<rparr>))
                   (report_rows d resolution rest (order_id # seen) seen_payment_ids)
               else
                 map_option ((#) (row_for resolution order_id p))
                   (report_rows d resolution rest (order_id # seen) (p_id p # seen_payment_ids)))"

definition build_report :: "db \<Rightarrow> string list \<Rightarrow> string \<Rightarrow> bulk_review_report option" where
  "build_report d order_ids resolution =
     (if order_ids = [] then
        Some \<lparr>rp_rows = [], rp_set_refusal = Some EMPTY_BATCH, rp_resolution = resolution\<rparr>
      else if length order_ids > MAX_BULK_SIZE then
        Some \<lparr>rp_rows = [], rp_set_refusal = Some BATCH_TOO_LARGE, rp_resolution = resolution\<rparr>
      else map_option (\<lambda>rows. \<lparr>rp_rows = rows, rp_set_refusal = refusal_of_set rows, rp_resolution = resolution\<rparr>)
             (report_rows d resolution order_ids [] []))"

definition preview_bulk_resolution :: "session \<Rightarrow> string list \<Rightarrow> string \<Rightarrow> session \<times> bulk_review_report option" where
  "preview_bulk_resolution s order_ids resolution =
     (case build_report (work s) order_ids resolution of
        None \<Rightarrow> (s, None)
      | Some report \<Rightarrow> (rollback s, Some report))"

section \<open>The resolution\<close>

definition resolved_review :: "string \<Rightarrow> time \<Rightarrow> payment \<Rightarrow> payment" where
  "resolved_review resolution now p =
     p\<lparr>p_review_acknowledged_at := or_else (p_review_acknowledged_at p) (Some now),
       p_review_resolved_at := Some now, p_review_resolution := Some resolution\<rparr>"

definition resolve_one ::
  "string \<Rightarrow> string \<Rightarrow> string \<Rightarrow> nat \<Rightarrow> time \<Rightarrow> session \<Rightarrow> payment \<Rightarrow> session" where
  "resolve_one resolution safe_note safe_actor batch_size now s p =
     record_event (put_payment s (resolved_review resolution now p)) (Some (p_id p)) ''manual_review_resolved'' ''info''
       [(''resolution'', JStr resolution), (''note'', JStr safe_note), (''operator'', JStr safe_actor),
        (''bulk'', JBool True), (''batch_size'', JInt (int batch_size))]"

text \<open>The rows of the report once more, from the locked rows.\<close>

definition recheck_row :: "string \<Rightarrow> payment list \<Rightarrow> bulk_review_row \<Rightarrow> bulk_review_row" where
  "recheck_row resolution locked row =
     (case Option.bind (rr_payment_id row) (find_row p_id locked) of
        None \<Rightarrow>
          \<lparr>rr_order_id = rr_order_id row, rr_payment_id = rr_payment_id row, rr_bot_order_id = rr_bot_order_id row,
           rr_status = None, rr_gateway_verified = None, rr_amount = None, rr_bot_notify_reason = None,
           rr_refusal = Some NOT_FOUND\<rparr>
      | Some p \<Rightarrow> row_for resolution (rr_order_id row) p)"

definition resolve_reviews ::
  "(db \<Rightarrow> db) \<Rightarrow> session \<Rightarrow> string list \<Rightarrow> string \<Rightarrow> string \<Rightarrow> string \<Rightarrow> time \<Rightarrow> session \<times> bulk_review_result option" where
  "resolve_reviews others s order_ids resolution memo actor now =
     (case build_report (work s) order_ids resolution of
        None \<Rightarrow> (s, None)
      | Some report \<Rightarrow>
          if \<not> report_eligible report then
            (rollback s, Some \<lparr>rv_resolved = False, rv_resolved_count = 0, rv_report = report\<rparr>)
          else
            let s1 = rollback_seeing others s;
                payment_ids = List.map_filter rr_payment_id (rp_rows report);
                locked = sort_key p_id (filter (\<lambda>p. p_id p \<in> set payment_ids) (payments (work s1)));
                recheck_rows = map (recheck_row resolution locked) (rp_rows report);
                recheck = \<lparr>rp_rows = recheck_rows, rp_set_refusal = refusal_of_set recheck_rows,
                           rp_resolution = resolution\<rparr>
            in if \<not> report_eligible recheck then
                 (rollback s1, Some \<lparr>rv_resolved = False, rv_resolved_count = 0, rv_report = recheck\<rparr>)
               else
                 let safe_note = take REVIEW_NOTE_MAX_LENGTH (strip memo);
                     safe_actor = take REVIEW_ACTOR_MAX_LENGTH (strip actor);
                     s2 = foldl (resolve_one resolution safe_note safe_actor (length locked) now) s1 locked;
                     s3 = record_event s2 None ''manual_review_bulk_resolved'' ''warning''
                            [(''resolution'', JStr resolution), (''note'', JStr safe_note),
                             (''operator'', JStr safe_actor), (''resolved_count'', JInt (int (length locked))),
                             (''order_ids'', JArr (map (\<lambda>p. JStr (p_bot_order_id p)) locked))]
                 in (commit s3, Some \<lparr>rv_resolved = True, rv_resolved_count = length locked, rv_report = recheck\<rparr>))"

interpretation resolve_batch:
  recorded_batch "resolve_one r n a b now" "resolved_review r now" "''manual_review_resolved''" for r n a b now
  by unfold_locales (simp_all add: resolve_one_def resolved_review_def has_event_record_mono)

section \<open>Lookups\<close>

lemma find_payment_by_order_id_Some:
  assumes "find_payment_by_order_id d o' = Inr (Some p)"
  shows "p \<in> set (payments d) \<and> (p_bot_order_id p = o' \<or> p_gateway_order_id p = int (digits_to_nat o'))"
  using assms
  by (auto simp: find_payment_by_order_id_def payment_by_bot_order_id_def payment_by_gateway_order_id_def py_int_of_digits_def
      Let_def dest: find_SomeD split: if_splits option.splits)

text \<open>An eligible report names distinct payments, one per typed id, each of which passes the guard.\<close>

lemma report_rows_eligible:
  assumes "report_rows d res os seen pids = Some rows" "list_all (\<lambda>row. rr_refusal row = None) rows"
  shows "\<exists>qs. length qs = length os \<and> rows = map2 (row_for res) os qs \<and> distinct (map p_id qs)
      \<and> set (map p_id qs) \<inter> set pids = {} \<and> list_all2 (\<lambda>o' q. find_payment_by_order_id d o' = Inr (Some q)) os qs"
  using assms
proof (induction os arbitrary: seen pids rows)
  case (Cons o' os)
  obtain q where q: "find_payment_by_order_id d o' = Inr (Some q)" "p_id q \<notin> set pids" and
    rest: "map_option ((#) (row_for res o' q)) (report_rows d res os (o' # seen) (p_id q # pids)) = Some rows"
    using Cons.prems
    by (auto simp: refused_row_def split: if_splits sum.splits option.splits lookup_error.splits)
  then obtain rows' where rows': "report_rows d res os (o' # seen) (p_id q # pids) = Some rows'"
    "rows = row_for res o' q # rows'" by auto
  then obtain qs where "length qs = length os" "rows' = map2 (row_for res) os qs" "distinct (map p_id qs)"
    "set (map p_id qs) \<inter> set (p_id q # pids) = {}" "list_all2 (\<lambda>o' q. find_payment_by_order_id d o' = Inr (Some q)) os qs"
    using Cons.IH [OF rows'(1)] Cons.prems(2) by auto
  then show ?case
    using q rows'(2) by (intro exI [of _ "q # qs"]) auto
qed simp

lemma review_refuse_reason_None:
  "review_refuse_reason p res = None \<longleftrightarrow>
     p_status p = MANUAL_REVIEW \<and> p_review_resolved_at p = None
   \<and> p_bot_notify_reason p \<in> {Some RETRY_LIMIT_REACHED, Some BOT_TIMEOUT_AMBIGUOUS}
   \<and> (res \<notin> {''confirmed_by_bot_operator'', ''duplicate_notification_confirmed_safe''} \<or> p_gateway_verified_at p \<noteq> None)"
  by (auto simp: review_refuse_reason_def ELIGIBLE_RESEND_REASONS_def RESOLUTIONS_REQUIRING_GATEWAY_VERIFIED_def
      split: option.splits)

section \<open>All or nothing\<close>

lemma map_filter_row_for: "length os = length qs \<Longrightarrow> List.map_filter rr_payment_id (map2 (row_for res) os qs) = map p_id qs"
  by (induction os qs rule: list_induct2) (simp_all add: List.map_filter_simps row_for_def)

lemma recheck_eligible:
  assumes "length os = length qs" "list_all (\<lambda>row. rr_refusal row = None) (map (recheck_row res locked) (map2 (row_for res) os qs))"
  shows "\<exists>ps. list_all2 (\<lambda>q p. find_row p_id locked (p_id q) = Some p \<and> review_refuse_reason p res = None) qs ps"
  using assms
proof (induction os qs rule: list_induct2)
  case Nil
  show ?case by (rule exI [of _ "[]"]) simp
next
  case (Cons o' os q qs)
  then obtain ps where "list_all2 (\<lambda>q p. find_row p_id locked (p_id q) = Some p \<and> review_refuse_reason p res = None) qs ps" by auto
  moreover obtain p where "find_row p_id locked (p_id q) = Some p" "review_refuse_reason p res = None"
    using Cons.prems by (auto simp: recheck_row_def row_for_def split: option.splits)
  ultimately show ?case by (intro exI [of _ "p # ps"]) simp
qed

text \<open>The locked rows are the rows found for the typed ids, one each.\<close>

lemma locked_rows:
  fixes xs qs :: "payment list"
  assumes "distinct (map p_id xs)" "distinct (map p_id qs)"
    and "list_all2 (\<lambda>q p. find_row p_id (sort_key p_id (filter (\<lambda>p. p_id p \<in> p_id ` set qs) xs)) (p_id q) = Some p \<and> G p) qs ps"
  shows "map p_id ps = map p_id qs" "set ps = set (sort_key p_id (filter (\<lambda>p. p_id p \<in> p_id ` set qs) xs))"
    "length (sort_key p_id (filter (\<lambda>p. p_id p \<in> p_id ` set qs) xs)) = length qs" "list_all G ps"
proof -
  let ?l = "sort_key p_id (filter (\<lambda>p. p_id p \<in> p_id ` set qs) xs)"
  have dl: "distinct (map p_id ?l)" using assms(1) by (simp add: distinct_map_sort_key distinct_map_filter)
  show ids: "map p_id ps = map p_id qs"
    by (rule list_all2_id_map [OF assms(3)]) (auto dest: find_row_Some)
  have sub: "set ps \<subseteq> set ?l" and "list_all G ps"
    using assms(3) by (induction rule: list_all2_induct) (auto dest: find_row_Some)
  then show "list_all G ps" by simp
  show eq: "set ps = set ?l"
  proof
    show "set ?l \<subseteq> set ps"
    proof
      fix p assume p: "p \<in> set ?l"
      then have "p_id p \<in> set (map p_id ps)" unfolding ids by auto
      then obtain p' where "p' \<in> set ps" "p_id p' = p_id p" by auto
      moreover from this sub p dl have "p' = p" by (auto simp: distinct_map inj_on_def)
      ultimately show "p \<in> set ps" by simp
    qed
  qed (rule sub)
  have "distinct ps" using ids assms(2) by (metis distinct_map)
  moreover have "distinct ?l" using dl by (simp add: distinct_map)
  ultimately have "length ?l = length ps" using eq by (metis distinct_card)
  then show "length ?l = length qs" using ids by (metis length_map)
qed

text \<open>The table after a resolution, whatever its outcome.\<close>

lemma resolve_reviews_table:
  assumes "work s = durable s" "distinct (map p_id (payments (others (durable s))))"
    and "resolve_reviews others s order_ids resolution memo actor now = (s', res)"
  shows "\<exists>R. payments (durable s') \<in> {payments (durable s), payments (others (durable s)),
      map (\<lambda>q. if q \<in> R then resolved_review resolution now q else q) (payments (others (durable s)))}"
proof (cases "payments (durable s') \<in> {payments (durable s), payments (others (durable s))}")
  case False
  let ?xs = "payments (others (durable s))"
  obtain ids n a b where l: "payments (durable s') = payments (work (foldl (resolve_one resolution n a b now)
      (rollback_seeing others s) (sort_key p_id (filter (\<lambda>p. p_id p \<in> set ids) ?xs))))"
    using assms(1,3) False by (auto simp: resolve_reviews_def Let_def split: option.splits if_splits)
  let ?locked = "sort_key p_id (filter (\<lambda>p. p_id p \<in> set ids) ?xs)"
  have "distinct (map p_id ?locked)" using assms(2) by (simp add: distinct_map_sort_key distinct_map_filter)
  then have "payments (durable s') = map (\<lambda>q. if q \<in> set ?locked then resolved_review resolution now q else q) ?xs"
    unfolding l using resolve_batch.fold_rows [of "rollback_seeing others s" ?locked] assms(2) by auto
  then show ?thesis by blast
qed blast

text \<open>Row by row, whatever the outcome.\<close>

lemma resolve_reviews_rows:
  assumes "work s = durable s" "distinct (map p_id (payments (others (durable s))))"
    and "resolve_reviews others s order_ids resolution memo actor now = (s', res)"
    and "payments (durable s) = payments (others (durable s))"
  shows "list_all2 (\<lambda>p q. q = p \<or> q = resolved_review resolution now p) (payments (durable s)) (payments (durable s'))"
proof -
  obtain ids where "payments (durable s') = payments (durable s)
      \<or> payments (durable s') = map (\<lambda>q. if q \<in> ids then resolved_review resolution now q else q) (payments (durable s))"
    using resolve_reviews_table [OF assms(1-3)] unfolding assms(4) [symmetric] by blast
  then show ?thesis
  proof
    assume "payments (durable s') = payments (durable s)"
    then show ?thesis by (simp add: list.rel_refl_strong)
  next
    assume rows: "payments (durable s') = map (\<lambda>q. if q \<in> ids then resolved_review resolution now q else q) (payments (durable s))"
    show ?thesis unfolding rows list_all2_map2 by (rule list.rel_refl_strong) simp
  qed
qed

text \<open>
  C22. A bulk resolution is all or nothing. When it reports success, the typed ids named that many
  different payments; each of them was, under its row lock, an unresolved delivery review (never a
  financial one), verified by the gateway when the resolution claims the bot acted; exactly these
  rows get the review columns and nothing else, one audit event each. Otherwise no row changed.
\<close>

theorem resolve_reviews_all_or_nothing:
  assumes "work s = durable s" and "distinct (map p_id (payments (others (durable s))))"
    and "resolve_reviews others s order_ids resolution memo actor now = (s', Some res)"
  shows "if rv_resolved res
         then \<exists>qs ps. list_all2 (\<lambda>o' q. find_payment_by_order_id (durable s) o' = Inr (Some q)) order_ids qs
                \<and> map p_id ps = map p_id qs \<and> distinct (map p_id ps) \<and> set ps \<subseteq> set (payments (others (durable s)))
                \<and> list_all (\<lambda>p. p_status p = MANUAL_REVIEW \<and> p_review_resolved_at p = None
                       \<and> p_bot_notify_reason p \<in> {Some RETRY_LIMIT_REACHED, Some BOT_TIMEOUT_AMBIGUOUS}
                       \<and> (resolution \<notin> {''confirmed_by_bot_operator'', ''duplicate_notification_confirmed_safe''}
                          \<or> p_gateway_verified_at p \<noteq> None)
                       \<and> has_event s' (Some (p_id p)) ''manual_review_resolved'') ps
                \<and> payments (durable s') =
                    map (\<lambda>p. if p \<in> set ps
                             then p\<lparr>p_review_acknowledged_at := or_else (p_review_acknowledged_at p) (Some now),
                                    p_review_resolved_at := Some now, p_review_resolution := Some resolution\<rparr>
                             else p) (payments (others (durable s)))
                \<and> rv_resolved_count res = length order_ids
         else payments (durable s') \<in> {payments (durable s), payments (others (durable s))}"
proof -
  obtain report where rep: "build_report (durable s) order_ids resolution = Some report"
    using assms(1,3) by (auto simp: resolve_reviews_def split: option.splits)
  show ?thesis
  proof (cases "rv_resolved res")
    case False
    then show ?thesis using assms(1,3) rep
      by (auto simp: resolve_reviews_def Let_def split: if_splits)
  next
    case True
    have elig: "report_eligible report" using True assms(1,3) rep by (auto simp: resolve_reviews_def split: if_splits)
    then obtain rows where rows: "report_rows (durable s) resolution order_ids [] [] = Some rows" "rp_rows report = rows"
      "list_all (\<lambda>row. rr_refusal row = None) rows"
      using rep by (auto simp: build_report_def report_eligible_def split: if_splits)
    obtain qs where qs: "length qs = length order_ids" "rows = map2 (row_for resolution) order_ids qs" "distinct (map p_id qs)"
      "list_all2 (\<lambda>o' q. find_payment_by_order_id (durable s) o' = Inr (Some q)) order_ids qs"
      using report_rows_eligible [OF rows(1,3)] by blast
    let ?xs = "payments (others (durable s))"
    let ?locked = "sort_key p_id (filter (\<lambda>p. p_id p \<in> p_id ` set qs) ?xs)"
    let ?s1 = "rollback_seeing others s"
    let ?one = "resolve_one resolution (take REVIEW_NOTE_MAX_LENGTH (strip memo)) (take REVIEW_ACTOR_MAX_LENGTH (strip actor)) (length ?locked) now"
    have run: "list_all (\<lambda>row. rr_refusal row = None) (map (recheck_row resolution ?locked) rows)"
      "payments (durable s') = payments (work (foldl ?one ?s1 ?locked))" "rv_resolved_count res = length ?locked"
      "grows (payment_events (work (foldl ?one ?s1 ?locked))) (payment_events (work s'))"
      using True assms(1,3) rep elig rows(2) map_filter_row_for [OF qs(1) [symmetric], of resolution] qs(2)
      by (auto simp: resolve_reviews_def Let_def report_eligible_def split: if_splits)
    obtain ps where ps0: "list_all2 (\<lambda>q p. find_row p_id ?locked (p_id q) = Some p \<and> review_refuse_reason p resolution = None) qs ps"
      using recheck_eligible [OF qs(1) [symmetric] run(1) [unfolded qs(2)]] by blast
    note ps = locked_rows [OF assms(2) qs(3) ps0]
    have dl: "distinct (map p_id ?locked)" using assms(2) by (simp add: distinct_map_sort_key distinct_map_filter)
    have "payments (work (foldl ?one ?s1 ?locked)) = map (\<lambda>q. if q \<in> set ?locked then resolved_review resolution now q else q) ?xs"
      using resolve_batch.fold_rows [of ?s1 ?locked] assms(2) dl by auto
    then have tab: "payments (durable s') = map (\<lambda>q. if q \<in> set ps then resolved_review resolution now q else q) ?xs"
      unfolding run(2) ps(2) .
    have ev: "has_event s' (Some (p_id p)) ''manual_review_resolved''" if "p \<in> set ps" for p
      using that resolve_batch.fold_events run(4) ps(2) by (blast intro: has_event_grows)
    have "set ps \<subseteq> set ?xs" unfolding ps(2) by auto
    then have "list_all2 (\<lambda>o' q. find_payment_by_order_id (durable s) o' = Inr (Some q)) order_ids qs
                \<and> map p_id ps = map p_id qs \<and> distinct (map p_id ps) \<and> set ps \<subseteq> set ?xs
                \<and> list_all (\<lambda>p. p_status p = MANUAL_REVIEW \<and> p_review_resolved_at p = None
                       \<and> p_bot_notify_reason p \<in> {Some RETRY_LIMIT_REACHED, Some BOT_TIMEOUT_AMBIGUOUS}
                       \<and> (resolution \<notin> {''confirmed_by_bot_operator'', ''duplicate_notification_confirmed_safe''}
                          \<or> p_gateway_verified_at p \<noteq> None)
                       \<and> has_event s' (Some (p_id p)) ''manual_review_resolved'') ps
                \<and> payments (durable s') =
                    map (\<lambda>p. if p \<in> set ps
                             then p\<lparr>p_review_acknowledged_at := or_else (p_review_acknowledged_at p) (Some now),
                                    p_review_resolved_at := Some now, p_review_resolution := Some resolution\<rparr>
                             else p) ?xs
                \<and> rv_resolved_count res = length order_ids"
      using qs(1,3,4) ps(1,3,4) tab ev run(3) unfolding resolved_review_def
      by (auto simp: list_all_iff review_refuse_reason_None)
    then show ?thesis using True by auto
  qed
qed

theorem resolve_reviews_all_or_nothing_witness:
  "\<exists>s' res. resolve_reviews id (delivery_session [failed_delivery 1 ''a'', failed_delivery 2 ''b'']) [''a'', ''b'']
        ''confirmed_by_bot_operator'' ''checked'' ''ops'' 70 = (s', Some res)
     \<and> rv_resolved res \<and> rv_resolved_count res = 2
     \<and> map p_status (payments (durable s')) = [MANUAL_REVIEW, MANUAL_REVIEW]"
proof -
  let ?out = "resolve_reviews id (delivery_session [failed_delivery 1 ''a'', failed_delivery 2 ''b'']) [''a'', ''b'']
        ''confirmed_by_bot_operator'' ''checked'' ''ops'' 70"
  have ok: "map_option rv_resolved (snd ?out) = Some True" by code_simp
  then obtain s' res where out: "?out = (s', Some res)" "rv_resolved res" by (cases ?out) auto
  then show ?thesis
    using resolve_reviews_all_or_nothing [OF _ _ out(1)]
    by (auto simp: failed_delivery_def pending_payment_def demo_payment_def)
qed

end
