(* ===== verification/Attention.thy ===== *)
theory Attention
  imports Payments
begin

text \<open>
  Operator resolution of stale failures that carry no money (\<open>app/services/attention.py\<close>): which
  items are open, the guard, the read-only snapshot, and the resolution under the row lock. The
  refusal texts are left out; the refusal codes they render are kept.
\<close>

section \<open>Open items\<close>

definition UNEXPECTED_STATE_GRACE_SECONDS :: int where
  "UNEXPECTED_STATE_GRACE_SECONDS = 60"

definition ATTENTION_NOTE_MAX_LENGTH :: nat where
  "ATTENTION_NOTE_MAX_LENGTH = 500"

definition ATTENTION_ACTOR_MAX_LENGTH :: nat where
  "ATTENTION_ACTOR_MAX_LENGTH = 128"

definition ATTENTION_RESOLUTIONS :: "(string \<times> payment_status list) list" where
  "ATTENTION_RESOLUTIONS =
     [(''stale_getlink_failure'', [GETLINK_FAILED]), (''stale_incomplete_creation'', [CREATED])]"

definition RESOLVABLE_STATUSES :: "payment_status list" where
  "RESOLVABLE_STATUSES = concat (map snd ATTENTION_RESOLUTIONS)"

definition LINK_FAILURE_EVENT_TYPE :: string where
  "LINK_FAILURE_EVENT_TYPE = ''centralpay_getlink_failed''"

definition ATTENTION_RESOLVED_EVENT_TYPE :: string where
  "ATTENTION_RESOLVED_EVENT_TYPE = ''payment_attention_resolved''"

text \<open>\<open>SELECT max(id)\<close> over the events of one type for one payment.\<close>

definition event_ids :: "db \<Rightarrow> int \<Rightarrow> string \<Rightarrow> int list" where
  "event_ids d pid ty =
     map ev_id (filter (\<lambda>e. ev_payment_id e = Some pid \<and> ev_event_type e = ty) (payment_events d))"

definition latest_event_id :: "db \<Rightarrow> int \<Rightarrow> string \<Rightarrow> int option" where
  "latest_event_id d pid ty = (case event_ids d pid ty of [] \<Rightarrow> None | i # is \<Rightarrow> Some (fold max is i))"

definition unresolved_attention_condition :: "db \<Rightarrow> payment \<Rightarrow> bool" where
  "unresolved_attention_condition d p \<longleftrightarrow>
     (let latest_failure = latest_event_id d (p_id p) LINK_FAILURE_EVENT_TYPE;
          latest_resolution = latest_event_id d (p_id p) ATTENTION_RESOLVED_EVENT_TYPE
      in p_attention_resolved_at p = None
       \<or> (case latest_failure of
            None \<Rightarrow> False
          | Some f \<Rightarrow> (case latest_resolution of None \<Rightarrow> True | Some r \<Rightarrow> f > r)))"

definition resolution_superseded_in_db :: "db \<Rightarrow> payment \<Rightarrow> bool" where
  "resolution_superseded_in_db d p =
     (if p_attention_resolved_at p = None then False
      else case latest_event_id d (p_id p) LINK_FAILURE_EVENT_TYPE of
             None \<Rightarrow> False
           | Some f \<Rightarrow>
               (case latest_event_id d (p_id p) ATTENTION_RESOLVED_EVENT_TYPE of None \<Rightarrow> True | Some r \<Rightarrow> f > r))"

definition resolved_attention_condition :: "payment \<Rightarrow> bool" where
  "resolved_attention_condition p \<longleftrightarrow> p_attention_resolved_at p \<noteq> None"

text \<open>The error code of the latest failure event of each payment; a value that is no string is dropped.\<close>

definition latest_link_failure_codes :: "db \<Rightarrow> int list \<Rightarrow> (int \<times> string option) list" where
  "latest_link_failure_codes d payment_ids =
     List.map_filter
       (\<lambda>e. case ev_payment_id e of
              None \<Rightarrow> None
            | Some pid \<Rightarrow>
                if pid \<in> set payment_ids \<and> latest_event_id d pid LINK_FAILURE_EVENT_TYPE = Some (ev_id e)
                then Some (pid, case jget (ev_data e) ''error_code'' of JStr c \<Rightarrow> Some c | _ \<Rightarrow> None)
                else None)
       (payment_events d)"

definition latest_link_failure_code :: "db \<Rightarrow> int \<Rightarrow> string option" where
  "latest_link_failure_code d pid = coalesce (map_of (latest_link_failure_codes d [pid]) pid) None"

section \<open>The guard\<close>

datatype attention_refusal =
    AT_ALREADY_RESOLVED
  | AT_NOT_YET_STALE
  | AT_EMPTY_NOTE
  | AT_STATUS_NOT_ELIGIBLE
  | AT_RESOLUTION_NOT_VALID_FOR_STATUS
  | AT_GATEWAY_VERIFIED
  | AT_HAS_REFERENCE_ID
  | AT_UNDER_MANUAL_REVIEW
  | AT_BOT_NOTIFICATION_ATTEMPTED
  | AT_PAYMENT_LINK_ISSUED

definition eligible_resolutions_for_status :: "payment_status \<Rightarrow> string list" where
  "eligible_resolutions_for_status st = map fst (filter (\<lambda>(_, sts). st \<in> set sts) ATTENTION_RESOLUTIONS)"

definition attention_refuse_reason :: "payment \<Rightarrow> time \<Rightarrow> string option \<Rightarrow> bool \<Rightarrow> attention_refusal option" where
  "attention_refuse_reason p now resolution superseded =
     (if p_attention_resolved_at p \<noteq> None \<and> \<not> superseded then Some AT_ALREADY_RESOLVED
      else if p_gateway_verified_at p \<noteq> None then Some AT_GATEWAY_VERIFIED
      else if p_reference_id p \<noteq> None then Some AT_HAS_REFERENCE_ID
      else if p_manual_review_at p \<noteq> None then Some AT_UNDER_MANUAL_REVIEW
      else if p_bot_notify_attempts p > 0 then Some AT_BOT_NOTIFICATION_ATTEMPTED
      else if p_redirect_url p \<noteq> None then Some AT_PAYMENT_LINK_ISSUED
      else if p_status p \<notin> set RESOLVABLE_STATUSES then Some AT_STATUS_NOT_ELIGIBLE
      else if p_created_at p > now - of_int UNEXPECTED_STATE_GRACE_SECONDS then Some AT_NOT_YET_STALE
      else case resolution of
             None \<Rightarrow> None
           | Some r \<Rightarrow> if p_status p \<notin> set (coalesce (map_of ATTENTION_RESOLUTIONS r) [])
                       then Some AT_RESOLUTION_NOT_VALID_FOR_STATUS else None)"

record attention_snapshot =
  as_bot_order_id :: string
  as_gateway_order_id :: int
  as_status :: payment_status
  as_amount :: int
  as_fee_rate_bps :: int
  as_fee_amount :: int
  as_payable_amount :: int
  as_gateway_verified :: bool
  as_gateway_verified_at :: "time option"
  as_reference_id :: "string option"
  as_redirect_url_present :: bool
  as_callback_token_issued :: bool
  as_bot_notify_attempts :: int
  as_manual_review_at :: "time option"
  as_last_error_code :: "string option"
  as_created_at :: time
  as_attention_resolved_at :: "time option"
  as_attention_resolution :: "string option"
  as_attention_resolved_by :: "string option"
  as_attention_resolution_note :: "string option"
  as_refusal :: "attention_refusal option"
  as_eligible_resolutions :: "string list"
  as_superseded :: bool

definition attention_snapshot_of :: "payment \<Rightarrow> time \<Rightarrow> bool \<Rightarrow> string option \<Rightarrow> attention_snapshot" where
  "attention_snapshot_of p now superseded link_failure_code =
     \<lparr>as_bot_order_id = p_bot_order_id p, as_gateway_order_id = p_gateway_order_id p, as_status = p_status p,
      as_amount = p_amount p, as_fee_rate_bps = p_fee_rate_bps p, as_fee_amount = p_fee_amount p,
      as_payable_amount = p_payable_amount p, as_gateway_verified = (p_gateway_verified_at p \<noteq> None),
      as_gateway_verified_at = p_gateway_verified_at p, as_reference_id = p_reference_id p,
      as_redirect_url_present = (p_redirect_url p \<noteq> None),
      as_callback_token_issued = (p_callback_token_hash p \<noteq> None),
      as_bot_notify_attempts = p_bot_notify_attempts p, as_manual_review_at = p_manual_review_at p,
      as_last_error_code = str_or (str_or link_failure_code (p_bot_last_error_code p)) (p_reconciliation_last_error_code p),
      as_created_at = p_created_at p, as_attention_resolved_at = p_attention_resolved_at p,
      as_attention_resolution = p_attention_resolution p, as_attention_resolved_by = p_attention_resolved_by p,
      as_attention_resolution_note = p_attention_resolution_note p,
      as_refusal = attention_refuse_reason p now None superseded,
      as_eligible_resolutions = eligible_resolutions_for_status (p_status p), as_superseded = superseded\<rparr>"

section \<open>Resolving\<close>

record attention_outcome =
  ao_resolved :: bool
  ao_bot_order_id :: string
  ao_status :: string
  ao_resolution :: "string option"
  ao_refusal :: "attention_refusal option"
  ao_existing_resolution :: "string option"
  ao_existing_resolved_at :: "time option"
  ao_existing_resolved_by :: "string option"

definition attention_state :: "payment \<Rightarrow> string \<Rightarrow> string \<Rightarrow> string \<Rightarrow> time \<Rightarrow> payment" where
  "attention_state p resolution safe_actor safe_note now =
     p\<lparr>p_attention_resolved_at := Some now, p_attention_resolution := Some resolution,
       p_attention_resolved_by := Some safe_actor, p_attention_resolution_note := Some safe_note\<rparr>"

text \<open>The result is \<open>None\<close> when \<open>scalar_one\<close> finds no row and raises.\<close>

definition resolve_attention ::
  "session \<Rightarrow> int \<Rightarrow> string \<Rightarrow> string \<Rightarrow> string \<Rightarrow> time \<Rightarrow> session \<times> attention_outcome option" where
  "resolve_attention s payment_id resolution memo actor now =
     (if strip memo = [] \<or> strip actor = [] then
        (s, Some \<lparr>ao_resolved = False, ao_bot_order_id = [], ao_status = [], ao_resolution = None,
                  ao_refusal = Some AT_EMPTY_NOTE, ao_existing_resolution = None, ao_existing_resolved_at = None,
                  ao_existing_resolved_by = None\<rparr>)
      else case payment_by_id (work s) payment_id of
             None \<Rightarrow> (s, None)
           | Some p \<Rightarrow>
               (let superseded = resolution_superseded_in_db (work s) p
                in case attention_refuse_reason p now (Some resolution) superseded of
                     Some refusal \<Rightarrow>
                       (rollback s,
                        Some \<lparr>ao_resolved = False, ao_bot_order_id = p_bot_order_id p, ao_status = status_value (p_status p),
                              ao_resolution = None, ao_refusal = Some refusal,
                              ao_existing_resolution = p_attention_resolution p,
                              ao_existing_resolved_at = p_attention_resolved_at p,
                              ao_existing_resolved_by = p_attention_resolved_by p\<rparr>)
                   | None \<Rightarrow>
                       (let safe_actor = take ATTENTION_ACTOR_MAX_LENGTH (strip actor);
                            safe_note = take ATTENTION_NOTE_MAX_LENGTH (strip memo)
                        in (commit (record_event (put_payment s (attention_state p resolution safe_actor safe_note now))
                              (Some (p_id p)) ATTENTION_RESOLVED_EVENT_TYPE ''warning''
                              [(''resolution'', JStr resolution), (''note'', JStr safe_note), (''operator'', JStr safe_actor),
                               (''status'', JStr (status_value (p_status p))), (''gateway_verified'', JBool False),
                               (''gateway_order_id'', JInt (p_gateway_order_id p)),
                               (''superseded_previous_resolution'', JBool superseded),
                               (''previous_resolution'', if superseded then jopt_str (p_attention_resolution p) else JNull)]),
                            Some \<lparr>ao_resolved = True, ao_bot_order_id = p_bot_order_id p,
                                  ao_status = status_value (p_status p), ao_resolution = Some resolution,
                                  ao_refusal = None, ao_existing_resolution = None, ao_existing_resolved_at = None,
                                  ao_existing_resolved_by = None\<rparr>))))"

section \<open>The event trail\<close>

text \<open>What recording an event adds to the ids of one type: the new event, nothing for the alert's own.\<close>

lemma event_ids_insert:
  "event_ids (work (insert_event s pid ty lv d)) i t =
     event_ids (work s) i t @ (if pid = Some i \<and> ty = t then [sq_event (seq s) + 1] else [])"
  by (simp add: event_ids_def insert_event_def Let_def)

lemma event_ids_create_alert:
  assumes "t \<noteq> ''admin_alert_created''"
  shows "event_ids (work (fst (create_alert s ty sev pid k pl m now))) i t = event_ids (work s) i t"
proof -
  have "event_ids (work (s\<lparr>seq := q, work := (work s)\<lparr>admin_alerts := a\<rparr>\<rparr>)) i t = event_ids (work s) i t" for q a
    by (simp add: event_ids_def)
  then show ?thesis using assms by (simp add: create_alert_def create_alert_with_def Let_def event_ids_insert)
qed

definition alerted :: "session \<Rightarrow> session \<Rightarrow> bool" where
  "alerted s t \<longleftrightarrow> t = s \<or> (\<exists>ty sev pid k pl m now. t = fst (create_alert s ty sev pid k pl m now))"

lemma alerted_intros: "alerted s s" "alerted s (fst (create_alert s ty sev pid k pl m now))"
  unfolding alerted_def by blast+

lemma alerted_map_event: "alerted s (map_event s pol ty pid d)"
  by (simp add: map_event_def Let_def alerted_intros)

lemma event_ids_record:
  assumes "t \<noteq> ''admin_alert_created''"
  shows "event_ids (work (record_event s pid ty lv d)) i t =
     event_ids (work s) i t @ (if pid = Some i \<and> ty = t then [sq_event (seq s) + 1] else [])"
proof -
  have "event_ids (work (on_audit_event t' ty pid d)) i t = event_ids (work t') i t" for t'
    using alerted_map_event [of t' _ ty pid d] event_ids_create_alert [OF assms]
    by (cases "alert_policy t'") (auto simp: on_audit_event_def alerted_def, metis)
  then show ?thesis by (simp add: record_event_def event_ids_insert)
qed

lemma event_ids_put [simp]: "event_ids (work (put_payment s p)) i t = event_ids (work s) i t"
  by (simp add: event_ids_def)

lemma latest_event_id_Max:
  "latest_event_id d i t = (if event_ids d i t = [] then None else Some (Max (set (event_ids d i t))))"
  by (cases "event_ids d i t") (simp_all add: latest_event_id_def Max.set_eq_fold [symmetric])

text \<open>Event ids are drawn in order: no event carries an id above the sequence.\<close>

definition trail_ok :: "session \<Rightarrow> bool" where
  "trail_ok s \<longleftrightarrow> list_all (\<lambda>e. ev_id e \<le> sq_event (seq s)) (payment_events (work s))"

lemma trail_ok_ids: "trail_ok s \<Longrightarrow> e \<in> set (event_ids (work s) i t) \<Longrightarrow> e \<le> sq_event (seq s)"
  by (auto simp: trail_ok_def event_ids_def list_all_iff)

lemma latest_after_record:
  assumes "trail_ok s" "t \<noteq> ''admin_alert_created''"
  shows "latest_event_id (work (record_event s (Some i) t lv d)) i t = Some (sq_event (seq s) + 1)"
proof -
  have "Max (insert (sq_event (seq s) + 1) (set (event_ids (work s) i t))) = sq_event (seq s) + 1"
    using trail_ok_ids [OF assms(1), of _ i t] by (intro Max_eqI) fastforce+
  then show ?thesis using assms(2) by (simp add: latest_event_id_Max event_ids_record)
qed

lemma latest_other_type:
  "t \<noteq> ty \<Longrightarrow> t \<noteq> ''admin_alert_created'' \<Longrightarrow>
     latest_event_id (work (record_event s pid ty lv d)) i t = latest_event_id (work s) i t"
  by (simp add: latest_event_id_Max event_ids_record)

lemma latest_le: "trail_ok s \<Longrightarrow> latest_event_id (work s) i t = Some m \<Longrightarrow> m \<le> sq_event (seq s)"
  using trail_ok_ids [of s _ i t] by (auto simp: latest_event_id_Max split: if_splits)

lemma open_iff_superseded:
  "unresolved_attention_condition d p \<longleftrightarrow> p_attention_resolved_at p = None \<or> resolution_superseded_in_db d p"
  by (auto simp: unresolved_attention_condition_def resolution_superseded_in_db_def Let_def)

lemma attention_refuse_reason_None:
  "attention_refuse_reason p now (Some r) sp = None \<longleftrightarrow>
     (p_attention_resolved_at p = None \<or> sp) \<and> p_gateway_verified_at p = None \<and> p_reference_id p = None
   \<and> p_manual_review_at p = None \<and> p_bot_notify_attempts p \<le> 0 \<and> p_redirect_url p = None
   \<and> p_created_at p \<le> now - 60
   \<and> (r, p_status p) \<in> {(''stale_getlink_failure'', GETLINK_FAILED), (''stale_incomplete_creation'', CREATED)}"
  by (auto simp: attention_refuse_reason_def RESOLVABLE_STATUSES_def ATTENTION_RESOLUTIONS_def UNEXPECTED_STATE_GRACE_SECONDS_def)

lemma resolve_attention_rows:
  assumes "work s = durable s" "payments (durable (fst (resolve_attention s i r memo actor now))) \<noteq> payments (durable s)"
  shows "\<exists>p. payment_by_id (durable s) i = Some p \<and> r \<noteq> [] \<and> strip memo \<noteq> [] \<and> strip actor \<noteq> []
      \<and> payments (durable (fst (resolve_attention s i r memo actor now))) = put_row p_id (attention_state p r
          (take ATTENTION_ACTOR_MAX_LENGTH (strip actor)) (take ATTENTION_NOTE_MAX_LENGTH (strip memo)) now) (payments (durable s))"
proof (cases "payment_by_id (durable s) i")
  case None
  then show ?thesis using assms by (simp add: resolve_attention_def split: if_splits)
next
  case (Some p)
  show ?thesis
  proof (cases "attention_refuse_reason p now (Some r) (resolution_superseded_in_db (durable s) p)")
    case None
    then have "r \<noteq> []" unfolding attention_refuse_reason_None by auto
    then show ?thesis using assms Some None by (auto simp: resolve_attention_def Let_def split: if_splits)
  next
    case refused: (Some x)
    then show ?thesis using assms Some by (simp add: resolve_attention_def Let_def split: if_splits)
  qed
qed

section \<open>Resolution and reopening\<close>

text \<open>
  An operator's resolution is recorded exactly when note and actor are not blank, the item is
  open, and the payment is inert: not verified, no reference, never under review, no delivery
  attempted, no link issued, past the grace period, and in the status the resolution is for. Then
  it writes the four attention columns of that row (with a non-empty actor and note), closes the
  item, and changes nothing else; otherwise nothing is changed.
\<close>

theorem resolve_attention_guarded:
  assumes "work s = durable s" and "payment_by_id (durable s) i = Some p" and "trail_ok s"
  shows "case resolve_attention s i r memo actor now of
           (s', None) \<Rightarrow> False
         | (s', Some out) \<Rightarrow>
             (ao_resolved out \<longleftrightarrow>
                strip memo \<noteq> [] \<and> strip actor \<noteq> [] \<and> unresolved_attention_condition (durable s) p
              \<and> p_gateway_verified_at p = None \<and> p_reference_id p = None \<and> p_manual_review_at p = None
              \<and> p_bot_notify_attempts p \<le> 0 \<and> p_redirect_url p = None \<and> p_created_at p \<le> now - 60
              \<and> (r, p_status p) \<in> {(''stale_getlink_failure'', GETLINK_FAILED), (''stale_incomplete_creation'', CREATED)})
           \<and> (if ao_resolved out
              then \<exists>by nt q. by \<noteq> [] \<and> nt \<noteq> []
                     \<and> q = p\<lparr>p_attention_resolved_at := Some now, p_attention_resolution := Some r,
                            p_attention_resolved_by := Some by, p_attention_resolution_note := Some nt\<rparr>
                     \<and> payments (durable s') = put_row p_id q (payments (durable s))
                     \<and> \<not> unresolved_attention_condition (durable s') q
              else durable s' = durable s)"
proof -
  let ?sup = "resolution_superseded_in_db (durable s) p"
  let ?g = "attention_refuse_reason p now (Some r) ?sup"
  have p: "payment_by_id (work s) i = Some p" using assms(1,2) by simp
  consider (blank) "strip memo = [] \<or> strip actor = []" | (refused) x where "strip memo \<noteq> []" "strip actor \<noteq> []" "?g = Some x"
    | (resolved) "strip memo \<noteq> []" "strip actor \<noteq> []" "?g = None"
    by (cases ?g) auto
  then show ?thesis
  proof cases
    case blank
    then show ?thesis by (auto simp: resolve_attention_def)
  next
    case refused
    then have "\<not> ?g = None" by simp
    then show ?thesis
      using refused p assms(1) unfolding attention_refuse_reason_None
      by (simp add: resolve_attention_def open_iff_superseded)
  next
    case resolved
    define a n where "a = take ATTENTION_ACTOR_MAX_LENGTH (strip actor)" "n = take ATTENTION_NOTE_MAX_LENGTH (strip memo)"
    let ?q = "attention_state p r a n now"
    let ?s = "put_payment s ?q"
    have ne: "a \<noteq> []" "n \<noteq> []"
      using resolved by (simp_all add: a_n_def ATTENTION_ACTOR_MAX_LENGTH_def ATTENTION_NOTE_MAX_LENGTH_def)
    have ok: "trail_ok ?s" using assms(3) by (simp add: trail_ok_def)
    have ev: "''payment_attention_resolved'' \<noteq> ''admin_alert_created''" "''centralpay_getlink_failed'' \<noteq> ''admin_alert_created''"
      "''centralpay_getlink_failed'' \<noteq> ''payment_attention_resolved''" by simp_all
    have closed: "\<not> unresolved_attention_condition (work (record_event ?s (Some (p_id p)) ATTENTION_RESOLVED_EVENT_TYPE lv d)) ?q" for lv d
    proof -
      let ?d = "work (record_event ?s (Some (p_id p)) ATTENTION_RESOLVED_EVENT_TYPE lv d)"
      have "latest_event_id ?d (p_id p) ATTENTION_RESOLVED_EVENT_TYPE = Some (sq_event (seq s) + 1)"
        using latest_after_record [OF ok ev(1)] by (simp add: ATTENTION_RESOLVED_EVENT_TYPE_def)
      moreover have "latest_event_id ?d (p_id p) LINK_FAILURE_EVENT_TYPE \<in> {None} \<union> Some ` {..sq_event (seq s)}"
        using latest_le [OF ok, of "p_id p" "''centralpay_getlink_failed''"] latest_other_type [OF ev(3,2)]
        by (cases "latest_event_id (work ?s) (p_id p) ''centralpay_getlink_failed''")
           (simp_all add: ATTENTION_RESOLVED_EVENT_TYPE_def LINK_FAILURE_EVENT_TYPE_def)
      ultimately show ?thesis
        by (auto simp: unresolved_attention_condition_def Let_def attention_state_def)
    qed
    show ?thesis
      using resolved p assms(1) ne closed [of "''warning''"] resolved(3) [unfolded attention_refuse_reason_None]
      by (simp add: resolve_attention_def Let_def open_iff_superseded a_n_def [symmetric])
         (metis attention_state_def)
  qed
qed

definition stale_failure :: payment where
  "stale_failure = (demo_payment 1 ''a'')\<lparr>p_status := GETLINK_FAILED\<rparr>"

theorem resolve_attention_guarded_witness:
  "case resolve_attention (delivery_session [stale_failure]) 1 ''stale_getlink_failure'' '' gone '' ''ops'' 100 of
     (s', None) \<Rightarrow> False
   | (s', Some out) \<Rightarrow> ao_resolved out
       \<and> (\<exists>q. payments (durable s') = [q] \<and> p_status q = GETLINK_FAILED \<and> \<not> unresolved_attention_condition (durable s') q)"
proof -
  have st: "strip '' gone '' \<noteq> []" "strip ''ops'' \<noteq> []" by (code_simp, code_simp)
  have ok: "trail_ok (delivery_session [stale_failure])" "payment_by_id (durable (delivery_session [stale_failure])) 1 = Some stale_failure"
    by (simp_all add: trail_ok_def empty_db_def payment_by_id_def find_row_def stale_failure_def demo_payment_def)
  have row: "p_gateway_verified_at stale_failure = None" "p_reference_id stale_failure = None" "p_manual_review_at stale_failure = None"
    "p_bot_notify_attempts stale_failure = 0" "p_redirect_url stale_failure = None" "p_created_at stale_failure = 0"
    "p_status stale_failure = GETLINK_FAILED" "p_attention_resolved_at stale_failure = None"
    by (simp_all add: stale_failure_def demo_payment_def)
  obtain s' o' where out: "resolve_attention (delivery_session [stale_failure]) 1 ''stale_getlink_failure'' '' gone '' ''ops'' 100 = (s', o')"
    by fastforce
  show ?thesis
    using resolve_attention_guarded [OF _ ok(2,1), where r = "''stale_getlink_failure''" and memo = "'' gone ''" and actor = "''ops''" and now = 100] st row
    by (cases o') (auto simp: out open_iff_superseded put_row_def)
qed

text \<open>
  A link request that fails at the gateway (re)opens the attention item of its payment, even when
  an operator had resolved an earlier failure: the worklist shows it again and the guard no longer
  counts it as resolved.
\<close>

theorem failed_link_reopens:
  assumes "request_link C cl http ok cfg env s p = (s', Inl (CentralPayError exc))"
    and "payment_by_id (work s) (p_id p) \<noteq> None" and "trail_ok s"
  shows "\<exists>q. payment_by_id (durable s') (p_id p) = Some q \<and> p_status q = GETLINK_FAILED
           \<and> unresolved_attention_condition (durable s') q
           \<and> attention_refuse_reason q now (Some r) (resolution_superseded_in_db (durable s') q) \<noteq> Some AT_ALREADY_RESOLVED"
proof -
  obtain q d where q: "p_id q = p_id p" "p_status q = GETLINK_FAILED"
    "s' = commit (record_event (put_payment s q) (Some (p_id p)) ''centralpay_getlink_failed'' ''error'' d)"
  proof (cases "if p_status p = GETLINK_FAILED then generate_gateway_order_id (work s) (ce_random_again env)
            else Inr (p_gateway_order_id p)")
    case (Inl e)
    then show ?thesis using assms(1)
      by (auto simp: request_link_def generate_gateway_order_id_def split: if_splits option.splits)
  next
    case (Inr goid)
    then show ?thesis using assms(1)
      by (cases "get_link cl http ok (p_payable_amount p) (p_gateway_user_id p) goid (build_callback_url C cfg goid (ce_token env))")
         (auto simp: request_link_def Let_def intro!: that
             [of "p\<lparr>p_gateway_order_id := goid, p_callback_token_hash := Some (callback_token_hash C (ce_token env)),
                  p_status := GETLINK_FAILED, p_last_error := Some (take ERROR_MAX_LENGTH (cp_message exc))\<rparr>"])
  qed
  have ok: "trail_ok (put_payment s q)" using assms(3) by (simp add: trail_ok_def)
  have "latest_event_id (durable s') (p_id q) ''centralpay_getlink_failed'' = Some (sq_event (seq s) + 1)"
    unfolding q(1,3) using latest_after_record [OF ok, of "''centralpay_getlink_failed''"] by simp
  moreover have "latest_event_id (durable s') (p_id q) ''payment_attention_resolved'' \<in> {None} \<union> Some ` {..sq_event (seq s)}"
    unfolding q(1,3) using latest_le [OF ok, of "p_id p" "''payment_attention_resolved''"]
    by (cases "latest_event_id (work (put_payment s q)) (p_id p) ''payment_attention_resolved''") (simp_all add: latest_other_type)
  ultimately have "unresolved_attention_condition (durable s') q"
    by (auto simp: unresolved_attention_condition_def Let_def LINK_FAILURE_EVENT_TYPE_def ATTENTION_RESOLVED_EVENT_TYPE_def)
  moreover from this have "attention_refuse_reason q now (Some r) (resolution_superseded_in_db (durable s') q) \<noteq> Some AT_ALREADY_RESOLVED"
    by (auto simp: open_iff_superseded attention_refuse_reason_def split: option.split)
  moreover have "payment_by_id (durable s') (p_id p) = Some q"
    using q assms(2) by (simp add: payment_by_id_def find_row_put_row)
  ultimately show ?thesis using q(2) by blast
qed

theorem failed_link_reopens_witness:
  "\<exists>s' exc q. request_link demo_separating demo_client (\<lambda>_ _. HttpError ''x'') (\<lambda>_. False) demo_settings quiet_env
        (delivery_session [demo_payment 1 ''a'']) (demo_payment 1 ''a'') = (s', Inl (CentralPayError exc))
     \<and> payment_by_id (durable s') 1 = Some q \<and> p_status q = GETLINK_FAILED \<and> unresolved_attention_condition (durable s') q"
proof -
  obtain s' exc where r: "request_link demo_separating demo_client (\<lambda>_ _. HttpError ''x'') (\<lambda>_. False) demo_settings quiet_env
        (delivery_session [demo_payment 1 ''a'']) (demo_payment 1 ''a'') = (s', Inl (CentralPayError exc))"
    by (simp add: request_link_def get_link_def post_json_def Let_def demo_payment_def)
  have id: "p_id (demo_payment 1 ''a'') = 1" by (simp add: demo_payment_def)
  show ?thesis
    using failed_link_reopens [OF r, where now = 0 and r = "[]"] r
    by (auto simp: payment_by_id_def find_row_def trail_ok_def empty_db_def id)
qed

end
