(* ===== verification/Queries.thy ===== *)
theory Queries
  imports Bulk_Resend Review_Resolution
begin

text \<open>
  The read-only queries behind the admin bot, the command line and the monitor
  (\<open>app/adminbot/queries.py\<close>). Each takes the committed database; \<open>now\<close> is the clock reading it
  uses. None of them changes anything, which their types say.
\<close>

section \<open>Aggregates\<close>

text \<open>\<open>COUNT\<close>, \<open>MIN\<close> and \<open>MAX\<close> over a selection; the last two skip NULL and give NULL for no value.\<close>

definition count_where :: "('a \<Rightarrow> bool) \<Rightarrow> 'a list \<Rightarrow> nat" where
  "count_where P xs = length (filter P xs)"

definition present :: "'a option list \<Rightarrow> 'a list" where
  "present xs = List.map_filter id xs"

definition sql_min :: "'a::linorder option list \<Rightarrow> 'a option" where
  "sql_min xs = (case present xs of [] \<Rightarrow> None | y # ys \<Rightarrow> Some (foldl min y ys))"

definition sql_max :: "'a::linorder option list \<Rightarrow> 'a option" where
  "sql_max xs = (case present xs of [] \<Rightarrow> None | y # ys \<Rightarrow> Some (foldl max y ys))"

text \<open>\<open>GROUP BY f\<close> with a count per group.\<close>

definition group_counts :: "('a \<Rightarrow> 'k) \<Rightarrow> 'a list \<Rightarrow> ('k \<times> nat) list" where
  "group_counts f xs = map (\<lambda>k. (k, count_where (\<lambda>x. f x = k) xs)) (remdups (map f xs))"

section \<open>Conditions and counts\<close>

definition count_by_status :: "db \<Rightarrow> payment_status \<Rightarrow> nat" where
  "count_by_status d st = count_where (\<lambda>p. p_status p = st) (payments d)"

definition open_manual_review_conditions :: "payment \<Rightarrow> bool" where
  "open_manual_review_conditions p \<longleftrightarrow> p_status p = MANUAL_REVIEW \<and> p_review_resolved_at p = None"

definition manual_review_history_conditions :: "payment \<Rightarrow> bool" where
  "manual_review_history_conditions p \<longleftrightarrow> p_manual_review_at p \<noteq> None \<or> p_review_resolved_at p \<noteq> None"

definition count_open_manual_reviews :: "db \<Rightarrow> nat" where
  "count_open_manual_reviews d = count_where open_manual_review_conditions (payments d)"

definition oldest_open_manual_review_age_seconds :: "db \<Rightarrow> time \<Rightarrow> time option" where
  "oldest_open_manual_review_age_seconds d now =
     map_option (\<lambda>t. now - t) (sql_min (map p_manual_review_at (filter open_manual_review_conditions (payments d))))"

definition open_manual_review_reason_buckets :: "db \<Rightarrow> (string \<times> nat) list" where
  "open_manual_review_reason_buckets d =
     map (\<lambda>(r, n). (case r of None \<Rightarrow> ''financial_or_verification'' | Some c \<Rightarrow> reason_value c, n))
       (group_counts p_bot_notify_reason (filter open_manual_review_conditions (payments d)))"

definition NOTIFICATION_ENTRY_EVENT_TYPES :: "string list" where
  "NOTIFICATION_ENTRY_EVENT_TYPES =
     [''bot_notification_queued'', ''manual_review_resend_requested'', ''admin_bulk_resend_requested'']"

definition entry_event :: "payment \<Rightarrow> payment_event \<Rightarrow> bool" where
  "entry_event p e \<longleftrightarrow> ev_payment_id e = Some (p_id p) \<and> ev_event_type e \<in> set NOTIFICATION_ENTRY_EVENT_TYPES"

definition notification_age_anchor :: "db \<Rightarrow> payment \<Rightarrow> time" where
  "notification_age_anchor d p =
     coalesce (or_else (sql_max (map (\<lambda>e. Some (ev_created_at e)) (filter (entry_event p) (payment_events d))))
                 (p_gateway_verified_at p))
       (p_created_at p)"

definition oldest_pending_notification_age_seconds :: "db \<Rightarrow> time \<Rightarrow> time option" where
  "oldest_pending_notification_age_seconds d now =
     map_option (\<lambda>t. now - t)
       (sql_min (map (\<lambda>p. Some (notification_age_anchor d p)) (filter (\<lambda>p. p_status p = BOT_NOTIFY_PENDING) (payments d))))"

definition event_count_since :: "db \<Rightarrow> time \<Rightarrow> string \<Rightarrow> int \<Rightarrow> nat" where
  "event_count_since d now event_type hours =
     count_where (\<lambda>e. ev_event_type e = event_type \<and> ev_created_at e \<ge> now - of_int (3600 * hours)) (payment_events d)"

definition stale_bot_notify_pending_conditions :: "db \<Rightarrow> time \<Rightarrow> payment \<Rightarrow> bool" where
  "stale_bot_notify_pending_conditions d pending_cutoff p \<longleftrightarrow>
     p_status p = BOT_NOTIFY_PENDING \<and> notification_age_anchor d p \<le> pending_cutoff"

definition bot_delivery_manual_review_conditions :: "payment \<Rightarrow> bool" where
  "bot_delivery_manual_review_conditions p \<longleftrightarrow> open_manual_review_conditions p \<and> p_bot_notify_reason p \<noteq> None"

definition non_delivery_manual_review_conditions :: "payment \<Rightarrow> bool" where
  "non_delivery_manual_review_conditions p \<longleftrightarrow> open_manual_review_conditions p \<and> p_bot_notify_reason p = None"

definition count_non_delivery_manual_reviews :: "db \<Rightarrow> nat" where
  "count_non_delivery_manual_reviews d = count_where non_delivery_manual_review_conditions (payments d)"

section \<open>Listings\<close>

text \<open>A descending order is the ascending order of the negated value.\<close>

definition recent_payments :: "db \<Rightarrow> nat \<Rightarrow> payment list" where
  "recent_payments d limit = first_n_by (\<lambda>p. - p_created_at p) limit (payments d)"

definition manual_review_payments :: "db \<Rightarrow> nat \<Rightarrow> payment list" where
  "manual_review_payments d limit =
     first_n_by (\<lambda>p. nulls_first (p_manual_review_at p)) limit (filter open_manual_review_conditions (payments d))"

definition resolved_review_payments :: "db \<Rightarrow> nat \<Rightarrow> payment list" where
  "resolved_review_payments d limit =
     first_n_by (\<lambda>p. - coalesce (p_review_resolved_at p) 0) limit (filter (\<lambda>p. p_review_resolved_at p \<noteq> None) (payments d))"

record stuck_entry =
  se_payment :: payment
  se_category :: string

record attention_overview =
  ov_total :: nat
  ov_entries :: "stuck_entry list"

definition reason_or :: "reason_code option \<Rightarrow> string \<Rightarrow> string" where
  "reason_or r s = (case r of None \<Rightarrow> s | Some c \<Rightarrow> reason_value c)"

text \<open>The label of a pending row: a claim older than the timeout comes before the last reason.\<close>

definition pending_entry :: "time \<Rightarrow> payment \<Rightarrow> stuck_entry" where
  "pending_entry claim_cutoff p =
     \<lparr>se_payment = p,
      se_category =
        (case p_notification_claimed_at p of
           Some t \<Rightarrow> if t \<le> claim_cutoff then ''stale_notification_claim''
                     else reason_or (p_bot_notify_reason p) ''bot_notify_pending_old''
         | None \<Rightarrow> reason_or (p_bot_notify_reason p) ''bot_notify_pending_old'')\<rparr>"

definition review_entry :: "payment \<Rightarrow> stuck_entry" where
  "review_entry p =
     \<lparr>se_payment = p,
      se_category = ''manual_review:'' @
        reason_or (p_bot_notify_reason p) (coalesce (str_or (p_last_error p) (Some ''manual_review'')) [])\<rparr>"

definition delivery_review_entry :: "payment \<Rightarrow> stuck_entry" where
  "delivery_review_entry p =
     \<lparr>se_payment = p, se_category = ''manual_review:'' @ reason_or (p_bot_notify_reason p) ''None''\<rparr>"

text \<open>
  The one statement of the two snapshots: reviews before stale pending rows, each group by its own
  time, ties by id, with the total of the rows that match counted before \<open>LIMIT\<close>. With no row there
  is none to read the total from, and it is 0.
\<close>

definition snapshot_order :: "(payment \<Rightarrow> bool) \<Rightarrow> db \<Rightarrow> payment \<Rightarrow> nat \<times> (nat \<times> time) \<times> int" where
  "snapshot_order is_review d p =
     (if is_review p then 0 else 1,
      if is_review p then nulls_first (p_manual_review_at p) else nulls_first (Some (notification_age_anchor d p)),
      p_id p)"

definition attention_rows :: "(payment \<Rightarrow> bool) \<Rightarrow> db \<Rightarrow> time \<Rightarrow> payment list" where
  "attention_rows is_review d pending_cutoff =
     filter (\<lambda>p. is_review p \<or> stale_bot_notify_pending_conditions d pending_cutoff p) (payments d)"

definition attention_overview_of ::
  "(payment \<Rightarrow> bool) \<Rightarrow> (payment \<Rightarrow> stuck_entry) \<Rightarrow> db \<Rightarrow> time \<Rightarrow> int \<Rightarrow> rat \<Rightarrow> nat \<Rightarrow> attention_overview" where
  "attention_overview_of is_review entry d now pending_age_minutes claim_timeout_seconds limit =
     (let matching = attention_rows is_review d (now - of_int (60 * pending_age_minutes));
          rows = first_n_by (snapshot_order is_review d) limit matching
      in \<lparr>ov_total = (if rows = [] then 0 else length matching),
          ov_entries = map (\<lambda>p. if is_review p then entry p else pending_entry (now - claim_timeout_seconds) p) rows\<rparr>)"

definition bot_delivery_snapshot :: "db \<Rightarrow> time \<Rightarrow> int \<Rightarrow> rat \<Rightarrow> nat \<Rightarrow> attention_overview" where
  "bot_delivery_snapshot = attention_overview_of bot_delivery_manual_review_conditions delivery_review_entry"

definition open_attention_snapshot :: "db \<Rightarrow> time \<Rightarrow> int \<Rightarrow> rat \<Rightarrow> nat \<Rightarrow> attention_overview" where
  "open_attention_snapshot = attention_overview_of open_manual_review_conditions review_entry"

definition stuck_payments :: "db \<Rightarrow> time \<Rightarrow> int \<Rightarrow> rat \<Rightarrow> nat \<Rightarrow> stuck_entry list" where
  "stuck_payments d now pending_age_minutes claim_timeout_seconds limit =
     take limit
       (map review_entry (manual_review_payments d limit)
        @ map (pending_entry (now - claim_timeout_seconds))
            (first_n_by (notification_age_anchor d) limit
               (filter (stale_bot_notify_pending_conditions d (now - of_int (60 * pending_age_minutes))) (payments d))))"

record retry_queue =
  rq_due :: "payment list"
  rq_scheduled :: "payment list"
  rq_claimed :: "payment list"
  rq_retry_limit :: "payment list"

definition queue_due :: "time \<Rightarrow> payment \<Rightarrow> bool" where
  "queue_due now p \<longleftrightarrow> (case p_next_retry_at p of None \<Rightarrow> True | Some t \<Rightarrow> t \<le> now)"

text \<open>\<open>ORDER BY manual_review_at DESC\<close> puts NULL first.\<close>

definition retry_queue_snapshot :: "db \<Rightarrow> time \<Rightarrow> nat \<Rightarrow> retry_queue" where
  "retry_queue_snapshot d now limit =
     (let pending = first_n_by (\<lambda>p. nulls_first (p_next_retry_at p)) limit
                      (filter (\<lambda>p. p_status p = BOT_NOTIFY_PENDING) (payments d));
          unclaimed = filter (\<lambda>p. p_notification_claimed_at p = None) pending
      in \<lparr>rq_due = filter (queue_due now) unclaimed,
          rq_scheduled = filter (\<lambda>p. \<not> queue_due now p) unclaimed,
          rq_claimed = filter (\<lambda>p. p_notification_claimed_at p \<noteq> None) pending,
          rq_retry_limit =
            first_n_by (\<lambda>p. nulls_first (map_option uminus (p_manual_review_at p))) 10
              (filter (\<lambda>p. open_manual_review_conditions p \<and> p_bot_notify_reason p = Some RETRY_LIMIT_REACHED) (payments d))\<rparr>)"

definition find_payment :: "db \<Rightarrow> string \<Rightarrow> lookup_error + payment option" where
  "find_payment d identifier =
     (case find_payment_by_order_id d identifier of
        Inr None \<Rightarrow>
          (case take 2 (filter (\<lambda>p. p_reference_id p = Some identifier) (payments d)) of
             [p] \<Rightarrow> Inr (Some p)
           | _ \<Rightarrow> Inr None)
      | r \<Rightarrow> r)"

definition payment_events_of :: "db \<Rightarrow> int \<Rightarrow> nat \<Rightarrow> payment_event list" where
  "payment_events_of d i limit =
     first_n_by (\<lambda>e. - ev_id e) limit (filter (\<lambda>e. ev_payment_id e = Some i) (payment_events d))"

definition ERROR_EVENT_TYPES :: "string list" where
  "ERROR_EVENT_TYPES =
     [''centralpay_getlink_failed'', ''centralpay_verify_failed'', ''verify_payable_amount_mismatch'',
      ''verify_user_id_mismatch'', ''verify_missing_reference_id'', ''verify_invalid_reference_id'',
      ''bot_notification_failed'', ''bot_timeout_ambiguous'', ''notification_recovered_after_restart'',
      ''backup_failed'', ''reconciliation_exhausted'']"

definition errors_summary :: "db \<Rightarrow> time \<Rightarrow> int \<Rightarrow> (string \<times> nat) list" where
  "errors_summary d now hours =
     (let cutoff = now - of_int (3600 * hours);
          summary = group_counts ev_event_type
            (filter (\<lambda>e. ev_created_at e \<ge> cutoff \<and> ev_event_type e \<in> set ERROR_EVENT_TYPES) (payment_events d));
          signature_alerts = count_where (\<lambda>a. al_alert_type a = ''callback_signature_failures'' \<and> al_created_at a \<ge> cutoff) (admin_alerts d)
      in if signature_alerts = 0 then summary else summary @ [(''callback_signature_failures'', signature_alerts)])"

definition latest_backup_alert :: "db \<Rightarrow> string \<Rightarrow> admin_alert option" where
  "latest_backup_alert d alert_type =
     first_by (\<lambda>a. - al_created_at a) (filter (\<lambda>a. al_alert_type a = alert_type) (admin_alerts d))"

definition alert_queue_stats :: "db \<Rightarrow> (alert_status \<times> nat) list" where
  "alert_queue_stats d = group_counts al_status (admin_alerts d)"

text \<open>The daily report; the backup status is one of three fixed labels.\<close>

datatype backup_label = Backup_Unknown | Backup_Succeeded | Backup_Failed

record daily_report =
  dr_report_date :: string
  dr_backup_status :: backup_label
  dr_links_created :: nat
  dr_gateway_verified :: nat
  dr_bot_accepted :: nat
  dr_total_verified_toman :: int
  dr_total_original_invoices_toman :: int
  dr_total_fees_toman :: int
  dr_total_collected_via_gateway_toman :: int
  dr_manual_review :: nat
  dr_pending_retry :: nat
  dr_getlink_failures :: nat
  dr_verify_failures :: nat
  dr_bot_delivery_failures :: nat

definition backup_status :: "admin_alert option \<Rightarrow> admin_alert option \<Rightarrow> backup_label" where
  "backup_status ok failed =
     (case (ok, failed) of
        (None, None) \<Rightarrow> Backup_Unknown
      | (None, Some _) \<Rightarrow> Backup_Failed
      | (Some _, None) \<Rightarrow> Backup_Succeeded
      | (Some a, Some b) \<Rightarrow> if al_created_at a \<ge> al_created_at b then Backup_Succeeded else Backup_Failed)"

definition verified_since :: "time \<Rightarrow> payment \<Rightarrow> bool" where
  "verified_since cutoff p \<longleftrightarrow> (case p_gateway_verified_at p of None \<Rightarrow> False | Some t \<Rightarrow> t \<ge> cutoff)"

definition daily_report_payload :: "db \<Rightarrow> time \<Rightarrow> string \<Rightarrow> int \<Rightarrow> daily_report" where
  "daily_report_payload d now report_date hours =
     (let verified = filter (verified_since (now - of_int (3600 * hours))) (payments d);
          events = (\<lambda>ty. event_count_since d now ty hours)
      in \<lparr>dr_report_date = report_date,
          dr_backup_status = backup_status (latest_backup_alert d ''backup_succeeded'') (latest_backup_alert d ''backup_failed''),
          dr_links_created = events ''payment_link_created'',
          dr_gateway_verified = events ''gateway_payment_verified'',
          dr_bot_accepted = events ''bot_notification_accepted'',
          dr_total_verified_toman = sum_list (map p_amount verified),
          dr_total_original_invoices_toman = sum_list (map p_amount verified),
          dr_total_fees_toman = sum_list (map p_fee_amount verified),
          dr_total_collected_via_gateway_toman = sum_list (map p_payable_amount verified),
          dr_manual_review = count_open_manual_reviews d,
          dr_pending_retry = count_by_status d BOT_NOTIFY_PENDING,
          dr_getlink_failures = events ''centralpay_getlink_failed'',
          dr_verify_failures = events ''centralpay_verify_failed'',
          dr_bot_delivery_failures = events ''bot_notification_failed''\<rparr>)"

section \<open>Aggregates, proved\<close>

lemma foldl_max_ge: "z \<in> set (y # ys) \<Longrightarrow> z \<le> foldl max y ys" for z :: "'a::linorder"
proof (induction ys arbitrary: y z)
  case (Cons x xs)
  have "max y x \<le> foldl max (max y x) xs" by (rule Cons.IH) simp
  moreover have "z \<le> foldl max (max y x) xs" if "z \<in> set xs" using that by (intro Cons.IH) simp
  ultimately show ?case using Cons.prems by auto
qed simp

lemma sql_max_ge: "Some z \<in> set xs \<Longrightarrow> \<exists>m. sql_max xs = Some m \<and> z \<le> m"
proof -
  assume "Some z \<in> set xs"
  then have "z \<in> set (present xs)" by (force simp: present_def List.map_filter_def)
  then show ?thesis using foldl_max_ge [of z] by (cases "present xs") (auto simp: sql_max_def)
qed

lemma count_where_split:
  "count_where P xs = count_where (\<lambda>x. P x \<and> Q x) xs + count_where (\<lambda>x. P x \<and> \<not> Q x) xs"
  unfolding count_where_def by (induction xs) auto

lemma sum_count_remdups:
  "set xs \<subseteq> S \<Longrightarrow> finite S \<Longrightarrow> (\<Sum>k\<in>S. count_where (\<lambda>x. x = k) xs) = length xs"
proof (induction xs)
  case (Cons y ys)
  have "(\<Sum>k\<in>S. count_where (\<lambda>x. x = k) (y # ys)) = (\<Sum>k\<in>S. (if k = y then 1 else 0) + count_where (\<lambda>x. x = k) ys)"
    by (intro sum.cong) (auto simp: count_where_def)
  then show ?case using Cons by (simp add: sum.distrib)
qed (simp add: count_where_def)

lemma group_counts_total: "sum_list (map snd (group_counts f xs)) = length xs"
proof -
  have "count_where (\<lambda>x. f x = k) xs = count_where (\<lambda>x. x = k) (map f xs)" for k
    by (simp add: count_where_def filter_map comp_def)
  then have "sum_list (map snd (group_counts f xs)) = (\<Sum>k \<in> set (map f xs). count_where (\<lambda>x. x = k) (map f xs))"
    by (simp add: group_counts_def comp_def sum_list_distinct_conv_sum_set)
  also have "\<dots> = length xs" using sum_count_remdups [of "map f xs" "set (map f xs)"] by simp
  finally show ?thesis .
qed

section \<open>One statement or two lists\<close>

text \<open>Sorting rows that come in the order of \<open>g\<close> with \<open>g\<close> as the last key is the stable sort.\<close>

lemma insort_tie:
  "\<forall>y \<in> set ys. g x \<le> g y \<Longrightarrow> insort_key (\<lambda>z. (f z, g z)) x ys = insort_key f x ys" for f :: "'a \<Rightarrow> 'b::linorder" and g :: "'a \<Rightarrow> 'c::linorder"
  by (induction ys) (auto simp: less_eq_prod_def)

lemma sort_tie:
  "sorted (map g xs) \<Longrightarrow> sort_key (\<lambda>z. (f z, g z)) xs = sort_key f xs" for f :: "'a \<Rightarrow> 'b::linorder" and g :: "'a \<Rightarrow> 'c::linorder"
  by (induction xs) (simp_all add: insort_tie)

text \<open>A leading key of two values sorts the two groups one after the other.\<close>

lemma insort_group:
  fixes h :: "'a \<Rightarrow> 'b::linorder"
  assumes "\<forall>y \<in> set as. P y" "\<forall>y \<in> set bs. \<not> P y"
  shows "insort_key (\<lambda>z. (if P z then 0 else 1 :: nat, h z)) x (as @ bs) =
    (if P x then insort_key h x as @ bs else as @ insort_key h x bs)"
  using assms
proof (induction as)
  case Nil
  then show ?case by (induction bs) (auto simp: less_eq_prod_def)
qed (auto simp: less_eq_prod_def)

lemma sort_groups:
  "sort_key (\<lambda>z. (if P z then 0 else 1 :: nat, h z)) xs = sort_key h (filter P xs) @ sort_key h (filter (\<lambda>z. \<not> P z) xs)"
  for h :: "'a \<Rightarrow> 'b::linorder"
proof (induction xs)
  case (Cons x xs)
  have "sort_key (\<lambda>z. (if P z then 0 else 1 :: nat, h z)) (x # xs) =
      insort_key (\<lambda>z. (if P z then 0 else 1 :: nat, h z)) x (sort_key h (filter P xs) @ sort_key h (filter (\<lambda>z. \<not> P z) xs))"
    using Cons by simp
  also have "\<dots> = (if P x then insort_key h x (sort_key h (filter P xs)) @ sort_key h (filter (\<lambda>z. \<not> P z) xs)
      else sort_key h (filter P xs) @ insort_key h x (sort_key h (filter (\<lambda>z. \<not> P z) xs)))"
    by (rule insort_group) auto
  finally show ?case by simp
qed simp

lemma insort_cong: "(\<And>y. y \<in> set ys \<Longrightarrow> (f x \<le> f y) = (g x \<le> g y)) \<Longrightarrow> insort_key f x ys = insort_key g x ys"
  for f :: "'a \<Rightarrow> 'b::linorder" and g :: "'a \<Rightarrow> 'c::linorder"
  by (induction ys) auto

lemma sort_cong: "(\<And>x y. x \<in> set xs \<Longrightarrow> y \<in> set xs \<Longrightarrow> (f x \<le> f y) = (g x \<le> g y)) \<Longrightarrow> sort_key f xs = sort_key g xs"
  for f :: "'a \<Rightarrow> 'b::linorder" and g :: "'a \<Rightarrow> 'c::linorder"
proof (induction xs)
  case (Cons x xs)
  then have "sort_key f xs = sort_key g xs" by simp
  then show ?case using Cons.prems by (auto intro!: insort_cong)
qed simp

lemma sorted_filter_map: "sorted (map f xs) \<Longrightarrow> sorted (map f (filter P xs))"
  by (rule sorted_filter)

lemma attention_rows_sorted:
  assumes "sorted (map p_id (payments d))" "\<And>p. is_review p \<Longrightarrow> p_status p = MANUAL_REVIEW"
  shows "sort_key (snapshot_order is_review d) (attention_rows is_review d cutoff)
       = sort_key (\<lambda>p. nulls_first (p_manual_review_at p)) (filter is_review (payments d))
         @ sort_key (notification_age_anchor d) (filter (stale_bot_notify_pending_conditions d cutoff) (payments d))"
proof -
  let ?ts = "\<lambda>p. if is_review p then nulls_first (p_manual_review_at p) else nulls_first (Some (notification_age_anchor d p))"
  let ?rows = "attention_rows is_review d cutoff"
  have reviews: "filter is_review ?rows = filter is_review (payments d)"
    by (auto simp: attention_rows_def intro: filter_cong)
  have pending: "filter (\<lambda>p. \<not> is_review p) ?rows = filter (stale_bot_notify_pending_conditions d cutoff) (payments d)"
    using assms(2) by (auto simp: attention_rows_def stale_bot_notify_pending_conditions_def intro!: filter_cong)
  have ids: "sorted (map p_id (filter P (payments d)))" for P using assms(1) by (rule sorted_filter_map)
  have "sort_key (snapshot_order is_review d) ?rows
      = sort_key (\<lambda>p. (?ts p, p_id p)) (filter is_review (payments d))
        @ sort_key (\<lambda>p. (?ts p, p_id p)) (filter (stale_bot_notify_pending_conditions d cutoff) (payments d))"
    unfolding snapshot_order_def [abs_def] sort_groups reviews pending ..
  also have "\<dots> = sort_key ?ts (filter is_review (payments d))
        @ sort_key ?ts (filter (stale_bot_notify_pending_conditions d cutoff) (payments d))"
    by (simp add: sort_tie ids)
  also have "sort_key ?ts (filter is_review (payments d)) = sort_key (\<lambda>p. nulls_first (p_manual_review_at p)) (filter is_review (payments d))"
    by (rule sort_cong) auto
  also have "sort_key ?ts (filter (stale_bot_notify_pending_conditions d cutoff) (payments d))
      = sort_key (notification_age_anchor d) (filter (stale_bot_notify_pending_conditions d cutoff) (payments d))"
    using assms(2)
    by (intro sort_cong) (auto simp: stale_bot_notify_pending_conditions_def nulls_first_def less_eq_prod_def)
  finally show ?thesis .
qed

lemma attention_total:
  "0 < limit \<Longrightarrow> ov_total (attention_overview_of is_review entry d now mins timeout limit)
     = length (attention_rows is_review d (now - of_int (60 * mins)))"
  by (simp add: attention_overview_of_def Let_def first_n_by_empty)

lemma take_two_lists: "take n (take n as @ take n bs) = take n (as @ bs)"
  by (simp add: min_def)

text \<open>
  The single statement behind \<open>centralpay stuck\<close> lists exactly the rows, categories and order
  that the two queries of \<open>stuck_payments\<close> produce at the same clock reading, for every limit; its
  total counts every row that needs attention, and it is a total of at least the rows shown.
\<close>

theorem open_attention_matches_stuck:
  assumes "sorted (map p_id (payments d))"
  shows "ov_entries (open_attention_snapshot d now mins timeout limit) = stuck_payments d now mins timeout limit
       \<and> (0 < limit \<longrightarrow> ov_total (open_attention_snapshot d now mins timeout limit)
            = count_open_manual_reviews d
              + count_where (stale_bot_notify_pending_conditions d (now - of_int (60 * mins))) (payments d))"
proof -
  let ?cut = "now - of_int (60 * mins)" and ?is = open_manual_review_conditions
  let ?A = "sort_key (\<lambda>p. nulls_first (p_manual_review_at p)) (filter ?is (payments d))"
  let ?B = "sort_key (notification_age_anchor d) (filter (stale_bot_notify_pending_conditions d ?cut) (payments d))"
  let ?entry = "\<lambda>p. if ?is p then review_entry p else pending_entry (now - timeout) p"
  have rows: "sort_key (snapshot_order ?is d) (attention_rows ?is d ?cut) = ?A @ ?B"
    by (rule attention_rows_sorted [OF assms]) (simp add: open_manual_review_conditions_def)
  have entries: "map ?entry ?A = map review_entry ?A" "map ?entry ?B = map (pending_entry (now - timeout)) ?B"
    by (auto simp: stale_bot_notify_pending_conditions_def open_manual_review_conditions_def)
  have "ov_entries (open_attention_snapshot d now mins timeout limit) = take limit (map ?entry (?A @ ?B))"
    by (simp only: open_attention_snapshot_def attention_overview_of_def Let_def first_n_by_def rows attention_overview.select_convs take_map)
  also have "\<dots> = stuck_payments d now mins timeout limit"
    unfolding map_append entries stuck_payments_def manual_review_payments_def first_n_by_def take_map [symmetric] take_two_lists ..
  finally have "ov_entries (open_attention_snapshot d now mins timeout limit) = stuck_payments d now mins timeout limit" .
  moreover have "length (attention_rows ?is d ?cut) = length (?A @ ?B)"
    by (metis length_sort rows)
  then have "ov_total (open_attention_snapshot d now mins timeout limit)
      = count_open_manual_reviews d + count_where (stale_bot_notify_pending_conditions d ?cut) (payments d)" if "0 < limit"
    using attention_total [OF that] by (simp add: open_attention_snapshot_def count_open_manual_reviews_def count_where_def)
  ultimately show ?thesis by blast
qed

text \<open>A review of a refused amount and a delivery that has waited a day, for the concrete runs.\<close>

definition attention_demo :: db where
  "attention_demo = empty_db\<lparr>payments :=
     [(demo_payment 1 ''a'')\<lparr>p_status := BOT_NOTIFY_PENDING, p_gateway_verified_at := Some 100\<rparr>,
      (demo_payment 2 ''b'')\<lparr>p_status := MANUAL_REVIEW, p_manual_review_at := Some 5000, p_last_error := Some ''amount''\<rparr>]\<rparr>"

theorem open_attention_matches_stuck_witness:
  "map se_category (stuck_payments attention_demo 90000 30 120 30) = [''manual_review:amount'', ''bot_notify_pending_old'']
 \<and> ov_entries (open_attention_snapshot attention_demo 90000 30 120 30) = stuck_payments attention_demo 90000 30 120 30"
proof -
  have "map se_category (stuck_payments attention_demo 90000 30 120 30) = [''manual_review:amount'', ''bot_notify_pending_old'']"
    by code_simp
  moreover have "sorted (map p_id (payments attention_demo))" by (simp add: attention_demo_def demo_payment_def)
  ultimately show ?thesis using open_attention_matches_stuck by blast
qed

text \<open>
  Nothing needs attention twice and nothing is dropped: the delivery problems of \<open>/stuck\<close> and the
  reviews that are no delivery problem add up to the attention total, and the reason buckets add
  up to the open reviews.
\<close>

theorem attention_partition:
  "(0 < limit \<longrightarrow>
      ov_total (bot_delivery_snapshot d now mins timeout limit) + count_non_delivery_manual_reviews d
      = ov_total (open_attention_snapshot d now mins timeout limit))
 \<and> sum_list (map snd (open_manual_review_reason_buckets d)) = count_open_manual_reviews d"
proof -
  let ?stale = "stale_bot_notify_pending_conditions d (now - of_int (60 * mins))"
  have split: "length (filter (\<lambda>p. P p \<or> Q p) xs) + length (filter R xs) = length (filter (\<lambda>p. S p \<or> Q p) xs)"
    if "\<And>p. S p = (P p \<or> R p)" "\<And>p. P p \<Longrightarrow> \<not> R p" "\<And>p. R p \<Longrightarrow> \<not> Q p" for P Q R S :: "payment \<Rightarrow> bool" and xs
    by (induction xs) (auto simp: that(1) dest: that(2,3))
  have "length (attention_rows bot_delivery_manual_review_conditions d (now - of_int (60 * mins))) + count_non_delivery_manual_reviews d
      = length (attention_rows open_manual_review_conditions d (now - of_int (60 * mins)))"
    unfolding attention_rows_def count_non_delivery_manual_reviews_def count_where_def
    by (rule split) (auto simp: bot_delivery_manual_review_conditions_def non_delivery_manual_review_conditions_def
        open_manual_review_conditions_def stale_bot_notify_pending_conditions_def)
  moreover have "map snd (open_manual_review_reason_buckets d)
      = map snd (group_counts p_bot_notify_reason (filter open_manual_review_conditions (payments d)))"
    by (simp add: open_manual_review_reason_buckets_def split_beta)
  ultimately show ?thesis
    using attention_total [of limit _ _ d now mins timeout] group_counts_total [of p_bot_notify_reason "filter open_manual_review_conditions (payments d)"]
    by (simp add: bot_delivery_snapshot_def open_attention_snapshot_def count_open_manual_reviews_def count_where_def)
qed

theorem attention_partition_witness:
  "ov_total (bot_delivery_snapshot attention_demo 90000 30 120 5) = 1 \<and> count_non_delivery_manual_reviews attention_demo = 1
 \<and> ov_total (bot_delivery_snapshot attention_demo 90000 30 120 5) + count_non_delivery_manual_reviews attention_demo
   = ov_total (open_attention_snapshot attention_demo 90000 30 120 5)"
proof -
  have "ov_total (bot_delivery_snapshot attention_demo 90000 30 120 5) = 1" "count_non_delivery_manual_reviews attention_demo = 1"
    by code_simp+
  then show ?thesis using attention_partition [of 5 attention_demo 90000 30 120] by simp
qed

section \<open>The age of a delivery starts with its last entry\<close>

lemma record_event_stamp:
  "\<exists>e \<in> set (payment_events (work (record_event s pid ty lv d))).
     ev_payment_id e = pid \<and> ev_event_type e = ty \<and> ev_created_at e = clock s"
proof -
  have "quiet (insert_event s pid ty lv d) (record_event s pid ty lv d)"
    by (auto simp: record_event_def on_audit_event_def quiet_map_event split: option.split)
  then have "grows (payment_events (work (insert_event s pid ty lv d))) (payment_events (work (record_event s pid ty lv d)))"
    by (simp add: quiet_def)
  moreover have "\<exists>e \<in> set (payment_events (work (insert_event s pid ty lv d))).
     ev_payment_id e = pid \<and> ev_event_type e = ty \<and> ev_created_at e = clock s"
    by (simp add: insert_event_def Let_def)
  ultimately show ?thesis by (meson grows_mem)
qed

lemma anchor_after_entry:
  assumes "ty \<in> set NOTIFICATION_ENTRY_EVENT_TYPES" "p_id q = i"
  shows "clock s \<le> notification_age_anchor (work (record_event s (Some i) ty lv d)) q"
proof -
  let ?d = "work (record_event s (Some i) ty lv d)"
  obtain e where "e \<in> set (payment_events ?d)" "entry_event q e" "ev_created_at e = clock s"
    using record_event_stamp [of s "Some i" ty lv d] assms by (auto simp: entry_event_def)
  then have "Some (clock s) \<in> set (map (\<lambda>e. Some (ev_created_at e)) (filter (entry_event q) (payment_events ?d)))"
    by (auto intro!: image_eqI [of _ _ e])
  from sql_max_ge [OF this] show ?thesis by (auto simp: notification_age_anchor_def or_else_def)
qed

text \<open>
  A payment that has just been queued or requeued for delivery is not reported as overdue,
  however long ago the gateway verified it: its age counts from the entry, which the same
  transaction recorded.
\<close>

theorem queued_payment_is_fresh:
  assumes "cutoff < clock s"
  shows "\<not> stale_bot_notify_pending_conditions (work (fst (queue_notification s p now))) cutoff (snd (queue_notification s p now))
       \<and> \<not> stale_bot_notify_pending_conditions (work (requeue_one tg now s p)) cutoff (requeued_state now p)"
proof -
  have "clock s \<le> notification_age_anchor (work (fst (queue_notification s p now))) (snd (queue_notification s p now))"
    unfolding queue_notification_def Let_def fst_conv snd_conv
    using anchor_after_entry [of "''bot_notification_queued''" "p\<lparr>p_status := BOT_NOTIFY_PENDING, p_bot_notify_reason := None, p_next_retry_at := Some now\<rparr>"
        "p_id p" "put_payment s (p\<lparr>p_status := BOT_NOTIFY_PENDING, p_bot_notify_reason := None, p_next_retry_at := Some now\<rparr>)"]
    by (simp add: NOTIFICATION_ENTRY_EVENT_TYPES_def)
  moreover have "clock s \<le> notification_age_anchor (work (requeue_one tg now s p)) (requeued_state now p)"
    unfolding requeue_one_def
    using anchor_after_entry [of "''admin_bulk_resend_requested''" "requeued_state now p" "p_id p" "put_payment s (requeued_state now p)"]
    by (simp add: NOTIFICATION_ENTRY_EVENT_TYPES_def)
  ultimately show ?thesis using assms by (auto simp: stale_bot_notify_pending_conditions_def)
qed

theorem queued_payment_is_fresh_witness:
  "\<not> stale_bot_notify_pending_conditions
       (work (requeue_one None 90000 (new_session attention_demo 90000) (hd (payments attention_demo)))) 88200
       (requeued_state 90000 (hd (payments attention_demo)))
 \<and> stale_bot_notify_pending_conditions attention_demo 88200 (hd (payments attention_demo))"
proof -
  have "stale_bot_notify_pending_conditions attention_demo 88200 (hd (payments attention_demo))" by code_simp
  moreover have "88200 < clock (new_session attention_demo 90000)" by (simp add: new_session_def)
  ultimately show ?thesis using queued_payment_is_fresh by blast
qed

end
