(* ===== verification/Stuck.thy ===== *)
theory Stuck
  imports Queries Attention Reconciliation
begin

text \<open>
  The categories of payments an operator should look at (\<open>app/services/stuck_payments.py\<close>): needs
  attention, waiting for the gateway, expired. Shown: the categories are disjoint, together they
  hold every open link exactly once, and the totals of the command line and of the admin bot agree.
\<close>

section \<open>Conditions\<close>

definition QUERY_CAP :: nat where
  "QUERY_CAP = 200"

definition UNEXPECTED_STATUSES :: "payment_status list" where
  "UNEXPECTED_STATUSES = [CREATED, GETLINK_FAILED, GATEWAY_VERIFIED]"

definition unexpected_status_conditions :: "db \<Rightarrow> time \<Rightarrow> payment \<Rightarrow> bool" where
  "unexpected_status_conditions d now p \<longleftrightarrow>
     p_status p \<in> set UNEXPECTED_STATUSES
   \<and> p_created_at p \<le> now - of_int UNEXPECTED_STATE_GRACE_SECONDS
   \<and> unresolved_attention_condition d p"

definition waiting_conditions :: "settings \<Rightarrow> time \<Rightarrow> payment \<Rightarrow> bool" where
  "waiting_conditions cfg now p \<longleftrightarrow>
     p_status p = LINK_CREATED \<and> p_gateway_verified_at p = None \<and> \<not> aged_out_age_condition cfg now p
   \<and> (p_reconciliation_next_at p \<noteq> None \<or> p_reconciliation_attempts p < reconciliation_max_attempts cfg)"

definition expired_conditions :: "settings \<Rightarrow> time \<Rightarrow> payment \<Rightarrow> bool" where
  "expired_conditions = aged_out_conditions"

section \<open>Entries\<close>

datatype stuck_category = NEEDS_ATTENTION | WAITING_GATEWAY | EXPIRED

record overview_entry =
  oe_payment :: payment
  oe_category :: stuck_category
  oe_reason :: string
  oe_gateway_state :: "string option"

definition gateway_state :: "payment \<Rightarrow> string" where
  "gateway_state p =
     (if p_reconciliation_last_error_code p = Some ''gateway_not_paid'' then ''not_paid''
      else if p_reconciliation_attempts p = 0 then ''pending''
      else coalesce (str_or (p_reconciliation_last_error_code p) (Some ''pending'')) [])"

definition waiting_entry :: "payment \<Rightarrow> overview_entry" where
  "waiting_entry p =
     \<lparr>oe_payment = p, oe_category = WAITING_GATEWAY, oe_reason = ''link_created'', oe_gateway_state = Some (gateway_state p)\<rparr>"

definition expired_entry :: "payment \<Rightarrow> overview_entry" where
  "expired_entry p =
     \<lparr>oe_payment = p, oe_category = EXPIRED, oe_reason = ''reconciliation_max_age_exceeded'',
      oe_gateway_state = Some (gateway_state p)\<rparr>"

definition exhausted_entry :: "payment \<Rightarrow> overview_entry" where
  "exhausted_entry p =
     \<lparr>oe_payment = p, oe_category = NEEDS_ATTENTION,
      oe_reason = ''reconciliation_exhausted:'' @ coalesce (str_or (p_reconciliation_last_error_code p) (Some ''unknown'')) [],
      oe_gateway_state = Some (gateway_state p)\<rparr>"

definition unexpected_entry :: "payment \<Rightarrow> overview_entry" where
  "unexpected_entry p =
     \<lparr>oe_payment = p, oe_category = NEEDS_ATTENTION, oe_reason = ''unexpected_status:'' @ status_value (p_status p),
      oe_gateway_state = None\<rparr>"

section \<open>Counts and snapshots\<close>

definition count_waiting :: "db \<Rightarrow> settings \<Rightarrow> time \<Rightarrow> nat" where
  "count_waiting d cfg now = count_where (waiting_conditions cfg now) (payments d)"

definition count_expired :: "db \<Rightarrow> settings \<Rightarrow> time \<Rightarrow> nat" where
  "count_expired d cfg now = count_where (expired_conditions cfg now) (payments d)"

definition count_other_attention :: "db \<Rightarrow> settings \<Rightarrow> time \<Rightarrow> nat" where
  "count_other_attention d cfg now =
     count_where (\<lambda>p. reconciliation_exhausted_conditions cfg now p \<or> unexpected_status_conditions d now p
                    \<or> non_delivery_manual_review_conditions p) (payments d)"

text \<open>Rows and their total from one statement.\<close>

definition rows_with_exact_total :: "(payment \<Rightarrow> bool) \<Rightarrow> (payment \<Rightarrow> 'k::linorder) \<Rightarrow> nat \<Rightarrow> db \<Rightarrow> payment list \<times> nat" where
  "rows_with_exact_total conditions order limit d =
     (let matching = filter conditions (payments d); rows = first_n_by order limit matching
      in (rows, if rows = [] then 0 else length matching))"

definition waiting_snapshot :: "db \<Rightarrow> settings \<Rightarrow> time \<Rightarrow> nat \<Rightarrow> overview_entry list \<times> nat" where
  "waiting_snapshot d cfg now limit =
     map_prod (map waiting_entry) id
       (rows_with_exact_total (waiting_conditions cfg now) (\<lambda>p. (link_age_anchor p, p_id p)) limit d)"

definition expired_snapshot :: "db \<Rightarrow> settings \<Rightarrow> time \<Rightarrow> nat \<Rightarrow> overview_entry list \<times> nat" where
  "expired_snapshot d cfg now limit =
     map_prod (map expired_entry) id
       (rows_with_exact_total (expired_conditions cfg now) (\<lambda>p. (- link_age_anchor p, - p_id p)) limit d)"

record stuck_overview =
  so_needs_attention :: "overview_entry list"
  so_waiting_gateway :: "overview_entry list"
  so_expired :: "overview_entry list"
  so_total_needs_attention :: nat
  so_total_waiting_gateway :: nat
  so_total_expired :: nat

definition so_ordered :: "stuck_overview \<Rightarrow> overview_entry list" where
  "so_ordered ov = so_needs_attention ov @ so_waiting_gateway ov @ so_expired ov"

definition reused_needs_attention :: "db \<Rightarrow> settings \<Rightarrow> time \<Rightarrow> overview_entry list \<times> nat" where
  "reused_needs_attention d cfg now =
     (let snap = open_attention_snapshot d now 30 (bot_notify_claim_timeout_seconds cfg) QUERY_CAP
      in (map (\<lambda>e. \<lparr>oe_payment = se_payment e, oe_category = NEEDS_ATTENTION, oe_reason = se_category e,
                    oe_gateway_state = None\<rparr>) (ov_entries snap),
          ov_total snap))"

definition stuck_payments_overview :: "db \<Rightarrow> settings \<Rightarrow> time \<Rightarrow> stuck_overview" where
  "stuck_payments_overview d cfg now =
     (let (reused, reused_total) = reused_needs_attention d cfg now;
          (exhausted, exhausted_total) = rows_with_exact_total (reconciliation_exhausted_conditions cfg now) link_age_anchor QUERY_CAP d;
          (waiting, waiting_total) = rows_with_exact_total (waiting_conditions cfg now) link_age_anchor QUERY_CAP d;
          (expired, expired_total) = rows_with_exact_total (expired_conditions cfg now) link_age_anchor QUERY_CAP d;
          (unexpected, unexpected_total) = rows_with_exact_total (unexpected_status_conditions d now) p_created_at QUERY_CAP d
      in \<lparr>so_needs_attention = reused @ map exhausted_entry exhausted @ map unexpected_entry unexpected,
          so_waiting_gateway = map waiting_entry waiting,
          so_expired = map expired_entry expired,
          so_total_needs_attention = reused_total + exhausted_total + unexpected_total,
          so_total_waiting_gateway = waiting_total,
          so_total_expired = expired_total\<rparr>)"

section \<open>The categories\<close>

lemma rows_total: "0 < limit \<Longrightarrow> snd (rows_with_exact_total conditions order limit d) = count_where conditions (payments d)"
  by (simp add: rows_with_exact_total_def Let_def first_n_by_empty count_where_def)

lemma rows_total_cap: "snd (rows_with_exact_total conditions order QUERY_CAP d) = count_where conditions (payments d)"
  by (rule rows_total) (simp add: QUERY_CAP_def)

text \<open>Counting a disjoint union.\<close>

lemma count_where_disj:
  "(\<And>x. x \<in> set xs \<Longrightarrow> \<not> (P x \<and> Q x)) \<Longrightarrow> count_where (\<lambda>x. P x \<or> Q x) xs = count_where P xs + count_where Q xs"
  unfolding count_where_def by (induction xs) auto

lemma count_where_cong: "(\<And>x. x \<in> set xs \<Longrightarrow> P x = Q x) \<Longrightarrow> count_where P xs = count_where Q xs"
  unfolding count_where_def by (simp cong: filter_cong)

lemmas category_defs = reconciliation_exhausted_conditions_def unexpected_status_conditions_def non_delivery_manual_review_conditions_def
  bot_delivery_manual_review_conditions_def open_manual_review_conditions_def stale_bot_notify_pending_conditions_def
  UNEXPECTED_STATUSES_def waiting_conditions_def expired_conditions_def aged_out_conditions_def

lemma overview_totals:
  "so_total_needs_attention (stuck_payments_overview d cfg now) =
     count_open_manual_reviews d
   + count_where (stale_bot_notify_pending_conditions d (now - 1800)) (payments d)
   + count_where (reconciliation_exhausted_conditions cfg now) (payments d)
   + count_where (unexpected_status_conditions d now) (payments d)"
  "so_total_waiting_gateway (stuck_payments_overview d cfg now) = count_waiting d cfg now"
  "so_total_expired (stuck_payments_overview d cfg now) = count_expired d cfg now"
proof -
  have "length (attention_rows open_manual_review_conditions d (now - of_int (60 * 30)))
      = count_open_manual_reviews d + count_where (stale_bot_notify_pending_conditions d (now - of_int (60 * 30))) (payments d)"
    unfolding attention_rows_def count_where_def [symmetric] count_open_manual_reviews_def
    by (subst count_where_disj) (auto simp: category_defs)
  then have "snd (reused_needs_attention d cfg now)
      = count_open_manual_reviews d + count_where (stale_bot_notify_pending_conditions d (now - 1800)) (payments d)"
    using attention_total [of QUERY_CAP open_manual_review_conditions review_entry d now 30]
    by (simp add: reused_needs_attention_def Let_def open_attention_snapshot_def QUERY_CAP_def)
  then show "so_total_needs_attention (stuck_payments_overview d cfg now) =
     count_open_manual_reviews d
   + count_where (stale_bot_notify_pending_conditions d (now - 1800)) (payments d)
   + count_where (reconciliation_exhausted_conditions cfg now) (payments d)
   + count_where (unexpected_status_conditions d now) (payments d)"
    "so_total_waiting_gateway (stuck_payments_overview d cfg now) = count_waiting d cfg now"
    "so_total_expired (stuck_payments_overview d cfg now) = count_expired d cfg now"
    by (simp_all add: stuck_payments_overview_def Let_def split_beta rows_total_cap count_waiting_def count_expired_def)
qed

text \<open>
  The admin bot and the command line agree on how much needs attention: at any clock reading the
  delivery total of \<open>/stuck\<close> plus \<open>count_other_attention\<close> is the attention total of
  \<open>centralpay stuck\<close>; and every payment whose link is open (link created, not verified) is in exactly one
  of waiting, expired and exhausted, so the three counts add up to the open links.
\<close>

theorem stuck_totals_agree:
  "(0 < limit \<longrightarrow>
      ov_total (bot_delivery_snapshot d now 30 timeout limit) + count_other_attention d cfg now
      = so_total_needs_attention (stuck_payments_overview d cfg now))
 \<and> so_total_waiting_gateway (stuck_payments_overview d cfg now) + so_total_expired (stuck_payments_overview d cfg now)
     + count_where (reconciliation_exhausted_conditions cfg now) (payments d)
   = count_where (\<lambda>p. p_status p = LINK_CREATED \<and> p_gateway_verified_at p = None) (payments d)"
proof -
  let ?xs = "payments d" and ?cut = "now - 1800"
  let ?ex = "reconciliation_exhausted_conditions cfg now" and ?un = "unexpected_status_conditions d now"
  have other: "count_other_attention d cfg now
      = count_where ?ex ?xs + (count_where ?un ?xs + count_non_delivery_manual_reviews d)"
    unfolding count_other_attention_def count_non_delivery_manual_reviews_def
    by (subst count_where_disj, force simp: category_defs)+ simp
  have delivery: "length (attention_rows bot_delivery_manual_review_conditions d ?cut)
      = count_where bot_delivery_manual_review_conditions ?xs + count_where (stale_bot_notify_pending_conditions d ?cut) ?xs"
    unfolding attention_rows_def count_where_def [symmetric] by (subst count_where_disj) (auto simp: category_defs)
  have reviews: "count_open_manual_reviews d = count_where bot_delivery_manual_review_conditions ?xs + count_non_delivery_manual_reviews d"
    unfolding count_open_manual_reviews_def count_non_delivery_manual_reviews_def
    using count_where_split [of open_manual_review_conditions ?xs "\<lambda>p. p_bot_notify_reason p \<noteq> None"]
    by (simp add: bot_delivery_manual_review_conditions_def [abs_def] non_delivery_manual_review_conditions_def [abs_def])
  have "ov_total (bot_delivery_snapshot d now 30 timeout limit) + count_other_attention d cfg now
      = so_total_needs_attention (stuck_payments_overview d cfg now)" if "0 < limit"
    using attention_total [OF that, of bot_delivery_manual_review_conditions delivery_review_entry d now 30 timeout] other delivery reviews
    by (simp add: bot_delivery_snapshot_def overview_totals(1))
  moreover have "count_where (\<lambda>p. p_status p = LINK_CREATED \<and> p_gateway_verified_at p = None) ?xs
      = count_where (\<lambda>p. waiting_conditions cfg now p \<or> (expired_conditions cfg now p \<or> ?ex p)) ?xs"
    by (rule count_where_cong) (auto simp: category_defs)
  then have "count_where (\<lambda>p. p_status p = LINK_CREATED \<and> p_gateway_verified_at p = None) ?xs
      = count_where (waiting_conditions cfg now) ?xs + (count_where (expired_conditions cfg now) ?xs + count_where ?ex ?xs)"
    by (simp only:, (subst count_where_disj, force simp: category_defs)+) simp
  ultimately show ?thesis by (simp add: overview_totals(2,3) count_waiting_def count_expired_def)
qed

definition stuck_demo :: db where
  "stuck_demo = empty_db\<lparr>payments :=
     [demo_payment 1 ''a'',
      (demo_payment 2 ''b'')\<lparr>p_status := GETLINK_FAILED\<rparr>,
      (demo_payment 3 ''c'')\<lparr>p_status := BOT_NOTIFY_PENDING, p_gateway_verified_at := Some 100\<rparr>]\<rparr>"

theorem stuck_totals_agree_witness:
  "ov_total (bot_delivery_snapshot stuck_demo 90000 30 120 5) = 1 \<and> count_other_attention stuck_demo demo_settings 90000 = 1
 \<and> so_total_needs_attention (stuck_payments_overview stuck_demo demo_settings 90000) = 2"
proof -
  have "ov_total (bot_delivery_snapshot stuck_demo 90000 30 120 5) = 1" "count_other_attention stuck_demo demo_settings 90000 = 1"
    by code_simp+
  then show ?thesis using stuck_totals_agree [of 5 stuck_demo 90000 120 demo_settings] by simp
qed

text \<open>A resolved item leaves the list unless its link failed again afterwards, whichever way it is asked for.\<close>

lemma unresolved_iff_superseded:
  "unresolved_attention_condition d p \<longleftrightarrow> p_attention_resolved_at p = None \<or> resolution_superseded_in_db d p"
  by (auto simp: unresolved_attention_condition_def resolution_superseded_in_db_def Let_def split: option.splits)

text \<open>Every status an operator can resolve is one of the unexpected ones.\<close>

lemma resolvable_statuses_unexpected: "set RESOLVABLE_STATUSES \<subseteq> set UNEXPECTED_STATUSES"
  by (auto simp: RESOLVABLE_STATUSES_def ATTENTION_RESOLUTIONS_def UNEXPECTED_STATUSES_def)

end
