(* ===== verification/Operator.thy ===== *)
theory Operator
  imports Stuck Fees
begin

text \<open>
  The host commands of \<open>app/ops.py\<close> that change state: single reviews, bulk reviews, attention items,
  manual acceptance, fee policies, backup events and test alerts. Each definition is the whole
  command, from the guards of \<open>main\<close> to the exit code; what is printed is left out. \<open>Uncaught\<close> is an
  exception nothing catches: the session of the \<open>with\<close> block is closed and rolled back.
  \<open>datetime.now(UTC)\<close> is the clock of the session.
\<close>

datatype command_result = Exit int | Uncaught string

definition refuse :: "session \<Rightarrow> session \<times> command_result" where
  "refuse s = (rollback s, Exit 1)"

section \<open>Backups and test alerts\<close>

definition cmd_backup_event :: "settings \<Rightarrow> session \<Rightarrow> bool \<Rightarrow> string \<Rightarrow> string \<Rightarrow> int \<Rightarrow> string \<Rightarrow> session \<times> command_result" where
  "cmd_backup_event cfg s success filesize file_name retention_days detail =
     (let data = (if filesize = [] then [] else [(''size'', JStr (take 64 filesize))])
               @ (if file_name = [] then [] else [(''file_name'', JStr (take 128 (after_last (CHR ''/'') file_name)))])
               @ (if retention_days = 0 then [] else [(''retention_days'', JInt retention_days)])
               @ (if detail = [] then [] else [(''detail'', JStr (take 200 detail))])
      in (commit (record_event (configure_alert_creation cfg s) None
            (if success then ''backup_succeeded'' else ''backup_failed'') (if success then ''info'' else ''error'') data),
          Exit 0))"

definition cmd_test_alert :: "settings \<Rightarrow> session \<Rightarrow> string \<Rightarrow> session \<times> command_result" where
  "cmd_test_alert cfg s message =
     (if \<not> admin_bot_enabled cfg then (s, Exit 1)
      else (commit (fst (create_alert s ''admin_test_alert'' ''info'' None None [(''detail'', JStr message)] None (clock s))), Exit 0))"

section \<open>Reviews\<close>

definition ALLOWED_RESOLUTIONS :: "string list" where
  "ALLOWED_RESOLUTIONS =
     [''confirmed_by_bot_operator'', ''duplicate_notification_confirmed_safe'', ''bot_not_credited'',
      ''refund_required'', ''false_positive'', ''configuration_fixed'']"

text \<open>
  \<open>int()\<close> refuses a digit outside ASCII and a text of more than 4300 digits, the database a number
  beyond \<open>BIGINT\<close>. Unlike \<open>find_payment_by_order_id\<close> this lookup prefers the bot's order id in silence.
\<close>

definition load_review_payment :: "db \<Rightarrow> string \<Rightarrow> string + payment option" where
  "load_review_payment d order_id =
     (case payment_by_bot_order_id d order_id of
        Some p \<Rightarrow> Inr (Some p)
      | None \<Rightarrow>
          if order_id = [] \<or> \<not> list_all py_isdigit order_id then Inr None
          else if \<not> is_ascii_decimal order_id then Inl ''ValueError''
          else case py_int_of_digits order_id of
                 None \<Rightarrow> Inl ''ValueError''
               | Some n \<Rightarrow>
                   if n > POSTGRES_BIGINT_MAX then Inl ''DataError''
                   else Inr (payment_by_gateway_order_id d n))"

datatype review_command =
    Review_Show
  | Review_Acknowledge string
  | Review_Resolve string string
  | Review_Resend bool bool

text \<open>
  The flags \<open>main\<close> asks for before it opens a session. A choice outside the list is refused by the
  argument parser, with exit code 2.
\<close>

fun review_choice_ok :: "review_command \<Rightarrow> bool" where
  "review_choice_ok (Review_Resolve resolution memo) = (resolution \<in> set ALLOWED_RESOLUTIONS)"
| "review_choice_ok _ = True"


fun review_flags_ok :: "review_command \<Rightarrow> bool" where
  "review_flags_ok Review_Show = True"
| "review_flags_ok (Review_Acknowledge memo) = (strip memo \<noteq> [])"
| "review_flags_ok (Review_Resolve resolution memo) = (strip memo \<noteq> [])"
| "review_flags_ok (Review_Resend confirm_idempotent_bot yes) = (confirm_idempotent_bot \<and> yes)"

definition acknowledged :: "time \<Rightarrow> payment \<Rightarrow> payment" where
  "acknowledged now p = p\<lparr>p_review_acknowledged_at := Some now\<rparr>"

definition review_acknowledge :: "session \<Rightarrow> payment \<Rightarrow> string \<Rightarrow> session \<times> command_result" where
  "review_acknowledge s p memo =
     (commit (record_event (put_payment s (acknowledged (clock s) p)) (Some (p_id p)) ''manual_review_acknowledged'' ''info''
        [(''note'', JStr (take 500 memo)), (''operator'', JStr ''host-cli'')]), Exit 0)"

definition review_resolve :: "session \<Rightarrow> payment \<Rightarrow> string \<Rightarrow> string \<Rightarrow> session \<times> command_result" where
  "review_resolve s p resolution memo =
     (commit (record_event (put_payment s (resolved_review resolution (clock s) p)) (Some (p_id p)) ''manual_review_resolved'' ''info''
        [(''resolution'', JStr resolution), (''note'', JStr (take 500 memo)), (''operator'', JStr ''host-cli'')]), Exit 0)"

definition review_resend :: "settings \<Rightarrow> session \<Rightarrow> payment \<Rightarrow> session \<times> command_result" where
  "review_resend cfg s p =
     (if bot_notify_retry_mode cfg \<noteq> Idempotent then refuse s
      else if p_gateway_verified_at p = None then refuse s
      else (commit (record_event (put_payment s (requeued_state (clock s) p)) (Some (p_id p)) ''manual_review_resend_requested'' ''warning''
              [(''operator'', JStr ''host-cli''), (''previous_reason'', jopt_reason (p_bot_notify_reason p)),
               (''retry_mode'', JStr (retry_mode_value (bot_notify_retry_mode cfg)))]), Exit 0))"

definition cmd_review :: "settings \<Rightarrow> session \<Rightarrow> review_command \<Rightarrow> string \<Rightarrow> session \<times> command_result" where
  "cmd_review cfg s cmd order_id =
     (if \<not> review_choice_ok cmd then (s, Exit 2)
      else if \<not> review_flags_ok cmd then (s, Exit 1)
      else let s1 = configure_alert_creation cfg s
           in case load_review_payment (work s1) order_id of
                Inl e \<Rightarrow> (rollback s1, Uncaught e)
              | Inr None \<Rightarrow> refuse s1
              | Inr (Some p) \<Rightarrow>
                  if cmd = Review_Show then (rollback s1, Exit 0)
                  else if p_status p \<noteq> MANUAL_REVIEW then refuse s1
                  else case cmd of
                         Review_Acknowledge memo \<Rightarrow> review_acknowledge s1 p memo
                       | Review_Resolve resolution memo \<Rightarrow> review_resolve s1 p resolution memo
                       | _ \<Rightarrow> review_resend cfg s1 p)"

definition review_list :: "db \<Rightarrow> bool \<Rightarrow> payment list" where
  "review_list d include_resolved =
     sort_key (\<lambda>p. nulls_first (p_manual_review_at p))
       (filter (if include_resolved then manual_review_history_conditions else open_manual_review_conditions) (payments d))"

definition cmd_review_resolve_many ::
  "settings \<Rightarrow> (db \<Rightarrow> db) \<Rightarrow> session \<Rightarrow> string list \<Rightarrow> string \<Rightarrow> string \<Rightarrow> bool \<Rightarrow> session \<times> command_result" where
  "cmd_review_resolve_many cfg others s order_ids resolution memo yes =
     (if resolution \<notin> set ALLOWED_RESOLUTIONS \<or> order_ids = [] then (s, Exit 2)
      else if strip memo = [] then (s, Exit 1)
      else let s1 = configure_alert_creation cfg s
           in if \<not> yes then
                (case preview_bulk_resolution s1 order_ids resolution of
                   (s2, None) \<Rightarrow> (rollback s2, Uncaught ''ValueError'')
                 | (s2, Some _) \<Rightarrow> (s2, Exit 1))
              else
                (case resolve_reviews others s1 order_ids resolution memo ''host-cli'' (clock s1) of
                   (s2, None) \<Rightarrow> (rollback s2, Uncaught ''ValueError'')
                 | (s2, Some res) \<Rightarrow> (s2, Exit (if rv_resolved res then 0 else 1))))"

section \<open>Attention items and manual acceptance\<close>

text \<open>\<open>AmbiguousOrderIdError\<close> is caught and refused, the \<open>ValueError\<close> of a text of too many digits is not.\<close>

definition with_payment :: "session \<Rightarrow> string \<Rightarrow> (session \<Rightarrow> payment \<Rightarrow> session \<times> command_result) \<Rightarrow> session \<times> command_result" where
  "with_payment s order_id k =
     (case find_payment_by_order_id (work s) order_id of
        Inl AmbiguousOrderIdError \<Rightarrow> refuse s
      | Inl OrderIdValueError \<Rightarrow> (rollback s, Uncaught ''ValueError'')
      | Inr None \<Rightarrow> refuse s
      | Inr (Some p) \<Rightarrow> k s p)"

definition cmd_attention_resolve :: "settings \<Rightarrow> session \<Rightarrow> string \<Rightarrow> string \<Rightarrow> string \<Rightarrow> bool \<Rightarrow> session \<times> command_result" where
  "cmd_attention_resolve cfg s order_id resolution memo yes =
     (if resolution \<notin> set (map fst ATTENTION_RESOLUTIONS) then (s, Exit 2)
      else if strip memo = [] \<or> \<not> yes then (s, Exit 1)
      else with_payment (configure_alert_creation cfg s) order_id
             (\<lambda>s1 p. case resolve_attention s1 (p_id p) resolution memo ''host-cli'' (clock s1) of
                       (s2, None) \<Rightarrow> (rollback s2, Uncaught ''NoResultFound'')
                     | (s2, Some out) \<Rightarrow> (if ao_resolved out then s2 else rollback s2, Exit (if ao_resolved out then 0 else 1))))"

definition attention_list :: "db \<Rightarrow> time \<Rightarrow> bool \<Rightarrow> nat \<Rightarrow> payment list" where
  "attention_list d now historic limit =
     (if historic
      then first_n_by (\<lambda>p. (- coalesce (p_attention_resolved_at p) 0, - p_id p)) limit (filter resolved_attention_condition (payments d))
      else first_n_by (\<lambda>p. (p_created_at p, p_id p)) limit
             (filter (\<lambda>p. unexpected_status_conditions d now p \<and> p_status p \<in> set RESOLVABLE_STATUSES) (payments d)))"

definition cmd_notification_accept :: "settings \<Rightarrow> session \<Rightarrow> string \<Rightarrow> string \<Rightarrow> bool \<Rightarrow> session \<times> command_result" where
  "cmd_notification_accept cfg s order_id memo yes =
     (if strip memo = [] \<or> \<not> yes then (s, Exit 1)
      else with_payment (configure_alert_creation cfg s) order_id
             (\<lambda>s1 p. case execute_manual_accept s1 (p_id p) memo (clock s1) of
                       (s2, None) \<Rightarrow> (s2, Exit 1)
                     | (s2, Some out) \<Rightarrow> (s2, Exit (if ma_accepted out then 0 else 1))))"

section \<open>Fee policies\<close>

text \<open>
  The advisory lock makes the count and the insert of two installers one after the other; a policy
  that a rival commits before the lock is granted is in the database the command reads.
\<close>

definition cmd_fee_ensure_initial :: "session \<Rightarrow> string option \<Rightarrow> string \<Rightarrow> string \<Rightarrow> session \<times> command_result" where
  "cmd_fee_ensure_initial s percent actor memo =
     (if fee_policies (work s) \<noteq> [] then (rollback s, Exit 0)
      else case percent of
             None \<Rightarrow> refuse s
           | Some v \<Rightarrow>
               (case parse_rate_percent v of
                  Inl _ \<Rightarrow> refuse s
                | Inr rate_bps \<Rightarrow>
                    (case create_policy s rate_bps True (clock s) actor memo False of
                       (s1, Inl _) \<Rightarrow> (rollback s1, Uncaught ''ValueError'')
                     | (s1, Inr _) \<Rightarrow> (commit s1, Exit 0))))"

text \<open>The argument of \<open>Fee_Schedule\<close> is what \<open>datetime.fromisoformat\<close> makes of the text: nothing, or an instant and whether it carries a timezone.\<close>

datatype fee_change = Fee_Now bool | Fee_Schedule "(bool \<times> time) option"

definition cmd_fee_change :: "session \<Rightarrow> fee_change \<Rightarrow> string \<Rightarrow> string \<Rightarrow> string \<Rightarrow> session \<times> command_result" where
  "cmd_fee_change s change rate actor memo =
     (if strip memo = [] then (s, Exit 1)
      else case parse_rate_percent rate of
             Inl _ \<Rightarrow> refuse s
           | Inr rate_bps \<Rightarrow>
               (let finish = (\<lambda>effective_at scheduled.
                      case create_policy s rate_bps True effective_at actor memo scheduled of
                        (s1, Inl _) \<Rightarrow> refuse s1
                      | (s1, Inr _) \<Rightarrow> (commit s1, Exit 0))
                in case change of
                     Fee_Now ensure_initial \<Rightarrow>
                       if ensure_initial \<and> fee_policies (work s) \<noteq> [] then (rollback s, Exit 0) else finish (clock s) False
                   | Fee_Schedule None \<Rightarrow> refuse s
                   | Fee_Schedule (Some (aware, effective_at)) \<Rightarrow>
                       if \<not> aware \<or> effective_at \<le> clock s then refuse s else finish effective_at True))"

definition cmd_fee_cancel :: "session \<Rightarrow> int \<Rightarrow> string \<Rightarrow> string \<Rightarrow> session \<times> command_result" where
  "cmd_fee_cancel s policy_id actor memo =
     (if strip memo = [] then (s, Exit 1)
      else case cancel_policy s policy_id actor memo (clock s) of
             (s1, Inl _) \<Rightarrow> refuse s1
           | (s1, Inr _) \<Rightarrow> (commit s1, Exit 0))"

section \<open>What the review commands may change\<close>

lemma configure_alert_creation_sel [simp]:
  "work (configure_alert_creation cfg s) = work s" "durable (configure_alert_creation cfg s) = durable s"
  "clock (configure_alert_creation cfg s) = clock s" "seq (configure_alert_creation cfg s) = seq s"
  by (simp_all add: configure_alert_creation_def)

lemma refuse_sel [simp]: "durable (fst (refuse s)) = durable s" "work (fst (refuse s)) = durable s"
  by (simp_all add: refuse_def)

lemma load_review_payment_mem: "load_review_payment d order_id = Inr (Some p) \<Longrightarrow> p \<in> set (payments d)"
  by (auto simp: load_review_payment_def payment_by_bot_order_id_def payment_by_gateway_order_id_def
      split: option.splits if_splits dest: find_SomeD)

text \<open>A command that writes one row of the table.\<close>

lemma single_row_command:
  assumes "payments d' = put_row p_id q (payments d)" "distinct (map p_id (payments d))" "p \<in> set (payments d)"
    and "p_id q = p_id p" "R p q" "\<And>x. R x x"
  shows "list_all2 R (payments d) (payments d')"
  unfolding assms(1) using assms find_row_mem [OF assms(2,3)] by (intro put_row_list_all2 [of _ _ "p_id p" p]) auto

definition review_step :: "settings \<Rightarrow> review_command \<Rightarrow> time \<Rightarrow> payment \<Rightarrow> payment \<Rightarrow> bool" where
  "review_step cfg cmd now p q \<longleftrightarrow>
     q = p
   \<or> p_status p = MANUAL_REVIEW
     \<and> (q = acknowledged now p \<or> (\<exists>r. q = resolved_review r now p)
        \<or> cmd = Review_Resend True True \<and> bot_notify_retry_mode cfg = Idempotent \<and> p_gateway_verified_at p \<noteq> None
          \<and> q = requeued_state now p)"

lemma cmd_review_rows:
  assumes "work s = durable s" "distinct (map p_id (payments (durable s)))"
  shows "list_all2 (review_step cfg cmd (clock s)) (payments (durable s)) (payments (durable (fst (cmd_review cfg s cmd order_id))))"
proof -
  let ?s = "configure_alert_creation cfg s" and ?R = "review_step cfg cmd (clock s)"
  have keep: "list_all2 ?R (payments (durable s)) (payments d')" if "payments d' = payments (durable s)" for d'
    using that by (auto simp: review_step_def intro!: list.rel_refl_strong)
  have put: "list_all2 ?R (payments (durable s)) (payments d')"
    if "payments d' = put_row p_id q (payments (durable s))" "p \<in> set (payments (durable s))" "p_id q = p_id p" "?R p q" for d' p q
    using that assms(2) by (intro single_row_command [of _ q _ p]) (auto simp: review_step_def)
  show ?thesis
  proof (cases "review_choice_ok cmd \<and> review_flags_ok cmd")
    case False
    then show ?thesis using assms(1) by (intro keep) (auto simp: cmd_review_def)
  next
    case True
    show ?thesis
    proof (cases "\<exists>p. load_review_payment (work ?s) order_id = Inr (Some p) \<and> cmd \<noteq> Review_Show \<and> p_status p = MANUAL_REVIEW")
      case False
      then show ?thesis
        using True assms(1) by (intro keep) (auto simp: cmd_review_def Let_def split: sum.splits option.splits)
    next
      case ok: True
      then obtain p where p: "load_review_payment (work ?s) order_id = Inr (Some p)" "cmd \<noteq> Review_Show" "p_status p = MANUAL_REVIEW"
        by blast
      have mem: "p \<in> set (payments (durable s))" using load_review_payment_mem [OF p(1)] assms(1) by simp
      have run: "cmd_review cfg s cmd order_id =
          (case cmd of
             Review_Acknowledge memo \<Rightarrow> review_acknowledge ?s p memo
           | Review_Resolve resolution memo \<Rightarrow> review_resolve ?s p resolution memo
           | _ \<Rightarrow> review_resend cfg ?s p)"
        using True p by (simp add: cmd_review_def Let_def)
      show ?thesis
      proof (cases cmd)
        case Review_Show
        then show ?thesis using p(2) by simp
      next
        case (Review_Acknowledge memo)
        then show ?thesis
          unfolding run using assms(1) p(3)
          by (intro put [OF _ mem, of _ "acknowledged (clock s) p"]) (auto simp: review_acknowledge_def review_step_def, simp add: acknowledged_def)
      next
        case (Review_Resolve resolution memo)
        then show ?thesis
          unfolding run using assms(1) p(3)
          by (intro put [OF _ mem, of _ "resolved_review resolution (clock s) p"])
             (auto simp: review_resolve_def review_step_def, simp add: resolved_review_def)
      next
        case (Review_Resend c y)
        show ?thesis
        proof (cases "bot_notify_retry_mode cfg = Idempotent \<and> p_gateway_verified_at p \<noteq> None")
          case sent: True
          then show ?thesis
            unfolding run using assms(1) p(3) True Review_Resend
            by (intro put [OF _ mem, of _ "requeued_state (clock s) p"]) (auto simp: review_resend_def review_step_def)
        next
          case False
          then show ?thesis
            unfolding run using Review_Resend assms(1) by (intro keep) (auto simp: review_resend_def)
        qed
      qed
    qed
  qed
qed

text \<open>
  The review commands of an operator touch only payments in manual review, and of those only
  the review marks: no amount, fee, payer, gateway reference or verification time, and not the
  status. The one exception is a confirmed resend: in idempotent mode, and only for a payment the
  gateway verified, it puts the payment back into delivery.
\<close>

theorem review_commands_keep_money:
  assumes "work s = durable s" "distinct (map p_id (payments (durable s)))"
  shows "list_all2 (\<lambda>p q. financial_eq p q
           \<and> (q \<noteq> p \<longrightarrow> p_status p = MANUAL_REVIEW)
           \<and> (p_status q = p_status p \<and> p_bot_notify_attempts q = p_bot_notify_attempts p \<and> p_next_retry_at q = p_next_retry_at p
              \<or> cmd = Review_Resend True True \<and> bot_notify_retry_mode cfg = Idempotent \<and> p_gateway_verified_at p \<noteq> None
                \<and> p_status q = BOT_NOTIFY_PENDING))
         (payments (durable s)) (payments (durable (fst (cmd_review cfg s cmd order_id))))"
proof (rule list_all2_mono [OF cmd_review_rows [OF assms]])
  fix p q assume "review_step cfg cmd (clock s) p q"
  then show "financial_eq p q
           \<and> (q \<noteq> p \<longrightarrow> p_status p = MANUAL_REVIEW)
           \<and> (p_status q = p_status p \<and> p_bot_notify_attempts q = p_bot_notify_attempts p \<and> p_next_retry_at q = p_next_retry_at p
              \<or> cmd = Review_Resend True True \<and> bot_notify_retry_mode cfg = Idempotent \<and> p_gateway_verified_at p \<noteq> None
                \<and> p_status q = BOT_NOTIFY_PENDING)"
    using requeued_state_financial [of p "clock s"]
    by (auto simp: review_step_def requeued_state_def acknowledged_def resolved_review_def financial_eq_def)
qed

text \<open>A delivery that ended in review, and the same row resent.\<close>

definition review_demo :: db where
  "review_demo = empty_db\<lparr>payments :=
     [(demo_payment 1 ''a'')\<lparr>p_status := MANUAL_REVIEW, p_gateway_verified_at := Some 100, p_reference_id := Some ''R1''\<rparr>,
      (demo_payment 2 ''1000001'')\<lparr>p_status := MANUAL_REVIEW\<rparr>]\<rparr>"

theorem review_commands_keep_money_witness:
  "map p_status (payments (durable (fst (cmd_review (demo_settings\<lparr>bot_notify_retry_mode := Idempotent\<rparr>)
       (new_session review_demo 900) (Review_Resend True True) ''a'')))) = [BOT_NOTIFY_PENDING, MANUAL_REVIEW]
 \<and> list_all2 financial_eq (payments review_demo) (payments (durable (fst (cmd_review
       (demo_settings\<lparr>bot_notify_retry_mode := Idempotent\<rparr>) (new_session review_demo 900) (Review_Resend True True) ''a''))))"
proof -
  let ?s = "new_session review_demo 900" and ?cfg = "demo_settings\<lparr>bot_notify_retry_mode := Idempotent\<rparr>"
  have "map p_status (payments (durable (fst (cmd_review ?cfg ?s (Review_Resend True True) ''a'')))) = [BOT_NOTIFY_PENDING, MANUAL_REVIEW]"
    by code_simp
  moreover have "distinct (map p_id (payments (durable ?s)))" "work ?s = durable ?s" "durable ?s = review_demo"
    by (simp_all add: new_session_def review_demo_def demo_payment_def)
  ultimately show ?thesis
    using review_commands_keep_money [of ?s "Review_Resend True True" ?cfg "''a''"] by (auto elim!: list_all2_mono)
qed

section \<open>Two ways to look up an order\<close>

text \<open>
  The review commands find every payment the shared lookup finds. On an order id the shared
  lookup refuses as ambiguous they do not refuse: they act on the payment with that bot order id.
\<close>

theorem review_lookup_guesses:
  "(find_payment_by_order_id d order_id = Inr (Some p) \<longrightarrow> load_review_payment d order_id = Inr (Some p))
 \<and> (find_payment_by_order_id d order_id = Inl AmbiguousOrderIdError \<longrightarrow>
      (\<exists>q. load_review_payment d order_id = Inr (Some q) \<and> p_bot_order_id q = order_id))"
proof (cases "payment_by_bot_order_id d order_id")
  case None
  have "list_all py_isdigit order_id" if "is_ascii_decimal order_id"
    using that by (auto simp: is_ascii_decimal_def py_isdigit_def list_all_iff)
  then show ?thesis
    using None by (auto simp: find_payment_by_order_id_def load_review_payment_def Let_def is_ascii_decimal_def
        split: if_splits option.splits)
next
  case (Some q)
  then have "p_bot_order_id q = order_id" using payment_by_bot_order_id_Some by blast
  with Some show ?thesis
    by (auto simp: find_payment_by_order_id_def load_review_payment_def Let_def split: if_splits option.splits)
qed

theorem review_lookup_guesses_witness:
  "find_payment_by_order_id review_demo ''1000001'' = Inl AmbiguousOrderIdError
 \<and> (\<exists>q. load_review_payment review_demo ''1000001'' = Inr (Some q) \<and> p_bot_order_id q = ''1000001'')"
proof -
  have "find_payment_by_order_id review_demo ''1000001'' = Inl AmbiguousOrderIdError"
    by (simp add: find_payment_by_order_id_def review_demo_def empty_db_def demo_payment_def payment_by_bot_order_id_def
        payment_by_gateway_order_id_def is_ascii_decimal_def is_ascii_digit_def cc_def py_int_of_digits_def
        py_int_max_digits_def digits_to_nat_def digit_val_def POSTGRES_BIGINT_MAX_def)
  then show ?thesis using review_lookup_guesses by blast
qed

section \<open>The initial fee policy\<close>

text \<open>
  The installer creates the first fee policy at most once and never by default: with any policy on
  file, scheduled and cancelled ones included, the command changes nothing; with none it commits
  exactly one policy, at the rate that was given, or none; and a second run changes nothing more.
\<close>

theorem ensure_initial_once:
  assumes "work s = durable s"
  shows "(let s' = fst (cmd_fee_ensure_initial s percent actor memo)
          in fee_policies (durable s') = fee_policies (durable s)
           \<or> fee_policies (durable s) = []
             \<and> (\<exists>v rate f. percent = Some v \<and> parse_rate_percent v = Inr rate \<and> fee_policies (durable s') = [f]
                  \<and> fp_rate_bps f = rate \<and> fp_cancelled_at f = None
                  \<and> fee_policies (durable (fst (cmd_fee_ensure_initial s' percent' actor' memo'))) = [f]))"
proof -
  obtain s' r where out: "cmd_fee_ensure_initial s percent actor memo = (s', r)" by fastforce
  have again: "fee_policies (durable (fst (cmd_fee_ensure_initial s' percent' actor' memo'))) = fee_policies (durable s')"
    if "work s' = durable s'" "fee_policies (durable s') \<noteq> []"
    using that by (simp add: cmd_fee_ensure_initial_def)
  consider (same) "fee_policies (durable s') = fee_policies (durable s)"
    | (new) v rate s1 f where "fee_policies (durable s) = []" "percent = Some v" "parse_rate_percent v = Inr rate"
        "create_policy s rate True (clock s) actor memo False = (s1, Inr f)" "s' = commit s1"
    using out assms
    by (auto simp: cmd_fee_ensure_initial_def refuse_def create_policy_def Let_def split: if_splits option.splits sum.splits prod.splits)
  then have "fee_policies (durable s') = fee_policies (durable s)
      \<or> fee_policies (durable s) = []
        \<and> (\<exists>v rate f. percent = Some v \<and> parse_rate_percent v = Inr rate \<and> fee_policies (durable s') = [f]
             \<and> fp_rate_bps f = rate \<and> fp_cancelled_at f = None
             \<and> fee_policies (durable (fst (cmd_fee_ensure_initial s' percent' actor' memo'))) = [f])"
  proof cases
    case (new v rate s1 f)
    then have "fee_policies (work s1) = [f]" "fp_rate_bps f = rate" "fp_cancelled_at f = None"
      using assms by (auto simp: create_policy_def Let_def split: if_splits sum.splits)
    then show ?thesis using new again by auto
  qed simp
  then show ?thesis unfolding out by simp
qed

theorem ensure_initial_once_witness:
  "map fp_rate_bps (fee_policies (durable (fst (cmd_fee_ensure_initial (new_session empty_db 50) (Some ''7.5'') ''installer'' ''first'')))) = [750]
 \<and> map fp_rate_bps (fee_policies (durable (fst (cmd_fee_ensure_initial
       (fst (cmd_fee_ensure_initial (new_session empty_db 50) (Some ''7.5'') ''installer'' ''first'')) (Some ''20'') ''x'' ''y'')))) = [750]"
proof -
  let ?s = "new_session empty_db 50"
  have one: "map fp_rate_bps (fee_policies (durable (fst (cmd_fee_ensure_initial ?s (Some ''7.5'') ''installer'' ''first'')))) = [750]"
    by code_simp
  have "work ?s = durable ?s" "fee_policies (durable ?s) = []" by (simp_all add: new_session_def empty_db_def)
  then show ?thesis
    using ensure_initial_once [of ?s "Some ''7.5''" "''installer''" "''first''" "Some ''20''" "''x''" "''y''"] one
    by (auto simp: Let_def)
qed

end
