(* ===== verification/Recovery.thy ===== *)
theory Recovery
  imports Reconciliation Review_Resolution
begin

text \<open>
  Inspection of one payment (\<open>app/services/reconcile_inspect.py\<close>, the \<open>reconcile\<close> command of
  \<open>app/cli.py\<close>) and the recovery of a payment whose link aged out
  (\<open>app/services/aged_out_recovery.py\<close>, the \<open>recover-aged-out\<close> command). Shown: what the inspection
  predicts from a gateway reply is what the settlement would do with it, and a recovery asks the
  gateway only for a payment of the aged-out tier and then settles it by the one settlement path.
\<close>

section \<open>The local facts of one payment\<close>

definition verify_aged_out_conditions :: "settings \<Rightarrow> time \<Rightarrow> payment \<Rightarrow> bool" where
  "verify_aged_out_conditions cfg now p \<longleftrightarrow>
     p_status p \<notin> set VERIFIED_STATUSES \<and> p_gateway_verified_at p = None \<and> aged_out_age_condition cfg now p"

datatype age_bucket = Bucket_Active | Bucket_Expiring | Bucket_Aged_Out

record local_snapshot =
  ls_now :: time
  ls_link_age_seconds :: time
  ls_is_link_created_unverified :: bool
  ls_age_bucket :: "age_bucket option"
  ls_active_tier_due :: bool
  ls_expiring_tier_due :: bool
  ls_schedule_due :: bool
  ls_reconciliation_enabled :: bool
  ls_auto_reconciliation_due :: bool
  ls_attempts_exhausted :: bool
  ls_verify_aged_out :: bool
  ls_is_gateway_verified :: bool

definition local_snapshot_of :: "settings \<Rightarrow> time \<Rightarrow> payment \<Rightarrow> local_snapshot" where
  "local_snapshot_of cfg now p =
     (let active_due = active_tier_due_conditions cfg now p; expiring_due = expiring_tier_due_conditions cfg now p;
          schedule_due = (active_due \<or> expiring_due)
      in \<lparr>ls_now = now, ls_link_age_seconds = now - link_age_anchor p,
          ls_is_link_created_unverified = (p_status p = LINK_CREATED \<and> p_gateway_verified_at p = None),
          ls_age_bucket =
            (if aged_out_conditions cfg now p then Some Bucket_Aged_Out
             else if active_tier_age_conditions cfg now p then Some Bucket_Active
             else if expiring_tier_age_conditions cfg now p then Some Bucket_Expiring
             else None),
          ls_active_tier_due = active_due, ls_expiring_tier_due = expiring_due, ls_schedule_due = schedule_due,
          ls_reconciliation_enabled = reconciliation_enabled cfg,
          ls_auto_reconciliation_due = (reconciliation_enabled cfg \<and> schedule_due),
          ls_attempts_exhausted = (p_reconciliation_attempts p \<ge> reconciliation_max_attempts cfg),
          ls_verify_aged_out = verify_aged_out_conditions cfg now p,
          ls_is_gateway_verified = (p_status p \<in> set VERIFIED_STATUSES \<or> p_gateway_verified_at p \<noteq> None)\<rparr>)"

text \<open>One statement reads the row and all its flags.\<close>

definition build_local_snapshot :: "db \<Rightarrow> settings \<Rightarrow> int \<Rightarrow> time \<Rightarrow> (payment \<times> local_snapshot) option" where
  "build_local_snapshot d cfg payment_id now =
     map_option (\<lambda>p. (p, local_snapshot_of cfg now p)) (payment_by_id d payment_id)"

section \<open>Diagnostic verification\<close>

datatype verify_refusal = DIAGNOSTIC_VERIFY_DISABLED | VR_ALREADY_VERIFIED | VR_MANUAL_REVIEW_OWNED | VR_AGED_OUT

definition determine_verify_refusal :: "payment \<Rightarrow> local_snapshot \<Rightarrow> bool \<Rightarrow> verify_refusal option" where
  "determine_verify_refusal p loc confirm_aged_out =
     (if p_status p = MANUAL_REVIEW then Some VR_MANUAL_REVIEW_OWNED
      else if ls_is_gateway_verified loc then Some VR_ALREADY_VERIFIED
      else if ls_verify_aged_out loc \<and> \<not> confirm_aged_out then Some VR_AGED_OUT
      else None)"

datatype verify_assessment = WOULD_VERIFY | WOULD_REQUIRE_MANUAL_REVIEW | NOT_SUCCESSFUL

datatype review_reason =
    REASON_MISSING_REFERENCE_ID
  | REASON_INVALID_REFERENCE_ID
  | REASON_PAYABLE_AMOUNT_MISMATCH
  | REASON_USER_ID_MISMATCH
  | REASON_REFERENCE_ID_COLLISION

record verify_comparison =
  vc_gateway_success :: bool
  vc_assessment :: verify_assessment
  vc_reason_code :: "review_reason option"
  vc_gateway_failure_reason :: "string option"
  vc_reference_id_present :: bool
  vc_reference_id_valid :: bool
  vc_reported_reference_id :: "string option"
  vc_amount_matches :: "bool option"
  vc_expected_payable_amount :: int
  vc_reported_amount :: "int option"
  vc_user_id_matches :: "bool option"
  vc_reference_id_collision :: bool
  vc_field_errors :: "string list"

definition evaluate_verify_result :: "db \<Rightarrow> payment \<Rightarrow> verify_result \<Rightarrow> verify_comparison" where
  "evaluate_verify_result d p r =
     (let base = \<lparr>vc_gateway_success = True, vc_assessment = WOULD_REQUIRE_MANUAL_REVIEW, vc_reason_code = None,
                  vc_gateway_failure_reason = None, vc_reference_id_present = True, vc_reference_id_valid = True,
                  vc_reported_reference_id = vr_reference_id r, vc_amount_matches = Some True,
                  vc_expected_payable_amount = p_payable_amount p, vc_reported_amount = vr_amount r,
                  vc_user_id_matches = Some True, vc_reference_id_collision = False, vc_field_errors = vr_field_errors r\<rparr>
      in if \<not> vr_gateway_success r then
           base\<lparr>vc_gateway_success := False, vc_assessment := NOT_SUCCESSFUL, vc_gateway_failure_reason := vr_failure_reason r,
                vc_reference_id_present := False, vc_reference_id_valid := False, vc_reported_reference_id := None,
                vc_amount_matches := None, vc_reported_amount := None, vc_user_id_matches := None\<rparr>
         else case vr_reference_id r of
                None \<Rightarrow>
                  base\<lparr>vc_reason_code := Some (if vr_reference_id_invalid r then REASON_INVALID_REFERENCE_ID else REASON_MISSING_REFERENCE_ID),
                       vc_reference_id_present := vr_reference_id_invalid r, vc_reference_id_valid := False,
                       vc_reported_reference_id := None, vc_amount_matches := None, vc_user_id_matches := None\<rparr>
              | Some ref \<Rightarrow>
                  if vr_amount r \<noteq> Some (p_payable_amount p) then
                    base\<lparr>vc_reason_code := Some REASON_PAYABLE_AMOUNT_MISMATCH, vc_amount_matches := Some False, vc_user_id_matches := None\<rparr>
                  else if vr_user_id r \<noteq> Some (p_gateway_user_id p) then
                    base\<lparr>vc_reason_code := Some REASON_USER_ID_MISMATCH, vc_user_id_matches := Some False\<rparr>
                  else if colliding_payment d p ref \<noteq> None then
                    base\<lparr>vc_reason_code := Some REASON_REFERENCE_ID_COLLISION, vc_reference_id_collision := True\<rparr>
                  else base\<lparr>vc_assessment := WOULD_VERIFY\<rparr>)"

text \<open>
  The \<open>reconcile\<close> command. \<open>verify_enabled\<close> is \<open>centralpay_diagnostic_verify_enabled\<close>, \<open>d'\<close> the database
  once the row lock is granted, \<open>now\<close> the clock then. \<open>Verify_Failed\<close> says whether the request is known
  to have been answered. It returns no database: nothing is ever committed.
\<close>

datatype reconcile_report =
    Bad_Flags
  | Lookup_Failed lookup_error
  | Not_Found
  | Local_Only payment local_snapshot
  | Verify_Refused payment local_snapshot verify_refusal
  | Verify_Failed payment local_snapshot "bool option" string
  | Verify_Compared payment local_snapshot verify_comparison

definition answered :: "centralpay_error \<Rightarrow> bool option" where
  "answered exc = (case exc of CentralPayConnectionError _ \<Rightarrow> None | _ \<Rightarrow> Some True)"

definition cmd_reconcile ::
  "centralpay_client \<Rightarrow> transport \<Rightarrow> settings \<Rightarrow> bool \<Rightarrow> db \<Rightarrow> db \<Rightarrow> time \<Rightarrow> string \<Rightarrow> bool \<Rightarrow> bool \<Rightarrow> reconcile_report" where
  "cmd_reconcile cl http cfg verify_enabled d d' now order_id want_verify confirm_aged_out =
     (if confirm_aged_out \<and> \<not> want_verify then Bad_Flags
      else case find_payment_by_order_id d order_id of
             Inl e \<Rightarrow> Lookup_Failed e
           | Inr None \<Rightarrow> Not_Found
           | Inr (Some found) \<Rightarrow>
               if \<not> want_verify \<or> \<not> verify_enabled then
                 (case build_local_snapshot d cfg (p_id found) now of
                    None \<Rightarrow> Not_Found
                  | Some (p, loc) \<Rightarrow> if want_verify then Verify_Refused p loc DIAGNOSTIC_VERIFY_DISABLED else Local_Only p loc)
               else
                 case build_local_snapshot d' cfg (p_id found) now of
                   None \<Rightarrow> Not_Found
                 | Some (p, loc) \<Rightarrow>
                     (case determine_verify_refusal p loc confirm_aged_out of
                        Some refusal \<Rightarrow> Verify_Refused p loc refusal
                      | None \<Rightarrow>
                          (case verify cl http (p_gateway_order_id p) of
                             Inl exc \<Rightarrow> Verify_Failed p loc (answered exc) (cp_code exc)
                           | Inr r \<Rightarrow> Verify_Compared p loc (evaluate_verify_result d' p r))))"

section \<open>Recovery of an aged-out payment\<close>

datatype recovery_refusal = RR_MANUAL_REVIEW_OWNED | RR_ALREADY_VERIFIED | RR_NOT_LINK_CREATED | RR_NOT_AGED_OUT

fun recovery_refusal_value :: "recovery_refusal \<Rightarrow> string" where
  "recovery_refusal_value RR_MANUAL_REVIEW_OWNED = ''manual_review_owned''"
| "recovery_refusal_value RR_ALREADY_VERIFIED = ''already_gateway_verified''"
| "recovery_refusal_value RR_NOT_LINK_CREATED = ''not_link_created''"
| "recovery_refusal_value RR_NOT_AGED_OUT = ''not_aged_out''"

definition determine_recovery_refusal :: "payment \<Rightarrow> local_snapshot \<Rightarrow> recovery_refusal option" where
  "determine_recovery_refusal p loc =
     (if p_status p = MANUAL_REVIEW then Some RR_MANUAL_REVIEW_OWNED
      else if ls_is_gateway_verified loc then Some RR_ALREADY_VERIFIED
      else if p_status p \<noteq> LINK_CREATED then Some RR_NOT_LINK_CREATED
      else if ls_age_bucket loc \<noteq> Some Bucket_Aged_Out then Some RR_NOT_AGED_OUT
      else None)"

record recovery_snapshot =
  rs_bot_order_id :: string
  rs_gateway_order_id :: int
  rs_status :: payment_status
  rs_gateway_verified :: bool
  rs_link_age_seconds :: time
  rs_aged_out :: bool
  rs_reconciliation_attempts :: int

definition recovery_snapshot_of :: "payment \<Rightarrow> local_snapshot \<Rightarrow> recovery_snapshot" where
  "recovery_snapshot_of p loc =
     \<lparr>rs_bot_order_id = p_bot_order_id p, rs_gateway_order_id = p_gateway_order_id p, rs_status = p_status p,
      rs_gateway_verified = ls_is_gateway_verified loc, rs_link_age_seconds = ls_link_age_seconds loc,
      rs_aged_out = (ls_age_bucket loc = Some Bucket_Aged_Out), rs_reconciliation_attempts = p_reconciliation_attempts p\<rparr>"

definition build_preview :: "db \<Rightarrow> settings \<Rightarrow> int \<Rightarrow> time \<Rightarrow> (recovery_snapshot \<times> recovery_refusal option) option" where
  "build_preview d cfg payment_id now =
     map_option (\<lambda>(p, loc). (recovery_snapshot_of p loc, determine_recovery_refusal p loc)) (build_local_snapshot d cfg payment_id now)"

datatype recovery_kind = RK_REFUSED | RK_VERIFIED | RK_GATEWAY_NOT_PAID | RK_MANUAL_REVIEW | RK_TRANSPORT_FAILED

record recovery_outcome =
  ro_kind :: recovery_kind
  ro_gateway_request_performed :: "bool option"
  ro_delivery_uncertain :: bool
  ro_refusal :: "recovery_refusal option"
  ro_transport_error_code :: "string option"

definition recovered :: "recovery_kind \<Rightarrow> recovery_outcome" where
  "recovered kind =
     \<lparr>ro_kind = kind, ro_gateway_request_performed = Some True, ro_delivery_uncertain = False, ro_refusal = None,
      ro_transport_error_code = None\<rparr>"

fun settled_kind :: "settlement_outcome \<Rightarrow> recovery_kind \<times> string" where
  "settled_kind VERIFIED = (RK_VERIFIED, ''aged_out_recovery_verified'')"
| "settled_kind UNDER_REVIEW = (RK_MANUAL_REVIEW, ''aged_out_recovery_manual_review'')"
| "settled_kind GATEWAY_NOT_PAID = (RK_GATEWAY_NOT_PAID, ''aged_out_recovery_not_paid'')"

text \<open>The session holds the row lock; its clock is read after the lock was granted.\<close>

definition execute_confirmed_recovery ::
  "centralpay_client \<Rightarrow> transport \<Rightarrow> settings \<Rightarrow> session \<Rightarrow> int \<Rightarrow> session \<times> (recovery_snapshot \<times> recovery_outcome) option" where
  "execute_confirmed_recovery cl http cfg s payment_id =
     (case build_local_snapshot (work s) cfg payment_id (clock s) of
        None \<Rightarrow> (s, None)
      | Some (p, loc) \<Rightarrow>
          (let snap = recovery_snapshot_of p loc;
               goid = (''gateway_order_id'', JInt (p_gateway_order_id p));
               mark = (\<lambda>t ty lv d. record_event t (Some (p_id p)) ty lv (goid # d));
               s1 = mark s ''aged_out_recovery_requested'' ''info'' []
           in case determine_recovery_refusal p loc of
                Some refusal \<Rightarrow>
                  (commit (mark s1 ''aged_out_recovery_refused'' ''warning'' [(''reason'', JStr (recovery_refusal_value refusal))]),
                   Some (snap, \<lparr>ro_kind = RK_REFUSED, ro_gateway_request_performed = Some False, ro_delivery_uncertain = False,
                                ro_refusal = Some refusal, ro_transport_error_code = None\<rparr>))
              | None \<Rightarrow>
                  (case verify_and_settle cl http (Some cfg) Recovery_Source s1 p of
                     (s2, Inl exc) \<Rightarrow>
                       (commit (mark s2 ''aged_out_recovery_transport_failed'' ''error'' [(''error_code'', JStr (cp_code exc))]),
                        Some (snap, \<lparr>ro_kind = RK_TRANSPORT_FAILED, ro_gateway_request_performed = answered exc,
                                     ro_delivery_uncertain = (answered exc = None), ro_refusal = None,
                                     ro_transport_error_code = Some (cp_code exc)\<rparr>))
                   | (s2, Inr settled) \<Rightarrow>
                       (commit (mark s2 (snd (settled_kind settled)) ''info'' []),
                        Some (snap, recovered (fst (settled_kind settled)))))))"

definition cmd_recover_aged_out ::
  "centralpay_client \<Rightarrow> transport \<Rightarrow> settings \<Rightarrow> session \<Rightarrow> string \<Rightarrow> bool \<Rightarrow> session \<times> (lookup_error + int)" where
  "cmd_recover_aged_out cl http cfg s order_id confirm =
     (case find_payment_by_order_id (work s) order_id of
        Inl AmbiguousOrderIdError \<Rightarrow> (rollback s, Inr 1)
      | Inl e \<Rightarrow> (rollback s, Inl e)
      | Inr None \<Rightarrow> (rollback s, Inr 1)
      | Inr (Some found) \<Rightarrow>
          if \<not> confirm then (rollback s, Inr (if build_preview (work s) cfg (p_id found) (clock s) = None then 1 else 0))
          else case execute_confirmed_recovery cl http cfg (configure_alert_creation cfg s) (p_id found) of
                 (s1, None) \<Rightarrow> (rollback s1, Inr 1)
               | (s1, Some (_, out)) \<Rightarrow> (s1, Inr (if ro_kind out = RK_TRANSPORT_FAILED then 1 else 0)))"

section \<open>The prediction is what the settlement does\<close>

text \<open>The audit event the settlement records for a predicted reason.\<close>

fun review_event :: "review_reason \<Rightarrow> string" where
  "review_event REASON_MISSING_REFERENCE_ID = ''verify_missing_reference_id''"
| "review_event REASON_INVALID_REFERENCE_ID = ''verify_invalid_reference_id''"
| "review_event REASON_PAYABLE_AMOUNT_MISMATCH = ''verify_payable_amount_mismatch''"
| "review_event REASON_USER_ID_MISMATCH = ''verify_user_id_mismatch''"
| "review_event REASON_REFERENCE_ID_COLLISION = ''reference_id_collision''"

lemma settlement_by_prediction:
  assumes "verify cl http (p_gateway_order_id p) = Inr r"
  shows "(case vc_assessment (evaluate_verify_result (work s) p r) of
            NOT_SUCCESSFUL \<Rightarrow> snd (verify_and_settle cl http cfg src s p) = Inr GATEWAY_NOT_PAID
          | WOULD_VERIFY \<Rightarrow> snd (verify_and_settle cl http cfg src s p) = Inr VERIFIED
          | WOULD_REQUIRE_MANUAL_REVIEW \<Rightarrow>
              snd (verify_and_settle cl http cfg src s p) = Inr UNDER_REVIEW
            \<and> (\<exists>c. vc_reason_code (evaluate_verify_result (work s) p r) = Some c
                  \<and> has_event (fst (verify_and_settle cl http cfg src s p)) (Some (p_id p)) (review_event c)))"
proof (cases "vr_gateway_success r")
  case False
  then show ?thesis
    using assms by (simp add: evaluate_verify_result_def verify_and_settle_def Let_def)
next
  case True
  note unfold = evaluate_verify_result_def verify_and_settle_def validate_and_apply_verification_def Let_def
  consider "vr_reference_id r = None"
    | ref where "vr_reference_id r = Some ref" "vr_amount r \<noteq> Some (p_payable_amount p)"
    | ref where "vr_reference_id r = Some ref" "vr_amount r = Some (p_payable_amount p)" "vr_user_id r \<noteq> Some (p_gateway_user_id p)"
    | ref q where "vr_reference_id r = Some ref" "vr_amount r = Some (p_payable_amount p)"
        "vr_user_id r = Some (p_gateway_user_id p)" "colliding_payment (work s) p ref = Some q"
    | ref where "vr_reference_id r = Some ref" "vr_amount r = Some (p_payable_amount p)"
        "vr_user_id r = Some (p_gateway_user_id p)" "colliding_payment (work s) p ref = None"
    by (cases "vr_reference_id r"; cases "colliding_payment (work s) p (the (vr_reference_id r))") auto
  then show ?thesis
  proof cases
    case 5
    then show ?thesis using assms True by (simp add: unfold queue_notification_def)
  qed (use assms True in \<open>simp_all add: unfold move_to_manual_review_events\<close>)
qed

text \<open>
  C23. The diagnosis \<open>reconcile --verify\<close> prints for a gateway reply is the outcome the settlement
  reaches with the same reply on the same data: it predicts a verified, a reviewed or an unpaid
  payment exactly when \<open>verify_and_settle\<close> ends so, and for a review its reason is the one the
  settlement records.
\<close>

theorem diagnosis_predicts_settlement:
  assumes "verify cl http (p_gateway_order_id p) = Inr r"
  shows "(vc_assessment (evaluate_verify_result (work s) p r) = WOULD_VERIFY \<longleftrightarrow> snd (verify_and_settle cl http cfg src s p) = Inr VERIFIED)
       \<and> (vc_assessment (evaluate_verify_result (work s) p r) = WOULD_REQUIRE_MANUAL_REVIEW
            \<longleftrightarrow> snd (verify_and_settle cl http cfg src s p) = Inr UNDER_REVIEW)
       \<and> (vc_assessment (evaluate_verify_result (work s) p r) = NOT_SUCCESSFUL
            \<longleftrightarrow> snd (verify_and_settle cl http cfg src s p) = Inr GATEWAY_NOT_PAID)
       \<and> (\<forall>c. vc_reason_code (evaluate_verify_result (work s) p r) = Some c \<longrightarrow>
            has_event (fst (verify_and_settle cl http cfg src s p)) (Some (p_id p)) (review_event c))"
proof -
  have "vc_assessment (evaluate_verify_result (work s) p r) = WOULD_REQUIRE_MANUAL_REVIEW"
    if "vc_reason_code (evaluate_verify_result (work s) p r) = Some c" for c
    using that by (auto simp: evaluate_verify_result_def Let_def split: if_splits option.splits)
  then show ?thesis
    using settlement_by_prediction [OF assms, where s = s and cfg = cfg and src = src]
    by (cases "vc_assessment (evaluate_verify_result (work s) p r)") auto
qed

definition short_reply :: jdict where
  "short_reply = [(''referenceId'', JStr ''R9''), (''amount'', JInt 40000), (''userId'', JInt 777)]"

theorem diagnosis_predicts_settlement_witness:
  "(\<exists>r. verify demo_client (paid_reply short_reply) 1000001 = Inr r
     \<and> vc_reason_code (evaluate_verify_result (work (delivery_session [demo_payment 1 ''a''])) (demo_payment 1 ''a'') r) = Some REASON_PAYABLE_AMOUNT_MISMATCH)
 \<and> snd (verify_and_settle demo_client (paid_reply short_reply) None Recovery_Source (delivery_session [demo_payment 1 ''a'']) (demo_payment 1 ''a''))
     = Inr UNDER_REVIEW"
proof -
  let ?p = "demo_payment 1 ''a''" and ?s = "delivery_session [demo_payment 1 ''a'']"
  have ok: "(case verify demo_client (paid_reply short_reply) (p_gateway_order_id ?p) of
      Inr r \<Rightarrow> vc_reason_code (evaluate_verify_result (work ?s) ?p r) = Some REASON_PAYABLE_AMOUNT_MISMATCH
             \<and> vc_assessment (evaluate_verify_result (work ?s) ?p r) = WOULD_REQUIRE_MANUAL_REVIEW
    | Inl _ \<Rightarrow> False)"
    by code_simp
  then obtain r where r: "verify demo_client (paid_reply short_reply) (p_gateway_order_id ?p) = Inr r"
    by (cases "verify demo_client (paid_reply short_reply) (p_gateway_order_id ?p)") auto
  then show ?thesis
    using ok diagnosis_predicts_settlement [OF r, of ?s None Recovery_Source] by (auto simp: demo_payment_def)
qed

section \<open>What a recovery may do\<close>

lemma recovery_eligible:
  "determine_recovery_refusal p (local_snapshot_of cfg now p) = None \<longleftrightarrow> aged_out_conditions cfg now p"
  by (cases "p_status p") (auto simp: determine_recovery_refusal_def local_snapshot_of_def Let_def aged_out_conditions_def VERIFIED_STATUSES_def split: if_splits)

lemma verify_and_settle_clean:
  "durable (fst (verify_and_settle cl http cfg src s p)) = work (fst (verify_and_settle cl http cfg src s p))"
proof (cases rule: verify_and_settle_cases [of cl http p s cfg src])
  case (settled r)
  then show ?thesis using apply_settles(3) [OF settled(2), of cfg] by simp
qed simp_all

lemma recovery_run:
  assumes "payment_by_id (work s) i = Some p" "aged_out_conditions cfg (clock s) p"
  shows "\<exists>s1. payments (work s1) = payments (work s) \<and> durable s1 = durable s
    \<and> payments (durable (fst (execute_confirmed_recovery cl http cfg s i)))
        = payments (durable (fst (verify_and_settle cl http (Some cfg) Recovery_Source s1 p)))
    \<and> (\<forall>snap out. snd (execute_confirmed_recovery cl http cfg s i) = Some (snap, out) \<longrightarrow>
         (ro_kind out = RK_VERIFIED \<longleftrightarrow> snd (verify_and_settle cl http (Some cfg) Recovery_Source s1 p) = Inr VERIFIED))"
proof (rule exI, intro conjI)
  let ?s1 = "record_event s (Some (p_id p)) ''aged_out_recovery_requested'' ''info'' [(''gateway_order_id'', JInt (p_gateway_order_id p))]"
  obtain s2 r where vs: "verify_and_settle cl http (Some cfg) Recovery_Source ?s1 p = (s2, r)" by fastforce
  have ok: "determine_recovery_refusal p (local_snapshot_of cfg (clock s) p) = None" using assms(2) by (simp add: recovery_eligible)
  show "payments (work ?s1) = payments (work s)" "durable ?s1 = durable s" by simp_all
  show "payments (durable (fst (execute_confirmed_recovery cl http cfg s i)))
      = payments (durable (fst (verify_and_settle cl http (Some cfg) Recovery_Source ?s1 p)))"
    unfolding verify_and_settle_clean
    using assms(1) ok vs by (simp add: execute_confirmed_recovery_def build_local_snapshot_def Let_def split: sum.split)
  show "\<forall>snap out. snd (execute_confirmed_recovery cl http cfg s i) = Some (snap, out) \<longrightarrow>
         (ro_kind out = RK_VERIFIED \<longleftrightarrow> snd (verify_and_settle cl http (Some cfg) Recovery_Source ?s1 p) = Inr VERIFIED)"
  proof (cases r)
    case (Inr out)
    then show ?thesis
      using assms(1) ok vs by (cases out) (auto simp: execute_confirmed_recovery_def build_local_snapshot_def Let_def recovered_def)
  qed (use assms(1) ok vs in \<open>auto simp: execute_confirmed_recovery_def build_local_snapshot_def Let_def\<close>)
qed

lemma recovery_refused:
  assumes "\<And>p. payment_by_id (work s) i = Some p \<Longrightarrow> \<not> aged_out_conditions cfg (clock s) p" "work s = durable s"
  shows "execute_confirmed_recovery cl http cfg s i = execute_confirmed_recovery cl http' cfg s i
       \<and> payments (durable (fst (execute_confirmed_recovery cl http cfg s i))) = payments (durable s)"
proof (cases "payment_by_id (work s) i")
  case None
  then show ?thesis using assms(2) by (simp add: execute_confirmed_recovery_def build_local_snapshot_def)
next
  case (Some p)
  then obtain refusal where "determine_recovery_refusal p (local_snapshot_of cfg (clock s) p) = Some refusal"
    using assms(1) recovery_eligible by (metis not_None_eq)
  then show ?thesis using Some assms(2) by (simp add: execute_confirmed_recovery_def build_local_snapshot_def Let_def)
qed

text \<open>
  A confirmed recovery reaches the gateway only for a payment in the worker's own aged-out tier:
  for any other payment its result is the same whatever the gateway would answer, and the payment
  table stays as it is. For an aged-out payment it reports a verified payment exactly when the
  reply confirms amount, payer and an unused reference id.
\<close>

theorem recovery_gate:
  assumes "work s = durable s" "payment_by_id (durable s) i = Some p"
  shows "(\<not> aged_out_conditions cfg (clock s) p \<longrightarrow>
            execute_confirmed_recovery cl http cfg s i = execute_confirmed_recovery cl http' cfg s i
          \<and> payments (durable (fst (execute_confirmed_recovery cl http cfg s i))) = payments (durable s))
       \<and> (aged_out_conditions cfg (clock s) p \<longrightarrow>
            (\<exists>snap out. snd (execute_confirmed_recovery cl http cfg s i) = Some (snap, out)
               \<and> (ro_kind out = RK_VERIFIED \<longleftrightarrow>
                    (\<exists>r. verify cl http (p_gateway_order_id p) = Inr r \<and> settles (durable s) p r))))"
proof (intro conjI impI)
  assume "\<not> aged_out_conditions cfg (clock s) p"
  then have "execute_confirmed_recovery cl http cfg s i = execute_confirmed_recovery cl http' cfg s i
      \<and> payments (durable (fst (execute_confirmed_recovery cl http cfg s i))) = payments (durable s)"
    using assms by (intro recovery_refused) simp_all
  then show "execute_confirmed_recovery cl http cfg s i = execute_confirmed_recovery cl http' cfg s i"
    "payments (durable (fst (execute_confirmed_recovery cl http cfg s i))) = payments (durable s)"
    by blast+
next
  assume aged: "aged_out_conditions cfg (clock s) p"
  obtain s1 where s1: "payments (work s1) = payments (work s)"
    "\<And>snap out. snd (execute_confirmed_recovery cl http cfg s i) = Some (snap, out) \<Longrightarrow>
         (ro_kind out = RK_VERIFIED \<longleftrightarrow> snd (verify_and_settle cl http (Some cfg) Recovery_Source s1 p) = Inr VERIFIED)"
    using recovery_run [of s i p cfg cl http] assms aged by auto
  have set: "settles (work s1) p r = settles (durable s) p r" for r using s1(1) assms(1) by (simp add: settles_def)
  have "snd (verify_and_settle cl http (Some cfg) Recovery_Source s1 p) = Inr VERIFIED
      \<longleftrightarrow> (\<exists>r. verify cl http (p_gateway_order_id p) = Inr r \<and> settles (durable s) p r)"
    by (cases rule: verify_and_settle_cases [of cl http p s1 "Some cfg" Recovery_Source]) (auto simp: set)
  moreover have "\<exists>snap out. snd (execute_confirmed_recovery cl http cfg s i) = Some (snap, out)"
    using assms aged recovery_eligible [of p cfg "clock s"]
    by (simp add: execute_confirmed_recovery_def build_local_snapshot_def Let_def split: sum.split prod.split)
  ultimately show "\<exists>snap out. snd (execute_confirmed_recovery cl http cfg s i) = Some (snap, out)
      \<and> (ro_kind out = RK_VERIFIED \<longleftrightarrow> (\<exists>r. verify cl http (p_gateway_order_id p) = Inr r \<and> settles (durable s) p r))"
    using s1(2) by blast
qed

theorem recovery_gate_witness:
  "aged_out_conditions demo_settings 90000 (demo_payment 1 ''a'')
 \<and> (\<exists>snap out. snd (execute_confirmed_recovery demo_client (paid_reply good_data) demo_settings
        (new_session (empty_db\<lparr>payments := [demo_payment 1 ''a'']\<rparr>) 90000) 1) = Some (snap, out)
      \<and> (ro_kind out = RK_VERIFIED \<longleftrightarrow>
           (\<exists>r. verify demo_client (paid_reply good_data) (p_gateway_order_id (demo_payment 1 ''a'')) = Inr r
              \<and> settles (empty_db\<lparr>payments := [demo_payment 1 ''a'']\<rparr>) (demo_payment 1 ''a'') r)))"
proof -
  let ?p = "demo_payment 1 ''a''" and ?s = "new_session (empty_db\<lparr>payments := [demo_payment 1 ''a'']\<rparr>) 90000"
  have aged: "aged_out_conditions demo_settings 90000 ?p" by code_simp
  have s: "work ?s = durable ?s" "payment_by_id (durable ?s) 1 = Some ?p" "clock ?s = 90000"
    "durable ?s = empty_db\<lparr>payments := [?p]\<rparr>"
    by (simp_all add: new_session_def payment_by_id_def find_row_def demo_payment_def)
  show ?thesis
    using recovery_gate [OF s(1,2), of demo_settings demo_client "paid_reply good_data" "paid_reply good_data"] aged
    unfolding s(3,4) by blast
qed

end
