(* ===== verification/Alert_Delivery.thy ===== *)
theory Alert_Delivery
  imports Audit_Trail
begin

text \<open>
  The delivery half of the administrator alert outbox (second part of \<open>app/adminbot/alerts.py\<close>) and the
  classification of Telegram failures (\<open>app/adminbot/telegram.py\<close>): recovering stale claims, claiming
  due alerts, sending one alert to every administrator, recording the result under the claim
  ownership rule, and the polling pass.

  Rows locked by other sessions, commits of other sessions between two transactions, clock
  readings, jitter, the formatted message and the answers of Telegram are arguments.
\<close>

section \<open>Sending\<close>

record send_outcome =
  so_ok :: bool
  so_retryable :: bool
  so_retry_after_seconds :: "int option"
  so_error_code :: "string option"

text \<open>The exception classes of the Telegram library the code tells apart, most specific first.\<close>

datatype telegram_exception =
    RetryAfter int
  | InvalidToken
  | Forbidden
  | BadRequest
  | TimedOutOrNetwork
  | TelegramError
  | OtherException

definition failed_send :: "bool \<Rightarrow> int option \<Rightarrow> string \<Rightarrow> send_outcome" where
  "failed_send retryable after code = \<lparr>so_ok = False, so_retryable = retryable, so_retry_after_seconds = after, so_error_code = Some code\<rparr>"

fun classify_send_error :: "telegram_exception \<Rightarrow> send_outcome" where
  "classify_send_error (RetryAfter seconds) = failed_send True (Some (seconds + 1)) ''telegram_429''"
| "classify_send_error InvalidToken = failed_send False None ''telegram_invalid_token''"
| "classify_send_error Forbidden = failed_send False None ''telegram_forbidden''"
| "classify_send_error BadRequest = failed_send False None ''telegram_bad_request''"
| "classify_send_error TimedOutOrNetwork = failed_send True None ''telegram_network''"
| "classify_send_error TelegramError = failed_send True None ''telegram_error''"
| "classify_send_error OtherException = failed_send True None ''telegram_unknown''"

definition telegram_send :: "telegram_exception option \<Rightarrow> send_outcome" where
  "telegram_send reply =
     (case reply of
        None \<Rightarrow> \<lparr>so_ok = True, so_retryable = False, so_retry_after_seconds = None, so_error_code = None\<rparr>
      | Some exc \<Rightarrow> classify_send_error exc)"

text \<open>The aggregated outcome over all recipients.\<close>

record send_tally =
  st_delivered :: nat
  st_retryable :: bool
  st_retry_after :: "int option"
  st_error_code :: "string option"

text \<open>
  The chunks of one recipient, up to the first that fails; \<open>send k\<close> is the answer to the \<open>k\<close>-th
  message of this delivery.
\<close>

fun send_chunks :: "(nat \<Rightarrow> int \<Rightarrow> string \<Rightarrow> send_outcome) \<Rightarrow> nat \<Rightarrow> int \<Rightarrow> string list \<Rightarrow> nat \<times> send_outcome option" where
  "send_chunks send k chat_id [] = (k, None)"
| "send_chunks send k chat_id (chunk # chunks) =
     (let outcome = send k chat_id chunk
      in if so_ok outcome then send_chunks send (k + 1) chat_id chunks else (k + 1, Some outcome))"

definition note_failure :: "send_tally \<Rightarrow> send_outcome \<Rightarrow> send_tally" where
  "note_failure t outcome =
     (let t = t\<lparr>st_error_code := str_or (st_error_code t) (so_error_code outcome)\<rparr>
      in if so_retryable outcome then
           t\<lparr>st_retryable := True,
             st_retry_after := (case so_retry_after_seconds outcome of
                                  None \<Rightarrow> st_retry_after t
                                | Some r \<Rightarrow> Some (max (case st_retry_after t of None \<Rightarrow> 0 | Some x \<Rightarrow> x) r))\<rparr>
         else t)"

fun send_to_all :: "(nat \<Rightarrow> int \<Rightarrow> string \<Rightarrow> send_outcome) \<Rightarrow> nat \<Rightarrow> string list \<Rightarrow> send_tally \<Rightarrow> int list \<Rightarrow> send_tally" where
  "send_to_all send k messages t [] = t"
| "send_to_all send k messages t (chat_id # chats) =
     (case send_chunks send k chat_id messages of
        (k, None) \<Rightarrow> send_to_all send k messages (t\<lparr>st_delivered := st_delivered t + 1\<rparr>) chats
      | (k, Some outcome) \<Rightarrow> send_to_all send k messages (note_failure t outcome) chats)"

definition delivery_tally :: "(nat \<Rightarrow> int \<Rightarrow> string \<Rightarrow> send_outcome) \<Rightarrow> string list \<Rightarrow> int list \<Rightarrow> send_tally" where
  "delivery_tally send messages admin_ids =
     (let t = send_to_all send 0 messages \<lparr>st_delivered = 0, st_retryable = False, st_retry_after = None, st_error_code = None\<rparr> admin_ids
      in if st_delivered t > 0 then t\<lparr>st_error_code := map_option (\<lambda>c. ''partial:'' @ c) (st_error_code t)\<rparr> else t)"

section \<open>Claims\<close>

record claimed_alert =
  ca_alert_id :: int
  ca_alert_type :: string
  ca_severity :: string
  ca_payment_id :: "int option"
  ca_payload :: jdict
  ca_attempts :: int
  ca_worker_id :: string

definition ALERT_RETRY_DELAYS_SECONDS :: "rat list" where
  "ALERT_RETRY_DELAYS_SECONDS = [30, 60, 120, 300, 900, 1800]"

definition alert_retry_delay_seconds :: "int \<Rightarrow> int option \<Rightarrow> rat \<Rightarrow> rat" where
  "alert_retry_delay_seconds attempts_completed retry_after_seconds jitter =
     (let index = nat (min (max attempts_completed 1) (int (length ALERT_RETRY_DELAYS_SECONDS)) - 1);
          delay = ALERT_RETRY_DELAYS_SECONDS ! index * jitter
      in case retry_after_seconds of
           None \<Rightarrow> delay
         | Some r \<Rightarrow> if of_int r > delay then of_int r else delay)"

definition put_alerts :: "session \<Rightarrow> admin_alert list \<Rightarrow> session" where
  "put_alerts s alerts = s\<lparr>work := (work s)\<lparr>admin_alerts := alerts\<rparr>\<rparr>"

definition stale_alert :: "settings \<Rightarrow> time \<Rightarrow> admin_alert \<Rightarrow> bool" where
  "stale_alert cfg now a \<longleftrightarrow>
     al_status a = AL_SENDING
   \<and> (case al_claimed_at a of None \<Rightarrow> False | Some t \<Rightarrow> t \<le> now - admin_bot_alert_claim_timeout_seconds cfg)"

definition released_alert :: "time \<Rightarrow> admin_alert \<Rightarrow> admin_alert" where
  "released_alert now a = a\<lparr>al_status := AL_PENDING, al_claimed_at := None, al_claimed_by := None, al_next_retry_at := Some now\<rparr>"

definition release_stale_alert_claims :: "settings \<Rightarrow> (int \<Rightarrow> bool) \<Rightarrow> session \<Rightarrow> time \<Rightarrow> session \<times> nat" where
  "release_stale_alert_claims cfg locked s now =
     (let stale = (\<lambda>a. stale_alert cfg now a \<and> \<not> locked (al_id a));
          n = length (filter stale (admin_alerts (work s)))
      in if n = 0 then (rollback s, 0)
         else (commit (put_alerts s (map (\<lambda>a. if stale a then released_alert now a else a) (admin_alerts (work s)))), n))"

definition alert_due :: "time \<Rightarrow> admin_alert \<Rightarrow> bool" where
  "alert_due now a \<longleftrightarrow>
     al_status a \<in> {AL_PENDING, AL_RETRY_SCHEDULED}
   \<and> (case al_next_retry_at a of None \<Rightarrow> True | Some t \<Rightarrow> t \<le> now) \<and> al_claimed_at a = None"

definition claimed_state :: "string \<Rightarrow> time \<Rightarrow> admin_alert \<Rightarrow> admin_alert" where
  "claimed_state worker_id now a =
     a\<lparr>al_status := AL_SENDING, al_claimed_at := Some now, al_claimed_by := Some worker_id, al_attempts := al_attempts a + 1\<rparr>"

definition as_claimed :: "string \<Rightarrow> admin_alert \<Rightarrow> claimed_alert" where
  "as_claimed worker_id a =
     \<lparr>ca_alert_id = al_id a, ca_alert_type = al_alert_type a, ca_severity = al_severity a,
      ca_payment_id = al_payment_id a, ca_payload = al_payload a, ca_attempts = al_attempts a, ca_worker_id = worker_id\<rparr>"

definition claim_due_alerts :: "(int \<Rightarrow> bool) \<Rightarrow> session \<Rightarrow> string \<Rightarrow> time \<Rightarrow> nat \<Rightarrow> session \<times> claimed_alert list" where
  "claim_due_alerts locked s worker_id now limit =
     (let alerts = first_n_by al_id limit (filter (\<lambda>a. alert_due now a \<and> \<not> locked (al_id a)) (admin_alerts (work s)))
      in if alerts = [] then (rollback s, [])
         else (commit (put_alerts s (map (\<lambda>a. if a \<in> set alerts then claimed_state worker_id now a else a) (admin_alerts (work s)))),
               map (as_claimed worker_id \<circ> claimed_state worker_id now) alerts))"

section \<open>Recording the result\<close>

datatype delivery_status = Recorded alert_status | Discarded

definition owns_alert :: "claimed_alert \<Rightarrow> admin_alert \<Rightarrow> bool" where
  "owns_alert c a \<longleftrightarrow>
     al_status a = AL_SENDING \<and> al_claimed_by a = Some (ca_worker_id c) \<and> al_attempts a = ca_attempts c \<and> al_claimed_at a \<noteq> None"

definition result_state :: "settings \<Rightarrow> claimed_alert \<Rightarrow> send_tally \<Rightarrow> time \<Rightarrow> rat \<Rightarrow> admin_alert \<Rightarrow> admin_alert" where
  "result_state cfg c t now jitter a =
     (let a = a\<lparr>al_claimed_at := None, al_claimed_by := None, al_last_error_code := st_error_code t\<rparr>
      in if st_delivered t > 0 then a\<lparr>al_status := AL_DELIVERED, al_delivered_at := Some now, al_next_retry_at := None\<rparr>
         else if st_retryable t \<and> ca_attempts c < admin_bot_alert_max_attempts cfg then
           a\<lparr>al_status := AL_RETRY_SCHEDULED,
             al_next_retry_at := Some (now + alert_retry_delay_seconds (ca_attempts c) (st_retry_after t) jitter)\<rparr>
         else a\<lparr>al_status := AL_FAILED, al_next_retry_at := None\<rparr>)"

definition opt_json :: "string option \<Rightarrow> json" where
  "opt_json v = (case v of None \<Rightarrow> JNull | Some s \<Rightarrow> JStr s)"

text \<open>\<open>None\<close> when \<open>scalar_one\<close> finds no row.\<close>

definition record_delivery_result ::
  "settings \<Rightarrow> session \<Rightarrow> claimed_alert \<Rightarrow> send_tally \<Rightarrow> time \<Rightarrow> rat \<Rightarrow> (session \<times> delivery_status) option" where
  "record_delivery_result cfg s c t now jitter =
     (case find_row al_id (admin_alerts (work s)) (ca_alert_id c) of
        None \<Rightarrow> None
      | Some a \<Rightarrow>
          if \<not> owns_alert c a then
            Some (commit (record_event s (al_payment_id a) ''admin_alert_result_discarded'' ''warning''
                    [(''alert_id'', JInt (al_id a)), (''stale_attempt'', JInt (ca_attempts c)),
                     (''stale_worker_id'', JStr (ca_worker_id c)),
                     (''observed_status'', JStr (alert_status_value (al_status a))),
                     (''observed_attempts'', JInt (al_attempts a))]), Discarded)
          else
            (let a' = result_state cfg c t now jitter a;
                 s1 = put_alerts s (put_row al_id a' (admin_alerts (work s)));
                 base = [(''alert_id'', JInt (al_id a)), (''alert_type'', JStr (al_alert_type a))];
                 s2 = (case al_status a' of
                         AL_DELIVERED \<Rightarrow> record_event s1 (al_payment_id a) ''admin_alert_delivered'' ''info''
                           (base @ [(''recipients'', JInt (int (st_delivered t))), (''attempt'', JInt (ca_attempts c))])
                       | AL_FAILED \<Rightarrow> record_event s1 (al_payment_id a) ''admin_alert_failed'' ''error''
                           (base @ [(''attempt'', JInt (ca_attempts c)), (''error_code'', opt_json (st_error_code t))])
                       | _ \<Rightarrow> s1)
             in Some (commit s2, Recorded (al_status a'))))"

section \<open>One delivery and one pass\<close>

record alert_env =
  ae_others :: "nat \<Rightarrow> db \<Rightarrow> db"
  ae_locked :: "nat \<Rightarrow> int \<Rightarrow> bool"
  ae_now :: "nat \<Rightarrow> time"
  ae_jitter :: "nat \<Rightarrow> rat"
  ae_messages :: "nat \<Rightarrow> claimed_alert \<Rightarrow> db \<Rightarrow> string list"
  ae_send :: "nat \<Rightarrow> nat \<Rightarrow> int \<Rightarrow> string \<Rightarrow> send_outcome"

text \<open>The \<open>k\<close>-th delivery of a pass: format, send to every administrator, record in a new session.\<close>

definition deliver_claimed_alert ::
  "settings \<Rightarrow> alert_env \<Rightarrow> nat \<Rightarrow> int list \<Rightarrow> session \<Rightarrow> claimed_alert \<Rightarrow> (session \<times> delivery_status) option" where
  "deliver_claimed_alert cfg env k admin_ids s c =
     (let messages = ae_messages env k c (durable s);
          t = delivery_tally (ae_send env k) messages admin_ids
      in record_delivery_result cfg (rollback_seeing (ae_others env k) s) c t (ae_now env k) (ae_jitter env k))"

fun deliver_all :: "settings \<Rightarrow> alert_env \<Rightarrow> nat \<Rightarrow> int list \<Rightarrow> session \<Rightarrow> claimed_alert list \<Rightarrow> session option" where
  "deliver_all cfg env k admin_ids s [] = Some s"
| "deliver_all cfg env k admin_ids s (c # cs) =
     (case deliver_claimed_alert cfg env k admin_ids s c of
        None \<Rightarrow> None
      | Some (s, _) \<Rightarrow> deliver_all cfg env (k + 1) admin_ids s cs)"

definition ALERT_CLAIM_LIMIT :: nat where
  "ALERT_CLAIM_LIMIT = 10"

definition alert_delivery_pass :: "settings \<Rightarrow> alert_env \<Rightarrow> int list \<Rightarrow> string \<Rightarrow> session \<Rightarrow> (session \<times> nat) option" where
  "alert_delivery_pass cfg env admin_ids worker_id s =
     (let s = fst (release_stale_alert_claims cfg (ae_locked env 0) (rollback_seeing (ae_others env 0) s) (ae_now env 0));
          (s, claimed) = claim_due_alerts (ae_locked env 1) (rollback_seeing (ae_others env 1) s) worker_id (ae_now env 1) ALERT_CLAIM_LIMIT
      in map_option (\<lambda>s. (s, length claimed)) (deliver_all cfg env 2 admin_ids s claimed))"

section \<open>The life of an alert\<close>

inductive alert_step :: "settings \<Rightarrow> admin_alert \<Rightarrow> admin_alert \<Rightarrow> bool" for cfg where
  claim: "al_status a \<in> {AL_PENDING, AL_RETRY_SCHEDULED} \<Longrightarrow> al_claimed_at a = None \<Longrightarrow>
     alert_step cfg a (claimed_state w now a)"
| release: "al_status a = AL_SENDING \<Longrightarrow> alert_step cfg a (released_alert now a)"
| result: "owns_alert c a \<Longrightarrow> alert_step cfg a (result_state cfg c t now jitter a)"

inductive_cases alert_stepE: "alert_step cfg a b"

lemma put_alerts_sel [simp]:
  "admin_alerts (work (put_alerts s xs)) = xs" "durable (put_alerts s xs) = durable s"
  "payments (work (put_alerts s xs)) = payments (work s)" "alert_policy (put_alerts s xs) = alert_policy s"
  by (simp_all add: put_alerts_def)

lemma claimed_state_sel [simp]:
  "al_id (claimed_state w now a) = al_id a" "al_status (claimed_state w now a) = AL_SENDING"
  "al_attempts (claimed_state w now a) = al_attempts a + 1" "al_claimed_by (claimed_state w now a) = Some w"
  "al_claimed_at (claimed_state w now a) = Some now"
  by (simp_all add: claimed_state_def)

lemma released_alert_sel [simp]:
  "al_id (released_alert now a) = al_id a" "al_status (released_alert now a) = AL_PENDING"
  "al_attempts (released_alert now a) = al_attempts a" "al_claimed_at (released_alert now a) = None"
  by (simp_all add: released_alert_def)

lemma result_state_sel [simp]:
  "al_id (result_state cfg c t now j a) = al_id a" "al_attempts (result_state cfg c t now j a) = al_attempts a"
  "al_claimed_at (result_state cfg c t now j a) = None"
  "st_delivered t > 0 \<Longrightarrow> al_status (result_state cfg c t now j a) = AL_DELIVERED"
  by (simp_all add: result_state_def Let_def)

text \<open>What a step can do: no content changes, finished alerts stay as they are, attempts only grow.\<close>

lemma alert_step_facts:
  assumes "alert_step cfg a b"
  shows "al_id b = al_id a" "al_alert_type b = al_alert_type a" "al_payload b = al_payload a" "al_payment_id b = al_payment_id a"
    "al_attempts a \<le> al_attempts b" "al_status a \<notin> {AL_DELIVERED, AL_FAILED, AL_SUPPRESSED}"
  using assms by (cases; auto simp: claimed_state_def released_alert_def result_state_def owns_alert_def Let_def)+

lemma alert_steps_facts:
  assumes "(alert_step cfg)\<^sup>*\<^sup>* a b"
  shows "al_id b = al_id a \<and> al_alert_type b = al_alert_type a \<and> al_payload b = al_payload a \<and> al_payment_id b = al_payment_id a
       \<and> al_attempts a \<le> al_attempts b \<and> (al_status a \<in> {AL_DELIVERED, AL_FAILED, AL_SUPPRESSED} \<longrightarrow> b = a)"
  using assms
proof (induction rule: rtranclp_induct)
  case (step y z)
  then show ?case using alert_step_facts [OF step(2)] by fastforce
qed simp

text \<open>Events of the delivery are mapped to no alert.\<close>

lemma record_event_alert_tables:
  assumes "ty \<in> {''admin_alert_result_discarded'', ''admin_alert_delivered'', ''admin_alert_failed''}"
  shows "record_event s pid ty lv d = insert_event s pid ty lv d"
proof -
  have "map_event s' pol ty pid d = s'" for s' pol
    using assms by (elim insertE emptyE) (simp_all add: map_event_def mismatch_reasons_def)
  then show ?thesis by (simp add: record_event_def on_audit_event_def split: option.split)
qed

lemma insert_event_alerts [simp]:
  "admin_alerts (work (insert_event s pid ty lv d)) = admin_alerts (work s)"
  "payments (work (insert_event s pid ty lv d)) = payments (work s)" "durable (insert_event s pid ty lv d) = durable s"
  by (simp_all add: insert_event_def Let_def)

definition alerts_move :: "settings \<Rightarrow> db \<Rightarrow> db \<Rightarrow> bool" where
  "alerts_move cfg d d' \<longleftrightarrow> list_all2 (alert_step cfg)\<^sup>*\<^sup>* (admin_alerts d) (admin_alerts d') \<and> payments d' = payments d"

lemma alerts_move_map:
  assumes "admin_alerts d' = map (\<lambda>a. if P a then f a else a) (admin_alerts d)" "payments d' = payments d"
    and "\<And>a. a \<in> set (admin_alerts d) \<Longrightarrow> P a \<Longrightarrow> alert_step cfg a (f a)"
  shows "alerts_move cfg d d'"
  unfolding alerts_move_def assms(1,2) list_all2_map2 using assms(3) by (auto intro!: list.rel_refl_strong)

lemma release_alerts_move:
  assumes "work s = durable s"
  shows "alerts_move cfg (durable s) (durable (fst (release_stale_alert_claims cfg locked s now)))
       \<and> work (fst (release_stale_alert_claims cfg locked s now)) = durable (fst (release_stale_alert_claims cfg locked s now))"
proof (cases "filter (\<lambda>a. stale_alert cfg now a \<and> \<not> locked (al_id a)) (admin_alerts (work s)) = []")
  case True
  then show ?thesis
    by (simp add: release_stale_alert_claims_def Let_def alerts_move_def list.rel_refl_strong)
next
  case False
  then show ?thesis
    using assms
    by (auto simp: release_stale_alert_claims_def Let_def stale_alert_def
        intro!: alerts_move_map [where P = "\<lambda>a. stale_alert cfg now a \<and> \<not> locked (al_id a)" and f = "released_alert now"] alert_step.release)
qed

lemma claim_alerts_move:
  assumes "work s = durable s"
  shows "alerts_move cfg (durable s) (durable (fst (claim_due_alerts locked s w now n)))
       \<and> work (fst (claim_due_alerts locked s w now n)) = durable (fst (claim_due_alerts locked s w now n))"
proof -
  let ?due = "filter (\<lambda>a. alert_due now a \<and> \<not> locked (al_id a)) (admin_alerts (work s))"
  let ?sel = "first_n_by al_id n ?due"
  show ?thesis
  proof (cases "?sel = []")
    case True
    then show ?thesis by (simp add: claim_due_alerts_def alerts_move_def list.rel_refl_strong)
  next
    case False
    have "alert_step cfg a (claimed_state w now a)" if "a \<in> set ?sel" for a
      using that set_first_n_by [of al_id n ?due] by (intro alert_step.claim) (auto simp: alert_due_def)
    then show ?thesis
      using False assms
      by (auto simp: claim_due_alerts_def Let_def
          intro!: alerts_move_map [where P = "\<lambda>a. a \<in> set ?sel" and f = "claimed_state w now"])
  qed
qed

text \<open>The result of an attempt: the row as it is written, or nothing for a claim that is no longer owned.\<close>

lemma record_delivery_result_cases:
  assumes "record_delivery_result cfg s c t now j = Some (s', st)"
  obtains (discarded) a where "find_row al_id (admin_alerts (work s)) (ca_alert_id c) = Some a" "\<not> owns_alert c a" "st = Discarded"
      "admin_alerts (durable s') = admin_alerts (work s)" "payments (durable s') = payments (work s)" "work s' = durable s'"
      "has_event s' (al_payment_id a) ''admin_alert_result_discarded''"
    | (recorded) a where "find_row al_id (admin_alerts (work s)) (ca_alert_id c) = Some a" "owns_alert c a"
      "st = Recorded (al_status (result_state cfg c t now j a))"
      "admin_alerts (durable s') = put_row al_id (result_state cfg c t now j a) (admin_alerts (work s))"
      "payments (durable s') = payments (work s)" "work s' = durable s'"
proof -
  obtain a where a: "find_row al_id (admin_alerts (work s)) (ca_alert_id c) = Some a"
    using assms by (auto simp: record_delivery_result_def split: option.splits)
  show thesis
  proof (cases "owns_alert c a")
    case True
    then show thesis
      using assms a by (intro recorded [of a])
        (auto simp: record_delivery_result_def record_event_alert_tables Let_def split: alert_status.splits)
  next
    case False
    then show thesis
      using assms a by (intro discarded [of a])
        (auto simp: record_delivery_result_def record_event_alert_tables has_event_insert)
  qed
qed

lemma record_delivery_result_Some:
  assumes "find_row al_id (admin_alerts (work s)) (ca_alert_id c) = Some a"
  obtains s' st where "record_delivery_result cfg s c t now j = Some (s', st)"
  using assms by (cases "owns_alert c a") (simp_all add: record_delivery_result_def Let_def)

lemma result_alerts_move:
  assumes "work s = durable s" "distinct (map al_id (admin_alerts (durable s)))"
    and "record_delivery_result cfg s c t now j = Some (s', st)"
  shows "alerts_move cfg (durable s) (durable s') \<and> work s' = durable s'"
  using assms(3)
proof (cases rule: record_delivery_result_cases)
  case (discarded a)
  then show ?thesis using assms(1) by (simp add: alerts_move_def list.rel_refl_strong)
next
  case (recorded a)
  have "list_all2 (alert_step cfg)\<^sup>*\<^sup>* (admin_alerts (durable s)) (put_row al_id (result_state cfg c t now j a) (admin_alerts (durable s)))"
    by (rule put_row_list_all2 [OF assms(2), of "ca_alert_id c" a])
       (use recorded(1,2) assms(1) find_row_Some [OF recorded(1)] in \<open>auto intro: alert_step.result\<close>)
  then show ?thesis using recorded(4-6) assms(1) by (simp add: alerts_move_def)
qed

section \<open>Properties\<close>

text \<open>
  Refinement: recovering stale claims, claiming due alerts and recording a result move every
  alert along the alert machine, and nothing else: the alert's content never changes, attempts
  only grow, an alert that is delivered, failed or suppressed stays exactly as it is, and no
  payment is touched.
\<close>

theorem alert_operations_refine:
  assumes "work s = durable s" "distinct (map al_id (admin_alerts (durable s)))"
    and "s' = fst (release_stale_alert_claims cfg locked s now) \<or> s' = fst (claim_due_alerts locked s w now n)
       \<or> record_delivery_result cfg s c t now j = Some (s', st)"
  shows "list_all2 (\<lambda>a b. (alert_step cfg)\<^sup>*\<^sup>* a b \<and> al_payload b = al_payload a \<and> al_attempts a \<le> al_attempts b
             \<and> (al_status a \<in> {AL_DELIVERED, AL_FAILED, AL_SUPPRESSED} \<longrightarrow> b = a)) (admin_alerts (durable s)) (admin_alerts (durable s'))
       \<and> payments (durable s') = payments (durable s) \<and> work s' = durable s'"
proof -
  have "alerts_move cfg (durable s) (durable s') \<and> work s' = durable s'"
    using assms(3) release_alerts_move [OF assms(1)] claim_alerts_move [OF assms(1)] result_alerts_move [OF assms(1,2)] by blast
  then show ?thesis unfolding alerts_move_def by (auto elim!: list_all2_mono dest: alert_steps_facts)
qed

definition pending_alert :: "int \<Rightarrow> admin_alert" where
  "pending_alert i =
     \<lparr>al_id = i, al_alert_type = ''retry_limit_reached'', al_severity = ''critical'', al_payment_id = Some 1,
      al_deduplication_key = None, al_payload = [], al_status = AL_PENDING, al_attempts = 0, al_next_retry_at = Some 1,
      al_claimed_at = None, al_claimed_by = None, al_delivered_at = None, al_last_error_code = None, al_created_at = 1\<rparr>"

definition alert_session :: "admin_alert list \<Rightarrow> session" where
  "alert_session as = new_session (empty_db\<lparr>admin_alerts := as\<rparr>) 50"

lemma alert_session_sel [simp]:
  "work (alert_session as) = empty_db\<lparr>admin_alerts := as\<rparr>" "durable (alert_session as) = empty_db\<lparr>admin_alerts := as\<rparr>"
  by (simp_all add: alert_session_def new_session_def)

theorem alert_operations_refine_witness:
  "list_all2 (\<lambda>a b. (alert_step demo_settings)\<^sup>*\<^sup>* a b) [pending_alert 1]
     (admin_alerts (durable (fst (claim_due_alerts (\<lambda>_. False) (alert_session [pending_alert 1]) ''w'' 60 10))))"
  using alert_operations_refine [of "alert_session [pending_alert 1]"
      "fst (claim_due_alerts (\<lambda>_. False) (alert_session [pending_alert 1]) ''w'' 60 10)" demo_settings "\<lambda>_. False" 60 "''w''" 10]
  by (auto elim: list_all2_mono)

text \<open>
  A late result cannot forge delivery history: when the row no longer carries the claim (it was
  recovered, or claimed again by anyone, the same worker included), no alert and no payment
  changes and the result is recorded as discarded.
\<close>

theorem stale_alert_result_discarded:
  assumes "record_delivery_result cfg s c t now j = Some (s', st)"
    and "find_row al_id (admin_alerts (work s)) (ca_alert_id c) = Some a"
    and "al_status a \<noteq> AL_SENDING \<or> al_claimed_by a \<noteq> Some (ca_worker_id c) \<or> al_attempts a \<noteq> ca_attempts c \<or> al_claimed_at a = None"
  shows "st = Discarded \<and> admin_alerts (durable s') = admin_alerts (work s) \<and> payments (durable s') = payments (work s)
       \<and> has_event s' (al_payment_id a) ''admin_alert_result_discarded''"
  using assms(1)
proof (cases rule: record_delivery_result_cases)
  case (recorded b)
  then show ?thesis using assms(2,3) by (simp add: owns_alert_def)
qed (use assms(2) in simp)

definition late_result :: claimed_alert where
  "late_result = (as_claimed ''w'' (pending_alert 1))\<lparr>ca_attempts := 1\<rparr>"

theorem stale_alert_result_discarded_witness:
  "\<exists>s' st. record_delivery_result demo_settings (alert_session [pending_alert 1]) late_result
       \<lparr>st_delivered = 1, st_retryable = False, st_retry_after = None, st_error_code = None\<rparr> 60 1 = Some (s', st)
     \<and> st = Discarded \<and> admin_alerts (durable s') = [pending_alert 1]"
proof -
  let ?t = "\<lparr>st_delivered = 1, st_retryable = False, st_retry_after = None, st_error_code = None\<rparr>"
  have row: "find_row al_id (admin_alerts (work (alert_session [pending_alert 1]))) (ca_alert_id late_result) = Some (pending_alert 1)"
    by (simp add: find_row_def late_result_def as_claimed_def pending_alert_def)
  then obtain s' st where out: "record_delivery_result demo_settings (alert_session [pending_alert 1]) late_result ?t 60 1 = Some (s', st)"
    by (rule record_delivery_result_Some)
  show ?thesis using stale_alert_result_discarded [OF out row] out by (auto simp: pending_alert_def)
qed

text \<open>Delivering the claims of a pass when every message gets through.\<close>

lemma send_chunks_ok: "(\<And>k c m. so_ok (send k c m)) \<Longrightarrow> snd (send_chunks send k chat ms) = None"
  by (induction ms arbitrary: k) (simp_all add: Let_def)

lemma send_to_all_ok:
  assumes "\<And>k c m. so_ok (send k c m)"
  shows "st_delivered (send_to_all send k ms t ids) = st_delivered t + length ids"
proof (induction ids arbitrary: k t)
  case (Cons i ids)
  obtain k' where "send_chunks send k i ms = (k', None)" using send_chunks_ok [of send k i ms] assms by (metis prod.collapse)
  then show ?case using Cons.IH by simp
qed simp

lemma delivery_tally_ok: "(\<And>k c m. so_ok (send k c m)) \<Longrightarrow> st_delivered (delivery_tally send ms ids) = length ids"
  by (simp add: delivery_tally_def Let_def send_to_all_ok)

definition healthy :: "alert_env \<Rightarrow> bool" where
  "healthy env \<longleftrightarrow> ae_others env = (\<lambda>_ d. d) \<and> ae_locked env = (\<lambda>_ _. False) \<and> (\<forall>k n c m. so_ok (ae_send env k n c m))"

lemma deliver_one_ok:
  assumes "healthy env" "ids \<noteq> []" "find_row al_id (admin_alerts (durable s)) (ca_alert_id c) = Some a" "owns_alert c a"
  obtains s' b where "deliver_claimed_alert cfg env k ids s c = Some (s', Recorded AL_DELIVERED)" "work s' = durable s'"
    "al_id b = ca_alert_id c" "al_status b = AL_DELIVERED" "admin_alerts (durable s') = put_row al_id b (admin_alerts (durable s))"
    "payments (durable s') = payments (durable s)"
proof -
  let ?t = "delivery_tally (ae_send env k) (ae_messages env k c (durable s)) ids"
  have t: "st_delivered ?t > 0" using assms(1,2) delivery_tally_ok [of "ae_send env k"] by (simp add: healthy_def)
  have env: "ae_others env k = (\<lambda>d. d)" using assms(1) by (simp add: healthy_def)
  have "find_row al_id (admin_alerts (work (rollback_seeing (\<lambda>d. d) s))) (ca_alert_id c) = Some a" using assms(3) by simp
  then obtain s' st where rec: "record_delivery_result cfg (rollback_seeing (\<lambda>d. d) s) c ?t (ae_now env k) (ae_jitter env k) = Some (s', st)"
    by (rule record_delivery_result_Some)
  then have out: "deliver_claimed_alert cfg env k ids s c = Some (s', st)" by (simp add: deliver_claimed_alert_def env Let_def)
  show thesis using rec
  proof (cases rule: record_delivery_result_cases)
    case (recorded b)
    then show thesis
      using out t find_row_Some [OF recorded(1)]
      by (intro that [of s' "result_state cfg c ?t (ae_now env k) (ae_jitter env k) b"]) simp_all
  qed (use assms(3,4) in simp)
qed

lemma deliver_all_ok:
  assumes "healthy env" "ids \<noteq> []" "distinct (map ca_alert_id cs)" "work s = durable s"
    and "\<And>c. c \<in> set cs \<Longrightarrow> \<exists>a. find_row al_id (admin_alerts (durable s)) (ca_alert_id c) = Some a \<and> owns_alert c a"
  shows "\<exists>s'. deliver_all cfg env k ids s cs = Some s' \<and> work s' = durable s' \<and> payments (durable s') = payments (durable s)
      \<and> (\<forall>i. find_row al_id (admin_alerts (durable s')) i \<noteq> None \<longleftrightarrow> find_row al_id (admin_alerts (durable s)) i \<noteq> None)
      \<and> (\<forall>i. i \<notin> ca_alert_id ` set cs \<longrightarrow> find_row al_id (admin_alerts (durable s')) i = find_row al_id (admin_alerts (durable s)) i)
      \<and> (\<forall>c \<in> set cs. \<exists>b. find_row al_id (admin_alerts (durable s')) (ca_alert_id c) = Some b \<and> al_status b = AL_DELIVERED)"
  using assms(3-5)
proof (induction cs arbitrary: s k)
  case (Cons c cs)
  obtain a where a: "find_row al_id (admin_alerts (durable s)) (ca_alert_id c) = Some a" "owns_alert c a" using Cons.prems(3) by auto
  obtain s1 b where s1: "deliver_claimed_alert cfg env k ids s c = Some (s1, Recorded AL_DELIVERED)" "work s1 = durable s1"
    "al_id b = ca_alert_id c" "al_status b = AL_DELIVERED" "admin_alerts (durable s1) = put_row al_id b (admin_alerts (durable s))"
    "payments (durable s1) = payments (durable s)"
    by (rule deliver_one_ok [OF assms(1,2) a])
  have find: "find_row al_id (admin_alerts (durable s1)) i = (if i = ca_alert_id c then Some b else find_row al_id (admin_alerts (durable s)) i)" for i
    using a(1) s1(3) unfolding s1(5) by (simp add: find_row_put_row)
  have "\<exists>a. find_row al_id (admin_alerts (durable s1)) (ca_alert_id d) = Some a \<and> owns_alert d a" if "d \<in> set cs" for d
  proof -
    have "ca_alert_id d \<noteq> ca_alert_id c" using that Cons.prems(1) by (auto simp: image_iff)
    then show ?thesis using Cons.prems(3) [of d] that find by simp
  qed
  then obtain s' where s': "deliver_all cfg env (k + 1) ids s1 cs = Some s'" "work s' = durable s'" "payments (durable s') = payments (durable s1)"
    "\<forall>i. find_row al_id (admin_alerts (durable s')) i \<noteq> None \<longleftrightarrow> find_row al_id (admin_alerts (durable s1)) i \<noteq> None"
    "\<forall>i. i \<notin> ca_alert_id ` set cs \<longrightarrow> find_row al_id (admin_alerts (durable s')) i = find_row al_id (admin_alerts (durable s1)) i"
    "\<forall>c \<in> set cs. \<exists>b. find_row al_id (admin_alerts (durable s')) (ca_alert_id c) = Some b \<and> al_status b = AL_DELIVERED"
    using Cons.IH [of s1 "k + 1"] Cons.prems(1) s1(2) by auto
  have "find_row al_id (admin_alerts (durable s')) (ca_alert_id c) = Some b" using s'(5) Cons.prems(1) find by auto
  then show ?case using s' s1(1,4,6) a(1) find by (intro exI [of _ s']) auto
qed simp

text \<open>
  Alerts get through: with a working Telegram connection, at least one administrator and no
  interference, a pass returns, reports how many alerts it claimed, leaves no payment changed, and
  every alert that was due when it claimed, up to the ten with the lowest ids, is delivered.
\<close>

theorem alert_pass_delivers:
  assumes "healthy env" "ids \<noteq> []" "distinct (map al_id (admin_alerts (durable s)))"
    and "released = admin_alerts (durable (fst (release_stale_alert_claims cfg (\<lambda>_. False) (rollback s) (ae_now env 0))))"
    and "due = first_n_by al_id 10 (filter (alert_due (ae_now env 1)) released)"
  shows "\<exists>s'. alert_delivery_pass cfg env ids w s = Some (s', length due) \<and> payments (durable s') = payments (durable s)
       \<and> (\<forall>a \<in> set due. \<exists>b. find_row al_id (admin_alerts (durable s')) (al_id a) = Some b \<and> al_status b = AL_DELIVERED)"
proof -
  have env: "ae_others env k = (\<lambda>d. d)" "ae_locked env k = (\<lambda>_. False)" for k using assms(1) by (auto simp: healthy_def)
  let ?s1 = "fst (release_stale_alert_claims cfg (\<lambda>_. False) (rollback s) (ae_now env 0))"
  have s1: "alerts_move cfg (durable s) (durable ?s1)" "work ?s1 = durable ?s1"
    using release_alerts_move [of "rollback s" cfg "\<lambda>_. False" "ae_now env 0"] by simp_all
  have ids1: "distinct (map al_id (admin_alerts (durable ?s1)))"
    using s1(1) assms(3) list_all2_id_map [of "(alert_step cfg)\<^sup>*\<^sup>*" "admin_alerts (durable s)" "admin_alerts (durable ?s1)" al_id]
    by (simp add: alerts_move_def alert_steps_facts)
  let ?now = "ae_now env 1"
  obtain s2 cs where claim: "claim_due_alerts (\<lambda>_. False) ?s1 w ?now 10 = (s2, cs)" by fastforce
  have move2: "alerts_move cfg (durable ?s1) (durable s2)" "work s2 = durable s2"
    using claim_alerts_move [OF s1(2), of cfg "\<lambda>_. False" w ?now 10] claim by simp_all
  have due: "set due \<subseteq> set (admin_alerts (durable ?s1))"
    using set_first_n_by [of al_id 10] unfolding assms(4,5) by fastforce
  have "distinct (map al_id due)" unfolding assms(4,5) using ids1 by (intro distinct_first_n_by) (simp add: distinct_map_filter)
  have cs: "cs = map (as_claimed w \<circ> claimed_state w ?now) due"
    "due \<noteq> [] \<Longrightarrow> admin_alerts (durable s2) = map (\<lambda>a. if a \<in> set due then claimed_state w ?now a else a) (admin_alerts (durable ?s1))"
    using claim s1(2) unfolding assms(4,5) by (auto simp: claim_due_alerts_def Let_def split: if_splits)
  have ids2: "distinct (map al_id (admin_alerts (durable s2)))"
    using move2(1) ids1 list_all2_id_map [of "(alert_step cfg)\<^sup>*\<^sup>*" "admin_alerts (durable ?s1)" "admin_alerts (durable s2)" al_id]
    by (simp add: alerts_move_def alert_steps_facts)
  have owned: "\<exists>a. find_row al_id (admin_alerts (durable s2)) (ca_alert_id c) = Some a \<and> owns_alert c a" if c: "c \<in> set cs" for c
  proof -
    obtain a where a: "a \<in> set due" "c = as_claimed w (claimed_state w ?now a)" using c unfolding cs(1) by auto
    then have "claimed_state w ?now a \<in> set (admin_alerts (durable s2))" using due cs(2) by force
    from find_row_mem [OF ids2 this] show ?thesis using a(2) by (simp add: as_claimed_def owns_alert_def)
  qed
  have "distinct (map ca_alert_id cs)"
    using \<open>distinct (map al_id due)\<close> unfolding cs(1) by (simp add: comp_def as_claimed_def)
  from deliver_all_ok [OF assms(1,2) this move2(2) owned, of cfg 2]
  obtain s' where s': "deliver_all cfg env 2 ids s2 cs = Some s'" "payments (durable s') = payments (durable s2)"
    "\<forall>c \<in> set cs. \<exists>b. find_row al_id (admin_alerts (durable s')) (ca_alert_id c) = Some b \<and> al_status b = AL_DELIVERED"
    by blast
  have same: "rollback_seeing (\<lambda>d. d) s = rollback s" "rollback_seeing (\<lambda>d. d) ?s1 = ?s1"
    using s1(2) by (simp_all add: rollback_seeing_def rollback_def Let_def)
  have "alert_delivery_pass cfg env ids w s = Some (s', length due)"
    using claim s'(1) cs(1) by (simp add: alert_delivery_pass_def env same ALERT_CLAIM_LIMIT_def Let_def)
  moreover have "payments (durable s') = payments (durable s)" using s'(2) s1(1) move2(1) by (simp add: alerts_move_def)
  moreover have "\<forall>a \<in> set due. \<exists>b. find_row al_id (admin_alerts (durable s')) (al_id a) = Some b \<and> al_status b = AL_DELIVERED"
    using s'(3) unfolding cs(1) by (simp add: as_claimed_def)
  ultimately show ?thesis by blast
qed

definition demo_alert_env :: alert_env where
  "demo_alert_env =
     \<lparr>ae_others = (\<lambda>_ d. d), ae_locked = (\<lambda>_ _. False), ae_now = (\<lambda>_. 60), ae_jitter = (\<lambda>_. 1),
      ae_messages = (\<lambda>_ _ _. [''m'']), ae_send = (\<lambda>_ _ _ _. telegram_send None)\<rparr>"

theorem alert_pass_delivers_witness:
  "\<exists>s' b. alert_delivery_pass demo_settings demo_alert_env [7] ''w'' (alert_session [pending_alert 1]) = Some (s', 1)
        \<and> find_row al_id (admin_alerts (durable s')) 1 = Some b \<and> al_status b = AL_DELIVERED"
proof -
  have rel: "admin_alerts (durable (fst (release_stale_alert_claims demo_settings (\<lambda>_. False) (rollback (alert_session [pending_alert 1])) (ae_now demo_alert_env 0))))
      = [pending_alert 1]"
    by (simp add: release_stale_alert_claims_def stale_alert_def pending_alert_def)
  have due: "first_n_by al_id 10 (filter (alert_due (ae_now demo_alert_env 1)) [pending_alert 1]) = [pending_alert 1]"
    by (simp add: first_n_by_def alert_due_def pending_alert_def demo_alert_env_def)
  show ?thesis
    using alert_pass_delivers [of demo_alert_env "[7]" "alert_session [pending_alert 1]" "[pending_alert 1]" demo_settings "[pending_alert 1]" "''w''"]
    unfolding rel due
    by (auto simp: healthy_def demo_alert_env_def telegram_send_def pending_alert_def)
qed

end
