(* ===== verification/Lifecycle.thy ===== *)
theory Lifecycle
  imports Operator Recovery Alert_Delivery
begin

text \<open>
  The bridge as a whole. \<open>life\<close> is everything that can happen to one payment, put together from the
  steps of the components; \<open>bridge_step\<close> is one transaction of any component, with arbitrary
  inputs, on the committed database. Handlers that use several transactions appear as several
  steps with unrelated inputs, so every interleaving of concurrent handlers is a run of
  \<open>bridge_step\<close>; a claim or a cached row that a handler carries from one transaction to the next
  is just another arbitrary input.

  The constraints of the payment table are proved to hold in every reachable database: no UPDATE
  of the code can run into a CHECK or UNIQUE constraint.
\<close>

section \<open>The life of a payment\<close>

inductive life :: "settings \<Rightarrow> payment \<Rightarrow> payment \<Rightarrow> bool" for cfg where
  linking: "creation_step p q \<Longrightarrow> life cfg p q"
| settling: "callback_step p q \<Longrightarrow> life cfg p q"
| delivering: "delivery_step cfg p q \<Longrightarrow> life cfg p q"
| polling: "bookkeeping p q \<Longrightarrow> life cfg p q"
| requeueing: "p_status p = MANUAL_REVIEW \<Longrightarrow> p_gateway_verified_at p \<noteq> None \<Longrightarrow> life cfg p (requeued_state now p)"
| acknowledging: "life cfg p (acknowledged now p)"
| resolving: "life cfg p (resolved_review r now p)"
| attending: "r \<noteq> [] \<Longrightarrow> by' \<noteq> [] \<Longrightarrow> nt \<noteq> [] \<Longrightarrow> life cfg p (attention_state p r by' nt now)"

text \<open>
  A good row meets its CHECK constraints, has a reference exactly when it is verified, is verified
  once delivery has touched it and not before it leaves the link statuses, never rests in the
  intermediate status \<open>GATEWAY_VERIFIED\<close>, and has a link exactly when its status says so.
\<close>

definition good_row :: "payment \<Rightarrow> bool" where
  "good_row p \<longleftrightarrow>
     ck_payment p
   \<and> (p_reference_id p = None \<longleftrightarrow> p_gateway_verified_at p = None)
   \<and> p_status p \<noteq> GATEWAY_VERIFIED
   \<and> (p_status p \<in> {CREATED, LINK_CREATED, GETLINK_FAILED} \<longrightarrow> p_gateway_verified_at p = None)
   \<and> (p_bot_notify_reason p \<noteq> None \<longrightarrow> p_gateway_verified_at p \<noteq> None)
   \<and> (p_status p = LINK_CREATED \<longrightarrow> p_redirect_url p \<notin> {None, Some []} \<and> p_callback_token_hash p \<noteq> None)
   \<and> (p_status p \<in> {CREATED, GETLINK_FAILED} \<longrightarrow> p_redirect_url p = None)"

text \<open>The CHECK constraints carry over between versions that agree on the money and the attention marks.\<close>

definition money_and_marks :: "payment \<Rightarrow> (int \<times> int \<times> int \<times> int) \<times> time option \<times> string option \<times> string option \<times> string option" where
  "money_and_marks p = ((p_amount p, p_fee_rate_bps p, p_fee_amount p, p_payable_amount p),
     p_attention_resolved_at p, p_attention_resolution p, p_attention_resolved_by p, p_attention_resolution_note p)"

lemma ck_payment_transfer:
  assumes "ck_payment p" "money_and_marks q = money_and_marks p" "p_bot_notify_attempts p \<le> p_bot_notify_attempts q"
    and "p_status q \<notin> {BOT_NOTIFY_PENDING, BOT_NOTIFY_ACCEPTED} \<or> p_gateway_verified_at q \<noteq> None"
  shows "ck_payment q"
proof -
  have eqs: "p_amount q = p_amount p" "p_fee_rate_bps q = p_fee_rate_bps p" "p_fee_amount q = p_fee_amount p"
    "p_payable_amount q = p_payable_amount p" "p_attention_resolved_at q = p_attention_resolved_at p"
    "p_attention_resolution q = p_attention_resolution p" "p_attention_resolved_by q = p_attention_resolved_by p"
    "p_attention_resolution_note q = p_attention_resolution_note p"
    using assms(2) by (simp_all add: money_and_marks_def)
  have "0 \<le> p_bot_notify_attempts q" using assms(1,3) unfolding ck_payment_def by linarith
  then show ?thesis using assms(1,4) unfolding ck_payment_def eqs by blast
qed

lemma ck_payment_verified:
  "ck_payment p \<Longrightarrow> p_status p \<notin> {BOT_NOTIFY_PENDING, BOT_NOTIFY_ACCEPTED} \<or> p_gateway_verified_at p \<noteq> None"
  unfolding ck_payment_def by blast

lemma good_row_facts:
  assumes "good_row p"
  shows "ck_payment p" "p_reference_id p = None \<longleftrightarrow> p_gateway_verified_at p = None" "p_status p \<noteq> GATEWAY_VERIFIED"
    "p_status p \<in> {CREATED, LINK_CREATED, GETLINK_FAILED} \<Longrightarrow> p_gateway_verified_at p = None"
    "p_bot_notify_reason p \<noteq> None \<Longrightarrow> p_gateway_verified_at p \<noteq> None"
  using assms unfolding good_row_def by blast+

text \<open>Rows that agree on what \<open>good_row\<close> reads, and rows past the link statuses.\<close>

definition row_core ::
  "payment \<Rightarrow> ((int \<times> int \<times> int \<times> int) \<times> time option \<times> string option \<times> string option \<times> string option)
     \<times> payment_status \<times> time option \<times> string option \<times> reason_code option \<times> int \<times> string option \<times> string option" where
  "row_core p = (money_and_marks p, p_status p, p_gateway_verified_at p, p_reference_id p, p_bot_notify_reason p,
     p_bot_notify_attempts p, p_redirect_url p, p_callback_token_hash p)"

lemma good_row_cong:
  assumes "row_core q = row_core p"
  shows "good_row q = good_row p"
proof -
  have m: "money_and_marks q = money_and_marks p" and eqs: "p_status q = p_status p"
    "p_gateway_verified_at q = p_gateway_verified_at p" "p_reference_id q = p_reference_id p"
    "p_bot_notify_reason q = p_bot_notify_reason p" "p_redirect_url q = p_redirect_url p"
    "p_callback_token_hash q = p_callback_token_hash p" "p_bot_notify_attempts q = p_bot_notify_attempts p"
    using assms by (simp_all add: row_core_def)
  have "ck_payment q \<longleftrightarrow> ck_payment p"
    using ck_payment_transfer [of p q] ck_payment_transfer [of q p] ck_payment_verified [of p] ck_payment_verified [of q] m eqs
    by (metis order_refl)
  then show ?thesis unfolding good_row_def eqs by simp
qed

lemma good_row_late:
  assumes "ck_payment q" "p_reference_id q = None \<longleftrightarrow> p_gateway_verified_at q = None"
    and "p_status q \<in> {BOT_NOTIFY_PENDING, BOT_NOTIFY_ACCEPTED, MANUAL_REVIEW}"
    and "p_bot_notify_reason q \<noteq> None \<Longrightarrow> p_gateway_verified_at q \<noteq> None"
  shows "good_row q"
  using assms(3) unfolding good_row_def by (intro conjI impI assms) auto

lemma unfrozen_good:
  "good_row p \<Longrightarrow> \<not> frozen p \<Longrightarrow> p_status p \<in> {CREATED, GETLINK_FAILED} \<and> p_redirect_url p = None \<and> p_gateway_verified_at p = None"
  by (cases "p_status p") (auto simp: good_row_def frozen_def VERIFIED_STATUSES_def)

lemma good_row_creation:
  assumes "creation_step p q" "good_row p"
  shows "good_row q"
proof (cases "q = p")
  case False
  then have c: "\<not> frozen p" "keeps_order p q" "p_callback_token_hash q \<noteq> None"
    "p_status q = GETLINK_FAILED \<and> p_redirect_url q = p_redirect_url p
      \<or> p_status q = LINK_CREATED \<and> p_redirect_url q \<notin> {None, Some []}"
    using assms(1) by (auto simp: creation_step_def)
  note p = unfrozen_good [OF assms(2) c(1)]
  have "ck_payment q"
    by (rule ck_payment_transfer [of p]) (use good_row_facts(1) [OF assms(2)] c(2,4) in \<open>auto simp: keeps_order_def money_and_marks_def\<close>)
  then show ?thesis
    using assms(2) c(2-4) p by (auto simp: good_row_def keeps_order_def)
qed (use assms in simp)

lemma good_row_callback:
  assumes "callback_step p q" "good_row p"
  shows "good_row q"
  using assms(1) unfolding callback_step_def
proof (elim disjE conjE)
  assume f: "financial_eq p q" "p_status q \<in> {p_status p, MANUAL_REVIEW}" "p_bot_notify_reason q = p_bot_notify_reason p"
    "p_bot_notify_attempts q = p_bot_notify_attempts p"
  show ?thesis
  proof (cases "p_status q = p_status p")
    case True
    then have "row_core q = row_core p" using f by (simp add: financial_eq_def row_core_def money_and_marks_def)
    then show ?thesis using assms(2) good_row_cong by blast
  next
    case False
    then have st: "p_status q = MANUAL_REVIEW" using f(2) by simp
    have "ck_payment q"
      using f st by (intro ck_payment_transfer [OF good_row_facts(1) [OF assms(2)]]) (simp_all add: financial_eq_def money_and_marks_def)
    then show ?thesis
      using st f good_row_facts(2,5) [OF assms(2)] by (intro good_row_late) (simp_all add: financial_eq_def)
  qed
next
  assume f: "p_gateway_verified_at q \<noteq> None" "p_reference_id q \<noteq> None" "p_status q = BOT_NOTIFY_PENDING"
    "p_bot_notify_attempts q = p_bot_notify_attempts p"
    "financial_eq (q\<lparr>p_gateway_verified_at := None, p_reference_id := p_reference_id p, p_card_last4 := p_card_last4 p\<rparr>) p"
  have "ck_payment q"
    using f by (intro ck_payment_transfer [OF good_row_facts(1) [OF assms(2)]]) (simp_all add: financial_eq_def money_and_marks_def)
  then show ?thesis using f(1-3) by (intro good_row_late) auto
qed

lemma good_row_delivery:
  assumes "delivery_step cfg p q" "good_row p"
  shows "good_row q"
proof -
  have f: "financial_eq p q" and st: "p_status p = BOT_NOTIFY_PENDING"
    "p_status q \<in> {BOT_NOTIFY_PENDING, BOT_NOTIFY_ACCEPTED, MANUAL_REVIEW}"
    "p_bot_notify_attempts q \<ge> p_bot_notify_attempts p"
    using assms(1) by (induction rule: delivery_step.induct) auto
  have "p_gateway_verified_at p \<noteq> None" using ck_payment_verified [OF good_row_facts(1) [OF assms(2)]] st(1) by simp
  then have v: "p_gateway_verified_at q \<noteq> None" "p_reference_id q \<noteq> None"
    using f good_row_facts(2) [OF assms(2)] by (simp_all add: financial_eq_def)
  then have "ck_payment q"
    using f st by (intro ck_payment_transfer [OF good_row_facts(1) [OF assms(2)]]) (simp_all add: financial_eq_def money_and_marks_def)
  then show ?thesis using st(2) v by (intro good_row_late) auto
qed

lemma good_row_bookkeeping: "bookkeeping p q \<Longrightarrow> good_row q = good_row p"
  by (rule good_row_cong) (auto simp: bookkeeping_def row_core_def money_and_marks_def)

lemma good_row_requeued:
  assumes v: "p_gateway_verified_at p \<noteq> None" and "good_row p"
  shows "good_row (requeued_state now p)"
proof -
  have "ck_payment (requeued_state now p)"
    using v by (intro ck_payment_transfer [OF good_row_facts(1) [OF assms(2)]]) (simp_all add: requeued_state_def money_and_marks_def)
  then show ?thesis
    using v good_row_facts(2) [OF assms(2)] by (intro good_row_late) (simp_all add: requeued_state_def)
qed

lemma good_row_resolved: "good_row (resolved_review r now p) = good_row p"
  by (rule good_row_cong) (simp add: resolved_review_def row_core_def money_and_marks_def)

lemma good_row_acknowledged: "good_row (acknowledged now p) = good_row p"
  by (rule good_row_cong) (simp add: acknowledged_def row_core_def money_and_marks_def)

lemma good_row_attended:
  assumes "r \<noteq> []" "by' \<noteq> []" "nt \<noteq> []" "good_row p"
  shows "good_row (attention_state p r by' nt now)"
proof -
  have "ck_payment (attention_state p r by' nt now)"
    using good_row_facts(1) [OF assms(4)] assms(1-3) unfolding ck_payment_def attention_state_def by simp
  then show ?thesis using assms(4) unfolding good_row_def attention_state_def by simp
qed

lemma life_good: "life cfg p q \<Longrightarrow> good_row p \<Longrightarrow> good_row q"
  by (induction rule: life.induct)
     (auto simp: good_row_bookkeeping good_row_resolved good_row_acknowledged
       intro: good_row_creation good_row_callback good_row_delivery good_row_requeued good_row_attended)

text \<open>
  A row holds a delivery claim only while it is pending, and a payment without a fee policy has no
  fee. \<open>sound_row\<close> adds both to \<open>good_row\<close>.
\<close>

definition tidy_row :: "payment \<Rightarrow> bool" where
  "tidy_row p \<longleftrightarrow>
     (p_notification_claimed_at p \<noteq> None \<longrightarrow> p_status p = BOT_NOTIFY_PENDING)
   \<and> (p_fee_policy_id p = None \<longrightarrow> p_fee_rate_bps p = 0 \<and> p_fee_amount p = 0)"

definition sound_row :: "payment \<Rightarrow> bool" where
  "sound_row p \<longleftrightarrow> good_row p \<and> tidy_row p"

text \<open>What no step changes, and what no step changes once the payment is verified.\<close>

definition order_facts :: "payment \<Rightarrow> int \<times> string \<times> int \<times> int option \<times> int \<times> int \<times> int \<times> time" where
  "order_facts p = (p_id p, p_bot_order_id p, p_amount p, p_fee_policy_id p, p_fee_rate_bps p, p_fee_amount p,
     p_payable_amount p, p_created_at p)"

definition settlement_facts ::
  "payment \<Rightarrow> time option \<times> string option \<times> string option \<times> int \<times> int \<times> int option \<times> identity_type option" where
  "settlement_facts p = (p_gateway_verified_at p, p_reference_id p, p_card_last4 p, p_gateway_order_id p,
     p_gateway_user_id p, p_payer_identity_id p, p_payer_identity_type p)"

lemma financial_eq_facts: "financial_eq p q \<Longrightarrow> order_facts q = order_facts p \<and> settlement_facts q = settlement_facts p"
  by (simp add: financial_eq_def order_facts_def settlement_facts_def)

lemma life_facts:
  assumes "life cfg p q"
  shows "order_facts q = order_facts p" and "p_gateway_verified_at p \<noteq> None \<Longrightarrow> settlement_facts q = settlement_facts p"
proof -
  have "order_facts q = order_facts p \<and> (p_gateway_verified_at p \<noteq> None \<longrightarrow> settlement_facts q = settlement_facts p)"
    using assms
  proof (induction rule: life.induct)
    case (linking p q)
    then show ?case by (auto simp: creation_step_def frozen_def keeps_order_def order_facts_def)
  next
    case (settling p q)
    then show ?case by (auto simp: callback_step_def dest: financial_eq_facts simp: financial_eq_def order_facts_def)
  next
    case (delivering p q)
    then show ?case using delivery_step_financial financial_eq_facts by blast
  next
    case (polling p q)
    then show ?case using bookkeeping_eqs(3) financial_eq_facts by blast
  qed (simp_all add: order_facts_def settlement_facts_def requeued_state_def resolved_review_def attention_state_def acknowledged_def)
  then show "order_facts q = order_facts p" "p_gateway_verified_at p \<noteq> None \<Longrightarrow> settlement_facts q = settlement_facts p" by blast+
qed

text \<open>No step leaves a claim behind.\<close>

lemma life_claim:
  assumes "life cfg p q" "good_row p" "p_notification_claimed_at p \<noteq> None \<longrightarrow> p_status p = BOT_NOTIFY_PENDING"
  shows "p_notification_claimed_at q \<noteq> None \<longrightarrow> p_status q = BOT_NOTIFY_PENDING"
  using assms
proof (induction rule: life.induct)
  case (linking p q)
  then show ?case by (auto simp: creation_step_def keeps_order_def frozen_def VERIFIED_STATUSES_def)
next
  case (settling p q)
  show ?case
  proof (cases "p_gateway_verified_at p = None")
    case True
    then have "p_status p \<noteq> BOT_NOTIFY_PENDING" using ck_payment_verified [OF good_row_facts(1) [OF settling(2)]] by auto
    then show ?thesis using settling by (auto simp: callback_step_def)
  next
    case False
    then show ?thesis using settling by (auto simp: callback_step_def)
  qed
next
  case (delivering p q)
  then show ?case by (auto elim!: delivery_step.cases)
next
  case (polling p q)
  then show ?case by (auto simp: bookkeeping_def)
qed (simp_all add: requeued_state_def resolved_review_def attention_state_def acknowledged_def)

lemma life_sound: "life cfg p q \<Longrightarrow> sound_row p \<Longrightarrow> sound_row q"
  using life_good [of cfg p q] life_claim [of cfg p q] life_facts(1) [of cfg p q]
  by (simp add: sound_row_def tidy_row_def order_facts_def)

interpretation life: row_protocol "life cfg" for cfg
  by unfold_locales (use life_facts(1) in \<open>auto simp: order_facts_def\<close>)

section \<open>One transaction of the bridge\<close>

text \<open>
  Each rule starts a fresh session on the committed database (\<open>work s = durable s\<close>) and ends with what
  that session committed. The sequence of payment ids is ahead of every row, as a sequence that
  never repeats a value is, and the fee of a new payment was computed from the rate of its policy, or
  is zero without one; everything else about the session and all other inputs are arbitrary.
\<close>

inductive bridge_step :: "settings \<Rightarrow> db \<Rightarrow> db \<Rightarrow> bool" for cfg where
  insert_row: "work s = durable s \<Longrightarrow> list_all (\<lambda>p. p_id p \<le> sq_payment (seq s)) (payments (durable s)) \<Longrightarrow>
     undisturbed_env env \<Longrightarrow> (policy = None \<Longrightarrow> rate = 0) \<Longrightarrow> calculate_fee amount rate = Inr (fee, payable) \<Longrightarrow>
     bridge_step cfg (durable s) (durable (fst (insert_new_payment env s
       (new_payment b goid payer ty amount policy rate fee payable) payer)))"
| resolve_payer: "work s = durable s \<Longrightarrow>
     bridge_step cfg (durable s) (durable (fst (resolve_payer_identity C (\<lambda>_ d. d) s secret k tg reserved)))"
| issue: "work s = durable s \<Longrightarrow>
     bridge_step cfg (durable s) (durable (fst (issue_link C cl http ok cfg env s b amount tg payer)))"
| callback: "work s = durable s \<Longrightarrow>
     bridge_step cfg (durable s) (durable (fst (process_callback C cl http (Some cfg) s g tok)))"
| claim_delivery: "work s = durable s \<Longrightarrow>
     bridge_step cfg (durable s) (durable (fst (claim_next_due locked s w now)))"
| record_result: "work s = durable s \<Longrightarrow>
     bridge_step cfg (durable s) (durable (record_attempt_result cfg s c oc ms now jit))"
| release_claims: "work s = durable s \<Longrightarrow>
     bridge_step cfg (durable s) (durable (fst (release_stale_claims cfg locked s now jitf n)))"
| accept_manually: "work s = durable s \<Longrightarrow>
     bridge_step cfg (durable s) (durable (fst (execute_manual_accept s i memo now)))"
| poll: "work s = durable s \<Longrightarrow> recon_claim_next_due cfg locked s w now k = (s1, Some p) \<Longrightarrow>
     bridge_step cfg (durable s) (durable (fst (verify_and_settle cl http (Some cfg) Reconciliation_Source s1 p)))"
| finalize_poll: "work s = durable s \<Longrightarrow>
     bridge_step cfg (durable s) (durable (fst (finalize cfg cached s i w att outcome code now)))"
| requeue: "work s = durable s \<Longrightarrow>
     rows = first_n_by resend_order n (filter (\<lambda>p. eligible_predicate p \<and> \<not> locked (p_id p)) (payments (durable s))) \<Longrightarrow>
     bridge_step cfg (durable s) (durable (commit (foldl (requeue_one tg now) s rows)))"
| resolve_review: "work s = durable s \<Longrightarrow>
     bridge_step cfg (durable s) (durable (fst (resolve_reviews (\<lambda>d. d) s order_ids r memo actor now)))"
| resolve_item: "work s = durable s \<Longrightarrow>
     bridge_step cfg (durable s) (durable (fst (resolve_attention s i r memo actor now)))"
| set_fee: "work s = durable s \<Longrightarrow>
     bridge_step cfg (durable s) (durable (commit (fst (create_policy s rate aware effective actor memo scheduled))))"
| cancel_fee: "work s = durable s \<Longrightarrow>
     bridge_step cfg (durable s) (durable (commit (fst (cancel_policy s policy_id actor memo now))))"
| review_command: "work s = durable s \<Longrightarrow>
     bridge_step cfg (durable s) (durable (fst (cmd_review cfg s cmd order_id)))"
| recover: "work s = durable s \<Longrightarrow>
     bridge_step cfg (durable s) (durable (fst (execute_confirmed_recovery cl http cfg s i)))"
| note_backup: "work s = durable s \<Longrightarrow>
     bridge_step cfg (durable s) (durable (fst (cmd_backup_event cfg s success filesize file_name days detail)))"
| test_alert: "work s = durable s \<Longrightarrow>
     bridge_step cfg (durable s) (durable (fst (cmd_test_alert cfg s message)))"
| release_alerts: "work s = durable s \<Longrightarrow>
     bridge_step cfg (durable s) (durable (fst (release_stale_alert_claims cfg locked s now)))"
| claim_alerts: "work s = durable s \<Longrightarrow>
     bridge_step cfg (durable s) (durable (fst (claim_due_alerts locked s w now n)))"
| record_alert: "work s = durable s \<Longrightarrow> record_delivery_result cfg s c t now j = Some (s', st) \<Longrightarrow>
     bridge_step cfg (durable s) (durable s')"

text \<open>The constraints of the payment table.\<close>

definition constraints :: "db \<Rightarrow> bool" where
  "constraints d \<longleftrightarrow>
     distinct (map p_id (payments d)) \<and> distinct (map p_bot_order_id (payments d))
   \<and> distinct (map p_gateway_order_id (payments d)) \<and> unique_references d \<and> list_all sound_row (payments d)"

text \<open>An operation that moves rows along \<open>life\<close> and keeps their unique columns keeps the constraints.\<close>

definition row_keys :: "payment \<Rightarrow> int \<times> string \<times> int \<times> string option" where
  "row_keys p = (p_id p, p_bot_order_id p, p_gateway_order_id p, p_reference_id p)"

lemma row_keys_maps:
  assumes "map row_keys ys = map row_keys xs"
  shows "map p_id ys = map p_id xs" "map p_bot_order_id ys = map p_bot_order_id xs"
    "map p_gateway_order_id ys = map p_gateway_order_id xs"
    "map (\<lambda>p. (p_id p, p_reference_id p)) ys = map (\<lambda>p. (p_id p, p_reference_id p)) xs"
proof -
  have "map (f \<circ> row_keys) ys = map (f \<circ> row_keys) xs" for f :: "_ \<Rightarrow> 'b"
    using arg_cong [OF assms, of "map f"] by simp
  from this [of fst] this [of "fst \<circ> snd"] this [of "fst \<circ> snd \<circ> snd"] this [of "\<lambda>(i, _, _, r). (i, r)"]
  show "map p_id ys = map p_id xs" "map p_bot_order_id ys = map p_bot_order_id xs"
    "map p_gateway_order_id ys = map p_gateway_order_id xs"
    "map (\<lambda>p. (p_id p, p_reference_id p)) ys = map (\<lambda>p. (p_id p, p_reference_id p)) xs"
    by (simp_all add: row_keys_def comp_def)
qed

lemma unique_references_pairs:
  "unique_references d \<longleftrightarrow>
     (\<forall>(i, r) \<in> set (map (\<lambda>p. (p_id p, p_reference_id p)) (payments d)).
      \<forall>(j, r') \<in> set (map (\<lambda>p. (p_id p, p_reference_id p)) (payments d)). r \<noteq> None \<and> r = r' \<longrightarrow> i = j)"
  unfolding unique_references_def by auto

lemma constraints_same_keys:
  assumes "constraints d" "list_all2 (life cfg)\<^sup>*\<^sup>* (payments d) (payments d')" "map row_keys (payments d') = map row_keys (payments d)"
  shows "constraints d' \<and> evolves (life cfg) d d'"
proof
  have "list_all sound_row (payments d')"
    by (rule life.rows_invariant [OF assms(2)]) (use assms(1) life_sound in \<open>auto simp: constraints_def\<close>)
  then show "constraints d'"
    using assms(1) unfolding constraints_def unique_references_pairs row_keys_maps [OF assms(3)] by blast
  show "evolves (life cfg) d d'" by (rule life.evolves_rows [OF assms(2)])
qed

lemma constraints_same_rows: "constraints d \<Longrightarrow> payments d' = payments d \<Longrightarrow> constraints d' \<and> evolves (life cfg) d d'"
  by (rule constraints_same_keys) (simp_all add: list.rel_refl_strong)

text \<open>The same for a relation between rows that is part of \<open>life\<close> and keeps the unique columns.\<close>

lemma constraints_rows:
  assumes "constraints d" "list_all2 S (payments d) (payments d')"
    and "\<And>p q. S p q \<Longrightarrow> (life cfg)\<^sup>*\<^sup>* p q" "\<And>p q. S p q \<Longrightarrow> row_keys q = row_keys p"
  shows "constraints d' \<and> evolves (life cfg) d d'"
proof (rule constraints_same_keys [OF assms(1)])
  show "list_all2 (life cfg)\<^sup>*\<^sup>* (payments d) (payments d')" using assms(2) by (rule list_all2_mono) (rule assms(3))
  show "map row_keys (payments d') = map row_keys (payments d)"
    by (rule list_all2_id_map [OF assms(2)]) (simp add: assms(4))
qed

lemma financial_eq_keys: "financial_eq p q \<Longrightarrow> row_keys q = row_keys p"
  by (simp add: financial_eq_def row_keys_def)

lemma life_delivery: "(delivery_step cfg)\<^sup>*\<^sup>* p q \<Longrightarrow> (life cfg)\<^sup>*\<^sup>* p q"
  by (induction rule: rtranclp_induct) (auto intro: rtranclp.rtrancl_into_rtrancl life.delivering)

lemma life_bookkeeping: "bookkeeping\<^sup>*\<^sup>* p q \<Longrightarrow> (life cfg)\<^sup>*\<^sup>* p q \<and> row_keys q = row_keys p"
proof (induction rule: rtranclp_induct)
  case (step y z)
  then show ?case
    using financial_eq_keys [OF bookkeeping_eqs(3)] by (auto intro: rtranclp.rtrancl_into_rtrancl life.polling)
qed simp

lemma constraints_delivers:
  "constraints d \<Longrightarrow> delivers cfg (payments d) (payments d') \<Longrightarrow> constraints d' \<and> evolves (life cfg) d d'"
  using constraints_rows [of d "(delivery_step cfg)\<^sup>*\<^sup>*" d' cfg]
  by (auto intro: life_delivery financial_eq_keys delivery_steps_financial)

section \<open>Every transaction keeps the constraints\<close>

lemma constraints_append:
  assumes "constraints d" "payments d' = payments d @ [p]" "sound_row p" "p_id p \<notin> p_id ` set (payments d)"
    and "p_bot_order_id p \<notin> p_bot_order_id ` set (payments d)" "p_gateway_order_id p \<notin> p_gateway_order_id ` set (payments d)"
    and "p_reference_id p = None"
  shows "constraints d' \<and> evolves (life cfg) d d'"
proof
  have "unique_references d" using assms(1) by (simp add: constraints_def)
  then have "unique_references d'"
    unfolding unique_references_def
  proof (intro ballI impI)
    fix x y assume old: "\<forall>p\<in>set (payments d). \<forall>q\<in>set (payments d). p_reference_id p \<noteq> None \<and> p_reference_id p = p_reference_id q \<longrightarrow> p_id p = p_id q"
      and xy: "x \<in> set (payments d')" "y \<in> set (payments d')" and ref: "p_reference_id x \<noteq> None \<and> p_reference_id x = p_reference_id y"
    have "x \<noteq> p" "y \<noteq> p" using ref assms(7) by auto
    then have "x \<in> set (payments d)" "y \<in> set (payments d)" using xy by (simp_all add: assms(2))
    then show "p_id x = p_id y" using old ref by blast
  qed
  then show "constraints d'" using assms(1,3-6) unfolding constraints_def assms(2) by simp
  show "evolves (life cfg) d d'" by (rule life.evolves_append [OF assms(2,4)])
qed

lemma insert_row_ok:
  assumes "constraints (durable s)" "work s = durable s" "list_all (\<lambda>p. p_id p \<le> sq_payment (seq s)) (payments (durable s))"
    and "undisturbed_env env" "policy = None \<Longrightarrow> rate = 0" "calculate_fee amount rate = Inr (fee, payable)"
  shows "constraints (durable (fst (insert_new_payment env s (new_payment b goid payer ty amount policy rate fee payable) payer)))
       \<and> evolves (life cfg) (durable s) (durable (fst (insert_new_payment env s (new_payment b goid payer ty amount policy rate fee payable) payer)))"
    (is "constraints (durable ?s') \<and> _")
proof -
  let ?p = "(new_payment b goid payer ty amount policy rate fee payable)\<lparr>p_id := sq_payment (seq s) + 1, p_created_at := clock s\<rparr>"
  have env: "ce_others env = (\<lambda>_ d. d)" using assms(4) by (simp add: undisturbed_env_def)
  show ?thesis
  proof (cases "ck_payment ?p \<and> \<not> list_ex (payment_conflict ?p) (payments (durable s))")
    case False
    then have "payments (durable ?s') = payments (durable s)"
      using assms(2) env by (auto simp: insert_new_payment_def insert_payment_def Let_def)
    then show ?thesis using constraints_same_rows [OF assms(1)] by blast
  next
    case True
    then have rows: "payments (durable ?s') = payments (durable s) @ [?p]"
      using assms(2) by (simp add: insert_new_payment_def insert_payment_def Let_def)
    have good: "sound_row ?p"
      using True assms(5,6) by (auto simp: sound_row_def good_row_def tidy_row_def new_payment_def calculate_fee_def split: if_splits)
    have id: "p_id ?p \<notin> p_id ` set (payments (durable s))"
      using assms(3) by (auto simp: list_all_iff)
    have new: "p_bot_order_id ?p \<notin> p_bot_order_id ` set (payments (durable s))"
      "p_gateway_order_id ?p \<notin> p_gateway_order_id ` set (payments (durable s))"
      using True by (auto simp: list_ex_iff payment_conflict_def)
    have ref: "p_reference_id ?p = None" by (simp add: new_payment_def)
    show ?thesis by (rule constraints_append [OF assms(1) rows good id new ref])
  qed
qed

text \<open>An UPDATE that keeps every unique column but the gateway order id, which stays or is unused.\<close>

lemma distinct_put_row:
  assumes "distinct (map key xs)" "distinct (map f xs)" "f r \<notin> f ` set xs"
  shows "distinct (map f (put_row key r xs))"
  using assms
proof (induction xs)
  case (Cons x xs)
  have sub: "f ` set (put_row key r xs) \<subseteq> insert (f r) (f ` set xs)" by (auto simp: put_row_def)
  show ?case
  proof (cases "key x = key r")
    case True
    then have "put_row key r xs = xs" using Cons.prems(1) by (intro put_row_absent [of "key r"]) auto
    then show ?thesis using True Cons.prems by (simp add: put_row_def)
  next
    case False
    then have "put_row key r (x # xs) = x # put_row key r xs" by (simp add: put_row_def)
    moreover have "f x \<notin> f ` set (put_row key r xs)" using sub Cons.prems(2,3) by auto
    ultimately show ?thesis using Cons by simp
  qed
qed (simp add: put_row_def)

lemma constraints_goids:
  assumes "constraints d" "p \<in> set (payments d)" "p_id q = p_id p" "goid_fresh d p q"
    and "payments d' = put_row p_id q (payments d)" "life cfg p q" "p_reference_id q = p_reference_id p"
  shows "constraints d' \<and> evolves (life cfg) d d'"
proof -
  have ids: "distinct (map p_id (payments d))" and goids: "distinct (map p_gateway_order_id (payments d))"
    using assms(1) by (simp_all add: constraints_def)
  have rows: "list_all2 (life cfg)\<^sup>*\<^sup>* (payments d) (payments d')"
    unfolding assms(5) using find_row_mem [OF ids assms(2)] assms(3,6)
    by (intro put_row_list_all2 [OF ids, of "p_id p" p]) auto
  have good: "list_all sound_row (payments d')"
    by (rule life.rows_invariant [OF rows]) (use assms(1) life_sound in \<open>auto simp: constraints_def\<close>)
  have eq: "x = p" if "x \<in> set (payments d)" "p_id x = p_id q" for x
    using that assms(2,3) ids by (auto simp: distinct_map inj_on_def)
  have bots: "map p_bot_order_id (payments d') = map p_bot_order_id (payments d)"
    unfolding assms(5) put_row_def using eq life_facts(1) [OF assms(6)] by (auto simp: order_facts_def)
  have refs: "map (\<lambda>p. (p_id p, p_reference_id p)) (payments d') = map (\<lambda>p. (p_id p, p_reference_id p)) (payments d)"
    unfolding assms(5) put_row_def using eq assms(3,7) by auto
  have idm: "map p_id (payments d') = map p_id (payments d)" unfolding assms(5) by (rule payment_table.keys_put)
  have "distinct (map p_gateway_order_id (payments d'))"
  proof (cases "p_gateway_order_id q = p_gateway_order_id p")
    case True
    then have "map p_gateway_order_id (payments d') = map p_gateway_order_id (payments d)"
      unfolding assms(5) put_row_def using eq by auto
    then show ?thesis using goids by simp
  next
    case False
    then have "p_gateway_order_id q \<notin> p_gateway_order_id ` set (payments d)"
      using assms(4) unfolding goid_fresh_def payment_by_gateway_order_id_None by simp
    then show ?thesis unfolding assms(5) by (rule distinct_put_row [OF ids goids])
  qed
  then have "constraints d'"
    using assms(1) good unfolding constraints_def unique_references_pairs bots refs idm by blast
  then show ?thesis using life.evolves_rows [OF rows] by blast
qed

lemma issue_ok:
  assumes "constraints (durable s)" "work s = durable s"
  shows "constraints (durable (fst (issue_link C cl http ok cfg' env s b amount tg payer)))
       \<and> evolves (life cfg) (durable s) (durable (fst (issue_link C cl http ok cfg' env s b amount tg payer)))"
proof -
  obtain s' r where out: "issue_link C cl http ok cfg' env s b amount tg payer = (s', r)" by fastforce
  have ids: "distinct (map p_id (payments (durable s)))" using assms(1) by (simp add: constraints_def)
  have "constraints (durable s') \<and> evolves (life cfg) (durable s) (durable s')"
    using issue_link_outcome [OF assms(2), of C cl http ok cfg' env b amount tg payer] unfolding out
  proof cases
    case (lo_failed p q)
    have "creation_step p q" using lo_failed by (simp add: creation_step_def)
    moreover have "p_id q = p_id p" "p_reference_id q = p_reference_id p" using lo_failed by (simp_all add: keeps_order_def)
    ultimately show ?thesis
      using constraints_goids [OF assms(1)] payment_by_bot_order_id_Some [OF lo_failed(2)] lo_failed ids life.linking by blast
  next
    case (lo_linked p q url)
    have "url \<noteq> []" using lo_linked by (auto simp: issued_def dest: get_link_nonempty)
    then have "creation_step p q" using lo_linked by (simp add: creation_step_def issued_def)
    moreover have "p_id q = p_id p" "p_reference_id q = p_reference_id p" using lo_linked by (simp_all add: issued_def keeps_order_def)
    ultimately show ?thesis
      using constraints_goids [OF assms(1)] payment_by_bot_order_id_Some [OF lo_linked(2)] lo_linked ids life.linking by blast
  qed (use constraints_same_rows [OF assms(1)] in auto)
  then show ?thesis unfolding out by simp
qed

text \<open>A verify attempt keeps every unique column but the reference id, which \<open>verify_and_settle_unique\<close> covers.\<close>

lemma callback_step_keys:
  "callback_step p q \<Longrightarrow> (p_id q, p_bot_order_id q, p_gateway_order_id q) = (p_id p, p_bot_order_id p, p_gateway_order_id p)"
  by (auto simp: callback_step_def financial_eq_def)

lemma constraints_callback:
  assumes "constraints d" "list_all2 callback_step (payments d) (payments d')" "unique_references d'"
  shows "constraints d' \<and> evolves (life cfg) d d'"
proof -
  have rows: "list_all2 (life cfg)\<^sup>*\<^sup>* (payments d) (payments d')"
    using assms(2) by (rule list_all2_mono) (auto intro: life.settling)
  have "list_all sound_row (payments d')"
    by (rule life.rows_invariant [OF rows]) (use assms(1) life_sound in \<open>auto simp: constraints_def\<close>)
  moreover have "map p_id (payments d') = map p_id (payments d)" "map p_bot_order_id (payments d') = map p_bot_order_id (payments d)"
    "map p_gateway_order_id (payments d') = map p_gateway_order_id (payments d)"
    by (rule list_all2_id_map [OF assms(2)], use callback_step_keys in auto)+
  ultimately have "constraints d'" using assms(1,3) by (simp add: constraints_def)
  then show ?thesis using life.evolves_rows [OF rows] by blast
qed

lemma verify_ok:
  assumes "constraints (work s)" "p \<in> set (payments (work s))" "p_gateway_verified_at p = None" "p_status p \<noteq> MANUAL_REVIEW"
  shows "constraints (durable (fst (verify_and_settle cl http c src s p)))
       \<and> evolves (life cfg) (work s) (durable (fst (verify_and_settle cl http c src s p)))"
proof (rule constraints_callback [OF assms(1)])
  have ids: "distinct (map p_id (payments (work s)))" and ur: "unique_references (work s)"
    using assms(1) by (simp_all add: constraints_def)
  have find: "find_row p_id (payments (work s)) (p_id p) = Some p" by (rule find_row_mem [OF ids assms(2)])
  show "list_all2 callback_step (payments (work s)) (payments (durable (fst (verify_and_settle cl http c src s p))))"
    using verify_and_settle_callback_step [OF assms(3,4) ids find] .
  show "unique_references (durable (fst (verify_and_settle cl http c src s p)))"
    using verify_and_settle_unique [OF ur ids] find by (simp add: payment_by_id_def)
qed

lemma constraints_cong: "payments d = payments d' \<Longrightarrow> constraints d = constraints d'"
  by (simp add: constraints_def unique_references_def)

lemma callback_ok:
  assumes "constraints (durable s)" "work s = durable s"
  shows "constraints (durable (fst (process_callback C cl http c s g tok)))
       \<and> evolves (life cfg) (durable s) (durable (fst (process_callback C cl http c s g tok)))"
proof (cases rule: process_callback_cases [of C cl http c s g tok])
  case ignored
  then show ?thesis using constraints_same_rows [OF assms(1)] assms(2) by simp
next
  case (attempted p)
  have c: "constraints (work (received s p g))" using assms constraints_cong [of "work (received s p g)" "durable s"] by simp
  have "evolves (life cfg) (durable s) (work (received s p g))" using assms(2) by (intro life.evolves_same) simp
  moreover have "constraints (durable (fst (process_callback C cl http c s g tok)))
      \<and> evolves (life cfg) (work (received s p g)) (durable (fst (process_callback C cl http c s g tok)))"
    unfolding attempted(4) using attempted(1-3) by (intro verify_ok [OF c]) simp_all
  ultimately show ?thesis using life.evolves_trans by blast
qed

lemma recover_ok:
  assumes "constraints (durable s)" "work s = durable s"
  shows "constraints (durable (fst (execute_confirmed_recovery cl http cfg' s i)))
       \<and> evolves (life cfg) (durable s) (durable (fst (execute_confirmed_recovery cl http cfg' s i)))"
proof (cases "\<exists>p. payment_by_id (work s) i = Some p \<and> aged_out_conditions cfg' (clock s) p")
  case False
  then show ?thesis
    using recovery_refused [of s i cfg' cl http http] assms(2) by (intro constraints_same_rows [OF assms(1)]) blast
next
  case True
  then obtain p where p: "payment_by_id (work s) i = Some p" "aged_out_conditions cfg' (clock s) p" by blast
  obtain s1 where s1: "payments (work s1) = payments (work s)"
    "payments (durable (fst (execute_confirmed_recovery cl http cfg' s i)))
       = payments (durable (fst (verify_and_settle cl http (Some cfg') Recovery_Source s1 p)))"
    using recovery_run [OF p, of cl http] by blast
  have c: "constraints (work s1)" using assms constraints_cong [of "work s1" "durable s"] s1(1) by simp
  have "p \<in> set (payments (work s1))" using p(1) s1(1) find_row_Some [of p_id] by (auto simp: payment_by_id_def)
  moreover have "p_gateway_verified_at p = None" "p_status p \<noteq> MANUAL_REVIEW" using p(2) by (auto simp: aged_out_conditions_def)
  ultimately have "constraints (durable (fst (verify_and_settle cl http (Some cfg') Recovery_Source s1 p)))
      \<and> evolves (life cfg) (work s1) (durable (fst (verify_and_settle cl http (Some cfg') Recovery_Source s1 p)))"
    by (intro verify_ok [OF c])
  moreover have "evolves (life cfg) (durable s) (work s1)" using s1(1) assms(2) by (intro life.evolves_same) simp
  ultimately have ok: "constraints (durable (fst (verify_and_settle cl http (Some cfg') Recovery_Source s1 p)))"
    "evolves (life cfg) (durable s) (durable (fst (verify_and_settle cl http (Some cfg') Recovery_Source s1 p)))"
    using life.evolves_trans by blast+
  then show ?thesis
    using s1(2) constraints_cong [OF s1(2)] by (simp add: evolves_def)
qed

lemma poll_ok:
  assumes "constraints (durable s)" "work s = durable s" "recon_claim_next_due cfg locked s w now k = (s1, Some p)"
  shows "constraints (durable (fst (verify_and_settle cl http c src s1 p)))
       \<and> evolves (life cfg) (durable s) (durable (fst (verify_and_settle cl http c src s1 p)))"
proof -
  obtain q where q: "q \<in> set (payments (durable s))" "recon_due cfg now q" "p = recon_claim cfg q w now"
    "payments (work s1) = put_row p_id p (payments (durable s))"
    using recon_claim_next_due_Some [OF assms(3,2)] by (metis put_payment_sel(6))
  have ids: "distinct (map p_id (payments (durable s)))" using assms(1) by (simp add: constraints_def)
  have id: "p_id p = p_id q" using q(3) by simp
  have "list_all2 bookkeeping\<^sup>*\<^sup>* (payments (durable s)) (payments (work s1))"
    unfolding q(4) using bookkeeping_claim [of q cfg w now] find_row_mem [OF ids q(1)] id q(3)
    by (intro put_row_list_all2 [OF ids, of "p_id q" q]) auto
  then have c1: "constraints (work s1) \<and> evolves (life cfg) (durable s) (work s1)"
    by (rule constraints_rows [OF assms(1)]) (use life_bookkeeping in blast)+
  have "p \<in> set (payments (work s1))" unfolding q(4) using q(1) id by (auto simp: put_row_def)
  moreover have "p_gateway_verified_at p = None" "p_status p \<noteq> MANUAL_REVIEW"
    using recon_due_link [OF q(2)] q(3) by simp_all
  ultimately show ?thesis using verify_ok c1 life.evolves_trans by blast
qed

lemma requeue_ok:
  assumes "constraints (durable s)" "work s = durable s"
    and "rows = first_n_by resend_order n (filter (\<lambda>p. eligible_predicate p \<and> \<not> locked (p_id p)) (payments (durable s)))"
  shows "constraints (durable (commit (foldl (requeue_one tg now) s rows)))
       \<and> evolves (life cfg) (durable s) (durable (commit (foldl (requeue_one tg now) s rows)))"
proof -
  have ids: "distinct (map p_id (payments (durable s)))" using assms(1) by (simp add: constraints_def)
  have sub: "set rows \<subseteq> set (filter (\<lambda>p. eligible_predicate p \<and> \<not> locked (p_id p)) (payments (durable s)))"
    unfolding assms(3) by (rule set_first_n_by)
  have "distinct (map p_id rows)" unfolding assms(3) by (rule distinct_first_n_by) (simp add: distinct_map_filter ids)
  then have rows: "payments (durable (commit (foldl (requeue_one tg now) s rows)))
      = map (\<lambda>q. if q \<in> set rows then requeued_state now q else q) (payments (durable s))"
    using requeue_batch.fold_rows [of s rows tg now] ids sub assms(2) by auto
  show ?thesis
  proof (rule constraints_rows [OF assms(1)])
    show "list_all2 (\<lambda>p q. q = p \<or> eligible_predicate p \<and> q = requeued_state now p) (payments (durable s))
        (payments (durable (commit (foldl (requeue_one tg now) s rows))))"
      unfolding rows using sub by (auto simp: list_all2_map2 intro!: list.rel_refl_strong)
  qed (auto intro: life.requeueing financial_eq_keys requeued_state_financial simp: eligible_predicate_def)
qed

lemma review_command_ok:
  assumes "constraints (durable s)" "work s = durable s"
  shows "constraints (durable (fst (cmd_review cfg' s cmd order_id)))
       \<and> evolves (life cfg) (durable s) (durable (fst (cmd_review cfg' s cmd order_id)))"
proof -
  have step: "(life cfg)\<^sup>*\<^sup>* p q \<and> row_keys q = row_keys p" if "review_step cfg' cmd (clock s) p q" for p q
  proof
    show "(life cfg)\<^sup>*\<^sup>* p q"
      using that unfolding review_step_def by (auto intro: life.acknowledging life.resolving life.requeueing)
    show "row_keys q = row_keys p"
      using that by (auto simp: review_step_def row_keys_def acknowledged_def resolved_review_def requeued_state_def)
  qed
  have "list_all2 (review_step cfg' cmd (clock s)) (payments (durable s)) (payments (durable (fst (cmd_review cfg' s cmd order_id))))"
    using cmd_review_rows [OF assms(2)] assms(1) by (simp add: constraints_def)
  then show ?thesis by (rule constraints_rows [OF assms(1)]) (use step in blast)+
qed

lemma resolve_review_ok:
  assumes "constraints (durable s)" "work s = durable s"
  shows "constraints (durable (fst (resolve_reviews (\<lambda>d. d) s order_ids r memo actor now)))
       \<and> evolves (life cfg) (durable s) (durable (fst (resolve_reviews (\<lambda>d. d) s order_ids r memo actor now)))"
proof -
  obtain s' res where out: "resolve_reviews (\<lambda>d. d) s order_ids r memo actor now = (s', res)" by fastforce
  have ids: "distinct (map p_id (payments (durable s)))" using assms(1) by (simp add: constraints_def)
  have "list_all2 (\<lambda>p q. q = p \<or> q = resolved_review r now p) (payments (durable s)) (payments (durable s'))"
    using resolve_reviews_rows [OF assms(2) ids out] by simp
  then show ?thesis
    unfolding out fst_conv
  proof (rule constraints_rows [OF assms(1)])
    fix p q
    assume "q = p \<or> q = resolved_review r now p"
    then show "(life cfg)\<^sup>*\<^sup>* p q" by (auto intro: life.resolving)
    show "row_keys q = row_keys p"
      using \<open>q = p \<or> q = resolved_review r now p\<close> by (auto simp: row_keys_def resolved_review_def)
  qed
qed

lemma attention_state_id: "p_id (attention_state p r b n t) = p_id p"
  by (simp add: attention_state_def)

lemma resolve_item_ok:
  assumes "constraints (durable s)" "work s = durable s"
  shows "constraints (durable (fst (resolve_attention s i r memo actor now)))
       \<and> evolves (life cfg) (durable s) (durable (fst (resolve_attention s i r memo actor now)))"
proof -
  let ?s' = "fst (resolve_attention s i r memo actor now)"
  have ids: "distinct (map p_id (payments (durable s)))" using assms(1) by (simp add: constraints_def)
  have "list_all2 (\<lambda>p q. q = p \<or> (\<exists>r' b' n'. r' \<noteq> [] \<and> b' \<noteq> [] \<and> n' \<noteq> [] \<and> q = attention_state p r' b' n' now))
      (payments (durable s)) (payments (durable ?s'))"
  proof (cases "payments (durable ?s') = payments (durable s)")
    case True
    then show ?thesis by (simp add: list.rel_refl_strong)
  next
    case False
    then obtain p where p: "payment_by_id (durable s) i = Some p" "r \<noteq> []" "strip memo \<noteq> []" "strip actor \<noteq> []"
      "payments (durable ?s') = put_row p_id (attention_state p r (take ATTENTION_ACTOR_MAX_LENGTH (strip actor))
         (take ATTENTION_NOTE_MAX_LENGTH (strip memo)) now) (payments (durable s))"
      using resolve_attention_rows [OF assms(2)] by blast
    have "take ATTENTION_ACTOR_MAX_LENGTH (strip actor) \<noteq> []" "take ATTENTION_NOTE_MAX_LENGTH (strip memo) \<noteq> []"
      using p(3,4) by (simp_all add: ATTENTION_ACTOR_MAX_LENGTH_def ATTENTION_NOTE_MAX_LENGTH_def)
    then have new: "\<exists>r' b' n'. r' \<noteq> [] \<and> b' \<noteq> [] \<and> n' \<noteq> [] \<and> attention_state p r
        (take ATTENTION_ACTOR_MAX_LENGTH (strip actor)) (take ATTENTION_NOTE_MAX_LENGTH (strip memo)) now = attention_state p r' b' n' now"
      using p(2) by blast
    have find: "find_row p_id (payments (durable s)) i = Some p" using p(1) by (simp add: payment_by_id_def)
    show ?thesis
      unfolding p(5)
      by (rule put_row_list_all2 [OF ids find]) (use new find_row_Some [OF find] in \<open>simp_all add: attention_state_id\<close>)
  qed
  then show ?thesis
  proof (rule constraints_rows [OF assms(1)])
    fix p q
    assume pq: "q = p \<or> (\<exists>r' b' n'. r' \<noteq> [] \<and> b' \<noteq> [] \<and> n' \<noteq> [] \<and> q = attention_state p r' b' n' now)"
    then show "(life cfg)\<^sup>*\<^sup>* p q" by (auto intro: life.attending)
    show "row_keys q = row_keys p" using pq by (auto simp: row_keys_def attention_state_def)
  qed
qed

lemma bridge_step_ok:
  assumes "bridge_step cfg d d'" "constraints d"
  shows "constraints d' \<and> evolves (life cfg) d d'"
  using assms
proof (induction rule: bridge_step.induct)
  case (resolve_payer s C secret k tg reserved)
  then show ?case
    using resolve_payer_identity_only [OF resolve_payer(1)] by (intro constraints_same_rows) (simp_all add: only_identities_def)
next
  case (claim_delivery s locked w now)
  then show ?case by (intro constraints_delivers) (simp_all add: claim_next_due_delivers constraints_def)
next
  case (record_result s c oc ms now jit)
  then show ?case by (intro constraints_delivers) (simp_all add: record_attempt_result_delivers constraints_def)
next
  case (release_claims s locked now jitf n)
  then show ?case by (intro constraints_delivers) (simp_all add: release_stale_claims_delivers constraints_def)
next
  case (accept_manually s i memo now)
  then show ?case by (intro constraints_delivers) (simp_all add: execute_manual_accept_delivers constraints_def)
next
  case (finalize_poll s cached i w att outcome code now)
  then have "list_all2 bookkeeping\<^sup>*\<^sup>* (payments (durable s)) (payments (durable (fst (finalize cfg cached s i w att outcome code now))))"
    using finalize_bookkeeping [of s] by (simp add: constraints_def)
  then show ?case by (rule constraints_rows [OF finalize_poll(2)]) (use life_bookkeeping in blast)+
next
  case (set_fee s rate aware effective actor memo scheduled)
  then show ?case
    by (intro constraints_same_rows) (auto simp: create_policy_def Let_def split: sum.split)
next
  case (cancel_fee s policy_id actor memo now)
  then show ?case
    by (intro constraints_same_rows) (auto simp: cancel_policy_def Let_def split: sum.split option.split)
next
  case (note_backup s success filesize file_name days detail)
  then show ?case by (intro constraints_same_rows) (simp_all add: cmd_backup_event_def Let_def)
next
  case (test_alert s message)
  then show ?case by (intro constraints_same_rows) (simp_all add: cmd_test_alert_def)
next
  case (release_alerts s locked now)
  then show ?case using release_alerts_move [OF release_alerts(1)] by (intro constraints_same_rows) (simp_all add: alerts_move_def)
next
  case (claim_alerts s locked w now n)
  then show ?case using claim_alerts_move [OF claim_alerts(1)] by (intro constraints_same_rows) (simp_all add: alerts_move_def)
next
  case (record_alert s c t now j s' st)
  have "payments (durable s') = payments (durable s)"
    using record_alert(2) record_alert(1) by (cases rule: record_delivery_result_cases) simp_all
  then show ?case using record_alert(3) by (intro constraints_same_rows)
qed (rule insert_row_ok issue_ok callback_ok poll_ok requeue_ok resolve_review_ok resolve_item_ok review_command_ok recover_ok; assumption)+

section \<open>Runs of the bridge\<close>

lemma run_ok: "(bridge_step cfg)\<^sup>*\<^sup>* d d' \<Longrightarrow> constraints d \<Longrightarrow> constraints d' \<and> evolves (life cfg) d d'"
proof (induction rule: rtranclp_induct)
  case base
  then show ?case by (simp add: life.evolves_same)
next
  case (step y z)
  then show ?case using bridge_step_ok life.evolves_trans by blast
qed

lemma empty_constraints: "constraints empty_db"
  by (simp add: constraints_def empty_db_def unique_references_def)

text \<open>
  C5. In every database the bridge can reach from an empty one, whatever callers, gateway, bot and
  operators do and however their transactions interleave, payment ids, order ids, gateway order
  ids and gateway references are unique, every row meets the CHECK constraints of the table, a
  payment is queued for or accepted by the bot only when the gateway verified it, and a gateway
  reference is on file exactly for the verified payments. No UPDATE of the code can therefore be
  rejected by a constraint.
\<close>

theorem reachable_constraints:
  assumes "(bridge_step cfg)\<^sup>*\<^sup>* empty_db d"
  shows "distinct (map p_id (payments d)) \<and> distinct (map p_bot_order_id (payments d))
       \<and> distinct (map p_gateway_order_id (payments d)) \<and> unique_references d
       \<and> (\<forall>p \<in> set (payments d). ck_payment p
            \<and> (p_status p \<in> {BOT_NOTIFY_PENDING, BOT_NOTIFY_ACCEPTED} \<longrightarrow> p_gateway_verified_at p \<noteq> None)
            \<and> (p_reference_id p = None \<longleftrightarrow> p_gateway_verified_at p = None)
            \<and> p_status p \<noteq> GATEWAY_VERIFIED)"
proof -
  have c: "constraints d" using run_ok [OF assms] empty_constraints by blast
  have "ck_payment p \<and> (p_status p \<in> {BOT_NOTIFY_PENDING, BOT_NOTIFY_ACCEPTED} \<longrightarrow> p_gateway_verified_at p \<noteq> None)
      \<and> (p_reference_id p = None \<longleftrightarrow> p_gateway_verified_at p = None) \<and> p_status p \<noteq> GATEWAY_VERIFIED"
    if "p \<in> set (payments d)" for p
  proof -
    have "good_row p" using c that by (simp add: constraints_def list_all_iff sound_row_def)
    note p = good_row_facts [OF this]
    show ?thesis using p(1-3) ck_payment_verified [OF p(1)] by blast
  qed
  then show ?thesis using c by (simp add: constraints_def)
qed

definition first_payer :: payer_identity where
  "first_payer = \<lparr>pid_id = 9, pid_gateway_user_id = 42, pid_derivation_version = 2, pid_scheme = TELEGRAM_RAW\<rparr>"

definition first_insert :: db where
  "first_insert = durable (fst (insert_new_payment quiet_env (new_session empty_db 50)
     (new_payment ''a'' 100001 first_payer TELEGRAM_USER 5000 None 0 0 5000) first_payer))"

lemma first_insert_step: "bridge_step demo_settings empty_db first_insert"
  using bridge_step.insert_row [where s = "new_session empty_db 50" and env = quiet_env and cfg = demo_settings and b = "''a''"
      and goid = 100001 and payer = first_payer and ty = TELEGRAM_USER and amount = 5000 and policy = None and rate = 0
      and fee = 0 and payable = 5000]
  by (simp add: first_insert_def new_session_def empty_db_def undisturbed_env_def quiet_env_def calculate_fee_def MAX_RATE_BPS_def)

theorem reachable_constraints_witness:
  "length (payments first_insert) = 1 \<and> distinct (map p_gateway_order_id (payments first_insert))
 \<and> list_all ck_payment (payments first_insert)"
proof -
  have "length (payments first_insert) = 1" unfolding first_insert_def by code_simp
  then show ?thesis
    using reachable_constraints [OF r_into_rtranclp [of "bridge_step demo_settings", OF first_insert_step]]
    by (simp add: list_all_iff)
qed

text \<open>
  C6. A payment is never lost and never rewritten: along any run of the bridge it stays in the
  table under its id with the same order id, amount, fee policy, fee and payable amount, and once
  the gateway verified it, its verification time, reference, card digits, gateway order id and
  payer never change again.
\<close>

theorem settled_forever:
  assumes "(bridge_step cfg)\<^sup>*\<^sup>* empty_db d" "(bridge_step cfg)\<^sup>*\<^sup>* d d'" "payment_by_id d i = Some p"
  shows "\<exists>q. payment_by_id d' i = Some q \<and> order_facts q = order_facts p
           \<and> (p_gateway_verified_at p \<noteq> None \<longrightarrow> settlement_facts q = settlement_facts p)"
proof -
  have "evolves (life cfg) d d'" using run_ok [OF assms(2)] run_ok [OF assms(1) empty_constraints] by blast
  then obtain q where q: "payment_by_id d' i = Some q" "(life cfg)\<^sup>*\<^sup>* p q"
    using assms(3) by (rule life.evolves_find)
  from q(2) have "order_facts q = order_facts p
      \<and> (p_gateway_verified_at p \<noteq> None \<longrightarrow> settlement_facts q = settlement_facts p)"
  proof (induction rule: rtranclp_induct)
    case (step y z)
    then show ?case using life_facts [OF step(2)] by (auto simp: settlement_facts_def)
  qed simp
  then show ?thesis using q(1) by blast
qed

theorem settled_forever_witness:
  "\<exists>p q. payment_by_id first_insert 101 = Some p \<and> payment_by_id first_insert 101 = Some q \<and> order_facts q = order_facts p"
proof -
  have "map_option p_id (payment_by_id first_insert 101) = Some 101" unfolding first_insert_def by code_simp
  then obtain p where p: "payment_by_id first_insert 101 = Some p" by auto
  show ?thesis
    using settled_forever [OF r_into_rtranclp [of "bridge_step demo_settings", OF first_insert_step] rtranclp.rtrancl_refl p] p
    by blast
qed

text \<open>
  The guard against mixed verification sets in the bulk review resolution is a second line of
  defence only: in a database the bridge can reach, a report whose rows are all eligible is never
  refused because some of the payments are verified and others are not.
\<close>

theorem mixed_set_unreachable:
  assumes "(bridge_step cfg)\<^sup>*\<^sup>* empty_db d" "build_report d order_ids resolution = Some report"
  shows "rp_set_refusal report \<noteq> Some MIXED_VERIFICATION_SET"
proof
  assume mixed: "rp_set_refusal report = Some MIXED_VERIFICATION_SET"
  have c: "constraints d" using run_ok [OF assms(1)] empty_constraints by blast
  obtain rows where rows: "report_rows d resolution order_ids [] [] = Some rows" "refusal_of_set rows = Some MIXED_VERIFICATION_SET"
    using assms(2) mixed by (auto simp: build_report_def split: if_splits)
  then have elig: "list_all (\<lambda>row. rr_refusal row = None) rows" and mix: "set_refusal rows \<noteq> None"
    by (auto simp: refusal_of_set_def split: if_splits)
  obtain qs where qs: "length qs = length order_ids" "rows = map2 (row_for resolution) order_ids qs"
    "list_all2 (\<lambda>o' q. find_payment_by_order_id d o' = Inr (Some q)) order_ids qs"
    using report_rows_eligible [OF rows(1) elig] by blast
  have "rr_gateway_verified row = Some True" if row: "row \<in> set rows" for row
  proof -
    obtain o' q where oq: "(o', q) \<in> set (zip order_ids qs)" "row = row_for resolution o' q"
      using row unfolding qs(2) by auto
    then have "q \<in> set (payments d)" "review_refuse_reason q resolution = None"
      using qs(3) elig row find_payment_by_order_id_Some by (auto simp: list_all2_iff list_all_iff row_for_def)
    then have "good_row q" "p_bot_notify_reason q \<noteq> None"
      using c by (auto simp: constraints_def list_all_iff review_refuse_reason_None sound_row_def)
    then show ?thesis using good_row_facts(5) oq(2) by (auto simp: row_for_def)
  qed
  then have "set (map rr_gateway_verified rows) \<subseteq> {Some True}" by auto
  then have "length (remdups (map rr_gateway_verified rows)) \<le> 1"
    using card_mono [of "{Some True}" "set (map rr_gateway_verified rows)"] by (simp add: length_remdups_card_conv)
  then show False using mix by (simp add: set_refusal_def)
qed

theorem mixed_set_unreachable_witness:
  "\<exists>report. build_report first_insert [''a''] ''confirmed_by_bot_operator'' = Some report
          \<and> rp_set_refusal report \<noteq> Some MIXED_VERIFICATION_SET"
proof -
  have "build_report first_insert [''a''] ''confirmed_by_bot_operator'' \<noteq> None" unfolding first_insert_def by code_simp
  then obtain report where "build_report first_insert [''a''] ''confirmed_by_bot_operator'' = Some report" by blast
  then show ?thesis
    using mixed_set_unreachable [OF r_into_rtranclp [of "bridge_step demo_settings", OF first_insert_step]] by blast
qed

end
