(* ===== verification/Db_Check.thy ===== *)
theory Db_Check
  imports Lifecycle
begin

text \<open>
  The integrity report (\<open>run_db_checks\<close> in \<open>app/ops.py\<close>), its drill-down and the payer-isolation report,
  and what the life of the bridge says about them: the checks of the payment table cannot fail in a
  database the bridge reached by itself, so a failure points outside it.
\<close>

section \<open>The checks\<close>

definition PAYMENT_STATUSES :: "string list" where
  "PAYMENT_STATUSES =
     map status_value [CREATED, LINK_CREATED, GETLINK_FAILED, GATEWAY_VERIFIED, BOT_NOTIFY_PENDING, BOT_NOTIFY_ACCEPTED, MANUAL_REVIEW]"

definition dup_count :: "(payment \<Rightarrow> 'k option) \<Rightarrow> db \<Rightarrow> nat" where
  "dup_count column d =
     length (filter (\<lambda>k. count_where (\<lambda>p. column p = Some k) (payments d) > 1) (remdups (List.map_filter column (payments d))))"

definition invalid_policy :: "fee_policy \<Rightarrow> bool" where
  "invalid_policy f \<longleftrightarrow>
     fp_rate_bps f < 0 \<or> fp_rate_bps f > 10000 \<or> fp_note f = []
   \<or> fp_cancelled_at f \<noteq> None \<and> (fp_cancelled_by f = None \<or> fp_cancellation_note f = None)"

text \<open>\<open>payable_amount\<close> is a NOT NULL column; no row of the model lacks it.\<close>

definition db_checks :: "db \<Rightarrow> (string \<times> nat) list" where
  "db_checks d =
     [(''invalid_payment_status'', count_where (\<lambda>p. status_value (p_status p) \<notin> set PAYMENT_STATUSES) (payments d)),
      (''duplicate_bot_order_id'', dup_count (\<lambda>p. Some (p_bot_order_id p)) d),
      (''duplicate_gateway_order_id'', dup_count (\<lambda>p. Some (p_gateway_order_id p)) d),
      (''duplicate_reference_id'', dup_count p_reference_id d),
      (''orphan_payment_events'',
         count_where (\<lambda>e. case ev_payment_id e of None \<Rightarrow> False | Some i \<Rightarrow> i \<notin> set (map p_id (payments d))) (payment_events d)),
      (''claims_on_non_pending_payments'',
         count_where (\<lambda>p. p_notification_claimed_at p \<noteq> None \<and> p_status p \<noteq> BOT_NOTIFY_PENDING) (payments d)),
      (''invalid_fee_rate'', count_where (\<lambda>p. p_fee_rate_bps p < 0 \<or> p_fee_rate_bps p > 10000) (payments d)),
      (''negative_fee_amount'', count_where (\<lambda>p. p_fee_amount p < 0) (payments d)),
      (''payable_amount_mismatch'', count_where (\<lambda>p. p_payable_amount p \<noteq> p_amount p + p_fee_amount p) (payments d)),
      (''missing_payable_amount'', 0),
      (''orphan_fee_policy_reference'',
         count_where (\<lambda>p. case p_fee_policy_id p of None \<Rightarrow> False | Some i \<Rightarrow> i \<notin> set (map fp_id (fee_policies d))) (payments d)),
      (''policyless_payment_with_fee'',
         count_where (\<lambda>p. p_fee_policy_id p = None \<and> (p_fee_rate_bps p \<noteq> 0 \<or> p_fee_amount p \<noteq> 0)) (payments d)),
      (''invalid_fee_policy_rows'', count_where invalid_policy (fee_policies d))]"

text \<open>A sequence as PostgreSQL reports it, with the largest id of its table.\<close>

record sequence_row =
  sr_table :: string
  sr_max_id :: int
  sr_last_value :: int
  sr_is_called :: bool

definition sequence_behind :: "sequence_row \<Rightarrow> bool" where
  "sequence_behind r \<longleftrightarrow>
     sr_max_id r > 0 \<and> (sr_last_value r < sr_max_id r \<or> sr_last_value r = sr_max_id r \<and> \<not> sr_is_called r)"

text \<open>\<open>setval(seq, max_id)\<close>\<close>

definition repair_sequence :: "sequence_row \<Rightarrow> sequence_row" where
  "repair_sequence r = r\<lparr>sr_last_value := sr_max_id r, sr_is_called := True\<rparr>"

text \<open>\<open>nextval(seq)\<close>\<close>

definition next_value :: "sequence_row \<Rightarrow> int" where
  "next_value r = (if sr_is_called r then sr_last_value r + 1 else sr_last_value r)"

record db_report =
  dc_alembic_revision :: "string option"
  dc_checks :: "(string \<times> nat) list"
  dc_sequences :: "(string \<times> int \<times> int \<times> bool) list"
  dc_repaired :: "string list"
  dc_failures :: "string list"

definition report_ok :: "db_report \<Rightarrow> bool" where
  "report_ok r \<longleftrightarrow> dc_failures r = []"

definition run_db_checks :: "string option \<Rightarrow> db \<Rightarrow> sequence_row list \<Rightarrow> bool \<Rightarrow> sequence_row list \<times> db_report" where
  "run_db_checks revision d seqs repair_sequences =
     (let checks = db_checks d;
          behind = filter sequence_behind seqs
      in (if repair_sequences then map (\<lambda>r. if sequence_behind r then repair_sequence r else r) seqs else seqs,
          \<lparr>dc_alembic_revision = revision, dc_checks = checks,
           dc_sequences = map (\<lambda>r. (sr_table r, sr_max_id r, sr_last_value r, sequence_behind r)) seqs,
           dc_repaired = (if repair_sequences then map sr_table behind else []),
           dc_failures =
             (if revision = None then [''alembic_version_missing''] else [])
             @ map fst (filter (\<lambda>(_, n). n \<noteq> 0) checks)
             @ (if repair_sequences then [] else map (\<lambda>r. ''sequence_behind:'' @ sr_table r) behind)\<rparr>))"

section \<open>The drill-down\<close>

definition DETAILS_ROW_LIMIT :: nat where
  "DETAILS_ROW_LIMIT = 20"

definition DETAILS_EVENT_LIMIT :: nat where
  "DETAILS_EVENT_LIMIT = 50"

definition SAFE_EVENT_DATA_KEYS :: "string list" where
  "SAFE_EVENT_DATA_KEYS =
     [''reason'', ''reason_code'', ''previous_reason'', ''error_code'', ''http_status'', ''attempt'', ''duration_ms'', ''stage'',
      ''worker_id'', ''payment_status'', ''resolution'', ''field_errors'', ''retry_mode'', ''scheduled'', ''idempotent'']"

fun safe_scalar :: "json \<Rightarrow> json option" where
  "safe_scalar (JStr s) = Some (JStr (take 200 s))"
| "safe_scalar (JInt i) = Some (JInt i)"
| "safe_scalar (JFloat f) = Some (JFloat f)"
| "safe_scalar (JBool b) = Some (JBool b)"
| "safe_scalar (JTime t) = Some (JTime t)"
| "safe_scalar _ = None"

fun safe_value :: "json \<Rightarrow> json option" where
  "safe_value JNull = Some JNull"
| "safe_value (JArr xs) = Some (JArr (List.map_filter safe_scalar xs))"
| "safe_value v = safe_scalar v"

definition safe_event_data :: "jdict \<Rightarrow> jdict" where
  "safe_event_data data =
     List.map_filter (\<lambda>k. map_option (\<lambda>v. (k, v)) (Option.bind (map_of data k) safe_value)) SAFE_EVENT_DATA_KEYS"

record trail_entry =
  te_event_type :: string
  te_level :: string
  te_created_at :: time
  te_request_id :: "string option"
  te_reason_fields :: jdict

record 'a bounded_listing =
  bl_total :: nat
  bl_shown :: nat
  bl_truncated :: bool
  bl_limit :: nat
  bl_entries :: "'a list"

definition bounded :: "nat \<Rightarrow> nat \<Rightarrow> 'a list \<Rightarrow> 'a bounded_listing" where
  "bounded total_count limit entries =
     \<lparr>bl_total = total_count, bl_shown = length entries, bl_truncated = (total_count > length entries), bl_limit = limit, bl_entries = entries\<rparr>"

definition trail_entry_of :: "payment_event \<Rightarrow> trail_entry" where
  "trail_entry_of e =
     \<lparr>te_event_type = ev_event_type e, te_level = ev_level e, te_created_at = ev_created_at e, te_request_id = ev_request_id e,
      te_reason_fields = safe_event_data (ev_data e)\<rparr>"

definition payment_audit_trail :: "db \<Rightarrow> int \<Rightarrow> trail_entry bounded_listing" where
  "payment_audit_trail d payment_id =
     (let own = filter (\<lambda>e. ev_payment_id e = Some payment_id) (payment_events d)
      in bounded (length own) DETAILS_EVENT_LIMIT
           (map trail_entry_of (first_n_by (\<lambda>e. (ev_created_at e, ev_id e)) DETAILS_EVENT_LIMIT own)))"

definition invalid_payment_status_detail :: "db \<Rightarrow> nat \<Rightarrow> (payment \<times> trail_entry bounded_listing) bounded_listing" where
  "invalid_payment_status_detail d total_count =
     bounded total_count DETAILS_ROW_LIMIT
       (map (\<lambda>p. (p, payment_audit_trail d (p_id p)))
          (first_n_by p_id DETAILS_ROW_LIMIT (filter (\<lambda>p. status_value (p_status p) \<notin> set PAYMENT_STATUSES) (payments d))))"

text \<open>One entry for every failed check; only one of them has rows to show.\<close>

definition build_db_check_details ::
  "db \<Rightarrow> (string \<times> nat) list \<Rightarrow> (string \<times> nat \<times> (payment \<times> trail_entry bounded_listing) bounded_listing option) list" where
  "build_db_check_details d checks =
     map (\<lambda>(name, n). (name, n, if name = ''invalid_payment_status'' then Some (invalid_payment_status_detail d n) else None))
       (filter (\<lambda>(_, n). n \<noteq> 0) checks)"

section \<open>Payer isolation\<close>

datatype creation_guard = Guard_Active | Guard_Disabled | Guard_Misconfigured

record privacy_report =
  pr_payments_total :: nat
  pr_legacy_shared_payer_payments :: nat
  pr_isolated_payer_payments :: nat
  pr_untyped_isolated_payments :: nat
  pr_payer_identity_mappings :: nat
  pr_mappings_by_scheme :: "(identity_scheme \<times> nat) list"
  pr_duplicate_gateway_user_ids :: nat
  pr_newest_legacy_payment_at :: "time option"
  pr_payment_creation_guard :: creation_guard
  pr_failures :: "string list"

definition duplicated_user_ids :: "db \<Rightarrow> int list" where
  "duplicated_user_ids d =
     filter (\<lambda>g. count_where (\<lambda>r. pi_gateway_user_id r = g) (payer_identities d) > 1) (remdups (map pi_gateway_user_id (payer_identities d)))"

definition cmd_privacy_audit :: "settings \<Rightarrow> db \<Rightarrow> privacy_report" where
  "cmd_privacy_audit cfg d =
     (let guard = (if \<not> payment_creation_enabled cfg then Guard_Disabled
                   else if centralpay_payer_id_secret cfg = [] then Guard_Misconfigured else Guard_Active);
          dups = length (duplicated_user_ids d)
      in \<lparr>pr_payments_total = length (payments d),
          pr_legacy_shared_payer_payments = count_where (\<lambda>p. p_payer_identity_id p = None) (payments d),
          pr_isolated_payer_payments = count_where (\<lambda>p. p_payer_identity_id p \<noteq> None) (payments d),
          pr_untyped_isolated_payments = count_where (\<lambda>p. p_payer_identity_id p \<noteq> None \<and> p_payer_identity_type p = None) (payments d),
          pr_payer_identity_mappings = length (payer_identities d),
          pr_mappings_by_scheme = group_counts pi_identity_scheme (payer_identities d),
          pr_duplicate_gateway_user_ids = dups,
          pr_newest_legacy_payment_at = sql_max (map (\<lambda>p. Some (p_created_at p)) (filter (\<lambda>p. p_payer_identity_id p = None) (payments d))),
          pr_payment_creation_guard = guard,
          pr_failures = (if guard = Guard_Misconfigured then [''payer_id_secret_missing''] else [])
                      @ (if dups = 0 then [] else [''duplicate_gateway_user_ids''])\<rparr>)"

section \<open>What the life of the bridge says about the report\<close>

lemma count_where_0: "(\<And>x. x \<in> set xs \<Longrightarrow> \<not> P x) \<Longrightarrow> count_where P xs = 0"
  by (simp add: count_where_def)

lemma map_filter_mem: "y \<in> set (List.map_filter f xs) \<longleftrightarrow> (\<exists>x \<in> set xs. f x = Some y)"
  by (force simp: List.map_filter_def)

lemma count_key_le_1: "distinct (map f xs) \<Longrightarrow> count_where (\<lambda>x. f x = k) xs \<le> 1"
proof (induction xs)
  case (Cons x xs)
  then have "f x = k \<Longrightarrow> filter (\<lambda>y. f y = k) xs = []" by (auto simp: filter_empty_conv image_iff)
  then show ?case using Cons by (cases "f x = k") (simp_all add: count_where_def)
qed (simp add: count_where_def)

lemma dup_count_distinct: "distinct (map f (payments d)) \<Longrightarrow> dup_count (\<lambda>p. Some (f p)) d = 0"
  unfolding dup_count_def length_0_conv filter_empty_conv using count_key_le_1 [of f "payments d"] by (simp add: not_less)

lemma dup_count_references:
  assumes "unique_references d" "distinct (map p_id (payments d))"
  shows "dup_count p_reference_id d = 0"
proof -
  have "count_where (\<lambda>p. p_reference_id p = Some r) (payments d) \<le> 1" for r
  proof (rule ccontr)
    let ?rows = "filter (\<lambda>p. p_reference_id p = Some r) (payments d)"
    assume "\<not> ?thesis"
    then obtain p q rest where rows: "?rows = p # q # rest"
      unfolding count_where_def by (cases ?rows rule: list.exhaust; cases "tl ?rows") auto
    then have "p \<in> set ?rows" "q \<in> set ?rows" by (metis list.set_intros)+
    then have "p_id p = p_id q" using assms(1) unfolding unique_references_def by simp
    moreover have "distinct (map p_id ?rows)" using assms(2) by (rule distinct_map_filter)
    ultimately show False by (simp add: rows)
  qed
  then show ?thesis unfolding dup_count_def by (simp add: filter_empty_conv not_less)
qed

lemma status_value_listed: "status_value st \<in> set PAYMENT_STATUSES"
  by (cases st) (simp_all add: PAYMENT_STATUSES_def)

lemma sound_row_checks:
  assumes "sound_row p"
  shows "\<not> (p_notification_claimed_at p \<noteq> None \<and> p_status p \<noteq> BOT_NOTIFY_PENDING)"
    "\<not> (p_fee_rate_bps p < 0 \<or> p_fee_rate_bps p > 10000)" "\<not> p_fee_amount p < 0"
    "p_payable_amount p = p_amount p + p_fee_amount p"
    "\<not> (p_fee_policy_id p = None \<and> (p_fee_rate_bps p \<noteq> 0 \<or> p_fee_amount p \<noteq> 0))"
proof -
  have t: "tidy_row p" and "ck_payment p"
    using assms good_row_facts(1) [of p] by (simp_all add: sound_row_def)
  from this(2) show "\<not> (p_fee_rate_bps p < 0 \<or> p_fee_rate_bps p > 10000)" "\<not> p_fee_amount p < 0"
    "p_payable_amount p = p_amount p + p_fee_amount p"
    unfolding ck_payment_def by linarith+
  from t show "\<not> (p_notification_claimed_at p \<noteq> None \<and> p_status p \<noteq> BOT_NOTIFY_PENDING)"
    "\<not> (p_fee_policy_id p = None \<and> (p_fee_rate_bps p \<noteq> 0 \<or> p_fee_amount p \<noteq> 0))"
    unfolding tidy_row_def by blast+
qed

definition payment_checks :: "string list" where
  "payment_checks = [''invalid_payment_status'', ''duplicate_bot_order_id'', ''duplicate_gateway_order_id'', ''duplicate_reference_id'',
     ''claims_on_non_pending_payments'', ''invalid_fee_rate'', ''negative_fee_amount'', ''payable_amount_mismatch'',
     ''missing_payable_amount'', ''policyless_payment_with_fee'']"

lemma constraints_db_checks:
  assumes "constraints d"
  shows "\<forall>(name, n) \<in> set (db_checks d). name \<in> set payment_checks \<longrightarrow> n = 0"
proof -
  have c: "distinct (map p_bot_order_id (payments d))" "distinct (map p_gateway_order_id (payments d))"
    "dup_count p_reference_id d = 0" and s: "\<And>p. p \<in> set (payments d) \<Longrightarrow> sound_row p"
    using assms dup_count_references by (auto simp: constraints_def list_all_iff)
  have z: "count_where P (payments d) = 0" if "\<And>p. sound_row p \<Longrightarrow> \<not> P p" for P
    using that s by (intro count_where_0) blast
  have "count_where (\<lambda>p. status_value (p_status p) \<notin> set PAYMENT_STATUSES) (payments d) = 0"
    by (rule z) (use status_value_listed in blast)
  moreover have "count_where (\<lambda>p. p_notification_claimed_at p \<noteq> None \<and> p_status p \<noteq> BOT_NOTIFY_PENDING) (payments d) = 0"
    "count_where (\<lambda>p. p_fee_rate_bps p < 0 \<or> p_fee_rate_bps p > 10000) (payments d) = 0"
    "count_where (\<lambda>p. p_fee_amount p < 0) (payments d) = 0"
    "count_where (\<lambda>p. p_payable_amount p \<noteq> p_amount p + p_fee_amount p) (payments d) = 0"
    "count_where (\<lambda>p. p_fee_policy_id p = None \<and> (p_fee_rate_bps p \<noteq> 0 \<or> p_fee_amount p \<noteq> 0)) (payments d) = 0"
    by (rule z, erule sound_row_checks)+ (rule z, use sound_row_checks(4) in blast, rule z, erule sound_row_checks)
  ultimately show ?thesis
    unfolding db_checks_def using c(3) dup_count_distinct [OF c(1)] dup_count_distinct [OF c(2)]
    by (simp add: payment_checks_def)
qed

lemma run_constraints: "(bridge_step cfg)\<^sup>*\<^sup>* empty_db d \<Longrightarrow> constraints d"
  using run_ok empty_constraints by blast

lemma failures_of_report:
  assumes "run_db_checks revision d seqs repair = (seqs', report)"
  shows "dc_failures report = (if revision = None then [''alembic_version_missing''] else [])
     @ map fst (filter (\<lambda>(_, n). n \<noteq> 0) (db_checks d))
     @ (if repair then [] else map (\<lambda>r. ''sequence_behind:'' @ sr_table r) (filter sequence_behind seqs))"
  using arg_cong [OF assms, of "dc_failures \<circ> snd"]
  by (simp only: run_db_checks_def Let_def o_apply snd_conv db_report.select_convs)


text \<open>A sequence left behind by a restore, as the witnesses use it.\<close>

definition restored_sequence :: sequence_row where
  "restored_sequence = \<lparr>sr_table = ''payments'', sr_max_id = 101, sr_last_value = 1, sr_is_called = False\<rparr>"


text \<open>
  The report calls a sequence behind exactly when the next id it hands out is already taken or
  below the largest id; the repair leaves none behind, keeps every other sequence, lists exactly
  the tables it repaired, and a second run finds no failure in the sequences.
\<close>

theorem sequence_repair_complete:
  assumes "run_db_checks revision d seqs True = (seqs', report)"
  shows "(\<forall>r. sequence_behind r \<longleftrightarrow> sr_max_id r > 0 \<and> next_value r \<le> sr_max_id r)
       \<and> (\<forall>r' \<in> set seqs'. sr_max_id r' > 0 \<longrightarrow> next_value r' > sr_max_id r')
       \<and> list_all2 (\<lambda>r r'. sr_table r' = sr_table r \<and> sr_max_id r' = sr_max_id r \<and> (\<not> sequence_behind r \<longrightarrow> r' = r)) seqs seqs'
       \<and> dc_repaired report = map sr_table (filter sequence_behind seqs)
       \<and> dc_failures (snd (run_db_checks revision d seqs' False)) = dc_failures report"
proof -
  have iff: "sequence_behind r \<longleftrightarrow> sr_max_id r > 0 \<and> next_value r \<le> sr_max_id r" for r
    by (auto simp: sequence_behind_def next_value_def)
  have fixed: "\<not> sequence_behind (repair_sequence r)" for r
    by (simp add: sequence_behind_def repair_sequence_def)
  have out: "seqs' = map (\<lambda>r. if sequence_behind r then repair_sequence r else r) seqs"
    "dc_repaired report = map sr_table (filter sequence_behind seqs)"
    "dc_failures report = (if revision = None then [''alembic_version_missing''] else []) @ map fst (filter (\<lambda>(_, n). n \<noteq> 0) (db_checks d))"
    using assms by (auto simp: run_db_checks_def Let_def)
  have none: "\<not> sequence_behind r'" if "r' \<in> set seqs'" for r' using that fixed by (auto simp: out(1))
  then have "filter sequence_behind seqs' = []" by (simp add: filter_empty_conv)
  then have again: "dc_failures (snd (run_db_checks revision d seqs' False)) = dc_failures report"
    by (simp add: run_db_checks_def Let_def out(3))
  have "list_all2 (\<lambda>r r'. sr_table r' = sr_table r \<and> sr_max_id r' = sr_max_id r \<and> (\<not> sequence_behind r \<longrightarrow> r' = r)) seqs seqs'"
    by (simp add: out(1) list_all2_map2 list.rel_refl_strong repair_sequence_def)
  moreover have "\<forall>r' \<in> set seqs'. sr_max_id r' > 0 \<longrightarrow> next_value r' > sr_max_id r'" using none iff not_le by blast
  ultimately show ?thesis using iff again out(2) by blast
qed

theorem sequence_repair_complete_witness:
  "next_value restored_sequence = 1 \<and> next_value (hd (fst (run_db_checks (Some ''0015'') empty_db [restored_sequence] True))) > 101"
  using sequence_repair_complete [OF prod.collapse [symmetric, of "run_db_checks (Some ''0015'') empty_db [restored_sequence] True"]]
  by (auto simp: run_db_checks_def Let_def restored_sequence_def sequence_behind_def repair_sequence_def next_value_def)

text \<open>What an event detail may hold: allow-listed keys with bounded scalars, or lists of them.\<close>

fun bounded_scalar :: "json \<Rightarrow> bool" where
  "bounded_scalar (JStr s) = (length s \<le> 200)"
| "bounded_scalar (JInt i) = True"
| "bounded_scalar (JFloat f) = True"
| "bounded_scalar (JBool b) = True"
| "bounded_scalar (JTime t) = True"
| "bounded_scalar _ = False"

fun bounded_value :: "json \<Rightarrow> bool" where
  "bounded_value JNull = True"
| "bounded_value (JArr xs) = list_all bounded_scalar xs"
| "bounded_value v = bounded_scalar v"

lemma safe_scalar_bounded: "safe_scalar v = Some w \<Longrightarrow> bounded_scalar w"
  by (induction v rule: safe_scalar.induct) auto

lemma safe_value_bounded: "safe_value v = Some w \<Longrightarrow> bounded_value w"
proof (induction v rule: safe_value.induct)
  case (2 xs)
  then have "w = JArr (List.map_filter safe_scalar xs)" by simp
  moreover have "bounded_scalar y" if "y \<in> set (List.map_filter safe_scalar xs)" for y
    using that safe_scalar_bounded [of _ y] by (auto simp: map_filter_mem)
  ultimately show ?case by (simp add: list_all_iff)
qed auto

text \<open>
  The drill-down shows no raw event data: every entry carries only allow-listed keys, no nested
  object and no text over 200 characters, and it never shows more than fifty events of a payment,
  while it states the true number.
\<close>

theorem audit_trail_safe:
  "bl_shown (payment_audit_trail d i) \<le> 50
 \<and> bl_total (payment_audit_trail d i) = count_where (\<lambda>e. ev_payment_id e = Some i) (payment_events d)
 \<and> (\<forall>e \<in> set (bl_entries (payment_audit_trail d i)). \<forall>(k, v) \<in> set (te_reason_fields e). k \<in> set SAFE_EVENT_DATA_KEYS \<and> bounded_value v)"
proof -
  have "k \<in> set SAFE_EVENT_DATA_KEYS \<and> bounded_value v" if "(k, v) \<in> set (safe_event_data data)" for k v data
    using that safe_value_bounded [of _ v] by (auto simp: safe_event_data_def map_filter_mem split: bind_splits)
  then show ?thesis
    by (auto simp: payment_audit_trail_def Let_def bounded_def DETAILS_EVENT_LIMIT_def count_where_def trail_entry_of_def first_n_by_def)
qed

text \<open>
  The daily report balances in every reachable database: what was collected through the gateway
  is the sum of the original invoices and the fees, whatever the window.
\<close>

theorem daily_report_balances:
  assumes "(bridge_step cfg)\<^sup>*\<^sup>* empty_db d"
  shows "dr_total_collected_via_gateway_toman (daily_report_payload d now day hours)
       = dr_total_original_invoices_toman (daily_report_payload d now day hours)
       + dr_total_fees_toman (daily_report_payload d now day hours)
     \<and> dr_total_fees_toman (daily_report_payload d now day hours) \<ge> 0"
proof -
  have s: "\<forall>p \<in> set (payments d). sound_row p" using run_constraints [OF assms] by (simp add: constraints_def list_all_iff)
  have "sum_list (map p_payable_amount ps) = sum_list (map p_amount ps) + sum_list (map p_fee_amount ps) \<and> sum_list (map p_fee_amount ps) \<ge> 0"
    if "set ps \<subseteq> set (payments d)" for ps
    using that
  proof (induction ps)
    case (Cons p ps)
    then show ?case using s sound_row_checks(3,4) [of p] by auto
  qed simp
  then show ?thesis by (simp add: daily_report_payload_def Let_def)
qed

theorem daily_report_balances_witness:
  "dr_total_collected_via_gateway_toman (daily_report_payload first_insert 100 ''d'' 24)
 = dr_total_original_invoices_toman (daily_report_payload first_insert 100 ''d'' 24)
 + dr_total_fees_toman (daily_report_payload first_insert 100 ''d'' 24)"
  using daily_report_balances [OF r_into_rtranclp [of "bridge_step demo_settings", OF first_insert_step]] by blast

lemma recon_due_unverified: "recon_due cfg now p \<Longrightarrow> p_gateway_verified_at p = None"
  by (auto simp: recon_due_def active_tier_due_conditions_def expiring_tier_due_conditions_def tier_due_conditions_def
      tier_age_conditions_def)

lemma local_snapshot_verified: "p_gateway_verified_at p \<noteq> None \<Longrightarrow> ls_is_gateway_verified (local_snapshot_of cfg now p)"
  by (simp add: local_snapshot_of_def Let_def)

text \<open>
  A settled payment is never polled again: along any run, once the gateway verified a payment,
  neither age tier of the reconciliation selects it, recovery of aged-out payments refuses it, and
  the diagnostic verify of the operator refuses it.
\<close>

theorem settled_never_polled:
  assumes "(bridge_step cfg)\<^sup>*\<^sup>* empty_db d" "(bridge_step cfg)\<^sup>*\<^sup>* d d'" "payment_by_id d i = Some p" "p_gateway_verified_at p \<noteq> None"
  shows "\<exists>q. payment_by_id d' i = Some q \<and> \<not> recon_due cfg now q
           \<and> determine_recovery_refusal q (local_snapshot_of cfg now q) \<noteq> None
           \<and> determine_verify_refusal q (local_snapshot_of cfg now q) True \<noteq> None"
proof -
  have "evolves (life cfg) d d'" using run_ok [OF assms(2)] run_constraints [OF assms(1)] by blast
  then obtain q where q: "payment_by_id d' i = Some q" "(life cfg)\<^sup>*\<^sup>* p q" using assms(3) by (rule life.evolves_find)
  from q(2) assms(4) have "p_gateway_verified_at q \<noteq> None"
    by (induction rule: rtranclp_induct) (use life_facts(2) in \<open>auto simp: settlement_facts_def\<close>)
  then have "\<not> recon_due cfg now q" "determine_recovery_refusal q (local_snapshot_of cfg now q) \<noteq> None"
    "determine_verify_refusal q (local_snapshot_of cfg now q) True \<noteq> None"
    using recon_due_unverified by (auto simp: determine_recovery_refusal_def determine_verify_refusal_def local_snapshot_verified)
  then show ?thesis using q(1) by blast
qed

text \<open>A payment from its insertion to its settlement, as the witness uses it.\<close>

definition linked_db :: db where
  "linked_db = durable (fst (issue_link demo_separating demo_client link_reply (\<lambda>_. False) demo_settings quiet_env
     (new_session first_insert 60) ''a'' 5000 (Some 42) (Some first_payer)))"

definition paid_data :: jdict where
  "paid_data = [(''referenceId'', JStr ''R9''), (''amount'', JInt 5000), (''userId'', JInt 42)]"

definition verified_db :: db where
  "verified_db = durable (fst (process_callback demo_separating demo_client (paid_reply paid_data) (Some demo_settings)
     (new_session linked_db 70) 100001 ''tok''))"

definition linked_row :: payment where
  "linked_row = (new_payment ''a'' 100001 first_payer TELEGRAM_USER 5000 None 0 0 5000)\<lparr>p_id := 101, p_created_at := 50,
     p_callback_token_hash := Some ''tok'', p_callback_token_issued_at := Some 60, p_status := LINK_CREATED,
     p_redirect_url := Some ''https://pay.ir/x'', p_last_error := None\<rparr>"

lemma first_rows: "payments first_insert = [(new_payment ''a'' 100001 first_payer TELEGRAM_USER 5000 None 0 0 5000)\<lparr>p_id := 101, p_created_at := 50\<rparr>]"
  unfolding first_insert_def
  by (simp add: insert_new_payment_def insert_payment_def new_payment_def ck_payment_def Let_def new_session_def empty_db_def)

lemma linked_rows: "payments linked_db = [linked_row]"
  by (simp add: linked_db_def first_rows issue_link_def Let_def payment_by_bot_order_id_def quiet_env_def new_session_def
      new_payment_def first_payer_def requested_type_def reconcile_identity_def VERIFIED_STATUSES_def request_link_def
      link_reply_accepted put_row_def linked_row_def callback_token_hash_def demo_separating_def)

lemma linked_row_sel: "p_id linked_row = 101" "p_gateway_order_id linked_row = 100001" "p_status linked_row = LINK_CREATED"
  "p_gateway_verified_at linked_row = None" "p_callback_token_hash linked_row = Some ''tok''"
  "p_payable_amount linked_row = 5000" "p_gateway_user_id linked_row = 42"
  by (simp_all add: linked_row_def new_payment_def first_payer_def)

lemma verified_rows: "\<exists>p. payment_by_id verified_db 101 = Some p \<and> p_gateway_verified_at p \<noteq> None"
proof -
  have "case verify demo_client (paid_reply paid_data) 100001 of
      Inr r \<Rightarrow> vr_gateway_success r \<and> vr_amount r = Some 5000 \<and> vr_user_id r = Some 42 \<and> vr_reference_id r = Some ''R9''
    | Inl _ \<Rightarrow> False" by code_simp
  then obtain r where r: "verify demo_client (paid_reply paid_data) (p_gateway_order_id linked_row) = Inr r"
    and ok: "vr_gateway_success r" "vr_amount r = Some 5000" "vr_user_id r = Some 42" "vr_reference_id r = Some ''R9''"
    by (auto simp: linked_row_sel split: sum.splits)
  let ?s1 = "record_event (new_session linked_db 70) (Some 101) ''callback_received'' ''info''
      [(''gateway_order_id'', JInt 100001), (''payment_status'', JStr (status_value LINK_CREATED))]"
  have s: "settles (work ?s1) linked_row r" using ok by (simp add: settles_def linked_rows new_session_def linked_row_sel)
  have "payments verified_db = [queued_state linked_row r (clock ?s1)]"
  proof (cases rule: verify_and_settle_cases [of demo_client "paid_reply paid_data" linked_row ?s1 "Some demo_settings" Callback_Source])
    case (settled r')
    then show ?thesis
      using r apply_settles(2,3) [OF s, of "Some demo_settings"]
      by (simp add: verified_db_def process_callback_def payment_by_gateway_order_id_def Let_def linked_rows new_session_def linked_row_sel
          VERIFIED_STATUSES_def callback_token_matches_def constant_time_equals_def callback_token_hash_def demo_separating_def put_row_def)
  qed (use r s in auto)
  then show ?thesis by (simp add: payment_by_id_def find_row_def queued_state_def settled_state_def linked_row_sel)
qed

lemma verified_db_reachable: "(bridge_step demo_settings)\<^sup>*\<^sup>* empty_db verified_db"
proof -
  have "bridge_step demo_settings first_insert linked_db" "bridge_step demo_settings linked_db verified_db"
    unfolding linked_db_def verified_db_def
    using bridge_step.issue [of "new_session first_insert 60"] bridge_step.callback [of "new_session linked_db 70"]
    by (simp_all add: new_session_def linked_db_def)
  then show ?thesis using first_insert_step by (meson converse_rtranclp_into_rtranclp rtranclp.rtrancl_refl)
qed

theorem settled_never_polled_witness:
  "\<exists>q. payment_by_id verified_db 101 = Some q \<and> \<not> recon_due demo_settings 500 q
     \<and> determine_recovery_refusal q (local_snapshot_of demo_settings 500 q) \<noteq> None
     \<and> determine_verify_refusal q (local_snapshot_of demo_settings 500 q) True \<noteq> None"
proof -
  obtain p where "payment_by_id verified_db 101 = Some p" "p_gateway_verified_at p \<noteq> None" using verified_rows by blast
  then show ?thesis by (rule settled_never_polled [OF verified_db_reachable rtranclp.rtrancl_refl])
qed

end
