(* ===== verification/Status.thy ===== *)
theory Status
  imports Queries Reconciliation
begin

text \<open>
  Liveness records and the operational status of reconciliation: \<open>app/services/heartbeat.py\<close>, the
  heartbeat queries of \<open>app/adminbot/queries.py\<close> and \<open>app/services/reconciliation_status.py\<close>. The table
  of heartbeats is a list beside the database; a session that writes it commits at once.
\<close>

section \<open>Heartbeats\<close>

record worker_heartbeat =
  hb_id :: int
  hb_worker_name :: string
  hb_instance_id :: string
  hb_last_heartbeat_at :: time
  hb_last_cycle_at :: "time option"
  hb_last_error_code :: "string option"
  hb_version :: "string option"

datatype heartbeat_outcome = Heartbeat_Recorded | Heartbeat_Refused | Heartbeat_Race

definition heartbeat_of :: "string \<Rightarrow> worker_heartbeat list \<Rightarrow> worker_heartbeat option" where
  "heartbeat_of instance rows = find (\<lambda>h. hb_instance_id h = instance) rows"

definition beat :: "string \<Rightarrow> time \<Rightarrow> bool \<Rightarrow> string option \<Rightarrow> worker_heartbeat \<Rightarrow> worker_heartbeat" where
  "beat version now cycle_completed error_code h =
     h\<lparr>hb_last_heartbeat_at := now,
       hb_last_cycle_at := (if cycle_completed then Some now else hb_last_cycle_at h),
       hb_last_error_code :=
         (case error_code of
            Some e \<Rightarrow> Some (take 64 e)
          | None \<Rightarrow> if cycle_completed then None else hb_last_error_code h),
       hb_version := Some version\<rparr>"

text \<open>
  \<open>others\<close> is what concurrent sessions commit between the read and the INSERT; a row another session
  inserted for the same instance in between makes the INSERT fail on the unique \<open>instance_id\<close>. An
  existing row is updated by its id, whatever happened in between to other rows.
\<close>

definition record_worker_heartbeat ::
  "(worker_heartbeat list \<Rightarrow> worker_heartbeat list) \<Rightarrow> string \<Rightarrow> int \<Rightarrow> worker_heartbeat list \<Rightarrow> string \<Rightarrow> string \<Rightarrow> time \<Rightarrow> bool
   \<Rightarrow> string option \<Rightarrow> worker_heartbeat list \<times> heartbeat_outcome" where
  "record_worker_heartbeat others version next_id rows worker_name instance now cycle_completed error_code =
     (let upd = beat version now cycle_completed error_code
      in case heartbeat_of instance rows of
           Some h \<Rightarrow>
             if hb_worker_name h \<noteq> worker_name then (others rows, Heartbeat_Refused)
             else (map (\<lambda>r. if hb_id r = hb_id h then upd r else r) (others rows), Heartbeat_Recorded)
         | None \<Rightarrow>
             if heartbeat_of instance (others rows) \<noteq> None then (others rows, Heartbeat_Race)
             else (others rows @
                   [upd \<lparr>hb_id = next_id, hb_worker_name = worker_name, hb_instance_id = instance, hb_last_heartbeat_at = now,
                         hb_last_cycle_at = None, hb_last_error_code = None, hb_version = Some version\<rparr>], Heartbeat_Recorded))"

text \<open>\<open>ORDER BY last_heartbeat_at DESC LIMIT 1\<close>\<close>

definition latest_worker_heartbeat :: "worker_heartbeat list \<Rightarrow> string \<Rightarrow> worker_heartbeat option" where
  "latest_worker_heartbeat rows worker_name =
     first_by (\<lambda>h. - hb_last_heartbeat_at h) (filter (\<lambda>h. hb_worker_name h = worker_name) rows)"

definition worker_heartbeat_age_seconds :: "worker_heartbeat list \<Rightarrow> time \<Rightarrow> time option" where
  "worker_heartbeat_age_seconds rows now =
     map_option (\<lambda>h. now - hb_last_heartbeat_at h) (latest_worker_heartbeat rows ''notification-worker'')"

section \<open>The reconciliation status\<close>

definition RECONCILIATION_WORKER_NAME :: string where
  "RECONCILIATION_WORKER_NAME = ''reconciliation-worker''"

datatype config_source = CONFIG_SOURCE_WORKER_CONTAINER | CONFIG_SOURCE_UNCONFIRMED

text \<open>The argument is the age of the worker's liveness file, \<open>None\<close> when it cannot be read.\<close>

definition detect_config_source :: "time option \<Rightarrow> config_source" where
  "detect_config_source file_age =
     (case file_age of
        None \<Rightarrow> CONFIG_SOURCE_UNCONFIRMED
      | Some a \<Rightarrow> if a < 120 then CONFIG_SOURCE_WORKER_CONTAINER else CONFIG_SOURCE_UNCONFIRMED)"

definition age_seconds :: "time \<Rightarrow> time option \<Rightarrow> time option" where
  "age_seconds now v = map_option (\<lambda>t. now - t) v"

definition oldest_age :: "time option list \<Rightarrow> time option" where
  "oldest_age ages = sql_max ages"

record reconciliation_runtime =
  rt_enabled :: bool
  rt_config_source :: config_source
  rt_heartbeat_present :: bool
  rt_heartbeat_age_seconds :: "time option"
  rt_heartbeat_fresh :: "bool option"
  rt_last_successful_cycle_at :: "time option"
  rt_last_successful_cycle_age_seconds :: "time option"
  rt_last_error_code :: "string option"

definition runtime_of :: "settings \<Rightarrow> worker_heartbeat list \<Rightarrow> time option \<Rightarrow> time \<Rightarrow> reconciliation_runtime" where
  "runtime_of cfg rows file_age now =
     (let heartbeat = latest_worker_heartbeat rows RECONCILIATION_WORKER_NAME;
          age = age_seconds now (map_option hb_last_heartbeat_at heartbeat);
          last_cycle_at = Option.bind heartbeat hb_last_cycle_at
      in \<lparr>rt_enabled = reconciliation_enabled cfg,
          rt_config_source = detect_config_source file_age,
          rt_heartbeat_present = (heartbeat \<noteq> None),
          rt_heartbeat_age_seconds = age,
          rt_heartbeat_fresh =
            (if \<not> reconciliation_enabled cfg then None
             else case age of
                    None \<Rightarrow> Some False
                  | Some a \<Rightarrow> Some (a < max (reconciliation_interval_seconds cfg * 6) 120)),
          rt_last_successful_cycle_at = last_cycle_at,
          rt_last_successful_cycle_age_seconds = age_seconds now last_cycle_at,
          rt_last_error_code = Option.bind heartbeat hb_last_error_code\<rparr>)"

record payment_buckets =
  pb_total_unverified :: nat
  pb_active :: nat
  pb_expiring :: nat
  pb_aged_out :: nat

definition buckets_of :: "db \<Rightarrow> settings \<Rightarrow> time \<Rightarrow> payment_buckets" where
  "buckets_of d cfg now =
     (let active = count_where (active_tier_age_conditions cfg now) (payments d);
          expiring = count_where (expiring_tier_age_conditions cfg now) (payments d);
          aged_out = count_where (aged_out_conditions cfg now) (payments d)
      in \<lparr>pb_total_unverified = active + expiring + aged_out, pb_active = active, pb_expiring = expiring, pb_aged_out = aged_out\<rparr>)"

record queue_health =
  qh_active_due :: nat
  qh_expiring_due :: nat
  qh_exhausted_not_aged_out :: nat
  qh_exhausted_recent :: nat
  qh_exhausted_actionable_total :: nat
  qh_exhausted_historical_total :: nat
  qh_oldest_active_due_age_seconds :: "time option"
  qh_oldest_expiring_due_age_seconds :: "time option"
  qh_oldest_due_age_seconds :: "time option"
  qh_oldest_overdue_seconds :: "time option"

definition due_since_anchor :: "payment \<Rightarrow> time" where
  "due_since_anchor p = coalesce (p_reconciliation_next_at p) (p_created_at p)"

definition oldest_by :: "db \<Rightarrow> time \<Rightarrow> (payment \<Rightarrow> time) \<Rightarrow> (payment \<Rightarrow> bool) \<Rightarrow> time option" where
  "oldest_by d now anchor conditions =
     age_seconds now (sql_min (map (\<lambda>p. Some (anchor p)) (filter conditions (payments d))))"

text \<open>\<open>window\<close> is \<open>monitor_reconciliation_exhausted_recent_window_seconds\<close>.\<close>

definition queue_of :: "db \<Rightarrow> settings \<Rightarrow> int \<Rightarrow> time \<Rightarrow> queue_health" where
  "queue_of d cfg window now =
     (let active = active_tier_due_conditions cfg now; expiring = expiring_tier_due_conditions cfg now;
          count = (\<lambda>c. count_where c (payments d));
          oldest_active = oldest_by d now link_age_anchor active;
          oldest_expiring = oldest_by d now link_age_anchor expiring
      in \<lparr>qh_active_due = count active,
          qh_expiring_due = count expiring,
          qh_exhausted_not_aged_out = count (reconciliation_exhausted_conditions cfg now),
          qh_exhausted_recent = count (reconciliation_recently_exhausted_conditions cfg now window),
          qh_exhausted_actionable_total = count (reconciliation_actionable_exhausted_conditions cfg now window),
          qh_exhausted_historical_total = count (reconciliation_exhausted_ever_conditions cfg),
          qh_oldest_active_due_age_seconds = oldest_active,
          qh_oldest_expiring_due_age_seconds = oldest_expiring,
          qh_oldest_due_age_seconds = oldest_age [oldest_active, oldest_expiring],
          qh_oldest_overdue_seconds =
            oldest_age [oldest_by d now due_since_anchor active, oldest_by d now due_since_anchor expiring]\<rparr>)"

record recent_stats =
  rcs_window_hours :: int
  rcs_verified :: nat
  rcs_retry_scheduled :: nat
  rcs_gateway_not_paid :: nat
  rcs_transport_failed :: nat
  rcs_exhausted :: nat

definition RECENT_STAT_EVENT_TYPES :: "string list" where
  "RECENT_STAT_EVENT_TYPES =
     [''reconciliation_verified'', ''reconciliation_retry_scheduled'', ''reconciliation_gateway_not_paid'',
      ''reconciliation_transport_failed'', ''reconciliation_exhausted'']"

text \<open>One grouped query over the trailing window; a type without a row counts zero.\<close>

definition recent_stats_of :: "db \<Rightarrow> time \<Rightarrow> int \<Rightarrow> recent_stats" where
  "recent_stats_of d now window_hours =
     (let cutoff = now - of_int (3600 * window_hours);
          rows = group_counts ev_event_type
            (filter (\<lambda>e. ev_created_at e \<ge> cutoff \<and> ev_event_type e \<in> set RECENT_STAT_EVENT_TYPES) (payment_events d));
          count = (\<lambda>ty. case map_of rows ty of None \<Rightarrow> 0 | Some n \<Rightarrow> n)
      in \<lparr>rcs_window_hours = window_hours,
          rcs_verified = count ''reconciliation_verified'',
          rcs_retry_scheduled = count ''reconciliation_retry_scheduled'',
          rcs_gateway_not_paid = count ''reconciliation_gateway_not_paid'',
          rcs_transport_failed = count ''reconciliation_transport_failed'',
          rcs_exhausted = count ''reconciliation_exhausted''\<rparr>)"

record reconciliation_config =
  rc_min_age_seconds :: int
  rc_fast_window_seconds :: int
  rc_max_age_seconds :: int
  rc_fast_interval_seconds :: int
  rc_slow_interval_seconds :: int
  rc_scan_interval_seconds :: rat
  rc_batch_size :: int
  rc_max_attempts :: int
  rc_slow_tier_reserved_slots :: int

definition config_of :: "settings \<Rightarrow> reconciliation_config" where
  "config_of cfg =
     \<lparr>rc_min_age_seconds = reconciliation_min_age_seconds cfg, rc_fast_window_seconds = reconciliation_fast_window_seconds cfg,
      rc_max_age_seconds = reconciliation_max_age_seconds cfg, rc_fast_interval_seconds = reconciliation_fast_interval_seconds cfg,
      rc_slow_interval_seconds = reconciliation_slow_interval_seconds cfg, rc_scan_interval_seconds = reconciliation_interval_seconds cfg,
      rc_batch_size = reconciliation_batch_size cfg, rc_max_attempts = reconciliation_max_attempts cfg,
      rc_slow_tier_reserved_slots = reconciliation_slow_tier_reserved_slots cfg\<rparr>"

record reconciliation_status_snapshot =
  ss_generated_at :: time
  ss_runtime :: reconciliation_runtime
  ss_config :: reconciliation_config
  ss_buckets :: payment_buckets
  ss_queue :: queue_health
  ss_recent :: recent_stats

definition build_reconciliation_status_snapshot ::
  "db \<Rightarrow> settings \<Rightarrow> int \<Rightarrow> worker_heartbeat list \<Rightarrow> time option \<Rightarrow> time \<Rightarrow> int \<Rightarrow> reconciliation_status_snapshot" where
  "build_reconciliation_status_snapshot d cfg window rows file_age now stats_window_hours =
     \<lparr>ss_generated_at = now, ss_runtime = runtime_of cfg rows file_age now, ss_config = config_of cfg, ss_buckets = buckets_of d cfg now,
      ss_queue = queue_of d cfg window now, ss_recent = recent_stats_of d now stats_window_hours\<rparr>"

section \<open>What the heartbeats promise\<close>

lemma beat_sel [simp]:
  "hb_id (beat v now c e h) = hb_id h" "hb_worker_name (beat v now c e h) = hb_worker_name h"
  "hb_instance_id (beat v now c e h) = hb_instance_id h" "hb_last_heartbeat_at (beat v now c e h) = now"
  by (simp_all add: beat_def)

lemma filter_map_other:
  "(\<And>r. r \<in> set rows \<Longrightarrow> P r \<Longrightarrow> f r = r) \<Longrightarrow> (\<And>r. r \<in> set rows \<Longrightarrow> P (f r) = P r) \<Longrightarrow> filter P (map f rows) = filter P rows"
  by (induction rows) auto

lemma heartbeat_of_Some: "heartbeat_of i rows = Some h \<Longrightarrow> h \<in> set rows \<and> hb_instance_id h = i"
  by (auto simp: heartbeat_of_def dest: find_SomeD)

text \<open>
  A heartbeat never makes another worker look alive: whatever instance id it is given and
  whatever other sessions commit meanwhile, the newest heartbeat of every other kind of worker is
  the one it was. No row is relabelled, and a row that belongs to another kind of worker is refused.
\<close>

theorem heartbeat_masks_nobody:
  assumes "record_worker_heartbeat others version next_id rows worker_name instance now done err = (rows', outcome)"
    and "\<forall>h \<in> set rows. \<forall>r \<in> set (others rows). hb_id r = hb_id h \<longrightarrow> hb_worker_name r = hb_worker_name h"
  shows "(\<forall>n. n \<noteq> worker_name \<longrightarrow> latest_worker_heartbeat rows' n = latest_worker_heartbeat (others rows) n)
       \<and> map hb_worker_name (take (length (others rows)) rows') = map hb_worker_name (others rows)
       \<and> (\<forall>h. heartbeat_of instance rows = Some h \<and> hb_worker_name h \<noteq> worker_name \<longrightarrow> outcome = Heartbeat_Refused \<and> rows' = others rows)"
proof (cases "heartbeat_of instance rows")
  case None
  then show ?thesis
    using assms(1) by (auto simp: record_worker_heartbeat_def Let_def latest_worker_heartbeat_def split: if_splits)
next
  case (Some h)
  let ?f = "\<lambda>r. if hb_id r = hb_id h then beat version now done err r else r"
  have "filter (\<lambda>r. hb_worker_name r = n) (map ?f (others rows)) = filter (\<lambda>r. hb_worker_name r = n) (others rows)"
    if "n \<noteq> hb_worker_name h" for n
    using that assms(2) heartbeat_of_Some [OF Some] by (intro filter_map_other) (auto split: if_splits)
  then show ?thesis
    using assms(1) Some by (auto simp: record_worker_heartbeat_def Let_def latest_worker_heartbeat_def comp_def split: if_splits)
qed

definition demo_heartbeat :: "int \<Rightarrow> string \<Rightarrow> string \<Rightarrow> time \<Rightarrow> worker_heartbeat" where
  "demo_heartbeat i name instance t =
     \<lparr>hb_id = i, hb_worker_name = name, hb_instance_id = instance, hb_last_heartbeat_at = t, hb_last_cycle_at = None,
      hb_last_error_code = None, hb_version = None\<rparr>"

theorem heartbeat_masks_nobody_witness:
  "latest_worker_heartbeat (fst (record_worker_heartbeat (\<lambda>r. r) ''1'' 2 [demo_heartbeat 1 ''reconciliation-worker'' ''i'' 10]
       ''notification-worker'' ''i'' 99 True None)) ''reconciliation-worker''
   = Some (demo_heartbeat 1 ''reconciliation-worker'' ''i'' 10)"
proof -
  let ?rows = "[demo_heartbeat 1 ''reconciliation-worker'' ''i'' 10]"
  have "latest_worker_heartbeat ?rows ''reconciliation-worker'' = Some (demo_heartbeat 1 ''reconciliation-worker'' ''i'' 10)"
    by (simp add: latest_worker_heartbeat_def first_by_def demo_heartbeat_def)
  then show ?thesis
    using heartbeat_masks_nobody [OF prod.collapse [symmetric, of "record_worker_heartbeat (\<lambda>r. r) ''1'' 2 ?rows
        ''notification-worker'' ''i'' 99 True None"]]
    by simp
qed

section \<open>The status and the worker agree\<close>

lemma count_where_inclusion:
  "count_where P xs + count_where Q xs = count_where (\<lambda>x. P x \<or> Q x) xs + count_where (\<lambda>x. P x \<and> Q x) xs"
  by (induction xs) (auto simp: count_where_def)

lemma tier_due_disjoint: "\<not> (active_tier_due_conditions cfg now p \<and> expiring_tier_due_conditions cfg now p)"
  by (auto simp: active_tier_due_conditions_def expiring_tier_due_conditions_def tier_due_conditions_def tier_age_conditions_def)

lemma due_counts: "qh_active_due (queue_of d cfg w now) + qh_expiring_due (queue_of d cfg w now) = count_where (recon_due cfg now) (payments d)"
  using count_where_inclusion [of "active_tier_due_conditions cfg now" "payments d" "expiring_tier_due_conditions cfg now"]
    tier_due_disjoint [of cfg now]
  by (simp add: queue_of_def Let_def recon_due_def [abs_def] count_where_def)

lemma buckets_add_up:
  assumes "reconciliation_fast_window_seconds cfg \<le> reconciliation_max_age_seconds cfg"
  shows "count_where (active_tier_age_conditions cfg now) xs + count_where (expiring_tier_age_conditions cfg now) xs
      + count_where (aged_out_conditions cfg now) xs = count_where (\<lambda>p. p_status p = LINK_CREATED \<and> p_gateway_verified_at p = None) xs"
proof (induction xs)
  case (Cons p xs)
  then show ?case using age_tiers_partition [OF assms, of now p] by (auto simp: count_where_def split: if_splits)
qed (simp add: count_where_def)

text \<open>
  C25. The status view and the worker never disagree. With no row locked, the worker's next claim finds
  nothing exactly when the view reports no due payment. The three age buckets add up to the
  unverified payments with a link. The number of exhausted payments that raise the alarm counts
  every payment that is exhausted within the lifetime or was exhausted recently exactly once.
\<close>

theorem status_matches_worker:
  assumes "reconciliation_fast_window_seconds cfg \<le> reconciliation_max_age_seconds cfg" "work s = durable s"
  shows "(snd (recon_claim_next_due cfg (\<lambda>_. False) s w now k) = None \<longleftrightarrow>
            qh_active_due (queue_of (durable s) cfg window now) + qh_expiring_due (queue_of (durable s) cfg window now) = 0)
       \<and> pb_total_unverified (buckets_of (durable s) cfg now)
           = count_where (\<lambda>p. p_status p = LINK_CREATED \<and> p_gateway_verified_at p = None) (payments (durable s))
       \<and> qh_exhausted_actionable_total (queue_of (durable s) cfg window now)
           + count_where (\<lambda>p. reconciliation_exhausted_conditions cfg now p
                             \<and> reconciliation_recently_exhausted_conditions cfg now window p) (payments (durable s))
         = qh_exhausted_not_aged_out (queue_of (durable s) cfg window now) + qh_exhausted_recent (queue_of (durable s) cfg window now)"
proof (intro conjI)
  show "snd (recon_claim_next_due cfg (\<lambda>_. False) s w now k) = None \<longleftrightarrow>
      qh_active_due (queue_of (durable s) cfg window now) + qh_expiring_due (queue_of (durable s) cfg window now) = 0"
  proof -
    have "snd (recon_claim_next_due cfg (\<lambda>_. False) s w now k) = None \<longleftrightarrow> filter (recon_due cfg now) (payments (durable s)) = []"
    proof
      assume "snd (recon_claim_next_due cfg (\<lambda>_. False) s w now k) = None"
      then show "filter (recon_due cfg now) (payments (durable s)) = []"
        using recon_claim_next_due_None(2) [of cfg "\<lambda>_. False" s w now k] assms(2) by (metis (no_types, lifting) filter_cong prod.collapse)
    next
      assume none: "filter (recon_due cfg now) (payments (durable s)) = []"
      show "snd (recon_claim_next_due cfg (\<lambda>_. False) s w now k) = None"
      proof (rule ccontr)
        assume "\<not> ?thesis"
        then obtain s' p' where "recon_claim_next_due cfg (\<lambda>_. False) s w now k = (s', Some p')" by (metis not_None_eq prod.collapse)
        then show False using none recon_claim_next_due_Some [OF _ assms(2)] by (metis filter_empty_conv)
      qed
    qed
    then show ?thesis unfolding due_counts by (simp add: count_where_def)
  qed
  have "count_where (active_tier_age_conditions cfg now) xs + count_where (expiring_tier_age_conditions cfg now) xs
      + count_where (aged_out_conditions cfg now) xs = count_where (\<lambda>p. p_status p = LINK_CREATED \<and> p_gateway_verified_at p = None) xs" for xs
    using buckets_add_up [OF assms(1)] .
  then show "pb_total_unverified (buckets_of (durable s) cfg now)
      = count_where (\<lambda>p. p_status p = LINK_CREATED \<and> p_gateway_verified_at p = None) (payments (durable s))"
    by (simp add: buckets_of_def Let_def)
  show "qh_exhausted_actionable_total (queue_of (durable s) cfg window now)
           + count_where (\<lambda>p. reconciliation_exhausted_conditions cfg now p
                             \<and> reconciliation_recently_exhausted_conditions cfg now window p) (payments (durable s))
         = qh_exhausted_not_aged_out (queue_of (durable s) cfg window now) + qh_exhausted_recent (queue_of (durable s) cfg window now)"
    using count_where_inclusion [of "reconciliation_exhausted_conditions cfg now" "payments (durable s)"
        "reconciliation_recently_exhausted_conditions cfg now window"]
    by (simp add: queue_of_def Let_def actionable_is_union [abs_def])
qed

theorem status_matches_worker_witness:
  "snd (recon_claim_next_due demo_settings (\<lambda>_. False) (new_session empty_db 50) ''w'' 50 0) = None \<longleftrightarrow>
     qh_active_due (queue_of empty_db demo_settings 86400 50) + qh_expiring_due (queue_of empty_db demo_settings 86400 50) = 0"
  using status_matches_worker [of demo_settings "new_session empty_db 50" "''w''" 50 0 86400]
  by (simp add: demo_settings_def new_session_def)

end
