(* ===== verification/Monitor_Checks.thy ===== *)
theory Monitor_Checks
  imports Status Db_Check Urls
begin

text \<open>
  The health checks of the monitor (\<open>app/services/monitor_checks.py\<close>) and the startup validation of
  its thresholds. What a check reads from outside the database (the answer of the public URL, the
  backup directory, the disk) is an argument; so is what each query finds, and whether it fails.
\<close>

datatype check_status = STATUS_OK | STATUS_WARNING | STATUS_CRITICAL

fun check_status_value :: "check_status \<Rightarrow> string" where
  "check_status_value STATUS_OK = ''ok''"
| "check_status_value STATUS_WARNING = ''warning''"
| "check_status_value STATUS_CRITICAL = ''critical''"

fun severity_rank :: "check_status \<Rightarrow> nat" where
  "severity_rank STATUS_OK = 0"
| "severity_rank STATUS_WARNING = 1"
| "severity_rank STATUS_CRITICAL = 2"

record check_result =
  chk_key :: string
  chk_status :: check_status
  chk_reason :: string
  chk_details :: jdict

definition check_result_of :: "string \<Rightarrow> check_status \<Rightarrow> string \<Rightarrow> jdict \<Rightarrow> check_result" where
  "check_result_of key st reason details = \<lparr>chk_key = key, chk_status = st, chk_reason = reason, chk_details = details\<rparr>"

definition worse :: "check_status \<Rightarrow> check_status \<Rightarrow> check_status" where
  "worse a b = (if severity_rank a \<ge> severity_rank b then a else b)"

definition overall_status :: "check_result list \<Rightarrow> check_status" where
  "overall_status results = foldl (\<lambda>st r. worse st (chk_status r)) STATUS_OK results"

section \<open>Settings of the monitor\<close>

record monitor_settings =
  monitor_enabled :: bool
  monitor_interval_seconds :: rat
  monitor_db_integrity_interval_seconds :: rat
  monitor_worker_heartbeat_warning_seconds :: int
  monitor_worker_heartbeat_critical_seconds :: int
  monitor_notification_warning_count :: nat
  monitor_notification_critical_count :: nat
  monitor_notification_max_age_seconds :: int
  monitor_manual_review_warning_count :: nat
  monitor_manual_review_critical_count :: nat
  monitor_manual_review_max_age_seconds :: int
  monitor_backup_warning_age_seconds :: int
  monitor_backup_critical_age_seconds :: int
  monitor_disk_warning_percent :: rat
  monitor_disk_critical_percent :: rat
  monitor_disk_min_free_bytes :: int
  monitor_gateway_failure_window_seconds :: int
  monitor_gateway_failure_warning_count :: nat
  monitor_gateway_failure_critical_count :: nat
  monitor_bot_failure_window_seconds :: int
  monitor_bot_failure_warning_count :: nat
  monitor_bot_failure_critical_count :: nat
  monitor_reconciliation_exhausted_recent_window_seconds :: int
  bot_notify_worker_interval_seconds :: rat
  admin_bot_alert_poll_interval_seconds :: rat
  admin_bot_health_alerts :: bool
  centralpay_backup_dir :: string

definition validate_monitor_settings :: "monitor_settings \<Rightarrow> bool" where
  "validate_monitor_settings m \<longleftrightarrow>
     monitor_enabled m
   \<and> \<not> monitor_worker_heartbeat_warning_seconds m \<ge> monitor_worker_heartbeat_critical_seconds m
   \<and> \<not> monitor_notification_warning_count m \<ge> monitor_notification_critical_count m
   \<and> \<not> monitor_manual_review_warning_count m \<ge> monitor_manual_review_critical_count m
   \<and> \<not> monitor_backup_warning_age_seconds m \<ge> monitor_backup_critical_age_seconds m
   \<and> \<not> monitor_disk_critical_percent m \<ge> monitor_disk_warning_percent m
   \<and> \<not> monitor_gateway_failure_warning_count m \<ge> monitor_gateway_failure_critical_count m
   \<and> \<not> monitor_bot_failure_warning_count m \<ge> monitor_bot_failure_critical_count m"

text \<open>\<open>round(value, 1)\<close>\<close>

definition round1 :: "rat \<Rightarrow> json" where
  "round1 x = JFloat (Some (of_int (py_round (x * 10)) / 10))"

definition round_or_none :: "rat option \<Rightarrow> json" where
  "round_or_none v = (case v of None \<Rightarrow> JNull | Some x \<Rightarrow> round1 x)"

section \<open>The public URL\<close>

text \<open>\<open>Probe_Reply\<close> carries the status code, the decoded body (\<open>None\<close> when it is no JSON) and the latency.\<close>

datatype probe = Probe_Timeout | Probe_Transport string | Probe_Reply int "json option" rat

definition ready_body :: "json \<Rightarrow> bool" where
  "ready_body body \<longleftrightarrow> (case body of JObj o' \<Rightarrow> jget o' ''status'' = JStr ''ready'' \<and> jget o' ''database'' = JStr ''ok'' | _ \<Rightarrow> False)"

definition check_public_ready :: "string \<Rightarrow> (string \<Rightarrow> probe) \<Rightarrow> check_result" where
  "check_public_ready base_url get =
     (let url = base_url @ ''/health/ready''; u = (''url'', JStr url); R = check_result_of ''public_ready''
      in case get url of
           Probe_Timeout \<Rightarrow> R STATUS_CRITICAL ''timeout'' [u]
         | Probe_Transport e \<Rightarrow> R STATUS_CRITICAL ''connection_failed'' [u, (''error'', JStr e)]
         | Probe_Reply code body latency \<Rightarrow>
             (let l = (''latency_ms'', round1 latency)
              in if code \<noteq> 200 then R STATUS_CRITICAL ''unexpected_status'' [u, (''status_code'', JInt code), l]
                 else case body of
                        None \<Rightarrow> R STATUS_CRITICAL ''malformed_response'' [u, l]
                      | Some b \<Rightarrow> if ready_body b then R STATUS_OK ''healthy'' [u, l]
                                 else R STATUS_CRITICAL ''unhealthy_response'' [u, l]))"

section \<open>The database\<close>

definition check_database :: "bool \<Rightarrow> check_result" where
  "check_database database_ok =
     (if database_ok then check_result_of ''database'' STATUS_OK ''healthy'' [] else check_result_of ''database'' STATUS_CRITICAL ''query_failed'' [])"

definition check_worker_heartbeat ::
  "monitor_settings \<Rightarrow> worker_heartbeat list \<Rightarrow> string \<Rightarrow> rat \<Rightarrow> time \<Rightarrow> check_result" where
  "check_worker_heartbeat m rows worker_name poll_interval_seconds now =
     (let R = check_result_of (''worker_heartbeat:'' @ worker_name)
      in case latest_worker_heartbeat rows worker_name of
           None \<Rightarrow> R STATUS_CRITICAL ''no_heartbeat_recorded'' [(''worker_name'', JStr worker_name)]
         | Some h \<Rightarrow>
             (let age = now - hb_last_heartbeat_at h;
                  details = [(''worker_name'', JStr worker_name), (''age_seconds'', round1 age),
                             (''last_error_code'', jopt_str (hb_last_error_code h))];
                  warning_cutoff = max (of_int (monitor_worker_heartbeat_warning_seconds m)) (poll_interval_seconds * 6);
                  critical_cutoff = max (of_int (monitor_worker_heartbeat_critical_seconds m)) (warning_cutoff * 3)
              in if age \<ge> critical_cutoff then R STATUS_CRITICAL ''heartbeat_stale'' details
                 else if age \<ge> warning_cutoff then R STATUS_WARNING ''heartbeat_aging'' details
                 else if hb_last_error_code h \<noteq> None then R STATUS_WARNING ''last_cycle_failed'' details
                 else R STATUS_OK ''healthy'' details))"

definition backlog_result ::
  "string \<Rightarrow> nat \<Rightarrow> nat \<Rightarrow> int \<Rightarrow> nat \<Rightarrow> time option \<Rightarrow> jdict \<Rightarrow> check_result" where
  "backlog_result key warning_count critical_count max_age n oldest details =
     (if n \<ge> critical_count then check_result_of key STATUS_CRITICAL ''backlog_critical'' details
      else if n \<ge> warning_count \<or> (case oldest of None \<Rightarrow> False | Some a \<Rightarrow> a \<ge> of_int max_age)
        then check_result_of key STATUS_WARNING ''backlog_warning'' details
      else check_result_of key STATUS_OK ''healthy'' details)"

definition check_notification_backlog :: "monitor_settings \<Rightarrow> db \<Rightarrow> time \<Rightarrow> check_result" where
  "check_notification_backlog m d now =
     (let n = count_by_status d BOT_NOTIFY_PENDING; oldest = oldest_pending_notification_age_seconds d now
      in backlog_result ''notification_backlog'' (monitor_notification_warning_count m) (monitor_notification_critical_count m)
           (monitor_notification_max_age_seconds m) n oldest
           [(''count'', JInt (int n)), (''oldest_age_seconds'', round_or_none oldest)])"

definition check_manual_review :: "monitor_settings \<Rightarrow> db \<Rightarrow> time \<Rightarrow> check_result" where
  "check_manual_review m d now =
     (let n = count_open_manual_reviews d; oldest = oldest_open_manual_review_age_seconds d now
      in backlog_result ''manual_review'' (monitor_manual_review_warning_count m) (monitor_manual_review_critical_count m)
           (monitor_manual_review_max_age_seconds m) n oldest
           [(''count'', JInt (int n)), (''oldest_age_seconds'', round_or_none oldest),
            (''reasons'', JObj (map (\<lambda>(r, k). (r, JInt (int k))) (open_manual_review_reason_buckets d)))])"

definition check_reconciliation :: "settings \<Rightarrow> monitor_settings \<Rightarrow> db \<Rightarrow> time \<Rightarrow> check_result" where
  "check_reconciliation cfg m d now =
     (let R = check_result_of ''reconciliation''
      in if \<not> reconciliation_enabled cfg then R STATUS_OK ''disabled'' [(''enabled'', JBool False)]
         else
           let q = queue_of d cfg (monitor_reconciliation_exhausted_recent_window_seconds m) now;
               details = [(''exhausted_not_aged_out'', JInt (int (qh_exhausted_not_aged_out q))),
                          (''exhausted_recent'', JInt (int (qh_exhausted_recent q))),
                          (''exhausted_actionable_total'', JInt (int (qh_exhausted_actionable_total q))),
                          (''exhausted_historical_total'', JInt (int (qh_exhausted_historical_total q))),
                          (''oldest_overdue_seconds'', round_or_none (qh_oldest_overdue_seconds q))];
               warn_threshold = max (reconciliation_slow_interval_seconds cfg * 5) 300
           in if qh_exhausted_actionable_total q > 0 then R STATUS_CRITICAL ''reconciliation_exhausted'' details
              else if (case qh_oldest_overdue_seconds q of None \<Rightarrow> False | Some a \<Rightarrow> a \<ge> of_int warn_threshold)
                then R STATUS_WARNING ''backlog_aging'' details
              else R STATUS_OK ''healthy'' details)"

definition check_db_integrity :: "string option \<Rightarrow> db \<Rightarrow> sequence_row list \<Rightarrow> check_result" where
  "check_db_integrity revision d seqs =
     (let report = snd (run_db_checks revision d seqs False); details = [(''failures'', JArr (map JStr (dc_failures report)))]
      in if report_ok report then check_result_of ''db_integrity'' STATUS_OK ''healthy'' details
         else check_result_of ''db_integrity'' STATUS_CRITICAL ''integrity_failures_found'' details)"

section \<open>Bursts of failures\<close>

definition GATEWAY_FAILURE_AMBIGUOUS_REASONS :: "string list" where
  "GATEWAY_FAILURE_AMBIGUOUS_REASONS = [''gateway_error_field'', ''gateway_response_invalid'', ''gateway_missing_data'']"

definition gateway_failure_reliable :: "payment_event \<Rightarrow> bool" where
  "gateway_failure_reliable e \<longleftrightarrow>
     ev_event_type e = ''centralpay_getlink_failed''
   \<or> ev_event_type e = ''centralpay_verify_failed''
     \<and> (jget (ev_data e) ''stage'' = JStr ''transport''
        \<or> jget (ev_data e) ''stage'' = JStr ''gateway''
          \<and> jget (ev_data e) ''reason'' \<in> JStr ` set GATEWAY_FAILURE_AMBIGUOUS_REASONS)"

definition affected_payments_in_window :: "db \<Rightarrow> (payment_event \<Rightarrow> bool) \<Rightarrow> int \<Rightarrow> time \<Rightarrow> nat" where
  "affected_payments_in_window d predicate window_seconds now =
     length (remdups (present (map ev_payment_id
       (filter (\<lambda>e. predicate e \<and> ev_created_at e \<ge> now - of_int window_seconds) (payment_events d)))))"

definition burst_result :: "string \<Rightarrow> nat \<Rightarrow> nat \<Rightarrow> int \<Rightarrow> nat \<Rightarrow> check_result" where
  "burst_result key warning_count critical_count window affected =
     (let details = [(''window_seconds'', JInt window), (''affected_payments'', JInt (int affected))]
      in if affected \<ge> critical_count then check_result_of key STATUS_CRITICAL key details
         else if affected \<ge> warning_count then check_result_of key STATUS_WARNING key details
         else check_result_of key STATUS_OK ''healthy'' details)"

definition check_gateway_failure_burst :: "monitor_settings \<Rightarrow> db \<Rightarrow> time \<Rightarrow> check_result" where
  "check_gateway_failure_burst m d now =
     (let window = monitor_gateway_failure_window_seconds m
      in burst_result ''gateway_failure_burst'' (monitor_gateway_failure_warning_count m) (monitor_gateway_failure_critical_count m) window
           (affected_payments_in_window d gateway_failure_reliable window now))"

definition check_bot_failure_burst :: "monitor_settings \<Rightarrow> db \<Rightarrow> time \<Rightarrow> check_result" where
  "check_bot_failure_burst m d now =
     (let window = monitor_bot_failure_window_seconds m
      in burst_result ''bot_failure_burst'' (monitor_bot_failure_warning_count m) (monitor_bot_failure_critical_count m) window
           (affected_payments_in_window d (\<lambda>e. ev_event_type e = ''bot_notification_failed'') window now))"

section \<open>Backups and the disk\<close>

text \<open>
  \<open>int(text)\<close>: surrounding white space, a sign, and single underscores between digits are accepted.
\<close>

definition py_int :: "string \<Rightarrow> int option" where
  "py_int s =
     (let t = strip s;
          neg = (t \<noteq> [] \<and> hd t = CHR ''-'');
          body = (if t \<noteq> [] \<and> hd t \<in> {CHR ''-'', CHR ''+''} then tl t else t);
          parts = split_at (CHR ''_'') body
      in if list_all is_ascii_decimal parts then map_option (\<lambda>n. if neg then - n else n) (py_int_of_digits (concat parts)) else None)"

text \<open>
  The sidecar as the file system shows it: absent (no regular file, or a symbolic link), unreadable,
  or its bytes. \<open>utf8\<close> decodes bytes, \<open>None\<close> on bytes that are no UTF-8.
\<close>

datatype manifest_file = Manifest_Absent | Manifest_Unreadable | Manifest_Bytes string

definition BACKUP_MANIFEST_MAX_BYTES :: nat where
  "BACKUP_MANIFEST_MAX_BYTES = 4096"

definition BACKUP_MANIFEST_REQUIRED_KEYS :: "string list" where
  "BACKUP_MANIFEST_REQUIRED_KEYS = [''backup_file'', ''sha256'', ''size_bytes'', ''validation'']"

fun manifest_fields :: "(string \<times> string) list \<Rightarrow> string list \<Rightarrow> (string \<times> string) list option" where
  "manifest_fields acc [] = Some acc"
| "manifest_fields acc (line # ls) =
     (if strip line = [] then manifest_fields acc ls
      else case partition_at (CHR ''='') line of
             (key, sep, v) \<Rightarrow> if \<not> sep \<or> key \<in> set (map fst acc) then None else manifest_fields (acc @ [(key, v)]) ls)"

definition parse_backup_manifest :: "(string \<Rightarrow> string option) \<Rightarrow> manifest_file \<Rightarrow> (string \<times> string) list option" where
  "parse_backup_manifest utf8 f =
     (case f of
        Manifest_Bytes raw \<Rightarrow>
          if length raw > BACKUP_MANIFEST_MAX_BYTES then None
          else (case utf8 raw of None \<Rightarrow> None | Some txt \<Rightarrow> manifest_fields [] (split_at (CHR 0x0A) txt))
      | _ \<Rightarrow> None)"

text \<open>\<open>^[0-9a-f]{64}$\<close>; a value of the manifest holds no newline.\<close>

definition sha256_shape :: "string \<Rightarrow> bool" where
  "sha256_shape s \<longleftrightarrow> length s = 64 \<and> list_all (\<lambda>c. is_ascii_digit c \<or> 97 \<le> cc c \<and> cc c \<le> 102) s"

definition backup_manifest_issue :: "(string \<Rightarrow> string option) \<Rightarrow> manifest_file \<Rightarrow> string \<Rightarrow> int \<Rightarrow> string option" where
  "backup_manifest_issue utf8 f dump_name dump_size =
     (if f = Manifest_Absent then Some ''manifest_missing''
      else case parse_backup_manifest utf8 f of
             None \<Rightarrow> Some ''manifest_malformed''
           | Some pairs \<Rightarrow>
               (let field = (\<lambda>k. the (map_of pairs k))
                in if \<not> list_all (\<lambda>k. k \<in> set (map fst pairs)) BACKUP_MANIFEST_REQUIRED_KEYS then Some ''manifest_malformed''
                   else if field ''backup_file'' \<noteq> dump_name then Some ''manifest_filename_mismatch''
                   else if \<not> sha256_shape (field ''sha256'') then Some ''manifest_checksum_shape_invalid''
                   else case py_int (field ''size_bytes'') of
                          None \<Rightarrow> Some ''manifest_malformed''
                        | Some manifest_size \<Rightarrow>
                            if manifest_size \<noteq> dump_size then Some ''manifest_size_mismatch''
                            else if field ''validation'' \<noteq> ''passed'' then Some ''manifest_malformed''
                            else None))"

record dump_file =
  df_name :: string
  df_is_file :: bool
  df_ok_sidecar :: bool
  df_mtime :: time
  df_size :: int
  df_manifest :: manifest_file

text \<open>\<open>centralpay-*.dump\<close>\<close>

definition backup_glob :: "string \<Rightarrow> bool" where
  "backup_glob n \<longleftrightarrow> length n \<ge> 16 \<and> take 11 n = ''centralpay-'' \<and> drop (length n - 5) n = ''.dump''"

text \<open>
  \<open>listing\<close> is the directory, or the error of reading it; \<open>stat_error\<close> an error of the later \<open>stat\<close> calls.
  Of several newest files the first of the listing is taken, as \<open>max\<close> does.
\<close>

definition check_backup ::
  "monitor_settings \<Rightarrow> (string \<Rightarrow> string option) \<Rightarrow> string + dump_file list \<Rightarrow> string option \<Rightarrow> time \<Rightarrow> check_result" where
  "check_backup m utf8 listing stat_error now =
     (let R = check_result_of ''backup''; dir = (''backup_dir'', JStr (centralpay_backup_dir m));
          unreadable = (\<lambda>e. R STATUS_CRITICAL ''backup_dir_unreadable'' [dir, (''error'', JStr e)])
      in case listing of
           Inl e \<Rightarrow> unreadable e
         | Inr files \<Rightarrow>
             (case first_by (\<lambda>f. - df_mtime f) (filter (\<lambda>f. backup_glob (df_name f) \<and> df_is_file f \<and> df_ok_sidecar f) files) of
                None \<Rightarrow> R STATUS_CRITICAL ''no_valid_backup_found'' [dir]
              | Some newest \<Rightarrow>
                  (case stat_error of
                     Some e \<Rightarrow> unreadable e
                   | None \<Rightarrow>
                       (case backup_manifest_issue utf8 (df_manifest newest) (df_name newest) (df_size newest) of
                          Some issue \<Rightarrow>
                            R STATUS_CRITICAL ''backup_manifest_invalid''
                              [(''newest_backup'', JStr (df_name newest)), (''manifest_issue'', JStr issue)]
                        | None \<Rightarrow>
                            (let age = now - df_mtime newest;
                                 details = [(''newest_backup'', JStr (df_name newest)), (''age_seconds'', round1 age)]
                             in if age \<ge> of_int (monitor_backup_critical_age_seconds m) then R STATUS_CRITICAL ''backup_stale'' details
                                else if age \<ge> of_int (monitor_backup_warning_age_seconds m) then R STATUS_WARNING ''backup_aging'' details
                                else R STATUS_OK ''healthy'' details)))))"

text \<open>\<open>usage\<close> is the total and the free bytes, or the error of reading them.\<close>

definition check_disk :: "monitor_settings \<Rightarrow> string + int \<times> int \<Rightarrow> check_result" where
  "check_disk m usage =
     (let R = check_result_of ''disk_space''; path = (''path'', JStr (centralpay_backup_dir m))
      in case usage of
           Inl e \<Rightarrow> R STATUS_CRITICAL ''path_unreadable'' [path, (''error'', JStr e)]
         | Inr (total_bytes, free) \<Rightarrow>
             (let free_percent = (if total_bytes = 0 then 0 else of_int free / of_int total_bytes * 100);
                  details = [path, (''free_bytes'', JInt free), (''total_bytes'', JInt total_bytes), (''free_percent'', round1 free_percent)]
              in if free \<le> monitor_disk_min_free_bytes m \<or> free_percent \<le> monitor_disk_critical_percent m
                 then R STATUS_CRITICAL ''low_disk_space'' details
                 else if free_percent \<le> monitor_disk_warning_percent m then R STATUS_WARNING ''low_disk_space'' details
                 else R STATUS_OK ''healthy'' details))"

section \<open>All checks\<close>

definition DB_UNAVAILABLE_REASON :: string where
  "DB_UNAVAILABLE_REASON = ''database_unavailable''"

definition db_unavailable_result :: "string \<Rightarrow> check_result" where
  "db_unavailable_result key = check_result_of key STATUS_CRITICAL DB_UNAVAILABLE_REASON [(''dependency'', JStr ''database'')]"

text \<open>What one query finds: the database with its heartbeats, its migration revision and its sequences.\<close>

record monitor_view =
  mv_db :: db
  mv_heartbeats :: "worker_heartbeat list"
  mv_revision :: "string option"
  mv_sequences :: "sequence_row list"

definition build_db_dependent_checks ::
  "settings \<Rightarrow> monitor_settings \<Rightarrow> time \<Rightarrow> bool \<Rightarrow> (string \<times> (monitor_view \<Rightarrow> check_result)) list" where
  "build_db_dependent_checks cfg m now include_db_integrity =
     [(''worker_heartbeat:notification-worker'',
         \<lambda>v. check_worker_heartbeat m (mv_heartbeats v) ''notification-worker'' (bot_notify_worker_interval_seconds m) now),
      (''notification_backlog'', \<lambda>v. check_notification_backlog m (mv_db v) now),
      (''manual_review'', \<lambda>v. check_manual_review m (mv_db v) now),
      (''gateway_failure_burst'', \<lambda>v. check_gateway_failure_burst m (mv_db v) now),
      (''bot_failure_burst'', \<lambda>v. check_bot_failure_burst m (mv_db v) now)]
   @ (if reconciliation_enabled cfg then
        [(''reconciliation'', \<lambda>v. check_reconciliation cfg m (mv_db v) now),
         (''worker_heartbeat:reconciliation-worker'',
            \<lambda>v. check_worker_heartbeat m (mv_heartbeats v) ''reconciliation-worker'' (reconciliation_interval_seconds cfg) now)]
      else [])
   @ (if admin_bot_enabled cfg then
        [(''worker_heartbeat:admin-bot-delivery'',
            \<lambda>v. check_worker_heartbeat m (mv_heartbeats v) ''admin-bot-delivery'' (admin_bot_alert_poll_interval_seconds m) now)]
      else [])
   @ (if include_db_integrity then [(''db_integrity'', \<lambda>v. check_db_integrity (mv_revision v) (mv_db v) (mv_sequences v))] else [])"

text \<open>
  How a query can fail: the connection is lost (a \<open>DBAPIError\<close> with \<open>connection_invalidated\<close>), or any
  other exception, which propagates. \<open>me_view i\<close> and \<open>me_fault i\<close> belong to the i-th query of the pass.
\<close>

datatype query_fault = Connection_Lost | Other_Fault string

record monitor_env =
  me_get :: "string \<Rightarrow> probe"
  me_utf8 :: "string \<Rightarrow> string option"
  me_listing :: "string + dump_file list"
  me_stat_error :: "string option"
  me_usage :: "string + int \<times> int"
  me_database_ok :: bool
  me_view :: "nat \<Rightarrow> monitor_view"
  me_fault :: "nat \<Rightarrow> query_fault option"

fun run_db_dependent ::
  "monitor_env \<Rightarrow> nat \<Rightarrow> (string \<times> (monitor_view \<Rightarrow> check_result)) list \<Rightarrow> string + check_result list" where
  "run_db_dependent env i [] = Inr []"
| "run_db_dependent env i ((key, thunk) # rest) =
     (case me_fault env i of
        None \<Rightarrow> (case run_db_dependent env (Suc i) rest of Inl e \<Rightarrow> Inl e | Inr rs \<Rightarrow> Inr (thunk (me_view env i) # rs))
      | Some Connection_Lost \<Rightarrow> Inr (map (db_unavailable_result \<circ> fst) ((key, thunk) # rest))
      | Some (Other_Fault e) \<Rightarrow> Inl e)"

definition db_independent_checks :: "settings \<Rightarrow> monitor_settings \<Rightarrow> monitor_env \<Rightarrow> time \<Rightarrow> check_result list" where
  "db_independent_checks cfg m env now =
     [check_public_ready (public_base_url cfg) (me_get env), check_backup m (me_utf8 env) (me_listing env) (me_stat_error env) now,
      check_disk m (me_usage env)]
   @ (if reconciliation_enabled cfg then [] else [check_reconciliation cfg m (mv_db (me_view env 0)) now])"

definition run_all_checks ::
  "settings \<Rightarrow> monitor_settings \<Rightarrow> monitor_env \<Rightarrow> time \<Rightarrow> bool \<Rightarrow> string + check_result list" where
  "run_all_checks cfg m env now include_db_integrity =
     (let independent = db_independent_checks cfg m env now @ [check_database (me_database_ok env)];
          dependent = build_db_dependent_checks cfg m now include_db_integrity
      in if \<not> me_database_ok env then Inr (independent @ map (db_unavailable_result \<circ> fst) dependent)
         else case run_db_dependent env 0 dependent of
                Inl e \<Rightarrow> Inl e
              | Inr rs \<Rightarrow> Inr (independent @ rs))"

section \<open>A pass reports every check\<close>

lemma check_result_of_sel [simp]:
  "chk_key (check_result_of k st r d) = k" "chk_status (check_result_of k st r d) = st"
  "chk_reason (check_result_of k st r d) = r" "chk_details (check_result_of k st r d) = d"
  by (simp_all add: check_result_of_def)

lemma check_keys [simp]:
  "chk_key (check_public_ready url get) = ''public_ready''"
  "chk_key (check_backup m utf8 listing se now) = ''backup''"
  "chk_key (check_disk m usage) = ''disk_space''"
  "chk_key (check_database okay) = ''database''"
  "chk_key (check_reconciliation cfg m d now) = ''reconciliation''"
  "chk_key (db_unavailable_result key) = key"
  "chk_key (check_worker_heartbeat m rows w poll now) = ''worker_heartbeat:'' @ w"
  by (simp_all add: check_public_ready_def check_backup_def check_disk_def check_database_def check_reconciliation_def
      db_unavailable_result_def check_worker_heartbeat_def Let_def split: probe.split option.split sum.split)

lemma backlog_key [simp]: "chk_key (backlog_result key w c a n o' d) = key" and burst_key [simp]: "chk_key (burst_result key w c win n) = key"
  by (simp_all add: backlog_result_def burst_result_def Let_def)

lemma dependent_keys:
  "list_all (\<lambda>(key, thunk). \<forall>v. chk_key (thunk v) = key) (build_db_dependent_checks cfg m now incl)"
  by (simp add: build_db_dependent_checks_def check_notification_backlog_def check_manual_review_def check_gateway_failure_burst_def
      check_bot_failure_burst_def check_db_integrity_def Let_def)

lemma run_db_dependent_keys:
  assumes "\<And>i e. me_fault env i \<noteq> Some (Other_Fault e)" "list_all (\<lambda>(key, thunk). \<forall>v. chk_key (thunk v) = key) cs"
  shows "\<exists>rs. run_db_dependent env i cs = Inr rs \<and> map chk_key rs = map fst cs"
  using assms(2)
proof (induction cs arbitrary: i)
  case (Cons kt cs)
  obtain key thunk where kt: "kt = (key, thunk)" by fastforce
  then obtain rs where "run_db_dependent env (Suc i) cs = Inr rs" "map chk_key rs = map fst cs"
    using Cons.IH [of "Suc i"] Cons.prems by auto
  then show ?case
    using kt Cons.prems assms(1) [of i] by (cases "me_fault env i"; cases "the (me_fault env i)") auto
qed simp

definition expected_keys :: "settings \<Rightarrow> bool \<Rightarrow> string list" where
  "expected_keys cfg include_db_integrity =
     [''public_ready'', ''backup'', ''disk_space''] @ (if reconciliation_enabled cfg then [] else [''reconciliation''])
   @ [''database'', ''worker_heartbeat:notification-worker'', ''notification_backlog'', ''manual_review'', ''gateway_failure_burst'',
      ''bot_failure_burst'']
   @ (if reconciliation_enabled cfg then [''reconciliation'', ''worker_heartbeat:reconciliation-worker''] else [])
   @ (if admin_bot_enabled cfg then [''worker_heartbeat:admin-bot-delivery''] else [])
   @ (if include_db_integrity then [''db_integrity''] else [])"

lemma expected_keys_distinct: "distinct (expected_keys cfg incl)"
  by (simp add: expected_keys_def)

text \<open>
  Whatever the state of the database, of the network and of the disk, a pass of the monitor
  answers with exactly one result for every check of the configuration, in a fixed order, and does
  not raise when the connection is lost before or during the pass; the checks that need no
  database are answered as if nothing had happened. (An exception that is no lost connection is
  not swallowed: it ends the pass.)
\<close>

theorem every_check_reported:
  assumes "\<And>i e. me_fault env i \<noteq> Some (Other_Fault e)"
  shows "\<exists>rs. run_all_checks cfg m env now incl = Inr rs \<and> map chk_key rs = expected_keys cfg incl \<and> distinct (map chk_key rs)
           \<and> take (length (db_independent_checks cfg m env now)) rs = db_independent_checks cfg m env now
           \<and> (\<not> me_database_ok env \<longrightarrow>
                (\<forall>r \<in> set (drop (length (db_independent_checks cfg m env now)) rs). chk_status r = STATUS_CRITICAL))"
proof -
  let ?ind = "db_independent_checks cfg m env now" and ?dep = "build_db_dependent_checks cfg m now incl"
  obtain rs where rs: "run_db_dependent env 0 ?dep = Inr rs" "map chk_key rs = map fst ?dep"
    using run_db_dependent_keys [OF assms dependent_keys] by blast
  have keys: "map chk_key ?ind @ ''database'' # map fst ?dep = expected_keys cfg incl"
    by (simp add: db_independent_checks_def build_db_dependent_checks_def expected_keys_def)
  let ?out = "?ind @ check_database (me_database_ok env) # (if me_database_ok env then rs else map (db_unavailable_result \<circ> fst) ?dep)"
  have "run_all_checks cfg m env now incl = Inr ?out" using rs(1) by (simp add: run_all_checks_def Let_def)
  moreover have "map chk_key ?out = expected_keys cfg incl" using rs(2) keys by (simp add: comp_def)
  moreover have "\<not> me_database_ok env \<longrightarrow> (\<forall>r \<in> set (drop (length ?ind) ?out). chk_status r = STATUS_CRITICAL)"
    by (auto simp: check_database_def db_unavailable_result_def)
  ultimately show ?thesis using expected_keys_distinct [of cfg incl] by (intro exI [of _ ?out]) simp
qed

definition demo_view :: monitor_view where
  "demo_view = \<lparr>mv_db = empty_db, mv_heartbeats = [], mv_revision = None, mv_sequences = []\<rparr>"

text \<open>A pass in which the second query loses the connection.\<close>

definition lost_env :: monitor_env where
  "lost_env = \<lparr>me_get = (\<lambda>_. Probe_Timeout), me_utf8 = Some, me_listing = Inr [], me_stat_error = None, me_usage = Inr (100, 50),
     me_database_ok = True, me_view = (\<lambda>_. demo_view), me_fault = (\<lambda>i. if i = 1 then Some Connection_Lost else None)\<rparr>"

definition demo_monitor :: monitor_settings where
  "demo_monitor =
     \<lparr>monitor_enabled = True, monitor_interval_seconds = 60, monitor_db_integrity_interval_seconds = 1800,
      monitor_worker_heartbeat_warning_seconds = 60, monitor_worker_heartbeat_critical_seconds = 180,
      monitor_notification_warning_count = 20, monitor_notification_critical_count = 100, monitor_notification_max_age_seconds = 1800,
      monitor_manual_review_warning_count = 5, monitor_manual_review_critical_count = 20, monitor_manual_review_max_age_seconds = 21600,
      monitor_backup_warning_age_seconds = 86400, monitor_backup_critical_age_seconds = 129600,
      monitor_disk_warning_percent = 15, monitor_disk_critical_percent = 5, monitor_disk_min_free_bytes = 1073741824,
      monitor_gateway_failure_window_seconds = 300, monitor_gateway_failure_warning_count = 3, monitor_gateway_failure_critical_count = 10,
      monitor_bot_failure_window_seconds = 300, monitor_bot_failure_warning_count = 3, monitor_bot_failure_critical_count = 10,
      monitor_reconciliation_exhausted_recent_window_seconds = 86400, bot_notify_worker_interval_seconds = 10,
      admin_bot_alert_poll_interval_seconds = 5, admin_bot_health_alerts = True, centralpay_backup_dir = ''/b''\<rparr>"

theorem every_check_reported_witness:
  "\<exists>rs. run_all_checks demo_settings demo_monitor lost_env 60 True = Inr rs \<and> map chk_key rs = expected_keys demo_settings True"
proof -
  have "me_fault lost_env i \<noteq> Some (Other_Fault e)" for i e by (simp add: lost_env_def)
  from every_check_reported [OF this] show ?thesis by blast
qed

section \<open>Workers and backups\<close>

text \<open>
  A dead worker is found and a working one is not accused: with no newer heartbeat the status
  never improves as time goes by and is critical once the age passes the critical cutoff, while a worker
  whose last cycle succeeded and whose heartbeat is younger than six of its polling intervals is
  healthy, whatever the thresholds are.
\<close>

theorem heartbeat_check_sound:
  assumes "latest_worker_heartbeat rows w = Some h"
  shows "(now \<le> now' \<longrightarrow> severity_rank (chk_status (check_worker_heartbeat m rows w poll now))
                        \<le> severity_rank (chk_status (check_worker_heartbeat m rows w poll now')))
       \<and> (now - hb_last_heartbeat_at h \<ge> max (of_int (monitor_worker_heartbeat_critical_seconds m))
             (3 * max (of_int (monitor_worker_heartbeat_warning_seconds m)) (6 * poll))
          \<longrightarrow> chk_status (check_worker_heartbeat m rows w poll now) = STATUS_CRITICAL)
       \<and> (hb_last_error_code h = None \<and> now - hb_last_heartbeat_at h < 6 * poll \<and> 0 < poll
          \<longrightarrow> chk_status (check_worker_heartbeat m rows w poll now) = STATUS_OK)"
proof -
  define warn where "warn = max (of_int (monitor_worker_heartbeat_warning_seconds m)) (poll * 6)"
  define crit where "crit = max (of_int (monitor_worker_heartbeat_critical_seconds m)) (warn * 3)"
  define beat_at where "beat_at = hb_last_heartbeat_at h"
  have st: "chk_status (check_worker_heartbeat m rows w poll t) =
      (if t - beat_at \<ge> crit then STATUS_CRITICAL
       else if t - beat_at \<ge> warn \<or> hb_last_error_code h \<noteq> None then STATUS_WARNING else STATUS_OK)" for t
    using assms by (simp add: check_worker_heartbeat_def Let_def warn_def crit_def beat_at_def)
  have "severity_rank (chk_status (check_worker_heartbeat m rows w poll now))
      \<le> severity_rank (chk_status (check_worker_heartbeat m rows w poll now'))" if "now \<le> now'"
  proof -
    have "now - beat_at \<le> now' - beat_at" using that by simp
    then have "crit \<le> now - beat_at \<Longrightarrow> crit \<le> now' - beat_at" "warn \<le> now - beat_at \<Longrightarrow> warn \<le> now' - beat_at" by linarith+
    then show ?thesis unfolding st by simp
  qed
  moreover have "chk_status (check_worker_heartbeat m rows w poll now) = STATUS_OK"
    if "hb_last_error_code h = None" "now - beat_at < 6 * poll" "0 < poll"
  proof -
    have "6 * poll \<le> warn" "warn * 3 \<le> crit" by (simp_all add: warn_def crit_def mult.commute)
    then have "\<not> now - beat_at \<ge> warn" "\<not> now - beat_at \<ge> crit" using that(2,3) by linarith+
    then show ?thesis unfolding st using that(1) by simp
  qed
  moreover have "chk_status (check_worker_heartbeat m rows w poll now) = STATUS_CRITICAL" if "now - beat_at \<ge> crit"
    unfolding st using that by simp
  moreover have "max (of_int (monitor_worker_heartbeat_critical_seconds m))
      (3 * max (of_int (monitor_worker_heartbeat_warning_seconds m)) (6 * poll)) = crit"
    by (simp add: crit_def warn_def mult.commute)
  ultimately show ?thesis unfolding beat_at_def [symmetric] by metis
qed

theorem heartbeat_check_sound_witness:
  "chk_status (check_worker_heartbeat demo_monitor [demo_heartbeat 1 ''notification-worker'' ''i'' 100] ''notification-worker'' 10 159) = STATUS_OK
 \<and> chk_status (check_worker_heartbeat demo_monitor [demo_heartbeat 1 ''notification-worker'' ''i'' 100] ''notification-worker'' 10 280) = STATUS_CRITICAL"
proof -
  have "latest_worker_heartbeat [demo_heartbeat 1 ''notification-worker'' ''i'' 100] ''notification-worker''
      = Some (demo_heartbeat 1 ''notification-worker'' ''i'' 100)"
    by (simp add: latest_worker_heartbeat_def first_by_def demo_heartbeat_def)
  from heartbeat_check_sound [OF this, of 159 159 demo_monitor 10] heartbeat_check_sound [OF this, of 280 280 demo_monitor 10]
  show ?thesis by (simp add: demo_heartbeat_def demo_monitor_def)
qed

lemma backup_manifest_issue_None:
  assumes "backup_manifest_issue utf8 f name bytes = None"
  shows "\<exists>pairs h t. parse_backup_manifest utf8 f = Some pairs \<and> map_of pairs ''backup_file'' = Some name
      \<and> map_of pairs ''sha256'' = Some h \<and> sha256_shape h \<and> map_of pairs ''size_bytes'' = Some t \<and> py_int t = Some bytes
      \<and> map_of pairs ''validation'' = Some ''passed''"
proof -
  obtain pairs where p: "parse_backup_manifest utf8 f = Some pairs"
    using assms by (cases "parse_backup_manifest utf8 f") (auto simp: backup_manifest_issue_def split: if_splits)
  then have k: "list_all (\<lambda>k. k \<in> set (map fst pairs)) BACKUP_MANIFEST_REQUIRED_KEYS"
    using assms by (auto simp: backup_manifest_issue_def Let_def split: if_splits)
  have key: "\<exists>v. map_of pairs k = Some v" if "k \<in> set BACKUP_MANIFEST_REQUIRED_KEYS" for k
    using k that by (metis (no_types, lifting) list_all_iff map_of_eq_None_iff not_None_eq set_map)
  obtain b h t v where f: "map_of pairs ''backup_file'' = Some b" "map_of pairs ''sha256'' = Some h"
    "map_of pairs ''size_bytes'' = Some t" "map_of pairs ''validation'' = Some v"
    using key [of "''backup_file''"] key [of "''sha256''"] key [of "''size_bytes''"] key [of "''validation''"]
    by (auto simp: BACKUP_MANIFEST_REQUIRED_KEYS_def)
  have "b = name" "sha256_shape h" "py_int t = Some bytes" "v = ''passed''"
    using assms p k f by (auto simp: backup_manifest_issue_def Let_def split: if_splits option.splits)
  then show ?thesis using p f by blast
qed

text \<open>
  The backup check is not critical only with evidence: the directory was readable, the newest of the
  backups with a success marker is younger than the critical age, and its manifest names that
  file, carries a well-formed checksum and the file's true size, and says the archive was
  validated. No truncated, duplicated or oversized manifest passes.
\<close>

theorem backup_needs_evidence:
  assumes "chk_status (check_backup m utf8 listing stat_error now) \<noteq> STATUS_CRITICAL"
  shows "\<exists>files f pairs h t.
           listing = Inr files \<and> stat_error = None \<and> f \<in> set files \<and> backup_glob (df_name f) \<and> df_is_file f \<and> df_ok_sidecar f
         \<and> (\<forall>g \<in> set files. backup_glob (df_name g) \<and> df_is_file g \<and> df_ok_sidecar g \<longrightarrow> df_mtime g \<le> df_mtime f)
         \<and> now - df_mtime f < of_int (monitor_backup_critical_age_seconds m)
         \<and> parse_backup_manifest utf8 (df_manifest f) = Some pairs \<and> map_of pairs ''backup_file'' = Some (df_name f)
         \<and> map_of pairs ''sha256'' = Some h \<and> sha256_shape h \<and> map_of pairs ''size_bytes'' = Some t \<and> py_int t = Some (df_size f)
         \<and> map_of pairs ''validation'' = Some ''passed''"
proof -
  obtain files where l: "listing = Inr files" using assms by (cases listing) (auto simp: check_backup_def Let_def)
  let ?cand = "filter (\<lambda>f. backup_glob (df_name f) \<and> df_is_file f \<and> df_ok_sidecar f) files"
  obtain f where f: "first_by (\<lambda>f. - df_mtime f) ?cand = Some f"
    using assms l by (cases "first_by (\<lambda>f. - df_mtime f) ?cand") (auto simp: check_backup_def Let_def)
  have se: "stat_error = None" using assms l f by (cases stat_error) (auto simp: check_backup_def Let_def)
  have iss: "backup_manifest_issue utf8 (df_manifest f) (df_name f) (df_size f) = None"
    using assms l f se by (cases "backup_manifest_issue utf8 (df_manifest f) (df_name f) (df_size f)") (auto simp: check_backup_def Let_def)
  have "now - df_mtime f < of_int (monitor_backup_critical_age_seconds m)"
    using assms l f se iss by (auto simp: check_backup_def Let_def split: if_splits)
  moreover have "f \<in> set ?cand" "\<forall>g \<in> set ?cand. df_mtime g \<le> df_mtime f"
    using first_by_Some(1) [OF f] first_by_Some(2) [OF f] by (blast, fastforce)
  ultimately show ?thesis using l se backup_manifest_issue_None [OF iss] by auto
qed

text \<open>A backup as the backup script leaves it, with its manifest.\<close>

definition demo_manifest :: string where
  "demo_manifest = ''backup_file=centralpay-1.dump'' @ [CHR 0x0A] @ ''sha256='' @ replicate 64 CHR ''a'' @ [CHR 0x0A]
     @ ''size_bytes=12'' @ [CHR 0x0A] @ ''validation=passed'' @ [CHR 0x0A]"

definition demo_dump :: dump_file where
  "demo_dump = \<lparr>df_name = ''centralpay-1.dump'', df_is_file = True, df_ok_sidecar = True, df_mtime = 100, df_size = 12,
     df_manifest = Manifest_Bytes demo_manifest\<rparr>"

lemma demo_backup_healthy: "chk_status (check_backup demo_monitor Some (Inr [demo_dump]) None 200) = STATUS_OK"
  by code_simp

theorem backup_needs_evidence_witness:
  "chk_status (check_backup demo_monitor Some (Inr [demo_dump]) None 200) = STATUS_OK
 \<and> (\<exists>pairs h. parse_backup_manifest Some (Manifest_Bytes demo_manifest) = Some pairs \<and> map_of pairs ''sha256'' = Some h \<and> sha256_shape h)"
proof -
  have "chk_status (check_backup demo_monitor Some (Inr [demo_dump]) None 200) \<noteq> STATUS_CRITICAL"
    using demo_backup_healthy by simp
  from backup_needs_evidence [OF this] demo_backup_healthy show ?thesis by (auto simp: demo_dump_def)
qed

end
