(* ===== verification/Monitor_Incidents.thy ===== *)
theory Monitor_Incidents
  imports Monitor_Checks
begin

text \<open>
  The incidents of the monitor (\<open>app/services/monitor_incidents.py\<close>): one open row per failing check,
  history kept, and an administrator alert on transitions only. The table of incidents stands
  beside the database of the session and is committed and rolled back with it. \<open>ms_next\<close> is the
  id the sequence gives to the next INSERT of this session.
\<close>

datatype incident_status = Incident_Open | Incident_Resolved

record incident =
  mi_id :: int
  mi_check_key :: string
  mi_severity :: check_status
  mi_status :: incident_status
  mi_opened_at :: time
  mi_last_seen_at :: time
  mi_resolved_at :: "time option"
  mi_last_alerted_at :: "time option"
  mi_last_alert_id :: "int option"
  mi_details :: jdict

record monitor_session =
  ms_session :: session
  ms_durable :: "incident list"
  ms_work :: "incident list"
  ms_next :: int

definition mon_commit :: "monitor_session \<Rightarrow> monitor_session" where
  "mon_commit m = m\<lparr>ms_session := commit (ms_session m), ms_durable := ms_work m\<rparr>"

definition mon_rollback :: "monitor_session \<Rightarrow> monitor_session" where
  "mon_rollback m = m\<lparr>ms_session := rollback (ms_session m), ms_work := ms_durable m\<rparr>"

text \<open>What other sessions commit, seen by the next statement of this one.\<close>

definition mon_see :: "(db \<times> incident list \<Rightarrow> db \<times> incident list) \<Rightarrow> monitor_session \<Rightarrow> monitor_session" where
  "mon_see others m =
     (case others (durable (ms_session m), ms_durable m) of
        (d, rows) \<Rightarrow> m\<lparr>ms_session := rollback_seeing (\<lambda>_. d) (ms_session m), ms_durable := rows, ms_work := rows\<rparr>)"

section \<open>Alert categories\<close>

datatype alert_category = Cat_Backup | Cat_Manual_Review | Cat_Error | Cat_Health

definition alert_category_of :: "string \<Rightarrow> alert_category" where
  "alert_category_of check_key =
     (if check_key = ''backup'' then Cat_Backup
      else if check_key = ''manual_review'' then Cat_Manual_Review
      else if check_key \<in> {''notification_backlog'', ''gateway_failure_burst'', ''bot_failure_burst''} then Cat_Error
      else Cat_Health)"

definition alerts_enabled :: "settings \<Rightarrow> monitor_settings \<Rightarrow> string \<Rightarrow> bool" where
  "alerts_enabled cfg mo check_key \<longleftrightarrow>
     admin_bot_enabled cfg \<and> admin_bot_alerts_enabled cfg
   \<and> (case alert_category_of check_key of
        Cat_Backup \<Rightarrow> admin_bot_backup_alerts cfg
      | Cat_Manual_Review \<Rightarrow> admin_bot_manual_review_alerts cfg
      | Cat_Error \<Rightarrow> admin_bot_error_alerts cfg
      | Cat_Health \<Rightarrow> admin_bot_health_alerts mo)"

section \<open>Incidents\<close>

datatype transition =
    TRANSITION_OPENED
  | TRANSITION_CLOSED
  | TRANSITION_ESCALATED
  | TRANSITION_UNCHANGED_UNHEALTHY
  | TRANSITION_UNCHANGED_HEALTHY
  | TRANSITION_ALERT_CAUGHT_UP

definition open_row :: "string \<Rightarrow> incident \<Rightarrow> bool" where
  "open_row key i \<longleftrightarrow> mi_check_key i = key \<and> mi_status i = Incident_Open"

definition open_incident :: "incident list \<Rightarrow> string \<Rightarrow> incident option" where
  "open_incident rows key = find (open_row key) rows"

definition needs_catchup :: "db \<Rightarrow> incident \<Rightarrow> bool" where
  "needs_catchup d i \<longleftrightarrow>
     mi_last_alerted_at i = None
   \<or> (case mi_last_alert_id i of
        None \<Rightarrow> False
      | Some a \<Rightarrow> (case find_row al_id (admin_alerts d) a of None \<Rightarrow> False | Some alert \<Rightarrow> al_status alert = AL_FAILED))"

definition incident_payload :: "check_result \<Rightarrow> jdict" where
  "incident_payload result =
     [(''check'', JStr (chk_key result)), (''detail'', JStr (chk_reason result))]
   @ (case map_of (chk_details result) ''count'' of None \<Rightarrow> [] | Some n \<Rightarrow> [(''count'', n)])"

definition put_incident :: "incident \<Rightarrow> monitor_session \<Rightarrow> monitor_session" where
  "put_incident i m = m\<lparr>ms_work := put_row mi_id i (ms_work m)\<rparr>"

text \<open>Write the row, queue the alert, note its id in the row.\<close>

definition alert_incident ::
  "monitor_session \<Rightarrow> incident \<Rightarrow> time \<Rightarrow> string \<Rightarrow> string \<Rightarrow> string \<Rightarrow> jdict \<Rightarrow> monitor_session" where
  "alert_incident m i now alert_type severity dedup payload =
     (case create_alert (ms_session m) alert_type severity None (Some dedup) payload None now of
        (s, alert) \<Rightarrow> put_incident (i\<lparr>mi_last_alerted_at := Some now, mi_last_alert_id := Some (al_id alert)\<rparr>) (m\<lparr>ms_session := s\<rparr>))"

definition incident_key :: "incident \<Rightarrow> string" where
  "incident_key i = ''monitor:'' @ mi_check_key i @ '':'' @ show_int (mi_id i)"

definition handle_healthy ::
  "settings \<Rightarrow> monitor_settings \<Rightarrow> monitor_session \<Rightarrow> check_result \<Rightarrow> time \<Rightarrow> monitor_session \<times> transition" where
  "handle_healthy cfg mo m result now =
     (case open_incident (ms_work m) (chk_key result) of
        None \<Rightarrow> (mon_rollback m, TRANSITION_UNCHANGED_HEALTHY)
      | Some i \<Rightarrow>
          (let i' = i\<lparr>mi_status := Incident_Resolved, mi_resolved_at := Some now, mi_last_seen_at := now\<rparr>;
               seconds = max \<lfloor>now - mi_opened_at i\<rfloor> 0
           in (mon_commit
                 (if alerts_enabled cfg mo (chk_key result)
                  then alert_incident m i' now ''monitor_incident_resolved'' ''info'' (incident_key i @ '':resolved'')
                         [(''check'', JStr (chk_key result)), (''detail'', JStr (''recovered after '' @ show_int seconds @ ''s''))]
                  else put_incident i' m),
               TRANSITION_CLOSED)))"

text \<open>An incident that is open already. \<open>isoformat\<close> is \<open>datetime.isoformat\<close>.\<close>

definition update_open ::
  "settings \<Rightarrow> monitor_settings \<Rightarrow> (time \<Rightarrow> string) \<Rightarrow> monitor_session \<Rightarrow> incident \<Rightarrow> check_result \<Rightarrow> time \<Rightarrow> monitor_session \<times> transition" where
  "update_open cfg mo isoformat m i result now =
     (let st = chk_status result;
          i' = i\<lparr>mi_last_seen_at := now, mi_details := chk_details result, mi_severity := st\<rparr>;
          alert = (\<lambda>ty tag. alert_incident m i' now ty (check_status_value st)
                     (incident_key i @ tag @ check_status_value st @ '':'' @ isoformat now) (incident_payload result))
      in if severity_rank st > severity_rank (mi_severity i) then
           (mon_commit (if alerts_enabled cfg mo (chk_key result) then alert ''monitor_incident_escalated'' '':escalated:''
                        else put_incident (i'\<lparr>mi_last_alerted_at := None\<rparr>) m),
            TRANSITION_ESCALATED)
         else if needs_catchup (work (ms_session m)) i' \<and> alerts_enabled cfg mo (chk_key result) then
           (mon_commit (alert ''monitor_incident_opened'' '':catchup:''), TRANSITION_ALERT_CAUGHT_UP)
         else (mon_commit (put_incident i' m), TRANSITION_UNCHANGED_UNHEALTHY))"

definition new_incident :: "int \<Rightarrow> check_result \<Rightarrow> time \<Rightarrow> incident" where
  "new_incident i result now =
     \<lparr>mi_id = i, mi_check_key = chk_key result, mi_severity = chk_status result, mi_status = Incident_Open, mi_opened_at = now,
      mi_last_seen_at = now, mi_resolved_at = None, mi_last_alerted_at = None, mi_last_alert_id = None, mi_details = chk_details result\<rparr>"

text \<open>
  \<open>others 0\<close> is what other sessions commit between the read and the INSERT, \<open>others 1\<close> what they commit
  until the read after a lost race. The partial unique index refuses a second open row of a key.
\<close>

definition handle_unhealthy ::
  "settings \<Rightarrow> monitor_settings \<Rightarrow> (time \<Rightarrow> string) \<Rightarrow> (nat \<Rightarrow> db \<times> incident list \<Rightarrow> db \<times> incident list) \<Rightarrow> monitor_session \<Rightarrow>
   check_result \<Rightarrow> time \<Rightarrow> monitor_session \<times> transition" where
  "handle_unhealthy cfg mo isoformat others m result now =
     (case open_incident (ms_work m) (chk_key result) of
        Some i \<Rightarrow> update_open cfg mo isoformat m i result now
      | None \<Rightarrow>
          (let m1 = mon_see (others 0) m
           in if open_incident (ms_work m1) (chk_key result) \<noteq> None then
                (let m2 = mon_see (others 1) (m1\<lparr>ms_next := ms_next m1 + 1\<rparr>)
                 in case open_incident (ms_work m2) (chk_key result) of
                      None \<Rightarrow> (m2, TRANSITION_UNCHANGED_UNHEALTHY)
                    | Some i \<Rightarrow> update_open cfg mo isoformat m2 i result now)
              else
                (let i = new_incident (ms_next m1) result now;
                     m2 = m1\<lparr>ms_work := ms_work m1 @ [i], ms_next := ms_next m1 + 1\<rparr>
                 in (mon_commit
                       (if alerts_enabled cfg mo (chk_key result)
                        then alert_incident m2 i now ''monitor_incident_opened'' (check_status_value (chk_status result)) (incident_key i)
                               (incident_payload result)
                        else m2),
                     TRANSITION_OPENED))))"

definition record_check_result ::
  "settings \<Rightarrow> monitor_settings \<Rightarrow> (time \<Rightarrow> string) \<Rightarrow> (nat \<Rightarrow> db \<times> incident list \<Rightarrow> db \<times> incident list) \<Rightarrow> monitor_session \<Rightarrow>
   check_result \<Rightarrow> time \<Rightarrow> monitor_session \<times> transition" where
  "record_check_result cfg mo isoformat others m result now =
     (if chk_status result = STATUS_OK then handle_healthy cfg mo m result now else handle_unhealthy cfg mo isoformat others m result now)"

definition list_incidents :: "incident list \<Rightarrow> bool \<Rightarrow> nat \<Rightarrow> incident list" where
  "list_incidents rows include_resolved limit =
     first_n_by (\<lambda>i. - mi_opened_at i) limit (filter (\<lambda>i. include_resolved \<or> mi_status i = Incident_Open) rows)"

section \<open>One open incident per check\<close>

text \<open>What the table promises: at most one open row per key, unique ids, and an unused next id.\<close>

definition one_open :: "incident list \<Rightarrow> bool" where
  "one_open rows \<longleftrightarrow> (\<forall>key. length (filter (open_row key) rows) \<le> 1)"

definition incidents_ok :: "int \<Rightarrow> incident list \<Rightarrow> bool" where
  "incidents_ok n rows \<longleftrightarrow> one_open rows \<and> distinct (map mi_id rows) \<and> n \<notin> set (map mi_id rows)"

lemma open_incident_None: "open_incident rows key = None \<longleftrightarrow> filter (open_row key) rows = []"
  by (auto simp: open_incident_def find_None_iff filter_empty_conv)

lemma open_incident_split:
  assumes "open_incident rows key = Some i" "one_open rows" "distinct (map mi_id rows)"
  obtains xs ys where "rows = xs @ i # ys" "filter (open_row key) xs = []" "filter (open_row key) ys = []" "open_row key i"
    "\<And>i'. mi_id i' = mi_id i \<Longrightarrow> put_row mi_id i' rows = xs @ i' # ys"
proof -
  have i: "i \<in> set rows" "open_row key i" using assms(1) by (auto simp: open_incident_def dest: find_SomeD)
  then obtain xs ys where rows: "rows = xs @ i # ys" by (meson split_list)
  have "length (filter (open_row key) (xs @ i # ys)) \<le> 1" using assms(2) rows by (simp add: one_open_def)
  then have none: "filter (open_row key) xs = []" "filter (open_row key) ys = []" using i(2) by simp_all
  have "mi_id i \<notin> mi_id ` set xs" "mi_id i \<notin> mi_id ` set ys" using assms(3) rows by auto
  then have "put_row mi_id i' rows = xs @ i' # ys" if "mi_id i' = mi_id i" for i'
    using that put_row_absent [of "mi_id i" mi_id xs i'] put_row_absent [of "mi_id i" mi_id ys i'] by (simp add: rows put_row_def)
  then show ?thesis using that rows none i(2) by blast
qed

text \<open>What recording one result may do to the table it finds.\<close>

definition incident_step :: "string \<Rightarrow> incident list \<Rightarrow> incident list \<Rightarrow> bool" where
  "incident_step key rows rows' \<longleftrightarrow>
     rows' = rows
   \<or> (\<exists>i i'. open_incident rows key = Some i \<and> mi_id i' = mi_id i \<and> mi_check_key i' = key \<and> mi_opened_at i' = mi_opened_at i
            \<and> rows' = put_row mi_id i' rows)
   \<or> (\<exists>i'. open_incident rows key = None \<and> open_row key i' \<and> mi_id i' \<notin> set (map mi_id rows) \<and> rows' = rows @ [i'])"

lemma incident_step_ok:
  assumes "incident_step key rows rows'" "one_open rows" "distinct (map mi_id rows)"
  shows "one_open rows'" "distinct (map mi_id rows')"
    "\<And>i. i \<in> set rows \<Longrightarrow> mi_status i = Incident_Resolved \<or> mi_check_key i \<noteq> key \<Longrightarrow> i \<in> set rows'"
    "length rows \<le> length rows'" "length rows' \<le> length rows + 1"
proof -
  have "one_open rows' \<and> distinct (map mi_id rows') \<and> (\<forall>i \<in> set rows. mi_status i = Incident_Resolved \<or> mi_check_key i \<noteq> key \<longrightarrow> i \<in> set rows')
      \<and> length rows \<le> length rows' \<and> length rows' \<le> length rows + 1"
    using assms(1) unfolding incident_step_def
  proof (elim disjE exE conjE)
    fix i i' assume o: "open_incident rows key = Some i" and i': "mi_id i' = mi_id i" "mi_check_key i' = key" "rows' = put_row mi_id i' rows"
    obtain xs ys where r: "rows = xs @ i # ys" "filter (open_row key) xs = []" "filter (open_row key) ys = []" "open_row key i"
      and put: "put_row mi_id i' rows = xs @ i' # ys"
      using open_incident_split [OF o assms(2,3)] i'(1) by metis
    have new: "rows' = xs @ i' # ys" using i'(3) put by simp
    have "open_row k i' \<Longrightarrow> open_row k i" for k using r(4) i'(2) by (simp add: open_row_def)
    then have "length (filter (open_row k) rows') \<le> length (filter (open_row k) rows)" for k
      by (simp add: new r(1))
    then have "one_open rows'" using assms(2) unfolding one_open_def by (meson le_trans)
    then show ?thesis using assms(3) r(4) i'(1) by (auto simp: open_row_def new r(1))
  next
    fix i' assume "open_incident rows key = None" "open_row key i'" "mi_id i' \<notin> set (map mi_id rows)" "rows' = rows @ [i']"
    then show ?thesis using assms(2,3) by (auto simp: one_open_def open_incident_None open_row_def)
  qed (use assms in simp)
  then show "one_open rows'" "distinct (map mi_id rows')"
    "\<And>i. i \<in> set rows \<Longrightarrow> mi_status i = Incident_Resolved \<or> mi_check_key i \<noteq> key \<Longrightarrow> i \<in> set rows'"
    "length rows \<le> length rows'" "length rows' \<le> length rows + 1" by blast+
qed

lemma mon_sel [simp]:
  "ms_durable (mon_commit m) = ms_work m" "ms_work (mon_commit m) = ms_work m" "ms_session (mon_commit m) = commit (ms_session m)"
  "ms_durable (mon_rollback m) = ms_durable m" "ms_work (mon_rollback m) = ms_durable m"
  "ms_session (mon_rollback m) = rollback (ms_session m)" "ms_next (mon_commit m) = ms_next m"
  "ms_durable (put_incident i m) = ms_durable m" "ms_work (put_incident i m) = put_row mi_id i (ms_work m)"
  "ms_session (put_incident i m) = ms_session m"
  by (simp_all add: mon_commit_def mon_rollback_def put_incident_def)

lemma mon_see_sel [simp]:
  "ms_durable (mon_see f m) = snd (f (durable (ms_session m), ms_durable m))"
  "ms_work (mon_see f m) = snd (f (durable (ms_session m), ms_durable m))"
  "durable (ms_session (mon_see f m)) = fst (f (durable (ms_session m), ms_durable m))"
  "work (ms_session (mon_see f m)) = fst (f (durable (ms_session m), ms_durable m))" "ms_next (mon_see f m) = ms_next m"
  "seq (ms_session (mon_see f m)) = seq (ms_session m)"
  by (simp_all add: mon_see_def split: prod.split)

lemma alert_incident_work:
  "\<exists>a. ms_work (alert_incident m i now ty sev k pl) = put_row mi_id (i\<lparr>mi_last_alerted_at := Some now, mi_last_alert_id := Some a\<rparr>) (ms_work m)"
  by (auto simp: alert_incident_def split: prod.split)

lemma update_open_step:
  assumes "open_incident (ms_work m) (chk_key r) = Some i" "update_open cfg mo isoformat m i r now = (m', t)"
  shows "\<exists>i'. mi_id i' = mi_id i \<and> mi_check_key i' = chk_key r \<and> mi_opened_at i' = mi_opened_at i \<and> mi_status i' = Incident_Open
      \<and> mi_severity i' = chk_status r \<and> ms_durable m' = put_row mi_id i' (ms_work m)"
proof -
  have o: "mi_check_key i = chk_key r" "mi_status i = Incident_Open"
    using assms(1) by (auto simp: open_incident_def open_row_def dest: find_SomeD)
  define j where "j = i\<lparr>mi_last_seen_at := now, mi_details := chk_details r, mi_severity := chk_status r\<rparr>"
  have put: ?thesis if "ms_durable m' = put_row mi_id (j\<lparr>mi_last_alerted_at := x, mi_last_alert_id := y\<rparr>) (ms_work m)" for x y
    using that o by (intro exI [of _ "j\<lparr>mi_last_alerted_at := x, mi_last_alert_id := y\<rparr>"]) (simp add: j_def)
  have alerted: ?thesis if "m' = mon_commit (alert_incident m j now ty sev k pl)" for ty sev k pl
    using that alert_incident_work [of m j now ty sev k pl] put by auto
  have kept: ?thesis if "m' = mon_commit (put_incident (j\<lparr>mi_last_alerted_at := x\<rparr>) m)" for x
    using that put [where x = x and y = "mi_last_alert_id j"] by simp
  consider ty sev k pl where "m' = mon_commit (alert_incident m j now ty sev k pl)"
    | "m' = mon_commit (put_incident (j\<lparr>mi_last_alerted_at := None\<rparr>) m)" | "m' = mon_commit (put_incident j m)"
    using assms(2) unfolding update_open_def Let_def j_def [symmetric] by (auto split: if_splits)
  then show ?thesis by cases (use alerted kept [of None] kept [of "mi_last_alerted_at j"] in auto)
qed

text \<open>The table as one of the reads of this session found it.\<close>

definition tables_seen :: "(nat \<Rightarrow> db \<times> incident list \<Rightarrow> db \<times> incident list) \<Rightarrow> monitor_session \<Rightarrow> incident list set" where
  "tables_seen others m =
     (let now0 = (durable (ms_session m), ms_durable m); now1 = others 0 now0
      in {ms_durable m, snd now1, snd (others 1 now1)})"

lemma handle_healthy_row:
  assumes "handle_healthy cfg mo m r now = (m', t)" "open_incident (ms_work m) (chk_key r) = Some i"
  shows "\<exists>j. mi_id j = mi_id i \<and> mi_check_key j = chk_key r \<and> mi_opened_at j = mi_opened_at i \<and> mi_status j = Incident_Resolved
      \<and> ms_durable m' = put_row mi_id j (ms_work m)"
proof -
  have "mi_check_key i = chk_key r" using assms(2) by (auto simp: open_incident_def open_row_def dest: find_SomeD)
  moreover define j where "j = i\<lparr>mi_status := Incident_Resolved, mi_resolved_at := Some now, mi_last_seen_at := now\<rparr>"
  ultimately have j: "mi_id j = mi_id i" "mi_check_key j = chk_key r" "mi_opened_at j = mi_opened_at i" "mi_status j = Incident_Resolved"
    by simp_all
  show ?thesis
  proof (cases "alerts_enabled cfg mo (chk_key r)")
    case True
    let ?k = "incident_key i @ '':resolved''" and ?pl = "[(''check'', JStr (chk_key r)),
        (''detail'', JStr (''recovered after '' @ show_int (max \<lfloor>now - mi_opened_at i\<rfloor> 0) @ ''s''))]"
    have "m' = mon_commit (alert_incident m j now ''monitor_incident_resolved'' ''info'' ?k ?pl)"
      using assms True by (simp add: handle_healthy_def Let_def j_def)
    then obtain a where "ms_durable m' = put_row mi_id (j\<lparr>mi_last_alerted_at := Some now, mi_last_alert_id := Some a\<rparr>) (ms_work m)"
      using alert_incident_work [of m j now "''monitor_incident_resolved''" "''info''" ?k ?pl] by auto
    then show ?thesis using j by (intro exI [of _ "j\<lparr>mi_last_alerted_at := Some now, mi_last_alert_id := Some a\<rparr>"]) simp
  next
    case False
    then show ?thesis using j assms by (intro exI [of _ j]) (auto simp: handle_healthy_def Let_def j_def)
  qed
qed

lemma handle_healthy_step:
  assumes "handle_healthy cfg mo m r now = (m', t)" "ms_work m = ms_durable m"
  shows "incident_step (chk_key r) (ms_durable m) (ms_durable m')"
proof (cases "open_incident (ms_work m) (chk_key r)")
  case (Some i)
  from handle_healthy_row [OF assms(1) Some] show ?thesis using Some assms(2) unfolding incident_step_def by metis
qed (use assms in \<open>auto simp: handle_healthy_def incident_step_def\<close>)

lemma update_open_incident_step:
  assumes "open_incident (ms_work m) (chk_key r) = Some i" "update_open cfg mo isoformat m i r now = (m', t)"
  shows "incident_step (chk_key r) (ms_work m) (ms_durable m')"
  using update_open_step [OF assms] assms(1) unfolding incident_step_def by blast

lemma opened_row:
  assumes "handle_unhealthy cfg mo isoformat others m r now = (m', t)" "open_incident (ms_work m) (chk_key r) = None"
    and "rows = snd (others 0 (durable (ms_session m), ms_durable m))" "open_incident rows (chk_key r) = None" "ms_next m \<notin> set (map mi_id rows)"
  shows "\<exists>i. open_row (chk_key r) i \<and> mi_id i = ms_next m \<and> mi_severity i = chk_status r \<and> ms_durable m' = rows @ [i]"
proof -
  let ?m1 = "mon_see (others 0) m"
  define i where "i = new_incident (ms_next ?m1) r now"
  have i: "open_row (chk_key r) i" "mi_id i = ms_next m" "mi_severity i = chk_status r"
    by (simp_all add: i_def new_incident_def open_row_def)
  show ?thesis
  proof (cases "alerts_enabled cfg mo (chk_key r)")
    case True
    let ?m2 = "?m1\<lparr>ms_work := ms_work ?m1 @ [i], ms_next := ms_next ?m1 + 1\<rparr>"
    obtain ty sev k pl where "m' = mon_commit (alert_incident ?m2 i now ty sev k pl)"
      using assms(1-4) True unfolding handle_unhealthy_def Let_def i_def [symmetric] by auto
    then obtain a where "ms_durable m' = put_row mi_id (i\<lparr>mi_last_alerted_at := Some now, mi_last_alert_id := Some a\<rparr>) (rows @ [i])"
      using alert_incident_work [of ?m2 i now ty sev k pl] assms(3) by auto
    moreover have "put_row mi_id i' (rows @ [i]) = rows @ [i']" if "mi_id i' = mi_id i" for i'
      using that put_row_absent [of "mi_id i" mi_id rows i'] assms(5) i(2) by (simp add: put_row_def)
    ultimately show ?thesis
      using i by (intro exI [of _ "i\<lparr>mi_last_alerted_at := Some now, mi_last_alert_id := Some a\<rparr>"]) (simp add: open_row_def)
  next
    case False
    then show ?thesis using i assms(1-4) unfolding handle_unhealthy_def Let_def i_def [symmetric] by auto
  qed
qed

lemma handle_unhealthy_step:
  assumes "handle_unhealthy cfg mo isoformat others m r now = (m', t)" "ms_work m = ms_durable m"
    and "ms_next m \<notin> set (map mi_id (snd (others 0 (durable (ms_session m), ms_durable m))))"
  shows "\<exists>rows \<in> tables_seen others m. incident_step (chk_key r) rows (ms_durable m')"
proof (cases "open_incident (ms_work m) (chk_key r)")
  case (Some i)
  then show ?thesis
    using assms update_open_incident_step [OF Some] by (auto simp: handle_unhealthy_def tables_seen_def Let_def)
next
  case None
  let ?m1 = "mon_see (others 0) m"
  show ?thesis
  proof (cases "open_incident (ms_work ?m1) (chk_key r)")
    case (Some _)
    let ?m2 = "mon_see (others 1) (?m1\<lparr>ms_next := ms_next ?m1 + 1\<rparr>)"
    show ?thesis
    proof (cases "open_incident (ms_work ?m2) (chk_key r)")
      case lost: None
      then show ?thesis
        using assms(1) None Some by (auto simp: handle_unhealthy_def Let_def tables_seen_def incident_step_def)
    next
      case (Some i)
      then show ?thesis
        using assms(1) None \<open>open_incident (ms_work ?m1) (chk_key r) = Some _\<close> update_open_incident_step [OF Some]
        by (auto simp: handle_unhealthy_def Let_def tables_seen_def)
    qed
  next
    case free: None
    have "open_incident (snd (others 0 (durable (ms_session m), ms_durable m))) (chk_key r) = None" using free by simp
    from opened_row [OF assms(1) None refl this assms(3)] obtain i where "open_row (chk_key r) i" "mi_id i = ms_next m"
      "ms_durable m' = snd (others 0 (durable (ms_session m), ms_durable m)) @ [i]" by blast
    then show ?thesis
      using free assms(3) by (intro bexI [of _ "ms_work ?m1"]) (auto simp: incident_step_def tables_seen_def Let_def)
  qed
qed

text \<open>
  At any time at most one incident is open per check, however many monitors race: after
  recording a result, on top of whatever other sessions committed meanwhile, ids are unique, no
  check has two open incidents, resolved incidents and those of other checks are untouched, none is
  lost, and at most one row is new.
\<close>

theorem one_open_incident:
  assumes "record_check_result cfg mo isoformat others m r now = (m', t)" "ms_work m = ms_durable m"
    and "incidents_ok (ms_next m) (ms_durable m)"
    and "\<And>k d rows. incidents_ok (ms_next m) rows \<Longrightarrow> incidents_ok (ms_next m) (snd (others k (d, rows)))"
  shows "one_open (ms_durable m') \<and> distinct (map mi_id (ms_durable m'))
       \<and> (\<exists>rows \<in> tables_seen others m.
            (\<forall>i \<in> set rows. mi_status i = Incident_Resolved \<or> mi_check_key i \<noteq> chk_key r \<longrightarrow> i \<in> set (ms_durable m'))
          \<and> length rows \<le> length (ms_durable m') \<and> length (ms_durable m') \<le> length rows + 1)"
proof -
  have ok: "incidents_ok (ms_next m) rows" if "rows \<in> tables_seen others m" for rows
    using that assms(3,4) by (auto simp: tables_seen_def Let_def) (metis prod.collapse)
  then have fresh: "ms_next m \<notin> set (map mi_id (snd (others 0 (durable (ms_session m), ms_durable m))))"
    by (simp add: tables_seen_def Let_def incidents_ok_def)
  have "\<exists>rows \<in> tables_seen others m. incident_step (chk_key r) rows (ms_durable m')"
  proof (cases "chk_status r = STATUS_OK")
    case True
    then have "incident_step (chk_key r) (ms_durable m) (ms_durable m')"
      using assms(1,2) handle_healthy_step by (simp add: record_check_result_def)
    then show ?thesis by (auto simp: tables_seen_def Let_def)
  next
    case False
    then show ?thesis using assms(1,2) fresh handle_unhealthy_step by (simp add: record_check_result_def)
  qed
  then obtain rows where rows: "rows \<in> tables_seen others m" "incident_step (chk_key r) rows (ms_durable m')" by blast
  have "one_open rows" "distinct (map mi_id rows)" using ok [OF rows(1)] by (simp_all add: incidents_ok_def)
  note step = incident_step_ok [OF rows(2) this]
  show ?thesis using step rows(1) by blast
qed

definition demo_incident :: "int \<Rightarrow> string \<Rightarrow> check_status \<Rightarrow> incident" where
  "demo_incident i key st =
     \<lparr>mi_id = i, mi_check_key = key, mi_severity = st, mi_status = Incident_Open, mi_opened_at = 10, mi_last_seen_at = 10,
      mi_resolved_at = None, mi_last_alerted_at = None, mi_last_alert_id = None, mi_details = []\<rparr>"

definition demo_monitor_session :: "incident list \<Rightarrow> int \<Rightarrow> monitor_session" where
  "demo_monitor_session rows n = \<lparr>ms_session = new_session empty_db 50, ms_durable = rows, ms_work = rows, ms_next = n\<rparr>"

text \<open>Another monitor opens the incident between the read and the INSERT.\<close>

definition racing_monitor :: "nat \<Rightarrow> db \<times> incident list \<Rightarrow> db \<times> incident list" where
  "racing_monitor k = (\<lambda>(d, rows). (d, if k = 0 \<and> rows = [] then [demo_incident 1 ''disk_space'' STATUS_WARNING] else rows))"

theorem one_open_incident_witness:
  "one_open (ms_durable (fst (record_check_result demo_settings demo_monitor (\<lambda>_. ''t'') racing_monitor (demo_monitor_session [] 2)
     (check_result_of ''disk_space'' STATUS_CRITICAL ''low_disk_space'' []) 60)))"
proof -
  have rows: "incidents_ok 2 rows \<Longrightarrow> incidents_ok 2 (snd (racing_monitor k (d, rows)))" for k d rows
    by (auto simp: racing_monitor_def incidents_ok_def one_open_def demo_incident_def)
  show ?thesis
    using one_open_incident [OF prod.collapse [symmetric], where m = "demo_monitor_session [] 2" and others = racing_monitor
        and cfg = demo_settings and mo = demo_monitor and isoformat = "\<lambda>_. ''t''" and now = 60
        and r = "check_result_of ''disk_space'' STATUS_CRITICAL ''low_disk_space'' []"] rows
    by (simp add: demo_monitor_session_def incidents_ok_def one_open_def)
qed

section \<open>Alerts on transitions only\<close>

lemma create_alert_appends:
  "\<exists>a. snd (create_alert s ty sev pid k pl dm now) = a \<and> admin_alerts (work (fst (create_alert s ty sev pid k pl dm now))) = admin_alerts (work s) @ [a]
     \<and> al_id a = sq_alert (seq s) + 1 \<and> al_status a \<in> {AL_PENDING, AL_SUPPRESSED}"
  by (simp add: create_alert_def create_alert_with_def insert_event_def Let_def new_alert_status_def split: option.split)

lemma alert_incident_alerts:
  "\<exists>a. admin_alerts (work (ms_session (alert_incident m i now ty sev k pl))) = admin_alerts (work (ms_session m)) @ [a]
     \<and> al_id a = sq_alert (seq (ms_session m)) + 1 \<and> al_status a \<in> {AL_PENDING, AL_SUPPRESSED}
     \<and> ms_work (alert_incident m i now ty sev k pl) = put_row mi_id (i\<lparr>mi_last_alerted_at := Some now, mi_last_alert_id := Some (al_id a)\<rparr>) (ms_work m)
     \<and> payments (work (ms_session (alert_incident m i now ty sev k pl))) = payments (work (ms_session m))"
proof -
  obtain s a where sa: "create_alert (ms_session m) ty sev None (Some k) pl None now = (s, a)" by fastforce
  have "payments (work s) = payments (work (ms_session m))"
    using create_alert_sel(2) [of "ms_session m" ty sev None "Some k" pl None now] unfolding sa by simp
  then show ?thesis
    using create_alert_appends [of "ms_session m" ty sev None "Some k" pl None now] by (auto simp: alert_incident_def sa)
qed

lemma alert_incident_frame:
  "length (admin_alerts (work (ms_session (alert_incident m i now ty sev k pl)))) = length (admin_alerts (work (ms_session m))) + 1"
  "payments (work (ms_session (alert_incident m i now ty sev k pl))) = payments (work (ms_session m))"
  using alert_incident_alerts [of m i now ty sev k pl] by auto

lemmas transition_unfold = record_check_result_def handle_healthy_def handle_unhealthy_def update_open_def Let_def

text \<open>
  An alert is queued exactly on a transition: opening, closing and escalating an incident queue one
  each when alerts of its category are enabled, catching up on an unreported incident queues
  one, and a result that changes nothing queues none. No payment changes.
\<close>

theorem alert_exactly_on_transition:
  assumes "record_check_result cfg mo isoformat (\<lambda>_ x. x) m r now = (m', t)"
    and "work (ms_session m) = durable (ms_session m)" "ms_work m = ms_durable m"
  shows "length (admin_alerts (durable (ms_session m'))) = length (admin_alerts (durable (ms_session m)))
           + (if alerts_enabled cfg mo (chk_key r)
                 \<and> t \<in> {TRANSITION_OPENED, TRANSITION_CLOSED, TRANSITION_ESCALATED, TRANSITION_ALERT_CAUGHT_UP} then 1 else 0)
       \<and> payments (durable (ms_session m')) = payments (durable (ms_session m))"
  using assms
  by (auto simp: transition_unfold alert_incident_frame split: option.splits if_splits)

theorem alert_exactly_on_transition_witness:
  "length (admin_alerts (durable (ms_session (fst (record_check_result
       (demo_settings\<lparr>admin_bot_enabled := True, admin_bot_alerts_enabled := True\<rparr>) demo_monitor (\<lambda>_. ''t'') (\<lambda>_ x. x)
       (demo_monitor_session [] 1) (check_result_of ''disk_space'' STATUS_CRITICAL ''low_disk_space'' []) 60))))) = 1"
proof -
  let ?cfg = "demo_settings\<lparr>admin_bot_enabled := True, admin_bot_alerts_enabled := True\<rparr>"
  let ?r = "check_result_of ''disk_space'' STATUS_CRITICAL ''low_disk_space'' []"
  have t: "snd (record_check_result ?cfg demo_monitor (\<lambda>_. ''t'') (\<lambda>_ x. x) (demo_monitor_session [] 1) ?r 60) = TRANSITION_OPENED"
    by (simp add: transition_unfold open_incident_def demo_monitor_session_def mon_see_def)
  have "alerts_enabled ?cfg demo_monitor (chk_key ?r)"
    by (simp add: alerts_enabled_def alert_category_of_def demo_monitor_def)
  with t show ?thesis
    using alert_exactly_on_transition [OF prod.collapse [symmetric], where m = "demo_monitor_session [] 1" and cfg = ?cfg and mo = demo_monitor
        and isoformat = "\<lambda>_. ''t''" and r = ?r and now = 60]
    by (simp add: demo_monitor_session_def new_session_def empty_db_def)
qed

section \<open>No incident stays unreported\<close>

lemma fresh_alert_found:
  assumes "list_all (\<lambda>a. al_id a \<le> n) as" "al_id a = n + 1"
  shows "find_row al_id (as @ [a]) (n + 1) = Some a"
proof -
  have "find_row al_id as (n + 1) = None" using assms(1) by (auto simp: find_row_None list_all_iff)
  then show ?thesis using assms(2) unfolding find_row_append by (simp add: find_row_def)
qed

lemma alert_incident_reported:
  assumes "list_all (\<lambda>a. al_id a \<le> sq_alert (seq (ms_session m))) (admin_alerts (work (ms_session m)))" "i \<in> set (ms_work m)"
    and "distinct (map mi_id (ms_work m))" "mi_id j = mi_id i"
  shows "\<exists>i' \<in> set (ms_work (alert_incident m j now ty sev k pl)). mi_id i' = mi_id i \<and> mi_check_key i' = mi_check_key j
      \<and> mi_status i' = mi_status j \<and> mi_severity i' = mi_severity j
      \<and> \<not> needs_catchup (work (ms_session (alert_incident m j now ty sev k pl))) i'"
proof -
  obtain a where a: "admin_alerts (work (ms_session (alert_incident m j now ty sev k pl))) = admin_alerts (work (ms_session m)) @ [a]"
    "al_id a = sq_alert (seq (ms_session m)) + 1" "al_status a \<in> {AL_PENDING, AL_SUPPRESSED}"
    "ms_work (alert_incident m j now ty sev k pl) = put_row mi_id (j\<lparr>mi_last_alerted_at := Some now, mi_last_alert_id := Some (al_id a)\<rparr>) (ms_work m)"
    using alert_incident_alerts [of m j now ty sev k pl] by blast
  let ?i' = "j\<lparr>mi_last_alerted_at := Some now, mi_last_alert_id := Some (al_id a)\<rparr>"
  have "find_row al_id (admin_alerts (work (ms_session (alert_incident m j now ty sev k pl)))) (al_id a) = Some a"
    using fresh_alert_found [OF assms(1) a(2)] a(1,2) by simp
  then have "\<not> needs_catchup (work (ms_session (alert_incident m j now ty sev k pl))) ?i'" using a(3) by (auto simp: needs_catchup_def)
  moreover have "?i' \<in> set (put_row mi_id ?i' (ms_work m))" using assms(2,4) by (force simp: put_row_def)
  ultimately show ?thesis unfolding a(4) using assms(4) by (intro bexI [of _ ?i']) auto
qed

text \<open>The abstract view of a check: the severity of its open incident, and how many incidents it has had.\<close>

definition incident_abs :: "string \<Rightarrow> incident list \<Rightarrow> check_status option \<times> nat" where
  "incident_abs key rows = (map_option mi_severity (open_incident rows key), length (filter (\<lambda>i. mi_check_key i = key) rows))"

fun incident_spec :: "check_status \<Rightarrow> check_status option \<times> nat \<Rightarrow> check_status option \<times> nat" where
  "incident_spec STATUS_OK (sev, n) = (None, n)"
| "incident_spec st (None, n) = (Some st, n + 1)"
| "incident_spec st (Some _, n) = (Some st, n)"

lemma open_incident_append: "open_incident (xs @ ys) key = (case open_incident xs key of None \<Rightarrow> open_incident ys key | Some i \<Rightarrow> Some i)"
  by (induction xs) (auto simp: open_incident_def)

lemma open_incident_Cons: "open_incident (i # ys) key = (if open_row key i then Some i else open_incident ys key)"
  by (simp add: open_incident_def)

lemma abs_put:
  assumes "open_incident rows key = Some i" "one_open rows" "distinct (map mi_id rows)" "mi_id i' = mi_id i" "mi_check_key i' = key"
  shows "incident_abs key (put_row mi_id i' rows) = (if mi_status i' = Incident_Open then Some (mi_severity i') else None, snd (incident_abs key rows))"
    and "k \<noteq> key \<Longrightarrow> incident_abs k (put_row mi_id i' rows) = incident_abs k rows"
proof -
  obtain xs ys where r: "rows = xs @ i # ys" "filter (open_row key) xs = []" "filter (open_row key) ys = []" "open_row key i"
    and put: "put_row mi_id i' rows = xs @ i' # ys"
    using open_incident_split [OF assms(1-3)] assms(4) by metis
  have none: "open_incident xs key = None" "open_incident ys key = None" using r(2,3) by (simp_all add: open_incident_None)
  show "incident_abs key (put_row mi_id i' rows) = (if mi_status i' = Incident_Open then Some (mi_severity i') else None, snd (incident_abs key rows))"
    unfolding put using r(4) assms(5) none
    by (simp add: incident_abs_def open_incident_append open_incident_Cons r(1) open_row_def)
  show "incident_abs k (put_row mi_id i' rows) = incident_abs k rows" if "k \<noteq> key"
    unfolding put using r(4) assms(5) that
    by (simp add: incident_abs_def open_incident_append open_incident_Cons r(1) open_row_def split: option.split)
qed

text \<open>
  C26. Undisturbed by other monitors, the incident table implements the simple specification of a check:
  after an unhealthy result exactly one incident is open, at the severity of that result; after
  a healthy one none is; a new row appears only where a healthy period ended; other checks are not
  touched.
\<close>

theorem incidents_refine:
  assumes "record_check_result cfg mo isoformat (\<lambda>_ x. x) m r now = (m', t)" "ms_work m = ms_durable m"
    and "incidents_ok (ms_next m) (ms_durable m)"
  shows "incident_abs (chk_key r) (ms_durable m') = incident_spec (chk_status r) (incident_abs (chk_key r) (ms_durable m))
       \<and> (\<forall>k. k \<noteq> chk_key r \<longrightarrow> incident_abs k (ms_durable m') = incident_abs k (ms_durable m))"
proof -
  have ok: "one_open (ms_durable m)" "distinct (map mi_id (ms_durable m))" "ms_next m \<notin> set (map mi_id (ms_durable m))"
    using assms(3) by (simp_all add: incidents_ok_def)
  let ?a = "incident_abs (chk_key r) (ms_durable m)"
  show ?thesis
  proof (cases "open_incident (ms_durable m) (chk_key r)")
    case (Some i)
    then have a: "?a = (Some (mi_severity i), snd ?a)" by (simp add: incident_abs_def)
    show ?thesis
    proof (cases "chk_status r = STATUS_OK")
      case True
      then have "handle_healthy cfg mo m r now = (m', t)" using assms(1) by (simp add: record_check_result_def)
      from handle_healthy_row [OF this] Some assms(2) obtain j where j: "mi_id j = mi_id i" "mi_check_key j = chk_key r"
        "mi_status j = Incident_Resolved" "ms_durable m' = put_row mi_id j (ms_durable m)" by auto
      have "incident_spec (chk_status r) ?a = (None, snd ?a)" using True by (subst a) simp
      then show ?thesis using abs_put [OF Some ok(1,2) j(1,2)] j(3,4) by simp
    next
      case False
      then have "update_open cfg mo isoformat m i r now = (m', t)"
        using assms(1,2) Some by (simp add: record_check_result_def handle_unhealthy_def)
      from update_open_step [OF _ this] Some assms(2) obtain j where j: "mi_id j = mi_id i" "mi_check_key j = chk_key r"
        "mi_status j = Incident_Open" "mi_severity j = chk_status r" "ms_durable m' = put_row mi_id j (ms_durable m)" by auto
      have "incident_spec (chk_status r) ?a = (Some (chk_status r), snd ?a)"
        using False by (subst a) (cases "chk_status r", simp_all)
      then show ?thesis using abs_put [OF Some ok(1,2) j(1,2)] j(3-5) by simp
    qed
  next
    case None
    then have a: "?a = (None, snd ?a)" by (simp add: incident_abs_def)
    show ?thesis
    proof (cases "chk_status r = STATUS_OK")
      case True
      then have "ms_durable m' = ms_durable m" using assms(1,2) None by (auto simp: record_check_result_def handle_healthy_def)
      moreover have "incident_spec STATUS_OK ?a = ?a" by (subst (1 2) a) simp
      ultimately show ?thesis using True by simp
    next
      case False
      then have "handle_unhealthy cfg mo isoformat (\<lambda>_ x. x) m r now = (m', t)" using assms(1) by (simp add: record_check_result_def)
      from opened_row [OF this _ refl] None assms(2) ok(3) obtain i where i: "open_row (chk_key r) i" "mi_severity i = chk_status r"
        "ms_durable m' = ms_durable m @ [i]" by auto
      have "incident_spec (chk_status r) ?a = (Some (chk_status r), snd ?a + 1)"
        using False by (subst a) (cases "chk_status r", simp_all)
      then show ?thesis
        using i None by (simp add: incident_abs_def open_incident_append open_incident_Cons open_row_def open_incident_def [of "[]"] split: option.split)
    qed
  qed
qed

theorem incidents_refine_witness:
  "incident_abs ''disk_space'' (ms_durable (fst (record_check_result demo_settings demo_monitor (\<lambda>_. ''t'') (\<lambda>_ x. x)
       (demo_monitor_session [demo_incident 1 ''disk_space'' STATUS_WARNING] 2)
       (check_result_of ''disk_space'' STATUS_CRITICAL ''low_disk_space'' []) 60)))
   = (Some STATUS_CRITICAL, 1)"
proof -
  let ?rows = "[demo_incident 1 ''disk_space'' STATUS_WARNING]"
  have "incidents_ok 2 ?rows" by (simp add: incidents_ok_def one_open_def demo_incident_def)
  moreover have "incident_abs ''disk_space'' ?rows = (Some STATUS_WARNING, 1)"
    by (simp add: incident_abs_def open_incident_def open_row_def demo_incident_def)
  ultimately show ?thesis
    using incidents_refine [OF prod.collapse [symmetric], where m = "demo_monitor_session ?rows 2" and cfg = demo_settings and mo = demo_monitor
        and isoformat = "\<lambda>_. ''t''" and r = "check_result_of ''disk_space'' STATUS_CRITICAL ''low_disk_space'' []" and now = 60]
    by (simp add: demo_monitor_session_def)
qed

lemma open_incident_mem:
  assumes "one_open rows" "i \<in> set rows" "open_row key i"
  shows "open_incident rows key = Some i"
proof -
  obtain xs ys where rows: "rows = xs @ i # ys" using assms(2) by (meson split_list)
  have "length (filter (open_row key) (xs @ i # ys)) \<le> 1" using assms(1) by (simp add: one_open_def rows)
  then have "open_incident xs key = None" using assms(3) by (simp add: open_incident_None)
  then show ?thesis using assms(3) by (simp add: rows open_incident_append open_incident_Cons)
qed

lemma update_open_reports:
  assumes "update_open cfg mo isoformat m i r now = (m', t)" "alerts_enabled cfg mo (chk_key r)" "i \<in> set (ms_work m)" "open_row (chk_key r) i"
    and "distinct (map mi_id (ms_work m))" "list_all (\<lambda>a. al_id a \<le> sq_alert (seq (ms_session m))) (admin_alerts (work (ms_session m)))"
  shows "\<exists>i' \<in> set (ms_durable m'). open_row (chk_key r) i' \<and> mi_severity i' = chk_status r \<and> \<not> needs_catchup (durable (ms_session m')) i'"
proof -
  define j where "j = i\<lparr>mi_last_seen_at := now, mi_details := chk_details r, mi_severity := chk_status r\<rparr>"
  have j: "mi_id j = mi_id i" "open_row (chk_key r) j" "mi_severity j = chk_status r" using assms(4) by (simp_all add: j_def open_row_def)
  consider ty sev k pl where "m' = mon_commit (alert_incident m j now ty sev k pl)"
    | "m' = mon_commit (put_incident j m)" "\<not> needs_catchup (work (ms_session m)) j"
    using assms(1,2) unfolding update_open_def Let_def j_def [symmetric] by (auto split: if_splits)
  then show ?thesis
  proof cases
    case 1
    then show ?thesis
      using alert_incident_reported [OF assms(6,3,5) j(1), of now ty sev k pl] j(2,3) by (auto simp: open_row_def)
  next
    case 2
    have "j \<in> set (put_row mi_id j (ms_work m))" using assms(3) j(1) by (force simp: put_row_def)
    then show ?thesis using 2 j by auto
  qed
qed



end
