(* ===== verification/Monitor.thy ===== *)
theory Monitor
  imports Monitor_Incidents
begin

text \<open>
  The monitor process (\<open>app/monitor.py\<close>): one pass over all checks, and the loop with the slower
  cadence of the integrity check. Logging, the sleep and the liveness file are left out.
\<close>

section \<open>A pass\<close>

text \<open>
  What one iteration of the loop meets: the environment of its checks, its clock readings, what other
  sessions commit (\<open>tk_others k\<close> around the k-th result), an error while the k-th result is
  recorded, and whether the heartbeat could be written.
\<close>

record monitor_tick_env =
  tk_env :: monitor_env
  tk_now :: time
  tk_others :: "nat \<Rightarrow> nat \<Rightarrow> db \<times> incident list \<Rightarrow> db \<times> incident list"
  tk_record_error :: "nat \<Rightarrow> string option"
  tk_heartbeat_now :: time
  tk_heartbeat_others :: "worker_heartbeat list \<Rightarrow> worker_heartbeat list"
  tk_heartbeat_next :: int
  tk_heartbeat_fails :: bool

fun record_all ::
  "settings \<Rightarrow> monitor_settings \<Rightarrow> (time \<Rightarrow> string) \<Rightarrow> monitor_tick_env \<Rightarrow> nat \<Rightarrow> monitor_session \<Rightarrow> check_result list \<Rightarrow>
   monitor_session \<times> string option" where
  "record_all cfg mo isoformat tk k m [] = (m, None)"
| "record_all cfg mo isoformat tk k m (r # rs) =
     (let m0 = mon_see (tk_others tk k 0) m
      in case tk_record_error tk k of
           Some e \<Rightarrow> (mon_rollback m0, Some e)
         | None \<Rightarrow>
             record_all cfg mo isoformat tk (Suc k)
               (fst (record_check_result cfg mo isoformat (\<lambda>j. tk_others tk k (Suc j)) m0 r (tk_now tk))) rs)"

text \<open>The value says whether the integrity check really ran; \<open>Inl\<close> is the exception that ended the pass.\<close>

definition run_one_pass ::
  "settings \<Rightarrow> monitor_settings \<Rightarrow> (time \<Rightarrow> string) \<Rightarrow> monitor_tick_env \<Rightarrow> monitor_session \<Rightarrow> bool \<Rightarrow> monitor_session \<times> (string + bool)" where
  "run_one_pass cfg mo isoformat tk m include_db_integrity =
     (case run_all_checks cfg mo (tk_env tk) (tk_now tk) include_db_integrity of
        Inl e \<Rightarrow> (mon_rollback m, Inl e)
      | Inr results \<Rightarrow>
          (case record_all cfg mo isoformat tk 0 m results of
             (m', Some e) \<Rightarrow> (m', Inl e)
           | (m', None) \<Rightarrow>
               (m', Inr (include_db_integrity
                         \<and> \<not> list_ex (\<lambda>r. chk_key r = ''db_integrity'' \<and> chk_reason r = DB_UNAVAILABLE_REASON) results))))"

section \<open>The loop\<close>

definition db_integrity_every :: "monitor_settings \<Rightarrow> int" where
  "db_integrity_every mo = max 1 (py_round (monitor_db_integrity_interval_seconds mo / monitor_interval_seconds mo))"

record monitor_process =
  mp_session :: monitor_session
  mp_heartbeats :: "worker_heartbeat list"
  mp_cycles_since_integrity :: int

definition MONITOR_WORKER_NAME :: string where
  "MONITOR_WORKER_NAME = ''monitor''"

definition monitor_tick ::
  "settings \<Rightarrow> monitor_settings \<Rightarrow> (time \<Rightarrow> string) \<Rightarrow> string \<Rightarrow> string \<Rightarrow> monitor_tick_env \<Rightarrow> monitor_process \<Rightarrow> monitor_process \<times> bool" where
  "monitor_tick cfg mo isoformat version instance tk st =
     (let include_db_integrity = (mp_cycles_since_integrity st \<ge> db_integrity_every mo);
          (m, outcome) = run_one_pass cfg mo isoformat tk (mp_session st) include_db_integrity;
          error_code = (case outcome of Inl e \<Rightarrow> Some e | Inr _ \<Rightarrow> None);
          beats = (if tk_heartbeat_fails tk then mp_heartbeats st
                   else fst (record_worker_heartbeat (tk_heartbeat_others tk) version (tk_heartbeat_next tk) (mp_heartbeats st)
                          MONITOR_WORKER_NAME instance (tk_heartbeat_now tk) (error_code = None) error_code))
      in (\<lparr>mp_session = m, mp_heartbeats = beats,
           mp_cycles_since_integrity = (if outcome = Inr True then 0 else mp_cycles_since_integrity st + 1)\<rparr>,
          include_db_integrity))"

text \<open>The iterations until the stop event is set; the flags say which of them were due for the integrity check.\<close>

fun monitor_ticks ::
  "settings \<Rightarrow> monitor_settings \<Rightarrow> (time \<Rightarrow> string) \<Rightarrow> string \<Rightarrow> string \<Rightarrow> monitor_process \<Rightarrow> monitor_tick_env list \<Rightarrow> monitor_process \<times> bool list" where
  "monitor_ticks cfg mo isoformat version instance st [] = (st, [])"
| "monitor_ticks cfg mo isoformat version instance st (tk # tks) =
     (let (st1, due) = monitor_tick cfg mo isoformat version instance tk st;
          (st2, flags) = monitor_ticks cfg mo isoformat version instance st1 tks
      in (st2, due # flags))"

definition run_forever ::
  "settings \<Rightarrow> monitor_settings \<Rightarrow> (time \<Rightarrow> string) \<Rightarrow> string \<Rightarrow> string \<Rightarrow> monitor_session \<Rightarrow> worker_heartbeat list \<Rightarrow> monitor_tick_env list
   \<Rightarrow> monitor_process \<times> bool list" where
  "run_forever cfg mo isoformat version instance m beats ticks =
     monitor_ticks cfg mo isoformat version instance
       \<lparr>mp_session = m, mp_heartbeats = beats, mp_cycles_since_integrity = db_integrity_every mo\<rparr> ticks"

text \<open>\<open>main\<close>: exit code 2 when the configuration is refused.\<close>

definition monitor_main ::
  "settings \<Rightarrow> monitor_settings \<Rightarrow> (time \<Rightarrow> string) \<Rightarrow> string \<Rightarrow> string \<Rightarrow> monitor_session \<Rightarrow> worker_heartbeat list \<Rightarrow> monitor_tick_env list
   \<Rightarrow> int \<times> (monitor_process \<times> bool list) option" where
  "monitor_main cfg mo isoformat version instance m beats ticks =
     (if \<not> validate_monitor_settings mo then (2, None)
      else (0, Some (run_forever cfg mo isoformat version instance m beats ticks)))"

section \<open>The cadence of the integrity check\<close>

lemma monitor_tick_cycles:
  "snd (monitor_tick cfg mo isoformat v ins tk st) = (mp_cycles_since_integrity st \<ge> db_integrity_every mo)"
  "mp_cycles_since_integrity (fst (monitor_tick cfg mo isoformat v ins tk st)) =
     (if snd (run_one_pass cfg mo isoformat tk (mp_session st) (mp_cycles_since_integrity st \<ge> db_integrity_every mo)) = Inr True
      then 0 else mp_cycles_since_integrity st + 1)"
  by (simp_all add: monitor_tick_def Let_def split: prod.split)

text \<open>A tick whose queries and writes all succeed.\<close>

definition smooth_tick :: "monitor_tick_env \<Rightarrow> bool" where
  "smooth_tick tk \<longleftrightarrow> me_database_ok (tk_env tk) \<and> (\<forall>i. me_fault (tk_env tk) i = None) \<and> (\<forall>k. tk_record_error tk k = None)"

lemma record_all_smooth: "(\<And>k. tk_record_error tk k = None) \<Longrightarrow> snd (record_all cfg mo isoformat tk k m rs) = None"
  by (induction rs arbitrary: k m) (simp_all add: Let_def)

lemma run_db_dependent_smooth:
  "(\<And>i. me_fault env i = None) \<Longrightarrow> run_db_dependent env i cs = Inr (map (\<lambda>(j, _, thunk). thunk (me_view env j)) (zip [i..<i + length cs] cs))"
proof (induction cs arbitrary: i)
  case (Cons kt cs)
  obtain key thunk where "kt = (key, thunk)" by fastforce
  moreover have "[i..<i + length (kt # cs)] = i # [Suc i..<Suc i + length cs]" by (simp add: upt_conv_Cons del: upt_Suc)
  ultimately show ?case using Cons by simp
qed simp

lemma integrity_reason: "chk_reason (check_db_integrity revision d seqs) \<noteq> DB_UNAVAILABLE_REASON"
  by (simp add: check_db_integrity_def Let_def DB_UNAVAILABLE_REASON_def)

lemma dependent_integrity:
  assumes "(key, thunk) \<in> set (build_db_dependent_checks cfg m now incl)" "chk_key (thunk v) = ''db_integrity''"
  shows "chk_reason (thunk v) \<noteq> DB_UNAVAILABLE_REASON"
proof -
  have "chk_key (thunk v) = key" using dependent_keys [of cfg m now incl] assms(1) by (auto simp: list_all_iff)
  then have "key = ''db_integrity''" using assms(2) by simp
  then have "thunk = (\<lambda>v. check_db_integrity (mv_revision v) (mv_db v) (mv_sequences v))"
    using assms(1) by (auto simp: build_db_dependent_checks_def split: if_splits)
  then show ?thesis using integrity_reason by simp
qed

lemma zip_upt_mem: "(j, c) \<in> set (zip [i..<i + length cs] cs) \<Longrightarrow> c \<in> set cs"
  by (meson set_zip_rightD)

lemma smooth_results:
  assumes "smooth_tick tk" "r \<in> set (map (\<lambda>(j, _, thunk). thunk (me_view (tk_env tk) j))
             (zip [0..<0 + length (build_db_dependent_checks cfg mo now incl)] (build_db_dependent_checks cfg mo now incl)))"
  shows "\<not> (chk_key r = ''db_integrity'' \<and> chk_reason r = DB_UNAVAILABLE_REASON)"
proof -
  let ?cs = "build_db_dependent_checks cfg mo now incl"
  obtain j c where c: "(j, c) \<in> set (zip [0..<0 + length ?cs] ?cs)" "r = (\<lambda>(_, thunk). thunk (me_view (tk_env tk) j)) c"
    using assms(2) unfolding set_map by (elim imageE) (metis (no_types, lifting) case_prod_conv surj_pair)
  obtain key thunk where "c = (key, thunk)" by fastforce
  then show ?thesis using dependent_integrity [of key thunk cfg mo now incl] zip_upt_mem [OF c(1)] c(2) by simp
qed

lemma independent_not_integrity:
  "r \<in> set (db_independent_checks cfg mo env now @ [check_database okay]) \<Longrightarrow> chk_key r \<noteq> ''db_integrity''"
  by (auto simp: db_independent_checks_def split: if_splits)

lemma run_one_pass_smooth:
  assumes "smooth_tick tk"
  shows "snd (run_one_pass cfg mo isoformat tk m incl) = Inr incl"
proof -
  have fine: "me_database_ok (tk_env tk)" "\<And>i. me_fault (tk_env tk) i = None" "\<And>k. tk_record_error tk k = None"
    using assms by (simp_all add: smooth_tick_def)
  let ?ind = "db_independent_checks cfg mo (tk_env tk) (tk_now tk) @ [check_database True]"
  let ?cs = "build_db_dependent_checks cfg mo (tk_now tk) incl"
  let ?dep = "map (\<lambda>(j, _, thunk). thunk (me_view (tk_env tk) j)) (zip [0..<0 + length ?cs] ?cs)"
  have run: "run_all_checks cfg mo (tk_env tk) (tk_now tk) incl = Inr (?ind @ ?dep)"
    using fine(1) run_db_dependent_smooth [OF fine(2), of 0 ?cs] by (simp add: run_all_checks_def Let_def)
  have none: "\<not> list_ex (\<lambda>r. chk_key r = ''db_integrity'' \<and> chk_reason r = DB_UNAVAILABLE_REASON) (?ind @ ?dep)"
    using independent_not_integrity smooth_results [OF assms] unfolding list_ex_iff set_append Un_iff by blast
  obtain m' where "record_all cfg mo isoformat tk 0 m (?ind @ ?dep) = (m', None)"
    using record_all_smooth [OF fine(3)] by (metis prod.collapse)
  then show ?thesis using none unfolding run_one_pass_def run by simp
qed

lemma smooth_ticks_from:
  assumes "list_all smooth_tick ticks" "0 \<le> mp_cycles_since_integrity st" "mp_cycles_since_integrity st \<le> db_integrity_every mo"
  shows "snd (monitor_ticks cfg mo isoformat v ins st ticks) =
         map (\<lambda>i. (mp_cycles_since_integrity st + int i + 1) mod (db_integrity_every mo + 1) = 0) [0..<length ticks]"
  using assms
proof (induction ticks arbitrary: st)
  case (Cons tk ticks)
  let ?c = "mp_cycles_since_integrity st" and ?n = "db_integrity_every mo"
  let ?st = "fst (monitor_tick cfg mo isoformat v ins tk st)"
  have next_c: "mp_cycles_since_integrity ?st = (if ?c \<ge> ?n then 0 else ?c + 1)"
    using monitor_tick_cycles(2) run_one_pass_smooth Cons.prems(1) by simp
  have n: "1 \<le> ?n" by (simp add: db_integrity_every_def)
  have head: "(?c \<ge> ?n) \<longleftrightarrow> (?c + 1) mod (?n + 1) = 0"
    using Cons.prems(2,3) n by (cases "?c = ?n") (simp_all add: mod_pos_pos_trivial)
  have tail: "(mp_cycles_since_integrity ?st + int i + 1) mod (?n + 1) = (?c + int (Suc i) + 1) mod (?n + 1)" for i
  proof (cases "?c = ?n")
    case True
    have "(?n + int (Suc i) + 1) = (int i + 1) + (?n + 1)" by simp
    then show ?thesis using next_c True by (simp only: mod_add_self2) simp
  qed (use next_c Cons.prems(3) in \<open>simp add: algebra_simps\<close>)
  have rest: "snd (monitor_ticks cfg mo isoformat v ins ?st ticks) =
      map (\<lambda>i. (mp_cycles_since_integrity ?st + int i + 1) mod (?n + 1) = 0) [0..<length ticks]"
    using Cons.prems n next_c by (intro Cons.IH) auto
  have "[0..<length (tk # ticks)] = 0 # map Suc [0..<length ticks]" by (simp add: map_Suc_upt upt_conv_Cons del: upt_Suc)
  then show ?case
    using rest head unfolding tail by (simp add: Let_def split_beta monitor_tick_cycles(1) comp_def del: upt_Suc)
qed simp

text \<open>
  On ticks where nothing fails, the first tick runs the integrity check and it is due again
  exactly every \<open>db_integrity_every + 1\<close> ticks, one more than the configured interval divided by the
  monitor's interval: the tick that resets the counter is not counted. A due check that did not run (an
  outage, an exception) stays due for the next tick, whatever happens there.
\<close>

theorem integrity_cadence:
  "(list_all smooth_tick ticks \<longrightarrow>
      snd (run_forever cfg mo isoformat version instance m beats ticks)
    = map (\<lambda>i. int i mod (db_integrity_every mo + 1) = 0) [0..<length ticks])
 \<and> (snd (monitor_tick cfg mo isoformat version instance tk st)
    \<and> snd (run_one_pass cfg mo isoformat tk (mp_session st) True) \<noteq> Inr True
     \<longrightarrow> snd (monitor_tick cfg mo isoformat version instance tk' (fst (monitor_tick cfg mo isoformat version instance tk st))))"
proof (intro conjI impI)
  assume smooth: "list_all smooth_tick ticks"
  have n: "1 \<le> db_integrity_every mo" by (simp add: db_integrity_every_def)
  have "(db_integrity_every mo + int i + 1) mod (db_integrity_every mo + 1) = int i mod (db_integrity_every mo + 1)" for i
  proof -
    have "db_integrity_every mo + int i + 1 = int i + (db_integrity_every mo + 1)" by simp
    then show ?thesis by (simp only: mod_add_self2)
  qed
  then show "snd (run_forever cfg mo isoformat version instance m beats ticks)
    = map (\<lambda>i. int i mod (db_integrity_every mo + 1) = 0) [0..<length ticks]"
    unfolding run_forever_def using n by (subst smooth_ticks_from [OF smooth]) simp_all
next
  assume "snd (monitor_tick cfg mo isoformat version instance tk st)
    \<and> snd (run_one_pass cfg mo isoformat tk (mp_session st) True) \<noteq> Inr True"
  then show "snd (monitor_tick cfg mo isoformat version instance tk' (fst (monitor_tick cfg mo isoformat version instance tk st)))"
    by (simp add: monitor_tick_cycles)
qed

definition calm_tick :: monitor_tick_env where
  "calm_tick = \<lparr>tk_env = lost_env\<lparr>me_fault := \<lambda>_. None\<rparr>, tk_now = 60, tk_others = (\<lambda>_ _ x. x), tk_record_error = (\<lambda>_. None),
     tk_heartbeat_now = 60, tk_heartbeat_others = id, tk_heartbeat_next = 1, tk_heartbeat_fails = False\<rparr>"

theorem integrity_cadence_witness:
  "snd (run_forever demo_settings (demo_monitor\<lparr>monitor_interval_seconds := 60, monitor_db_integrity_interval_seconds := 120\<rparr>)
      (\<lambda>_. ''t'') ''1'' ''host'' (demo_monitor_session [] 1) [] (replicate 5 calm_tick)) = [True, False, False, True, False]
 \<and> snd (monitor_tick demo_settings demo_monitor (\<lambda>_. ''t'') ''1'' ''host'' calm_tick
      (fst (monitor_tick demo_settings demo_monitor (\<lambda>_. ''t'') ''1'' ''host'' (calm_tick\<lparr>tk_record_error := \<lambda>_. Some ''TimeoutError''\<rparr>)
        \<lparr>mp_session = demo_monitor_session [] 1, mp_heartbeats = [], mp_cycles_since_integrity = db_integrity_every demo_monitor\<rparr>)))"
proof
  let ?m = "demo_monitor\<lparr>monitor_interval_seconds := 60, monitor_db_integrity_interval_seconds := 120\<rparr>"
  have every: "db_integrity_every ?m = 2" by (simp add: db_integrity_every_def demo_monitor_def py_round_def)
  have "list_all smooth_tick (replicate 5 calm_tick)" by (simp add: list_all_iff smooth_tick_def calm_tick_def lost_env_def)
  then show "snd (run_forever demo_settings ?m (\<lambda>_. ''t'') ''1'' ''host'' (demo_monitor_session [] 1) [] (replicate 5 calm_tick))
      = [True, False, False, True, False]"
    using integrity_cadence [where ticks = "replicate 5 calm_tick" and mo = ?m] every by (simp add: upt_conv_Cons)
next
  let ?tk = "calm_tick\<lparr>tk_record_error := \<lambda>_. Some ''TimeoutError''\<rparr>"
  let ?st = "\<lparr>mp_session = demo_monitor_session [] 1, mp_heartbeats = [], mp_cycles_since_integrity = db_integrity_every demo_monitor\<rparr>"
  have "snd (run_one_pass demo_settings demo_monitor (\<lambda>_. ''t'') ?tk (demo_monitor_session [] 1) True) \<noteq> Inr True"
    by (simp add: run_one_pass_def run_all_checks_def db_independent_checks_def Let_def split: sum.split)
  moreover have "snd (monitor_tick demo_settings demo_monitor (\<lambda>_. ''t'') ''1'' ''host'' ?tk ?st)" by (simp add: monitor_tick_cycles)
  ultimately show "snd (monitor_tick demo_settings demo_monitor (\<lambda>_. ''t'') ''1'' ''host'' calm_tick
      (fst (monitor_tick demo_settings demo_monitor (\<lambda>_. ''t'') ''1'' ''host'' ?tk ?st)))"
    using integrity_cadence [where tk = ?tk and st = ?st and cfg = demo_settings and mo = demo_monitor] by simp
qed

end
