(* ===== verification/Ratelimit.thy ===== *)
theory Ratelimit
  imports Prelude
begin

text \<open>
  The abuse-control limiters of \<open>app/ratelimit.py\<close> and the caller key of \<open>app/clientip.py\<close>: the
  sliding window, the LRU-bounded store of per-caller windows, and the checks that fail open.

  A limiter is the record of its deque of accepted times; an operation returns the updated record.
  Readings of the monotonic clock are arguments. Each method body runs under its lock, so a
  sequence of calls is the order in which the lock was taken. An exception of the container types
  (\<open>deque[0]\<close> and \<open>popitem\<close> on an empty container) is an \<open>Inl\<close> value.
\<close>

section \<open>The sliding window\<close>

datatype limiter_error = IndexError | KeyError

record sliding_window_limiter =
  lm_limit :: int
  lm_window_seconds :: time
  lm_events :: "time list"

definition new_limiter :: "int \<Rightarrow> time \<Rightarrow> sliding_window_limiter" where
  "new_limiter l w = \<lparr>lm_limit = l, lm_window_seconds = w, lm_events = []\<rparr>"

definition prune :: "sliding_window_limiter \<Rightarrow> time \<Rightarrow> sliding_window_limiter" where
  "prune lm now = lm\<lparr>lm_events := dropWhile (\<lambda>e. e < now - lm_window_seconds lm) (lm_events lm)\<rparr>"

definition allow :: "sliding_window_limiter \<Rightarrow> time \<Rightarrow> sliding_window_limiter \<times> bool" where
  "allow lm now =
     (let lm = prune lm now in
      if int (length (lm_events lm)) \<ge> lm_limit lm then (lm, False)
      else (lm\<lparr>lm_events := lm_events lm @ [now]\<rparr>, True))"

definition retry_after :: "sliding_window_limiter \<Rightarrow> time \<Rightarrow> sliding_window_limiter \<times> (limiter_error + time)" where
  "retry_after lm now =
     (let lm = prune lm now in
      if int (length (lm_events lm)) < lm_limit lm then (lm, Inr 0)
      else case lm_events lm of
             [] \<Rightarrow> (lm, Inl IndexError)
           | e # _ \<Rightarrow> (lm, Inr (max 0 (lm_window_seconds lm - (now - e)))))"

definition reset_limiter :: "sliding_window_limiter \<Rightarrow> sliding_window_limiter" where
  "reset_limiter lm = lm\<lparr>lm_events := []\<rparr>"

text \<open>The answers to a sequence of calls.\<close>

fun run_limiter :: "('s \<Rightarrow> 'c \<Rightarrow> 's \<times> bool) \<Rightarrow> 's \<Rightarrow> 'c list \<Rightarrow> bool list" where
  "run_limiter step s [] = []"
| "run_limiter step s (c # cs) = (let (s', ok) = step s c in ok # run_limiter step s' cs)"

lemma prune_sel [simp]:
  "lm_limit (prune lm now) = lm_limit lm" "lm_window_seconds (prune lm now) = lm_window_seconds lm"
  "lm_events (prune lm now) = dropWhile (\<lambda>e. e < now - lm_window_seconds lm) (lm_events lm)"
  by (simp_all add: prune_def)

lemma new_limiter_sel [simp]:
  "lm_limit (new_limiter l w) = l" "lm_window_seconds (new_limiter l w) = w" "lm_events (new_limiter l w) = []"
  by (simp_all add: new_limiter_def)

lemma allow_config: "allow lm now = (lm', ok) \<Longrightarrow> lm_limit lm' = lm_limit lm \<and> lm_window_seconds lm' = lm_window_seconds lm"
  by (auto simp: allow_def Let_def split: if_splits)

section \<open>What a sliding window promises\<close>

text \<open>
  The reference forgets nothing: a request at \<open>t\<close> is admitted when fewer than \<open>l\<close> of all the
  requests admitted before it lie in the closed window that ends at \<open>t\<close>.
\<close>

definition in_window :: "time \<Rightarrow> time \<Rightarrow> time list \<Rightarrow> nat" where
  "in_window w t acc = length (filter (\<lambda>e. t - w \<le> e) acc)"

fun reference_run :: "int \<Rightarrow> time \<Rightarrow> time list \<Rightarrow> time list \<Rightarrow> bool list" where
  "reference_run l w acc [] = []"
| "reference_run l w acc (t # ts) =
     (let ok = int (in_window w t acc) < l in ok # reference_run l w (if ok then acc @ [t] else acc) ts)"

definition admitted :: "time list \<Rightarrow> bool list \<Rightarrow> time list" where
  "admitted ts oks = map fst (filter snd (zip ts oks))"

lemma admitted_simps [simp]:
  "admitted [] oks = []" "admitted (t # ts) (ok # oks) = (if ok then t # admitted ts oks else admitted ts oks)"
  by (simp_all add: admitted_def)

text \<open>
  Any limiter that answers like the reference as long as its state \<open>represents\<close> the admitted
  history up to the last call.
\<close>

locale window_limiter =
  fixes step :: "'s \<Rightarrow> time \<Rightarrow> 's \<times> bool"
    and represents :: "time \<Rightarrow> time list \<Rightarrow> 's \<Rightarrow> bool"
    and l :: int and w :: time
  assumes step_represents: "represents t0 acc s \<Longrightarrow> t0 \<le> t \<Longrightarrow> step s t = (s', ok) \<Longrightarrow>
      ok = (int (in_window w t acc) < l) \<and> represents t (if ok then acc @ [t] else acc) s'"
begin

lemma run_reference:
  "represents t0 acc s \<Longrightarrow> sorted (t0 # ts) \<Longrightarrow> run_limiter step s ts = reference_run l w acc ts"
proof (induction ts arbitrary: s acc t0)
  case (Cons t ts)
  obtain s' ok where st: "step s t = (s', ok)" by fastforce
  have le: "t0 \<le> t" using Cons.prems(2) by simp
  note r = step_represents [OF Cons.prems(1) le st]
  show ?case using Cons.IH [OF r [THEN conjunct2]] Cons.prems(2) r by (simp add: st Let_def)
qed simp

end

text \<open>In the reference, no window of length \<open>w\<close> ever holds more than \<open>l\<close> admitted requests.\<close>

lemma length_filter_mono: "(\<And>x. P x \<Longrightarrow> Q x) \<Longrightarrow> length (filter P xs) \<le> length (filter Q xs)"
  by (induction xs) auto

lemma in_window_append: "in_window w t (xs @ ys) = in_window w t xs + in_window w t ys"
  by (simp add: in_window_def)

lemma reference_run_bound:
  assumes "sorted (acc @ ts)" "0 \<le> l" "0 \<le> w"
    and "\<And>a. int (length (filter (\<lambda>e. a \<le> e \<and> e \<le> a + w) acc)) \<le> l"
  shows "int (length (filter (\<lambda>e. a \<le> e \<and> e \<le> a + w) (acc @ admitted ts (reference_run l w acc ts)))) \<le> l"
  using assms(1,4)
proof (induction ts arbitrary: acc)
  case (Cons t ts)
  show ?case
  proof (cases "int (in_window w t acc) < l")
    case False
    then show ?thesis using Cons by (simp add: Let_def sorted_append)
  next
    case True
    have win: "int (length (filter (\<lambda>e. b \<le> e \<and> e \<le> b + w) (acc @ [t]))) \<le> l" for b
    proof (cases "b \<le> t \<and> t \<le> b + w")
      case out: False
      then show ?thesis using Cons.prems(2) [of b] by auto
    next
      case inw: True
      have "length (filter (\<lambda>e. b \<le> e \<and> e \<le> b + w) acc) \<le> in_window w t acc"
        unfolding in_window_def using inw by (intro length_filter_mono) simp
      then show ?thesis using inw True by simp
    qed
    show ?thesis using Cons.IH [of "acc @ [t]"] Cons.prems(1) win True by (simp add: Let_def)
  qed
qed simp

text \<open>The deque keeps a suffix of the admitted history, and what it dropped has left the window for good.\<close>

definition remembers :: "int \<Rightarrow> time \<Rightarrow> time \<Rightarrow> time list \<Rightarrow> sliding_window_limiter \<Rightarrow> bool" where
  "remembers l w t0 acc lm \<longleftrightarrow>
     lm_limit lm = l \<and> lm_window_seconds lm = w \<and> sorted acc \<and> list_all (\<lambda>e. e \<le> t0) acc
   \<and> (\<exists>old. acc = old @ lm_events lm \<and> list_all (\<lambda>e. e < t0 - w) old)"

lemma dropWhile_sorted: "sorted xs \<Longrightarrow> dropWhile (\<lambda>e. e < (c::time)) xs = filter (\<lambda>e. c \<le> e) xs"
proof (induction xs)
  case (Cons x xs)
  show ?case
  proof (cases "x < c")
    case False
    then have "filter (\<lambda>e. c \<le> e) (x # xs) = x # xs"
      using Cons.prems by (intro filter_True) auto
    then show ?thesis using False by simp
  qed (use Cons in simp)
qed simp

lemma allow_remembers:
  assumes "remembers l w t0 acc lm" "t0 \<le> t" "allow lm t = (lm', ok)"
  shows "ok = (int (in_window w t acc) < l) \<and> remembers l w t (if ok then acc @ [t] else acc) lm'"
proof -
  obtain old where lm: "lm_limit lm = l" "lm_window_seconds lm = w" "sorted acc" "list_all (\<lambda>e. e \<le> t0) acc"
    "acc = old @ lm_events lm" "list_all (\<lambda>e. e < t0 - w) old"
    using assms(1) by (auto simp: remembers_def)
  let ?kept = "filter (\<lambda>e. t - w \<le> e) (lm_events lm)"
  have old: "list_all (\<lambda>e. e < t - w) old" using lm(6) assms(2) by (auto simp: list_all_iff)
  then have "filter (\<lambda>e. t - w \<le> e) old = []" by (auto simp: filter_empty_conv list_all_iff)
  then have n: "in_window w t acc = length ?kept" by (simp add: in_window_def lm(5))
  have drop: "dropWhile (\<lambda>e. e < t - w) (lm_events lm) = ?kept"
    using lm(3,5) by (simp add: dropWhile_sorted sorted_append)
  then have split: "acc = (old @ takeWhile (\<lambda>e. e < t - w) (lm_events lm)) @ ?kept"
    unfolding lm(5) by (metis append.assoc takeWhile_dropWhile_id)
  have gone: "list_all (\<lambda>e. e < t - w) (old @ takeWhile (\<lambda>e. e < t - w) (lm_events lm))"
    using old by (auto simp: list_all_iff dest: set_takeWhileD)
  have le: "list_all (\<lambda>e. e \<le> t) acc" using lm(4) assms(2) by (auto simp: list_all_iff)
  have srt: "sorted (acc @ [t])" using lm(3) le by (auto simp: sorted_append list_all_iff)
  have res: "ok = (int (in_window w t acc) < l) \<and> lm_limit lm' = l \<and> lm_window_seconds lm' = w
      \<and> lm_events lm' = (if ok then ?kept @ [t] else ?kept)"
    using assms(3) lm(1,2) drop unfolding n by (auto simp: allow_def Let_def split: if_splits)
  have "(if ok then acc @ [t] else acc) = (old @ takeWhile (\<lambda>e. e < t - w) (lm_events lm)) @ lm_events lm'"
    using res split by (metis append.assoc)
  then show ?thesis unfolding remembers_def using gone le srt res lm(3) by auto
qed

interpretation window: window_limiter allow "remembers l w" l w for l w
  by unfold_locales (rule allow_remembers)

lemma remembers_new: "remembers l w t0 [] (new_limiter l w)"
  by (simp add: remembers_def)

lemma run_reference_new: "sorted nows \<Longrightarrow> run_limiter allow (new_limiter l w) nows = reference_run l w [] nows"
  by (rule window.run_reference [OF remembers_new, of "hd nows"]) (cases nows; simp)

text \<open>
  The limiter, which keeps only a pruned deque, answers any sequence of calls exactly like the
  reference that remembers every admitted request.
\<close>

theorem allow_reference:
  assumes "sorted nows"
  shows "run_limiter allow (new_limiter l w) nows = reference_run l w [] nows"
  using assms by (rule run_reference_new)

theorem allow_reference_witness:
  "run_limiter allow (new_limiter 2 60) [0, 10, 20, 60, 61, 70, 71] = reference_run 2 60 [] [0, 10, 20, 60, 61, 70, 71]
 \<and> reference_run 2 60 [] [0, 10, 20, 60, 61, 70, 71] = [True, True, False, False, True, False, True]"
proof
  show "run_limiter allow (new_limiter 2 60) [0, 10, 20, 60, 61, 70, 71] = reference_run 2 60 [] [0, 10, 20, 60, 61, 70, 71]"
    by (rule allow_reference) simp
  show "reference_run 2 60 [] [0, 10, 20, 60, 61, 70, 71] = [True, True, False, False, True, False, True]" by code_simp
qed

text \<open>
  Abuse is bounded: whatever sequence of calls arrives, no closed time window of the
  configured length ever contains more admitted requests than the limit.
\<close>

theorem allow_bounded:
  assumes "sorted nows" "0 \<le> l" "0 \<le> w"
  shows "int (length (filter (\<lambda>e. a \<le> e \<and> e \<le> a + w) (admitted nows (run_limiter allow (new_limiter l w) nows)))) \<le> l"
  using reference_run_bound [of "[]" nows l w a] assms unfolding run_reference_new [OF assms(1)] by simp

theorem allow_bounded_witness:
  "int (length (filter (\<lambda>e. 10 \<le> e \<and> e \<le> 10 + 60) (admitted [0, 10, 20, 60, 61, 70, 71] (run_limiter allow (new_limiter 2 60) [0, 10, 20, 60, 61, 70, 71])))) \<le> 2"
  by (rule allow_bounded) simp_all

text \<open>
  After a rejection the advertised delay lies within the window; every call up to that delay is
  rejected too, and the first call after it is admitted.
\<close>

lemma retry_after_rejected:
  assumes "allow lm now = (lm1, False)" "retry_after lm1 now = (lm2, r)" "0 < lm_limit lm" "sorted (lm_events lm)"
    and "list_all (\<lambda>e. e \<le> now) (lm_events lm)" "int (length (lm_events lm)) \<le> lm_limit lm"
  shows "\<exists>d. r = Inr d \<and> 0 \<le> d \<and> d \<le> lm_window_seconds lm
           \<and> (\<forall>t \<ge> now. snd (allow lm2 t) = (now + d < t))"
proof -
  let ?w = "lm_window_seconds lm"
  have lm1: "lm1 = prune lm now" and full: "int (length (dropWhile (\<lambda>e. e < now - ?w) (lm_events lm))) \<ge> lm_limit lm"
    using assms(1) by (auto simp: allow_def Let_def split: if_splits)
  have all: "dropWhile (\<lambda>e. e < now - ?w) (lm_events lm) = lm_events lm"
  proof -
    have "length (lm_events lm) \<le> length (dropWhile (\<lambda>e. e < now - ?w) (lm_events lm))" using full assms(6) by linarith
    then show ?thesis
      by (metis length_dropWhile_le le_antisym length_append takeWhile_dropWhile_id add_cancel_left_left append_self_conv2 length_0_conv)
  qed
  have len: "int (length (lm_events lm)) = lm_limit lm" using full all assms(6) by simp
  then obtain e es where ev: "lm_events lm = e # es" using assms(3) by (cases "lm_events lm") auto
  have e: "now - ?w \<le> e" "e \<le> now" using hd_dropWhile [of "\<lambda>e. e < now - ?w" "lm_events lm"] assms(5) ev unfolding all by auto
  have lm2: "lm2 = prune (prune lm now) now" "r = Inr (?w - (now - e))"
    using assms(2) e all len ev unfolding lm1 by (auto simp: retry_after_def Let_def max_def)
  have "snd (allow lm2 t) = (now + (?w - (now - e)) < t)" if "now \<le> t" for t
  proof (cases "e < t - ?w")
    case True
    then have "length (dropWhile (\<lambda>x. x < t - ?w) (lm_events lm)) < length (lm_events lm)"
      using ev by (simp add: length_dropWhile_le le_imp_less_Suc)
    then show ?thesis using True len all by (simp add: lm2(1) allow_def Let_def)
  next
    case False
    then show ?thesis using len all ev by (simp add: lm2(1) allow_def Let_def)
  qed
  then show ?thesis using lm2(2) e by auto
qed

section \<open>The bounded store of per-caller windows\<close>

text \<open>The \<open>OrderedDict\<close> is an association list, least recently used entry first.\<close>

record bounded_limiter_store =
  bs_limit :: int
  bs_window_seconds :: time
  bs_capacity :: int
  bs_store :: "(string \<times> sliding_window_limiter) list"

definition new_store :: "int \<Rightarrow> time \<Rightarrow> int \<Rightarrow> bounded_limiter_store" where
  "new_store l w cap = \<lparr>bs_limit = l, bs_window_seconds = w, bs_capacity = cap, bs_store = []\<rparr>"

definition without_key :: "string \<Rightarrow> (string \<times> 'a) list \<Rightarrow> (string \<times> 'a) list" where
  "without_key k xs = filter (\<lambda>(k', _). k' \<noteq> k) xs"

text \<open>The limiter of the key is the last entry of the store \<open>get_or_create\<close> returns.\<close>

definition get_or_create ::
  "bounded_limiter_store \<Rightarrow> string \<Rightarrow> bounded_limiter_store \<times> (limiter_error + sliding_window_limiter)" where
  "get_or_create st key =
     (case map_of (bs_store st) key of
        None \<Rightarrow>
          if int (length (bs_store st)) \<ge> bs_capacity st \<and> bs_store st = [] then (st, Inl KeyError)
          else let kept = (if int (length (bs_store st)) \<ge> bs_capacity st then tl (bs_store st) else bs_store st);
                   limiter = new_limiter (bs_limit st) (bs_window_seconds st)
               in (st\<lparr>bs_store := kept @ [(key, limiter)]\<rparr>, Inr limiter)
      | Some limiter \<Rightarrow> (st\<lparr>bs_store := without_key key (bs_store st) @ [(key, limiter)]\<rparr>, Inr limiter))"

text \<open>The caller then works on that limiter object in place.\<close>

definition put_limiter :: "bounded_limiter_store \<Rightarrow> string \<Rightarrow> sliding_window_limiter \<Rightarrow> bounded_limiter_store" where
  "put_limiter st key limiter =
     st\<lparr>bs_store := map (\<lambda>(k, lm). if k = key then (k, limiter) else (k, lm)) (bs_store st)\<rparr>"

definition store_allow ::
  "bounded_limiter_store \<Rightarrow> string \<Rightarrow> time \<Rightarrow> bounded_limiter_store \<times> (limiter_error + bool)" where
  "store_allow st key now =
     (case get_or_create st key of
        (st, Inl e) \<Rightarrow> (st, Inl e)
      | (st, Inr limiter) \<Rightarrow> let (limiter, ok) = allow limiter now in (put_limiter st key limiter, Inr ok))"

definition store_retry_after ::
  "bounded_limiter_store \<Rightarrow> string \<Rightarrow> time \<Rightarrow> bounded_limiter_store \<times> (limiter_error + time)" where
  "store_retry_after st key now =
     (case get_or_create st key of
        (st, Inl e) \<Rightarrow> (st, Inl e)
      | (st, Inr limiter) \<Rightarrow> let (limiter, r) = retry_after limiter now in (put_limiter st key limiter, r))"

definition reset_store :: "bounded_limiter_store \<Rightarrow> bounded_limiter_store" where
  "reset_store st = st\<lparr>bs_store := []\<rparr>"

text \<open>The window a key would be answered from: its own, or a fresh one.\<close>

definition limiter_of :: "bounded_limiter_store \<Rightarrow> string \<Rightarrow> sliding_window_limiter" where
  "limiter_of st key =
     (case map_of (bs_store st) key of Some lm \<Rightarrow> lm | None \<Rightarrow> new_limiter (bs_limit st) (bs_window_seconds st))"

definition store_ok :: "bounded_limiter_store \<Rightarrow> bool" where
  "store_ok st \<longleftrightarrow> 0 < bs_capacity st \<and> distinct (map fst (bs_store st)) \<and> int (length (bs_store st)) \<le> bs_capacity st"

lemma keys_without: "map fst (without_key k xs) = filter (\<lambda>k'. k' \<noteq> k) (map fst xs)"
  by (induction xs) (auto simp: without_key_def)

lemma map_of_without: "map_of (without_key k xs) k' = (if k' = k then None else map_of xs k')"
  by (induction xs) (auto simp: without_key_def)

lemma keys_put [simp]: "map fst (bs_store (put_limiter st k lm)) = map fst (bs_store st)"
  by (auto simp: put_limiter_def)

lemma map_of_put:
  "map_of (bs_store (put_limiter st k lm)) k' =
     (if k' = k \<and> k \<in> fst ` set (bs_store st) then Some lm else map_of (bs_store st) k')"
proof -
  let ?f = "\<lambda>(j, m). if j = k then (j, lm) else (j, m)"
  have "map_of (map ?f xs) k' = (if k \<in> set (map fst xs) then Some lm else None)" if "k' = k" for xs
    unfolding that by (induction xs) auto
  moreover have "map_of (map ?f xs) k' = map_of xs k'" if "k' \<noteq> k" for xs
    using that by (induction xs) auto
  ultimately show ?thesis
    by (cases "k' = k"; cases "k \<in> fst ` set (bs_store st)") (simp_all add: put_limiter_def map_of_eq_None_iff [THEN iffD2])
qed

lemma length_put [simp]: "length (bs_store (put_limiter st k lm)) = length (bs_store st)"
  by (simp add: put_limiter_def)

lemma put_config [simp]:
  "bs_limit (put_limiter st k lm) = bs_limit st" "bs_window_seconds (put_limiter st k lm) = bs_window_seconds st"
  "bs_capacity (put_limiter st k lm) = bs_capacity st"
  by (simp_all add: put_limiter_def)

definition evicts :: "bounded_limiter_store \<Rightarrow> string \<Rightarrow> string \<Rightarrow> bool" where
  "evicts st key k \<longleftrightarrow>
     int (length (bs_store st)) = bs_capacity st \<and> key \<notin> fst ` set (bs_store st) \<and> k = fst (hd (bs_store st))"

text \<open>
  What \<open>get_or_create\<close> does to a store within its capacity: it never fails, keeps the capacity,
  hands out the key's own window, and resets at most the least recently used window, which it
  does only when the store is full and the key unknown.
\<close>

lemma get_or_create_ok:
  assumes "store_ok st"
  obtains st' where "get_or_create st key = (st', Inr (limiter_of st key))" "store_ok st'"
    "bs_limit st' = bs_limit st" "bs_window_seconds st' = bs_window_seconds st" "bs_capacity st' = bs_capacity st"
    "key \<in> fst ` set (bs_store st')" "limiter_of st' key = limiter_of st key"
    "fst ` set (bs_store st') \<subseteq> insert key (fst ` set (bs_store st))"
    "\<forall>k. k \<noteq> key \<longrightarrow>
       (if evicts st key k then k \<notin> fst ` set (bs_store st') else map_of (bs_store st') k = map_of (bs_store st) k)"
proof (cases "map_of (bs_store st) key")
  case (Some lm)
  let ?st' = "st\<lparr>bs_store := without_key key (bs_store st) @ [(key, lm)]\<rparr>"
  have keys: "map fst (bs_store ?st') = filter (\<lambda>k. k \<noteq> key) (map fst (bs_store st)) @ [key]" by (simp add: keys_without)
  have mem: "key \<in> set (map fst (bs_store st))" using map_of_SomeD [OF Some] by force
  have "length (filter (\<lambda>k. k \<noteq> key) (map fst (bs_store st))) < length (map fst (bs_store st))"
    using mem by (intro length_filter_less [of key]) auto
  then have "length (bs_store ?st') \<le> length (bs_store st)" using arg_cong [OF keys, of length] by simp
  then have "store_ok ?st'" using assms keys by (auto simp: store_ok_def)
  then show thesis
  proof (rule that [rotated])
    show "get_or_create st key = (?st', Inr (limiter_of st key))" "limiter_of ?st' key = limiter_of st key"
      using Some by (simp_all add: get_or_create_def limiter_of_def map_add_def map_of_without)
    show "fst ` set (bs_store ?st') \<subseteq> insert key (fst ` set (bs_store st))" by (auto simp: without_key_def)
    show "\<forall>k. k \<noteq> key \<longrightarrow> (if evicts st key k then k \<notin> fst ` set (bs_store ?st') else map_of (bs_store ?st') k = map_of (bs_store st) k)"
      using mem by (simp add: evicts_def map_add_def map_of_without split: option.splits)
  qed simp_all
next
  case None
  let ?full = "int (length (bs_store st)) \<ge> bs_capacity st"
  let ?kept = "if ?full then tl (bs_store st) else bs_store st"
  let ?st' = "st\<lparr>bs_store := ?kept @ [(key, new_limiter (bs_limit st) (bs_window_seconds st))]\<rparr>"
  have ne: "?full \<Longrightarrow> bs_store st \<noteq> []" using assms by (auto simp: store_ok_def)
  have mem: "key \<notin> fst ` set (bs_store st)" using None by (simp add: map_of_eq_None_iff)
  have sub: "set ?kept \<subseteq> set (bs_store st)" by (cases "bs_store st") auto
  have "distinct (map fst ?kept)" using assms by (auto simp: store_ok_def map_tl distinct_tl)
  moreover have "int (length ?kept) < bs_capacity st" using assms ne by (auto simp: store_ok_def)
  ultimately have ok: "store_ok ?st'" using assms mem sub by (auto simp: store_ok_def)
  have lm: "limiter_of ?st' key = limiter_of st key"
    using None mem sub map_of_eq_None_iff [of ?kept key] by (auto simp: limiter_of_def map_add_def split: option.splits)
  show thesis
  proof (rule that [of ?st'])
    show "get_or_create st key = (?st', Inr (limiter_of st key))"
      using None ne by (auto simp: get_or_create_def limiter_of_def Let_def)
    show "\<forall>k. k \<noteq> key \<longrightarrow> (if evicts st key k then k \<notin> fst ` set (bs_store ?st') else map_of (bs_store ?st') k = map_of (bs_store st) k)"
      using mem assms ne by (cases "bs_store st") (auto simp: evicts_def store_ok_def map_add_def split: option.splits)
  qed (use ok lm sub in auto)
qed

lemma store_allow_ok:
  assumes "store_ok st"
  obtains st' ok where "store_allow st key now = (st', Inr ok)" "store_ok st'"
    "bs_limit st' = bs_limit st" "bs_window_seconds st' = bs_window_seconds st" "bs_capacity st' = bs_capacity st"
    "allow (limiter_of st key) now = (limiter_of st' key, ok)"
    "fst ` set (bs_store st') \<subseteq> insert key (fst ` set (bs_store st))"
    "\<forall>k. k \<noteq> key \<longrightarrow>
       (if evicts st key k then limiter_of st' k = new_limiter (bs_limit st) (bs_window_seconds st) else limiter_of st' k = limiter_of st k)"
proof -
  obtain st1 where st1: "get_or_create st key = (st1, Inr (limiter_of st key))" "store_ok st1"
    "bs_limit st1 = bs_limit st" "bs_window_seconds st1 = bs_window_seconds st" "bs_capacity st1 = bs_capacity st"
    "key \<in> fst ` set (bs_store st1)" "limiter_of st1 key = limiter_of st key" "fst ` set (bs_store st1) \<subseteq> insert key (fst ` set (bs_store st))"
    and others: "\<forall>k. k \<noteq> key \<longrightarrow>
       (if evicts st key k then k \<notin> fst ` set (bs_store st1) else map_of (bs_store st1) k = map_of (bs_store st) k)"
    by (rule get_or_create_ok [OF assms, of key])
  obtain lm ok where lm: "allow (limiter_of st key) now = (lm, ok)" by fastforce
  have keys: "fst ` set (bs_store (put_limiter st1 key lm)) = fst ` set (bs_store st1)"
    using keys_put [of st1 key lm] by (metis set_map)
  show thesis
  proof (rule that [of "put_limiter st1 key lm" ok])
    show "store_allow st key now = (put_limiter st1 key lm, Inr ok)" using st1(1) lm by (simp add: store_allow_def)
    show "store_ok (put_limiter st1 key lm)"
      using st1(2) by (simp add: store_ok_def)
    show "allow (limiter_of st key) now = (limiter_of (put_limiter st1 key lm) key, ok)"
      using lm st1(6) by (simp add: limiter_of_def map_of_put)
    have "if evicts st key k then limiter_of (put_limiter st1 key lm) k = new_limiter (bs_limit st) (bs_window_seconds st)
        else limiter_of (put_limiter st1 key lm) k = limiter_of st k" if k: "k \<noteq> key" for k
    proof -
      have same: "map_of (bs_store (put_limiter st1 key lm)) k = map_of (bs_store st1) k" using k by (simp add: map_of_put)
      show ?thesis
        using others [rule_format, OF k] same st1(3,4) map_of_eq_None_iff [of "bs_store st1" k]
        by (cases "evicts st key k"; cases "map_of (bs_store st1) k"; cases "map_of (bs_store st) k") (simp_all add: limiter_of_def)
    qed
    then show "\<forall>k. k \<noteq> key \<longrightarrow> (if evicts st key k
        then limiter_of (put_limiter st1 key lm) k = new_limiter (bs_limit st) (bs_window_seconds st)
        else limiter_of (put_limiter st1 key lm) k = limiter_of st k)" by blast
  qed (use st1 keys in simp_all)
qed

lemma new_store_ok: "0 < cap \<Longrightarrow> store_ok (new_store l w cap)"
  by (simp add: store_ok_def new_store_def)

text \<open>The calls of a store: a key and the time.\<close>

definition store_step :: "bounded_limiter_store \<Rightarrow> string \<times> time \<Rightarrow> bounded_limiter_store \<times> bool" where
  "store_step st c = (case store_allow st (fst c) (snd c) of (st', r) \<Rightarrow> (st', r = Inr True))"

definition answers_for :: "string \<Rightarrow> (string \<times> time) list \<Rightarrow> bool list \<Rightarrow> bool list" where
  "answers_for k calls oks = map snd (filter (\<lambda>(c, _). fst c = k) (zip calls oks))"

definition times_of :: "string \<Rightarrow> (string \<times> time) list \<Rightarrow> time list" where
  "times_of k calls = map snd (filter (\<lambda>c. fst c = k) calls)"

lemma store_isolates:
  assumes "store_ok st" "int (card (fst ` set (bs_store st) \<union> fst ` set calls)) \<le> bs_capacity st"
  shows "answers_for k calls (run_limiter store_step st calls) = run_limiter allow (limiter_of st k) (times_of k calls)"
  using assms
proof (induction calls arbitrary: st)
  case (Cons c calls)
  obtain key now where c: "c = (key, now)" by fastforce
  obtain st' ok where st': "store_allow st key now = (st', Inr ok)" "store_ok st'"
    "bs_limit st' = bs_limit st" "bs_window_seconds st' = bs_window_seconds st" "bs_capacity st' = bs_capacity st"
    "allow (limiter_of st key) now = (limiter_of st' key, ok)"
    "fst ` set (bs_store st') \<subseteq> insert key (fst ` set (bs_store st))"
    and other: "\<forall>k. k \<noteq> key \<longrightarrow>
       (if evicts st key k then limiter_of st' k = new_limiter (bs_limit st) (bs_window_seconds st) else limiter_of st' k = limiter_of st k)"
    by (rule store_allow_ok [OF Cons.prems(1), of key now])
  have "card (fst ` set (bs_store st') \<union> fst ` set calls) \<le> card (fst ` set (bs_store st) \<union> fst ` set (c # calls))"
    by (rule card_mono) (use st'(7) c in auto)
  then have IH: "answers_for k calls (run_limiter store_step st' calls) = run_limiter allow (limiter_of st' k) (times_of k calls)"
    using Cons.IH [OF st'(2)] Cons.prems(2) st'(5) by simp
  have room: "\<not> (int (length (bs_store st)) = bs_capacity st \<and> key \<notin> fst ` set (bs_store st))"
  proof
    assume full: "int (length (bs_store st)) = bs_capacity st \<and> key \<notin> fst ` set (bs_store st)"
    have "card (insert key (fst ` set (bs_store st))) = Suc (length (bs_store st))"
      using full Cons.prems(1) distinct_card [of "map fst (bs_store st)"] by (simp add: store_ok_def)
    moreover have "card (insert key (fst ` set (bs_store st))) \<le> card (fst ` set (bs_store st) \<union> fst ` set (c # calls))"
      by (rule card_mono) (use c in auto)
    ultimately show False using full Cons.prems(2) by linarith
  qed
  have step: "store_step st (key, now) = (st', ok)" using st'(1) by (simp add: store_step_def)
  show ?case
  proof (cases "k = key")
    case True
    then show ?thesis using IH st'(6) by (simp add: step c answers_for_def times_of_def)
  next
    case False
    then have "limiter_of st' k = limiter_of st k" using other False room by (simp add: evicts_def split: if_splits)
    then show ?thesis using IH False by (simp add: step c answers_for_def times_of_def)
  qed
qed (simp add: answers_for_def times_of_def)

text \<open>
  One caller cannot use up the budget of another: as long as no more distinct callers appear
  than the store has room for, every caller is answered exactly as by a window of its own,
  whatever the others do in between.
\<close>

theorem per_caller_isolation:
  assumes "0 < cap" "int (card (fst ` set calls)) \<le> cap" "sorted (map snd calls)"
  shows "answers_for k calls (run_limiter store_step (new_store l w cap) calls) = reference_run l w [] (times_of k calls)"
proof -
  have "answers_for k calls (run_limiter store_step (new_store l w cap) calls)
      = run_limiter allow (limiter_of (new_store l w cap) k) (times_of k calls)"
    by (rule store_isolates) (use assms new_store_ok in \<open>auto simp: new_store_def\<close>)
  also have "limiter_of (new_store l w cap) k = new_limiter l w" by (simp add: limiter_of_def new_store_def)
  also have "run_limiter allow (new_limiter l w) (times_of k calls) = reference_run l w [] (times_of k calls)"
    by (rule run_reference_new) (use assms(3) in \<open>simp add: times_of_def sorted_filter\<close>)
  finally show ?thesis .
qed

theorem per_caller_isolation_witness:
  "answers_for ''b'' [(''a'', 0), (''a'', 1), (''b'', 2), (''a'', 3)]
     (run_limiter store_step (new_store 1 60 2) [(''a'', 0), (''a'', 1), (''b'', 2), (''a'', 3)]) = [True]
 \<and> answers_for ''a'' [(''a'', 0), (''a'', 1), (''b'', 2), (''a'', 3)]
     (run_limiter store_step (new_store 1 60 2) [(''a'', 0), (''a'', 1), (''b'', 2), (''a'', 3)]) = [True, False, False]"
  using per_caller_isolation [of 2 "[(''a'', 0), (''a'', 1), (''b'', 2), (''a'', 3)]" "''b''" 1 60]
    per_caller_isolation [of 2 "[(''a'', 0), (''a'', 1), (''b'', 2), (''a'', 3)]" "''a''" 1 60]
  by (simp add: times_of_def in_window_def Let_def card_insert_if)

section \<open>The limiters of the application\<close>

text \<open>The rate-limit settings, with the bounds the settings class enforces.\<close>

record rate_limit_settings =
  rate_limit_enabled :: bool
  rate_limit_create_per_minute :: int
  rate_limit_invalid_key_per_10min :: int
  rate_limit_invalid_signature_per_10min :: int
  rate_limit_create_per_ip_per_minute :: int
  rate_limit_invalid_signature_per_ip_per_10min :: int
  rate_limit_ip_bucket_capacity :: int
  rate_limit_trust_proxy_headers :: bool

definition rate_limits_valid :: "rate_limit_settings \<Rightarrow> bool" where
  "rate_limits_valid c \<longleftrightarrow>
     rate_limit_create_per_minute c > 0 \<and> rate_limit_invalid_key_per_10min c > 0
   \<and> rate_limit_invalid_signature_per_10min c > 0 \<and> rate_limit_create_per_ip_per_minute c > 0
   \<and> rate_limit_invalid_signature_per_ip_per_10min c > 0 \<and> rate_limit_ip_bucket_capacity c > 0"

record rate_limiters =
  rl_enabled :: bool
  rl_create :: sliding_window_limiter
  rl_invalid_api_key :: sliding_window_limiter
  rl_invalid_signature :: sliding_window_limiter
  rl_create_per_ip :: bounded_limiter_store
  rl_invalid_signature_per_ip :: bounded_limiter_store

definition new_rate_limiters :: "rate_limit_settings \<Rightarrow> rate_limiters" where
  "new_rate_limiters c =
     \<lparr>rl_enabled = rate_limit_enabled c,
      rl_create = new_limiter (rate_limit_create_per_minute c) 60,
      rl_invalid_api_key = new_limiter (rate_limit_invalid_key_per_10min c) 600,
      rl_invalid_signature = new_limiter (rate_limit_invalid_signature_per_10min c) 600,
      rl_create_per_ip = new_store (rate_limit_create_per_ip_per_minute c) 60 (rate_limit_ip_bucket_capacity c),
      rl_invalid_signature_per_ip =
        new_store (rate_limit_invalid_signature_per_ip_per_10min c) 600 (rate_limit_ip_bucket_capacity c)\<rparr>"

text \<open>The checks return the limiter as they leave it; an internal error is an admission.\<close>

definition check_limiter :: "bool \<Rightarrow> sliding_window_limiter \<Rightarrow> time \<Rightarrow> sliding_window_limiter \<times> bool" where
  "check_limiter enabled limiter now = (if \<not> enabled then (limiter, True) else allow limiter now)"

definition check_per_ip :: "bool \<Rightarrow> bounded_limiter_store \<Rightarrow> string \<Rightarrow> time \<Rightarrow> bounded_limiter_store \<times> bool" where
  "check_per_ip enabled store client_ip now =
     (if \<not> enabled then (store, True)
      else case store_allow store client_ip now of
             (store, Inl _) \<Rightarrow> (store, True)
           | (store, Inr allowed) \<Rightarrow> (store, allowed))"

definition safe_retry_after :: "sliding_window_limiter \<Rightarrow> time \<Rightarrow> sliding_window_limiter \<times> time" where
  "safe_retry_after limiter now =
     (case retry_after limiter now of (limiter, Inl _) \<Rightarrow> (limiter, lm_window_seconds limiter) | (limiter, Inr r) \<Rightarrow> (limiter, r))"

definition retry_after_per_ip :: "bounded_limiter_store \<Rightarrow> string \<Rightarrow> time \<Rightarrow> bounded_limiter_store \<times> time" where
  "retry_after_per_ip store client_ip now =
     (case store_retry_after store client_ip now of
        (store, Inl _) \<Rightarrow> (store, bs_window_seconds store)
      | (store, Inr r) \<Rightarrow> (store, r))"

text \<open>The two per-caller stores stay within their capacity, whatever calls arrive.\<close>

definition limiters_ok :: "rate_limiters \<Rightarrow> bool" where
  "limiters_ok rl \<longleftrightarrow> store_ok (rl_create_per_ip rl) \<and> store_ok (rl_invalid_signature_per_ip rl)"

lemma new_rate_limiters_ok: "rate_limits_valid c \<Longrightarrow> limiters_ok (new_rate_limiters c)"
  by (simp add: rate_limits_valid_def limiters_ok_def new_rate_limiters_def new_store_ok)

lemma check_per_ip_ok:
  assumes "store_ok st"
  shows "store_ok (fst (check_per_ip enabled st ip now))"
  by (rule store_allow_ok [OF assms, of ip now]) (simp add: check_per_ip_def assms)

lemma retry_after_per_ip_ok:
  assumes "store_ok st"
  shows "store_ok (fst (retry_after_per_ip st ip now))"
proof -
  obtain st1 where st1: "get_or_create st ip = (st1, Inr (limiter_of st ip))" "store_ok st1"
    using get_or_create_ok [OF assms, of ip] by metis
  obtain lm r where r: "retry_after (limiter_of st ip) now = (lm, r)" by fastforce
  have "store_ok (put_limiter st1 ip lm)"
    using st1(2) by (simp add: store_ok_def)
  then show ?thesis
    using st1(1) r by (cases r) (simp_all add: retry_after_per_ip_def store_retry_after_def)
qed

text \<open>
  The checks fail open: a store without any capacity, on which the lookup itself raises, admits
  every request instead of turning into a denial of service.
\<close>

lemma check_per_ip_fails_open: "bs_capacity st \<le> 0 \<Longrightarrow> bs_store st = [] \<Longrightarrow> check_per_ip enabled st ip now = (st, True)"
  by (simp add: check_per_ip_def store_allow_def get_or_create_def)

section \<open>The caller key\<close>

text \<open>
  \<open>resolve_client_ip\<close>. The parser of the standard library is the argument \<open>ip_address\<close>: the
  canonical form of an address, \<open>None\<close> for \<open>ValueError\<close>. \<open>peer\<close> is \<open>request.client.host\<close>.
\<close>

definition UNKNOWN_CLIENT :: string where
  "UNKNOWN_CLIENT = ''unknown''"

definition resolve_client_ip :: "(string \<Rightarrow> string option) \<Rightarrow> rate_limit_settings \<Rightarrow> string option \<Rightarrow> string option \<Rightarrow> string" where
  "resolve_client_ip ip_address c forwarded peer =
     (case (if rate_limit_trust_proxy_headers c
            then Option.bind forwarded (\<lambda>f. ip_address (strip f)) else None) of
        Some parsed \<Rightarrow> parsed
      | None \<Rightarrow>
          (case peer of
             None \<Rightarrow> UNKNOWN_CLIENT
           | Some host \<Rightarrow> (case ip_address host of Some parsed \<Rightarrow> parsed | None \<Rightarrow> host)))"

lemma resolve_client_ip_untrusted:
  "\<not> rate_limit_trust_proxy_headers c \<Longrightarrow> resolve_client_ip ip_address c f peer = resolve_client_ip ip_address c f' peer"
  by (simp add: resolve_client_ip_def)

end
