(* ===== verification/Request_Body.thy ===== *)
theory Request_Body
  imports Models Payer_Identity "HOL-Library.AList"
begin

text \<open>
  The body of \<open>POST /api/custom-payment\<close> (first part of \<open>app/api/payments.py\<close>): the bounded read, the
  compatibility decoder for the bodies legacy bots send, the normalisation and the strict request
  model.

  The decoders of the standard library come from the \<open>codecs\<close> record: \<open>bytes.decode("utf-8")\<close>,
  \<open>json.loads\<close> (\<open>None\<close> for every error in \<open>_JSON_DECODE_ERRORS\<close>) and \<open>parse_qsl\<close> with strict parsing;
  nothing is assumed of them unless a theorem names it. The dictionaries they build are association
  lists with distinct keys. Log records and their diagnostics are left out.
\<close>

record codecs =
  utf8_decode :: "string \<Rightarrow> string option"
  json_loads :: "string \<Rightarrow> json option"
  parse_qsl :: "string \<Rightarrow> (string \<times> string) list option"

record http_request =
  rq_content_type :: "string option"
  rq_content_length :: "string option"
  rq_stream :: "string list"
  rq_query :: "(string \<times> string) list"
  rq_forwarded_for :: "string option"
  rq_peer :: "string option"

record create_payment_request =
  cpr_api_key :: string
  cpr_amount :: int
  cpr_order_id :: string

record parsed_payment_request =
  pp_body :: create_payment_request
  pp_telegram_user_id :: "int option"

text \<open>
  \<open>_CompatReject\<close> with its category, \<open>_UrlencodedSyntaxError\<close>, and the \<open>ValueError\<close> of \<open>int()\<close> that nothing
  catches.
\<close>

datatype body_error = CompatReject string | UrlencodedSyntaxError | UncaughtValueError

definition MAX_BODY_BYTES :: nat where
  "MAX_BODY_BYTES = 64 * 1024"

definition REQUIRED_FIELDS :: "string list" where
  "REQUIRED_FIELDS = [''api_key'', ''amount'', ''order_id'']"

definition ALIAS_FIELDS :: "string list" where
  "ALIAS_FIELDS = [''user_id'', ''userId'', ''uid'', ''chat_id'', ''telegram_id'']"

definition MAX_FORM_PAIRS :: nat where
  "MAX_FORM_PAIRS = 32"

definition media_type :: "http_request \<Rightarrow> string" where
  "media_type r =
     py_lower (strip (takeWhile (\<lambda>c. c \<noteq> CHR '';'') (case rq_content_type r of None \<Rightarrow> [] | Some t \<Rightarrow> t)))"

definition coerce_telegram_id :: "json \<Rightarrow> int option" where
  "coerce_telegram_id v =
     (case (case v of
              JInt i \<Rightarrow> Some i
            | JStr s \<Rightarrow> if is_ascii_decimal (strip s) then py_int_of_digits (strip s) else None
            | _ \<Rightarrow> None) of
        None \<Rightarrow> None
      | Some number \<Rightarrow> if 1 \<le> number \<and> number \<le> MAX_TELEGRAM_USER_ID then Some number else None)"

text \<open>The first usable value of the aliases; \<open>get\<close> looks an alias up.\<close>

definition first_telegram_id :: "(string \<Rightarrow> json option) \<Rightarrow> int option" where
  "first_telegram_id get =
     (case List.map_filter (\<lambda>alias. Option.bind (get alias) coerce_telegram_id) ALIAS_FIELDS of
        [] \<Rightarrow> None
      | candidate # _ \<Rightarrow> Some candidate)"

text \<open>\<open>QueryParams.get\<close> answers with the last value of a repeated parameter.\<close>

definition extract_telegram_user_id :: "jdict \<Rightarrow> (string \<times> string) list \<Rightarrow> int option" where
  "extract_telegram_user_id data query =
     (case first_telegram_id (map_of data) of
        Some candidate \<Rightarrow> Some candidate
      | None \<Rightarrow> first_telegram_id (\<lambda>alias. map_option JStr (map_of (rev query) alias)))"

section \<open>Reading and decoding\<close>

text \<open>\<open>int(s)\<close> for a string with \<open>s.isdigit()\<close>: digits outside ASCII raise \<open>ValueError\<close>.\<close>

definition int_of_isdigit :: "string \<Rightarrow> int option" where
  "int_of_isdigit s = (if is_ascii_decimal s then py_int_of_digits s else None)"

fun read_stream :: "nat \<Rightarrow> string list \<Rightarrow> body_error + string" where
  "read_stream seen [] = Inr []"
| "read_stream seen (chunk # chunks) =
     (if seen + length chunk > MAX_BODY_BYTES then Inl (CompatReject ''too_large'')
      else map_sum id ((@) chunk) (read_stream (seen + length chunk) chunks))"

definition read_bounded_body :: "http_request \<Rightarrow> body_error + string" where
  "read_bounded_body r =
     (case rq_content_length r of
        Some declared \<Rightarrow>
          if declared \<noteq> [] \<and> list_all py_isdigit declared then
            (case int_of_isdigit declared of
               None \<Rightarrow> Inl UncaughtValueError
             | Some n \<Rightarrow> if n > int MAX_BODY_BYTES then Inl (CompatReject ''too_large'') else read_stream 0 (rq_stream r))
          else read_stream 0 (rq_stream r)
      | None \<Rightarrow> read_stream 0 (rq_stream r))"

definition decode_json_layers :: "codecs \<Rightarrow> string \<Rightarrow> string \<Rightarrow> string \<Rightarrow> body_error + (string \<times> jdict)" where
  "decode_json_layers K raw object_category string_category =
     (case utf8_decode K raw of
        None \<Rightarrow> Inl (CompatReject object_category)
      | Some text \<Rightarrow>
          (case json_loads K text of
             Some (JObj d) \<Rightarrow> Inr (object_category, d)
           | Some (JStr first) \<Rightarrow>
               (case json_loads K first of
                  Some (JObj d) \<Rightarrow> Inr (string_category, d)
                | _ \<Rightarrow> Inl (CompatReject string_category))
           | _ \<Rightarrow> Inl (CompatReject object_category)))"

text \<open>The three recoveries of a JSON object sent as a form.\<close>

definition json_object :: "codecs \<Rightarrow> string \<Rightarrow> jdict option" where
  "json_object K text = (case json_loads K text of Some (JObj d) \<Rightarrow> Some d | _ \<Rightarrow> None)"

definition known_field :: "string \<Rightarrow> bool" where
  "known_field key \<longleftrightarrow> key \<in> set REQUIRED_FIELDS \<or> key \<in> set ALIAS_FIELDS"

definition try_recover_json_key_form :: "codecs \<Rightarrow> (string \<times> string) list \<Rightarrow> jdict option" where
  "try_recover_json_key_form K pairs =
     (case pairs of
        [(key, value)] \<Rightarrow> if value \<noteq> [] \<or> known_field key then None else json_object K key
      | _ \<Rightarrow> None)"

definition try_recover_raw_json_key_with_unescaped_equals ::
  "codecs \<Rightarrow> string \<Rightarrow> (string \<times> string) list \<Rightarrow> jdict option" where
  "try_recover_raw_json_key_with_unescaped_equals K text pairs =
     (case pairs of
        [(key, value)] \<Rightarrow>
          if value = [] \<or> known_field key then None
          else if count_list text (CHR ''='') \<le> 1 \<or> text = [] \<or> last text \<noteq> CHR ''='' then None
          else json_object K (butlast text)
      | _ \<Rightarrow> None)"

definition try_recover_raw_json_body :: "codecs \<Rightarrow> string \<Rightarrow> (string \<times> string) list \<Rightarrow> jdict option" where
  "try_recover_raw_json_body K text pairs =
     (case pairs of
        [(key, _)] \<Rightarrow>
          if known_field key then None
          else if take 1 (lstrip text) \<noteq> ''{'' then None
          else json_object K text
      | _ \<Rightarrow> None)"

definition field_count :: "(string \<times> string) list \<Rightarrow> string \<Rightarrow> nat" where
  "field_count pairs field = count_list (map fst pairs) field"

definition form_aliases :: "(string \<times> string) list \<Rightarrow> jdict" where
  "form_aliases pairs =
     foldl (\<lambda>aliases (key, value). if key \<in> set ALIAS_FIELDS then AList.update key (JStr value) aliases else aliases) [] pairs"

definition form_fields :: "(string \<times> string) list \<Rightarrow> body_error + (string \<times> jdict)" where
  "form_fields pairs =
     (if list_ex (\<lambda>field. field_count pairs field = 0 \<or> field_count pairs field > 1) REQUIRED_FIELDS
      then Inl (CompatReject ''urlencoded'')
      else Inr (''urlencoded'',
             map (\<lambda>field. (field, JStr (the (map_of (rev pairs) field)))) REQUIRED_FIELDS @ form_aliases pairs))"

definition decode_urlencoded :: "codecs \<Rightarrow> string \<Rightarrow> body_error + (string \<times> jdict)" where
  "decode_urlencoded K raw =
     (case utf8_decode K raw of
        None \<Rightarrow> Inl UrlencodedSyntaxError
      | Some text \<Rightarrow>
          (case parse_qsl K text of
             None \<Rightarrow> Inl UrlencodedSyntaxError
           | Some pairs \<Rightarrow>
               if length pairs > MAX_FORM_PAIRS then Inl (CompatReject ''urlencoded'')
               else case try_recover_json_key_form K pairs of
                      Some d \<Rightarrow> Inr (''urlencoded_json_key'', d)
                    | None \<Rightarrow>
                        (case try_recover_raw_json_key_with_unescaped_equals K text pairs of
                           Some d \<Rightarrow> Inr (''urlencoded_raw_json_key'', d)
                         | None \<Rightarrow>
                             (case try_recover_raw_json_body K text pairs of
                                Some d \<Rightarrow> Inr (''urlencoded_raw_json_body'', d)
                              | None \<Rightarrow> form_fields pairs))))"

definition decode_body :: "codecs \<Rightarrow> string \<Rightarrow> string \<Rightarrow> body_error + (string \<times> jdict)" where
  "decode_body K media raw =
     (if media \<in> {''application/json'', []} then decode_json_layers K raw ''json_object'' ''json_string_object''
      else if media = ''application/x-www-form-urlencoded'' then
        (case decode_urlencoded K raw of
           Inl UrlencodedSyntaxError \<Rightarrow>
             (case decode_json_layers K raw ''urlencoded_json_object'' ''urlencoded_json_string_object'' of
                Inl _ \<Rightarrow> Inl (CompatReject ''urlencoded_unparseable'')
              | Inr d \<Rightarrow> Inr d)
         | other \<Rightarrow> other)
      else if media = ''text/plain'' then decode_json_layers K raw ''text_json'' ''text_json''
      else Inl (CompatReject ''unsupported''))"

section \<open>Normalising and validating\<close>

definition normalize_amount :: "json \<Rightarrow> json" where
  "normalize_amount v =
     (case v of
        JStr s \<Rightarrow> if is_ascii_decimal s then (case py_int_of_digits s of Some i \<Rightarrow> JInt i | None \<Rightarrow> v) else v
      | _ \<Rightarrow> v)"

definition normalize_body :: "jdict \<Rightarrow> jdict" where
  "normalize_body data =
     List.map_filter (\<lambda>field. map_option (\<lambda>v. (field, if field = ''amount'' then normalize_amount v else v)) (map_of data field))
       REQUIRED_FIELDS"

definition is_request_control :: "char \<Rightarrow> bool" where
  "is_request_control c \<longleftrightarrow> cc c \<le> 31 \<or> cc c = 127"

text \<open>The strict model: strings and integers only, no coercion, with its bounds and pattern.\<close>

definition validate_request :: "jdict \<Rightarrow> create_payment_request option" where
  "validate_request d =
     (case (map_of d ''api_key'', map_of d ''amount'', map_of d ''order_id'') of
        (Some (JStr api_key), Some (JInt amount), Some (JStr order_id)) \<Rightarrow>
          if 0 < amount \<and> amount \<le> 1000000000000 \<and> 1 \<le> length order_id \<and> length order_id \<le> 128
             \<and> list_all (\<lambda>c. \<not> is_request_control c) order_id
          then Some \<lparr>cpr_api_key = api_key, cpr_amount = amount, cpr_order_id = order_id\<rparr> else None
      | _ \<Rightarrow> None)"

text \<open>How a refused body is answered: the sanitized 422, or the 500 of an error nothing catches.\<close>

datatype body_refusal = RequestValidationError | UnhandledError

definition parse_create_payment_request :: "codecs \<Rightarrow> http_request \<Rightarrow> body_refusal + parsed_payment_request" where
  "parse_create_payment_request K r =
     (case read_bounded_body r of
        Inl UncaughtValueError \<Rightarrow> Inl UnhandledError
      | Inl _ \<Rightarrow> Inl RequestValidationError
      | Inr raw \<Rightarrow>
          (case decode_body K (media_type r) raw of
             Inl _ \<Rightarrow> Inl RequestValidationError
           | Inr (_, data) \<Rightarrow>
               (case validate_request (normalize_body data) of
                  None \<Rightarrow> Inl RequestValidationError
                | Some body \<Rightarrow>
                    Inr \<lparr>pp_body = body, pp_telegram_user_id = extract_telegram_user_id data (rq_query r)\<rparr>)))"

section \<open>What an accepted request is\<close>

lemma read_stream_Inr: "read_stream n chunks = Inr raw \<Longrightarrow> raw = concat chunks \<and> (chunks \<noteq> [] \<longrightarrow> n + length raw \<le> MAX_BODY_BYTES)"
proof (induction chunks arbitrary: n raw)
  case (Cons chunk chunks)
  then obtain rest where rest: "read_stream (n + length chunk) chunks = Inr rest" "raw = chunk @ rest" "n + length chunk \<le> MAX_BODY_BYTES"
    by (cases "read_stream (n + length chunk) chunks") (auto split: if_splits)
  then show ?case using Cons.IH [OF rest(1)] by (cases chunks) auto
qed simp

lemma read_bounded_body_Inr: "read_bounded_body r = Inr raw \<Longrightarrow> raw = concat (rq_stream r) \<and> length raw \<le> MAX_BODY_BYTES"
  using read_stream_Inr [of 0 "rq_stream r" raw]
  by (cases "rq_stream r") (auto simp: read_bounded_body_def split: option.splits if_splits)

lemma first_telegram_id_range: "first_telegram_id get = Some i \<Longrightarrow> 1 \<le> i \<and> i \<le> MAX_TELEGRAM_USER_ID"
proof -
  assume "first_telegram_id get = Some i"
  then have "i \<in> set (List.map_filter (\<lambda>alias. Option.bind (get alias) coerce_telegram_id) ALIAS_FIELDS)"
    by (simp add: first_telegram_id_def split: list.splits)
  then obtain a v where "get a = Some v" "coerce_telegram_id v = Some i"
    by (auto simp: map_filter_def bind_eq_Some_conv)
  then show ?thesis by (auto simp: coerce_telegram_id_def split: option.splits if_splits)
qed

lemma extract_telegram_user_id_range:
  "extract_telegram_user_id data q = Some i \<Longrightarrow> 1 \<le> i \<and> i \<le> MAX_TELEGRAM_USER_ID"
  by (auto simp: extract_telegram_user_id_def first_telegram_id_range split: option.splits)

lemma map_of_normalize:
  "map_of (normalize_body data) ''api_key'' = map_of data ''api_key''"
  "map_of (normalize_body data) ''amount'' = map_option normalize_amount (map_of data ''amount'')"
  "map_of (normalize_body data) ''order_id'' = map_of data ''order_id''"
  by (cases "map_of data ''api_key''"; cases "map_of data ''amount''"; cases "map_of data ''order_id''";
      simp add: normalize_body_def REQUIRED_FIELDS_def map_filter_simps)+

lemma normalize_amount_JInt:
  "normalize_amount v = JInt i \<longleftrightarrow>
     v = JInt i \<or> (\<exists>s. v = JStr s \<and> is_ascii_decimal s \<and> py_int_of_digits s = Some i)"
  by (auto simp: normalize_amount_def split: json.splits option.splits)

text \<open>
  C15. An accepted request is exactly what was sent: the decoded document holds the API key and the
  order id as strings, taken over unchanged, and the amount as an integer or as a string of ASCII
  digits with that value (never a boolean, a float or a padded string); the amount lies between 1
  and \<open>10 ^ 12\<close>, the order id has 1 to 128 characters and no control character, the body was at most
  64 KB, and a Telegram id, if one is used, lies in Telegram's range.
\<close>

theorem parse_create_payment_request_sound:
  assumes "parse_create_payment_request K r = Inr req"
  shows "\<exists>raw rep data. raw = concat (rq_stream r) \<and> length raw \<le> 65536
       \<and> decode_body K (media_type r) raw = Inr (rep, data)
       \<and> map_of data ''api_key'' = Some (JStr (cpr_api_key (pp_body req)))
       \<and> map_of data ''order_id'' = Some (JStr (cpr_order_id (pp_body req)))
       \<and> (map_of data ''amount'' = Some (JInt (cpr_amount (pp_body req)))
          \<or> (\<exists>s. map_of data ''amount'' = Some (JStr s) \<and> s \<noteq> [] \<and> list_all is_ascii_digit s
               \<and> int (digits_to_nat s) = cpr_amount (pp_body req)))
       \<and> 0 < cpr_amount (pp_body req) \<and> cpr_amount (pp_body req) \<le> 10 ^ 12
       \<and> cpr_order_id (pp_body req) \<noteq> [] \<and> length (cpr_order_id (pp_body req)) \<le> 128
       \<and> (\<forall>c \<in> set (cpr_order_id (pp_body req)). 32 \<le> cc c \<and> cc c \<noteq> 127)
       \<and> (\<forall>i. pp_telegram_user_id req = Some i \<longrightarrow> 1 \<le> i \<and> i < 2 ^ 52)"
proof -
  obtain raw rep data body where r: "read_bounded_body r = Inr raw" "decode_body K (media_type r) raw = Inr (rep, data)"
    "validate_request (normalize_body data) = Some body" "req = \<lparr>pp_body = body, pp_telegram_user_id = extract_telegram_user_id data (rq_query r)\<rparr>"
    using assms by (auto simp: parse_create_payment_request_def split: sum.splits body_error.splits option.splits)
  obtain v where v: "map_of data ''api_key'' = Some (JStr (cpr_api_key body))" "map_of data ''order_id'' = Some (JStr (cpr_order_id body))"
    "map_of data ''amount'' = Some v" "normalize_amount v = JInt (cpr_amount body)"
    "0 < cpr_amount body" "cpr_amount body \<le> 1000000000000" "1 \<le> length (cpr_order_id body)" "length (cpr_order_id body) \<le> 128"
    "list_all (\<lambda>c. \<not> is_request_control c) (cpr_order_id body)"
    using r(3) by (auto simp: validate_request_def map_of_normalize split: option.splits json.splits if_splits)
  have amount: "map_of data ''amount'' = Some (JInt (cpr_amount body))
      \<or> (\<exists>s. map_of data ''amount'' = Some (JStr s) \<and> s \<noteq> [] \<and> list_all is_ascii_digit s \<and> int (digits_to_nat s) = cpr_amount body)"
    using v(3,4) by (auto simp: normalize_amount_JInt is_ascii_decimal_def py_int_of_digits_def split: if_splits)
  have chars: "\<forall>c \<in> set (cpr_order_id body). 32 \<le> cc c \<and> cc c \<noteq> 127"
    using v(9) by (auto simp: list_all_iff is_request_control_def)
  have tg: "\<forall>i. pp_telegram_user_id req = Some i \<longrightarrow> 1 \<le> i \<and> i < 2 ^ 52"
    using extract_telegram_user_id_range r(4) by (auto simp: MAX_TELEGRAM_USER_ID_def dest!: extract_telegram_user_id_range)
  show ?thesis
    by (rule exI [of _ raw], rule exI [of _ rep], rule exI [of _ data])
       (use read_bounded_body_Inr [OF r(1)] r(2,4) v amount chars tg in \<open>auto simp: MAX_BODY_BYTES_def\<close>)
qed

definition demo_codecs :: "json \<Rightarrow> codecs" where
  "demo_codecs v = \<lparr>utf8_decode = Some, json_loads = (\<lambda>t. if t = ''{}'' then Some v else None), parse_qsl = (\<lambda>_. None)\<rparr>"

definition demo_document :: json where
  "demo_document = JObj [(''api_key'', JStr ''k''), (''order_id'', JStr ''o1''), (''amount'', JStr ''50000''), (''uid'', JInt 42)]"

definition demo_request :: http_request where
  "demo_request =
     \<lparr>rq_content_type = Some ''application/json; charset=utf-8'', rq_content_length = Some ''2'', rq_stream = [''{'', ''}''],
      rq_query = [], rq_forwarded_for = None, rq_peer = Some ''10.0.0.1''\<rparr>"

definition demo_parsed :: parsed_payment_request where
  "demo_parsed =
     \<lparr>pp_body = \<lparr>cpr_api_key = ''k'', cpr_amount = 50000, cpr_order_id = ''o1''\<rparr>, pp_telegram_user_id = Some 42\<rparr>"

lemma demo_media: "media_type demo_request = ''application/json''"
  by (simp add: media_type_def demo_request_def py_lower_def py_lower_char_def strip_def lstrip_def rstrip_def py_isspace_def cc_def)

lemma demo_decode:
  "decode_body (demo_codecs demo_document) ''application/json'' ''{}'' =
     Inr (''json_object'', [(''api_key'', JStr ''k''), (''order_id'', JStr ''o1''), (''amount'', JStr ''50000''), (''uid'', JInt 42)])"
  by (simp add: decode_body_def decode_json_layers_def demo_codecs_def demo_document_def)

lemma demo_parse: "parse_create_payment_request (demo_codecs demo_document) demo_request = Inr demo_parsed"
proof -
  have "read_bounded_body demo_request = Inr ''{}''"
    by (simp add: read_bounded_body_def demo_request_def int_of_isdigit_def is_ascii_decimal_def py_isdigit_def is_ascii_digit_def
        cc_def py_int_of_digits_def py_int_max_digits_def digits_to_nat_def digit_val_def MAX_BODY_BYTES_def)
  then show ?thesis
    by (simp add: parse_create_payment_request_def demo_media demo_decode normalize_body_def REQUIRED_FIELDS_def map_filter_simps
        normalize_amount_def is_ascii_decimal_def is_ascii_digit_def cc_def py_int_of_digits_def py_int_max_digits_def digits_to_nat_def
        digit_val_def validate_request_def is_request_control_def demo_parsed_def extract_telegram_user_id_def first_telegram_id_def
        ALIAS_FIELDS_def coerce_telegram_id_def MAX_TELEGRAM_USER_ID_def)
qed

theorem parse_create_payment_request_sound_witness:
  "\<exists>data. decode_body (demo_codecs demo_document) ''application/json'' ''{}'' = Inr (''json_object'', data)
        \<and> map_of data ''order_id'' = Some (JStr ''o1'')"
proof -
  have body: "concat (rq_stream demo_request) = ''{}''" by (simp add: demo_request_def)
  show ?thesis
    using parse_create_payment_request_sound [OF demo_parse] unfolding demo_media body demo_decode by (auto simp: demo_parsed_def)
qed

text \<open>
  A form is read as a form only when each required field occurs exactly once among at most 32
  pairs; extra fields change nothing.
\<close>

lemma map_of_rev_unique: "count_list (map fst xs) k = 1 \<Longrightarrow> map_of (rev xs) k = map_of xs k"
proof (induction xs)
  case (Cons x xs)
  show ?case
  proof (cases "fst x = k")
    case True
    then have "k \<notin> fst ` set xs" using Cons.prems by (simp add: count_list_0_iff)
    then have "map_of (rev xs) k = None" by (simp add: map_of_eq_None_iff)
    then show ?thesis using True by (cases x) (simp add: map_add_def)
  next
    case False
    then show ?thesis using Cons by (cases x) (simp add: map_add_def split: option.splits)
  qed
qed simp

lemma form_fields_Inr:
  assumes "form_fields pairs = Inr (label, data)" "field \<in> set REQUIRED_FIELDS"
  shows "count_list (map fst pairs) field = 1 \<and> map_of data field = map_option JStr (map_of pairs field)"
proof -
  have one: "count_list (map fst pairs) field = 1"
    using assms by (auto simp: form_fields_def list_ex_iff field_count_def split: if_splits)
  then obtain v where "map_of pairs field = Some v" by (metis count_list_0_iff map_of_eq_None_iff option.exhaust set_map zero_neq_one)
  moreover have "map_of data field = Some (JStr (the (map_of (rev pairs) field)))"
    using assms by (auto simp: form_fields_def REQUIRED_FIELDS_def split: if_splits)
  ultimately show ?thesis using map_of_rev_unique [OF one] one by simp
qed

text \<open>
  The three recoveries exclude each other, for any JSON parser that accepts no text ending in \<open>=\<close>
  and any form parser that finds a single pair with an empty value only in a text ending in \<open>=\<close>:
  the order in which they are tried does not matter.
\<close>

lemma recoveries_exclusive:
  assumes "\<And>t v. json_loads K t = Some v \<Longrightarrow> t = [] \<or> last t \<noteq> CHR ''=''"
    and "\<And>t k. parse_qsl K t = Some [(k, [])] \<Longrightarrow> t \<noteq> [] \<and> last t = CHR ''=''"
    and "parse_qsl K text = Some pairs"
  shows "try_recover_json_key_form K pairs = None \<or> try_recover_raw_json_key_with_unescaped_equals K text pairs = None"
    and "try_recover_json_key_form K pairs = None \<or> try_recover_raw_json_body K text pairs = None"
    and "try_recover_raw_json_key_with_unescaped_equals K text pairs = None \<or> try_recover_raw_json_body K text pairs = None"
proof -
  show "try_recover_json_key_form K pairs = None \<or> try_recover_raw_json_key_with_unescaped_equals K text pairs = None"
    by (auto simp: try_recover_json_key_form_def try_recover_raw_json_key_with_unescaped_equals_def split: list.splits if_splits)
  have body: "text \<noteq> [] \<Longrightarrow> last text \<noteq> CHR ''=''" if "try_recover_raw_json_body K text pairs \<noteq> None"
    using that assms(1) [of "text"] by (fastforce simp: try_recover_raw_json_body_def json_object_def split: list.splits if_splits option.splits)
  show "try_recover_json_key_form K pairs = None \<or> try_recover_raw_json_body K text pairs = None"
    using body assms(2,3) by (auto simp: try_recover_json_key_form_def split: list.splits if_splits)
  show "try_recover_raw_json_key_with_unescaped_equals K text pairs = None \<or> try_recover_raw_json_body K text pairs = None"
    using body by (auto simp: try_recover_raw_json_key_with_unescaped_equals_def split: list.splits if_splits)
qed

end
