(* ===== verification/Api.thy ===== *)
theory Api
  imports Ratelimit Request_Body Payments Verification
begin

text \<open>
  The two public routes (\<open>app/api/payments.py\<close>, \<open>app/api/callback.py\<close>) and the mapping of errors to
  responses (\<open>app/main.py\<close>). A handler works on the request's session and on the limiters of the
  process; \<open>now k\<close> is its \<open>k\<close>-th reading of the monotonic clock. The HTML of the callback page and
  log records are left out; the page is chosen by the returned \<open>callback_result\<close>.
\<close>

section \<open>Error responses\<close>

text \<open>\<open>http_status\<close> and \<open>code\<close> of the exception classes; anything that is no \<open>BridgeError\<close> is answered with 500.\<close>

fun http_status :: "bridge_error \<Rightarrow> int" where
  "http_status InvalidApiKeyError = 401"
| "http_status (AmountOutOfRangeError _) = 400"
| "http_status (PayableAmountOutOfRangeError _) = 400"
| "http_status DuplicateOrderAmountMismatchError = 409"
| "http_status OrderAlreadyVerifiedError = 409"
| "http_status OrderUnderReviewError = 409"
| "http_status InvalidCallbackSignatureError = 403"
| "http_status InvalidCallbackTokenError = 403"
| "http_status PaymentNotFoundError = 404"
| "http_status VerificationFailedError = 409"
| "http_status (CentralPayError _) = 502"
| "http_status (RateLimitedError _) = 429"
| "http_status GatewayOrderIdAllocationError = 500"
| "http_status PaymentCreationDisabledError = 503"
| "http_status PayerIdentityMisconfiguredError = 503"
| "http_status PayerIdentityAllocationError = 500"
| "http_status PayerIdentityCollisionError = 503"
| "http_status DuplicateOrderCustomerMismatchError = 409"
| "http_status (PyValueError _) = 500"

definition error_headers :: "bridge_error \<Rightarrow> (string \<times> string) list" where
  "error_headers e = (case e of RateLimitedError (Some n) \<Rightarrow> [(''Retry-After'', show_int n)] | _ \<Rightarrow> [])"

text \<open>\<open>RateLimitedError(retry_after_seconds=d)\<close>.\<close>

definition rate_limited :: "time \<Rightarrow> bridge_error" where
  "rate_limited d = RateLimitedError (Some (max 1 \<lceil>d\<rceil>))"

section \<open>Payment creation\<close>

definition refuse_api_key :: "rate_limiters \<Rightarrow> (nat \<Rightarrow> time) \<Rightarrow> rate_limiters \<times> bridge_error" where
  "refuse_api_key rl now =
     (case check_limiter (rl_enabled rl) (rl_invalid_api_key rl) (now 0) of
        (limiter, True) \<Rightarrow> (rl\<lparr>rl_invalid_api_key := limiter\<rparr>, InvalidApiKeyError)
      | (limiter, False) \<Rightarrow>
          (case safe_retry_after limiter (now 1) of
             (limiter, d) \<Rightarrow> (rl\<lparr>rl_invalid_api_key := limiter\<rparr>, rate_limited d)))"

text \<open>The two create limiters, the caller's own first; \<open>Some\<close> error when one of them is exhausted.\<close>

definition admit_create :: "rate_limiters \<Rightarrow> string \<Rightarrow> (nat \<Rightarrow> time) \<Rightarrow> rate_limiters \<times> bridge_error option" where
  "admit_create rl client_ip now =
     (case check_per_ip (rl_enabled rl) (rl_create_per_ip rl) client_ip (now 0) of
        (store, False) \<Rightarrow>
          (case retry_after_per_ip store client_ip (now 1) of
             (store, d) \<Rightarrow> (rl\<lparr>rl_create_per_ip := store\<rparr>, Some (rate_limited d)))
      | (store, True) \<Rightarrow>
          (case check_limiter (rl_enabled rl) (rl_create rl) (now 1) of
             (limiter, True) \<Rightarrow> (rl\<lparr>rl_create_per_ip := store, rl_create := limiter\<rparr>, None)
           | (limiter, False) \<Rightarrow>
               (case safe_retry_after limiter (now 2) of
                  (limiter, d) \<Rightarrow> (rl\<lparr>rl_create_per_ip := store, rl_create := limiter\<rparr>, Some (rate_limited d)))))"

definition creation_guards :: "settings \<Rightarrow> int \<Rightarrow> bridge_error option" where
  "creation_guards cfg amount =
     (if \<not> payment_creation_enabled cfg then Some PaymentCreationDisabledError
      else if centralpay_payer_id_secret cfg = [] then Some PayerIdentityMisconfiguredError
      else if amount < min_payment_amount_toman cfg
        then Some (AmountOutOfRangeError (''Amount must be at least '' @ show_int (min_payment_amount_toman cfg) @ '' TOMAN''))
      else None)"

definition create_custom_payment ::
  "crypto \<Rightarrow> centralpay_client \<Rightarrow> transport \<Rightarrow> (string \<Rightarrow> bool) \<Rightarrow> (string \<Rightarrow> string option) \<Rightarrow> settings \<Rightarrow> rate_limit_settings \<Rightarrow>
   create_env \<Rightarrow> (nat \<Rightarrow> time) \<Rightarrow> http_request \<Rightarrow> session \<Rightarrow> rate_limiters \<Rightarrow> parsed_payment_request \<Rightarrow>
   session \<times> rate_limiters \<times> (bridge_error + string)" where
  "create_custom_payment C cl http bracket_ok ip_address cfg rcfg env now r s rl parsed =
     (let body = pp_body parsed; telegram_user_id = pp_telegram_user_id parsed
      in if inbound_api_key cfg = [] \<or> \<not> constant_time_equals (cpr_api_key body) (inbound_api_key cfg) then
           (case refuse_api_key rl now of (rl, e) \<Rightarrow> (s, rl, Inl e))
         else
           (case (if find_safe_replay_redirect_url (work s) (cpr_order_id body) (cpr_amount body) telegram_user_id = None
                  then admit_create rl (resolve_client_ip ip_address rcfg (rq_forwarded_for r) (rq_peer r)) now
                  else (rl, None)) of
              (rl, Some e) \<Rightarrow> (s, rl, Inl e)
            | (rl, None) \<Rightarrow>
                (case creation_guards cfg (cpr_amount body) of
                   Some e \<Rightarrow> (s, rl, Inl e)
                 | None \<Rightarrow>
                     (case create_payment C cl http bracket_ok cfg env s (cpr_order_id body) (cpr_amount body) telegram_user_id of
                        (s, res) \<Rightarrow> (s, rl, res)))))"

section \<open>The gateway callback\<close>

record signature_failure_tracker =
  sft_threshold :: nat
  sft_window_seconds :: time
  sft_max_events :: nat
  sft_events :: "time list"
  sft_last_reported :: "time option"

definition new_tracker :: "nat \<Rightarrow> time \<Rightarrow> nat \<Rightarrow> signature_failure_tracker" where
  "new_tracker threshold window max_events =
     \<lparr>sft_threshold = threshold, sft_window_seconds = window, sft_max_events = max_events, sft_events = [],
      sft_last_reported = None\<rparr>"

text \<open>\<open>append\<close> of a deque with \<open>maxlen\<close>: the oldest entry makes room.\<close>

definition bounded_append :: "nat \<Rightarrow> 'a list \<Rightarrow> 'a \<Rightarrow> 'a list" where
  "bounded_append n xs x = drop (length xs + 1 - n) (xs @ [x])"

definition record_failure :: "signature_failure_tracker \<Rightarrow> time \<Rightarrow> signature_failure_tracker \<times> nat option" where
  "record_failure tr now =
     (let events = dropWhile (\<lambda>e. e < now - sft_window_seconds tr) (bounded_append (sft_max_events tr) (sft_events tr) now);
          n = length events;
          tr = tr\<lparr>sft_events := events\<rparr>
      in if n \<ge> sft_threshold tr
            \<and> (case sft_last_reported tr of None \<Rightarrow> True | Some t \<Rightarrow> now - t \<ge> sft_window_seconds tr)
         then (tr\<lparr>sft_last_reported := Some now\<rparr>, Some n)
         else (tr, None))"

definition reset_tracker :: "signature_failure_tracker \<Rightarrow> signature_failure_tracker" where
  "reset_tracker tr = tr\<lparr>sft_events := [], sft_last_reported := None\<rparr>"

definition is_lower_hex :: "char \<Rightarrow> bool" where
  "is_lower_hex c \<longleftrightarrow> is_ascii_digit c \<or> 97 \<le> cc c \<and> cc c \<le> 102"

definition callback_query_valid :: "int \<Rightarrow> string \<Rightarrow> string \<Rightarrow> bool" where
  "callback_query_valid order_id ct sig \<longleftrightarrow>
     1 \<le> order_id \<and> order_id \<le> 999999999999999999
   \<and> 1 \<le> length ct \<and> length ct \<le> 64 \<and> list_all is_lower_hex ct
   \<and> 1 \<le> length sig \<and> length sig \<le> 128 \<and> list_all is_lower_hex sig"

definition refuse_signature ::
  "(nat \<Rightarrow> time) \<Rightarrow> string \<Rightarrow> session \<Rightarrow> rate_limiters \<Rightarrow> signature_failure_tracker \<Rightarrow>
   session \<times> rate_limiters \<times> signature_failure_tracker \<times> bridge_error" where
  "refuse_signature now client_ip s rl tr =
     (let (store, per_ip_ok) = check_per_ip (rl_enabled rl) (rl_invalid_signature_per_ip rl) client_ip (now 0);
          (limiter, global_ok) = (if per_ip_ok then check_limiter (rl_enabled rl) (rl_invalid_signature rl) (now 1)
                                  else (rl_invalid_signature rl, True));
          rl = rl\<lparr>rl_invalid_signature_per_ip := store, rl_invalid_signature := limiter\<rparr>;
          (tr, storm) = record_failure tr (now 2);
          s = (case storm of
                 None \<Rightarrow> s
               | Some n \<Rightarrow>
                   commit (fst (create_alert s ''callback_signature_failures'' ''warning'' None
                     (Some ''callback_signature_failures'') [(''count'', JInt (int n)), (''window_seconds'', JInt 600)] None (clock s))))
      in if \<not> per_ip_ok then
           (case retry_after_per_ip store client_ip (now 3) of
              (store, d) \<Rightarrow> (s, rl\<lparr>rl_invalid_signature_per_ip := store\<rparr>, tr, rate_limited d))
         else if \<not> global_ok then
           (case safe_retry_after limiter (now 3) of
              (limiter, d) \<Rightarrow> (s, rl\<lparr>rl_invalid_signature := limiter\<rparr>, tr, rate_limited d))
         else (s, rl, tr, InvalidCallbackSignatureError))"

text \<open>
  The route; \<open>order_id\<close>, \<open>ct\<close> and \<open>sig\<close> are the parameters as the framework bound them, \<open>None\<close> stands
  for its 422 answer.
\<close>

definition centralpay_callback ::
  "crypto \<Rightarrow> centralpay_client \<Rightarrow> transport \<Rightarrow> (string \<Rightarrow> string option) \<Rightarrow> settings \<Rightarrow> rate_limit_settings \<Rightarrow>
   (nat \<Rightarrow> time) \<Rightarrow> http_request \<Rightarrow> session \<Rightarrow> rate_limiters \<Rightarrow> signature_failure_tracker \<Rightarrow> int \<Rightarrow> string \<Rightarrow> string \<Rightarrow>
   session \<times> rate_limiters \<times> signature_failure_tracker \<times> (bridge_error + callback_result) option" where
  "centralpay_callback C cl http ip_address cfg rcfg now r s rl tr order_id ct sig =
     (if \<not> callback_query_valid order_id ct sig then (s, rl, tr, None)
      else if list_ex (\<lambda>name. count_list (map fst (rq_query r)) name \<noteq> 1) [''orderId'', ''ct'', ''sig''] then
        (s, rl, tr, Some (Inl InvalidCallbackSignatureError))
      else if \<not> verify_callback_signature C (callback_hmac_secret cfg) order_id ct sig then
        (case refuse_signature now (resolve_client_ip ip_address rcfg (rq_forwarded_for r) (rq_peer r)) s rl tr of
           (s, rl, tr, e) \<Rightarrow> (s, rl, tr, Some (Inl e)))
      else
        (case process_callback C cl http (Some cfg) s order_id ct of
           (s, res) \<Rightarrow> (s, rl, tr, Some res)))"

section \<open>Who may do what\<close>

lemma rate_limited_Some: "\<exists>n\<ge>1. rate_limited d = RateLimitedError (Some n)"
  by (simp add: rate_limited_def)

lemma http_status_rate_limited [simp]: "http_status (rate_limited d) = 429"
  by (simp add: rate_limited_def)

lemma refuse_api_key_cases:
  obtains limiter e where "refuse_api_key rl now = (rl\<lparr>rl_invalid_api_key := limiter\<rparr>, e)"
    "e = InvalidApiKeyError \<or> (\<exists>n\<ge>1. e = RateLimitedError (Some n))"
proof -
  obtain lm ok where c: "check_limiter (rl_enabled rl) (rl_invalid_api_key rl) (now 0) = (lm, ok)" by fastforce
  obtain lm' d where d: "safe_retry_after lm (now 1) = (lm', d)" by fastforce
  show thesis using that c d rate_limited_Some [of d] by (cases ok) (simp_all add: refuse_api_key_def)
qed

text \<open>
  A request without the right API key is inert: it leaves the session, the database and every
  limiter but the one for invalid keys exactly as they were, makes no gateway request, and is
  answered with 401, or with 429 and a retry delay of at least one second. With an empty
  configured key every request is refused that way.
\<close>

theorem unauthenticated_request_inert:
  assumes "inbound_api_key cfg = [] \<or> cpr_api_key (pp_body parsed) \<noteq> inbound_api_key cfg"
  shows "\<exists>limiter e. (\<forall>C cl http ok ip rcfg env. create_custom_payment C cl http ok ip cfg rcfg env now r s rl parsed
             = (s, rl\<lparr>rl_invalid_api_key := limiter\<rparr>, Inl e))
       \<and> (http_status e = 401 \<and> e = InvalidApiKeyError \<or> http_status e = 429 \<and> (\<exists>n\<ge>1. e = RateLimitedError (Some n)))"
proof -
  obtain limiter e where e: "refuse_api_key rl now = (rl\<lparr>rl_invalid_api_key := limiter\<rparr>, e)"
    "e = InvalidApiKeyError \<or> (\<exists>n\<ge>1. e = RateLimitedError (Some n))"
    by (rule refuse_api_key_cases)
  have "create_custom_payment C cl http ok ip cfg rcfg env now r s rl parsed = (s, rl\<lparr>rl_invalid_api_key := limiter\<rparr>, Inl e)"
    for C cl http ok ip rcfg env
    using assms e(1) by (auto simp: create_custom_payment_def constant_time_equals_def Let_def)
  then show ?thesis using e(2) by auto
qed

definition demo_limits :: rate_limit_settings where
  "demo_limits = \<lparr>rate_limit_enabled = True, rate_limit_create_per_minute = 120, rate_limit_invalid_key_per_10min = 20,
     rate_limit_invalid_signature_per_10min = 100, rate_limit_create_per_ip_per_minute = 30,
     rate_limit_invalid_signature_per_ip_per_10min = 30, rate_limit_ip_bucket_capacity = 10000, rate_limit_trust_proxy_headers = True\<rparr>"

definition wrong_key_request :: parsed_payment_request where
  "wrong_key_request = demo_parsed\<lparr>pp_body := (pp_body demo_parsed)\<lparr>cpr_api_key := ''x''\<rparr>\<rparr>"

theorem unauthenticated_request_inert_witness:
  "\<exists>limiter e. create_custom_payment demo_separating demo_client link_reply (\<lambda>_. False) Some demo_settings demo_limits quiet_env
      (\<lambda>_. 5) demo_request (new_session empty_db 50) (new_rate_limiters demo_limits) wrong_key_request
    = (new_session empty_db 50, (new_rate_limiters demo_limits)\<lparr>rl_invalid_api_key := limiter\<rparr>, Inl e)"
  using unauthenticated_request_inert [of demo_settings wrong_key_request "\<lambda>_. 5" demo_request "new_session empty_db 50"
      "new_rate_limiters demo_limits"]
  by (force simp: demo_settings_def wrong_key_request_def demo_parsed_def)

text \<open>
  An idempotent retry is never throttled: with the right key and the guards open, a request for
  which a safe replay exists is answered by \<open>create_payment\<close> whatever the state of the limiters,
  even when both budgets are used up, and it uses up no budget.
\<close>

theorem replay_bypasses_limiters:
  assumes "inbound_api_key cfg \<noteq> []" "cpr_api_key (pp_body parsed) = inbound_api_key cfg"
    and "find_safe_replay_redirect_url (work s) (cpr_order_id (pp_body parsed)) (cpr_amount (pp_body parsed)) (pp_telegram_user_id parsed) = Some url"
    and "creation_guards cfg (cpr_amount (pp_body parsed)) = None"
  shows "create_custom_payment C cl http ok ip cfg rcfg env now r s rl parsed =
     (let (s', res) = create_payment C cl http ok cfg env s (cpr_order_id (pp_body parsed)) (cpr_amount (pp_body parsed)) (pp_telegram_user_id parsed)
      in (s', rl, res))"
  using assms by (simp add: create_custom_payment_def constant_time_equals_def Let_def)

theorem replay_bypasses_limiters_witness:
  "\<exists>s. create_custom_payment demo_separating demo_client link_reply (\<lambda>_. False) Some demo_settings demo_limits quiet_env (\<lambda>_. 5)
         demo_request s (new_rate_limiters (demo_limits\<lparr>rate_limit_create_per_minute := 0\<rparr>)) demo_parsed
     = (let (s', res) = create_payment demo_separating demo_client link_reply (\<lambda>_. False) demo_settings quiet_env s ''o1'' 50000 (Some 42)
        in (s', new_rate_limiters (demo_limits\<lparr>rate_limit_create_per_minute := 0\<rparr>), res))"
proof -
  let ?s = "replay_session (linked_demo ''o1'' TELEGRAM_USER) (mapping_demo [] TELEGRAM_RAW)"
  have "find_safe_replay_redirect_url (work ?s) ''o1'' 50000 (Some 42) = Some ''https://pay.ir/x''"
    by (simp add: find_safe_replay_redirect_url_def payment_by_bot_order_id_def linked_demo_def demo_payment_def)
  then show ?thesis
    using replay_bypasses_limiters [of demo_settings demo_parsed ?s]
    by (intro exI [of _ ?s]) (simp add: demo_settings_def demo_parsed_def creation_guards_def)
qed

text \<open>
  An admitted, rejected or replayed creation touches only the two create limiters, and the
  per-caller store keeps to its capacity.
\<close>

lemma admit_create_limiters:
  assumes "limiters_ok rl" "admit_create rl ip now = (rl', e)"
  shows "limiters_ok rl' \<and> rl_invalid_api_key rl' = rl_invalid_api_key rl \<and> rl_invalid_signature rl' = rl_invalid_signature rl
       \<and> rl_invalid_signature_per_ip rl' = rl_invalid_signature_per_ip rl
       \<and> (\<forall>x. e = Some x \<longrightarrow> (\<exists>n\<ge>1. x = RateLimitedError (Some n)))"
  using assms check_per_ip_ok [of "rl_create_per_ip rl" "rl_enabled rl" ip "now 0"]
    retry_after_per_ip_ok [of "fst (check_per_ip (rl_enabled rl) (rl_create_per_ip rl) ip (now 0))" ip "now 1"] rate_limited_Some
  by (auto simp: admit_create_def limiters_ok_def split: prod.splits bool.splits)

text \<open>
  With the right key the answer does not depend on the limiter for invalid keys: exhausting it
  turns the 401 of a wrong guess into a 429 but stops no guess.
\<close>

lemma right_key_never_throttled:
  assumes "inbound_api_key cfg \<noteq> []" "cpr_api_key (pp_body parsed) = inbound_api_key cfg"
    and "create_custom_payment C cl http ok ip cfg rcfg env now r s rl parsed = (s', rl', res)"
  shows "create_custom_payment C cl http ok ip cfg rcfg env now r s (rl\<lparr>rl_invalid_api_key := limiter\<rparr>) parsed
       = (s', rl'\<lparr>rl_invalid_api_key := limiter\<rparr>, res)"
  using assms
  by (auto simp: create_custom_payment_def admit_create_def constant_time_equals_def Let_def
      split: prod.splits bool.splits option.splits if_splits)

section \<open>The callback route\<close>

lemma refuse_signature_inert:
  assumes "refuse_signature now ip s rl tr = (s', rl', tr', e)"
  shows "payments (work s') = payments (work s)" "work s = durable s \<Longrightarrow> payments (durable s') = payments (durable s)"
    "http_status e = 403 \<and> e = InvalidCallbackSignatureError \<or> http_status e = 429 \<and> (\<exists>n\<ge>1. e = RateLimitedError (Some n))"
proof -
  let ?alert = "\<lambda>n. fst (create_alert s ''callback_signature_failures'' ''warning'' None
      (Some ''callback_signature_failures'') [(''count'', JInt (int n)), (''window_seconds'', JInt 600)] None (clock s))"
  obtain storm where s': "s' = (case storm of None \<Rightarrow> s | Some n \<Rightarrow> commit (?alert n))"
    and e: "e = InvalidCallbackSignatureError \<or> (\<exists>d. e = rate_limited d)"
    using assms by (auto simp: refuse_signature_def Let_def split: prod.splits if_splits)
  have "payments (work (?alert n)) = payments (work s)" for n
    by (simp add: create_alert_def create_alert_with_def insert_event_def Let_def)
  then show "payments (work s') = payments (work s)" "work s = durable s \<Longrightarrow> payments (durable s') = payments (durable s)"
    unfolding s' by (auto split: option.splits)
  show "http_status e = 403 \<and> e = InvalidCallbackSignatureError \<or> http_status e = 429 \<and> (\<exists>n\<ge>1. e = RateLimitedError (Some n))"
    using e rate_limited_Some by auto
qed

text \<open>
  C14. A forged callback is inert: unless all three parameters occur once, are well formed and carry
  a signature over this order id and this token, no payment changes, the gateway is not asked, and
  the caller gets 422, 403 or 429 with a retry delay.
\<close>

theorem forged_callback_inert:
  assumes "\<not> (callback_query_valid order_id ct sig
          \<and> (\<forall>name \<in> {''orderId'', ''ct'', ''sig''}. count_list (map fst (rq_query r)) name = 1)
          \<and> sig = hmac_sha256_hex C (callback_hmac_secret cfg) (callback_message order_id ct))"
    and "work s = durable s"
  shows "\<exists>s' rl' tr' res. (\<forall>cl http. centralpay_callback C cl http ip cfg rcfg now r s rl tr order_id ct sig = (s', rl', tr', res))
       \<and> payments (durable s') = payments (durable s)
       \<and> (res = None \<or> (\<exists>e. res = Some (Inl e) \<and> (http_status e = 403 \<or> http_status e = 429 \<and> (\<exists>n\<ge>1. e = RateLimitedError (Some n)))))"
proof -
  obtain s2 rl2 tr2 e where ref: "refuse_signature now (resolve_client_ip ip rcfg (rq_forwarded_for r) (rq_peer r)) s rl tr = (s2, rl2, tr2, e)"
    by (metis prod_cases4)
  note inert = refuse_signature_inert [OF ref]
  consider "\<not> callback_query_valid order_id ct sig"
    | "callback_query_valid order_id ct sig" "list_ex (\<lambda>name. count_list (map fst (rq_query r)) name \<noteq> 1) [''orderId'', ''ct'', ''sig'']"
    | "callback_query_valid order_id ct sig" "\<not> list_ex (\<lambda>name. count_list (map fst (rq_query r)) name \<noteq> 1) [''orderId'', ''ct'', ''sig'']"
      "\<not> verify_callback_signature C (callback_hmac_secret cfg) order_id ct sig"
    using assms(1) by (auto simp: verify_callback_signature_def callback_signature_def constant_time_equals_def)
  then show ?thesis
  proof cases
    case 3
    then show ?thesis using ref inert assms(2) by (auto simp: centralpay_callback_def)
  qed (auto simp: centralpay_callback_def)
qed

theorem forged_callback_inert_witness:
  "\<exists>s' rl' tr' res. centralpay_callback demo_separating demo_client link_reply Some demo_settings demo_limits (\<lambda>_. 5) demo_request
       (new_session empty_db 50) (new_rate_limiters demo_limits) (new_tracker 5 600 1000) 7 ''ab'' ''cd'' = (s', rl', tr', res)
     \<and> payments (durable s') = []"
  using forged_callback_inert [of 7 "''ab''" "''cd''" demo_request demo_separating demo_settings "new_session empty_db 50" Some demo_limits
      "\<lambda>_. 5" "new_rate_limiters demo_limits" "new_tracker 5 600 1000"]
  by (fastforce simp: demo_request_def new_session_def empty_db_def)

text \<open>A storm of bad signatures is reported at most once per window, and its memory is bounded.\<close>

lemma record_failure_bounds:
  assumes "record_failure tr now = (tr', storm)" "length (sft_events tr) \<le> sft_max_events tr"
  shows "length (sft_events tr') \<le> sft_max_events tr" "sft_max_events tr' = sft_max_events tr"
    and "storm = Some n \<Longrightarrow> sft_last_reported tr' = Some now \<and> sft_threshold tr \<le> n \<and> n \<le> sft_max_events tr
           \<and> (\<forall>t. sft_last_reported tr = Some t \<longrightarrow> t + sft_window_seconds tr \<le> now)"
    and "storm = None \<Longrightarrow> sft_last_reported tr' = sft_last_reported tr"
proof -
  have "length (bounded_append (sft_max_events tr) (sft_events tr) now) \<le> sft_max_events tr"
    using assms(2) by (simp add: bounded_append_def)
  then have len: "length (dropWhile (\<lambda>e. e < now - sft_window_seconds tr) (bounded_append (sft_max_events tr) (sft_events tr) now)) \<le> sft_max_events tr"
    using length_dropWhile_le order_trans by blast
  show "length (sft_events tr') \<le> sft_max_events tr" "sft_max_events tr' = sft_max_events tr"
    "storm = None \<Longrightarrow> sft_last_reported tr' = sft_last_reported tr"
    "storm = Some n \<Longrightarrow> sft_last_reported tr' = Some now \<and> sft_threshold tr \<le> n \<and> n \<le> sft_max_events tr
       \<and> (\<forall>t. sft_last_reported tr = Some t \<longrightarrow> t + sft_window_seconds tr \<le> now)"
    using assms(1) len by (auto simp: record_failure_def Let_def split: if_splits option.splits)
qed

text \<open>
  The retry delay is rounded up so that a caller who waits that long never arrives too early, but
  the window is closed at its old end: with one request admitted at time 0 and a second refused at
  time 10, the advertised 50 seconds lead to another refusal at time 60.
\<close>

lemma retry_hint_one_tick_early:
  "\<exists>lm. allow (fst (allow (new_limiter 1 60) 0)) 10 = (lm, False) \<and> safe_retry_after lm 10 = (lm, 50)
      \<and> rate_limited 50 = RateLimitedError (Some 50) \<and> snd (allow lm (10 + 50)) = False"
  by (simp add: allow_def prune_def new_limiter_def safe_retry_after_def retry_after_def rate_limited_def Let_def)

end
