(* ===== verification/Config.thy ===== *)
theory Config
  imports Models Urls
begin

text \<open>
  Configuration checks (\<open>app/config.py\<close>): the three URL contracts, the list of administrators, and the
  startup validation of the services. \<open>ValueError\<close> and \<open>ConfigurationError\<close> are \<open>Inl\<close> values; their fixed
  texts are left out. The parsers and classifications of \<open>ipaddress\<close> come from the \<open>ip_library\<close>
  record, except for the dotted IPv4 form, which is spelt out.
\<close>

record ip_library =
  bracket_ok :: "string \<Rightarrow> bool"
  ipv6_ok :: "string \<Rightarrow> bool"
  ipv6_internal :: "string \<Rightarrow> bool"
  ipv4_internal :: "string \<Rightarrow> bool"

datatype config_error = InvalidUrl | ConfigurationError | UncaughtIntError

section \<open>Authorities\<close>

text \<open>\<open>IPv4Address\<close>: four decimal octets of at most three digits, without leading zeros.\<close>

definition ipv4_octet_ok :: "string \<Rightarrow> bool" where
  "ipv4_octet_ok s \<longleftrightarrow>
     is_ascii_decimal s \<and> length s \<le> 3 \<and> (length s > 1 \<longrightarrow> hd s \<noteq> CHR ''0'') \<and> digits_to_nat s \<le> 255"

definition ipv4_ok :: "string \<Rightarrow> bool" where
  "ipv4_ok host \<longleftrightarrow> length (split_at (CHR ''.'') host) = 4 \<and> list_all ipv4_octet_ok (split_at (CHR ''.'') host)"

definition host_label_char :: "char \<Rightarrow> bool" where
  "host_label_char c \<longleftrightarrow> is_ascii_digit c \<or> 97 \<le> cc c \<and> cc c \<le> 122"

definition host_label_ok :: "string \<Rightarrow> bool" where
  "host_label_ok label \<longleftrightarrow>
     label \<noteq> [] \<and> length label \<le> 63 \<and> host_label_char (hd label) \<and> host_label_char (last label)
   \<and> list_all (\<lambda>c. host_label_char c \<or> c = CHR ''-'') label"

definition split_raw_authority :: "ip_library \<Rightarrow> string \<Rightarrow> config_error + (string \<times> string option)" where
  "split_raw_authority L netloc =
     (if take 1 netloc = ''['' then
        (case partition_at (CHR '']'') (tl netloc) of
           (host_raw, found, rest) \<Rightarrow>
             if \<not> found \<or> \<not> ipv6_ok L host_raw then Inl InvalidUrl
             else if rest = [] then Inr (''['' @ py_lower host_raw @ '']'', None)
             else if hd rest \<noteq> CHR '':'' then Inl InvalidUrl
             else Inr (''['' @ py_lower host_raw @ '']'', Some (tl rest)))
      else
        (case partition_at (CHR '':'') netloc of
           (host_raw, sep, port_text) \<Rightarrow>
             let host = py_lower host_raw; labels = split_at (CHR ''.'') host
             in if list_ex (\<lambda>label. label = []) labels then Inl InvalidUrl
                else if (if list_all (list_all is_ascii_digit) labels then \<not> ipv4_ok host
                         else length host > 253 \<or> \<not> list_all host_label_ok labels) then Inl InvalidUrl
                else Inr (host, if sep then Some port_text else None)))"

definition parse_canonical_port :: "string option \<Rightarrow> config_error + nat option" where
  "parse_canonical_port port_text =
     (case port_text of
        None \<Rightarrow> Inr None
      | Some t \<Rightarrow>
          if \<not> is_ascii_decimal t then Inl InvalidUrl
          else case py_int_of_digits t of
                 None \<Rightarrow> Inl InvalidUrl
               | Some port \<Rightarrow>
                   if \<not> (1 \<le> port \<and> port \<le> 65535) \<or> t \<noteq> show_int port then Inl InvalidUrl else Inr (Some (nat port)))"

definition port_part :: "nat option \<Rightarrow> string" where
  "port_part port = (case port of None \<Rightarrow> [] | Some p \<Rightarrow> '':'' @ show_nat p)"

section \<open>The URL contracts\<close>

definition url_text_ok :: "string \<Rightarrow> bool" where
  "url_text_ok v \<longleftrightarrow>
     v \<noteq> [] \<and> list_all (\<lambda>c. 32 < cc c \<and> cc c < 127 \<and> c \<notin> {CHR 0x5C, CHR ''?'', CHR ''#''}) v"

definition parse_outbound_url :: "ip_library \<Rightarrow> string \<Rightarrow> config_error + (string \<times> string \<times> nat option \<times> string)" where
  "parse_outbound_url L v =
     (if \<not> url_text_ok v then Inl InvalidUrl
      else case urlsplit (bracket_ok L) v of
             None \<Rightarrow> Inl InvalidUrl
           | Some parts \<Rightarrow>
               let netloc = u_netloc parts
               in if netloc = [] \<or> CHR ''@'' \<in> set netloc \<or> CHR ''%'' \<in> set netloc then Inl InvalidUrl
                  else case split_raw_authority L netloc of
                         Inl e \<Rightarrow> Inl e
                       | Inr (host, port_text) \<Rightarrow>
                           (case parse_canonical_port port_text of
                              Inl e \<Rightarrow> Inl e
                            | Inr port \<Rightarrow> Inr (py_lower (u_scheme parts), host, port, u_path parts)))"

text \<open>\<open>normalize_public_base_url\<close> applies the same checks, and asks for an empty path before it looks at the authority.\<close>

definition normalize_public_base_url :: "ip_library \<Rightarrow> string \<Rightarrow> config_error + string" where
  "normalize_public_base_url L v =
     (if \<not> url_text_ok v then Inl InvalidUrl
      else case urlsplit (bracket_ok L) v of
             None \<Rightarrow> Inl InvalidUrl
           | Some parts \<Rightarrow>
               let netloc = u_netloc parts
               in if py_lower (u_scheme parts) \<noteq> ''https'' then Inl InvalidUrl
                  else if u_query parts \<noteq> [] \<or> u_fragment parts \<noteq> [] then Inl InvalidUrl
                  else if u_path parts \<notin> {[], ''/''} then Inl InvalidUrl
                  else if netloc = [] \<or> CHR ''@'' \<in> set netloc \<or> CHR ''%'' \<in> set netloc then Inl InvalidUrl
                  else case split_raw_authority L netloc of
                         Inl e \<Rightarrow> Inl e
                       | Inr (host, port_text) \<Rightarrow>
                           (case parse_canonical_port port_text of
                              Inl e \<Rightarrow> Inl e
                            | Inr port \<Rightarrow> Inr (''https://'' @ host @ port_part port)))"

definition path_segment_char :: "char \<Rightarrow> bool" where
  "path_segment_char c \<longleftrightarrow> is_ascii_alpha c \<or> is_ascii_digit c \<or> c \<in> {CHR ''.'', CHR ''_'', CHR ''~'', CHR ''-''}"

definition path_segments_ok :: "string \<Rightarrow> bool" where
  "path_segments_ok path \<longleftrightarrow>
     take 1 path = ''/'' \<and> CHR ''%'' \<notin> set path
   \<and> list_all (\<lambda>seg. seg \<noteq> [] \<and> seg \<notin> {''.'', ''..''} \<and> list_all path_segment_char seg) (split_at (CHR ''/'') (tl path))"

definition ends_with :: "string \<Rightarrow> string \<Rightarrow> bool" where
  "ends_with suf s \<longleftrightarrow> length suf \<le> length s \<and> drop (length s - length suf) s = suf"

definition normalize_centralpay_base_url :: "ip_library \<Rightarrow> string \<Rightarrow> config_error + string" where
  "normalize_centralpay_base_url L v =
     (case parse_outbound_url L v of
        Inl e \<Rightarrow> Inl e
      | Inr (scheme, host, port, path) \<Rightarrow>
          if scheme \<noteq> ''https'' then Inl InvalidUrl
          else if path \<in> {[], ''/''} then Inr (''https://'' @ host @ port_part port)
          else let path = (if last path = CHR ''/'' then butlast path else path)
               in if \<not> path_segments_ok path \<or> ends_with ''.php'' (py_lower (after_last (CHR ''/'') path)) then Inl InvalidUrl
                  else Inr (''https://'' @ host @ port_part port @ path))"

definition is_private_bot_host :: "ip_library \<Rightarrow> string \<Rightarrow> bool" where
  "is_private_bot_host L host =
     (if take 1 host = ''['' then ipv6_internal L (butlast (tl host))
      else if list_all (\<lambda>l. l \<noteq> [] \<and> list_all is_ascii_digit l) (split_at (CHR ''.'') host) then ipv4_internal L host
      else if host = ''localhost'' \<or> ends_with ''.localhost'' host then True
      else if CHR ''.'' \<notin> set host then True
      else ends_with ''.internal'' host \<or> ends_with ''.local'' host)"

definition normalize_bot_notify_url :: "ip_library \<Rightarrow> bool \<Rightarrow> string \<Rightarrow> config_error + string" where
  "normalize_bot_notify_url L allow_insecure v =
     (case parse_outbound_url L v of
        Inl e \<Rightarrow> Inl e
      | Inr (scheme, host, port, path) \<Rightarrow>
          if (if scheme = ''http'' then \<not> allow_insecure \<or> \<not> is_private_bot_host L host else scheme \<noteq> ''https'') then Inl InvalidUrl
          else if \<not> path_segments_ok path then Inl InvalidUrl
          else Inr (scheme @ ''://'' @ host @ port_part port @ path))"

section \<open>Administrators and startup\<close>

text \<open>A digit outside ASCII passes \<open>isdigit\<close> and then fails in \<open>int()\<close> with an error nothing catches.\<close>

fun collect_ids :: "string list \<Rightarrow> config_error + int list" where
  "collect_ids [] = Inr []"
| "collect_ids (part # parts) =
     (let candidate = strip part
      in if candidate = [] then collect_ids parts
         else if \<not> list_all py_isdigit candidate then Inl ConfigurationError
         else if \<not> is_ascii_decimal candidate then Inl UncaughtIntError
         else case py_int_of_digits candidate of
                None \<Rightarrow> Inl UncaughtIntError
              | Some i \<Rightarrow> if i \<le> 0 then Inl ConfigurationError else map_sum id ((#) i) (collect_ids parts))"

definition parse_admin_telegram_ids :: "string \<Rightarrow> config_error + int list" where
  "parse_admin_telegram_ids raw = map_sum id (\<lambda>ids. rev (remdups (rev ids))) (collect_ids (split_at (CHR '','') raw))"

record startup_settings =
  su_bot_payment_notify_url :: string
  su_bot_notify_token :: string
  su_allow_insecure_bot_notify_url :: bool
  su_telegram_bot_username :: string
  su_bot_notify_connect_timeout_seconds :: rat
  su_bot_notify_read_timeout_seconds :: rat
  su_admin_bot_token :: string
  su_admin_telegram_ids :: string
  su_admin_bot_daily_report_time :: string
  su_timezone_ok :: bool

definition username_char :: "char \<Rightarrow> bool" where
  "username_char c \<longleftrightarrow> is_ascii_alpha c \<or> is_ascii_digit c \<or> c = CHR ''_''"

definition bot_username_ok :: "string \<Rightarrow> bool" where
  "bot_username_ok s \<longleftrightarrow>
     (let rest = (if take 1 s = ''@'' then tl s else s)
      in 1 \<le> length rest \<and> length rest \<le> 64 \<and> list_all username_char rest)"

text \<open>The cross-field validator of the settings class; the bot URL is replaced by its canonical form.\<close>

definition validate_bot_settings :: "ip_library \<Rightarrow> settings \<Rightarrow> startup_settings \<Rightarrow> config_error + startup_settings" where
  "validate_bot_settings L cfg su =
     (if min_payment_amount_toman cfg \<ge> max_payment_amount_toman cfg then Inl ConfigurationError
      else if su_telegram_bot_username su \<noteq> [] \<and> \<not> bot_username_ok (su_telegram_bot_username su) then Inl ConfigurationError
      else case (if su_bot_payment_notify_url su = [] then Inr []
                 else normalize_bot_notify_url L (su_allow_insecure_bot_notify_url su) (su_bot_payment_notify_url su)) of
             Inl e \<Rightarrow> Inl e
           | Inr url \<Rightarrow>
               if bot_notify_claim_timeout_seconds cfg
                    \<le> su_bot_notify_connect_timeout_seconds su + su_bot_notify_read_timeout_seconds su then Inl ConfigurationError
               else if reconciliation_max_backoff_seconds cfg < reconciliation_initial_backoff_seconds cfg then Inl ConfigurationError
               else if reconciliation_max_age_seconds cfg \<le> reconciliation_fast_window_seconds cfg then Inl ConfigurationError
               else if reconciliation_slow_tier_reserved_slots cfg \<ge> reconciliation_batch_size cfg then Inl ConfigurationError
               else Inr (su\<lparr>su_bot_payment_notify_url := url\<rparr>))"

definition validate_bot_notification_settings :: "startup_settings \<Rightarrow> config_error + unit" where
  "validate_bot_notification_settings su =
     (if su_bot_payment_notify_url su = [] then Inl ConfigurationError
      else if su_bot_notify_token su = [] then Inl ConfigurationError
      else Inr ())"

text \<open>\<open>re.fullmatch(r"([01]?\d|2[0-3]):[0-5]\d", s)\<close>; \<open>\d\<close> is an ASCII digit below code point 256.\<close>

definition report_time_ok :: "string \<Rightarrow> bool" where
  "report_time_ok s \<longleftrightarrow>
     (case partition_at (CHR '':'') s of
        (hour, found, minute) \<Rightarrow>
          found \<and> is_ascii_decimal hour \<and> is_ascii_decimal minute
        \<and> (length hour = 1 \<or> length hour = 2 \<and> digits_to_nat hour \<le> 23)
        \<and> length minute = 2 \<and> digits_to_nat minute \<le> 59)"

definition validate_admin_bot_settings :: "settings \<Rightarrow> startup_settings \<Rightarrow> config_error + int list" where
  "validate_admin_bot_settings cfg su =
     (if \<not> admin_bot_enabled cfg then Inl ConfigurationError
      else if su_admin_bot_token su = [] then Inl ConfigurationError
      else case parse_admin_telegram_ids (su_admin_telegram_ids su) of
             Inl e \<Rightarrow> Inl e
           | Inr ids \<Rightarrow>
               if ids = [] then Inl ConfigurationError
               else if \<not> report_time_ok (su_admin_bot_daily_report_time su) then Inl ConfigurationError
               else if \<not> su_timezone_ok su then Inl ConfigurationError
               else Inr ids)"

section \<open>Nothing is repaired\<close>

lemma py_lower_append [simp]: "py_lower (a @ b) = py_lower a @ py_lower b"
  by (simp add: py_lower_def)

lemma py_lower_Nil [simp]: "py_lower [] = []"
  by (simp add: py_lower_def)

lemma py_lower_Cons: "py_lower (c # s) = py_lower_char c # py_lower s"
  by (simp add: py_lower_def)

lemma py_lower_idem: "py_lower (py_lower s) = py_lower s"
proof -
  have "py_lower_char (py_lower_char c) = py_lower_char c" for c
    by (auto simp: py_lower_char_def cc_def)
  then show ?thesis by (simp add: py_lower_def comp_def)
qed

lemma py_lower_digits: "list_all is_ascii_digit s \<Longrightarrow> py_lower s = s"
  by (induction s) (auto simp: py_lower_def py_lower_char_def is_ascii_digit_def)

lemma py_lower_punct [simp]:
  "py_lower_char (CHR '':'') = CHR '':''" "py_lower_char (CHR ''/'') = CHR ''/''" "py_lower_char (CHR ''['') = CHR ''[''"
  "py_lower_char (CHR '']'') = CHR '']''"
  by (simp_all add: py_lower_char_def cc_def)

lemma py_lower_char_cases: "py_lower_char c = c \<or> 97 \<le> cc (py_lower_char c)"
  by (auto simp: py_lower_char_def cc_def)

lemma py_lower_char_special: "c \<notin> set ''@/?#'' \<Longrightarrow> py_lower_char c \<notin> set ''@/?#''"
  using py_lower_char_cases [of c] by (auto simp: cc_def)

lemma py_lower_ne: "py_lower s = [] \<longleftrightarrow> s = []"
  by (simp add: py_lower_def)

text \<open>Splitting a URL without query and fragment delimiters.\<close>

lemma urlsplit_netloc_chars: "urlsplit ok url = Some u \<Longrightarrow> c \<in> set (u_netloc u) \<Longrightarrow> \<not> is_netloc_end c"
  by (auto simp: urlsplit_def Let_def split: prod.splits if_splits dest: set_takeWhileD)

lemma split_scheme_some:
  assumes "split_scheme url = (scheme, rest)" "scheme \<noteq> []"
  obtains pre where "url = pre @ CHR '':'' # rest" "py_lower pre = scheme"
proof -
  obtain pre found r where p: "partition_at (CHR '':'') url = (pre, found, r)" by (metis prod.exhaust)
  have f: "found" "py_lower pre = scheme" "r = rest" using assms p by (auto simp: split_scheme_def split: if_splits)
  then have "partition_at (CHR '':'') url = (pre, True, rest)" using p by simp
  from partition_at_found [OF this] f(2) that show thesis by blast
qed

lemma urlsplit_plain:
  assumes "urlsplit ok url = Some u" "u_netloc u \<noteq> []" "u_scheme u \<noteq> []" "CHR ''?'' \<notin> set url" "CHR ''#'' \<notin> set url"
  obtains pre where "url = pre @ ''://'' @ u_netloc u @ u_path u" "py_lower pre = u_scheme u"
proof -
  obtain rest where s: "split_scheme url = (u_scheme u, rest)"
    and n: "u_netloc u = (if take 2 rest = ''//'' then takeWhile (\<lambda>c. \<not> is_netloc_end c) (drop 2 rest) else [])"
    using assms(1) by (auto simp: urlsplit_def Let_def split: prod.splits if_splits)
  obtain pre where pre: "url = pre @ CHR '':'' # rest" "py_lower pre = u_scheme u" by (rule split_scheme_some [OF s assms(3)])
  have sl: "take 2 rest = ''//''" using n assms(2) by metis
  let ?tail = "dropWhile (\<lambda>c. \<not> is_netloc_end c) (drop 2 rest)"
  have "set ?tail \<subseteq> set url" using pre(1) by (auto dest: set_dropWhileD in_set_dropD)
  then have "partition_at (CHR ''#'') ?tail = (?tail, False, [])" "partition_at (CHR ''?'') ?tail = (?tail, False, [])"
    using assms(4,5) by (auto intro!: partition_at_absent)
  then have "urlsplit ok url \<noteq> None \<Longrightarrow> map_option u_path (urlsplit ok url) = Some ?tail"
    using s sl by (simp add: urlsplit_def Let_def split: if_splits)
  then have "u_path u = ?tail" using assms(1) by simp
  then have "rest = ''//'' @ u_netloc u @ u_path u"
    using append_take_drop_id [of 2 rest] sl n by simp
  then show thesis using pre that by simp
qed

lemma split_raw_authority_text:
  assumes "split_raw_authority L netloc = Inr (host, port_text)"
  shows "py_lower netloc = host @ (case port_text of None \<Rightarrow> [] | Some t \<Rightarrow> CHR '':'' # py_lower t)"
proof (cases "take 1 netloc = ''[''")
  case True
  then obtain t where t: "netloc = CHR ''['' # t" by (cases netloc) auto
  obtain h found rest where p: "partition_at (CHR '']'') t = (h, found, rest)" by (metis prod.exhaust)
  then have "found" "host = ''['' @ py_lower h @ '']''" "rest = [] \<and> port_text = None \<or> rest \<noteq> [] \<and> hd rest = CHR '':'' \<and> port_text = Some (tl rest)"
    using assms t by (auto simp: split_raw_authority_def split: if_splits)
  then show ?thesis
    using partition_at_found [of "CHR '']''" t h rest] p t by (cases rest) (auto simp: py_lower_Cons)
next
  case False
  obtain h sep pt where p: "partition_at (CHR '':'') netloc = (h, sep, pt)" by (metis prod.exhaust)
  then have "host = py_lower h" "port_text = (if sep then Some pt else None)"
    using assms False by (auto simp: split_raw_authority_def Let_def split: if_splits)
  then show ?thesis
    using p partition_at_found [of "CHR '':''" netloc h pt] partition_at_not_found [of "CHR '':''" netloc h pt]
    by (cases sep) (auto simp: py_lower_Cons)
qed

lemma parse_canonical_port_text:
  assumes "parse_canonical_port port_text = Inr port"
  shows "(case port_text of None \<Rightarrow> [] | Some t \<Rightarrow> CHR '':'' # py_lower t) = port_part port"
proof (cases port_text)
  case None
  then show ?thesis using assms by (simp add: parse_canonical_port_def port_part_def)
next
  case (Some t)
  then obtain p where p: "list_all is_ascii_digit t" "1 \<le> p" "t = show_int p" "port = Some (nat p)"
    using assms by (auto simp: parse_canonical_port_def is_ascii_decimal_def split: option.splits if_splits)
  then show ?thesis
    using Some py_lower_digits [OF p(1)] by (simp add: port_part_def show_int_def)
qed

lemma parse_outbound_url_text:
  assumes "parse_outbound_url L v = Inr (scheme, host, port, path)" "scheme \<noteq> []"
  obtains pre netloc where "v = pre @ ''://'' @ netloc @ path" "py_lower pre = scheme" "py_lower netloc = host @ port_part port"
    "CHR ''@'' \<notin> set netloc"
proof -
  obtain u pt where u: "url_text_ok v" "urlsplit (bracket_ok L) v = Some u" "u_netloc u \<noteq> []" "CHR ''@'' \<notin> set (u_netloc u)"
    "split_raw_authority L (u_netloc u) = Inr (host, pt)" "parse_canonical_port pt = Inr port"
    "scheme = py_lower (u_scheme u)" "path = u_path u"
    using assms(1) by (auto simp: parse_outbound_url_def Let_def split: if_splits option.splits sum.splits)
  have ne: "u_scheme u \<noteq> []" using assms(2) u(7) by (auto simp: py_lower_def)
  have "CHR ''?'' \<notin> set v" "CHR ''#'' \<notin> set v" using u(1) by (auto simp: url_text_ok_def list_all_iff)
  then obtain pre where pre: "v = pre @ ''://'' @ u_netloc u @ u_path u" "py_lower pre = u_scheme u"
    using urlsplit_plain [OF u(2,3) ne] by blast
  have "py_lower (u_scheme u) = u_scheme u"
    using pre(2) py_lower_idem [of pre] by simp
  then show thesis
    using that [of pre "u_netloc u"] pre u(4,7,8) split_raw_authority_text [OF u(5)] parse_canonical_port_text [OF u(6)] by simp
qed

text \<open>
  The callback origin is taken over as written: an accepted \<open>PUBLIC_BASE_URL\<close> differs from its
  canonical form only in the case of its letters and in one trailing slash, and the canonical form
  is an https origin without user information, path, query or fragment. Nothing is repaired.
\<close>

theorem public_base_url_not_repaired:
  assumes "normalize_public_base_url L v = Inr url"
  shows "(py_lower v = url \<or> py_lower v = url @ ''/'')
       \<and> (\<exists>authority. url = ''https://'' @ authority \<and> authority \<noteq> [] \<and> set authority \<inter> set ''@/?#'' = {})"
proof -
  obtain u host pt port where u: "url_text_ok v" "urlsplit (bracket_ok L) v = Some u" "py_lower (u_scheme u) = ''https''"
    "u_path u \<in> {[], ''/''}" "u_netloc u \<noteq> []" "CHR ''@'' \<notin> set (u_netloc u)"
    "split_raw_authority L (u_netloc u) = Inr (host, pt)" "parse_canonical_port pt = Inr port" "url = ''https://'' @ host @ port_part port"
    using assms by (auto simp: normalize_public_base_url_def Let_def split: if_splits option.splits sum.splits)
  have ne: "u_scheme u \<noteq> []" using u(3) by auto
  have plain: "CHR ''?'' \<notin> set v" "CHR ''#'' \<notin> set v" using u(1) by (auto simp: url_text_ok_def list_all_iff)
  obtain pre where pre: "v = pre @ ''://'' @ u_netloc u @ u_path u" "py_lower pre = u_scheme u"
    using urlsplit_plain [OF u(2,5) ne plain] by blast
  have low: "py_lower (u_netloc u) = host @ port_part port"
    using split_raw_authority_text [OF u(7)] parse_canonical_port_text [OF u(8)] by simp
  have scheme: "u_scheme u = ''https''" using u(3) pre(2) py_lower_idem [of pre] by simp
  have "py_lower v = url @ py_lower (u_path u)"
    unfolding pre(1) using pre(2) scheme low u(9) by (simp add: py_lower_Cons)
  then have "py_lower v = url \<or> py_lower v = url @ ''/''" using u(4) by (auto simp: py_lower_Cons)
  moreover have "set (py_lower (u_netloc u)) \<inter> set ''@/?#'' = {}"
  proof -
    have "c \<notin> set ''@/?#''" if c: "c \<in> set (u_netloc u)" for c
      using c pre(1) plain u(6) urlsplit_netloc_chars [OF u(2)] by (auto simp: is_netloc_end_def)
    then have "py_lower_char c \<notin> set ''@/?#''" if "c \<in> set (u_netloc u)" for c
      using that py_lower_char_special by blast
    then show ?thesis unfolding py_lower_def by fastforce
  qed
  moreover have "host @ port_part port \<noteq> []" using low u(5) by (metis py_lower_Nil py_lower_ne)
  ultimately show ?thesis using u(9) low by (intro conjI exI [of _ "host @ port_part port"]) auto
qed

definition demo_ip_library :: ip_library where
  "demo_ip_library = \<lparr>bracket_ok = (\<lambda>_. False), ipv6_ok = (\<lambda>_. False), ipv6_internal = (\<lambda>_. False), ipv4_internal = (\<lambda>h. take 3 h = ''10.'')\<rparr>"

lemmas url_eval = normalize_public_base_url_def normalize_bot_notify_url_def normalize_centralpay_base_url_def parse_outbound_url_def url_text_ok_def urlsplit_def split_scheme_def
  partition_at_def is_ascii_alpha_def scheme_char_def is_netloc_end_def brackets_ok_def py_lower_def py_lower_char_def
  split_raw_authority_def host_label_ok_def host_label_char_def parse_canonical_port_def port_part_def is_ascii_digit_def cc_def Let_def
  path_segments_ok_def path_segment_char_def

theorem public_base_url_not_repaired_witness:
  "normalize_public_base_url demo_ip_library ''https://pay.ir/'' = Inr ''https://pay.ir''
 \<and> (py_lower ''https://pay.ir/'' = ''https://pay.ir'' \<or> py_lower ''https://pay.ir/'' = ''https://pay.ir'' @ ''/'')"
proof -
  have "normalize_public_base_url demo_ip_library ''https://pay.ir/'' = Inr ''https://pay.ir''" by (simp add: url_eval)
  then show ?thesis using public_base_url_not_repaired by blast
qed

lemma centralpay_base_url_https:
  assumes "normalize_centralpay_base_url L v = Inr url"
  shows "\<exists>rest. url = ''https://'' @ rest \<and> CHR ''@'' \<notin> set (takeWhile (\<lambda>c. c \<noteq> CHR ''/'') rest)"
proof -
  obtain host port path path' where u: "parse_outbound_url L v = Inr (''https'', host, port, path)"
    "url = ''https://'' @ host @ port_part port @ path'" "path' = [] \<or> take 1 path' = ''/''"
    using assms by (auto simp: normalize_centralpay_base_url_def path_segments_ok_def Let_def split: sum.splits if_splits)
  obtain netloc where n: "py_lower netloc = host @ port_part port" "CHR ''@'' \<notin> set netloc"
    by (rule parse_outbound_url_text [OF u(1)]) auto
  have "CHR ''@'' \<notin> set (py_lower netloc)"
  proof
    assume "CHR ''@'' \<in> set (py_lower netloc)"
    then obtain c where "c \<in> set netloc" "py_lower_char c = CHR ''@''" by (auto simp: py_lower_def)
    then show False using n(2) py_lower_char_cases [of c] by (auto simp: cc_def)
  qed
  then have at: "CHR ''@'' \<notin> set (host @ port_part port)" using n(1) by simp
  have "set (takeWhile (\<lambda>c. c \<noteq> CHR ''/'') ((host @ port_part port) @ path')) \<subseteq> set (host @ port_part port)"
    using u(3) by (cases path') (auto simp: takeWhile_append dest: set_takeWhileD split: if_splits)
  then show ?thesis using u(2) at by (intro exI [of _ "host @ port_part port @ path'"]) auto
qed

lemma bot_notify_url_private:
  assumes "normalize_bot_notify_url L allow_insecure w = Inr url"
  shows "(\<exists>rest. url = ''https://'' @ rest)
     \<or> allow_insecure \<and> (\<exists>host rest. url = ''http://'' @ host @ rest \<and> is_private_bot_host L host)"
proof -
  obtain scheme host port path where p: "parse_outbound_url L w = Inr (scheme, host, port, path)"
    using assms by (cases "parse_outbound_url L w") (auto simp: normalize_bot_notify_url_def)
  then have "url = scheme @ ''://'' @ host @ port_part port @ path"
    "scheme = ''http'' \<and> allow_insecure \<and> is_private_bot_host L host \<or> scheme = ''https''"
    using assms by (auto simp: normalize_bot_notify_url_def split: if_splits)
  then show ?thesis by (elim disjE conjE) (simp_all, blast)
qed

text \<open>
  No secret leaves in the clear: an accepted gateway base URL is https, without user
  information, and an accepted bot URL is https, or it is http, the operator allowed that
  explicitly, and the host is one that is private by its spelling.
\<close>

theorem outbound_urls_confidential:
  "(normalize_centralpay_base_url L v = Inr url \<longrightarrow>
      (\<exists>rest. url = ''https://'' @ rest \<and> CHR ''@'' \<notin> set (takeWhile (\<lambda>c. c \<noteq> CHR ''/'') rest)))
 \<and> (normalize_bot_notify_url L allow_insecure w = Inr url' \<longrightarrow>
      (\<exists>rest. url' = ''https://'' @ rest)
    \<or> allow_insecure \<and> (\<exists>host rest. url' = ''http://'' @ host @ rest \<and> is_private_bot_host L host))"
  using centralpay_base_url_https bot_notify_url_private by blast

theorem outbound_urls_confidential_witness:
  "normalize_centralpay_base_url demo_ip_library ''https://gw.ir/api/'' = Inr ''https://gw.ir/api''
 \<and> (\<exists>rest. ''https://gw.ir/api'' = ''https://'' @ rest \<and> CHR ''@'' \<notin> set (takeWhile (\<lambda>c. c \<noteq> CHR ''/'') rest))"
proof -
  have "normalize_centralpay_base_url demo_ip_library ''https://gw.ir/api/'' = Inr ''https://gw.ir/api''"
    by (simp add: url_eval ends_with_def after_last_def)
  then show ?thesis using outbound_urls_confidential by blast
qed

text \<open>The list of administrators: positive, without repetitions, in the order of first mention.\<close>

lemma collect_ids_positive: "collect_ids parts = Inr ids \<Longrightarrow> list_all (\<lambda>i. 0 < i) ids"
proof (induction parts arbitrary: ids)
  case (Cons part parts)
  then show ?case
    by (cases "collect_ids parts") (auto simp: Let_def split: if_splits option.splits)
qed simp

lemma parse_admin_telegram_ids_ok:
  "parse_admin_telegram_ids raw = Inr ids \<Longrightarrow> distinct ids \<and> list_all (\<lambda>i. 0 < i) ids"
  using collect_ids_positive
  by (cases "collect_ids (split_at (CHR '','') raw)") (auto simp: parse_admin_telegram_ids_def list_all_iff)

lemma validate_admin_bot_settings_ok:
  "validate_admin_bot_settings cfg su = Inr ids \<Longrightarrow> ids \<noteq> [] \<and> distinct ids \<and> list_all (\<lambda>i. 0 < i) ids"
  by (auto simp: validate_admin_bot_settings_def dest: parse_admin_telegram_ids_ok split: if_splits sum.splits)

text \<open>What a constructed settings object guarantees to the rest of the code.\<close>

lemma validate_bot_settings_ok:
  assumes "validate_bot_settings L cfg su = Inr su'"
  shows "min_payment_amount_toman cfg < max_payment_amount_toman cfg"
    "su_bot_notify_connect_timeout_seconds su + su_bot_notify_read_timeout_seconds su < bot_notify_claim_timeout_seconds cfg"
    "reconciliation_initial_backoff_seconds cfg \<le> reconciliation_max_backoff_seconds cfg"
    "reconciliation_fast_window_seconds cfg < reconciliation_max_age_seconds cfg"
    "reconciliation_slow_tier_reserved_slots cfg < reconciliation_batch_size cfg"
  using assms by (auto simp: validate_bot_settings_def split: if_splits sum.splits)

end
