(* ===== verification/Worker.thy ===== *)
theory Worker
  imports Lifecycle Status Config
begin

text \<open>
  The worker process (\<open>app/worker.py\<close>): the notification loop, the reconciliation thread, their heartbeats and the process
  around them. Each iteration opens sessions of its own; what the other loop and other processes commit meanwhile is in
  the surroundings of the passes. Signals, the waits and the bounded join are left out: a run is the list of iterations
  that happen before the stop event.
\<close>

section \<open>Identities\<close>

text \<open>\<open>hostname\<close>, \<open>pid\<close> and the hexadecimal text of a random UUID are given.\<close>

definition build_worker_id :: "string \<Rightarrow> nat \<Rightarrow> string \<Rightarrow> string" where
  "build_worker_id hostname pid uuid_hex = hostname @ ''-'' @ show_nat pid @ ''-'' @ take 6 uuid_hex"

definition heartbeat_instance_id :: "string \<Rightarrow> string \<Rightarrow> string" where
  "heartbeat_instance_id worker_id loop = worker_id @ ''-'' @ loop"

section \<open>Iterations\<close>

text \<open>The write of a heartbeat: the clock, what others commit around it, the id the sequence gives a new row of the table, and whether it raises.\<close>

record beat_write =
  bw_now :: time
  bw_others :: "worker_heartbeat list \<Rightarrow> worker_heartbeat list"
  bw_next :: "worker_heartbeat list \<Rightarrow> int"
  bw_fails :: bool

text \<open>
  An exception that ends a pass is given with the number of attempts the pass had finished; closing the session
  discards what was not committed.
\<close>

record notification_iteration =
  ni_env :: notify_env
  ni_rid :: string
  ni_now :: time
  ni_locked :: "int \<Rightarrow> bool"
  ni_jitter :: "int \<Rightarrow> rat"
  ni_error :: "(string \<times> nat) option"
  ni_touch_fails :: bool
  ni_beat :: beat_write

record reconciliation_iteration =
  ri_env :: recon_env
  ri_error :: "(string \<times> nat) option"
  ri_bookkeeping_error :: string
  ri_beat :: beat_write

record worker_process =
  wp_session :: session
  wp_heartbeats :: "worker_heartbeat list"
  wp_liveness_file :: "time option"

definition write_heartbeat ::
  "string \<Rightarrow> beat_write \<Rightarrow> string \<Rightarrow> string \<Rightarrow> string option \<Rightarrow> worker_heartbeat list \<Rightarrow> worker_heartbeat list" where
  "write_heartbeat version bw worker_name instance error_code rows =
     (if bw_fails bw then bw_others bw rows
      else fst (record_worker_heartbeat (bw_others bw) version (bw_next bw (bw_others bw rows)) rows worker_name instance (bw_now bw) (error_code = None) error_code))"

definition notification_pass ::
  "settings \<Rightarrow> (string \<Rightarrow> bot_reply) option \<Rightarrow> string \<Rightarrow> notification_iteration \<Rightarrow> session \<Rightarrow> session \<times> string option" where
  "notification_pass cfg notifier worker_id ni s =
     (let pass = (\<lambda>batch. fst (run_worker_pass cfg notifier (ni_env ni) (rollback s) worker_id (ni_rid ni) (ni_now ni) (ni_locked ni) (ni_jitter ni) batch))
      in case ni_error ni of
           None \<Rightarrow> (rollback (pass DEFAULT_BATCH_SIZE), None)
         | Some (e, done) \<Rightarrow> (rollback (pass (min done DEFAULT_BATCH_SIZE)), Some e))"

definition notification_loop_step ::
  "settings \<Rightarrow> (string \<Rightarrow> bot_reply) option \<Rightarrow> string \<Rightarrow> string \<Rightarrow> worker_process \<Rightarrow> notification_iteration \<Rightarrow> worker_process" where
  "notification_loop_step cfg notifier version worker_id st ni =
     (case notification_pass cfg notifier worker_id ni (wp_session st) of
        (s, error_code) \<Rightarrow>
          \<lparr>wp_session = s,
           wp_heartbeats = write_heartbeat version (ni_beat ni) ''notification-worker'' (heartbeat_instance_id worker_id ''notification'')
                             error_code (wp_heartbeats st),
           wp_liveness_file = (if error_code = None \<and> \<not> ni_touch_fails ni then Some (ni_now ni) else wp_liveness_file st)\<rparr>)"

definition reconciliation_pass ::
  "centralpay_client \<Rightarrow> settings \<Rightarrow> string \<Rightarrow> reconciliation_iteration \<Rightarrow> session \<Rightarrow> session \<times> string option" where
  "reconciliation_pass cl cfg worker_id ri s =
     (case ri_error ri of
        Some (e, done) \<Rightarrow> (rollback (fst (run_reconciliation_pass cl cfg (ri_env ri) (rollback s) worker_id (Some done) None)), Some e)
      | None \<Rightarrow>
          (case run_reconciliation_pass cl cfg (ri_env ri) (rollback s) worker_id None None of
             (s', Some stats) \<Rightarrow> (rollback s', None)
           | (s', None) \<Rightarrow> (rollback s', Some (ri_bookkeeping_error ri))))"

definition reconciliation_loop_step ::
  "centralpay_client \<Rightarrow> settings \<Rightarrow> string \<Rightarrow> string \<Rightarrow> worker_process \<Rightarrow> reconciliation_iteration \<Rightarrow> worker_process" where
  "reconciliation_loop_step cl cfg version worker_id st ri =
     (case reconciliation_pass cl cfg worker_id ri (wp_session st) of
        (s, error_code) \<Rightarrow>
          st\<lparr>wp_session := s,
             wp_heartbeats := write_heartbeat version (ri_beat ri) RECONCILIATION_WORKER_NAME (heartbeat_instance_id worker_id ''reconciliation'')
                                error_code (wp_heartbeats st)\<rparr>)"

section \<open>The process\<close>

datatype worker_iteration = Notification_Iteration notification_iteration | Reconciliation_Iteration reconciliation_iteration

fun worker_step ::
  "centralpay_client \<Rightarrow> settings \<Rightarrow> (string \<Rightarrow> bot_reply) option \<Rightarrow> string \<Rightarrow> string \<Rightarrow> worker_process \<Rightarrow> worker_iteration \<Rightarrow> worker_process" where
  "worker_step cl cfg notifier version worker_id st (Notification_Iteration ni) = notification_loop_step cfg notifier version worker_id st ni"
| "worker_step cl cfg notifier version worker_id st (Reconciliation_Iteration ri) = reconciliation_loop_step cl cfg version worker_id st ri"

fun starts_thread :: "settings \<Rightarrow> worker_iteration \<Rightarrow> bool" where
  "starts_thread cfg (Notification_Iteration _) \<longleftrightarrow> True"
| "starts_thread cfg (Reconciliation_Iteration _) \<longleftrightarrow> reconciliation_enabled cfg"

definition worker_main ::
  "centralpay_client \<Rightarrow> settings \<Rightarrow> startup_settings \<Rightarrow> (string \<Rightarrow> bot_reply) option \<Rightarrow> string \<Rightarrow> string \<Rightarrow> session \<Rightarrow> worker_heartbeat list \<Rightarrow>
   worker_iteration list \<Rightarrow> int \<times> worker_process option" where
  "worker_main cl cfg su notifier version worker_id s beats iterations =
     (case validate_bot_notification_settings su of
        Inl _ \<Rightarrow> (2, None)
      | Inr _ \<Rightarrow>
          (0, Some (foldl (worker_step cl cfg notifier version worker_id)
                     \<lparr>wp_session = configure_alert_creation cfg s, wp_heartbeats = beats, wp_liveness_file = None\<rparr>
                     (filter (starts_thread cfg) iterations))))"

section \<open>The loops only take the bridge's steps\<close>

definition bridge_run :: "settings \<Rightarrow> (db \<Rightarrow> db) \<Rightarrow> bool" where
  "bridge_run cfg f \<longleftrightarrow> (\<forall>d. (bridge_step cfg)\<^sup>*\<^sup>* d (f d))"

text \<open>What others commit during a pass is a run of the bridge's own operations too.\<close>

fun surroundings_ok :: "settings \<Rightarrow> worker_iteration \<Rightarrow> bool" where
  "surroundings_ok cfg (Notification_Iteration ni) \<longleftrightarrow>
     (\<forall>k. bridge_run cfg (ne_before (ni_env ni) k) \<and> bridge_run cfg (ne_during (ni_env ni) k))"
| "surroundings_ok cfg (Reconciliation_Iteration ri) \<longleftrightarrow>
     (\<forall>k. bridge_run cfg (re_before (ri_env ri) k) \<and> bridge_run cfg (re_gap (ri_env ri) k))"

abbreviation runs :: "settings \<Rightarrow> db \<Rightarrow> db \<Rightarrow> bool" where
  "runs cfg \<equiv> (bridge_step cfg)\<^sup>*\<^sup>*"

lemma runs_seeing: "bridge_run cfg f \<Longrightarrow> runs cfg (durable s) (durable (rollback_seeing f s))"
  by (simp add: bridge_run_def)

lemma runs_attempt:
  assumes "bridge_run cfg f"
  shows "runs cfg (durable s) (durable (fst (execute_claimed_attempt cfg notifier f s c ms now jit)))"
proof -
  have "bridge_step cfg (durable (rollback_seeing f s)) (durable (record_attempt_result cfg (rollback_seeing f s) c oc t now jit))" for oc t
    by (rule bridge_step.record_result) simp
  then have "runs cfg (durable s) (durable (record_attempt_result cfg (rollback_seeing f s) c oc t now jit))" for oc t
    using runs_seeing [OF assms] by (meson rtranclp.rtrancl_into_rtrancl)
  then show ?thesis by (simp add: execute_claimed_attempt_def Let_def split: option.split)
qed

lemma runs_worker_loop:
  assumes "\<forall>k. bridge_run cfg (ne_before env k) \<and> bridge_run cfg (ne_during env k)"
  shows "runs cfg (durable s) (durable (fst (worker_loop cfg notifier env w budget processed s)))"
proof (induction budget arbitrary: processed s)
  case (Suc budget)
  let ?s1 = "(rollback_seeing (ne_before env processed) s)\<lparr>request_id := Some (ne_rid env processed)\<rparr>"
  obtain s2 r where claim: "claim_next_due (ne_locked env processed) ?s1 w (ne_claim_now env processed) = (s2, r)" by fastforce
  have "bridge_step cfg (durable ?s1) (durable (fst (claim_next_due (ne_locked env processed) ?s1 w (ne_claim_now env processed))))"
    by (rule bridge_step.claim_delivery) simp
  moreover have "runs cfg (durable s) (durable ?s1)" using runs_seeing [of cfg "ne_before env processed" s] assms by simp
  ultimately have two: "runs cfg (durable s) (durable s2)" using claim by simp
  show ?case
  proof (cases r)
    case None
    then show ?thesis using two claim by (simp add: Let_def)
  next
    case (Some c)
    let ?s3 = "fst (execute_claimed_attempt cfg notifier (ne_during env processed) s2 c (ne_duration env processed) (ne_result_now env processed) (ne_jitter env processed))"
    have "runs cfg (durable s2) (durable ?s3)" using runs_attempt assms by blast
    then have "runs cfg (durable s) (durable (?s3\<lparr>request_id := request_id s\<rparr>))" using two by (simp add: rtranclp_trans)
    then show ?thesis using Suc.IH [of "?s3\<lparr>request_id := request_id s\<rparr>" "Suc processed"] claim Some by (simp add: Let_def rtranclp_trans)
  qed
qed simp

lemma runs_worker_pass:
  assumes "\<forall>k. bridge_run cfg (ne_before env k) \<and> bridge_run cfg (ne_during env k)" "work s = durable s"
  shows "runs cfg (durable s) (durable (fst (run_worker_pass cfg notifier env s w rid now locked jit batch)))"
proof -
  let ?s = "s\<lparr>request_id := Some rid\<rparr>"
  obtain s1 n where rel: "release_stale_claims cfg locked ?s now jit 100 = (s1, n)" by fastforce
  have "bridge_step cfg (durable ?s) (durable (fst (release_stale_claims cfg locked ?s now jit 100)))"
    by (rule bridge_step.release_claims) (simp add: assms(2))
  then have "runs cfg (durable s) (durable (s1\<lparr>request_id := request_id s\<rparr>))" using rel by (simp add: r_into_rtranclp)
  then show ?thesis
    using runs_worker_loop [OF assms(1), of "s1\<lparr>request_id := request_id s\<rparr>" notifier w batch 0] rel
    by (simp add: run_worker_pass_def split_beta rtranclp_trans)
qed

lemma runs_finalize:
  assumes "runs cfg d (durable s)" "work s = durable s"
  shows "runs cfg d (durable (fst (finalize cfg cached s i w att outcome code now)))"
  using bridge_step.finalize_poll [OF assms(2)] assms(1) by (meson rtranclp.rtrancl_into_rtrancl)

lemma runs_recon_attempt:
  assumes "bridge_run cfg (re_gap env k)" and "work s = durable s" and "recon_claim_next_due cfg locked s w now j = (s1, Some p)"
  shows "runs cfg (durable s) (durable (fst (recon_attempt cl cfg env w k s1 p)))"
proof -
  have d1: "durable s1 = durable s" by (rule recon_claim_next_due_Some [OF assms(3,2)])
  show ?thesis
  proof (cases "re_crash env k")
    case True
    have "runs cfg (durable s) (durable (rollback_seeing (re_gap env k) s1))" using runs_seeing [OF assms(1), of s1] d1 by simp
    from runs_finalize [OF this] show ?thesis by (simp add: recon_attempt_def Let_def True)
  next
    case False
    obtain s2 r where v: "verify_and_settle cl (re_http env k) (Some cfg) Reconciliation_Source s1 p = (s2, r)" by fastforce
    have "runs cfg (durable s) (durable s2)" using bridge_step.poll [OF assms(2,3), of cl "re_http env k"] v by (simp add: r_into_rtranclp)
    then have "runs cfg (durable s) (durable (rollback_seeing (re_gap env k) s2))" using runs_seeing [OF assms(1), of s2] by (meson rtranclp_trans)
    from runs_finalize [OF this] show ?thesis
      by (simp add: recon_attempt_def Let_def False v split: sum.split settlement_outcome.split)
  qed
qed

lemma runs_recon_loop:
  assumes "\<forall>k. bridge_run cfg (re_before env k) \<and> bridge_run cfg (re_gap env k)"
  shows "runs cfg (durable s) (durable (fst (recon_loop cl cfg env w mandatory budget n st s)))"
proof (induction n arbitrary: st s)
  case (Suc n)
  let ?k = "rs_processed st"
  let ?s1 = "(rollback_seeing (re_before env ?k) s)\<lparr>request_id := Some (re_rid env ?k)\<rparr>"
  obtain s2 r where claim: "recon_claim_next_due cfg (re_locked env ?k) ?s1 w (re_now env ?k) (int ?k) = (s2, r)" by fastforce
  have one: "runs cfg (durable s) (durable ?s1)" using runs_seeing [of cfg "re_before env ?k" s] assms by simp
  show ?case
  proof (cases "\<not> (?k < mandatory \<or> re_elapsed env ?k < budget)")
    case go: False
    show ?thesis
    proof (cases r)
      case None
      then have "durable s2 = durable ?s1" using recon_claim_next_due_None(1) [of cfg _ ?s1] claim by simp
      then show ?thesis using one claim None go by (simp add: Let_def del: rollback_seeing_sel(1))
    next
      case (Some p)
      obtain s3 d where att: "recon_attempt cl cfg env w ?k s2 p = (s3, d)" by fastforce
      have "runs cfg (durable ?s1) (durable s3)"
        using runs_recon_attempt [of cfg env ?k ?s1 "re_locked env ?k" w "re_now env ?k" "int ?k" s2 p cl] assms claim Some att by simp
      then have three: "runs cfg (durable s) (durable (s3\<lparr>request_id := request_id s\<rparr>))" using one by (simp add: rtranclp_trans del: rollback_seeing_sel(1))
      show ?thesis
      proof (cases d)
        case None
        then show ?thesis using three go claim Some att by (simp add: Let_def)
      next
        case d: (Some x)
        show ?thesis
          using Suc.IH [of "s3\<lparr>request_id := request_id s\<rparr>" "count_disposition x (st\<lparr>rs_processed := ?k + 1\<rparr>)"] three go claim Some att d
          by (simp add: Let_def rtranclp_trans)
      qed
    qed
  qed (simp add: Let_def)
qed simp

lemma runs_recon_pass:
  assumes "\<forall>k. bridge_run cfg (re_before env k) \<and> bridge_run cfg (re_gap env k)"
  shows "runs cfg (durable s) (durable (fst (run_reconciliation_pass cl cfg env s w batch budget)))"
  using runs_recon_loop [OF assms] by (simp add: run_reconciliation_pass_def Let_def)

lemma runs_worker_step:
  assumes "surroundings_ok cfg it"
  shows "runs cfg (durable (wp_session st)) (durable (wp_session (worker_step cl cfg notifier version w st it)))"
proof (cases it)
  case (Notification_Iteration ni)
  then show ?thesis
    using assms runs_worker_pass [of cfg "ni_env ni" "rollback (wp_session st)"]
    by (auto simp: notification_loop_step_def notification_pass_def Let_def split: option.split prod.split)
next
  case (Reconciliation_Iteration ri)
  then show ?thesis
    using assms runs_recon_pass [of cfg "ri_env ri" "rollback (wp_session st)" cl w]
    by (auto simp: reconciliation_loop_step_def reconciliation_pass_def split: option.split prod.split) (metis fst_conv)+
qed

lemma runs_worker_steps:
  assumes "list_all (surroundings_ok cfg) its"
  shows "runs cfg (durable (wp_session st)) (durable (wp_session (foldl (worker_step cl cfg notifier version w) st its)))"
  using assms
proof (induction its arbitrary: st)
  case (Cons it its)
  then show ?case using runs_worker_step [of cfg it st cl notifier version w] by (simp add: rtranclp_trans)
qed simp

text \<open>
  C35. However the two loops of the worker interleave with each other and with the rest of the bridge, whatever the
  gateway and the bot answer and whichever passes fail, the process only performs the bridge's own transactions: the store it leaves is
  reached from the one it found by those steps, as long as what others commit meanwhile is. So the constraints of the payment table hold
  throughout, and every payment has only moved along its life cycle.
\<close>

theorem worker_process_refines_bridge:
  assumes "worker_main cl cfg su notifier version w s beats its = (code, Some st)" and "list_all (surroundings_ok cfg) its"
  shows "code = 0 \<and> (bridge_step cfg)\<^sup>*\<^sup>* (durable s) (durable (wp_session st))
       \<and> (constraints (durable s) \<longrightarrow> constraints (durable (wp_session st)) \<and> evolves (life cfg) (durable s) (durable (wp_session st)))"
proof -
  have d: "durable (configure_alert_creation cfg s) = durable s" by (simp add: configure_alert_creation_def)
  have "list_all (surroundings_ok cfg) (filter (starts_thread cfg) its)" using assms(2) by (auto simp: list_all_iff)
  from runs_worker_steps [OF this, of "\<lparr>wp_session = configure_alert_creation cfg s, wp_heartbeats = beats, wp_liveness_file = None\<rparr>" cl notifier version w]
  have "runs cfg (durable s) (durable (wp_session st))" "code = 0"
    using assms(1) d by (auto simp: worker_main_def split: sum.splits)
  then show ?thesis using run_ok by blast
qed

definition quiet_notification :: notification_iteration where
  "quiet_notification =
     \<lparr>ni_env = demo_env, ni_rid = ''r'', ni_now = 60, ni_locked = (\<lambda>_. False), ni_jitter = (\<lambda>_. 1), ni_error = None, ni_touch_fails = False,
      ni_beat = \<lparr>bw_now = 61, bw_others = (\<lambda>rows. rows), bw_next = (\<lambda>rows. foldr (\<lambda>h m. max (hb_id h) m) rows 0 + 1), bw_fails = False\<rparr>\<rparr>"

definition demo_startup :: startup_settings where
  "demo_startup =
     \<lparr>su_bot_payment_notify_url = ''https://bot.example/notify'', su_bot_notify_token = ''token'', su_allow_insecure_bot_notify_url = False,
      su_telegram_bot_username = [], su_bot_notify_connect_timeout_seconds = 5, su_bot_notify_read_timeout_seconds = 10, su_admin_bot_token = [],
      su_admin_telegram_ids = [], su_admin_bot_daily_report_time = ''09:00'', su_timezone_ok = True\<rparr>"

theorem worker_process_refines_bridge_witness:
  "\<exists>st. worker_main demo_client demo_settings demo_startup None ''1'' ''w'' (new_session empty_db 50) [] [Notification_Iteration quiet_notification] = (0, Some st)
      \<and> constraints (durable (wp_session st))"
proof -
  have ok: "list_all (surroundings_ok demo_settings) [Notification_Iteration quiet_notification]"
    by (simp add: quiet_notification_def demo_env_def bridge_run_def)
  obtain code st where run: "worker_main demo_client demo_settings demo_startup None ''1'' ''w'' (new_session empty_db 50) [] [Notification_Iteration quiet_notification] = (code, Some st)"
    by (auto simp: worker_main_def validate_bot_notification_settings_def demo_startup_def)
  from worker_process_refines_bridge [OF run ok] show ?thesis using run empty_constraints by (auto simp: new_session_def)
qed

section \<open>Each loop has a heartbeat of its own\<close>

text \<open>
  The time of the last heartbeat a loop wrote, and what the other writers of the table may do: they leave the rows of this
  process alone and keep the ids distinct, and the next id is fresh.
\<close>

fun beat_of :: "worker_iteration \<Rightarrow> string \<times> beat_write" where
  "beat_of (Notification_Iteration ni) = (''notification'', ni_beat ni)"
| "beat_of (Reconciliation_Iteration ri) = (''reconciliation'', ri_beat ri)"

definition last_beat :: "string \<Rightarrow> worker_iteration list \<Rightarrow> time option" where
  "last_beat loop its =
     (case rev (filter (\<lambda>it. fst (beat_of it) = loop \<and> \<not> bw_fails (snd (beat_of it))) its) of [] \<Rightarrow> None | it # _ \<Rightarrow> Some (bw_now (snd (beat_of it))))"

definition others_apart :: "string \<Rightarrow> beat_write \<Rightarrow> bool" where
  "others_apart w bw \<longleftrightarrow>
     (\<forall>rows. (\<forall>loop. heartbeat_of (heartbeat_instance_id w loop) (bw_others bw rows) = heartbeat_of (heartbeat_instance_id w loop) rows)
           \<and> (distinct (map hb_id rows) \<longrightarrow> distinct (map hb_id (bw_others bw rows)))
           \<and> bw_next bw rows \<notin> hb_id ` set rows)"

definition worker_name_of :: "string \<Rightarrow> string" where
  "worker_name_of loop = (if loop = ''notification'' then ''notification-worker'' else RECONCILIATION_WORKER_NAME)"

definition beat_shown :: "string \<Rightarrow> string \<Rightarrow> time option \<Rightarrow> worker_heartbeat list \<Rightarrow> bool" where
  "beat_shown w loop t rows \<longleftrightarrow>
     (case t of
        None \<Rightarrow> heartbeat_of (heartbeat_instance_id w loop) rows = None
      | Some t \<Rightarrow> \<exists>h. heartbeat_of (heartbeat_instance_id w loop) rows = Some h \<and> hb_worker_name h = worker_name_of loop \<and> hb_last_heartbeat_at h = t)"

lemma heartbeat_instance_id_inj [simp]: "heartbeat_instance_id w a = heartbeat_instance_id w b \<longleftrightarrow> a = b"
  by (simp add: heartbeat_instance_id_def)

lemma heartbeat_of_map:
  assumes "distinct (map hb_id rows)" "heartbeat_of i rows = Some h" "hb_instance_id (f h) = hb_instance_id h"
  shows "heartbeat_of i (map (\<lambda>r. if hb_id r = hb_id h then f r else r) rows) = Some (f h)"
    and "j \<noteq> i \<Longrightarrow> heartbeat_of j (map (\<lambda>r. if hb_id r = hb_id h then f r else r) rows) = heartbeat_of j rows"
proof -
  have h: "h \<in> set rows" "hb_instance_id h = i" using heartbeat_of_Some [OF assms(2)] by auto
  have one: "(if hb_id r = hb_id h then f r else r) = (if r = h then f h else r)" if "r \<in> set rows" for r
    using that h(1) assms(1) by (metis distinct_map inj_onD)
  then have rows: "map (\<lambda>r. if hb_id r = hb_id h then f r else r) rows = map (\<lambda>r. if r = h then f h else r) rows" by (intro map_cong) auto
  have "find (\<lambda>r. hb_instance_id r = i) (map (\<lambda>r. if r = h then f h else r) xs) = map_option (\<lambda>_. f h) (Some h)"
    if "find (\<lambda>r. hb_instance_id r = i) xs = Some h" for xs
    using that assms(3) h(2) by (induction xs) (auto split: if_splits)
  then show "heartbeat_of i (map (\<lambda>r. if hb_id r = hb_id h then f r else r) rows) = Some (f h)"
    using assms(2) by (simp add: heartbeat_of_def rows)
  have "find (\<lambda>r. hb_instance_id r = j) (map (\<lambda>r. if r = h then f h else r) xs) = find (\<lambda>r. hb_instance_id r = j) xs" if "j \<noteq> i" for xs
    using that assms(3) h(2) by (induction xs) auto
  then show "j \<noteq> i \<Longrightarrow> heartbeat_of j (map (\<lambda>r. if hb_id r = hb_id h then f r else r) rows) = heartbeat_of j rows"
    by (simp add: heartbeat_of_def rows)
qed

lemma worker_beat_sel [simp]:
  "hb_id (beat v now c e h) = hb_id h" "hb_instance_id (beat v now c e h) = hb_instance_id h" "hb_worker_name (beat v now c e h) = hb_worker_name h"
  "hb_last_heartbeat_at (beat v now c e h) = now"
  by (simp_all add: beat_def)

lemma heartbeat_of_snoc: "heartbeat_of i (rows @ [r]) = (case heartbeat_of i rows of None \<Rightarrow> if hb_instance_id r = i then Some r else None | Some h \<Rightarrow> Some h)"
  by (induction rows) (auto simp: heartbeat_of_def)

lemma write_heartbeat_shown:
  assumes "others_apart w bw" "distinct (map hb_id rows)" "beat_shown w loop t rows"
    and rows': "rows' = write_heartbeat version bw (worker_name_of loop) (heartbeat_instance_id w loop) err rows"
  shows "distinct (map hb_id rows') \<and> beat_shown w loop (if bw_fails bw then t else Some (bw_now bw)) rows'
       \<and> (\<forall>other u. other \<noteq> loop \<and> beat_shown w other u rows \<longrightarrow> beat_shown w other u rows')"
proof -
  let ?o = "bw_others bw rows" and ?i = "heartbeat_instance_id w loop"
  let ?upd = "beat version (bw_now bw) (err = None) err"
  have same: "heartbeat_of (heartbeat_instance_id w l) ?o = heartbeat_of (heartbeat_instance_id w l) rows" for l
    using assms(1) by (simp add: others_apart_def)
  have o: "distinct (map hb_id ?o)" "bw_next bw ?o \<notin> hb_id ` set ?o" using assms(1,2) by (simp_all add: others_apart_def)
  show ?thesis
  proof (cases "bw_fails bw")
    case True
    then show ?thesis using assms(3) o(1) by (simp add: rows' write_heartbeat_def beat_shown_def same split: option.splits)
  next
    case ok: False
    show ?thesis
    proof (cases "heartbeat_of ?i rows")
      case None
      then have "rows' = ?o @ [?upd \<lparr>hb_id = bw_next bw ?o, hb_worker_name = worker_name_of loop, hb_instance_id = ?i,
          hb_last_heartbeat_at = bw_now bw, hb_last_cycle_at = None, hb_last_error_code = None, hb_version = Some version\<rparr>]"
        by (simp add: rows' write_heartbeat_def ok record_worker_heartbeat_def Let_def same)
      then show ?thesis
        using o None by (auto simp: ok beat_shown_def heartbeat_of_snoc same split: option.splits)
    next
      case (Some h)
      have name: "hb_worker_name h = worker_name_of loop" using assms(3) Some by (auto simp: beat_shown_def split: option.splits)
      then have rows: "rows' = map (\<lambda>r. if hb_id r = hb_id h then ?upd r else r) ?o"
        using Some by (simp add: rows' write_heartbeat_def ok record_worker_heartbeat_def Let_def)
      have h: "heartbeat_of ?i ?o = Some h" using same Some by simp
      have "hb_id \<circ> (\<lambda>r. if hb_id r = hb_id h then ?upd r else r) = hb_id" by auto
      then have "map hb_id rows' = map hb_id ?o" by (simp add: rows)
      then have "distinct (map hb_id rows')" using o(1) by argo
      moreover have "heartbeat_of ?i rows' = Some (?upd h)" unfolding rows by (rule heartbeat_of_map(1) [OF o(1) h]) simp
      moreover have "heartbeat_of (heartbeat_instance_id w l) rows' = heartbeat_of (heartbeat_instance_id w l) rows" if "l \<noteq> loop" for l
        unfolding rows using heartbeat_of_map(2) [OF o(1) h, of ?upd "heartbeat_instance_id w l"] that same by simp
      ultimately show ?thesis using name by (auto simp: ok beat_shown_def split: option.splits)
    qed
  qed
qed

lemma worker_step_heartbeats:
  "\<exists>err. wp_heartbeats (worker_step cl cfg notifier version w st it)
      = write_heartbeat version (snd (beat_of it)) (worker_name_of (fst (beat_of it))) (heartbeat_instance_id w (fst (beat_of it))) err (wp_heartbeats st)"
  by (cases it) (auto simp: notification_loop_step_def reconciliation_loop_step_def worker_name_of_def split: prod.split)

lemma last_beat_snoc:
  "last_beat loop (its @ [it])
     = (if fst (beat_of it) = loop \<and> \<not> bw_fails (snd (beat_of it)) then Some (bw_now (snd (beat_of it))) else last_beat loop its)"
  by (simp add: last_beat_def)

lemma loops_heartbeats:
  fixes cl cfg notifier version s
  assumes "list_all (others_apart w \<circ> snd \<circ> beat_of) its" and "distinct (map hb_id beats)"
    and "\<forall>loop. heartbeat_of (heartbeat_instance_id w loop) beats = None"
  defines "rows \<equiv> wp_heartbeats (foldl (worker_step cl cfg notifier version w) \<lparr>wp_session = s, wp_heartbeats = beats, wp_liveness_file = None\<rparr> its)"
  shows "distinct (map hb_id rows) \<and> (\<forall>loop. beat_shown w loop (last_beat loop its) rows)"
  using assms(1) unfolding rows_def
proof (induction its rule: rev_induct)
  case Nil
  then show ?case using assms(2,3) by (simp add: last_beat_def beat_shown_def)
next
  case (snoc it its)
  let ?st = "foldl (worker_step cl cfg notifier version w) \<lparr>wp_session = s, wp_heartbeats = beats, wp_liveness_file = None\<rparr> its"
  let ?loop = "fst (beat_of it)" and ?bw = "snd (beat_of it)"
  obtain err where "wp_heartbeats (worker_step cl cfg notifier version w ?st it)
      = write_heartbeat version ?bw (worker_name_of ?loop) (heartbeat_instance_id w ?loop) err (wp_heartbeats ?st)"
    using worker_step_heartbeats by blast
  from write_heartbeat_shown [OF _ _ _ this, of "last_beat ?loop its"]
  have ok: "distinct (map hb_id (wp_heartbeats (worker_step cl cfg notifier version w ?st it)))"
    and own: "beat_shown w ?loop (if bw_fails ?bw then last_beat ?loop its else Some (bw_now ?bw)) (wp_heartbeats (worker_step cl cfg notifier version w ?st it))"
    and apart: "\<forall>other. other \<noteq> ?loop \<longrightarrow> beat_shown w other (last_beat other its) (wp_heartbeats (worker_step cl cfg notifier version w ?st it))"
    using snoc by auto
  have "beat_shown w loop (last_beat loop (its @ [it])) (wp_heartbeats (worker_step cl cfg notifier version w ?st it))" for loop
  proof (cases "loop = ?loop")
    case True
    then show ?thesis using own by (cases "bw_fails ?bw") (simp_all add: last_beat_snoc)
  next
    case False
    then show ?thesis using apart by (simp add: last_beat_snoc)
  qed
  then show ?case using ok by simp
qed

text \<open>
  The two loops of a worker never hide each other. Whatever the order of their iterations, and as long as other processes leave
  the rows of this one alone, the heartbeat row of each loop carries that loop's own worker name and the time of its own last
  successful write, and there is none exactly when it has not written yet: a stopped reconciliation thread is not masked
  by a living notification loop, nor the other way round.
\<close>

theorem loops_heartbeat_apart:
  assumes "worker_main cl cfg su notifier version w s beats its = (code, Some st)"
    and "list_all (others_apart w \<circ> snd \<circ> beat_of) its" and "distinct (map hb_id beats)"
    and "\<forall>loop. heartbeat_of (heartbeat_instance_id w loop) beats = None"
  shows "beat_shown w ''notification'' (last_beat ''notification'' (filter (starts_thread cfg) its)) (wp_heartbeats st)
       \<and> beat_shown w ''reconciliation'' (last_beat ''reconciliation'' (filter (starts_thread cfg) its)) (wp_heartbeats st)"
proof -
  have "list_all (others_apart w \<circ> snd \<circ> beat_of) (filter (starts_thread cfg) its)" using assms(2) by (auto simp: list_all_iff)
  from loops_heartbeats [OF this assms(3,4)] show ?thesis using assms(1) by (auto simp: worker_main_def split: sum.splits)
qed

lemma above_all_ids: "r \<in> set rows \<Longrightarrow> hb_id r < foldr (\<lambda>h m. max (hb_id h) m) rows 0 + 1"
  by (induction rows) auto

theorem loops_heartbeat_apart_witness:
  "\<exists>st. worker_main demo_client demo_settings demo_startup None ''1'' ''w'' (new_session empty_db 50) [] [Notification_Iteration quiet_notification] = (0, Some st)
      \<and> beat_shown ''w'' ''notification'' (Some 61) (wp_heartbeats st) \<and> beat_shown ''w'' ''reconciliation'' None (wp_heartbeats st)"
proof -
  let ?its = "[Notification_Iteration quiet_notification]"
  have "bw_next (ni_beat quiet_notification) rows \<notin> hb_id ` set rows" for rows
    using above_all_ids by (force simp: quiet_notification_def)
  then have ok: "list_all (others_apart ''w'' \<circ> snd \<circ> beat_of) ?its" by (simp add: others_apart_def) (simp add: quiet_notification_def)
  obtain st where run: "worker_main demo_client demo_settings demo_startup None ''1'' ''w'' (new_session empty_db 50) [] ?its = (0, Some st)"
    by (auto simp: worker_main_def validate_bot_notification_settings_def demo_startup_def)
  have "last_beat ''notification'' (filter (starts_thread demo_settings) ?its) = Some 61" "last_beat ''reconciliation'' (filter (starts_thread demo_settings) ?its) = None"
    by (simp_all add: last_beat_def quiet_notification_def)
  then show ?thesis using loops_heartbeat_apart [OF run ok] run by (simp add: heartbeat_of_def)
qed

end
