(* ===== verification/Schema.thy ===== *)
theory Schema
  imports Prelude
begin

text \<open>
  The part of the database the migrations work on: tables with their columns, keys, indexes, constraints and
  rows, the statements the migrations issue through \<open>op\<close> and the inspector they ask
  before, with the errors PostgreSQL answers. A condition has the three truth values of SQL; a
  constraint refuses a row only when its condition is false.
\<close>

section \<open>Values and conditions\<close>

datatype sval = S_Null | S_Int int | S_Str string | S_Time rat

datatype sql_type = BigInteger | IntegerT | StringT nat | TextT | DateTimeT | JsonT

datatype sql_term = Col string | Lit sval | Plus sql_term sql_term

datatype sql_cond =
    Is_Null string
  | Is_Not_Null string
  | Gt sql_term sql_term
  | Ge sql_term sql_term
  | Le sql_term sql_term
  | Eq sql_term sql_term
  | Ne sql_term sql_term
  | In_List sql_term "sval list"
  | Not_In_List sql_term "sval list"
  | And sql_cond sql_cond
  | Or sql_cond sql_cond

type_synonym row = "(string \<times> sval) list"

definition cell :: "row \<Rightarrow> string \<Rightarrow> sval" where
  "cell r c = (case map_of r c of None \<Rightarrow> S_Null | Some v \<Rightarrow> v)"

fun term_value :: "row \<Rightarrow> sql_term \<Rightarrow> sval" where
  "term_value r (Col c) = cell r c"
| "term_value r (Lit v) = v"
| "term_value r (Plus a b) = (case (term_value r a, term_value r b) of (S_Int x, S_Int y) \<Rightarrow> S_Int (x + y) | _ \<Rightarrow> S_Null)"

definition compare_ints :: "(int \<Rightarrow> int \<Rightarrow> bool) \<Rightarrow> sval \<Rightarrow> sval \<Rightarrow> bool option" where
  "compare_ints f a b = (case (a, b) of (S_Int x, S_Int y) \<Rightarrow> Some (f x y) | _ \<Rightarrow> None)"

definition sql_equal :: "sval \<Rightarrow> sval \<Rightarrow> bool option" where
  "sql_equal a b = (if a = S_Null \<or> b = S_Null then None else Some (a = b))"

definition sql_not :: "bool option \<Rightarrow> bool option" where
  "sql_not = map_option Not"

definition sql_and :: "bool option \<Rightarrow> bool option \<Rightarrow> bool option" where
  "sql_and a b = (if a = Some False \<or> b = Some False then Some False else if a = Some True \<and> b = Some True then Some True else None)"

definition sql_or :: "bool option \<Rightarrow> bool option \<Rightarrow> bool option" where
  "sql_or a b = (if a = Some True \<or> b = Some True then Some True else if a = Some False \<and> b = Some False then Some False else None)"

definition sql_in :: "sval \<Rightarrow> sval list \<Rightarrow> bool option" where
  "sql_in v vs = foldr (\<lambda>w acc. sql_or (sql_equal v w) acc) vs (Some False)"

fun cond_value :: "row \<Rightarrow> sql_cond \<Rightarrow> bool option" where
  "cond_value r (Is_Null c) = Some (cell r c = S_Null)"
| "cond_value r (Is_Not_Null c) = Some (cell r c \<noteq> S_Null)"
| "cond_value r (Gt a b) = compare_ints (>) (term_value r a) (term_value r b)"
| "cond_value r (Ge a b) = compare_ints (\<ge>) (term_value r a) (term_value r b)"
| "cond_value r (Le a b) = compare_ints (\<le>) (term_value r a) (term_value r b)"
| "cond_value r (Eq a b) = sql_equal (term_value r a) (term_value r b)"
| "cond_value r (Ne a b) = sql_not (sql_equal (term_value r a) (term_value r b))"
| "cond_value r (In_List a vs) = sql_in (term_value r a) vs"
| "cond_value r (Not_In_List a vs) = sql_not (sql_in (term_value r a) vs)"
| "cond_value r (And p q) = sql_and (cond_value r p) (cond_value r q)"
| "cond_value r (Or p q) = sql_or (cond_value r p) (cond_value r q)"

fun term_columns :: "sql_term \<Rightarrow> string list" where
  "term_columns (Col c) = [c]"
| "term_columns (Lit v) = []"
| "term_columns (Plus a b) = term_columns a @ term_columns b"

fun cond_columns :: "sql_cond \<Rightarrow> string list" where
  "cond_columns (Is_Null c) = [c]"
| "cond_columns (Is_Not_Null c) = [c]"
| "cond_columns (Gt a b) = term_columns a @ term_columns b"
| "cond_columns (Ge a b) = term_columns a @ term_columns b"
| "cond_columns (Le a b) = term_columns a @ term_columns b"
| "cond_columns (Eq a b) = term_columns a @ term_columns b"
| "cond_columns (Ne a b) = term_columns a @ term_columns b"
| "cond_columns (In_List a vs) = term_columns a"
| "cond_columns (Not_In_List a vs) = term_columns a"
| "cond_columns (And p q) = cond_columns p @ cond_columns q"
| "cond_columns (Or p q) = cond_columns p @ cond_columns q"

section \<open>Tables\<close>

datatype server_default = Default_Value sval | Default_Now

record column =
  col_name :: string
  col_type :: sql_type
  col_nullable :: bool
  col_default :: "server_default option"

record db_index =
  ix_name :: string
  ix_columns :: "string list"
  ix_unique :: bool
  ix_where :: "sql_cond option"

text \<open>A foreign key to one column, with \<open>ON DELETE RESTRICT\<close>.\<close>

record foreign_key =
  fk_name :: string
  fk_column :: string
  fk_table :: string
  fk_target :: string

record db_table =
  tb_columns :: "column list"
  tb_indexes :: "db_index list"
  tb_uniques :: "(string \<times> string list) list"
  tb_checks :: "(string \<times> sql_cond) list"
  tb_fks :: "foreign_key list"
  tb_rows :: "row list"

type_synonym database = "(string \<times> db_table) list"

definition has_col :: "db_table \<Rightarrow> string \<Rightarrow> bool" where
  "has_col t c \<longleftrightarrow> c \<in> set (map col_name (tb_columns t))"

definition is_key_value :: "string list \<Rightarrow> row \<Rightarrow> bool" where
  "is_key_value cs r \<longleftrightarrow> list_all (\<lambda>c. cell r c \<noteq> S_Null) cs"

text \<open>Rows with a null in the key, or outside the predicate of a partial index, never collide.\<close>

definition keys_distinct :: "string list \<Rightarrow> sql_cond option \<Rightarrow> row list \<Rightarrow> bool" where
  "keys_distinct cs w rows \<longleftrightarrow>
     distinct (map (\<lambda>r. map (cell r) cs)
       (filter (\<lambda>r. is_key_value cs r \<and> (case w of None \<Rightarrow> True | Some p \<Rightarrow> cond_value r p = Some True)) rows))"

definition passes :: "sql_cond \<Rightarrow> row list \<Rightarrow> bool" where
  "passes p rows \<longleftrightarrow> list_all (\<lambda>r. cond_value r p \<noteq> Some False) rows"

fun set_assoc :: "string \<Rightarrow> 'a \<Rightarrow> (string \<times> 'a) list \<Rightarrow> (string \<times> 'a) list" where
  "set_assoc k v [] = [(k, v)]"
| "set_assoc k v ((k', v') # kvs) = (if k' = k then (k, v) # kvs else (k', v') # set_assoc k v kvs)"

definition relation_names :: "database \<Rightarrow> string list" where
  "relation_names d = map fst d @ concat (map (\<lambda>(_, t). map ix_name (tb_indexes t) @ map fst (tb_uniques t)) d)"

definition constraint_names :: "db_table \<Rightarrow> string list" where
  "constraint_names t = map fst (tb_uniques t) @ map fst (tb_checks t) @ map fk_name (tb_fks t)"

definition references :: "string \<Rightarrow> (string \<Rightarrow> bool) \<Rightarrow> database \<Rightarrow> bool" where
  "references name column d \<longleftrightarrow>
     list_ex (\<lambda>(n, t). n \<noteq> name \<and> list_ex (\<lambda>f. fk_table f = name \<and> column (fk_target f)) (tb_fks t)) d"

section \<open>Statements\<close>

datatype sql_error =
    DuplicateTable | UndefinedTable | DuplicateColumn | UndefinedColumn | DuplicateObject | UndefinedObject
  | NotNullViolation | UniqueViolation | CheckViolation | ForeignKeyViolation | DependentObjectsStillExist
  | RuntimeError string

text \<open>What the migrations ask the inspector: \<open>get_columns\<close>, \<open>get_indexes\<close> and the like raise for a missing table.\<close>

datatype presence =
    Has_Table string
  | Has_Column string string
  | Has_Index string string
  | Has_Check string string
  | Has_Fk string string

datatype ddl =
    Create_Table string "column list" "foreign_key list"
  | Drop_Table string
  | Add_Column string column
  | Drop_Column string string
  | Create_Index string db_index
  | Drop_Index string string
  | Create_Unique string string "string list"
  | Create_Check string string sql_cond
  | Create_Fk string foreign_key
  | Drop_Constraint string string
  | Set_Not_Null string string
  | Update string string sql_term sql_cond
  | If_Absent presence ddl
  | If_Present presence ddl
  | Raise string

definition on_table :: "database \<Rightarrow> string \<Rightarrow> (db_table \<Rightarrow> sql_error + db_table) \<Rightarrow> sql_error + database" where
  "on_table d name f =
     (case map_of d name of
        None \<Rightarrow> Inl UndefinedTable
      | Some t \<Rightarrow> (case f t of Inl e \<Rightarrow> Inl e | Inr t' \<Rightarrow> Inr (set_assoc name t' d)))"

fun present :: "presence \<Rightarrow> database \<Rightarrow> sql_error + bool" where
  "present (Has_Table n) d = Inr (map_of d n \<noteq> None)"
| "present (Has_Column n c) d = (case map_of d n of None \<Rightarrow> Inl UndefinedTable | Some t \<Rightarrow> Inr (has_col t c))"
| "present (Has_Index n i) d = (case map_of d n of None \<Rightarrow> Inl UndefinedTable | Some t \<Rightarrow> Inr (i \<in> set (map ix_name (tb_indexes t))))"
| "present (Has_Check n k) d = (case map_of d n of None \<Rightarrow> Inl UndefinedTable | Some t \<Rightarrow> Inr (k \<in> set (map fst (tb_checks t))))"
| "present (Has_Fk n k) d = (case map_of d n of None \<Rightarrow> Inl UndefinedTable | Some t \<Rightarrow> Inr (k \<in> set (map fk_name (tb_fks t))))"

text \<open>\<open>now\<close> is the time of the transaction, which \<open>now()\<close> gives every row of it.\<close>

definition default_value :: "rat \<Rightarrow> column \<Rightarrow> sval" where
  "default_value now c = (case col_default c of None \<Rightarrow> S_Null | Some (Default_Value v) \<Rightarrow> v | Some Default_Now \<Rightarrow> S_Time now)"

definition create_table :: "database \<Rightarrow> string \<Rightarrow> column list \<Rightarrow> foreign_key list \<Rightarrow> sql_error + database" where
  "create_table d name cols fks =
     (if name \<in> set (relation_names d) then Inl DuplicateTable
      else if \<not> list_all (\<lambda>f. map_of d (fk_table f) \<noteq> None) fks then Inl UndefinedTable
      else Inr (d @ [(name, \<lparr>tb_columns = cols, tb_indexes = [], tb_uniques = [], tb_checks = [], tb_fks = fks, tb_rows = []\<rparr>)]))"

definition add_column :: "rat \<Rightarrow> column \<Rightarrow> db_table \<Rightarrow> sql_error + db_table" where
  "add_column now c t =
     (if has_col t (col_name c) then Inl DuplicateColumn
      else if \<not> col_nullable c \<and> default_value now c = S_Null \<and> tb_rows t \<noteq> [] then Inl NotNullViolation
      else Inr (t\<lparr>tb_columns := tb_columns t @ [c], tb_rows := map (\<lambda>r. r @ [(col_name c, default_value now c)]) (tb_rows t)\<rparr>))"

text \<open>A dropped column takes the indexes and constraints that mention it with it.\<close>

definition drop_column :: "string \<Rightarrow> db_table \<Rightarrow> db_table" where
  "drop_column c t =
     t\<lparr>tb_columns := filter (\<lambda>k. col_name k \<noteq> c) (tb_columns t),
       tb_indexes := filter (\<lambda>i. c \<notin> set (ix_columns i) \<and> (case ix_where i of None \<Rightarrow> True | Some p \<Rightarrow> c \<notin> set (cond_columns p))) (tb_indexes t),
       tb_uniques := filter (\<lambda>(_, cs). c \<notin> set cs) (tb_uniques t),
       tb_checks := filter (\<lambda>(_, p). c \<notin> set (cond_columns p)) (tb_checks t),
       tb_fks := filter (\<lambda>f. fk_column f \<noteq> c) (tb_fks t),
       tb_rows := map (filter (\<lambda>(k, _). k \<noteq> c)) (tb_rows t)\<rparr>"

definition create_index :: "db_index \<Rightarrow> db_table \<Rightarrow> sql_error + db_table" where
  "create_index i t =
     (if \<not> list_all (has_col t) (ix_columns i) then Inl UndefinedColumn
      else if ix_unique i \<and> \<not> keys_distinct (ix_columns i) (ix_where i) (tb_rows t) then Inl UniqueViolation
      else Inr (t\<lparr>tb_indexes := tb_indexes t @ [i]\<rparr>))"

definition create_unique :: "string \<Rightarrow> string list \<Rightarrow> db_table \<Rightarrow> sql_error + db_table" where
  "create_unique name cs t =
     (if \<not> list_all (has_col t) cs then Inl UndefinedColumn
      else if \<not> keys_distinct cs None (tb_rows t) then Inl UniqueViolation
      else Inr (t\<lparr>tb_uniques := tb_uniques t @ [(name, cs)]\<rparr>))"

definition create_check :: "string \<Rightarrow> sql_cond \<Rightarrow> db_table \<Rightarrow> sql_error + db_table" where
  "create_check name p t =
     (if \<not> list_all (has_col t) (cond_columns p) then Inl UndefinedColumn
      else if name \<in> set (constraint_names t) then Inl DuplicateObject
      else if \<not> passes p (tb_rows t) then Inl CheckViolation
      else Inr (t\<lparr>tb_checks := tb_checks t @ [(name, p)]\<rparr>))"

definition create_fk :: "database \<Rightarrow> foreign_key \<Rightarrow> db_table \<Rightarrow> sql_error + db_table" where
  "create_fk d f t =
     (case map_of d (fk_table f) of
        None \<Rightarrow> Inl UndefinedTable
      | Some target \<Rightarrow>
          if \<not> has_col t (fk_column f) \<or> \<not> has_col target (fk_target f) then Inl UndefinedColumn
          else if fk_name f \<in> set (constraint_names t) then Inl DuplicateObject
          else if \<not> list_all (\<lambda>r. cell r (fk_column f) = S_Null
                      \<or> cell r (fk_column f) \<in> set (map (\<lambda>q. cell q (fk_target f)) (tb_rows target))) (tb_rows t)
          then Inl ForeignKeyViolation
          else Inr (t\<lparr>tb_fks := tb_fks t @ [f]\<rparr>))"

definition drop_constraint :: "string \<Rightarrow> db_table \<Rightarrow> sql_error + db_table" where
  "drop_constraint name t =
     (if name \<notin> set (constraint_names t) then Inl UndefinedObject
      else Inr (t\<lparr>tb_uniques := filter (\<lambda>(n, _). n \<noteq> name) (tb_uniques t), tb_checks := filter (\<lambda>(n, _). n \<noteq> name) (tb_checks t),
                  tb_fks := filter (\<lambda>f. fk_name f \<noteq> name) (tb_fks t)\<rparr>))"

definition set_not_null :: "string \<Rightarrow> db_table \<Rightarrow> sql_error + db_table" where
  "set_not_null c t =
     (if \<not> has_col t c then Inl UndefinedColumn
      else if \<not> list_all (\<lambda>r. cell r c \<noteq> S_Null) (tb_rows t) then Inl NotNullViolation
      else Inr (t\<lparr>tb_columns := map (\<lambda>k. if col_name k = c then k\<lparr>col_nullable := False\<rparr> else k) (tb_columns t)\<rparr>))"

definition update_rows :: "string \<Rightarrow> sql_term \<Rightarrow> sql_cond \<Rightarrow> db_table \<Rightarrow> sql_error + db_table" where
  "update_rows c e w t =
     (let rows = map (\<lambda>r. if cond_value r w = Some True then set_assoc c (term_value r e) r else r) (tb_rows t)
      in if \<not> list_all (has_col t) (c # term_columns e @ cond_columns w) then Inl UndefinedColumn
         else if \<not> list_all (\<lambda>(_, p). passes p rows) (tb_checks t) then Inl CheckViolation
         else if \<not> list_all (\<lambda>(_, cs). keys_distinct cs None rows) (tb_uniques t)
              \<or> \<not> list_all (\<lambda>i. ix_unique i \<longrightarrow> keys_distinct (ix_columns i) (ix_where i) rows) (tb_indexes t) then Inl UniqueViolation
         else Inr (t\<lparr>tb_rows := rows\<rparr>))"

fun apply_ddl :: "rat \<Rightarrow> ddl \<Rightarrow> database \<Rightarrow> sql_error + database" where
  "apply_ddl now (Create_Table name cols fks) d = create_table d name cols fks"
| "apply_ddl now (Drop_Table name) d =
     (if map_of d name = None then Inl UndefinedTable
      else if references name (\<lambda>_. True) d then Inl DependentObjectsStillExist
      else Inr (filter (\<lambda>(n, _). n \<noteq> name) d))"
| "apply_ddl now (Add_Column name c) d = on_table d name (add_column now c)"
| "apply_ddl now (Drop_Column name c) d =
     (if references name (\<lambda>k. k = c) d then Inl DependentObjectsStillExist
      else on_table d name (\<lambda>t. if has_col t c then Inr (drop_column c t) else Inl UndefinedColumn))"
| "apply_ddl now (Create_Index name i) d =
     (if ix_name i \<in> set (relation_names d) then Inl DuplicateTable else on_table d name (create_index i))"
| "apply_ddl now (Drop_Index name i) d =
     on_table d name (\<lambda>t. if i \<in> set (map ix_name (tb_indexes t)) then Inr (t\<lparr>tb_indexes := filter (\<lambda>x. ix_name x \<noteq> i) (tb_indexes t)\<rparr>)
                          else Inl UndefinedObject)"
| "apply_ddl now (Create_Unique name k cs) d =
     (if k \<in> set (relation_names d) then Inl DuplicateTable else on_table d name (create_unique k cs))"
| "apply_ddl now (Create_Check name k p) d = on_table d name (create_check k p)"
| "apply_ddl now (Create_Fk name f) d = on_table d name (create_fk d f)"
| "apply_ddl now (Drop_Constraint name k) d = on_table d name (drop_constraint k)"
| "apply_ddl now (Set_Not_Null name c) d = on_table d name (set_not_null c)"
| "apply_ddl now (Update name c e w) d = on_table d name (update_rows c e w)"
| "apply_ddl now (If_Absent p s) d = (case present p d of Inl e \<Rightarrow> Inl e | Inr b \<Rightarrow> if b then Inr d else apply_ddl now s d)"
| "apply_ddl now (If_Present p s) d = (case present p d of Inl e \<Rightarrow> Inl e | Inr b \<Rightarrow> if b then apply_ddl now s d else Inr d)"
| "apply_ddl now (Raise message) d = Inl (RuntimeError message)"

fun run_ddl :: "rat \<Rightarrow> ddl list \<Rightarrow> database \<Rightarrow> sql_error + database" where
  "run_ddl now [] d = Inr d"
| "run_ddl now (s # ss) d = (case apply_ddl now s d of Inl e \<Rightarrow> Inl e | Inr d' \<Rightarrow> run_ddl now ss d')"

end
