(* ===== verification/Migrations.thy ===== *)
theory Migrations
  imports Schema
begin

text \<open>
  The migrations of \<open>alembic/versions\<close>, each as the statements of its \<open>upgrade\<close> and \<open>downgrade\<close>, the
  schema \<open>app/models.py\<close> declares, and Alembic's runs through the chain in one transaction. The
  variants for SQLite, which only the unit tests use, are left out.
\<close>

section \<open>Columns\<close>

definition nullable :: "string \<Rightarrow> sql_type \<Rightarrow> column" where
  "nullable n ty = \<lparr>col_name = n, col_type = ty, col_nullable = True, col_default = None\<rparr>"

definition required :: "string \<Rightarrow> sql_type \<Rightarrow> column" where
  "required n ty = \<lparr>col_name = n, col_type = ty, col_nullable = False, col_default = None\<rparr>"

definition defaulted :: "string \<Rightarrow> sql_type \<Rightarrow> sval \<Rightarrow> column" where
  "defaulted n ty v = \<lparr>col_name = n, col_type = ty, col_nullable = False, col_default = Some (Default_Value v)\<rparr>"

definition timestamped :: "string \<Rightarrow> column" where
  "timestamped n = \<lparr>col_name = n, col_type = DateTimeT, col_nullable = False, col_default = Some Default_Now\<rparr>"

definition plain_index :: "string \<Rightarrow> string list \<Rightarrow> db_index" where
  "plain_index n cs = \<lparr>ix_name = n, ix_columns = cs, ix_unique = False, ix_where = None\<rparr>"

definition unique_index :: "string \<Rightarrow> string list \<Rightarrow> db_index" where
  "unique_index n cs = \<lparr>ix_name = n, ix_columns = cs, ix_unique = True, ix_where = None\<rparr>"

definition fk :: "string \<Rightarrow> string \<Rightarrow> string \<Rightarrow> foreign_key" where
  "fk n c t = \<lparr>fk_name = n, fk_column = c, fk_table = t, fk_target = ''id''\<rparr>"

section \<open>0001: the initial schema\<close>

definition upgrade_0001 :: "ddl list" where
  "upgrade_0001 =
     [Create_Table ''payments''
        [required ''id'' BigInteger, required ''bot_order_id'' (StringT 128), required ''gateway_order_id'' BigInteger,
         required ''gateway_user_id'' BigInteger, required ''amount'' BigInteger, required ''status'' (StringT 32),
         nullable ''redirect_url'' TextT, nullable ''reference_id'' (StringT 128), nullable ''card_last4'' (StringT 4),
         nullable ''last_error'' TextT, timestamped ''created_at'', timestamped ''updated_at''] [],
      Create_Index ''payments'' (unique_index ''ix_payments_bot_order_id'' [''bot_order_id'']),
      Create_Index ''payments'' (unique_index ''ix_payments_gateway_order_id'' [''gateway_order_id'']),
      Create_Index ''payments'' (plain_index ''ix_payments_status'' [''status'']),
      Create_Table ''payment_events''
        [required ''id'' BigInteger, nullable ''payment_id'' BigInteger, required ''event_type'' (StringT 64), required ''level'' (StringT 16),
         nullable ''request_id'' (StringT 64), nullable ''data'' JsonT, timestamped ''created_at'']
        [fk ''payment_events_payment_id_fkey'' ''payment_id'' ''payments''],
      Create_Index ''payment_events'' (plain_index ''ix_payment_events_payment_id'' [''payment_id'']),
      Create_Index ''payment_events'' (plain_index ''ix_payment_events_event_type'' [''event_type'']),
      Create_Index ''payment_events'' (plain_index ''ix_payment_events_created_at'' [''created_at''])]"

definition downgrade_0001 :: "ddl list" where
  "downgrade_0001 = [Raise ''Downgrading the initial schema would delete payments and the permanent payment_events audit trail; this is not supported.'']"

section \<open>0002: bot notification\<close>

definition upgrade_0002 :: "ddl list" where
  "upgrade_0002 =
     [Add_Column ''payments'' (nullable ''gateway_verified_at'' DateTimeT),
      Add_Column ''payments'' (nullable ''bot_notify_reason'' (StringT 64)),
      Add_Column ''payments'' (defaulted ''bot_notify_attempts'' IntegerT (S_Int 0)),
      Add_Column ''payments'' (nullable ''bot_last_http_status'' IntegerT),
      Add_Column ''payments'' (nullable ''bot_last_error_code'' (StringT 64)),
      Add_Column ''payments'' (nullable ''bot_notify_started_at'' DateTimeT),
      Add_Column ''payments'' (nullable ''bot_notify_accepted_at'' DateTimeT),
      Add_Column ''payments'' (nullable ''next_retry_at'' DateTimeT),
      Add_Column ''payments'' (nullable ''manual_review_at'' DateTimeT),
      Add_Column ''payments'' (nullable ''notification_claimed_at'' DateTimeT),
      Add_Column ''payments'' (nullable ''notification_claimed_by'' (StringT 128)),
      Create_Index ''payments'' (plain_index ''ix_payments_notify_due'' [''status'', ''next_retry_at'']),
      Update ''payments'' ''gateway_verified_at'' (Col ''updated_at'')
        (And (In_List (Col ''status'') [S_Str ''gateway_verified'', S_Str ''bot_notify_pending'', S_Str ''bot_notify_accepted''])
             (Is_Null ''gateway_verified_at''))]"

definition downgrade_0002 :: "ddl list" where
  "downgrade_0002 =
     Drop_Index ''payments'' ''ix_payments_notify_due''
     # map (Drop_Column ''payments'')
         [''notification_claimed_by'', ''notification_claimed_at'', ''manual_review_at'', ''next_retry_at'', ''bot_notify_accepted_at'',
          ''bot_notify_started_at'', ''bot_last_error_code'', ''bot_last_http_status'', ''bot_notify_attempts'', ''bot_notify_reason'',
          ''gateway_verified_at'']"

section \<open>0003: the alert outbox and the heartbeats\<close>

definition upgrade_0003 :: "ddl list" where
  "upgrade_0003 =
     [Create_Table ''admin_alerts''
        [required ''id'' BigInteger, required ''alert_type'' (StringT 64), defaulted ''severity'' (StringT 16) (S_Str ''info''),
         nullable ''payment_id'' BigInteger, nullable ''deduplication_key'' (StringT 160), nullable ''payload'' JsonT,
         defaulted ''status'' (StringT 16) (S_Str ''pending''), defaulted ''attempts'' IntegerT (S_Int 0), nullable ''next_retry_at'' DateTimeT,
         nullable ''claimed_at'' DateTimeT, nullable ''claimed_by'' (StringT 128), nullable ''delivered_at'' DateTimeT,
         nullable ''last_error_code'' (StringT 64), timestamped ''created_at'', timestamped ''updated_at'']
        [fk ''admin_alerts_payment_id_fkey'' ''payment_id'' ''payments''],
      Create_Index ''admin_alerts'' (plain_index ''ix_admin_alerts_alert_type'' [''alert_type'']),
      Create_Index ''admin_alerts'' (plain_index ''ix_admin_alerts_payment_id'' [''payment_id'']),
      Create_Index ''admin_alerts'' (plain_index ''ix_admin_alerts_deduplication_key'' [''deduplication_key'']),
      Create_Index ''admin_alerts'' (plain_index ''ix_admin_alerts_status'' [''status'']),
      Create_Index ''admin_alerts'' (plain_index ''ix_admin_alerts_created_at'' [''created_at'']),
      Create_Index ''admin_alerts'' (plain_index ''ix_admin_alerts_due'' [''status'', ''next_retry_at'']),
      Create_Table ''worker_heartbeats''
        [required ''id'' BigInteger, required ''worker_name'' (StringT 64), required ''instance_id'' (StringT 128),
         required ''last_heartbeat_at'' DateTimeT, nullable ''last_cycle_at'' DateTimeT, nullable ''last_error_code'' (StringT 64),
         nullable ''version'' (StringT 32), timestamped ''created_at'', timestamped ''updated_at''] [],
      Create_Index ''worker_heartbeats'' (plain_index ''ix_worker_heartbeats_worker_name'' [''worker_name'']),
      Create_Index ''worker_heartbeats'' (unique_index ''ix_worker_heartbeats_instance_id'' [''instance_id''])]"

definition downgrade_0003 :: "ddl list" where
  "downgrade_0003 = [Drop_Table ''worker_heartbeats'', Drop_Table ''admin_alerts'']"

section \<open>0004: callback tokens, unique references, review metadata\<close>

definition upgrade_0004 :: "ddl list" where
  "upgrade_0004 =
     [Add_Column ''payments'' (nullable ''callback_token_hash'' (StringT 64)),
      Add_Column ''payments'' (nullable ''callback_token_issued_at'' DateTimeT),
      Add_Column ''payments'' (nullable ''review_acknowledged_at'' DateTimeT),
      Add_Column ''payments'' (nullable ''review_resolved_at'' DateTimeT),
      Add_Column ''payments'' (nullable ''review_resolution'' (StringT 64)),
      Create_Unique ''payments'' ''uq_payments_reference_id'' [''reference_id'']]"

definition downgrade_0004 :: "ddl list" where
  "downgrade_0004 =
     Drop_Constraint ''payments'' ''uq_payments_reference_id''
     # map (Drop_Column ''payments'')
         [''review_resolution'', ''review_resolved_at'', ''review_acknowledged_at'', ''callback_token_issued_at'', ''callback_token_hash'']"

section \<open>0005: financial constraints\<close>

definition delivery_requires_verification :: sql_cond where
  "delivery_requires_verification =
     Or (Not_In_List (Col ''status'') [S_Str ''bot_notify_pending'', S_Str ''bot_notify_accepted'']) (Is_Not_Null ''gateway_verified_at'')"

definition upgrade_0005 :: "ddl list" where
  "upgrade_0005 =
     [Create_Check ''payments'' ''ck_payments_amount_positive'' (Gt (Col ''amount'') (Lit (S_Int 0))),
      Create_Check ''payments'' ''ck_payments_attempts_non_negative'' (Ge (Col ''bot_notify_attempts'') (Lit (S_Int 0))),
      Create_Check ''payments'' ''ck_payments_delivery_requires_verification'' delivery_requires_verification]"

definition downgrade_0005 :: "ddl list" where
  "downgrade_0005 =
     map (Drop_Constraint ''payments'')
       [''ck_payments_delivery_requires_verification'', ''ck_payments_attempts_non_negative'', ''ck_payments_amount_positive'']"

section \<open>0006: the fee\<close>

definition bps_range :: "string \<Rightarrow> sql_cond" where
  "bps_range c = And (Ge (Col c) (Lit (S_Int 0))) (Le (Col c) (Lit (S_Int 10000)))"

definition cancellation_consistent :: sql_cond where
  "cancellation_consistent =
     Or (And (And (Is_Null ''cancelled_at'') (Is_Null ''cancelled_by'')) (Is_Null ''cancellation_note''))
        (And (And (Is_Not_Null ''cancelled_at'') (Is_Not_Null ''cancelled_by'')) (Is_Not_Null ''cancellation_note''))"

definition upgrade_0006 :: "ddl list" where
  "upgrade_0006 =
     [Create_Table ''fee_policies''
        [required ''id'' BigInteger, required ''rate_bps'' IntegerT, required ''effective_at'' DateTimeT, timestamped ''created_at'',
         required ''created_by'' (StringT 128), required ''note'' TextT, nullable ''cancelled_at'' DateTimeT,
         nullable ''cancelled_by'' (StringT 128), nullable ''cancellation_note'' TextT] [],
      Create_Index ''fee_policies'' (plain_index ''ix_fee_policies_effective_at'' [''effective_at'']),
      Create_Check ''fee_policies'' ''ck_fee_policies_rate_bps_range'' (bps_range ''rate_bps''),
      Create_Check ''fee_policies'' ''ck_fee_policies_note_not_empty'' (Ne (Col ''note'') (Lit (S_Str []))),
      Create_Check ''fee_policies'' ''ck_fee_policies_cancellation_consistent'' cancellation_consistent,
      Add_Column ''payments'' (nullable ''fee_policy_id'' BigInteger),
      Create_Fk ''payments'' (fk ''fk_payments_fee_policy_id'' ''fee_policy_id'' ''fee_policies''),
      Add_Column ''payments'' (defaulted ''fee_rate_bps'' IntegerT (S_Int 0)),
      Add_Column ''payments'' (defaulted ''fee_amount'' BigInteger (S_Int 0)),
      Add_Column ''payments'' (nullable ''payable_amount'' BigInteger),
      Update ''payments'' ''payable_amount'' (Col ''amount'') (Is_Null ''payable_amount''),
      Set_Not_Null ''payments'' ''payable_amount'',
      Create_Check ''payments'' ''ck_payments_fee_rate_bps_range'' (bps_range ''fee_rate_bps''),
      Create_Check ''payments'' ''ck_payments_fee_amount_non_negative'' (Ge (Col ''fee_amount'') (Lit (S_Int 0))),
      Create_Check ''payments'' ''ck_payments_payable_positive'' (Gt (Col ''payable_amount'') (Lit (S_Int 0))),
      Create_Check ''payments'' ''ck_payments_payable_equals_amount_plus_fee'' (Eq (Col ''payable_amount'') (Plus (Col ''amount'') (Col ''fee_amount'')))]"

definition downgrade_0006 :: "ddl list" where
  "downgrade_0006 =
     map (Drop_Constraint ''payments'')
       [''ck_payments_payable_equals_amount_plus_fee'', ''ck_payments_payable_positive'', ''ck_payments_fee_amount_non_negative'',
        ''ck_payments_fee_rate_bps_range'', ''fk_payments_fee_policy_id'']
     @ map (Drop_Column ''payments'') [''payable_amount'', ''fee_amount'', ''fee_rate_bps'', ''fee_policy_id'']
     @ [Drop_Table ''fee_policies'']"

section \<open>0007 to 0009: payer identities\<close>

definition upgrade_0007 :: "ddl list" where
  "upgrade_0007 =
     [Create_Table ''centralpay_payer_identities''
        [required ''id'' BigInteger, required ''customer_key_hash'' (StringT 64), required ''gateway_user_id'' BigInteger,
         defaulted ''derivation_version'' IntegerT (S_Int 1), timestamped ''created_at'', timestamped ''updated_at''] [],
      Create_Index ''centralpay_payer_identities'' (unique_index ''ix_centralpay_payer_identities_customer_key_hash'' [''customer_key_hash'']),
      Create_Unique ''centralpay_payer_identities'' ''uq_payer_identities_gateway_user_id'' [''gateway_user_id''],
      Create_Check ''centralpay_payer_identities'' ''ck_payer_identities_gateway_user_id_positive'' (Gt (Col ''gateway_user_id'') (Lit (S_Int 0))),
      Create_Check ''centralpay_payer_identities'' ''ck_payer_identities_derivation_version_positive'' (Ge (Col ''derivation_version'') (Lit (S_Int 1))),
      Add_Column ''payments'' (nullable ''payer_identity_id'' BigInteger),
      Create_Index ''payments'' (plain_index ''ix_payments_payer_identity_id'' [''payer_identity_id'']),
      Create_Fk ''payments'' (fk ''fk_payments_payer_identity_id'' ''payer_identity_id'' ''centralpay_payer_identities''),
      Add_Column ''payments'' (nullable ''payer_derivation_version'' IntegerT)]"

definition downgrade_0007 :: "ddl list" where
  "downgrade_0007 =
     [Drop_Constraint ''payments'' ''fk_payments_payer_identity_id'', Drop_Index ''payments'' ''ix_payments_payer_identity_id'']
     @ map (Drop_Column ''payments'') [''payer_derivation_version'', ''payer_identity_id'']
     @ [Drop_Table ''centralpay_payer_identities'']"

definition identity_type_valid :: sql_cond where
  "identity_type_valid = Or (Is_Null ''payer_identity_type'') (In_List (Col ''payer_identity_type'') [S_Str ''telegram_user'', S_Str ''order_fallback''])"

definition upgrade_0008 :: "ddl list" where
  "upgrade_0008 =
     [If_Absent (Has_Column ''payments'' ''payer_identity_type'') (Add_Column ''payments'' (nullable ''payer_identity_type'' (StringT 16))),
      If_Absent (Has_Check ''payments'' ''ck_payments_payer_identity_type_valid'')
        (Create_Check ''payments'' ''ck_payments_payer_identity_type_valid'' identity_type_valid)]"

type_synonym environ = "string \<Rightarrow> string option"

definition downgrade_0008 :: "environ \<Rightarrow> ddl list" where
  "downgrade_0008 env =
     (if env ''CENTRALPAY_DROP_PAYER_IDENTITY'' \<noteq> Some ''1'' then []
      else [If_Present (Has_Check ''payments'' ''ck_payments_payer_identity_type_valid'') (Drop_Constraint ''payments'' ''ck_payments_payer_identity_type_valid''),
            If_Present (Has_Column ''payments'' ''payer_identity_type'') (Drop_Column ''payments'' ''payer_identity_type'')])"

definition identity_scheme_valid :: sql_cond where
  "identity_scheme_valid =
     In_List (Col ''identity_scheme'') [S_Str ''telegram_raw_v1'', S_Str ''order_hmac_v1'', S_Str ''historical_hmac_v1'']"

definition upgrade_0009 :: "ddl list" where
  "upgrade_0009 =
     [If_Absent (Has_Column ''centralpay_payer_identities'' ''identity_scheme'')
        (Add_Column ''centralpay_payer_identities'' (defaulted ''identity_scheme'' (StringT 32) (S_Str ''historical_hmac_v1''))),
      If_Absent (Has_Check ''centralpay_payer_identities'' ''ck_payer_identities_identity_scheme_valid'')
        (Create_Check ''centralpay_payer_identities'' ''ck_payer_identities_identity_scheme_valid'' identity_scheme_valid)]"

definition downgrade_0009 :: "environ \<Rightarrow> ddl list" where
  "downgrade_0009 env =
     (if env ''CENTRALPAY_DROP_PAYER_IDENTITY'' \<noteq> Some ''1'' then []
      else [If_Present (Has_Check ''centralpay_payer_identities'' ''ck_payer_identities_identity_scheme_valid'')
              (Drop_Constraint ''centralpay_payer_identities'' ''ck_payer_identities_identity_scheme_valid''),
            If_Present (Has_Column ''centralpay_payer_identities'' ''identity_scheme'') (Drop_Column ''centralpay_payer_identities'' ''identity_scheme'')])"

section \<open>0010: reconciliation\<close>

definition fresh_columns :: "column list" where
  "fresh_columns =
     [defaulted ''reconciliation_attempts'' IntegerT (S_Int 0), nullable ''reconciliation_next_at'' DateTimeT,
      nullable ''reconciliation_last_at'' DateTimeT, nullable ''reconciliation_last_error_code'' (StringT 64),
      nullable ''reconciliation_claimed_at'' DateTimeT, nullable ''reconciliation_claimed_by'' (StringT 128)]"

definition upgrade_0010 :: "ddl list" where
  "upgrade_0010 =
     map (\<lambda>c. If_Absent (Has_Column ''payments'' (col_name c)) (Add_Column ''payments'' c)) fresh_columns
     @ [If_Absent (Has_Index ''payments'' ''ix_payments_reconciliation_due'')
          (Create_Index ''payments'' (plain_index ''ix_payments_reconciliation_due'' [''status'', ''reconciliation_next_at'']))]"

definition downgrade_0010 :: "environ \<Rightarrow> ddl list" where
  "downgrade_0010 env =
     (if env ''CENTRALPAY_DROP_RECONCILIATION'' \<noteq> Some ''1'' then []
      else If_Present (Has_Index ''payments'' ''ix_payments_reconciliation_due'') (Drop_Index ''payments'' ''ix_payments_reconciliation_due'')
           # map (\<lambda>c. If_Present (Has_Column ''payments'' c) (Drop_Column ''payments'' c)) (rev (map col_name fresh_columns)))"

section \<open>0011 and 0012: monitor incidents\<close>

definition open_check_key_index :: db_index where
  "open_check_key_index =
     \<lparr>ix_name = ''uq_monitor_incidents_open_check_key'', ix_columns = [''check_key''], ix_unique = True,
      ix_where = Some (Eq (Col ''status'') (Lit (S_Str ''open'')))\<rparr>"

definition upgrade_0011 :: "ddl list" where
  "upgrade_0011 =
     [If_Absent (Has_Table ''monitor_incidents'')
        (Create_Table ''monitor_incidents''
           [required ''id'' BigInteger, required ''check_key'' (StringT 64), required ''severity'' (StringT 16),
            defaulted ''status'' (StringT 16) (S_Str ''open''), timestamped ''opened_at'', timestamped ''last_seen_at'',
            nullable ''resolved_at'' DateTimeT, nullable ''last_alerted_at'' DateTimeT, nullable ''details'' JsonT,
            timestamped ''created_at'', timestamped ''updated_at''] []),
      If_Absent (Has_Index ''monitor_incidents'' ''ix_monitor_incidents_check_key_status'')
        (Create_Index ''monitor_incidents'' (plain_index ''ix_monitor_incidents_check_key_status'' [''check_key'', ''status''])),
      If_Absent (Has_Index ''monitor_incidents'' ''uq_monitor_incidents_open_check_key'') (Create_Index ''monitor_incidents'' open_check_key_index)]"

definition downgrade_0011 :: "environ \<Rightarrow> ddl list" where
  "downgrade_0011 env =
     (if env ''CENTRALPAY_DROP_MONITOR_INCIDENTS'' \<noteq> Some ''1'' then []
      else [If_Present (Has_Table ''monitor_incidents'') (Drop_Table ''monitor_incidents'')])"

definition upgrade_0012 :: "ddl list" where
  "upgrade_0012 =
     [If_Absent (Has_Column ''monitor_incidents'' ''last_alert_id'') (Add_Column ''monitor_incidents'' (nullable ''last_alert_id'' BigInteger)),
      If_Absent (Has_Fk ''monitor_incidents'' ''fk_monitor_incidents_last_alert_id'')
        (Create_Fk ''monitor_incidents'' (fk ''fk_monitor_incidents_last_alert_id'' ''last_alert_id'' ''admin_alerts''))]"

definition downgrade_0012 :: "environ \<Rightarrow> ddl list" where
  "downgrade_0012 env =
     (if env ''CENTRALPAY_DROP_MONITOR_INCIDENT_LAST_ALERT'' \<noteq> Some ''1'' then []
      else [If_Present (Has_Fk ''monitor_incidents'' ''fk_monitor_incidents_last_alert_id'')
              (Drop_Constraint ''monitor_incidents'' ''fk_monitor_incidents_last_alert_id''),
            If_Present (Has_Column ''monitor_incidents'' ''last_alert_id'') (Drop_Column ''monitor_incidents'' ''last_alert_id'')])"

section \<open>0013: attention resolution\<close>

definition attention_columns :: "column list" where
  "attention_columns =
     [nullable ''attention_resolved_at'' DateTimeT, nullable ''attention_resolution'' (StringT 64),
      nullable ''attention_resolved_by'' (StringT 128), nullable ''attention_resolution_note'' TextT]"

definition attention_consistent :: sql_cond where
  "attention_consistent =
     Or (And (And (And (Is_Null ''attention_resolved_at'') (Is_Null ''attention_resolution'')) (Is_Null ''attention_resolved_by''))
             (Is_Null ''attention_resolution_note''))
        (And (And (And (Is_Not_Null ''attention_resolved_at'') (Is_Not_Null ''attention_resolution'')) (Is_Not_Null ''attention_resolved_by''))
             (Is_Not_Null ''attention_resolution_note''))"

definition attention_not_empty :: sql_cond where
  "attention_not_empty =
     Or (Is_Null ''attention_resolved_at'')
        (And (And (Ne (Col ''attention_resolution'') (Lit (S_Str []))) (Ne (Col ''attention_resolved_by'') (Lit (S_Str []))))
             (Ne (Col ''attention_resolution_note'') (Lit (S_Str []))))"

definition attention_index :: db_index where
  "attention_index =
     \<lparr>ix_name = ''ix_payments_attention_unresolved'', ix_columns = [''status'', ''created_at''], ix_unique = False,
      ix_where = Some (Is_Null ''attention_resolved_at'')\<rparr>"

definition upgrade_0013 :: "ddl list" where
  "upgrade_0013 =
     map (\<lambda>c. If_Absent (Has_Column ''payments'' (col_name c)) (Add_Column ''payments'' c)) attention_columns
     @ [If_Absent (Has_Check ''payments'' ''ck_payments_attention_resolution_consistent'')
          (Create_Check ''payments'' ''ck_payments_attention_resolution_consistent'' attention_consistent),
        If_Absent (Has_Check ''payments'' ''ck_payments_attention_resolution_fields_not_empty'')
          (Create_Check ''payments'' ''ck_payments_attention_resolution_fields_not_empty'' attention_not_empty),
        If_Absent (Has_Index ''payments'' ''ix_payments_attention_unresolved'') (Create_Index ''payments'' attention_index)]"

definition downgrade_0013 :: "environ \<Rightarrow> ddl list" where
  "downgrade_0013 env =
     (if env ''CENTRALPAY_DROP_ATTENTION_RESOLUTION'' \<noteq> Some ''1'' then []
      else If_Present (Has_Index ''payments'' ''ix_payments_attention_unresolved'') (Drop_Index ''payments'' ''ix_payments_attention_unresolved'')
           # map (\<lambda>k. If_Present (Has_Check ''payments'' k) (Drop_Constraint ''payments'' k))
               [''ck_payments_attention_resolution_fields_not_empty'', ''ck_payments_attention_resolution_consistent'']
           @ map (\<lambda>c. If_Present (Has_Column ''payments'' c) (Drop_Column ''payments'' c)) (rev (map col_name attention_columns)))"

section \<open>Runs\<close>

record migration =
  mg_revision :: string
  mg_down_revision :: "string option"
  mg_upgrade :: "ddl list"
  mg_downgrade :: "environ \<Rightarrow> ddl list"

definition revisions :: "migration list" where
  "revisions =
     [\<lparr>mg_revision = ''0001'', mg_down_revision = None, mg_upgrade = upgrade_0001, mg_downgrade = (\<lambda>_. downgrade_0001)\<rparr>,
      \<lparr>mg_revision = ''0002'', mg_down_revision = Some ''0001'', mg_upgrade = upgrade_0002, mg_downgrade = (\<lambda>_. downgrade_0002)\<rparr>,
      \<lparr>mg_revision = ''0003'', mg_down_revision = Some ''0002'', mg_upgrade = upgrade_0003, mg_downgrade = (\<lambda>_. downgrade_0003)\<rparr>,
      \<lparr>mg_revision = ''0004'', mg_down_revision = Some ''0003'', mg_upgrade = upgrade_0004, mg_downgrade = (\<lambda>_. downgrade_0004)\<rparr>,
      \<lparr>mg_revision = ''0005'', mg_down_revision = Some ''0004'', mg_upgrade = upgrade_0005, mg_downgrade = (\<lambda>_. downgrade_0005)\<rparr>,
      \<lparr>mg_revision = ''0006'', mg_down_revision = Some ''0005'', mg_upgrade = upgrade_0006, mg_downgrade = (\<lambda>_. downgrade_0006)\<rparr>,
      \<lparr>mg_revision = ''0007'', mg_down_revision = Some ''0006'', mg_upgrade = upgrade_0007, mg_downgrade = (\<lambda>_. downgrade_0007)\<rparr>,
      \<lparr>mg_revision = ''0008'', mg_down_revision = Some ''0007'', mg_upgrade = upgrade_0008, mg_downgrade = downgrade_0008\<rparr>,
      \<lparr>mg_revision = ''0009'', mg_down_revision = Some ''0008'', mg_upgrade = upgrade_0009, mg_downgrade = downgrade_0009\<rparr>,
      \<lparr>mg_revision = ''0010'', mg_down_revision = Some ''0009'', mg_upgrade = upgrade_0010, mg_downgrade = downgrade_0010\<rparr>,
      \<lparr>mg_revision = ''0011'', mg_down_revision = Some ''0010'', mg_upgrade = upgrade_0011, mg_downgrade = downgrade_0011\<rparr>,
      \<lparr>mg_revision = ''0012'', mg_down_revision = Some ''0011'', mg_upgrade = upgrade_0012, mg_downgrade = downgrade_0012\<rparr>,
      \<lparr>mg_revision = ''0013'', mg_down_revision = Some ''0012'', mg_upgrade = upgrade_0013, mg_downgrade = downgrade_0013\<rparr>]"

text \<open>
  The state of a run: how many revisions are applied, and the database. \<open>run_migrations\<close> executes all
  steps in one transaction, so an error leaves everything as it was.
\<close>

definition upgrade_steps :: "nat \<Rightarrow> nat \<Rightarrow> ddl list" where
  "upgrade_steps v k = concat (map mg_upgrade (take (k - v) (drop v revisions)))"

definition upgrade_to :: "rat \<Rightarrow> nat \<Rightarrow> nat \<times> database \<Rightarrow> sql_error + nat \<times> database" where
  "upgrade_to now k st =
     (case run_ddl now (upgrade_steps (fst st) k) (snd st) of Inl e \<Rightarrow> Inl e | Inr d \<Rightarrow> Inr (max (fst st) (min k (length revisions)), d))"

definition downgrade_steps :: "environ \<Rightarrow> nat \<Rightarrow> nat \<Rightarrow> ddl list" where
  "downgrade_steps env v k = concat (map (\<lambda>m. mg_downgrade m env) (rev (drop k (take v revisions))))"

definition downgrade_to :: "rat \<Rightarrow> environ \<Rightarrow> nat \<Rightarrow> nat \<times> database \<Rightarrow> sql_error + nat \<times> database" where
  "downgrade_to now env k st =
     (case run_ddl now (downgrade_steps env (fst st) k) (snd st) of Inl e \<Rightarrow> Inl e | Inr d \<Rightarrow> Inr (min (fst st) k, d))"

text \<open>\<open>env.py\<close> runs nothing without a database URL.\<close>

definition database_url :: "environ \<Rightarrow> sql_error + string" where
  "database_url env =
     (case env ''DATABASE_URL'' of
        None \<Rightarrow> Inl (RuntimeError ''DATABASE_URL environment variable is required to run migrations'')
      | Some url \<Rightarrow> if url = [] then Inl (RuntimeError ''DATABASE_URL environment variable is required to run migrations'') else Inr url)"

section \<open>The schema after 0007, 0010 and 0013\<close>

text \<open>
  The schema production had when 0008 was written, and what the later revisions make of it, without rows. Only
  the proofs use these; \<open>edit\<close> changes one table.
\<close>

definition schema_0007 :: database where
  "schema_0007 =
     [(''payments'',
        \<lparr>tb_columns =
         [required ''id'' BigInteger, required ''bot_order_id'' (StringT 128), required ''gateway_order_id'' BigInteger,
          required ''gateway_user_id'' BigInteger, required ''amount'' BigInteger, required ''status'' (StringT 32), nullable ''redirect_url'' TextT,
          nullable ''reference_id'' (StringT 128), nullable ''card_last4'' (StringT 4), nullable ''last_error'' TextT, timestamped ''created_at'',
          timestamped ''updated_at'', nullable ''gateway_verified_at'' DateTimeT, nullable ''bot_notify_reason'' (StringT 64),
          defaulted ''bot_notify_attempts'' IntegerT (S_Int 0), nullable ''bot_last_http_status'' IntegerT,
          nullable ''bot_last_error_code'' (StringT 64), nullable ''bot_notify_started_at'' DateTimeT, nullable ''bot_notify_accepted_at'' DateTimeT,
          nullable ''next_retry_at'' DateTimeT, nullable ''manual_review_at'' DateTimeT, nullable ''notification_claimed_at'' DateTimeT,
          nullable ''notification_claimed_by'' (StringT 128), nullable ''callback_token_hash'' (StringT 64),
          nullable ''callback_token_issued_at'' DateTimeT, nullable ''review_acknowledged_at'' DateTimeT, nullable ''review_resolved_at'' DateTimeT,
          nullable ''review_resolution'' (StringT 64), nullable ''fee_policy_id'' BigInteger, defaulted ''fee_rate_bps'' IntegerT (S_Int 0),
          defaulted ''fee_amount'' BigInteger (S_Int 0), required ''payable_amount'' BigInteger, nullable ''payer_identity_id'' BigInteger,
          nullable ''payer_derivation_version'' IntegerT],
         tb_indexes = [unique_index ''ix_payments_bot_order_id'' [''bot_order_id''], unique_index ''ix_payments_gateway_order_id'' [''gateway_order_id''],
          plain_index ''ix_payments_status'' [''status''], plain_index ''ix_payments_notify_due'' [''status'', ''next_retry_at''],
          plain_index ''ix_payments_payer_identity_id'' [''payer_identity_id'']],
         tb_uniques = [(''uq_payments_reference_id'', [''reference_id''])],
         tb_checks =
         [(''ck_payments_amount_positive'', Gt (Col ''amount'') (Lit (S_Int 0))),
          (''ck_payments_attempts_non_negative'', Ge (Col ''bot_notify_attempts'') (Lit (S_Int 0))),
          (''ck_payments_delivery_requires_verification'', delivery_requires_verification),
          (''ck_payments_fee_rate_bps_range'', bps_range ''fee_rate_bps''),
          (''ck_payments_fee_amount_non_negative'', Ge (Col ''fee_amount'') (Lit (S_Int 0))),
          (''ck_payments_payable_positive'', Gt (Col ''payable_amount'') (Lit (S_Int 0))),
          (''ck_payments_payable_equals_amount_plus_fee'', Eq (Col ''payable_amount'') (Plus (Col ''amount'') (Col ''fee_amount'')))],
         tb_fks = [fk ''fk_payments_fee_policy_id'' ''fee_policy_id'' ''fee_policies'',
          fk ''fk_payments_payer_identity_id'' ''payer_identity_id'' ''centralpay_payer_identities''], tb_rows = []\<rparr>),
      (''payment_events'',
        \<lparr>tb_columns =
         [required ''id'' BigInteger, nullable ''payment_id'' BigInteger, required ''event_type'' (StringT 64), required ''level'' (StringT 16),
          nullable ''request_id'' (StringT 64), nullable ''data'' JsonT, timestamped ''created_at''],
         tb_indexes = [plain_index ''ix_payment_events_payment_id'' [''payment_id''], plain_index ''ix_payment_events_event_type'' [''event_type''],
          plain_index ''ix_payment_events_created_at'' [''created_at'']],
         tb_uniques = [],
         tb_checks =
         [],
         tb_fks = [fk ''payment_events_payment_id_fkey'' ''payment_id'' ''payments''], tb_rows = []\<rparr>),
      (''admin_alerts'',
        \<lparr>tb_columns =
         [required ''id'' BigInteger, required ''alert_type'' (StringT 64), defaulted ''severity'' (StringT 16) (S_Str ''info''),
          nullable ''payment_id'' BigInteger, nullable ''deduplication_key'' (StringT 160), nullable ''payload'' JsonT,
          defaulted ''status'' (StringT 16) (S_Str ''pending''), defaulted ''attempts'' IntegerT (S_Int 0), nullable ''next_retry_at'' DateTimeT,
          nullable ''claimed_at'' DateTimeT, nullable ''claimed_by'' (StringT 128), nullable ''delivered_at'' DateTimeT,
          nullable ''last_error_code'' (StringT 64), timestamped ''created_at'', timestamped ''updated_at''],
         tb_indexes = [plain_index ''ix_admin_alerts_alert_type'' [''alert_type''], plain_index ''ix_admin_alerts_payment_id'' [''payment_id''],
          plain_index ''ix_admin_alerts_deduplication_key'' [''deduplication_key''], plain_index ''ix_admin_alerts_status'' [''status''],
          plain_index ''ix_admin_alerts_created_at'' [''created_at''], plain_index ''ix_admin_alerts_due'' [''status'', ''next_retry_at'']],
         tb_uniques = [],
         tb_checks =
         [],
         tb_fks = [fk ''admin_alerts_payment_id_fkey'' ''payment_id'' ''payments''], tb_rows = []\<rparr>),
      (''worker_heartbeats'',
        \<lparr>tb_columns =
         [required ''id'' BigInteger, required ''worker_name'' (StringT 64), required ''instance_id'' (StringT 128),
          required ''last_heartbeat_at'' DateTimeT, nullable ''last_cycle_at'' DateTimeT, nullable ''last_error_code'' (StringT 64),
          nullable ''version'' (StringT 32), timestamped ''created_at'', timestamped ''updated_at''],
         tb_indexes = [plain_index ''ix_worker_heartbeats_worker_name'' [''worker_name''], unique_index ''ix_worker_heartbeats_instance_id'' [''instance_id'']],
         tb_uniques = [],
         tb_checks =
         [],
         tb_fks = [], tb_rows = []\<rparr>),
      (''fee_policies'',
        \<lparr>tb_columns =
         [required ''id'' BigInteger, required ''rate_bps'' IntegerT, required ''effective_at'' DateTimeT, timestamped ''created_at'',
          required ''created_by'' (StringT 128), required ''note'' TextT, nullable ''cancelled_at'' DateTimeT,
          nullable ''cancelled_by'' (StringT 128), nullable ''cancellation_note'' TextT],
         tb_indexes = [plain_index ''ix_fee_policies_effective_at'' [''effective_at'']],
         tb_uniques = [],
         tb_checks =
         [(''ck_fee_policies_rate_bps_range'', bps_range ''rate_bps''), (''ck_fee_policies_note_not_empty'', Ne (Col ''note'') (Lit (S_Str []))),
          (''ck_fee_policies_cancellation_consistent'', cancellation_consistent)],
         tb_fks = [], tb_rows = []\<rparr>),
      (''centralpay_payer_identities'',
        \<lparr>tb_columns =
         [required ''id'' BigInteger, required ''customer_key_hash'' (StringT 64), required ''gateway_user_id'' BigInteger,
          defaulted ''derivation_version'' IntegerT (S_Int 1), timestamped ''created_at'', timestamped ''updated_at''],
         tb_indexes = [unique_index ''ix_centralpay_payer_identities_customer_key_hash'' [''customer_key_hash'']],
         tb_uniques = [(''uq_payer_identities_gateway_user_id'', [''gateway_user_id''])],
         tb_checks =
         [(''ck_payer_identities_gateway_user_id_positive'', Gt (Col ''gateway_user_id'') (Lit (S_Int 0))),
          (''ck_payer_identities_derivation_version_positive'', Ge (Col ''derivation_version'') (Lit (S_Int 1)))],
         tb_fks = [], tb_rows = []\<rparr>)]"

definition edit :: "string \<Rightarrow> (db_table \<Rightarrow> db_table) \<Rightarrow> database \<Rightarrow> database" where
  "edit name f d = map (\<lambda>(n, t). (n, if n = name then f t else t)) d"

definition schema_0010 :: database where
  "schema_0010 =
     edit ''payments''
       (\<lambda>t. t\<lparr>tb_columns := tb_columns t @ nullable ''payer_identity_type'' (StringT 16) # fresh_columns,
             tb_indexes := tb_indexes t @ [plain_index ''ix_payments_reconciliation_due'' [''status'', ''reconciliation_next_at'']],
             tb_checks := tb_checks t @ [(''ck_payments_payer_identity_type_valid'', identity_type_valid)]\<rparr>)
       (edit ''centralpay_payer_identities''
         (\<lambda>t. t\<lparr>tb_columns := tb_columns t @ [defaulted ''identity_scheme'' (StringT 32) (S_Str ''historical_hmac_v1'')],
               tb_checks := tb_checks t @ [(''ck_payer_identities_identity_scheme_valid'', identity_scheme_valid)]\<rparr>) schema_0007)"

definition schema_0013 :: database where
  "schema_0013 =
     edit ''payments''
       (\<lambda>t. t\<lparr>tb_columns := tb_columns t @ attention_columns, tb_indexes := tb_indexes t @ [attention_index],
             tb_checks := tb_checks t @ [(''ck_payments_attention_resolution_consistent'', attention_consistent),
               (''ck_payments_attention_resolution_fields_not_empty'', attention_not_empty)]\<rparr>) schema_0010
     @ [(''monitor_incidents'',
         \<lparr>tb_columns =
          [required ''id'' BigInteger, required ''check_key'' (StringT 64), required ''severity'' (StringT 16),
           defaulted ''status'' (StringT 16) (S_Str ''open''), timestamped ''opened_at'', timestamped ''last_seen_at'',
           nullable ''resolved_at'' DateTimeT, nullable ''last_alerted_at'' DateTimeT, nullable ''details'' JsonT,
           timestamped ''created_at'', timestamped ''updated_at'', nullable ''last_alert_id'' BigInteger],
          tb_indexes = [plain_index ''ix_monitor_incidents_check_key_status'' [''check_key'', ''status''], open_check_key_index],
          tb_uniques = [], tb_checks = [], tb_fks = [fk ''fk_monitor_incidents_last_alert_id'' ''last_alert_id'' ''admin_alerts''], tb_rows = []\<rparr>)]"

section \<open>The declared schema\<close>

text \<open>
  The tables of \<open>app/models.py\<close>. A column with \<open>index=True\<close> declares the index \<open>ix_<table>_<column>\<close>,
  a unique one when the column is also \<open>unique=True\<close>; \<open>unique=True\<close> alone and a foreign key declare constraints without a name.
\<close>

definition declared :: "column list \<Rightarrow> db_index list \<Rightarrow> string list list \<Rightarrow> (string \<times> sql_cond) list \<Rightarrow> (string \<times> string) list \<Rightarrow> db_table" where
  "declared cols ixs uqs cks fks =
     \<lparr>tb_columns = cols, tb_indexes = ixs, tb_uniques = map (Pair []) uqs, tb_checks = cks, tb_fks = map (\<lambda>(c, t). fk [] c t) fks, tb_rows = []\<rparr>"

definition FeePolicy :: db_table where
  "FeePolicy = declared
     [required ''id'' BigInteger, required ''rate_bps'' IntegerT, required ''effective_at'' DateTimeT, timestamped ''created_at'',
      required ''created_by'' (StringT 128), required ''note'' TextT, nullable ''cancelled_at'' DateTimeT, nullable ''cancelled_by'' (StringT 128),
      nullable ''cancellation_note'' TextT]
     [plain_index ''ix_fee_policies_effective_at'' [''effective_at'']] []
     [(''ck_fee_policies_rate_bps_range'', bps_range ''rate_bps''), (''ck_fee_policies_note_not_empty'', Ne (Col ''note'') (Lit (S_Str []))),
      (''ck_fee_policies_cancellation_consistent'', cancellation_consistent)] []"

definition CentralPayPayerIdentity :: db_table where
  "CentralPayPayerIdentity = declared
     [required ''id'' BigInteger, required ''customer_key_hash'' (StringT 64), required ''gateway_user_id'' BigInteger,
      defaulted ''derivation_version'' IntegerT (S_Int 1), defaulted ''identity_scheme'' (StringT 32) (S_Str ''historical_hmac_v1''),
      timestamped ''created_at'', timestamped ''updated_at'']
     [unique_index ''ix_centralpay_payer_identities_customer_key_hash'' [''customer_key_hash'']] [[''gateway_user_id'']]
     [(''ck_payer_identities_gateway_user_id_positive'', Gt (Col ''gateway_user_id'') (Lit (S_Int 0))),
      (''ck_payer_identities_derivation_version_positive'', Ge (Col ''derivation_version'') (Lit (S_Int 1))),
      (''ck_payer_identities_identity_scheme_valid'', identity_scheme_valid)] []"

definition Payment :: db_table where
  "Payment = declared
     ([required ''id'' BigInteger, required ''bot_order_id'' (StringT 128), required ''gateway_order_id'' BigInteger,
       required ''gateway_user_id'' BigInteger, nullable ''payer_identity_id'' BigInteger, nullable ''payer_identity_type'' (StringT 16),
       nullable ''payer_derivation_version'' IntegerT, required ''amount'' BigInteger, nullable ''fee_policy_id'' BigInteger,
       defaulted ''fee_rate_bps'' IntegerT (S_Int 0), defaulted ''fee_amount'' BigInteger (S_Int 0), required ''payable_amount'' BigInteger,
       required ''status'' (StringT 32), nullable ''redirect_url'' TextT, nullable ''reference_id'' (StringT 128),
       nullable ''callback_token_hash'' (StringT 64), nullable ''callback_token_issued_at'' DateTimeT,
       nullable ''review_acknowledged_at'' DateTimeT, nullable ''review_resolved_at'' DateTimeT, nullable ''review_resolution'' (StringT 64),
       nullable ''attention_resolved_at'' DateTimeT, nullable ''attention_resolution'' (StringT 64),
       nullable ''attention_resolved_by'' (StringT 128), nullable ''attention_resolution_note'' TextT, nullable ''card_last4'' (StringT 4),
       nullable ''last_error'' TextT, nullable ''gateway_verified_at'' DateTimeT, nullable ''bot_notify_reason'' (StringT 64),
       defaulted ''bot_notify_attempts'' IntegerT (S_Int 0), nullable ''bot_last_http_status'' IntegerT,
       nullable ''bot_last_error_code'' (StringT 64), nullable ''bot_notify_started_at'' DateTimeT, nullable ''bot_notify_accepted_at'' DateTimeT,
       nullable ''next_retry_at'' DateTimeT, nullable ''manual_review_at'' DateTimeT, nullable ''notification_claimed_at'' DateTimeT,
       nullable ''notification_claimed_by'' (StringT 128), defaulted ''reconciliation_attempts'' IntegerT (S_Int 0),
       nullable ''reconciliation_next_at'' DateTimeT, nullable ''reconciliation_last_at'' DateTimeT,
       nullable ''reconciliation_last_error_code'' (StringT 64), nullable ''reconciliation_claimed_at'' DateTimeT,
       nullable ''reconciliation_claimed_by'' (StringT 128), timestamped ''created_at'', timestamped ''updated_at''])
     [unique_index ''ix_payments_bot_order_id'' [''bot_order_id''], unique_index ''ix_payments_gateway_order_id'' [''gateway_order_id''],
      plain_index ''ix_payments_payer_identity_id'' [''payer_identity_id''], plain_index ''ix_payments_status'' [''status''],
      plain_index ''ix_payments_notify_due'' [''status'', ''next_retry_at''],
      plain_index ''ix_payments_reconciliation_due'' [''status'', ''reconciliation_next_at''], attention_index]
     [[''reference_id'']]
     [(''ck_payments_amount_positive'', Gt (Col ''amount'') (Lit (S_Int 0))),
      (''ck_payments_attempts_non_negative'', Ge (Col ''bot_notify_attempts'') (Lit (S_Int 0))),
      (''ck_payments_fee_rate_bps_range'', bps_range ''fee_rate_bps''),
      (''ck_payments_fee_amount_non_negative'', Ge (Col ''fee_amount'') (Lit (S_Int 0))),
      (''ck_payments_payable_positive'', Gt (Col ''payable_amount'') (Lit (S_Int 0))),
      (''ck_payments_payable_equals_amount_plus_fee'', Eq (Col ''payable_amount'') (Plus (Col ''amount'') (Col ''fee_amount''))),
      (''ck_payments_delivery_requires_verification'', delivery_requires_verification),
      (''ck_payments_payer_identity_type_valid'', identity_type_valid),
      (''ck_payments_attention_resolution_consistent'', attention_consistent),
      (''ck_payments_attention_resolution_fields_not_empty'', attention_not_empty)]
     [(''payer_identity_id'', ''centralpay_payer_identities''), (''fee_policy_id'', ''fee_policies'')]"

definition AdminAlert :: db_table where
  "AdminAlert = declared
     [required ''id'' BigInteger, required ''alert_type'' (StringT 64), required ''severity'' (StringT 16), nullable ''payment_id'' BigInteger,
      nullable ''deduplication_key'' (StringT 160), nullable ''payload'' JsonT, required ''status'' (StringT 16),
      defaulted ''attempts'' IntegerT (S_Int 0), nullable ''next_retry_at'' DateTimeT, nullable ''claimed_at'' DateTimeT,
      nullable ''claimed_by'' (StringT 128), nullable ''delivered_at'' DateTimeT, nullable ''last_error_code'' (StringT 64),
      timestamped ''created_at'', timestamped ''updated_at'']
     [plain_index ''ix_admin_alerts_alert_type'' [''alert_type''], plain_index ''ix_admin_alerts_payment_id'' [''payment_id''],
      plain_index ''ix_admin_alerts_deduplication_key'' [''deduplication_key''], plain_index ''ix_admin_alerts_status'' [''status''],
      plain_index ''ix_admin_alerts_created_at'' [''created_at''], plain_index ''ix_admin_alerts_due'' [''status'', ''next_retry_at'']]
     [] [] [(''payment_id'', ''payments'')]"

definition WorkerHeartbeat :: db_table where
  "WorkerHeartbeat = declared
     [required ''id'' BigInteger, required ''worker_name'' (StringT 64), required ''instance_id'' (StringT 128),
      required ''last_heartbeat_at'' DateTimeT, nullable ''last_cycle_at'' DateTimeT, nullable ''last_error_code'' (StringT 64),
      nullable ''version'' (StringT 32), timestamped ''created_at'', timestamped ''updated_at'']
     [plain_index ''ix_worker_heartbeats_worker_name'' [''worker_name'']] [[''instance_id'']] [] []"

definition MonitorIncident :: db_table where
  "MonitorIncident = declared
     [required ''id'' BigInteger, required ''check_key'' (StringT 64), required ''severity'' (StringT 16), required ''status'' (StringT 16),
      timestamped ''opened_at'', timestamped ''last_seen_at'', nullable ''resolved_at'' DateTimeT, nullable ''last_alerted_at'' DateTimeT,
      nullable ''last_alert_id'' BigInteger, nullable ''details'' JsonT, timestamped ''created_at'', timestamped ''updated_at'']
     [plain_index ''ix_monitor_incidents_check_key'' [''check_key''],
      plain_index ''ix_monitor_incidents_check_key_status'' [''check_key'', ''status''], open_check_key_index] [] []
     [(''last_alert_id'', ''admin_alerts'')]"

definition PaymentEvent :: db_table where
  "PaymentEvent = declared
     [required ''id'' BigInteger, nullable ''payment_id'' BigInteger, required ''event_type'' (StringT 64), required ''level'' (StringT 16),
      nullable ''request_id'' (StringT 64), nullable ''data'' JsonT, timestamped ''created_at'']
     [plain_index ''ix_payment_events_payment_id'' [''payment_id''], plain_index ''ix_payment_events_event_type'' [''event_type''],
      plain_index ''ix_payment_events_created_at'' [''created_at'']] [] [] [(''payment_id'', ''payments'')]"

definition metadata :: database where
  "metadata =
     [(''fee_policies'', FeePolicy), (''centralpay_payer_identities'', CentralPayPayerIdentity), (''payments'', Payment),
      (''admin_alerts'', AdminAlert), (''worker_heartbeats'', WorkerHeartbeat), (''monitor_incidents'', MonitorIncident),
      (''payment_events'', PaymentEvent)]"

section \<open>The migrations build the declared schema\<close>

text \<open>
  Two tables agree: the same columns with the same types and nullability and at least the declared defaults, the same
  checks, foreign keys, unique keys and partial unique indexes, and the other indexes up to the names in \<open>missing\<close>.
\<close>

definition column_shape :: "column \<Rightarrow> string \<times> sql_type \<times> bool" where
  "column_shape c = (col_name c, col_type c, col_nullable c)"

definition unique_keys :: "db_table \<Rightarrow> string list list" where
  "unique_keys t = map snd (tb_uniques t) @ map ix_columns (filter (\<lambda>i. ix_unique i \<and> ix_where i = None) (tb_indexes t))"

definition other_indexes :: "db_table \<Rightarrow> db_index list" where
  "other_indexes t = filter (\<lambda>i. \<not> ix_unique i \<or> ix_where i \<noteq> None) (tb_indexes t)"

definition same_members :: "'a list \<Rightarrow> 'a list \<Rightarrow> bool" where
  "same_members xs ys \<longleftrightarrow> list_all (\<lambda>x. List.member ys x) xs \<and> list_all (\<lambda>y. List.member xs y) ys \<and> length xs = length ys"

definition tables_agree :: "string list \<Rightarrow> db_table \<Rightarrow> db_table \<Rightarrow> bool" where
  "tables_agree missing model actual \<longleftrightarrow>
     same_members (map column_shape (tb_columns model)) (map column_shape (tb_columns actual))
   \<and> list_all (\<lambda>c. col_default c = None \<or> List.member (tb_columns actual) c) (tb_columns model)
   \<and> same_members (tb_checks model) (tb_checks actual)
   \<and> same_members (map (\<lambda>f. (fk_column f, fk_table f, fk_target f)) (tb_fks model)) (map (\<lambda>f. (fk_column f, fk_table f, fk_target f)) (tb_fks actual))
   \<and> same_members (unique_keys model) (unique_keys actual)
   \<and> same_members (filter (\<lambda>i. \<not> List.member missing (ix_name i)) (other_indexes model)) (other_indexes actual)"

definition schemas_agree :: "string list \<Rightarrow> database \<Rightarrow> database \<Rightarrow> bool" where
  "schemas_agree missing model actual \<longleftrightarrow>
     same_members (map fst model) (map fst actual)
   \<and> list_all (\<lambda>(n, t). case map_of actual n of None \<Rightarrow> False | Some u \<Rightarrow> tables_agree missing t u) model"

end
