(* ===== verification/Migration_Laws.thy ===== *)
theory Migration_Laws
  imports Migrations
begin

text \<open>
  What the migrations promise: the schema they build is the declared one, they keep what is stored, the later ones can
  be run again, and no downgrade touches the audit trail.
\<close>

section \<open>The migrations build the declared schema\<close>

lemma run_ddl_append: "run_ddl now (a @ b) d = (case run_ddl now a d of Inl e \<Rightarrow> Inl e | Inr d' \<Rightarrow> run_ddl now b d')"
  by (induction a arbitrary: d) (auto split: sum.split)

lemma run_0007: "run_ddl now (upgrade_steps 0 7) [] = Inr schema_0007"
  by code_simp

lemma run_0010: "run_ddl now (upgrade_steps 7 10) schema_0007 = Inr schema_0010"
  by code_simp

lemma run_0013: "run_ddl now (upgrade_steps 10 13) schema_0010 = Inr schema_0013"
  by code_simp

lemma agree_payments: "tables_agree [] Payment (the (map_of schema_0013 ''payments''))"
  by code_simp

lemma agree_others:
  "list_all (\<lambda>(n, t). n = ''payments'' \<or> (case map_of schema_0013 n of None \<Rightarrow> False
     | Some u \<Rightarrow> tables_agree [''ix_monitor_incidents_check_key''] t u)) metadata"
  by code_simp

lemma upgrade_steps_split:
  assumes "v \<le> j" "j \<le> k"
  shows "upgrade_steps v k = upgrade_steps v j @ upgrade_steps j k"
proof -
  have "take (k - v) (drop v revisions) = take (j - v) (drop v revisions) @ take (k - j) (drop j revisions)"
    using assms take_add [of "j - v" "k - j" "drop v revisions"] by simp
  then show ?thesis by (simp add: upgrade_steps_def)
qed

lemma run_head: "run_ddl now (upgrade_steps 0 13) [] = Inr schema_0013"
  using upgrade_steps_split [of 0 7 13] upgrade_steps_split [of 7 10 13]
  by (simp add: run_ddl_append run_0007 run_0010 run_0013)

lemma length_revisions [simp]: "length revisions = 13"
  by (simp add: revisions_def)

lemma stored_table: "n \<in> set (map fst d) \<Longrightarrow> \<exists>t. map_of d n = Some t"
  by (induction d) auto

lemma tables_agree_payments: "tables_agree missing Payment t" if "tables_agree [] Payment t" "list_all (\<lambda>i. ix_name i \<notin> set missing) (tb_indexes Payment)"
proof -
  have "filter (\<lambda>i. \<not> List.member missing (ix_name i)) (other_indexes Payment) = filter (\<lambda>i. \<not> List.member [] (ix_name i)) (other_indexes Payment)"
    using that(2) by (intro filter_cong) (auto simp: list_all_iff other_indexes_def)
  then show ?thesis using that(1) by (simp add: tables_agree_def)
qed


section \<open>Upgrades keep what is stored\<close>

definition row_kept :: "row \<Rightarrow> row \<Rightarrow> bool" where
  "row_kept r r' \<longleftrightarrow> (\<forall>c. cell r c \<noteq> S_Null \<longrightarrow> cell r' c = cell r c)"

definition table_grows :: "db_table \<Rightarrow> db_table \<Rightarrow> bool" where
  "table_grows t t' \<longleftrightarrow>
     list_all2 row_kept (tb_rows t) (tb_rows t')
   \<and> (\<forall>c. has_col t c \<longrightarrow> has_col t' c) \<and> set (tb_indexes t) \<subseteq> set (tb_indexes t')
   \<and> set (tb_uniques t) \<subseteq> set (tb_uniques t') \<and> set (tb_checks t) \<subseteq> set (tb_checks t') \<and> set (tb_fks t) \<subseteq> set (tb_fks t')"

definition database_grows :: "database \<Rightarrow> database \<Rightarrow> bool" where
  "database_grows d d' \<longleftrightarrow> (\<forall>n t. map_of d n = Some t \<longrightarrow> (\<exists>t'. map_of d' n = Some t' \<and> table_grows t t'))"

text \<open>An update that only fills a column where it is null.\<close>

fun fills_null :: "string \<Rightarrow> sql_cond \<Rightarrow> bool" where
  "fills_null c (Is_Null c') \<longleftrightarrow> c' = c"
| "fills_null c (And p q) \<longleftrightarrow> fills_null c p \<or> fills_null c q"
| "fills_null c _ \<longleftrightarrow> False"

fun additive :: "ddl \<Rightarrow> bool" where
  "additive (Drop_Table _) \<longleftrightarrow> False"
| "additive (Drop_Column _ _) \<longleftrightarrow> False"
| "additive (Drop_Index _ _) \<longleftrightarrow> False"
| "additive (Drop_Constraint _ _) \<longleftrightarrow> False"
| "additive (Update _ c _ w) \<longleftrightarrow> fills_null c w"
| "additive (If_Absent _ s) \<longleftrightarrow> additive s"
| "additive (If_Present _ s) \<longleftrightarrow> additive s"
| "additive _ \<longleftrightarrow> True"

lemma map_of_set_assoc [simp]: "map_of (set_assoc k v kvs) = (map_of kvs)(k \<mapsto> v)"
  by (induction kvs) auto

lemma row_kept_refl [simp]: "row_kept r r"
  by (simp add: row_kept_def)

lemma row_kept_trans: "row_kept a b \<Longrightarrow> row_kept b c \<Longrightarrow> row_kept a c"
  by (simp add: row_kept_def)

lemma rows_kept_trans: "list_all2 row_kept a b \<Longrightarrow> list_all2 row_kept b c \<Longrightarrow> list_all2 row_kept a c"
  by (rule list_all2_trans [OF row_kept_trans])

lemma table_grows_refl [simp]: "table_grows t t"
  by (simp add: table_grows_def list_all2_refl)

lemma table_grows_trans: "table_grows a b \<Longrightarrow> table_grows b c \<Longrightarrow> table_grows a c"
  using rows_kept_trans by (auto simp: table_grows_def)

lemma database_grows_refl [simp]: "database_grows d d"
  by (simp add: database_grows_def)

lemma database_grows_trans: "database_grows a b \<Longrightarrow> database_grows b c \<Longrightarrow> database_grows a c"
  unfolding database_grows_def by (meson table_grows_trans)

lemma fills_null_value: "fills_null c w \<Longrightarrow> cond_value r w = Some True \<Longrightarrow> cell r c = S_Null"
  by (induction c w rule: fills_null.induct) (auto simp: sql_and_def split: if_splits)

lemma on_table_grows:
  assumes "on_table d n f = Inr d'" and "\<And>t t'. f t = Inr t' \<Longrightarrow> table_grows t t'"
  shows "database_grows d d'"
  using assms by (auto simp: on_table_def database_grows_def split: option.splits sum.splits)

lemma add_column_grows: "add_column now c t = Inr t' \<Longrightarrow> table_grows t t'"
  by (auto simp: add_column_def table_grows_def list_all2_conv_all_nth row_kept_def cell_def map_add_def has_col_def split: if_splits option.splits)

lemma update_rows_grows:
  assumes "update_rows c e w t = Inr t'" and "fills_null c w"
  shows "table_grows t t'"
proof -
  have "row_kept r (set_assoc c v r)" if "cond_value r w = Some True" for r v
    using fills_null_value [OF assms(2) that] by (auto simp: row_kept_def cell_def)
  then show ?thesis
    using assms(1) by (auto simp: update_rows_def table_grows_def list_all2_conv_all_nth Let_def has_col_def split: if_splits)
qed

lemma set_not_null_grows:
  assumes "set_not_null c t = Inr t'"
  shows "table_grows t t'"
proof -
  have "col_name \<circ> (\<lambda>k. if col_name k = c then k\<lparr>col_nullable := False\<rparr> else k) = col_name" by auto
  then have "map col_name (tb_columns t') = map col_name (tb_columns t)"
    using assms by (auto simp: set_not_null_def split: if_splits)
  then have "has_col t' = has_col t" unfolding has_col_def by presburger
  then show ?thesis using assms by (auto simp: set_not_null_def table_grows_def list_all2_refl split: if_splits)
qed

lemma additive_grows: "additive s \<Longrightarrow> apply_ddl now s d = Inr d' \<Longrightarrow> database_grows d d'"
proof (induction s arbitrary: d')
  case (Create_Table name cols fks)
  then show ?case by (auto simp: create_table_def database_grows_def map_add_def split: if_splits option.splits)
next
  case (Add_Column name c)
  then show ?case using on_table_grows [of d name "add_column now c"] add_column_grows by simp
next
  case (Create_Index name i)
  then show ?case by (auto intro!: on_table_grows [of d name "create_index i"] simp: create_index_def table_grows_def list_all2_refl has_col_def split: if_splits)
next
  case (Create_Unique name k cs)
  then show ?case by (auto intro!: on_table_grows [of d name "create_unique k cs"] simp: create_unique_def table_grows_def list_all2_refl has_col_def split: if_splits)
next
  case (Create_Check name k p)
  then show ?case by (auto intro!: on_table_grows [of d name "create_check k p"] simp: create_check_def table_grows_def list_all2_refl has_col_def split: if_splits)
next
  case (Create_Fk name f)
  then show ?case
    by (auto intro!: on_table_grows [of d name "create_fk d f"] simp: create_fk_def table_grows_def list_all2_refl has_col_def split: if_splits option.splits)
next
  case (Set_Not_Null name c)
  then show ?case using on_table_grows [of d name "set_not_null c"] set_not_null_grows by simp
next
  case (Update name c e w)
  then show ?case using on_table_grows [of d name "update_rows c e w"] update_rows_grows by simp
qed (auto split: sum.splits if_splits)

lemma run_additive_grows:
  "list_all additive ss \<Longrightarrow> run_ddl now ss d = Inr d' \<Longrightarrow> database_grows d d'"
proof (induction ss arbitrary: d)
  case (Cons s ss)
  then show ?case using additive_grows database_grows_trans by (fastforce split: sum.splits)
qed simp

lemma upgrades_additive: "list_all (\<lambda>m. list_all additive (mg_upgrade m)) revisions"
  by code_simp

lemma upgrade_steps_additive: "list_all additive (upgrade_steps v k)"
  using upgrades_additive by (auto simp: upgrade_steps_def list_all_iff dest!: in_set_takeD in_set_dropD)

text \<open>
  An upgrade loses nothing. From whatever revision and whatever the tables hold, when it succeeds every table is still there
  with every row in its place, every column, index and constraint it had, and every value that was stored is stored
  unchanged: the migrations fill only columns that are new or null.
\<close>

theorem upgrades_keep_data:
  assumes "upgrade_to now k (v, d) = Inr (v', d')"
  shows "database_grows d d' \<and> v \<le> v'"
  using assms run_additive_grows [OF upgrade_steps_additive] by (auto simp: upgrade_to_def split: sum.splits)

definition demo_0001 :: database where
  "demo_0001 =
     [(''payments'',
       \<lparr>tb_columns = [required ''id'' BigInteger, required ''status'' (StringT 32), timestamped ''updated_at''], tb_indexes = [], tb_uniques = [],
        tb_checks = [], tb_fks = [],
        tb_rows = [[(''id'', S_Int 1), (''status'', S_Str ''gateway_verified''), (''updated_at'', S_Time 5)]]\<rparr>)]"

theorem upgrades_keep_data_witness: "\<exists>d'. upgrade_to 9 2 (1, demo_0001) = Inr (2, d') \<and> database_grows demo_0001 d'"
proof -
  have "case upgrade_to 9 2 (1, demo_0001) of Inl _ \<Rightarrow> False | Inr (v, _) \<Rightarrow> v = 2" by code_simp
  then obtain d' where "upgrade_to 9 2 (1, demo_0001) = Inr (2, d')" by (auto split: sum.splits)
  then show ?thesis using upgrades_keep_data by blast
qed

section \<open>Later revisions can be run again\<close>

fun provides :: "ddl \<Rightarrow> presence \<Rightarrow> bool" where
  "provides (Create_Table n _ _) (Has_Table m) \<longleftrightarrow> m = n"
| "provides (Add_Column n c) (Has_Column m k) \<longleftrightarrow> m = n \<and> k = col_name c"
| "provides (Create_Index n i) (Has_Index m k) \<longleftrightarrow> m = n \<and> k = ix_name i"
| "provides (Create_Check n k' _) (Has_Check m k) \<longleftrightarrow> m = n \<and> k = k'"
| "provides (Create_Fk n f) (Has_Fk m k) \<longleftrightarrow> m = n \<and> k = fk_name f"
| "provides _ _ \<longleftrightarrow> False"

fun ensures :: "ddl \<Rightarrow> bool" where
  "ensures (If_Absent p s) \<longleftrightarrow> provides s p"
| "ensures _ \<longleftrightarrow> False"

fun settled :: "database \<Rightarrow> ddl \<Rightarrow> bool" where
  "settled d (If_Absent p s) \<longleftrightarrow> present p d = Inr True"
| "settled d _ \<longleftrightarrow> False"

lemma provides_present: "provides s p \<Longrightarrow> apply_ddl now s d = Inr d' \<Longrightarrow> present p d' = Inr True"
  by (induction s p rule: provides.induct)
     (auto simp: create_table_def on_table_def add_column_def create_index_def create_check_def create_fk_def has_col_def map_add_def split: if_splits option.splits sum.splits)

lemma present_True:
  "present (Has_Table n) d = Inr True \<longleftrightarrow> (\<exists>t. map_of d n = Some t)"
  "present (Has_Column n c) d = Inr True \<longleftrightarrow> (\<exists>t. map_of d n = Some t \<and> has_col t c)"
  "present (Has_Index n c) d = Inr True \<longleftrightarrow> (\<exists>t. map_of d n = Some t \<and> c \<in> ix_name ` set (tb_indexes t))"
  "present (Has_Check n c) d = Inr True \<longleftrightarrow> (\<exists>t. map_of d n = Some t \<and> c \<in> fst ` set (tb_checks t))"
  "present (Has_Fk n c) d = Inr True \<longleftrightarrow> (\<exists>t. map_of d n = Some t \<and> c \<in> fk_name ` set (tb_fks t))"
  by (auto split: option.splits)

lemma present_grows:
  assumes "database_grows d d'" "present p d = Inr True"
  shows "present p d' = Inr True"
proof -
  have grown: "\<exists>t'. map_of d' n = Some t' \<and> table_grows t t'" if "map_of d n = Some t" for n t
    using that assms(1) by (simp add: database_grows_def)
  have parts: "has_col t c \<Longrightarrow> has_col t' c" "ix_name ` set (tb_indexes t) \<subseteq> ix_name ` set (tb_indexes t')"
    "fst ` set (tb_checks t) \<subseteq> fst ` set (tb_checks t')" "fk_name ` set (tb_fks t) \<subseteq> fk_name ` set (tb_fks t')"
    if "table_grows t t'" for t t' c
    using that by (auto simp: table_grows_def image_mono)
  show ?thesis
    using assms(2) by (cases p) (simp_all only: present_True, (meson grown parts subsetD)+)
qed

lemma provides_additive: "provides s p \<Longrightarrow> additive s"
  by (induction s p rule: provides.induct) auto

lemma ensures_additive: "ensures s \<Longrightarrow> additive s"
  by (cases s) (auto dest: provides_additive)

lemma settled_grows: "database_grows d d' \<Longrightarrow> settled d s \<Longrightarrow> settled d' s"
  by (cases s) (auto intro: present_grows)

lemma ensures_settled: "ensures s \<Longrightarrow> apply_ddl now s d = Inr d' \<Longrightarrow> settled d' s"
  by (cases s) (auto dest: provides_present split: sum.splits if_splits)

lemma run_ensures_settled: "list_all ensures ss \<Longrightarrow> run_ddl now ss d = Inr d' \<Longrightarrow> list_all (settled d') ss"
proof (induction ss arbitrary: d)
  case (Cons s ss)
  then obtain d1 where d1: "apply_ddl now s d = Inr d1" "run_ddl now ss d1 = Inr d'" by (auto split: sum.splits)
  have "database_grows d1 d'"
    using run_additive_grows [OF _ d1(2)] Cons.prems(1) ensures_additive by (auto simp: list_all_iff)
  then show ?case using Cons d1 ensures_settled settled_grows by auto
qed simp

lemma run_settled: "list_all (settled d) ss \<Longrightarrow> run_ddl now ss d = Inr d"
proof (induction ss)
  case (Cons s ss)
  then show ?case by (cases s) simp_all
qed simp

lemma later_ensure: "list_all (\<lambda>m. list_all ensures (mg_upgrade m)) (drop 7 revisions)"
  by code_simp

lemma later_steps_ensure: "7 \<le> j \<Longrightarrow> list_all ensures (upgrade_steps j k)"
  using later_ensure set_drop_subset_set_drop [of 7 j revisions]
  by (fastforce simp: upgrade_steps_def list_all_iff dest!: in_set_takeD)

lemma later_downgrades_empty:
  assumes "7 \<le> j" "\<forall>x. env x \<noteq> Some ''1''"
  shows "downgrade_steps env v j = []"
proof -
  have "mg_downgrade m env = []" if "m \<in> set (drop 7 revisions)" for m
    using that assms(2)
    by (auto simp: revisions_def downgrade_0008_def downgrade_0009_def downgrade_0010_def downgrade_0011_def downgrade_0012_def downgrade_0013_def)
  moreover have "set (drop j (take v revisions)) \<subseteq> set (drop 7 revisions)"
    using set_drop_subset_set_drop [OF assms(1), of revisions] by (auto simp: drop_take dest!: in_set_takeD)
  ultimately show ?thesis by (auto simp: downgrade_steps_def)
qed



text \<open>
  The downgrades to before 0003 stop: the incident table, which its own downgrade keeps, still refers to the alerts 0003 drops.
\<close>

lemma downgrade_stops_at_0003: "downgrade_to now (\<lambda>_. None) 2 (13, schema_0013) = Inl DependentObjectsStillExist"
  by code_simp

section \<open>History survives every run\<close>

datatype alembic_command = Upgrade nat | Downgrade environ nat

text \<open>A failing command leaves the state as it was.\<close>

definition alembic :: "rat \<Rightarrow> nat \<times> database \<Rightarrow> alembic_command \<Rightarrow> nat \<times> database" where
  "alembic now st cmd =
     (case (case cmd of Upgrade k \<Rightarrow> upgrade_to now k st | Downgrade env k \<Rightarrow> downgrade_to now env k st) of Inl _ \<Rightarrow> st | Inr st' \<Rightarrow> st')"

text \<open>The statement leaves the given cells of the rows of a table alone.\<close>

fun spares :: "string \<Rightarrow> string list \<Rightarrow> ddl \<Rightarrow> bool" where
  "spares n cs (Drop_Table m) \<longleftrightarrow> m \<noteq> n"
| "spares n cs (Add_Column m c) \<longleftrightarrow> m \<noteq> n \<or> \<not> List.member cs (col_name c)"
| "spares n cs (Drop_Column m c) \<longleftrightarrow> m \<noteq> n \<or> \<not> List.member cs c"
| "spares n cs (Update m c e w) \<longleftrightarrow> m \<noteq> n \<or> \<not> List.member cs c"
| "spares n cs (If_Absent p s) \<longleftrightarrow> spares n cs s"
| "spares n cs (If_Present p s) \<longleftrightarrow> spares n cs s"
| "spares n cs _ \<longleftrightarrow> True"

definition same_cells :: "string list \<Rightarrow> row \<Rightarrow> row \<Rightarrow> bool" where
  "same_cells cs r r' \<longleftrightarrow> (\<forall>c \<in> set cs. cell r' c = cell r c)"

definition cells_survive :: "string \<Rightarrow> string list \<Rightarrow> database \<Rightarrow> database \<Rightarrow> bool" where
  "cells_survive n cs d d' \<longleftrightarrow>
     (\<forall>t. map_of d n = Some t \<longrightarrow> (\<exists>t'. map_of d' n = Some t' \<and> list_all2 (same_cells cs) (tb_rows t) (tb_rows t')))"

lemma same_cells_refl [simp]: "same_cells cs r r"
  by (simp add: same_cells_def)

lemma cells_survive_refl [simp]: "cells_survive n cs d d"
  by (simp add: cells_survive_def list_all2_refl)

lemma same_cells_trans: "same_cells cs a b \<Longrightarrow> same_cells cs b c \<Longrightarrow> same_cells cs a c"
  by (simp add: same_cells_def)

lemma same_rows_trans: "list_all2 (same_cells cs) a b \<Longrightarrow> list_all2 (same_cells cs) b c \<Longrightarrow> list_all2 (same_cells cs) a c"
  by (rule list_all2_trans [OF same_cells_trans])

lemma cells_survive_trans: "cells_survive n cs a b \<Longrightarrow> cells_survive n cs b c \<Longrightarrow> cells_survive n cs a c"
  unfolding cells_survive_def by (metis same_rows_trans)

lemma on_table_survive:
  assumes "on_table d m f = Inr d'" and "\<And>t t'. m = n \<Longrightarrow> f t = Inr t' \<Longrightarrow> list_all2 (same_cells cs) (tb_rows t) (tb_rows t')"
  shows "cells_survive n cs d d'"
  using assms by (auto simp: on_table_def cells_survive_def list_all2_refl split: option.splits sum.splits)

lemma map_of_drop_table: "m \<noteq> n \<Longrightarrow> map_of (filter (\<lambda>(k, _). k \<noteq> m) d) n = map_of d n"
  by (induction d) auto

lemma same_cells_edits:
  assumes "k \<notin> set cs"
  shows "same_cells cs r (r @ [(k, v)])" "same_cells cs r (set_assoc k v r)" "same_cells cs r (filter (\<lambda>(x, _). x \<noteq> k) r)"
proof -
  have "c \<noteq> k" "k \<noteq> c" if "c \<in> set cs" for c using that assms by blast+
  then show "same_cells cs r (r @ [(k, v)])" "same_cells cs r (set_assoc k v r)" "same_cells cs r (filter (\<lambda>(x, _). x \<noteq> k) r)"
    by (auto simp: same_cells_def cell_def map_add_def map_of_drop_table split: option.split)
qed

lemma spares_survive: "spares n cs s \<Longrightarrow> apply_ddl now s d = Inr d' \<Longrightarrow> cells_survive n cs d d'"
proof (induction s arbitrary: d')
  case (Create_Table name cols fks)
  then show ?case by (auto simp: create_table_def cells_survive_def map_add_def list_all2_refl split: if_splits option.splits)
next
  case (Drop_Table name)
  then show ?case by (auto simp: cells_survive_def map_of_drop_table list_all2_refl split: if_splits)
next
  case (Add_Column name c)
  show ?case
    by (rule on_table_survive [of d name "add_column now c"])
       (use Add_Column in \<open>auto simp: add_column_def list_all2_conv_all_nth same_cells_edits split: if_splits\<close>)
next
  case (Drop_Column name c)
  show ?case
    by (rule on_table_survive [of d name "\<lambda>t. if has_col t c then Inr (drop_column c t) else Inl UndefinedColumn"])
       (use Drop_Column in \<open>auto simp: drop_column_def list_all2_conv_all_nth same_cells_edits split: if_splits\<close>)
next
  case (Create_Index name i)
  show ?case
    by (rule on_table_survive [of d name "create_index i"])
       (use Create_Index in \<open>auto simp: create_index_def list_all2_refl split: if_splits\<close>)
next
  case (Drop_Index name i)
  show ?case
    by (rule on_table_survive [of d name "\<lambda>t. if i \<in> set (map ix_name (tb_indexes t)) then Inr (t\<lparr>tb_indexes := filter (\<lambda>x. ix_name x \<noteq> i) (tb_indexes t)\<rparr>) else Inl UndefinedObject"])
       (use Drop_Index in \<open>auto simp: list_all2_refl split: if_splits\<close>)
next
  case (Create_Unique name k ks)
  show ?case
    by (rule on_table_survive [of d name "create_unique k ks"])
       (use Create_Unique in \<open>auto simp: create_unique_def list_all2_refl split: if_splits\<close>)
next
  case (Create_Check name k p)
  show ?case
    by (rule on_table_survive [of d name "create_check k p"])
       (use Create_Check in \<open>auto simp: create_check_def list_all2_refl split: if_splits\<close>)
next
  case (Create_Fk name f)
  show ?case
    by (rule on_table_survive [of d name "create_fk d f"])
       (use Create_Fk in \<open>auto simp: create_fk_def list_all2_refl split: if_splits option.splits\<close>)
next
  case (Drop_Constraint name k)
  show ?case
    by (rule on_table_survive [of d name "drop_constraint k"])
       (use Drop_Constraint in \<open>auto simp: drop_constraint_def list_all2_refl split: if_splits\<close>)
next
  case (Set_Not_Null name c)
  show ?case
    by (rule on_table_survive [of d name "set_not_null c"])
       (use Set_Not_Null in \<open>auto simp: set_not_null_def list_all2_refl split: if_splits\<close>)
next
  case (Update name c e w)
  show ?case
    by (rule on_table_survive [of d name "update_rows c e w"])
       (use Update in \<open>auto simp: update_rows_def Let_def list_all2_conv_all_nth same_cells_edits split: if_splits\<close>)
qed (auto split: sum.splits if_splits)

lemma run_spares_survive: "list_all (spares n cs) ss \<Longrightarrow> run_ddl now ss d = Inr d' \<Longrightarrow> cells_survive n cs d d'"
proof (induction ss arbitrary: d)
  case (Cons s ss)
  then show ?case using spares_survive cells_survive_trans by (fastforce split: sum.splits)
qed simp

lemma run_raise: "Raise msg \<in> set ss \<Longrightarrow> \<exists>e. run_ddl now ss d = Inl e"
  by (induction ss arbitrary: d) (auto split: sum.splits)

definition financial_core :: "string list" where
  "financial_core =
     [''id'', ''bot_order_id'', ''gateway_order_id'', ''gateway_user_id'', ''amount'', ''status'', ''redirect_url'', ''reference_id'', ''card_last4'',
      ''last_error'', ''created_at'', ''updated_at'']"

definition audit_columns :: "string list" where
  "audit_columns = [''id'', ''payment_id'', ''event_type'', ''level'', ''request_id'', ''data'', ''created_at'']"

lemma later_upgrades_spare:
  "list_all (\<lambda>m. list_all (\<lambda>s. spares ''payments'' financial_core s \<and> spares ''payment_events'' audit_columns s) (mg_upgrade m)) (drop 1 revisions)"
  by code_simp

lemma later_downgrades_spare:
  "list_all (\<lambda>m. list_all (\<lambda>s. spares ''payments'' financial_core s \<and> spares ''payment_events'' audit_columns s) (mg_downgrade m env)) (drop 1 revisions)"
  by (simp add: revisions_def downgrade_0002_def downgrade_0003_def downgrade_0004_def downgrade_0005_def downgrade_0006_def downgrade_0007_def
      downgrade_0008_def downgrade_0009_def downgrade_0010_def downgrade_0011_def downgrade_0012_def downgrade_0013_def
      financial_core_def audit_columns_def fresh_columns_def attention_columns_def nullable_def defaulted_def)

definition history_survives :: "database \<Rightarrow> database \<Rightarrow> bool" where
  "history_survives d d' \<longleftrightarrow> cells_survive ''payments'' financial_core d d' \<and> cells_survive ''payment_events'' audit_columns d d'"

lemma alembic_step:
  assumes "1 \<le> v" "alembic now (v, d) cmd = (v', d')"
  shows "1 \<le> v' \<and> history_survives d d'"
proof (cases cmd)
  case (Upgrade k)
  have "list_all (\<lambda>s. spares ''payments'' financial_core s \<and> spares ''payment_events'' audit_columns s) (upgrade_steps v k)"
    using later_upgrades_spare set_drop_subset_set_drop [OF assms(1), of revisions]
    by (fastforce simp: upgrade_steps_def list_all_iff dest!: in_set_takeD)
  then have "list_all (spares ''payments'' financial_core) (upgrade_steps v k)" "list_all (spares ''payment_events'' audit_columns) (upgrade_steps v k)"
    by (simp_all add: list_all_iff)
  from this [THEN run_spares_survive] show ?thesis
    using assms by (auto simp: alembic_def Upgrade upgrade_to_def history_survives_def split: sum.splits)
next
  case (Downgrade env k)
  show ?thesis
  proof (cases "k = 0")
    case True
    have "mg_downgrade (hd revisions) env = downgrade_0001" "hd revisions \<in> set (take v revisions)"
      using assms(1) by (cases v; simp add: revisions_def)+
    then have "Raise (hd (map (\<lambda>s. case s of Raise m \<Rightarrow> m) downgrade_0001)) \<in> set (downgrade_steps env v k)"
      by (auto simp: downgrade_steps_def True downgrade_0001_def intro!: bexI [of _ "hd revisions"])
    then show ?thesis
      using run_raise assms by (auto simp: alembic_def Downgrade downgrade_to_def history_survives_def split: sum.splits) (metis Inl_Inr_False)+
  next
    case False
    have "set (drop k (take v revisions)) \<subseteq> set (drop 1 revisions)"
      using set_drop_subset_set_drop [of 1 k revisions] False by (auto simp: drop_take dest!: in_set_takeD)
    then have "list_all (\<lambda>s. spares ''payments'' financial_core s \<and> spares ''payment_events'' audit_columns s) (downgrade_steps env v k)"
      using later_downgrades_spare [of env] by (fastforce simp: downgrade_steps_def list_all_iff)
    then have "list_all (spares ''payments'' financial_core) (downgrade_steps env v k)" "list_all (spares ''payment_events'' audit_columns) (downgrade_steps env v k)"
      by (simp_all add: list_all_iff)
    from this [THEN run_spares_survive] show ?thesis
      using assms False by (auto simp: alembic_def Downgrade downgrade_to_def history_survives_def split: sum.splits)
  qed
qed

text \<open>
  No sequence of migration commands loses a payment or an audit event. Once the first revision is applied, whatever is
  upgraded and downgraded, with whatever settings, every payment row stays with the values of its original columns,
  every event row stays with all of its values, and the version never goes below 0001.
\<close>

theorem history_survives_migrations:
  assumes "1 \<le> v" and "foldl (alembic now) (v, d) cmds = (v', d')"
  shows "1 \<le> v' \<and> history_survives d d'"
  using assms
proof (induction cmds arbitrary: v d)
  case Nil
  then show ?case by (simp add: history_survives_def)
next
  case (Cons cmd cmds)
  obtain v1 d1 where one: "alembic now (v, d) cmd = (v1, d1)" by fastforce
  have "1 \<le> v' \<and> history_survives d1 d'" using Cons.IH [of v1 d1] Cons.prems alembic_step [OF Cons.prems(1) one] one by simp
  then show ?case using alembic_step [OF Cons.prems(1) one] cells_survive_trans unfolding history_survives_def by blast
qed

theorem history_survives_migrations_witness:
  "history_survives demo_0001 (snd (foldl (alembic 9) (1, demo_0001) [Upgrade 2, Downgrade (\<lambda>_. None) 1, Downgrade (\<lambda>_. None) 0]))"
  using history_survives_migrations [of 1 9 demo_0001 "[Upgrade 2, Downgrade (\<lambda>_. None) 1, Downgrade (\<lambda>_. None) 0]"]
  by (metis eq_fst_iff eq_snd_iff le_refl)

end
