(* ===== verification/Logging.thy ===== *)
theory Logging
  imports Models "HOL-Library.Sublist"
begin

text \<open>
  Log lines and request ids (\<open>app/logging_setup.py\<close>, \<open>app/middleware.py\<close>): the two formatters, the
  redaction of secret values in the finished line, and the request id taken from a header.

  The text of a float, of an arbitrary value and of an instant, the parsed password of the database
  URL and the generated request id are arguments. Handlers, levels and streams are left out.
\<close>

section \<open>Redaction\<close>

definition REDACTED :: string where
  "REDACTED = ''[REDACTED]''"

definition MIN_REDACTABLE_LENGTH :: nat where
  "MIN_REDACTABLE_LENGTH = 6"

text \<open>\<open>part in text\<close>\<close>

definition occurs_in :: "string \<Rightarrow> string \<Rightarrow> bool" where
  "occurs_in part body \<longleftrightarrow> sublist part body"

text \<open>\<open>str.replace\<close>: the occurrences from left to right, not overlapping; \<open>old\<close> is not empty.\<close>

function py_replace :: "string \<Rightarrow> string \<Rightarrow> string \<Rightarrow> string" where
  "py_replace old new [] = []"
| "py_replace old new (c # cs) =
     (if old \<noteq> [] \<and> prefix old (c # cs) then new @ py_replace old new (drop (length old) (c # cs))
      else c # py_replace old new cs)"
  by pat_completeness auto
termination by (relation "measure (\<lambda>(_, _, t). length t)") auto

text \<open>\<open>SecretRedactor.__init__\<close>: distinct, long enough, the longest first.\<close>

definition redactor_secrets :: "string list \<Rightarrow> string list" where
  "redactor_secrets secrets =
     sort_key (\<lambda>s. - int (length s)) (remdups (filter (\<lambda>s. s \<noteq> [] \<and> length s \<ge> MIN_REDACTABLE_LENGTH) secrets))"

fun redact_each :: "string list \<Rightarrow> string \<Rightarrow> string" where
  "redact_each [] body = body"
| "redact_each (secret # secrets) body =
     redact_each secrets (if occurs_in secret body then py_replace secret REDACTED body else body)"

definition redact :: "string list \<Rightarrow> string \<Rightarrow> string" where
  "redact secrets body = redact_each (redactor_secrets secrets) body"

record secret_settings =
  ss_inbound_api_key :: string
  ss_callback_hmac_secret :: string
  ss_centralpay_getlink_api_key :: string
  ss_centralpay_verify_api_key :: string
  ss_centralpay_payer_id_secret :: string
  ss_bot_notify_token :: string
  ss_admin_bot_token :: string
  ss_database_url :: string

text \<open>\<open>url_password\<close> is the password part of a database URL, \<open>None\<close> too when the URL does not parse.\<close>

definition collect_secret_values :: "(string \<Rightarrow> string option) \<Rightarrow> secret_settings \<Rightarrow> string list" where
  "collect_secret_values url_password st =
     filter (\<lambda>s. s \<noteq> [])
       ([ss_inbound_api_key st, ss_callback_hmac_secret st, ss_centralpay_getlink_api_key st, ss_centralpay_verify_api_key st,
         ss_centralpay_payer_id_secret st, ss_bot_notify_token st, ss_admin_bot_token st]
        @ (case url_password (ss_database_url st) of None \<Rightarrow> [] | Some p \<Rightarrow> if p = [] then [] else [p]))"

section \<open>Formatting\<close>

definition hex_digit :: "nat \<Rightarrow> char" where
  "hex_digit n = (if n < 10 then char_of (48 + n) else char_of (87 + n))"

text \<open>\<open>json.dumps\<close> with \<open>ensure_ascii=False\<close>\<close>

definition json_escape_char :: "char \<Rightarrow> string" where
  "json_escape_char c =
     (if cc c = 34 then [char_of (92 :: nat), c]
      else if cc c = 92 then [c, c]
      else if cc c = 10 then [char_of (92 :: nat), CHR ''n'']
      else if cc c = 13 then [char_of (92 :: nat), CHR ''r'']
      else if cc c = 9 then [char_of (92 :: nat), CHR ''t'']
      else if cc c = 12 then [char_of (92 :: nat), CHR ''f'']
      else if cc c = 8 then [char_of (92 :: nat), CHR ''b'']
      else if cc c < 32 then [char_of (92 :: nat), CHR ''u'', CHR ''0'', CHR ''0'', hex_digit (cc c div 16), hex_digit (cc c mod 16)]
      else [c])"

definition json_escape :: "string \<Rightarrow> string" where
  "json_escape s = concat (map json_escape_char s)"

definition json_quote :: "string \<Rightarrow> string" where
  "json_quote s = [char_of (34 :: nat)] @ json_escape s @ [char_of (34 :: nat)]"

fun join_with :: "string \<Rightarrow> string list \<Rightarrow> string" where
  "join_with sep [] = []"
| "join_with sep [x] = x"
| "join_with sep (x # y # xs) = x @ sep @ join_with sep (y # xs)"

fun json_dumps :: "(rat option \<Rightarrow> string) \<Rightarrow> (time \<Rightarrow> string) \<Rightarrow> json \<Rightarrow> string" where
  "json_dumps flt tim JNull = ''null''"
| "json_dumps flt tim (JBool b) = (if b then ''true'' else ''false'')"
| "json_dumps flt tim (JInt i) = show_int i"
| "json_dumps flt tim (JFloat x) = flt x"
| "json_dumps flt tim (JStr s) = json_quote s"
| "json_dumps flt tim (JTime t) = json_quote (tim t)"
| "json_dumps flt tim (JArr xs) = ''['' @ join_with '', '' (map (json_dumps flt tim) xs) @ '']''"
| "json_dumps flt tim (JObj d) =
     ''{'' @ join_with '', '' (map (\<lambda>(k, v). json_quote k @ '': '' @ json_dumps flt tim v) d) @ ''}''"

text \<open>Assignment to a key of a dictionary: an existing key keeps its place.\<close>

fun dict_put :: "string \<Rightarrow> json \<Rightarrow> jdict \<Rightarrow> jdict" where
  "dict_put k v [] = [(k, v)]"
| "dict_put k v ((k', v') # d) = (if k' = k then (k, v) # d else (k', v') # dict_put k v d)"

definition STANDARD_ATTRS :: "string list" where
  "STANDARD_ATTRS =
     [''name'', ''msg'', ''args'', ''levelname'', ''levelno'', ''pathname'', ''filename'', ''module'', ''exc_info'', ''exc_text'',
      ''stack_info'', ''lineno'', ''funcName'', ''created'', ''msecs'', ''relativeCreated'', ''thread'', ''threadName'',
      ''processName'', ''process'', ''message'', ''asctime'', ''taskName'']"

text \<open>
  A record as the formatters see it: the creation time in the two forms, the level, the logger, the
  message, all attributes, and the formatted traceback if there is one.
\<close>

record log_record =
  lr_created_iso :: string
  lr_created_hms :: string
  lr_levelname :: string
  lr_name :: string
  lr_message :: string
  lr_attributes :: jdict
  lr_exception :: "string option"

definition extra_attribute :: "string \<Rightarrow> bool" where
  "extra_attribute key \<longleftrightarrow> key \<notin> set STANDARD_ATTRS \<and> \<not> prefix ''_'' key"

definition json_payload :: "string option \<Rightarrow> log_record \<Rightarrow> jdict" where
  "json_payload request r =
     (let base = [(''ts'', JStr (lr_created_iso r)), (''level'', JStr (py_lower (lr_levelname r))), (''logger'', JStr (lr_name r)),
                  (''event'', JStr (lr_message r))]
               @ (case request of None \<Rightarrow> [] | Some i \<Rightarrow> [(''request_id'', JStr i)]);
          extras = foldl (\<lambda>d (k, v). dict_put k v d) base (filter (\<lambda>(k, _). extra_attribute k) (lr_attributes r))
      in case lr_exception r of None \<Rightarrow> extras | Some e \<Rightarrow> dict_put ''exc_info'' (JStr e) extras)"

definition json_format :: "(rat option \<Rightarrow> string) \<Rightarrow> (time \<Rightarrow> string) \<Rightarrow> string list \<Rightarrow> string option \<Rightarrow> log_record \<Rightarrow> string" where
  "json_format flt tim secrets request r = redact secrets (json_dumps flt tim (JObj (json_payload request r)))"

definition text_format :: "(json \<Rightarrow> string) \<Rightarrow> string list \<Rightarrow> string option \<Rightarrow> log_record \<Rightarrow> string" where
  "text_format py_str secrets request r =
     redact secrets (join_with '' ''
       ([lr_created_hms r, lr_levelname r, lr_name r, lr_message r]
        @ (case request of None \<Rightarrow> [] | Some i \<Rightarrow> [''request_id='' @ i])
        @ map (\<lambda>(k, v). k @ ''='' @ py_str v) (filter (\<lambda>(k, _). extra_attribute k) (lr_attributes r))
        @ (case lr_exception r of None \<Rightarrow> [] | Some e \<Rightarrow> [e])))"

section \<open>Request ids\<close>

definition request_id_char :: "char \<Rightarrow> bool" where
  "request_id_char c \<longleftrightarrow>
     (65 \<le> cc c \<and> cc c \<le> 90) \<or> (97 \<le> cc c \<and> cc c \<le> 122) \<or> is_ascii_digit c \<or> c \<in> {CHR ''.'', CHR ''_'', CHR ''-''}"

definition incoming_request_id :: "string option \<Rightarrow> string option" where
  "incoming_request_id header =
     (case header of
        None \<Rightarrow> None
      | Some v \<Rightarrow> if 1 \<le> length v \<and> length v \<le> 64 \<and> list_all request_id_char v then Some v else None)"

text \<open>
  The middleware around the application: the id in effect during the request, the response with the
  id added to its headers, the logged line, and the id in effect afterwards. \<open>app\<close> answers under
  the given id, or raises (\<open>None\<close>), in which case there is no response to extend.
\<close>

record http_log =
  hl_method :: string
  hl_path :: string
  hl_status_code :: "int option"
  hl_request_id :: "string option"

text \<open>Header assignment: the first occurrence is replaced, further ones are dropped.\<close>

fun set_header :: "string \<Rightarrow> string \<Rightarrow> (string \<times> string) list \<Rightarrow> (string \<times> string) list" where
  "set_header k v [] = [(k, v)]"
| "set_header k v ((k', v') # hs) =
     (if k' = k then (k, v) # filter (\<lambda>(k', _). k' \<noteq> k) hs else (k', v') # set_header k v hs)"

definition request_context ::
  "string \<Rightarrow> (string option \<Rightarrow> (int \<times> (string \<times> string) list) option) \<Rightarrow> string \<Rightarrow> string \<Rightarrow> string option \<Rightarrow> string option
   \<Rightarrow> (int \<times> (string \<times> string) list) option \<times> http_log \<times> string option" where
  "request_context fresh app meth path header outer =
     (let rid = (case incoming_request_id header of None \<Rightarrow> fresh | Some v \<Rightarrow> v);
          reply = map_option (\<lambda>(code, hs). (code, set_header ''x-request-id'' rid hs)) (app (Some rid))
      in (reply, \<lparr>hl_method = meth, hl_path = path, hl_status_code = map_option fst reply, hl_request_id = Some rid\<rparr>, outer))"

section \<open>What redaction removes\<close>

lemma sublist_split_at:
  assumes "sublist u (a @ c # b)" "c \<notin> set u"
  shows "sublist u a \<or> sublist u b"
proof -
  obtain p q where eq: "a @ c # b = p @ u @ q" using assms(1) by (auto simp: sublist_def)
  then consider us where "a = p @ us" "us @ c # b = u @ q" | us where "p = a @ us" "c # b = us @ u @ q"
    by (auto simp: append_eq_append_conv2)
  then show ?thesis
  proof cases
    case 1
    from 1(2) consider vs where "us = u @ vs" | vs where "u = us @ vs" "c # b = vs @ q" by (auto simp: append_eq_append_conv2)
    then show ?thesis
    proof cases
      case (2 vs)
      then have "vs = []" using assms(2) by (cases vs) auto
      then show ?thesis using 2(1) 1(1) by simp
    qed (auto simp: 1(1) sublist_def)
  next
    case (2 us)
    then show ?thesis using assms(2) by (cases us; cases u) (auto simp: sublist_def)
  qed
qed

text \<open>A secret that cannot overlap the replacement text.\<close>

definition plain_secret :: "string \<Rightarrow> bool" where
  "plain_secret s \<longleftrightarrow> s \<noteq> [] \<and> CHR ''['' \<notin> set s \<and> CHR '']'' \<notin> set s \<and> \<not> occurs_in s ''REDACTED''"

lemma REDACTED_split: "a @ REDACTED @ b = a @ CHR ''['' # (''REDACTED'' @ CHR '']'' # b)"
  by (simp add: REDACTED_def)

lemma sublist_around_redacted:
  assumes "plain_secret u" "sublist u (a @ REDACTED @ b)"
  shows "sublist u a \<or> sublist u b"
  using assms sublist_split_at [of u a "CHR ''[''" "''REDACTED'' @ CHR '']'' # b"] sublist_split_at [of u "''REDACTED''" "CHR '']''" b]
  unfolding REDACTED_split by (auto simp: plain_secret_def occurs_in_def)

lemma prefix_py_replace:
  assumes "CHR ''['' \<notin> set u" "prefix u (py_replace s REDACTED t)"
  shows "prefix u t"
  using assms
proof (induction s REDACTED t arbitrary: u rule: py_replace.induct)
  case (2 old c cs)
  show ?case
  proof (cases "old \<noteq> [] \<and> prefix old (c # cs)")
    case True
    then show ?thesis using 2(3,4) by (cases u) (auto simp: REDACTED_def)
  next
    case False
    then show ?thesis using 2(2) [OF False] 2(3,4) by (cases u) (auto split: if_splits)
  qed
qed simp

lemma replace_removes:
  assumes "plain_secret s"
  shows "\<not> sublist s (py_replace s REDACTED t)"
  using assms
proof (induction s REDACTED t rule: py_replace.induct)
  case (2 old c cs)
  show ?case
  proof (cases "prefix old (c # cs)")
    case True
    then have "\<not> sublist old (py_replace old REDACTED (drop (length old) (c # cs)))" using 2(1) 2(3) by (simp add: plain_secret_def)
    then show ?thesis
      using True 2(3) sublist_around_redacted [OF 2(3), of "[]" "py_replace old REDACTED (drop (length old) (c # cs))"]
      by (auto simp: plain_secret_def)
  next
    case False
    then have out: "py_replace old REDACTED (c # cs) = c # py_replace old REDACTED cs" by simp
    have "\<not> sublist old (py_replace old REDACTED cs)" using 2(2) False 2(3) by simp
    moreover have "\<not> prefix old (c # py_replace old REDACTED cs)"
      using prefix_py_replace [of old old "c # cs"] False 2(3) unfolding out by (auto simp: plain_secret_def)
    ultimately show ?thesis unfolding out sublist_Cons_right by simp
  qed
qed (simp add: plain_secret_def)

lemma replace_adds_none:
  assumes "plain_secret u" "sublist u (py_replace s REDACTED t)"
  shows "sublist u t"
  using assms
proof (induction s REDACTED t rule: py_replace.induct)
  case (2 old c cs)
  show ?case
  proof (cases "old \<noteq> [] \<and> prefix old (c # cs)")
    case True
    then have "sublist u (py_replace old REDACTED (drop (length old) (c # cs)))"
      using 2(3,4) sublist_around_redacted [OF 2(3), of "[]" "py_replace old REDACTED (drop (length old) (c # cs))"]
      by (auto simp: plain_secret_def)
    then have "sublist u (drop (length old) (c # cs))" using 2(1) [OF True] 2(3) by simp
    then show ?thesis using sublist_drop sublist_order.order.trans by blast
  next
    case False
    then have out: "py_replace old REDACTED (c # cs) = c # py_replace old REDACTED cs" by auto
    from 2(4) consider "prefix u (c # py_replace old REDACTED cs)" | "sublist u (py_replace old REDACTED cs)"
      unfolding out sublist_Cons_right by blast
    then show ?thesis
    proof cases
      case 1
      then have "prefix u (c # cs)" using prefix_py_replace [of u old "c # cs"] 2(3) unfolding out by (simp add: plain_secret_def)
      then show ?thesis by (rule prefix_imp_sublist)
    next
      case 2
      then show ?thesis using \<open>\<not> (old \<noteq> [] \<and> prefix old (c # cs))\<close> "2.hyps"(2) "2.prems"(1) by (simp add: sublist_Cons_right)
    qed
  qed
qed simp

lemma redact_each_adds_none: "plain_secret u \<Longrightarrow> sublist u (redact_each ss t) \<Longrightarrow> sublist u t"
proof (induction ss arbitrary: t)
  case (Cons s ss)
  then show ?case using replace_adds_none [of u s t] by (auto split: if_splits)
qed simp

lemma redact_each_removes:
  "list_all plain_secret ss \<Longrightarrow> s \<in> set ss \<Longrightarrow> \<not> sublist s (redact_each ss t)"
proof (induction ss arbitrary: t)
  case (Cons x ss)
  let ?t = "if occurs_in x t then py_replace x REDACTED t else t"
  show ?case
  proof (cases "s = x")
    case True
    have "\<not> sublist x ?t" using replace_removes [of x t] Cons.prems(1) by (auto simp: occurs_in_def)
    then show ?thesis using redact_each_adds_none [of x ss ?t] Cons.prems(1) True by auto
  next
    case False
    then show ?thesis using Cons.IH [of ?t] Cons.prems by simp
  qed
qed simp

text \<open>
  No log line, in either format, shows a configured secret: when no secret of at least six
  characters has a bracket or is part of the word that replaces it, none of them occurs in any
  line of the two formatters, whatever is logged. The secrets include the
  password of the database URL.
\<close>

theorem log_lines_hide_secrets:
  assumes "list_all (\<lambda>s. length s < MIN_REDACTABLE_LENGTH \<or> plain_secret s) (collect_secret_values url_password st)"
    and "s \<in> set (collect_secret_values url_password st)" "MIN_REDACTABLE_LENGTH \<le> length s"
  shows "\<not> occurs_in s (json_format flt tim (collect_secret_values url_password st) request r)
       \<and> \<not> occurs_in s (text_format py_str (collect_secret_values url_password st) request r)"
proof -
  let ?ss = "redactor_secrets (collect_secret_values url_password st)"
  have "list_all plain_secret ?ss" using assms(1) by (auto simp: redactor_secrets_def list_all_iff)
  moreover have "s \<in> set ?ss" using assms(2,3) by (auto simp: redactor_secrets_def MIN_REDACTABLE_LENGTH_def)
  ultimately show ?thesis
    using redact_each_removes by (simp add: occurs_in_def json_format_def text_format_def redact_def)
qed

definition demo_secrets :: secret_settings where
  "demo_secrets = \<lparr>ss_inbound_api_key = ''s3cret-key'', ss_callback_hmac_secret = ''hmac-value'', ss_centralpay_getlink_api_key = [],
     ss_centralpay_verify_api_key = [], ss_centralpay_payer_id_secret = [], ss_bot_notify_token = [], ss_admin_bot_token = [],
     ss_database_url = ''db''\<rparr>"

definition demo_record :: "string \<Rightarrow> log_record" where
  "demo_record message = \<lparr>lr_created_iso = ''t'', lr_created_hms = ''h'', lr_levelname = ''INFO'', lr_name = ''app'', lr_message = message,
     lr_attributes = [], lr_exception = None\<rparr>"

theorem log_lines_hide_secrets_witness:
  "\<not> occurs_in ''s3cret-key'' (json_format (\<lambda>_. []) (\<lambda>_. []) (collect_secret_values (\<lambda>_. None) demo_secrets) None (demo_record ''s3cret-key''))"
proof -
  have "plain_secret ''s3cret-key''" "plain_secret ''hmac-value''"
    by (simp_all add: plain_secret_def occurs_in_def sublist_Cons_right)
  then have "list_all (\<lambda>s. length s < MIN_REDACTABLE_LENGTH \<or> plain_secret s) (collect_secret_values (\<lambda>_. None) demo_secrets)"
    by (simp add: collect_secret_values_def demo_secrets_def)
  from log_lines_hide_secrets [OF this, of "''s3cret-key''" "\<lambda>_. []" "\<lambda>_. []" None "demo_record ''s3cret-key''" "\<lambda>_. []"]
  show ?thesis by (simp add: collect_secret_values_def demo_secrets_def MIN_REDACTABLE_LENGTH_def)
qed

definition quoted_password :: string where
  "quoted_password = ''pa'' @ [char_of (34 :: nat)] @ ''ss-word''"

text \<open>
  The redaction of the JSON format works on the escaped line. A secret with a double quote, here
  the password of the database, is written in its escaped form, which is not the secret: the line
  keeps it whole, while the text format removes it.
\<close>

theorem json_lines_keep_escaped_secret:
  "quoted_password \<in> set (collect_secret_values (\<lambda>_. Some quoted_password) demo_secrets)
 \<and> occurs_in (json_escape quoted_password)
     (json_format (\<lambda>_. []) (\<lambda>_. []) (collect_secret_values (\<lambda>_. Some quoted_password) demo_secrets) None (demo_record quoted_password))
 \<and> \<not> occurs_in quoted_password
     (text_format (\<lambda>_. []) (collect_secret_values (\<lambda>_. Some quoted_password) demo_secrets) None (demo_record quoted_password))"
proof (intro conjI)
  let ?ss = "collect_secret_values (\<lambda>_. Some quoted_password) demo_secrets"
  show "quoted_password \<in> set ?ss" by (simp add: collect_secret_values_def quoted_password_def)
  show "occurs_in (json_escape quoted_password) (json_format (\<lambda>_. []) (\<lambda>_. []) ?ss None (demo_record quoted_password))"
    by code_simp
  show "\<not> occurs_in quoted_password (text_format (\<lambda>_. []) ?ss None (demo_record quoted_password))"
    by code_simp
qed

text \<open>
  The id of a request is safe to log and to return: it has one to 64 characters of the allowed
  set when the generated one has, a header that breaks the rule is ignored, the response carries the
  id of the log line, and the id of the surrounding context is in effect again afterwards.
\<close>

theorem request_id_safe:
  assumes "1 \<le> length fresh" "length fresh \<le> 64" "list_all request_id_char fresh"
    and "request_context fresh app meth path header outer = (reply, line, after)"
  shows "\<exists>rid. hl_request_id line = Some rid \<and> 1 \<le> length rid \<and> length rid \<le> 64 \<and> list_all request_id_char rid
       \<and> (\<forall>code hs. reply = Some (code, hs) \<longrightarrow> map_of hs ''x-request-id'' = Some rid \<and> hl_status_code line = Some code)
       \<and> (header \<noteq> Some rid \<longrightarrow> rid = fresh) \<and> after = outer"
proof -
  define rid where "rid = (case incoming_request_id header of None \<Rightarrow> fresh | Some v \<Rightarrow> v)"
  have "1 \<le> length rid \<and> length rid \<le> 64 \<and> list_all request_id_char rid \<and> (header \<noteq> Some rid \<longrightarrow> rid = fresh)"
    using assms(1-3) by (auto simp: rid_def incoming_request_id_def split: option.split)
  moreover have "reply = map_option (\<lambda>(code, hs). (code, set_header ''x-request-id'' rid hs)) (app (Some rid))"
    "hl_request_id line = Some rid" "hl_status_code line = map_option fst reply" "after = outer"
    using assms(4) by (auto simp: request_context_def Let_def rid_def)
  moreover have "map_of (set_header k v hs) k = Some v" for k v :: string and hs
    by (induction hs) auto
  ultimately show ?thesis by (intro exI [of _ rid]) auto
qed

theorem request_id_safe_witness:
  "\<exists>rid. hl_request_id (fst (snd (request_context ''0f'' (\<lambda>_. None) ''GET'' ''/'' (Some ''a b'') None))) = Some rid \<and> rid = ''0f''"
proof -
  have "list_all request_id_char ''0f''" by (simp add: request_id_char_def is_ascii_digit_def cc_def)
  moreover have "request_context ''0f'' (\<lambda>_. None) ''GET'' ''/'' (Some ''a b'') None =
      (None, \<lparr>hl_method = ''GET'', hl_path = ''/'', hl_status_code = None, hl_request_id = Some ''0f''\<rparr>, None)"
    by (simp add: request_context_def incoming_request_id_def request_id_char_def is_ascii_digit_def cc_def)
  ultimately show ?thesis using request_id_safe [of "''0f''" "\<lambda>_. None" "''GET''" "''/''" "Some ''a b''" None] by auto
qed

end
