(* ===== verification/Admin_Replies.thy ===== *)
theory Admin_Replies
  imports Alert_Delivery "HOL-Library.Sublist"
begin

text \<open>
  The edge of the admin bot: authorization (\<open>app/adminbot/auth.py\<close>), the command parser
  (\<open>app/adminbot/runner.py\<close>) and the delivery of reply chunks with a shared time budget
  (\<open>app/adminbot/reply_delivery.py\<close>).
\<close>

section \<open>Authorization\<close>

record update_context =
  uc_user_id :: "int option"
  uc_chat_id :: "int option"
  uc_chat_type :: "string option"
  uc_username :: "string option"

definition is_authorized :: "int list \<Rightarrow> update_context \<Rightarrow> bool" where
  "is_authorized admin_ids ctx \<longleftrightarrow>
     (case uc_user_id ctx of
        None \<Rightarrow> False
      | Some i \<Rightarrow> uc_chat_type ctx = Some ''private'' \<and> i \<in> set admin_ids)"

section \<open>The command parser\<close>

text \<open>\<open>str.split()\<close>: the maximal runs without white space.\<close>

fun py_words :: "string \<Rightarrow> string list" where
  "py_words [] = []"
| "py_words (c # cs) =
     (if py_isspace c then py_words cs
      else case cs of
             [] \<Rightarrow> [[c]]
           | d # _ \<Rightarrow> if py_isspace d then [c] # py_words cs
                      else case py_words cs of [] \<Rightarrow> [[c]] | w # ws \<Rightarrow> (c # w) # ws)"

definition parse_command :: "string \<Rightarrow> (string \<times> string list) option" where
  "parse_command body =
     (let stripped = strip body
      in if \<not> prefix ''/'' stripped then None
         else case py_words stripped of
                [] \<Rightarrow> None
              | word # args \<Rightarrow> Some (py_lower (takeWhile (\<lambda>c. c \<noteq> CHR ''@'') (drop 1 word)), args))"

section \<open>Reply delivery\<close>

definition REPLY_RETRY_DELAYS_SECONDS :: "rat list" where
  "REPLY_RETRY_DELAYS_SECONDS = [1, 3]"

definition ATTEMPTS_PER_CHUNK :: nat where
  "ATTEMPTS_PER_CHUNK = length REPLY_RETRY_DELAYS_SECONDS + 1"

definition REPLY_TIME_BUDGET_SECONDS :: rat where
  "REPLY_TIME_BUDGET_SECONDS = 15"

record chunk_result =
  cr_delivered :: bool
  cr_abandoned_due_to_retry_after :: bool

definition chunk_delivered :: chunk_result where
  "chunk_delivered = \<lparr>cr_delivered = True, cr_abandoned_due_to_retry_after = False\<rparr>"

definition chunk_abandoned :: "bool \<Rightarrow> chunk_result" where
  "chunk_abandoned retry_after = \<lparr>cr_delivered = False, cr_abandoned_due_to_retry_after = retry_after\<rparr>"

text \<open>
  What the chat sees: the messages handed to Telegram, each with whether it was accepted, and the
  waits, in order. \<open>send k message\<close> is the exception the \<open>k\<close>-th call raises, \<open>None\<close> when it returns.
  The fixed warning of the code is \<open>Incomplete_Warning\<close>.
\<close>

datatype reply_message = Chunk string | Incomplete_Warning

datatype reply_action = Sent reply_message bool | Slept rat

fun deliver_attempts ::
  "(nat \<Rightarrow> reply_message \<Rightarrow> telegram_exception option) \<Rightarrow> nat \<Rightarrow> string \<Rightarrow> nat list \<Rightarrow> rat \<Rightarrow> reply_action list \<times> nat \<times> chunk_result \<times> rat" where
  "deliver_attempts send k chunk [] time_budget = ([], k, chunk_abandoned False, time_budget)"
| "deliver_attempts send k chunk (attempt # attempts) time_budget =
     (case send k (Chunk chunk) of
        None \<Rightarrow> ([Sent (Chunk chunk) True], k + 1, chunk_delivered, time_budget)
      | Some exc \<Rightarrow>
          (let outcome = classify_send_error exc;
               is_last_attempt = (attempt \<ge> ATTEMPTS_PER_CHUNK);
               failed = (\<lambda>ra. ([Sent (Chunk chunk) False], k + 1, chunk_abandoned ra, time_budget));
               wait = (\<lambda>delay. case deliver_attempts send (k + 1) chunk attempts (time_budget - delay) of
                                 (actions, k', result, b) \<Rightarrow> ([Sent (Chunk chunk) False, Slept delay] @ actions, k', result, b))
           in if so_retryable outcome \<and> so_retry_after_seconds outcome \<noteq> None then
                (let retry_after = of_int (the (so_retry_after_seconds outcome))
                 in if retry_after > time_budget then failed True
                    else if is_last_attempt then failed True
                    else wait retry_after)
              else if so_retryable outcome \<and> \<not> is_last_attempt then
                (let delay = REPLY_RETRY_DELAYS_SECONDS ! (attempt - 1)
                 in if delay > time_budget then failed False else wait delay)
              else failed False))"

definition deliver_one_chunk ::
  "(nat \<Rightarrow> reply_message \<Rightarrow> telegram_exception option) \<Rightarrow> nat \<Rightarrow> string \<Rightarrow> rat \<Rightarrow> reply_action list \<times> nat \<times> chunk_result \<times> rat" where
  "deliver_one_chunk send k chunk time_budget = deliver_attempts send k chunk [1..<ATTEMPTS_PER_CHUNK + 1] time_budget"

definition send_incomplete_warning :: "(nat \<Rightarrow> reply_message \<Rightarrow> telegram_exception option) \<Rightarrow> nat \<Rightarrow> reply_action list" where
  "send_incomplete_warning send k = [Sent Incomplete_Warning (send k Incomplete_Warning = None)]"

fun deliver_chunks ::
  "(nat \<Rightarrow> reply_message \<Rightarrow> telegram_exception option) \<Rightarrow> nat \<Rightarrow> string list \<Rightarrow> rat \<Rightarrow> reply_action list" where
  "deliver_chunks send k [] time_budget = []"
| "deliver_chunks send k (chunk # chunks) time_budget =
     (case deliver_one_chunk send k chunk time_budget of
        (actions, k', result, b) \<Rightarrow>
          if \<not> cr_delivered result then
            actions @ (if cr_abandoned_due_to_retry_after result then [] else send_incomplete_warning send k')
          else actions @ deliver_chunks send k' chunks b)"

definition deliver_reply_chunks :: "(nat \<Rightarrow> reply_message \<Rightarrow> telegram_exception option) \<Rightarrow> string list \<Rightarrow> reply_action list" where
  "deliver_reply_chunks send chunks = deliver_chunks send 0 chunks REPLY_TIME_BUDGET_SECONDS"

section \<open>What the chat sees\<close>

definition accepted :: "reply_action list \<Rightarrow> reply_message list" where
  "accepted actions = List.map_filter (\<lambda>a. case a of Sent m ok \<Rightarrow> if ok then Some m else None | Slept _ \<Rightarrow> None) actions"

definition slept :: "reply_action list \<Rightarrow> rat list" where
  "slept actions = List.map_filter (\<lambda>a. case a of Sent _ _ \<Rightarrow> None | Slept d \<Rightarrow> Some d) actions"

definition sends :: "reply_action list \<Rightarrow> nat" where
  "sends actions = length (filter (\<lambda>a. case a of Sent _ _ \<Rightarrow> True | Slept _ \<Rightarrow> False) actions)"

lemma trace_simps [simp]:
  "accepted [] = []" "slept [] = []" "sends [] = 0"
  "accepted (Sent m ok # as) = (if ok then m # accepted as else accepted as)" "accepted (Slept d # as) = accepted as"
  "slept (Sent m ok # as) = slept as" "slept (Slept d # as) = d # slept as"
  "sends (Sent m ok # as) = Suc (sends as)" "sends (Slept d # as) = sends as"
  by (simp_all add: accepted_def slept_def sends_def map_filter_simps)

lemma trace_append [simp]:
  "accepted (as @ bs) = accepted as @ accepted bs" "slept (as @ bs) = slept as @ slept bs" "sends (as @ bs) = sends as + sends bs"
  by (simp_all add: accepted_def slept_def sends_def map_filter_def)

text \<open>Telegram never asks to wait a negative time.\<close>

definition sane_waits :: "(nat \<Rightarrow> reply_message \<Rightarrow> telegram_exception option) \<Rightarrow> bool" where
  "sane_waits send \<longleftrightarrow> (\<forall>k m r. send k m = Some (RetryAfter r) \<longrightarrow> 0 \<le> r)"

lemma retry_after_only: "so_retry_after_seconds (classify_send_error exc) = Some n \<Longrightarrow> \<exists>r. exc = RetryAfter r \<and> n = r + 1"
  by (cases exc) (auto simp: failed_send_def)

lemma retry_after_sane:
  "sane_waits send \<Longrightarrow> send k m = Some exc \<Longrightarrow> so_retry_after_seconds (classify_send_error exc) = Some n \<Longrightarrow>
   0 \<le> n \<and> so_retryable (classify_send_error exc)"
  by (cases exc) (force simp: failed_send_def sane_waits_def)+

lemma deliver_attempts_trace:
  assumes "sane_waits send" "0 \<le> b" "\<forall>a \<in> set attempts. 1 \<le> a" "deliver_attempts send k chunk attempts b = (as, k', r, b')"
  shows "accepted as = (if cr_delivered r then [Chunk chunk] else [])
       \<and> sum_list (slept as) = b - b' \<and> 0 \<le> b' \<and> list_all (\<lambda>d. 0 \<le> d) (slept as)
       \<and> sends as \<le> length attempts"
  using assms
proof (induction attempts arbitrary: k b as k' r b')
  case Nil
  then show ?case by (auto simp: chunk_abandoned_def)
next
  case (Cons attempt attempts)
  show ?case
  proof (cases "send k (Chunk chunk)")
    case None
    then show ?thesis using Cons.prems by (auto simp: chunk_delivered_def)
  next
    case (Some exc)
    let ?o = "classify_send_error exc"
    have step: "?thesis" if wait: "deliver_attempts send (k + 1) chunk attempts (b - d) = (as1, k', r, b')"
        "as = [Sent (Chunk chunk) False, Slept d] @ as1" "0 \<le> d" "d \<le> b" for d as1
      using Cons.IH [OF Cons.prems(1) _ _ wait(1)] Cons.prems(3) wait(2-4) by auto
    have fail: "?thesis" if "as = [Sent (Chunk chunk) False]" "r = chunk_abandoned ra" "b' = b" for ra
      using that Cons.prems(2) by (simp add: chunk_abandoned_def)
    consider (flood) n where "so_retryable ?o" "so_retry_after_seconds ?o = Some n" "0 \<le> n"
      | (plain) "so_retryable ?o" "so_retry_after_seconds ?o = None" "attempt < ATTEMPTS_PER_CHUNK"
      | (permanent) "so_retryable ?o \<longrightarrow> so_retry_after_seconds ?o = None \<and> attempt \<ge> ATTEMPTS_PER_CHUNK"
      using retry_after_sane [OF Cons.prems(1) Some] by (cases "so_retry_after_seconds ?o") (auto, meson not_le)
    then show ?thesis
    proof cases
      case flood
      obtain as1 k1 r1 b1 where rec: "deliver_attempts send (k + 1) chunk attempts (b - of_int n) = (as1, k1, r1, b1)"
        using prod_cases4 by blast
      show ?thesis
      proof (cases "of_int n > b \<or> attempt \<ge> ATTEMPTS_PER_CHUNK")
        case True
        then show ?thesis using Cons.prems(4) Some flood by (intro fail [of True]) (auto simp: Let_def split: if_splits)
      next
        case False
        then show ?thesis
          using Cons.prems(4) Some flood rec by (intro step [of "of_int n" as1]) (auto simp: Let_def)
      qed
    next
      case plain
      define d where "d = REPLY_RETRY_DELAYS_SECONDS ! (attempt - 1)"
      obtain as1 k1 r1 b1 where rec: "deliver_attempts send (k + 1) chunk attempts (b - d) = (as1, k1, r1, b1)"
        using prod_cases4 by blast
      have "0 \<le> d"
        using plain(3) Cons.prems(3) by (auto simp: d_def REPLY_RETRY_DELAYS_SECONDS_def ATTEMPTS_PER_CHUNK_def nth_Cons split: nat.split)
      show ?thesis
      proof (cases "d > b")
        case True
        then show ?thesis using Cons.prems(4) Some plain by (intro fail [of False]) (auto simp: Let_def d_def)
      next
        case False
        then show ?thesis
          using Cons.prems(4) Some plain rec \<open>0 \<le> d\<close> by (intro step [of d as1]) (auto simp: Let_def d_def)
      qed
    next
      case permanent
      then show ?thesis using Cons.prems(4) Some by (intro fail [of False]) (auto simp: Let_def split: if_splits)
    qed
  qed
qed

text \<open>A chunk that is not delivered was refused by its last call, and Telegram's wait decides the warning.\<close>

lemma flood_iff: "so_retryable (classify_send_error exc) \<and> so_retry_after_seconds (classify_send_error exc) \<noteq> None \<longleftrightarrow> (\<exists>n. exc = RetryAfter n)"
  by (cases exc) (auto simp: failed_send_def)

lemma deliver_attempts_refused:
  assumes "deliver_attempts send k chunk attempts b = (as, k', r, b')" "\<not> cr_delivered r"
    and "attempts \<noteq> []" "last attempts \<ge> ATTEMPTS_PER_CHUNK"
  shows "\<exists>exc. send (k' - 1) (Chunk chunk) = Some exc \<and> cr_abandoned_due_to_retry_after r = (\<exists>n. exc = RetryAfter n)"
  using assms
proof (induction attempts arbitrary: k b as k' r b')
  case (Cons attempt attempts)
  show ?case
  proof (cases "send k (Chunk chunk)")
    case None
    then show ?thesis using Cons.prems by (auto simp: chunk_delivered_def)
  next
    case (Some exc)
    show ?thesis
    proof (cases "k' = k + 1 \<and> cr_abandoned_due_to_retry_after r = (\<exists>n. exc = RetryAfter n)")
      case True
      then show ?thesis using Some by simp
    next
      case False
      then obtain d as1 where rec: "deliver_attempts send (k + 1) chunk attempts (b - d) = (as1, k', r, b')" "\<not> attempt \<ge> ATTEMPTS_PER_CHUNK"
        using Cons.prems(1) Some flood_iff [of exc]
        by (auto simp: Let_def chunk_abandoned_def split: if_splits prod.splits)
      then have "attempts \<noteq> []" using Cons.prems(4) by auto
      then show ?thesis using Cons.IH [OF rec(1) Cons.prems(2)] Cons.prems(4) by simp
    qed
  qed
qed simp

lemma deliver_one_chunk_facts:
  assumes "sane_waits send" "0 \<le> b" "deliver_one_chunk send k chunk b = (as, k', r, b')"
  shows "accepted as = (if cr_delivered r then [Chunk chunk] else [])" "sum_list (slept as) = b - b'" "0 \<le> b'"
    "list_all (\<lambda>d. 0 \<le> d) (slept as)" "sends as \<le> 3"
    "\<not> cr_delivered r \<Longrightarrow> \<exists>exc. send (k' - 1) (Chunk chunk) = Some exc \<and> cr_abandoned_due_to_retry_after r = (\<exists>n. exc = RetryAfter n)"
proof -
  have three: "ATTEMPTS_PER_CHUNK = 3" by (simp add: ATTEMPTS_PER_CHUNK_def REPLY_RETRY_DELAYS_SECONDS_def)
  have run: "deliver_attempts send k chunk [1..<ATTEMPTS_PER_CHUNK + 1] b = (as, k', r, b')" using assms(3) by (simp add: deliver_one_chunk_def)
  have pos: "\<forall>a \<in> set [1..<ATTEMPTS_PER_CHUNK + 1]. 1 \<le> a" by auto
  note facts = deliver_attempts_trace [OF assms(1,2) pos run]
  show "accepted as = (if cr_delivered r then [Chunk chunk] else [])" "sum_list (slept as) = b - b'" "0 \<le> b'"
    "list_all (\<lambda>d. 0 \<le> d) (slept as)" using facts by simp_all
  show "sends as \<le> 3" using facts three by simp
  show "\<exists>exc. send (k' - 1) (Chunk chunk) = Some exc \<and> cr_abandoned_due_to_retry_after r = (\<exists>n. exc = RetryAfter n)" if "\<not> cr_delivered r"
    using deliver_attempts_refused [OF run that] three by (simp add: upt_conv_Cons)
qed

text \<open>The outcome of a reply: \<open>n\<close> chunks arrived, and why no more did.\<close>

definition warning_if :: "bool \<Rightarrow> reply_message list" where
  "warning_if ok = (if ok then [Incomplete_Warning] else [])"

definition given_up :: "(nat \<Rightarrow> reply_message \<Rightarrow> telegram_exception option) \<Rightarrow> string list \<Rightarrow> nat \<Rightarrow> reply_action list \<Rightarrow> telegram_exception \<Rightarrow> bool" where
  "given_up send chunks n as exc \<longleftrightarrow>
     (\<exists>j. send j (Chunk (chunks ! n)) = Some exc)
   \<and> (if \<exists>s. exc = RetryAfter s then accepted as = map Chunk (take n chunks)
      else (\<exists>ok. suffix [Sent Incomplete_Warning ok] as
               \<and> accepted as = map Chunk (take n chunks) @ warning_if ok))"

definition reply_outcome :: "(nat \<Rightarrow> reply_message \<Rightarrow> telegram_exception option) \<Rightarrow> string list \<Rightarrow> nat \<Rightarrow> reply_action list \<Rightarrow> bool" where
  "reply_outcome send chunks n as \<longleftrightarrow>
     (if n = length chunks then accepted as = map Chunk chunks else n < length chunks \<and> (\<exists>exc. given_up send chunks n as exc))"

lemma given_up_Cons: "given_up send chunks n as exc \<Longrightarrow> accepted as0 = [Chunk chunk] \<Longrightarrow> given_up send (chunk # chunks) (Suc n) (as0 @ as) exc"
  unfolding given_up_def by (cases "\<exists>s. exc = RetryAfter s") (simp, simp, meson suffix_appendI)

lemma reply_outcome_Cons:
  assumes "reply_outcome send chunks n as" "accepted as0 = [Chunk chunk]"
  shows "reply_outcome send (chunk # chunks) (Suc n) (as0 @ as)"
proof (cases "n = length chunks")
  case True
  then show ?thesis using assms by (simp add: reply_outcome_def)
next
  case False
  then obtain exc where "n < length chunks" "given_up send chunks n as exc" using assms(1) by (auto simp: reply_outcome_def)
  then show ?thesis using given_up_Cons [OF _ assms(2)] unfolding reply_outcome_def by force
qed

lemma deliver_chunks_outcome:
  assumes "sane_waits send" "0 \<le> b"
  shows "(\<exists>n. reply_outcome send chunks n (deliver_chunks send k chunks b))
       \<and> sum_list (slept (deliver_chunks send k chunks b)) \<le> b
       \<and> list_all (\<lambda>d. 0 \<le> d) (slept (deliver_chunks send k chunks b))
       \<and> sends (deliver_chunks send k chunks b) \<le> 3 * length chunks + 1"
  using assms(2)
proof (induction chunks arbitrary: k b)
  case Nil
  then show ?case by (auto simp: reply_outcome_def)
next
  case (Cons chunk chunks)
  obtain as k' r b' where one: "deliver_one_chunk send k chunk b = (as, k', r, b')" using prod_cases4 by blast
  note f = deliver_one_chunk_facts [OF assms(1) Cons.prems one]
  show ?case
  proof (cases "cr_delivered r")
    case True
    obtain n where n: "reply_outcome send chunks n (deliver_chunks send k' chunks b')" using Cons.IH [OF f(3)] by blast
    have "reply_outcome send (chunk # chunks) (Suc n) (deliver_chunks send k (chunk # chunks) b)"
      using reply_outcome_Cons [OF n, of as chunk] one True f(1) by simp
    then show ?thesis using Cons.IH [OF f(3), of k'] one True f by (auto simp: list_all_iff)
  next
    case False
    obtain exc where exc: "send (k' - 1) (Chunk chunk) = Some exc" "cr_abandoned_due_to_retry_after r = (\<exists>n. exc = RetryAfter n)"
      using f(6) [OF False] by blast
    have "given_up send (chunk # chunks) 0 (deliver_chunks send k (chunk # chunks) b) exc"
      using one False f(1) exc by (auto simp: given_up_def send_incomplete_warning_def suffix_def warning_if_def)
    then have "reply_outcome send (chunk # chunks) 0 (deliver_chunks send k (chunk # chunks) b)" by (auto simp: reply_outcome_def)
    then show ?thesis using one False f Cons.prems by (auto simp: send_incomplete_warning_def)
  qed
qed

text \<open>
  The chat always sees a prefix of the reply, in order and each chunk once. When a chunk is given
  up, the last call for it raised: if Telegram asked to wait, nothing more is sent, and
  otherwise the warning that the output is incomplete is the last message tried. All waits of one reply
  together last at most fifteen seconds and no more than three calls are made per chunk. When
  no call raises, everything arrives with no wait.
\<close>

theorem reply_delivery_contract:
  "(sane_waits send \<longrightarrow>
     (\<exists>n. reply_outcome send chunks n (deliver_reply_chunks send chunks))
   \<and> sum_list (slept (deliver_reply_chunks send chunks)) \<le> 15
   \<and> list_all (\<lambda>d. 0 \<le> d) (slept (deliver_reply_chunks send chunks))
   \<and> sends (deliver_reply_chunks send chunks) \<le> 3 * length chunks + 1)
 \<and> ((\<forall>k m. send k m = None) \<longrightarrow>
     accepted (deliver_reply_chunks send chunks) = map Chunk chunks \<and> slept (deliver_reply_chunks send chunks) = [])"
proof (intro conjI [of "_ \<longrightarrow> _"] impI)
  assume "sane_waits send"
  then show "(\<exists>n. reply_outcome send chunks n (deliver_reply_chunks send chunks))
   \<and> sum_list (slept (deliver_reply_chunks send chunks)) \<le> 15
   \<and> list_all (\<lambda>d. 0 \<le> d) (slept (deliver_reply_chunks send chunks))
   \<and> sends (deliver_reply_chunks send chunks) \<le> 3 * length chunks + 1"
    using deliver_chunks_outcome [of send 15 chunks 0] by (simp add: deliver_reply_chunks_def REPLY_TIME_BUDGET_SECONDS_def)
next
  assume fine: "\<forall>k m. send k m = None"
  have one: "deliver_one_chunk send k chunk b = ([Sent (Chunk chunk) True], k + 1, chunk_delivered, b)" for k chunk b
    using fine by (simp add: deliver_one_chunk_def ATTEMPTS_PER_CHUNK_def REPLY_RETRY_DELAYS_SECONDS_def upt_conv_Cons)
  have "accepted (deliver_chunks send k chunks b) = map Chunk chunks \<and> slept (deliver_chunks send k chunks b) = []" for k b
    by (induction chunks arbitrary: k) (simp_all add: one chunk_delivered_def)
  then show "accepted (deliver_reply_chunks send chunks) = map Chunk chunks \<and> slept (deliver_reply_chunks send chunks) = []"
    by (simp add: deliver_reply_chunks_def)
qed

definition flaky :: "nat \<Rightarrow> reply_message \<Rightarrow> telegram_exception option" where
  "flaky k m = (if k = 0 then Some TimedOutOrNetwork else if k = 2 then Some (RetryAfter 60) else None)"

theorem reply_delivery_contract_witness:
  "sane_waits flaky \<and> sum_list (slept (deliver_reply_chunks flaky [''a'', ''b''])) \<le> 15
 \<and> deliver_reply_chunks flaky [''a'', ''b''] = [Sent (Chunk ''a'') False, Slept 1, Sent (Chunk ''a'') True, Sent (Chunk ''b'') False]
 \<and> accepted (deliver_reply_chunks (\<lambda>_ _. None) [''a'']) = [Chunk ''a'']"
proof (intro conjI)
  show sane: "sane_waits flaky" by (simp add: sane_waits_def flaky_def)
  show "sum_list (slept (deliver_reply_chunks flaky [''a'', ''b''])) \<le> 15" using reply_delivery_contract [of flaky] sane by blast
  show "deliver_reply_chunks flaky [''a'', ''b''] = [Sent (Chunk ''a'') False, Slept 1, Sent (Chunk ''a'') True, Sent (Chunk ''b'') False]"
    by code_simp
  show "accepted (deliver_reply_chunks (\<lambda>_ _. None) [''a'']) = [Chunk ''a'']"
    using reply_delivery_contract [of "\<lambda>_ _. None" "[''a'']"] by simp
qed

end
