(* ===== verification/Admin_Format.thy ===== *)
theory Admin_Format
  imports Stuck Fees Alert_Delivery "HOL-Library.Sublist"
begin

text \<open>
  The texts of the admin bot (\<open>app/adminbot/format.py\<close>): escaping, amounts, durations, the splitting
  of long messages, and the blocks that show a payment, an alert or a report.

  A block is the list of what it shows, each value with an ASCII name in place of its fixed Persian
  label. The local calendar time of an instant is the argument \<open>fmt_time\<close>.
\<close>

section \<open>Escaping and numbers\<close>

text \<open>\<open>html.escape(s, quote=False)\<close>\<close>

definition esc_char :: "char \<Rightarrow> string" where
  "esc_char c = (if c = CHR ''&'' then ''&amp;'' else if c = CHR ''<'' then ''&lt;'' else if c = CHR ''>'' then ''&gt;'' else [c])"

definition esc :: "string \<Rightarrow> string" where
  "esc s = concat (map esc_char s)"

text \<open>\<open>f"{n:,}"\<close>: groups of three digits.\<close>

fun group3 :: "nat \<Rightarrow> string" where
  "group3 n = (if n < 1000 then show_nat n
     else group3 (n div 1000) @ '','' @ (let r = n mod 1000 in (if r < 100 then ''0'' else []) @ (if r < 10 then ''0'' else []) @ show_nat r))"

declare group3.simps [simp del]

definition fmt_int :: "int \<Rightarrow> string" where
  "fmt_int n = (if n < 0 then CHR ''-'' # group3 (nat (- n)) else group3 (nat n))"

definition fmt_amount :: "int option \<Rightarrow> string option" where
  "fmt_amount amount = map_option fmt_int amount"

definition fmt_fee_rate :: "int option \<Rightarrow> string option" where
  "fmt_fee_rate rate =
     map_option (\<lambda>rate_bps. let whole = rate_bps div 100; frac = rate_bps mod 100
        in if frac = 0 then show_int whole @ ''%''
           else rstrip_zeros (show_int whole @ ''.'' @ pad2 (nat frac)) @ ''%'') rate"

section \<open>Durations\<close>

datatype duration = Seconds int | Minutes int | Hours int int | Days int int

text \<open>\<open>int\<close> truncates towards zero, so a negative age gives zero.\<close>

definition fmt_duration :: "rat \<Rightarrow> duration" where
  "fmt_duration seconds =
     (let t = (if seconds < 0 then 0 else \<lfloor>seconds\<rfloor>)
      in if t < 60 then Seconds t
         else let minutes = t div 60
              in if minutes < 60 then Minutes minutes
                 else let hours = minutes div 60
                      in if hours < 24 then Hours hours (minutes mod 60) else Days (hours div 24) (hours mod 24))"

definition fmt_duration_ago :: "time option \<Rightarrow> time \<Rightarrow> duration option" where
  "fmt_duration_ago v now = map_option (\<lambda>t. fmt_duration (now - t)) v"

section \<open>Splitting\<close>

text \<open>The inner loop on one line: the full pieces and what is left. The limit is positive in every caller.\<close>

function hard_split :: "nat \<Rightarrow> string \<Rightarrow> string list \<times> string" where
  "hard_split max_length line =
     (if max_length = 0 \<or> length line \<le> max_length then ([], line)
      else case hard_split max_length (drop max_length line) of (pieces, rest) \<Rightarrow> (take max_length line # pieces, rest))"
  by pat_completeness auto
termination by (relation "measure (\<lambda>(_, l). length l)") auto

declare hard_split.simps [simp del]

definition split_step :: "nat \<Rightarrow> string list \<times> string \<Rightarrow> string \<Rightarrow> string list \<times> string" where
  "split_step max_length st line =
     (let (chunks, current) = st;
          (pieces, rest) = hard_split max_length line;
          (chunks, current) =
            (if pieces = [] then (chunks, current) else (chunks @ (if current \<noteq> [] then [current] else []) @ pieces, []));
          candidate = (if current \<noteq> [] then current @ [CHR 0x0A] @ rest else rest)
      in if length candidate > max_length then (chunks @ [current], rest) else (chunks, candidate))"

definition split_message :: "string \<Rightarrow> nat \<Rightarrow> string list" where
  "split_message body max_length =
     (if length body \<le> max_length then [body]
      else case foldl (split_step max_length) ([], []) (split_at (CHR 0x0A) body) of
             (chunks, current) \<Rightarrow> if current \<noteq> [] then chunks @ [current] else chunks)"

section \<open>Blocks\<close>

text \<open>\<open>None\<close> is the dash shown for a missing value.\<close>

type_synonym shown_field = "string \<times> string option"

definition shown :: "string \<Rightarrow> string \<Rightarrow> shown_field list" where
  "shown name v = [(name, Some v)]"

definition shown_if :: "bool \<Rightarrow> string \<Rightarrow> string \<Rightarrow> shown_field list" where
  "shown_if b name v = (if b then [(name, Some v)] else [])"

definition shown_str :: "string \<Rightarrow> string option \<Rightarrow> shown_field list" where
  "shown_str name v = (if v \<in> {None, Some []} then [] else [(name, map_option esc v)])"

definition payment_block :: "(time \<Rightarrow> string) \<Rightarrow> payment \<Rightarrow> shown_field list" where
  "payment_block fmt_time p =
     shown ''bot_order_id'' (esc (p_bot_order_id p))
   @ shown ''gateway_order_id'' (show_int (p_gateway_order_id p))
   @ [(''amount'', fmt_amount (Some (p_amount p))), (''fee_rate'', fmt_fee_rate (Some (p_fee_rate_bps p))),
      (''fee_amount'', fmt_amount (Some (p_fee_amount p))), (''payable_amount'', fmt_amount (Some (p_payable_amount p)))]
   @ shown ''status'' (status_value (p_status p))
   @ shown ''gateway'' (if p_gateway_verified_at p \<noteq> None then ''verified'' else ''not verified'')
   @ shown_str ''reason'' (map_option reason_value (p_bot_notify_reason p))
   @ shown_if (p_bot_notify_attempts p \<noteq> 0) ''attempts'' (show_int (p_bot_notify_attempts p))
   @ shown_str ''reference_id'' (p_reference_id p)
   @ shown ''created_at'' (fmt_time (p_created_at p))"

text \<open>\<open>str.partition(":")\<close> and the rest after the colon, or the whole when there is nothing after it.\<close>

definition delivery_reason :: "stuck_entry \<Rightarrow> string" where
  "delivery_reason e =
     (let reason = drop 1 (dropWhile (\<lambda>c. c \<noteq> CHR '':'') (se_category e))
      in if reason = [] then se_category e else reason)"

definition pad_index :: "nat \<Rightarrow> string" where
  "pad_index i = pad2 i @ ''.''"

definition bot_delivery_entry_block :: "nat \<Rightarrow> stuck_entry \<Rightarrow> time \<Rightarrow> shown_field list \<times> duration" where
  "bot_delivery_entry_block index e now =
     (let p = se_payment e;
          wait_since = (if p_status p = MANUAL_REVIEW then coalesce (p_manual_review_at p) (p_created_at p) else p_created_at p)
      in (shown ''index'' (pad_index index)
          @ shown ''bot_order_id'' (esc (p_bot_order_id p))
          @ shown ''reason'' (esc (delivery_reason e))
          @ shown_if (p_bot_notify_attempts p \<noteq> 0) ''attempts'' (show_int (p_bot_notify_attempts p))
          @ (case p_bot_last_http_status p of None \<Rightarrow> [] | Some h \<Rightarrow> shown_if (h \<noteq> 0) ''http_status'' (show_int h)),
          fmt_duration (now - wait_since)))"

text \<open>The rows of \<open>/waiting\<close> and \<open>/expired\<close> differ in the label of the age only.\<close>

definition link_age_entry_block :: "nat \<Rightarrow> payment \<Rightarrow> time \<Rightarrow> shown_field list \<times> duration \<times> duration option" where
  "link_age_entry_block index p now =
     (shown ''index'' (pad_index index) @ shown ''bot_order_id'' (esc (p_bot_order_id p))
      @ [(''amount'', fmt_amount (Some (p_amount p)))] @ shown ''checks'' (show_int (p_reconciliation_attempts p)),
      fmt_duration (now - coalesce (p_callback_token_issued_at p) (p_created_at p)),
      fmt_duration_ago (p_reconciliation_last_at p) now)"

section \<open>Alerts\<close>

definition ALERT_DETAIL_KEYS :: "string list" where
  "ALERT_DETAIL_KEYS =
     [''reason'', ''action'', ''attempt'', ''expected_amount'', ''reported_amount'', ''check'', ''detail'', ''count'', ''size'',
      ''file_name'', ''error_code'']"

definition report_amount :: "jdict \<Rightarrow> string \<Rightarrow> shown_field" where
  "report_amount payload key = (key, case jget payload key of JInt n \<Rightarrow> fmt_amount (Some n) | _ \<Rightarrow> fmt_amount None)"

text \<open>The report; the values come from its payload, the counts are integers.\<close>

definition daily_report_fields :: "(json \<Rightarrow> string) \<Rightarrow> jdict \<Rightarrow> shown_field list" where
  "daily_report_fields py_str payload =
     [(''report_date'', map_option (esc \<circ> py_str) (map_of payload ''report_date''))]
   @ map (report_amount payload)
       [''links_created'', ''gateway_verified'', ''bot_accepted'', ''total_verified_toman'', ''manual_review'', ''pending_retry'',
        ''getlink_failures'', ''verify_failures'', ''bot_delivery_failures'']
   @ [(''backup_status'', map_option (esc \<circ> py_str) (map_of payload ''backup_status'')),
      (''health_summary'', map_option (esc \<circ> py_str) (map_of payload ''health_summary''))]"

text \<open>
  \<open>title\<close> is the fixed title of a known alert type and the type itself otherwise; the row of the
  alert's payment is read again when the message is built.
\<close>

definition alert_fields ::
  "(string \<Rightarrow> string) \<Rightarrow> (time \<Rightarrow> string) \<Rightarrow> (json \<Rightarrow> string) \<Rightarrow> db \<Rightarrow> claimed_alert \<Rightarrow> time \<Rightarrow> shown_field list" where
  "alert_fields title fmt_time py_str d c now =
     shown ''title'' (esc (title (ca_alert_type c)))
   @ (if ca_alert_type c = ''daily_report'' then daily_report_fields py_str (ca_payload c)
      else (case Option.bind (ca_payment_id c) (\<lambda>i. find (\<lambda>p. p_id p = i) (payments d)) of
              None \<Rightarrow> [] | Some p \<Rightarrow> payment_block fmt_time p)
         @ List.map_filter (\<lambda>key. case map_of (ca_payload c) key of
               None \<Rightarrow> None | Some JNull \<Rightarrow> None | Some v \<Rightarrow> Some (key, Some (esc (py_str v)))) ALERT_DETAIL_KEYS)
   @ shown ''time'' (fmt_time now)"

text \<open>\<open>lay_out\<close> writes the fields with their labels.\<close>

definition alert_message ::
  "(string \<Rightarrow> string) \<Rightarrow> (time \<Rightarrow> string) \<Rightarrow> (json \<Rightarrow> string) \<Rightarrow> (shown_field list \<Rightarrow> string) \<Rightarrow> nat \<Rightarrow> db \<Rightarrow> claimed_alert \<Rightarrow> time \<Rightarrow> string list" where
  "alert_message title fmt_time py_str lay_out max_length d c now =
     split_message (lay_out (alert_fields title fmt_time py_str d c now)) max_length"

section \<open>Nothing escapes the escaping\<close>

fun unesc :: "string \<Rightarrow> string" where
  "unesc [] = []"
| "unesc (c # cs) =
     (if prefix ''&amp;'' (c # cs) then CHR ''&'' # unesc (drop 4 cs)
      else if prefix ''&lt;'' (c # cs) then CHR ''<'' # unesc (drop 3 cs)
      else if prefix ''&gt;'' (c # cs) then CHR ''>'' # unesc (drop 3 cs)
      else c # unesc cs)"

text \<open>
  Untrusted text cannot become markup: an escaped text has no angle bracket, every ampersand in it
  starts one of three entities, and reading the entities back gives the text itself, so two texts that
  look the same are the same.
\<close>

theorem esc_roundtrip:
  "unesc (esc s) = s \<and> CHR ''<'' \<notin> set (esc s) \<and> CHR ''>'' \<notin> set (esc s)
 \<and> (\<forall>i < length (esc s). esc s ! i = CHR ''&'' \<longrightarrow>
      (\<exists>e \<in> {''&amp;'', ''&lt;'', ''&gt;''}. prefix e (drop i (esc s))))"
proof (intro conjI)
  show "unesc (esc s) = s"
  proof (induction s)
    case (Cons c s)
    then show ?case by (auto simp: esc_def esc_char_def)
  qed (simp add: esc_def)
  show "CHR ''<'' \<notin> set (esc s)" "CHR ''>'' \<notin> set (esc s)" by (auto simp: esc_def esc_char_def split: if_splits)
  show "\<forall>i < length (esc s). esc s ! i = CHR ''&'' \<longrightarrow> (\<exists>e \<in> {''&amp;'', ''&lt;'', ''&gt;''}. prefix e (drop i (esc s)))"
  proof (induction s)
    case (Cons c s)
    have split: "esc (c # s) = esc_char c @ esc s" by (simp add: esc_def)
    show ?case
    proof (intro allI impI)
      fix i
      assume i: "i < length (esc (c # s))" "esc (c # s) ! i = CHR ''&''"
      show "\<exists>e \<in> {''&amp;'', ''&lt;'', ''&gt;''}. prefix e (drop i (esc (c # s)))"
      proof (cases "i < length (esc_char c)")
        case True
        then have "i = 0 \<and> c \<in> {CHR ''&'', CHR ''<'', CHR ''>''}"
          using i(2) unfolding split by (auto simp: nth_append esc_char_def nth_Cons split: if_splits nat.splits)
        then show ?thesis unfolding split by (auto simp: esc_char_def)
      next
        case False
        then show ?thesis using Cons i unfolding split by (simp add: nth_append)
      qed
    qed
  qed (simp add: esc_def)
qed

theorem esc_roundtrip_witness:
  "unesc (esc ''<b>&'') = ''<b>&'' \<and> CHR ''<'' \<notin> set (esc ''<b>&'') \<and> prefix ''&amp;'' (drop 9 (esc ''<b>&''))"
proof -
  have amp: "9 < length (esc ''<b>&'')" "esc ''<b>&'' ! 9 = CHR ''&''" by (simp_all add: esc_def esc_char_def)
  then obtain e where e: "e \<in> {''&amp;'', ''&lt;'', ''&gt;''}" "prefix e (drop 9 (esc ''<b>&''))"
    using esc_roundtrip [of "''<b>&''"] by blast
  then have "prefix ''&amp;'' (drop 9 (esc ''<b>&''))" by (auto simp: esc_def esc_char_def)
  then show ?thesis using esc_roundtrip [of "''<b>&''"] by blast
qed


section \<open>Amounts and durations\<close>

lemma no_comma_digit: "is_ascii_digit c \<Longrightarrow> c \<noteq> CHR '',''"
  by (auto simp: is_ascii_digit_def cc_def)

lemma filter_comma_show_nat: "filter (\<lambda>c. c \<noteq> CHR '','') (show_nat n) = show_nat n"
  using show_nat_digits [of n] no_comma_digit by (auto simp: filter_id_conv list_all_iff)

definition pad3 :: "nat \<Rightarrow> string" where
  "pad3 r = [digit_char (r div 100), digit_char (r div 10 mod 10), digit_char (r mod 10)]"

lemma pad3_padding:
  assumes "r < 1000"
  shows "(if r < 100 then ''0'' else []) @ (if r < 10 then ''0'' else []) @ show_nat r = pad3 r"
proof -
  consider "r < 10" | "10 \<le> r" "r < 100" | "100 \<le> r" by linarith
  then show ?thesis
  proof cases
    case 1
    then show ?thesis using digit_char_zero by (simp add: pad3_def show_nat.simps [of r])
  next
    case 2
    then have "r div 10 < 10" by simp
    then show ?thesis using 2 digit_char_zero by (simp add: pad3_def show_nat.simps [of r] show_nat.simps [of "r div 10"])
  next
    case 3
    then have "10 \<le> r div 10" "r div 10 div 10 < 10" "r div 10 div 10 = r div 100" using assms by (simp_all add: div_mult2_eq [symmetric])
    then show ?thesis using 3 by (simp add: pad3_def show_nat.simps [of r] show_nat.simps [of "r div 10"] show_nat.simps [of "r div 100"])
  qed
qed

lemma show_nat_thousands: "1000 \<le> n \<Longrightarrow> show_nat n = show_nat (n div 1000) @ pad3 (n mod 1000)"
proof -
  assume n: "1000 \<le> n"
  have "n div 10 div 10 div 10 = n div 1000" by (simp add: div_mult2_eq [symmetric])
  moreover have "n div 10 mod 10 = n mod 1000 div 10 mod 10"
    using mod_mult2_eq [of n 10 100] by (simp add: mod_mod_cancel)
  moreover have "n div 10 div 10 mod 10 = n mod 1000 div 100"
    using mod_mult2_eq [of n 100 10] by (simp add: div_mult2_eq [symmetric])
  moreover have "n mod 10 = n mod 1000 mod 10" by (simp add: mod_mod_cancel)
  moreover have "10 \<le> n" "10 \<le> n div 10" "10 \<le> n div 10 div 10" using n by simp_all
  ultimately show ?thesis
    by (simp add: pad3_def show_nat.simps [of n] show_nat.simps [of "n div 10"] show_nat.simps [of "n div 10 div 10"])
qed

lemma group3_digits: "filter (\<lambda>c. c \<noteq> CHR '','') (group3 n) = show_nat n"
proof (induction n rule: group3.induct)
  case (1 n)
  show ?case
  proof (cases "n < 1000")
    case True
    then show ?thesis using filter_comma_show_nat by (simp add: group3.simps [of n])
  next
    case False
    have "pad3 (n mod 1000) = filter (\<lambda>c. c \<noteq> CHR '','') (pad3 (n mod 1000))"
      using no_comma_digit digit_char_digit by (auto simp: pad3_def)
    then show ?thesis
      using 1 False show_nat_thousands [of n] pad3_padding [of "n mod 1000"] by (simp add: group3.simps [of n] Let_def)
  qed
qed

text \<open>Dropping the commas of an amount gives its digits.\<close>

lemma fmt_int_digits: "filter (\<lambda>c. c \<noteq> CHR '','') (fmt_int n) = show_int n"
  by (simp add: fmt_int_def show_int_def group3_digits)

text \<open>
  The percentage the bot shows is the one the fee commands print; grouping an amount only adds commas.
\<close>

lemma fee_rate_shown: "fmt_fee_rate (Some r) = Some (format_rate_percent r)"
  by (simp add: fmt_fee_rate_def format_rate_percent_def)

fun duration_seconds :: "duration \<Rightarrow> int" where
  "duration_seconds (Seconds s) = s"
| "duration_seconds (Minutes m) = 60 * m"
| "duration_seconds (Hours h m) = 3600 * h + 60 * m"
| "duration_seconds (Days d h) = 86400 * d + 3600 * h"

fun duration_unit :: "duration \<Rightarrow> int" where
  "duration_unit (Seconds s) = 1"
| "duration_unit (Minutes m) = 60"
| "duration_unit (Hours h m) = 60"
| "duration_unit (Days d h) = 3600"

fun duration_ok :: "duration \<Rightarrow> bool" where
  "duration_ok (Seconds s) = (0 \<le> s \<and> s < 60)"
| "duration_ok (Minutes m) = (1 \<le> m \<and> m < 60)"
| "duration_ok (Hours h m) = (1 \<le> h \<and> h < 24 \<and> 0 \<le> m \<and> m < 60)"
| "duration_ok (Days d h) = (1 \<le> d \<and> 0 \<le> h \<and> h < 24)"

text \<open>
  A duration is shown with each part in its range and never more than one unit of its last part
  below the true age; a negative age is shown as zero.
\<close>

theorem duration_precise:
  "duration_ok (fmt_duration t)
 \<and> (0 \<le> t \<longrightarrow> of_int (duration_seconds (fmt_duration t)) \<le> t
            \<and> t < of_int (duration_seconds (fmt_duration t) + duration_unit (fmt_duration t)))
 \<and> (t < 0 \<longrightarrow> fmt_duration t = Seconds 0)"
proof (cases "t < 0")
  case True
  then show ?thesis by (simp add: fmt_duration_def)
next
  case False
  define n where "n = \<lfloor>t\<rfloor>"
  have n: "0 \<le> n" "of_int n \<le> t" "t < of_int (n + 1)"
    using False floor_correct [of t] by (simp_all add: n_def)
  define m h d where "m = n div 60" and "h = m div 60" and "d = h div 24"
  define r0 r1 r2 where "r0 = n mod 60" and "r1 = m mod 60" and "r2 = h mod 24"
  have eqs: "n = 60 * m + r0" "m = 60 * h + r1" "h = 24 * d + r2" by (simp_all add: m_def h_def d_def r0_def r1_def r2_def)
  have ranges: "0 \<le> r0" "r0 < 60" "0 \<le> r1" "r1 < 60" "0 \<le> r2" "r2 < 24" by (simp_all add: r0_def r1_def r2_def)
  have dur: "fmt_duration t = (if n < 60 then Seconds n else if m < 60 then Minutes m else if h < 24 then Hours h r1 else Days d r2)"
    using False by (simp add: fmt_duration_def Let_def n_def [symmetric] m_def h_def d_def r1_def r2_def)
  have facts: "duration_ok (fmt_duration t)" "duration_seconds (fmt_duration t) \<le> n"
      "n + 1 \<le> duration_seconds (fmt_duration t) + duration_unit (fmt_duration t)"
  proof -
    consider "n < 60" | "60 \<le> n" "m < 60" | "60 \<le> n" "60 \<le> m" "h < 24" | "60 \<le> n" "60 \<le> m" "24 \<le> h" by linarith
    then have "duration_ok (fmt_duration t) \<and> duration_seconds (fmt_duration t) \<le> n
        \<and> n + 1 \<le> duration_seconds (fmt_duration t) + duration_unit (fmt_duration t)"
    proof cases
      case 1
      then show ?thesis using n(1) by (simp add: dur)
    next
      case 2
      then have "1 \<le> m" using eqs ranges by linarith
      then show ?thesis using 2 eqs ranges by (simp add: dur)
    next
      case 3
      then have "1 \<le> h" using eqs ranges by linarith
      then show ?thesis using 3 eqs ranges by (simp add: dur)
    next
      case 4
      then have "1 \<le> d" using eqs ranges by linarith
      then show ?thesis using 4 eqs ranges by (simp add: dur)
    qed
    then show "duration_ok (fmt_duration t)" "duration_seconds (fmt_duration t) \<le> n"
      "n + 1 \<le> duration_seconds (fmt_duration t) + duration_unit (fmt_duration t)" by simp_all
  qed
  have "of_int (duration_seconds (fmt_duration t)) \<le> t" using facts(2) n(2) by (meson of_int_le_iff order_trans)
  moreover have "t < of_int (duration_seconds (fmt_duration t) + duration_unit (fmt_duration t))"
    using facts(3) n(3) by (meson of_int_le_iff less_le_trans)
  ultimately show ?thesis using False facts(1) by simp
qed

theorem duration_precise_witness: "of_int (duration_seconds (fmt_duration 3725)) \<le> (3725 :: rat) \<and> fmt_duration (- 1) = Seconds 0"
  using duration_precise [of 3725] duration_precise [of "- 1"] by simp

section \<open>Nothing is lost in splitting\<close>

definition visible :: "string \<Rightarrow> string" where
  "visible s = filter (\<lambda>c. c \<noteq> CHR 0x0A) s"

lemma visible_append [simp]: "visible (a @ b) = visible a @ visible b" "visible [] = []"
  by (simp_all add: visible_def)

lemma visible_newline [simp]: "visible (CHR 0x0A # b) = visible b"
  by (simp add: visible_def)

lemma hard_split_spec:
  assumes "0 < n" "hard_split n line = (pieces, rest)"
  shows "concat pieces @ rest = line \<and> length rest \<le> n \<and> list_all (\<lambda>p. p \<noteq> [] \<and> length p \<le> n) pieces
       \<and> (pieces = [] \<longleftrightarrow> length line \<le> n)"
  using assms
proof (induction n line arbitrary: pieces rest rule: hard_split.induct)
  case (1 n line)
  show ?case
  proof (cases "length line \<le> n")
    case True
    then show ?thesis using 1(3) hard_split.simps [of n line] by auto
  next
    case False
    obtain ps r where rec: "hard_split n (drop n line) = (ps, r)" by fastforce
    then have "pieces = take n line # ps" "rest = r" using False 1(2,3) hard_split.simps [of n line] by auto
    moreover have "concat ps @ r = drop n line" "length r \<le> n" "list_all (\<lambda>p. p \<noteq> [] \<and> length p \<le> n) ps"
      using 1(1) [OF _ 1(2) rec] False 1(2) by simp_all
    ultimately show ?thesis using False 1(2) by auto
  qed
qed

text \<open>What the loop keeps after the lines \<open>ls\<close>.\<close>

definition split_inv :: "nat \<Rightarrow> string list \<Rightarrow> string list \<times> string \<Rightarrow> bool" where
  "split_inv n ls st \<longleftrightarrow>
     list_all (\<lambda>c. c \<noteq> [] \<and> length c \<le> n) (fst st) \<and> length (snd st) \<le> n
   \<and> visible (concat (fst st)) @ visible (snd st) = visible (concat ls)
   \<and> (\<forall>l \<in> set ls. l \<noteq> [] \<and> length l \<le> n \<longrightarrow> (\<exists>c \<in> set (snd st # fst st). sublist l c))"

lemma split_step_inv:
  assumes "0 < n" "split_inv n ls st"
  shows "split_inv n (ls @ [line]) (split_step n st line)"
proof -
  obtain chunks current where st: "st = (chunks, current)" by fastforce
  obtain pieces rest where hs: "hard_split n line = (pieces, rest)" by fastforce
  note h = hard_split_spec [OF assms(1) hs]
  define c1 where "c1 = (if pieces = [] then chunks else chunks @ (if current \<noteq> [] then [current] else []) @ pieces)"
  define cur where "cur = (if pieces = [] then current else [])"
  have mid: "list_all (\<lambda>c. c \<noteq> [] \<and> length c \<le> n) c1" "length cur \<le> n"
      "visible (concat c1) @ visible cur @ visible rest = visible (concat (ls @ [line]))"
    using assms(2) h unfolding split_inv_def st by (auto simp: c1_def cur_def)
  have kept: "\<exists>c \<in> set (cur # c1). sublist l c" if l: "l \<in> set ls" "l \<noteq> []" "length l \<le> n" for l
  proof -
    obtain c where "c \<in> set (current # chunks)" "sublist l c" using assms(2) l unfolding split_inv_def st by auto
    moreover have "c \<noteq> []" using calculation(2) l(2) by auto
    ultimately show ?thesis by (auto simp: c1_def cur_def)
  qed
  have short: "rest = line \<and> pieces = []" if "length line \<le> n" using h that by auto
  define cand where "cand = (if cur \<noteq> [] then cur @ [CHR 0x0A] @ rest else rest)"
  have step: "split_step n st line = (if length cand > n then (c1 @ [cur], rest) else (c1, cand))"
    unfolding split_step_def st by (simp add: hs c1_def cur_def cand_def Let_def)
  have cur_sub: "sublist cur cand" "sublist rest cand"
    using sublist_append_leftI [of rest "cur @ [CHR 0x0A]"] by (simp_all add: cand_def)
  show ?thesis
  proof (cases "length cand > n")
    case True
    then have "cur \<noteq> []" using h by (auto simp: cand_def)
    then show ?thesis
      using mid h kept short True by (auto simp: step split_inv_def)
  next
    case False
    have "visible cand = visible cur @ visible rest" by (simp add: cand_def)
    moreover have "\<exists>c \<in> set (cand # c1). sublist l c" if "l \<in> set ls" "l \<noteq> []" "length l \<le> n" for l
      using kept [OF that] cur_sub(1) sublist_order.order.trans by fastforce
    ultimately show ?thesis using False mid h short cur_sub(2) by (auto simp: step split_inv_def)
  qed
qed

lemma split_fold_inv: "0 < n \<Longrightarrow> split_inv n ls st \<Longrightarrow> split_inv n (ls @ lines) (foldl (split_step n) st lines)"
proof (induction lines arbitrary: ls st)
  case (Cons l lines)
  then show ?case using Cons.IH [OF _ split_step_inv [OF _ Cons.prems(2)], of l] by simp
qed simp

lemma split_at_sublist: "line \<in> set (split_at c body) \<Longrightarrow> sublist line body"
proof (induction body arbitrary: line)
  case (Cons x body)
  obtain w ws where w: "split_at c body = w # ws" by (cases "split_at c body") auto
  have pre: "prefix (hd (split_at c b)) b" for b by (induction b) (auto split: list.split)
  show ?case using Cons w pre [of body] by (auto simp: sublist_Cons_right split: if_splits)
qed simp

lemma visible_split_at: "visible (concat (split_at (CHR 0x0A) body)) = visible body"
  by (induction body) (auto simp: visible_def split: list.split)

text \<open>
  Splitting a message loses nothing: with a positive limit every chunk fits the limit, the
  characters other than line breaks are those of the message in the same order, and each line that fits the
  limit stays whole in some chunk, so no tag or entity inside such a line is torn.
\<close>

theorem split_message_lossless:
  assumes "0 < max_length"
  shows "list_all (\<lambda>c. length c \<le> max_length) (split_message body max_length)
       \<and> visible (concat (split_message body max_length)) = visible body
       \<and> (\<forall>line \<in> set (split_at (CHR 0x0A) body). line \<noteq> [] \<and> length line \<le> max_length \<longrightarrow>
            (\<exists>c \<in> set (split_message body max_length). sublist line c))"
proof (cases "length body \<le> max_length")
  case True
  have "sublist line body" if "line \<in> set (split_at (CHR 0x0A) body)" for line using that by (rule split_at_sublist)
  then show ?thesis using True by (simp add: split_message_def)
next
  case False
  obtain chunks current where run: "foldl (split_step max_length) ([], []) (split_at (CHR 0x0A) body) = (chunks, current)" by fastforce
  have "split_inv max_length (split_at (CHR 0x0A) body) (chunks, current)"
    using split_fold_inv [OF assms, of "[]" "([], [])" "split_at (CHR 0x0A) body"] run by (simp add: split_inv_def)
  moreover have "split_message body max_length = (if current \<noteq> [] then chunks @ [current] else chunks)"
    using False run by (simp add: split_message_def)
  ultimately show ?thesis using visible_split_at [of body] unfolding split_inv_def by (auto simp: list_all_iff)
qed

theorem split_message_lossless_witness:
  "visible (concat (split_message (''ab'' @ [CHR 0x0A] @ ''cdefg'') 3)) = ''abcdefg'' \<and> list_all (\<lambda>c. length c \<le> 3) (split_message (''ab'' @ [CHR 0x0A] @ ''cdefg'') 3)"
  using split_message_lossless [of 3 "''ab'' @ [CHR 0x0A] @ ''cdefg''"] by (simp add: visible_def)

section \<open>What a message can depend on\<close>

definition shown_columns :: "payment \<Rightarrow> _" where
  "shown_columns p = (p_id p, p_bot_order_id p, p_gateway_order_id p, p_amount p, p_fee_rate_bps p, p_fee_amount p, p_payable_amount p,
     p_status p, p_gateway_verified_at p, p_bot_notify_reason p, p_bot_notify_attempts p, p_reference_id p, p_created_at p)"

text \<open>
  The texts show nothing but the columns they name: two payments that agree on those give the same block,
  and so do two alerts whose payments agree, whatever their redirect addresses, callback tokens,
  cards, error texts and payer identities are.
\<close>

theorem alert_shows_columns_only:
  assumes "map shown_columns (payments d) = map shown_columns (payments d')"
  shows "alert_message title fmt_time py_str lay_out max_length d c now = alert_message title fmt_time py_str lay_out max_length d' c now"
proof -
  have block: "payment_block fmt_time p = payment_block fmt_time q" if "shown_columns p = shown_columns q" for p q
    using that by (simp add: payment_block_def shown_columns_def)
  have "rel_option (\<lambda>p q. shown_columns p = shown_columns q) (find (\<lambda>p. p_id p = i) xs) (find (\<lambda>p. p_id p = i) ys)"
    if "map shown_columns xs = map shown_columns ys" for i xs ys
    using that
  proof (induction xs arbitrary: ys)
    case (Cons x xs)
    then obtain y ys' where "ys = y # ys'" "shown_columns x = shown_columns y" "map shown_columns xs = map shown_columns ys'" by auto
    moreover have "p_id x = p_id y" using calculation(2) by (simp add: shown_columns_def)
    ultimately show ?case using Cons.IH by simp
  qed simp
  from this [OF assms] have "(case Option.bind o' (\<lambda>i. find (\<lambda>p. p_id p = i) (payments d)) of None \<Rightarrow> [] | Some p \<Rightarrow> payment_block fmt_time p)
      = (case Option.bind o' (\<lambda>i. find (\<lambda>p. p_id p = i) (payments d')) of None \<Rightarrow> [] | Some p \<Rightarrow> payment_block fmt_time p)" for o'
  proof (cases o')
    case (Some i)
    have "rel_option (\<lambda>p q. shown_columns p = shown_columns q) (find (\<lambda>p. p_id p = i) (payments d)) (find (\<lambda>p. p_id p = i) (payments d'))"
      by fact
    then show ?thesis
    proof (cases rule: option.rel_cases)
      case (Some p q)
      then show ?thesis using block [of p q] \<open>o' = Some i\<close> by simp
    qed (simp add: Some)
  qed simp
  then show ?thesis by (simp add: alert_message_def alert_fields_def)
qed

definition demo_alert :: claimed_alert where
  "demo_alert = \<lparr>ca_alert_id = 1, ca_alert_type = ''manual_review_required'', ca_severity = ''warning'', ca_payment_id = Some 1,
     ca_payload = [], ca_attempts = 1, ca_worker_id = ''w''\<rparr>"

theorem alert_shows_columns_only_witness:
  "alert_message id (\<lambda>_. ''t'') (\<lambda>_. []) (concat \<circ> map fst) 3500 (empty_db\<lparr>payments := [demo_payment 1 ''a'']\<rparr>) demo_alert 5
 = alert_message id (\<lambda>_. ''t'') (\<lambda>_. []) (concat \<circ> map fst) 3500
     (empty_db\<lparr>payments := [(demo_payment 1 ''a'')\<lparr>p_redirect_url := Some ''https://pay'', p_card_last4 := Some ''1234''\<rparr>]\<rparr>) demo_alert 5"
  by (rule alert_shows_columns_only) (simp add: shown_columns_def)

end
