(* ===== verification/Admin_Commands.thy ===== *)
theory Admin_Commands
  imports Admin_Format Admin_Replies Status Monitor_Checks Bulk_Resend
begin

text \<open>
  The commands of the admin bot (\<open>app/adminbot/commands.py\<close>): authorization, audit events, the registry,
  and every command with what its reply shows.

  A reply is a value that holds the shown data; its fixed texts and its layout are left out. Times
  are shown by the argument \<open>fmt_time\<close>. One reading of the clock serves a command.
\<close>

section \<open>What a command meets\<close>

text \<open>
  The probe of the API (\<open>None\<close> when it raises), the database probe, the heartbeats, the migration
  revision, the environment of the monitor checks, and for the bulk requeue the rows locked by others and
  what they commit at each round.
\<close>

record command_env =
  ce_now :: time
  ce_api :: "(bool \<times> bool) option"
  ce_database_ok :: bool
  ce_heartbeats :: "worker_heartbeat list"
  ce_revision :: "string option"
  ce_monitor :: monitor_env
  ce_locked :: "nat \<Rightarrow> int \<Rightarrow> bool"
  ce_others :: "nat \<Rightarrow> db \<Rightarrow> db"

definition probe_api :: "command_env \<Rightarrow> bool \<times> bool" where
  "probe_api ce = coalesce (ce_api ce) (False, False)"

text \<open>The default probe: two requests, each a success only for status 200; \<open>None\<close> is an HTTP error.\<close>

definition default_api_probe :: "(string \<Rightarrow> int option) \<Rightarrow> string \<Rightarrow> bool \<times> bool" where
  "default_api_probe get url =
     (let base = rev (dropWhile (\<lambda>c. c = CHR ''/'') (rev url))
      in (get (base @ ''/health/live'') = Some 200, get (base @ ''/health/ready'') = Some 200))"

text \<open>\<open>int\<close> of a float.\<close>

definition py_trunc :: "rat \<Rightarrow> int" where
  "py_trunc x = (if x < 0 then \<lceil>x\<rceil> else \<lfloor>x\<rfloor>)"

section \<open>Replies\<close>

record status_view =
  sv_api_ready :: bool
  sv_database_ok :: bool
  sv_worker_ok :: bool
  sv_heartbeat_age :: "int option"
  sv_pending :: nat
  sv_review :: nat
  sv_needs_attention :: nat
  sv_waiting :: nat
  sv_expired :: nat
  sv_getlink_failures :: nat
  sv_verify_failures :: nat
  sv_last_backup :: "(string \<times> duration) option"
  sv_time :: string

record health_view =
  hv_live :: bool
  hv_ready :: bool
  hv_database_ok :: bool
  hv_heartbeat :: "(bool \<times> int) option"
  hv_last_cycle :: "string option"
  hv_due :: nat
  hv_scheduled :: nat
  hv_claimed :: nat

record stuck_view =
  kv_needs_attention :: bool
  kv_bot_delivery :: nat
  kv_waiting :: nat
  kv_expired :: nat
  kv_other :: nat
  kv_entries :: "(shown_field list \<times> duration) list"

datatype admin_reply =
    Denial_Reply
  | Unknown_Command_Reply
  | Command_Failed_Reply
  | Start_Reply
  | Help_Reply
  | Usage_Reply string
  | Fee_Reply "(string option \<times> int \<times> string) option" "(string option \<times> int \<times> string) option"
  | Status_Reply status_view
  | Health_Reply health_view
  | No_Payments_Reply
  | Recent_Reply "shown_field list list"
  | Stuck_Reply stuck_view
  | Link_Age_Reply nat "(shown_field list \<times> duration \<times> duration option) list" "nat option"
  | No_Reviews_Reply
  | Reviews_Reply "shown_field list list"
  | No_Resolved_Reply
  | Resolved_Reply "shown_field list list"
  | No_Errors_Reply
  | Errors_Reply "(string \<times> nat) list"
  | Ambiguous_Reply
  | Not_Found_Reply
  | Payment_Reply "shown_field list" "(string \<times> string) list"
  | Retry_Queue_Reply "(string \<times> nat \<times> shown_field list list) list"
  | Backup_Reply "(string \<times> shown_field list) option" "string option"
  | Monitor_Reply check_status "check_result list"
  | Version_Reply "string option"
  | Safe_Mode_Reply
  | Resend_Preview_Reply nat int "string list"
  | Resend_Result_Reply nat int nat

section \<open>Arguments\<close>

definition LIST_DEFAULT :: nat where "LIST_DEFAULT = 10"

definition LIST_MAX :: nat where "LIST_MAX = 50"

definition RECENT_DEFAULT :: nat where "RECENT_DEFAULT = 10"

definition RECENT_MAX :: nat where "RECENT_MAX = 50"

definition STUCK_DETAIL_MAX :: nat where "STUCK_DETAIL_MAX = 10"

text \<open>\<open>int\<close> raises on a text of more than 4300 digits.\<close>

definition parse_list_count :: "string list \<Rightarrow> string + nat option" where
  "parse_list_count args =
     (case args of
        [] \<Rightarrow> Inr (Some LIST_DEFAULT)
      | [token] \<Rightarrow>
          if \<not> is_ascii_decimal token then Inr None
          else (case py_int_of_digits token of
                  None \<Rightarrow> Inl ''ValueError''
                | Some v \<Rightarrow> if 1 \<le> v \<and> v \<le> int LIST_MAX then Inr (Some (nat v)) else Inr None)
      | _ \<Rightarrow> Inr None)"

text \<open>The limit of \<open>/recent\<close> and \<open>/resolved_reviews\<close>: \<open>isdigit\<close> holds for superscript digits, \<open>int\<close> refuses them.\<close>

definition recent_limit :: "string list \<Rightarrow> string + nat" where
  "recent_limit args =
     (case args of
        [] \<Rightarrow> Inr RECENT_DEFAULT
      | a # _ \<Rightarrow>
          if a \<noteq> [] \<and> list_all py_isdigit a
          then (if \<not> is_ascii_decimal a then Inl ''ValueError''
                else case py_int_of_digits a of
                       None \<Rightarrow> Inl ''ValueError''
                     | Some v \<Rightarrow> Inr (min (nat v) RECENT_MAX))
          else Inr RECENT_DEFAULT)"

section \<open>Read commands\<close>

definition policy_shown :: "(time \<Rightarrow> string) \<Rightarrow> fee_policy \<Rightarrow> string option \<times> int \<times> string" where
  "policy_shown fmt_time f = (fmt_fee_rate (Some (fp_rate_bps f)), fp_id f, fmt_time (fp_effective_at f))"

definition cmd_fee :: "(time \<Rightarrow> string) \<Rightarrow> command_env \<Rightarrow> db \<Rightarrow> admin_reply" where
  "cmd_fee fmt_time ce d =
     Fee_Reply (map_option (policy_shown fmt_time) (select_effective_policy d (ce_now ce)))
               (map_option (policy_shown fmt_time) (next_scheduled_policy d (ce_now ce)))"

definition bot_delivery_of :: "settings \<Rightarrow> db \<Rightarrow> time \<Rightarrow> nat \<Rightarrow> attention_overview" where
  "bot_delivery_of cfg d now limit = bot_delivery_snapshot d now 30 (bot_notify_claim_timeout_seconds cfg) limit"

definition cmd_status :: "settings \<Rightarrow> (time \<Rightarrow> string) \<Rightarrow> command_env \<Rightarrow> db \<Rightarrow> admin_reply" where
  "cmd_status cfg fmt_time ce d =
     (let now = ce_now ce; api = probe_api ce;
          heartbeat_age = worker_heartbeat_age_seconds (ce_heartbeats ce) now;
          backup = latest_backup_alert d ''backup_succeeded''
      in Status_Reply
           \<lparr>sv_api_ready = snd api, sv_database_ok = ce_database_ok ce,
            sv_worker_ok = (case heartbeat_age of None \<Rightarrow> False | Some a \<Rightarrow> a < 120),
            sv_heartbeat_age = map_option py_trunc heartbeat_age,
            sv_pending = count_by_status d BOT_NOTIFY_PENDING,
            sv_review = count_open_manual_reviews d,
            sv_needs_attention = ov_total (bot_delivery_of cfg d now 1) + count_other_attention d cfg now,
            sv_waiting = count_waiting d cfg now,
            sv_expired = count_expired d cfg now,
            sv_getlink_failures = event_count_since d now ''centralpay_getlink_failed'' 24,
            sv_verify_failures = event_count_since d now ''centralpay_verify_failed'' 24,
            sv_last_backup = map_option (\<lambda>a. (fmt_time (al_created_at a), fmt_duration (now - al_created_at a))) backup,
            sv_time = fmt_time now\<rparr>)"

definition cmd_health :: "(time \<Rightarrow> string) \<Rightarrow> command_env \<Rightarrow> db \<Rightarrow> admin_reply" where
  "cmd_health fmt_time ce d =
     (let api = probe_api ce; now = ce_now ce;
          heartbeat = latest_worker_heartbeat (ce_heartbeats ce) ''notification-worker'';
          heartbeat_age = worker_heartbeat_age_seconds (ce_heartbeats ce) now;
          snapshot = retry_queue_snapshot d now 30
      in Health_Reply
           \<lparr>hv_live = fst api, hv_ready = snd api, hv_database_ok = ce_database_ok ce,
            hv_heartbeat = map_option (\<lambda>a. (a < 120, py_trunc a)) heartbeat_age,
            hv_last_cycle = map_option fmt_time (Option.bind heartbeat hb_last_cycle_at),
            hv_due = length (rq_due snapshot), hv_scheduled = length (rq_scheduled snapshot), hv_claimed = length (rq_claimed snapshot)\<rparr>)"

definition recent_block :: "(time \<Rightarrow> string) \<Rightarrow> payment \<Rightarrow> shown_field list" where
  "recent_block fmt_time p =
     shown ''bot_order_id'' (esc (p_bot_order_id p)) @ shown ''gateway_order_id'' (show_int (p_gateway_order_id p))
   @ [(''amount'', fmt_amount (Some (p_amount p)))] @ shown ''status'' (status_value (p_status p))
   @ shown_str ''reason'' (map_option reason_value (p_bot_notify_reason p)) @ shown_str ''reference_id'' (p_reference_id p)
   @ shown ''created_at'' (fmt_time (p_created_at p))"

definition cmd_recent :: "(time \<Rightarrow> string) \<Rightarrow> db \<Rightarrow> string list \<Rightarrow> string + admin_reply" where
  "cmd_recent fmt_time d args =
     (case recent_limit args of
        Inl e \<Rightarrow> Inl e
      | Inr limit \<Rightarrow>
          (let rows = recent_payments d limit
           in Inr (if rows = [] then No_Payments_Reply else Recent_Reply (map (recent_block fmt_time) rows))))"

text \<open>
  The list of \<open>/stuck\<close> is shortened from the end until the message fits; \<open>text_length k\<close> is the length of
  the message with its first \<open>k\<close> entries.
\<close>

fun shorten :: "(nat \<Rightarrow> nat) \<Rightarrow> nat \<Rightarrow> nat \<Rightarrow> nat" where
  "shorten text_length max_length 0 = 0"
| "shorten text_length max_length (Suc k) =
     (if text_length (Suc k) > max_length then shorten text_length max_length k else Suc k)"

definition stuck_view_of :: "settings \<Rightarrow> db \<Rightarrow> time \<Rightarrow> attention_overview \<Rightarrow> nat \<Rightarrow> stuck_view" where
  "stuck_view_of cfg d now overview shown_count =
     (let other = count_other_attention d cfg now
      in \<lparr>kv_needs_attention = (ov_total overview > 0 \<or> other > 0),
          kv_bot_delivery = ov_total overview, kv_waiting = count_waiting d cfg now, kv_expired = count_expired d cfg now,
          kv_other = other,
          kv_entries = map (\<lambda>(i, e). bot_delivery_entry_block i e now)
                         (zip [1..<shown_count + 1] (take shown_count (ov_entries overview)))\<rparr>)"

definition cmd_stuck :: "settings \<Rightarrow> (stuck_view \<Rightarrow> nat) \<Rightarrow> nat \<Rightarrow> command_env \<Rightarrow> db \<Rightarrow> string list \<Rightarrow> admin_reply" where
  "cmd_stuck cfg text_length max_length ce d args =
     (if args \<noteq> [] then Usage_Reply ''/stuck''
      else let now = ce_now ce; overview = bot_delivery_of cfg d now STUCK_DETAIL_MAX;
               view = stuck_view_of cfg d now overview
           in Stuck_Reply (view (shorten (\<lambda>k. text_length (view k)) max_length (length (ov_entries overview)))))"

definition link_age_reply :: "overview_entry list \<times> nat \<Rightarrow> time \<Rightarrow> admin_reply" where
  "link_age_reply snapshot now =
     (let (entries, n) = snapshot
      in Link_Age_Reply n (map (\<lambda>(i, e). link_age_entry_block i (oe_payment e) now) (zip [1..<length entries + 1] entries))
           (if entries \<noteq> [] \<and> n > length entries then Some (min n LIST_MAX) else None))"

definition cmd_waiting :: "settings \<Rightarrow> command_env \<Rightarrow> db \<Rightarrow> string list \<Rightarrow> string + admin_reply" where
  "cmd_waiting cfg ce d args =
     (case parse_list_count args of
        Inl e \<Rightarrow> Inl e
      | Inr None \<Rightarrow> Inr (Usage_Reply ''/waiting'')
      | Inr (Some limit) \<Rightarrow> Inr (link_age_reply (waiting_snapshot d cfg (ce_now ce) limit) (ce_now ce)))"

definition cmd_expired :: "settings \<Rightarrow> command_env \<Rightarrow> db \<Rightarrow> string list \<Rightarrow> string + admin_reply" where
  "cmd_expired cfg ce d args =
     (case parse_list_count args of
        Inl e \<Rightarrow> Inl e
      | Inr None \<Rightarrow> Inr (Usage_Reply ''/expired'')
      | Inr (Some limit) \<Rightarrow> Inr (link_age_reply (expired_snapshot d cfg (ce_now ce) limit) (ce_now ce)))"

text \<open>The age of a review in hours, to one decimal.\<close>

definition review_block :: "time \<Rightarrow> payment \<Rightarrow> shown_field list" where
  "review_block now p =
     shown ''bot_order_id'' (esc (p_bot_order_id p)) @ shown ''gateway_order_id'' (show_int (p_gateway_order_id p))
   @ [(''amount'', fmt_amount (Some (p_amount p)))]
   @ shown ''gateway'' (if p_gateway_verified_at p \<noteq> None then ''ok'' else ''fail'')
   @ [(''reason'', map_option esc (str_or (str_or (map_option reason_value (p_bot_notify_reason p)) (p_last_error p)) None))]
   @ shown ''attempts'' (show_int (p_bot_notify_attempts p))
   @ [(''http_status'', case p_bot_last_http_status p of None \<Rightarrow> None | Some h \<Rightarrow> if h = 0 then None else Some (show_int h)),
      (''reference_id'', case p_reference_id p of None \<Rightarrow> None | Some r \<Rightarrow> if r = [] then None else Some (esc r)),
      (''age_tenths_of_hours'', map_option (\<lambda>t. show_int (py_round (10 * ((now - t) / 3600)))) (p_manual_review_at p))]"

definition cmd_manual_review :: "command_env \<Rightarrow> db \<Rightarrow> admin_reply" where
  "cmd_manual_review ce d =
     (let rows = manual_review_payments d 20
      in if rows = [] then No_Reviews_Reply else Reviews_Reply (map (review_block (ce_now ce)) rows))"

definition resolved_block :: "(time \<Rightarrow> string) \<Rightarrow> payment \<Rightarrow> shown_field list" where
  "resolved_block fmt_time p =
     shown ''bot_order_id'' (esc (p_bot_order_id p)) @ shown ''gateway_order_id'' (show_int (p_gateway_order_id p))
   @ [(''amount'', fmt_amount (Some (p_amount p))), (''reason'', map_option (esc \<circ> reason_value) (p_bot_notify_reason p)),
      (''resolution'', case p_review_resolution p of None \<Rightarrow> None | Some r \<Rightarrow> if r = [] then None else Some (esc r)),
      (''resolved_at'', map_option fmt_time (p_review_resolved_at p))]"

definition cmd_resolved_reviews :: "(time \<Rightarrow> string) \<Rightarrow> db \<Rightarrow> string list \<Rightarrow> string + admin_reply" where
  "cmd_resolved_reviews fmt_time d args =
     (case recent_limit args of
        Inl e \<Rightarrow> Inl e
      | Inr limit \<Rightarrow>
          (let rows = resolved_review_payments d limit
           in Inr (if rows = [] then No_Resolved_Reply else Resolved_Reply (map (resolved_block fmt_time) rows))))"

definition cmd_errors :: "command_env \<Rightarrow> db \<Rightarrow> admin_reply" where
  "cmd_errors ce d =
     (let summary = errors_summary d (ce_now ce) 24
      in if summary = [] then No_Errors_Reply
         else Errors_Reply (map (\<lambda>(ty, n). (esc ty, n)) (sort_key (\<lambda>(_, n). - int n) summary)))"

definition retry_block :: "(time \<Rightarrow> string) \<Rightarrow> payment \<Rightarrow> shown_field list" where
  "retry_block fmt_time p =
     shown ''bot_order_id'' (esc (p_bot_order_id p))
   @ shown ''reason'' (case p_bot_notify_reason p of None \<Rightarrow> ''queued'' | Some r \<Rightarrow> esc (reason_value r))
   @ [(''next_retry'', map_option fmt_time (p_next_retry_at p))]
   @ shown ''attempts'' (show_int (p_bot_notify_attempts p))
   @ (case p_bot_last_http_status p of None \<Rightarrow> [] | Some h \<Rightarrow> shown_if (h \<noteq> 0) ''http_status'' (show_int h))
   @ shown_str ''error'' (p_bot_last_error_code p)"

definition cmd_retry_queue :: "(time \<Rightarrow> string) \<Rightarrow> command_env \<Rightarrow> db \<Rightarrow> admin_reply" where
  "cmd_retry_queue fmt_time ce d =
     (let snapshot = retry_queue_snapshot d (ce_now ce) 30
      in Retry_Queue_Reply
           (map (\<lambda>(title, rows). (title, length rows, map (retry_block fmt_time) (take 10 rows)))
              [(''due'', rq_due snapshot), (''scheduled'', rq_scheduled snapshot), (''claimed'', rq_claimed snapshot),
               (''retry_limit'', rq_retry_limit snapshot)]))"

text \<open>\<open>py_str\<close> is Python's text of a payload value.\<close>

definition backup_shown :: "(json \<Rightarrow> string) \<Rightarrow> admin_alert \<Rightarrow> shown_field list" where
  "backup_shown py_str a =
     (let f = (\<lambda>key. let v = jget (al_payload a) key in shown_if (py_truthy v) key (esc (py_str v)))
      in f ''size'' @ f ''retention_days'')"

definition cmd_backup_status :: "(time \<Rightarrow> string) \<Rightarrow> (json \<Rightarrow> string) \<Rightarrow> db \<Rightarrow> admin_reply" where
  "cmd_backup_status fmt_time py_str d =
     Backup_Reply (map_option (\<lambda>a. (fmt_time (al_created_at a), backup_shown py_str a)) (latest_backup_alert d ''backup_succeeded''))
       (map_option (\<lambda>a. fmt_time (al_created_at a)) (latest_backup_alert d ''backup_failed''))"

definition cmd_monitor :: "settings \<Rightarrow> monitor_settings \<Rightarrow> command_env \<Rightarrow> string + admin_reply" where
  "cmd_monitor cfg mo ce =
     (case run_all_checks cfg mo (ce_monitor ce) (ce_now ce) True of
        Inl e \<Rightarrow> Inl e
      | Inr results \<Rightarrow> Inr (Monitor_Reply (overall_status results) results))"

section \<open>The commands that write\<close>

definition payment_details :: "(time \<Rightarrow> string) \<Rightarrow> payment \<Rightarrow> shown_field list" where
  "payment_details fmt_time p =
     shown ''id'' (show_int (p_id p)) @ payment_block fmt_time p
   @ shown_str ''card_last4'' (p_card_last4 p)
   @ (case p_gateway_verified_at p of None \<Rightarrow> [] | Some t \<Rightarrow> shown ''gateway_verified_at'' (fmt_time t))
   @ (case p_bot_last_http_status p of None \<Rightarrow> [] | Some h \<Rightarrow> shown_if (h \<noteq> 0) ''http_status'' (show_int h))
   @ shown_str ''error_code'' (p_bot_last_error_code p)
   @ (case p_next_retry_at p of None \<Rightarrow> [] | Some t \<Rightarrow> shown ''next_retry_at'' (fmt_time t))
   @ (case p_manual_review_at p of None \<Rightarrow> [] | Some t \<Rightarrow> shown ''manual_review_at'' (fmt_time t))
   @ (case p_review_resolved_at p of None \<Rightarrow> []
      | Some t \<Rightarrow> shown ''review_resolved_at'' (fmt_time t)
                @ [(''resolution'', case p_review_resolution p of None \<Rightarrow> None | Some r \<Rightarrow> if r = [] then None else Some (esc r))])"

definition cmd_payment :: "(time \<Rightarrow> string) \<Rightarrow> session \<Rightarrow> string list \<Rightarrow> session \<times> (string + admin_reply)" where
  "cmd_payment fmt_time s args =
     (case args of
        [] \<Rightarrow> (s, Inr (Usage_Reply ''/payment''))
      | a # _ \<Rightarrow>
          (case find_payment (work s) (take 128 a) of
             Inl OrderIdValueError \<Rightarrow> (s, Inl ''ValueError'')
           | Inl AmbiguousOrderIdError \<Rightarrow>
               (commit (record_event s None ''admin_command_received'' ''info'' [(''command'', JStr ''payment_lookup''), (''ambiguous'', JBool True)]),
                Inr Ambiguous_Reply)
           | Inr found \<Rightarrow>
               (let s1 = commit (record_event s (map_option p_id found) ''admin_command_received'' ''info'' [(''command'', JStr ''payment_lookup'')])
                in (s1,
                    Inr (case found of
                           None \<Rightarrow> Not_Found_Reply
                         | Some p \<Rightarrow>
                             Payment_Reply (payment_details fmt_time p)
                               (map (\<lambda>e. (fmt_time (ev_created_at e), esc (ev_event_type e)))
                                  (rev (payment_events_of (work s1) (p_id p) 10))))))))"

text \<open>The value is \<open>None\<close> when the requeue loop never ends.\<close>

definition cmd_resend_failed ::
  "settings \<Rightarrow> command_env \<Rightarrow> update_context \<Rightarrow> session \<Rightarrow> string list \<Rightarrow> (session \<times> (string + admin_reply)) option" where
  "cmd_resend_failed cfg ce ctx s args =
     (if bot_notify_retry_mode cfg \<noteq> Idempotent then Some (s, Inr Safe_Mode_Reply)
      else let confirm = (args \<noteq> [] \<and> py_lower (strip (hd args)) = ''confirm'')
           in if \<not> confirm then
                let (s1, preview) = preview_bulk_resend s
                in Some (s1, Inr (Resend_Preview_Reply (bp_count preview) (bp_total_amount preview) (map esc (bp_order_ids preview))))
              else map_option (\<lambda>(s1, r). (s1, Inr (Resend_Result_Reply (br_requeued_count r) (br_total_amount r) (br_skipped_count r))))
                     (requeue_failed_deliveries (ce_locked ce) (ce_others ce) s (uc_user_id ctx) (ce_now ce) RESEND_BATCH_SIZE))"

section \<open>Dispatch\<close>

record command_texts =
  ct_fmt_time :: "time \<Rightarrow> string"
  ct_py_str :: "json \<Rightarrow> string"
  ct_stuck_length :: "stuck_view \<Rightarrow> nat"
  ct_max_length :: nat

text \<open>The registry; \<open>None\<close> for a name it does not have.\<close>

definition registry ::
  "settings \<Rightarrow> monitor_settings \<Rightarrow> command_texts \<Rightarrow> command_env \<Rightarrow> update_context \<Rightarrow> string \<Rightarrow>
   (session \<Rightarrow> string list \<Rightarrow> (session \<times> (string + admin_reply)) option) option" where
  "registry cfg mo ct ce ctx command =
     (let view = (\<lambda>f s args. Some (s, Inr (f (work s) args)));
          try = (\<lambda>f s args. Some (s, f (work s) args));
          tm = ct_fmt_time ct
      in map_of
        [(''start'', view (\<lambda>_ _. Start_Reply)),
         (''help'', view (\<lambda>_ _. Help_Reply)),
         (''status'', view (\<lambda>d _. cmd_status cfg tm ce d)),
         (''health'', view (\<lambda>d _. cmd_health tm ce d)),
         (''recent'', try (cmd_recent tm)),
         (''stuck'', view (cmd_stuck cfg (ct_stuck_length ct) (ct_max_length ct) ce)),
         (''waiting'', try (cmd_waiting cfg ce)),
         (''expired'', try (cmd_expired cfg ce)),
         (''manual_review'', view (\<lambda>d _. cmd_manual_review ce d)),
         (''resolved_reviews'', try (cmd_resolved_reviews tm)),
         (''errors'', view (\<lambda>d _. cmd_errors ce d)),
         (''payment'', (\<lambda>s args. Some (cmd_payment tm s args))),
         (''retry_queue'', view (\<lambda>d _. cmd_retry_queue tm ce d)),
         (''backup_status'', view (\<lambda>d _. cmd_backup_status tm (ct_py_str ct) d)),
         (''version'', view (\<lambda>_ _. Version_Reply (ce_revision ce))),
         (''fee'', view (\<lambda>d _. cmd_fee tm ce d)),
         (''monitor'', try (\<lambda>_ _. cmd_monitor cfg mo ce)),
         (''resend_failed'', cmd_resend_failed cfg ce ctx)] command)"

definition audit :: "session \<Rightarrow> string \<Rightarrow> string \<Rightarrow> jdict \<Rightarrow> session" where
  "audit s event_type level data = commit (record_event (rollback s) None event_type level data)"

definition handle ::
  "settings \<Rightarrow> monitor_settings \<Rightarrow> command_texts \<Rightarrow> command_env \<Rightarrow> int list \<Rightarrow> session \<Rightarrow> update_context \<Rightarrow> string \<Rightarrow> string list
   \<Rightarrow> (session \<times> admin_reply) option" where
  "handle cfg mo ct ce admin_ids s ctx command args =
     (if \<not> is_authorized admin_ids ctx then
        Some (audit s ''admin_bot_unauthorized_access'' ''warning''
                [(''telegram_user_id'', jopt_int (uc_user_id ctx)), (''chat_id'', jopt_int (uc_chat_id ctx)), (''command'', JStr command)],
              Denial_Reply)
      else
        let data = [(''telegram_user_id'', jopt_int (uc_user_id ctx)), (''command'', JStr command)];
            s1 = audit s ''admin_command_received'' ''info'' data
        in case registry cfg mo ct ce ctx command of
             None \<Rightarrow> Some (s1, Unknown_Command_Reply)
           | Some handler \<Rightarrow>
               (case handler s1 args of
                  None \<Rightarrow> None
                | Some (s2, Inl e) \<Rightarrow> Some (audit s2 ''admin_command_failed'' ''error'' data, Command_Failed_Reply)
                | Some (s2, Inr reply) \<Rightarrow> Some (commit (record_event s2 None ''admin_command_succeeded'' ''info'' data), reply)))"

section \<open>What commands change\<close>

lemma audit_sel [simp]:
  "payments (durable (audit s ty lv data)) = payments (durable s)" "work (audit s ty lv data) = durable (audit s ty lv data)"
  "has_event (audit s ty lv data) None ty"
  "fee_policies (durable (audit s ty lv data)) = fee_policies (durable s)"
  "payer_identities (durable (audit s ty lv data)) = payer_identities (durable s)"
  by (simp_all add: audit_def commit_def rollback_def has_event_def [of "_\<lparr>durable := _\<rparr>"])
     (metis has_event_def has_event_record)

lemma audit_grows: "grows (payment_events (durable s)) (payment_events (durable (audit s ty lv data)))"
  using record_event_grows [of "rollback s" None ty lv data] by (simp add: audit_def)

text \<open>
  A user who is not an administrator, or an administrator outside a private chat, gets the same
  denial whatever the command and the data are, and nothing changes but the audit trail, which
  gains the refusal.
\<close>

theorem unauthorized_command_inert:
  assumes "\<not> is_authorized admin_ids ctx"
  shows "\<exists>s'. handle cfg mo ct ce admin_ids s ctx command args = Some (s', Denial_Reply)
           \<and> payments (durable s') = payments (durable s) \<and> fee_policies (durable s') = fee_policies (durable s)
           \<and> payer_identities (durable s') = payer_identities (durable s)
           \<and> grows (payment_events (durable s)) (payment_events (durable s'))
           \<and> has_event s' None ''admin_bot_unauthorized_access''"
  using assms audit_grows by (simp add: handle_def)

lemma cmd_payment_sel:
  assumes "cmd_payment tm s args = (s', r)" "work s = durable s"
  shows "payments (durable s') = payments (durable s)" "work s' = durable s'"
    "grows (payment_events (durable s)) (payment_events (durable s'))"
  using assms record_event_grows [of s]
  by (auto simp: cmd_payment_def Let_def grows_refl split: list.splits sum.splits lookup_error.splits)

definition confirms_resend :: "settings \<Rightarrow> string \<Rightarrow> string list \<Rightarrow> bool" where
  "confirms_resend cfg command args \<longleftrightarrow>
     bot_notify_retry_mode cfg = Idempotent \<and> command = ''resend_failed'' \<and> args \<noteq> [] \<and> py_lower (strip (hd args)) = ''confirm''"

lemma never_failed [simp]:
  "cmd_status cfg tm ce d \<noteq> Command_Failed_Reply" "cmd_health tm ce d \<noteq> Command_Failed_Reply"
  "cmd_recent tm d args \<noteq> Inr Command_Failed_Reply" "cmd_stuck cfg len n ce d args \<noteq> Command_Failed_Reply"
  "cmd_waiting cfg ce d args \<noteq> Inr Command_Failed_Reply" "cmd_expired cfg ce d args \<noteq> Inr Command_Failed_Reply"
  "cmd_manual_review ce d \<noteq> Command_Failed_Reply" "cmd_resolved_reviews tm d args \<noteq> Inr Command_Failed_Reply"
  "cmd_errors ce d \<noteq> Command_Failed_Reply" "cmd_retry_queue tm ce d \<noteq> Command_Failed_Reply"
  "cmd_backup_status tm ps d \<noteq> Command_Failed_Reply" "cmd_fee tm ce d \<noteq> Command_Failed_Reply"
  "cmd_monitor cfg mo ce \<noteq> Inr Command_Failed_Reply" "snd (cmd_payment tm s args) \<noteq> Inr Command_Failed_Reply"
  by (simp_all add: cmd_status_def cmd_health_def cmd_recent_def cmd_stuck_def cmd_waiting_def cmd_expired_def cmd_manual_review_def
      cmd_resolved_reviews_def cmd_errors_def cmd_retry_queue_def cmd_backup_status_def cmd_fee_def cmd_monitor_def cmd_payment_def
      link_age_reply_def Let_def split: sum.split option.split list.split prod.split lookup_error.split)

definition reads_only :: "(session \<Rightarrow> string list \<Rightarrow> (session \<times> (string + admin_reply)) option) \<Rightarrow> bool" where
  "reads_only handler \<longleftrightarrow> (\<forall>s args. \<exists>r. handler s args = Some (s, r) \<and> r \<noteq> Inr Command_Failed_Reply)"

lemma registry_cases:
  assumes "registry cfg mo ct ce ctx command = Some handler"
  shows "reads_only handler \<or> (command = ''payment'' \<and> handler = (\<lambda>s args. Some (cmd_payment (ct_fmt_time ct) s args)))
       \<or> (command = ''resend_failed'' \<and> handler = cmd_resend_failed cfg ce ctx)"
  using map_of_SomeD [OF assms [unfolded registry_def Let_def]]
  unfolding list.set insert_iff prod.inject empty_iff
  by (elim disjE conjE FalseE; hypsubst; simp add: reads_only_def)

lemma resend_unconfirmed:
  assumes "\<not> confirms_resend cfg ''resend_failed'' args" "work s = durable s"
  shows "\<exists>r. cmd_resend_failed cfg ce ctx s args = Some (s, r) \<and> r \<noteq> Inr Command_Failed_Reply"
  using assms by (auto simp: cmd_resend_failed_def confirms_resend_def preview_bulk_resend_def Let_def rollback_def)

lemma handler_unconfirmed:
  assumes "registry cfg mo ct ce ctx command = Some handler" "\<not> confirms_resend cfg command args" "work s = durable s"
    "handler s args = Some (s', r)"
  shows "payments (durable s') = payments (durable s) \<and> work s' = durable s' \<and> grows (payment_events (durable s)) (payment_events (durable s'))"
proof -
  have "s' = s \<or> cmd_payment (ct_fmt_time ct) s args = (s', r)"
    using registry_cases [OF assms(1)] resend_unconfirmed [of cfg args s ce ctx] assms(2-4) unfolding reads_only_def
    by (metis option.inject prod.inject)
  then show ?thesis using assms(3) cmd_payment_sel by (auto simp: grows_refl)
qed
text \<open>
  C28. The bot can only watch, with one exception: payments change only when an administrator in a
  private chat confirms the bulk requeue while the retry mode is idempotent. Every other command, every failing one
  and every unknown one leaves the whole payment table as it was.
\<close>

theorem only_confirmed_resend_writes:
  assumes "work s = durable s" "handle cfg mo ct ce admin_ids s ctx command args = Some (s', reply)"
    and "payments (durable s') \<noteq> payments (durable s)"
  shows "is_authorized admin_ids ctx \<and> confirms_resend cfg command args"
proof (rule ccontr)
  assume no: "\<not> ?thesis"
  show False
  proof (cases "is_authorized admin_ids ctx")
    case False
    then show False using assms(2,3) by (auto simp: handle_def)
  next
    case True
    define data where "data = [(''telegram_user_id'', jopt_int (uc_user_id ctx)), (''command'', JStr command)]"
    define s1 where "s1 = audit s ''admin_command_received'' ''info'' data"
    note run = assms(2) [unfolded handle_def Let_def data_def [symmetric] s1_def [symmetric]]
    show False
    proof (cases "registry cfg mo ct ce ctx command")
      case None
      then show False using run assms(3) True by (auto simp: s1_def)
    next
      case (Some handler)
      then obtain s2 r where h: "handler s1 args = Some (s2, r)" using run True by (auto split: option.splits)
      have "payments (durable s2) = payments (durable s1)" "work s2 = durable s2"
        using handler_unconfirmed [OF Some _ _ h] no True by (simp_all add: s1_def)
      then show False using run True Some h assms(3) by (cases r) (auto simp: s1_def)
    qed
  qed
qed

lemma resend_confirmed:
  assumes "work s = durable s" "distinct (map p_id (payments (durable s)))" "ce_locked ce = (\<lambda>_. locked)" "ce_others ce = (\<lambda>_ d. d)"
    and "confirms_resend cfg ''resend_failed'' args"
  shows "\<exists>s' r. cmd_resend_failed cfg ce ctx s args = Some (s', Inr r) \<and> r \<noteq> Command_Failed_Reply \<and> work s' = durable s'
           \<and> payments (durable s') = map (resent locked (ce_now ce)) (payments (durable s))"
proof -
  obtain s1 t where "requeue_loop (\<lambda>_. locked) (\<lambda>_ d. d) (uc_user_id ctx) (ce_now ce) RESEND_BATCH_SIZE 0 (0, 0, []) (rollback s) = Some (s1, t)"
    "payments (durable s1) = map (resent locked (ce_now ce)) (payments (durable s))" "work s1 = durable s1"
    using requeue_loop_returns [of RESEND_BATCH_SIZE "rollback s" locked "uc_user_id ctx" "ce_now ce" 0 "(0, 0, [])"] assms(1,2)
    by (auto simp: RESEND_BATCH_SIZE_def)
  then show ?thesis
    using assms(3-5) by (cases t) (auto simp: cmd_resend_failed_def confirms_resend_def requeue_failed_deliveries_def Let_def)
qed

text \<open>
  C29. Undisturbed by other sessions every command of an administrator returns a reply. The receipt
  of the command is in the audit trail, then exactly the outcome: an unknown command has none, a failing
  one is recorded as failed and answered with the fixed text, any other is recorded as succeeded.
  The financial facts of every payment are what they were.
\<close>

theorem commands_return_and_are_audited:
  assumes "is_authorized admin_ids ctx" "work s = durable s" "distinct (map p_id (payments (durable s)))"
    and "ce_locked ce = (\<lambda>_. locked)" "ce_others ce = (\<lambda>_ d. d)"
  shows "\<exists>s' reply. handle cfg mo ct ce admin_ids s ctx command args = Some (s', reply) \<and> work s' = durable s'
           \<and> (registry cfg mo ct ce ctx command = None \<longrightarrow> reply = Unknown_Command_Reply \<and> has_event s' None ''admin_command_received'')
           \<and> (registry cfg mo ct ce ctx command \<noteq> None \<longrightarrow>
                (if reply = Command_Failed_Reply then has_event s' None ''admin_command_failed'' else has_event s' None ''admin_command_succeeded''))
           \<and> list_all2 financial_eq (payments (durable s)) (payments (durable s'))"
proof -
  define data where "data = [(''telegram_user_id'', jopt_int (uc_user_id ctx)), (''command'', JStr command)]"
  define s1 where "s1 = audit s ''admin_command_received'' ''info'' data"
  have s1: "work s1 = durable s1" "payments (durable s1) = payments (durable s)" "has_event s1 None ''admin_command_received''"
    by (simp_all add: s1_def)
  have same: "list_all2 financial_eq ps ps" for ps by (simp add: list_all2_refl)
  have fin: "list_all2 financial_eq ps (map (resent locked t) ps)" for ps t
    by (auto simp: list_all2_conv_all_nth resent_def requeued_state_financial)
  show ?thesis
  proof (cases "registry cfg mo ct ce ctx command")
    case None
    then show ?thesis using assms(1) s1 same by (simp add: handle_def Let_def data_def [symmetric] s1_def [symmetric])
  next
    case (Some handler)
    have "\<exists>s2 r. handler s1 args = Some (s2, r) \<and> work s2 = durable s2 \<and> list_all2 financial_eq (payments (durable s)) (payments (durable s2))
        \<and> r \<noteq> Inr Command_Failed_Reply"
    proof (cases "confirms_resend cfg command args")
      case True
      then have "handler = cmd_resend_failed cfg ce ctx" using Some by (simp add: registry_def confirms_resend_def)
      then show ?thesis
        using resend_confirmed [OF s1(1), of ce locked cfg args ctx] True assms(3-5) s1(2) fin by (auto simp: confirms_resend_def)
    next
      case False
      obtain s2 r where h: "handler s1 args = Some (s2, r)" "r \<noteq> Inr Command_Failed_Reply"
        using registry_cases [OF Some] resend_unconfirmed [of cfg args s1 ce ctx] False s1(1) never_failed(14)
        unfolding reads_only_def by (metis surj_pair snd_conv)
      then show ?thesis using handler_unconfirmed [OF Some False s1(1) h(1)] s1(2) same by auto
    qed
    then obtain s2 r where h: "handler s1 args = Some (s2, r)" "work s2 = durable s2" "list_all2 financial_eq (payments (durable s)) (payments (durable s2))"
      "r \<noteq> Inr Command_Failed_Reply" by blast
    then show ?thesis
      using assms(1) Some by (cases r) (auto simp: handle_def Let_def data_def [symmetric] s1_def [symmetric])
  qed
qed

definition demo_env :: command_env where
  "demo_env = \<lparr>ce_now = 50, ce_api = None, ce_database_ok = True, ce_heartbeats = [], ce_revision = None, ce_monitor = lost_env,
     ce_locked = (\<lambda>_ _. False), ce_others = (\<lambda>_ d. d)\<rparr>"

definition demo_texts :: command_texts where
  "demo_texts = \<lparr>ct_fmt_time = (\<lambda>_. ''t''), ct_py_str = (\<lambda>_. []), ct_stuck_length = (\<lambda>_. 0), ct_max_length = 3500\<rparr>"

definition demo_chat :: "int \<Rightarrow> string \<Rightarrow> update_context" where
  "demo_chat user chat = \<lparr>uc_user_id = Some user, uc_chat_id = Some user, uc_chat_type = Some chat, uc_username = None\<rparr>"

definition demo_failed :: session where
  "demo_failed = new_session (empty_db\<lparr>payments := [failed_delivery 1 ''a'']\<rparr>) 50"

theorem unauthorized_command_inert_witness:
  "\<exists>s'. handle demo_settings demo_monitor demo_texts demo_env [7] demo_failed (demo_chat 7 ''group'') ''resend_failed'' [''confirm''] = Some (s', Denial_Reply)
      \<and> payments (durable s') = payments (durable demo_failed)"
proof -
  have "\<not> is_authorized [7] (demo_chat 7 ''group'')" by (simp add: is_authorized_def demo_chat_def)
  from unauthorized_command_inert [OF this] show ?thesis by blast
qed

theorem commands_return_and_are_audited_witness:
  "\<exists>s' reply. handle demo_settings demo_monitor demo_texts demo_env [7] demo_failed (demo_chat 7 ''private'') ''status'' [] = Some (s', reply)
      \<and> list_all2 financial_eq (payments (durable demo_failed)) (payments (durable s'))"
proof -
  have "is_authorized [7] (demo_chat 7 ''private'')" by (simp add: is_authorized_def demo_chat_def)
  moreover have "work demo_failed = durable demo_failed" "distinct (map p_id (payments (durable demo_failed)))"
    by (simp_all add: demo_failed_def new_session_def)
  moreover have "ce_locked demo_env = (\<lambda>_ _. False)" "ce_others demo_env = (\<lambda>_ d. d)" by (simp_all add: demo_env_def)
  ultimately show ?thesis
    using commands_return_and_are_audited [of "[7]" "demo_chat 7 ''private''" demo_failed demo_env "\<lambda>_. False"
        demo_settings demo_monitor demo_texts "''status''" "[]"] by blast
qed

theorem only_confirmed_resend_writes_witness:
  "\<exists>s' reply. handle (demo_settings\<lparr>bot_notify_retry_mode := Idempotent\<rparr>) demo_monitor demo_texts demo_env [7] demo_failed (demo_chat 7 ''private'')
       ''resend_failed'' [''confirm''] = Some (s', reply)
     \<and> payments (durable s') \<noteq> payments (durable demo_failed)
     \<and> confirms_resend (demo_settings\<lparr>bot_notify_retry_mode := Idempotent\<rparr>) ''resend_failed'' [''confirm'']"
proof -
  let ?cfg = "demo_settings\<lparr>bot_notify_retry_mode := Idempotent\<rparr>"
  let ?run = "handle ?cfg demo_monitor demo_texts demo_env [7] demo_failed (demo_chat 7 ''private'') ''resend_failed'' [''confirm'']"
  have "case ?run of None \<Rightarrow> False | Some (s', _) \<Rightarrow> map p_status (payments (durable s')) = [BOT_NOTIFY_PENDING]" by code_simp
  then obtain s' reply where run: "?run = Some (s', reply)" "map p_status (payments (durable s')) = [BOT_NOTIFY_PENDING]"
    by (auto split: option.splits)
  moreover have "payments (durable s') \<noteq> payments (durable demo_failed)"
    using run(2) by (auto simp: demo_failed_def new_session_def failed_delivery_def)
  moreover have "work demo_failed = durable demo_failed" by (simp add: demo_failed_def new_session_def)
  ultimately show ?thesis using only_confirmed_resend_writes [of demo_failed ?cfg] by blast
qed

section \<open>What replies say\<close>

lemma shorten_spec:
  "shorten f m n \<le> n \<and> (shorten f m n = 0 \<or> f (shorten f m n) \<le> m) \<and> (\<forall>j. shorten f m n < j \<and> j \<le> n \<longrightarrow> f j > m)"
  by (induction n) (auto simp: le_Suc_eq not_less)

text \<open>
  \<open>/status\<close> and \<open>/stuck\<close>, asked at the same moment, never disagree: the waiting and expired totals are the
  same, the number of payments that need attention is the sum of the two totals in the header,
  and the header raises attention exactly when that number is not zero. The list of \<open>/stuck\<close> holds at most ten
  entries and at most the total, the message fits the limit unless it has no entry, and no longer
  list would fit.
\<close>

theorem status_and_stuck_agree:
  assumes "cmd_status cfg tm ce d = Status_Reply sv" "cmd_stuck cfg len max_length ce d [] = Stuck_Reply kv"
  shows "sv_needs_attention sv = kv_bot_delivery kv + kv_other kv \<and> sv_waiting sv = kv_waiting kv \<and> sv_expired sv = kv_expired kv
       \<and> (kv_needs_attention kv \<longleftrightarrow> sv_needs_attention sv > 0)
       \<and> length (kv_entries kv) \<le> 10 \<and> length (kv_entries kv) \<le> kv_bot_delivery kv
       \<and> (kv_entries kv = [] \<or> len kv \<le> max_length)
       \<and> (\<forall>j. length (kv_entries kv) < j \<and> j \<le> length (ov_entries (bot_delivery_of cfg d (ce_now ce) 10)) \<longrightarrow>
            len (stuck_view_of cfg d (ce_now ce) (bot_delivery_of cfg d (ce_now ce) 10) j) > max_length)"
proof -
  let ?now = "ce_now ce"
  let ?o = "bot_delivery_of cfg d ?now 10" and ?rows = "attention_rows bot_delivery_manual_review_conditions d (?now - of_int (60 * 30))"
  let ?k = "shorten (\<lambda>k. len (stuck_view_of cfg d ?now ?o k)) max_length (length (ov_entries ?o))"
  have ov: "ov_total (bot_delivery_of cfg d ?now n) = length ?rows" if "0 < n" for n
    using attention_total [OF that, of bot_delivery_manual_review_conditions] by (simp add: bot_delivery_of_def bot_delivery_snapshot_def)
  have few: "length (ov_entries ?o) \<le> 10" "length (ov_entries ?o) \<le> length ?rows"
    by (simp_all add: bot_delivery_of_def bot_delivery_snapshot_def attention_overview_of_def Let_def first_n_by_def)
  have kv: "kv = stuck_view_of cfg d ?now ?o ?k" using assms(2) by (simp add: cmd_stuck_def Let_def STUCK_DETAIL_MAX_def)
  have k: "?k \<le> length (ov_entries ?o)" using shorten_spec by blast
  then have entries: "length (kv_entries kv) = ?k" by (simp add: kv stuck_view_of_def Let_def)
  have sv: "sv_needs_attention sv = length ?rows + count_other_attention d cfg ?now" "sv_waiting sv = count_waiting d cfg ?now"
    "sv_expired sv = count_expired d cfg ?now"
    using assms(1) ov [of 1] by (auto simp: cmd_status_def Let_def)
  have kvs: "kv_bot_delivery kv = length ?rows" "kv_other kv = count_other_attention d cfg ?now" "kv_waiting kv = count_waiting d cfg ?now"
    "kv_expired kv = count_expired d cfg ?now" "kv_needs_attention kv = (length ?rows > 0 \<or> count_other_attention d cfg ?now > 0)"
    using ov [of 10] by (simp_all add: kv stuck_view_of_def Let_def)
  have "kv_entries kv = [] \<or> len kv \<le> max_length"
    using shorten_spec [of "\<lambda>k. len (stuck_view_of cfg d ?now ?o k)" max_length "length (ov_entries ?o)"] entries kv by fastforce
  then show ?thesis
    using shorten_spec [of "\<lambda>k. len (stuck_view_of cfg d ?now ?o k)" max_length "length (ov_entries ?o)"] sv kvs entries few k by auto
qed

theorem status_and_stuck_agree_witness:
  "\<exists>sv kv. cmd_status demo_settings (\<lambda>_. ''t'') demo_env (durable demo_failed) = Status_Reply sv
     \<and> cmd_stuck demo_settings (\<lambda>_. 0) 3500 demo_env (durable demo_failed) [] = Stuck_Reply kv
     \<and> sv_needs_attention sv = kv_bot_delivery kv + kv_other kv"
proof -
  obtain sv where "cmd_status demo_settings (\<lambda>_. ''t'') demo_env (durable demo_failed) = Status_Reply sv" by (auto simp: cmd_status_def Let_def)
  moreover obtain kv where "cmd_stuck demo_settings (\<lambda>_. 0) 3500 demo_env (durable demo_failed) [] = Stuck_Reply kv"
    by (auto simp: cmd_stuck_def Let_def)
  ultimately show ?thesis using status_and_stuck_agree by blast
qed

text \<open>
  Two arguments of \<open>/recent\<close> are not handled: \<open>0\<close> answers that no payment was ever recorded,
  whatever the table holds, and a superscript digit, which counts as a digit and is then refused as a number,
  makes the command fail with the text for internal errors.
\<close>

theorem recent_argument_flaws:
  assumes "is_authorized admin_ids ctx"
  shows "cmd_recent tm d [''0''] = Inr No_Payments_Reply
       \<and> (\<exists>s'. handle cfg mo ct ce admin_ids s ctx ''recent'' [[CHR 0xB2]] = Some (s', Command_Failed_Reply))"
proof
  have "recent_limit [''0''] = Inr 0"
    by (simp add: recent_limit_def py_isdigit_def is_ascii_decimal_def is_ascii_digit_def cc_def py_int_of_digits_def py_int_max_digits_def
        digits_to_nat_def digit_val_def)
  then show "cmd_recent tm d [''0''] = Inr No_Payments_Reply" by (simp add: cmd_recent_def recent_payments_def first_n_by_def)
  have "recent_limit [[CHR 0xB2]] = Inl ''ValueError''"
    by (simp add: recent_limit_def py_isdigit_def is_ascii_decimal_def is_ascii_digit_def cc_def)
  then obtain h where "registry cfg mo ct ce ctx ''recent'' = Some h" "\<And>s1. h s1 [[CHR 0xB2]] = Some (s1, Inl ''ValueError'')"
    by (simp add: registry_def Let_def cmd_recent_def)
  then show "\<exists>s'. handle cfg mo ct ce admin_ids s ctx ''recent'' [[CHR 0xB2]] = Some (s', Command_Failed_Reply)"
    using assms by (simp add: handle_def Let_def)
qed

theorem recent_argument_flaws_witness:
  "cmd_recent (\<lambda>_. ''t'') (durable demo_failed) [''0''] = Inr No_Payments_Reply \<and> payments (durable demo_failed) \<noteq> []"
proof -
  have "is_authorized [7] (demo_chat 7 ''private'')" by (simp add: is_authorized_def demo_chat_def)
  from recent_argument_flaws [OF this] show ?thesis by (simp add: demo_failed_def new_session_def)
qed

end
