(* ===== verification/Admin_Privacy.thy ===== *)
theory Admin_Privacy
  imports Admin_Commands
begin

text \<open>
  What the admin bot can reveal: no reply depends on the columns of a payment that identify the payer, carry
  the payment link, authenticate the callback or name an operator.
\<close>

definition hide :: "payment \<Rightarrow> payment" where
  "hide p = p\<lparr>p_gateway_user_id := 0, p_payer_identity_id := None, p_payer_identity_type := None, p_payer_derivation_version := None,
     p_redirect_url := None, p_callback_token_hash := None, p_attention_resolved_by := None, p_attention_resolution_note := None,
     p_notification_claimed_by := None, p_reconciliation_claimed_by := None\<rparr>"

definition hide_db :: "db \<Rightarrow> db" where
  "hide_db d = d\<lparr>payments := map hide (payments d), payer_identities := []\<rparr>"

lemma hide_sel [simp]:
  "p_id (hide p) = p_id p" "p_bot_order_id (hide p) = p_bot_order_id p" "p_gateway_order_id (hide p) = p_gateway_order_id p"
  "p_amount (hide p) = p_amount p" "p_fee_rate_bps (hide p) = p_fee_rate_bps p" "p_fee_amount (hide p) = p_fee_amount p"
  "p_payable_amount (hide p) = p_payable_amount p" "p_status (hide p) = p_status p" "p_reference_id (hide p) = p_reference_id p"
  "p_callback_token_issued_at (hide p) = p_callback_token_issued_at p" "p_review_acknowledged_at (hide p) = p_review_acknowledged_at p"
  "p_review_resolved_at (hide p) = p_review_resolved_at p" "p_review_resolution (hide p) = p_review_resolution p"
  "p_attention_resolved_at (hide p) = p_attention_resolved_at p" "p_attention_resolution (hide p) = p_attention_resolution p"
  "p_card_last4 (hide p) = p_card_last4 p" "p_last_error (hide p) = p_last_error p" "p_gateway_verified_at (hide p) = p_gateway_verified_at p"
  "p_bot_notify_reason (hide p) = p_bot_notify_reason p" "p_bot_notify_attempts (hide p) = p_bot_notify_attempts p"
  "p_bot_last_http_status (hide p) = p_bot_last_http_status p" "p_bot_last_error_code (hide p) = p_bot_last_error_code p"
  "p_bot_notify_started_at (hide p) = p_bot_notify_started_at p" "p_bot_notify_accepted_at (hide p) = p_bot_notify_accepted_at p"
  "p_next_retry_at (hide p) = p_next_retry_at p" "p_manual_review_at (hide p) = p_manual_review_at p"
  "p_notification_claimed_at (hide p) = p_notification_claimed_at p" "p_reconciliation_attempts (hide p) = p_reconciliation_attempts p"
  "p_reconciliation_next_at (hide p) = p_reconciliation_next_at p" "p_reconciliation_last_at (hide p) = p_reconciliation_last_at p"
  "p_reconciliation_last_error_code (hide p) = p_reconciliation_last_error_code p"
  "p_reconciliation_claimed_at (hide p) = p_reconciliation_claimed_at p" "p_created_at (hide p) = p_created_at p"
  by (simp_all add: hide_def)

lemma hide_db_sel [simp]:
  "payments (hide_db d) = map hide (payments d)" "payment_events (hide_db d) = payment_events d"
  "admin_alerts (hide_db d) = admin_alerts d" "fee_policies (hide_db d) = fee_policies d"
  by (simp_all add: hide_db_def)

section \<open>Listings of hidden rows\<close>

lemma insort_key_map: "insort_key key (h x) (map h xs) = map h (insort_key (key \<circ> h) x xs)"
  by (induction xs) auto

lemma sort_key_map: "sort_key key (map h xs) = map h (sort_key (key \<circ> h) xs)"
  unfolding sort_key_def by (induction xs) (simp_all add: insort_key_map comp_def)

lemma first_n_by_map: "(\<And>x. key (h x) = key' x) \<Longrightarrow> first_n_by key n (map h xs) = map h (first_n_by key' n xs)"
  by (simp add: first_n_by_def sort_key_map take_map comp_def)

lemma filter_map_same: "(\<And>x. P (h x) = P x) \<Longrightarrow> filter P (map h xs) = map h (filter P xs)"
  by (simp add: filter_map comp_def)

lemma count_where_map: "(\<And>x. P (h x) = Q x) \<Longrightarrow> count_where P (map h xs) = count_where Q xs"
  by (simp add: count_where_def filter_map comp_def)

lemma find_map_same: "(\<And>x. P (h x) = P x) \<Longrightarrow> find P (map h xs) = map_option h (find P xs)"
  by (induction xs) auto

lemmas hidden_list = first_n_by_map [where h = hide] filter_map_same [where h = hide] count_where_map [where h = hide]

lemma hide_conditions [simp]:
  "open_manual_review_conditions (hide p) = open_manual_review_conditions p"
  "bot_delivery_manual_review_conditions (hide p) = bot_delivery_manual_review_conditions p"
  "non_delivery_manual_review_conditions (hide p) = non_delivery_manual_review_conditions p"
  "entry_event (hide p) e = entry_event p e"
  "notification_age_anchor (hide_db d) (hide p) = notification_age_anchor d p"
  "stale_bot_notify_pending_conditions (hide_db d) t (hide p) = stale_bot_notify_pending_conditions d t p"
  "link_age_anchor (hide p) = link_age_anchor p"
  "reconciliation_exhausted_conditions cfg now (hide p) = reconciliation_exhausted_conditions cfg now p"
  "unexpected_status_conditions (hide_db d) now (hide p) = unexpected_status_conditions d now p"
  "waiting_conditions cfg now (hide p) = waiting_conditions cfg now p"
  "expired_conditions cfg now (hide p) = expired_conditions cfg now p"
  "queue_due now (hide p) = queue_due now p"
  "eligible_predicate (hide p) = eligible_predicate p"
  by (simp_all add: open_manual_review_conditions_def bot_delivery_manual_review_conditions_def non_delivery_manual_review_conditions_def
      entry_event_def [abs_def] notification_age_anchor_def stale_bot_notify_pending_conditions_def link_age_anchor_def
      reconciliation_exhausted_conditions_def aged_out_age_condition_def unexpected_status_conditions_def unresolved_attention_condition_def
      latest_event_id_def event_ids_def Let_def waiting_conditions_def expired_conditions_def aged_out_conditions_def queue_due_def eligible_predicate_def)

lemma hide_entries [simp]:
  "se_category (pending_entry t (hide p)) = se_category (pending_entry t p)" "se_payment (pending_entry t (hide p)) = hide p"
  "se_category (delivery_review_entry (hide p)) = se_category (delivery_review_entry p)" "se_payment (delivery_review_entry (hide p)) = hide p"
  "se_payment (pending_entry t p) = p" "se_payment (delivery_review_entry p) = p"
  "oe_payment (waiting_entry p) = p" "oe_payment (expired_entry p) = p"
  by (simp_all add: pending_entry_def delivery_review_entry_def waiting_entry_def expired_entry_def split: option.split)

lemma hide_blocks [simp]:
  "payment_block tm (hide p) = payment_block tm p" "recent_block tm (hide p) = recent_block tm p"
  "review_block now (hide p) = review_block now p" "resolved_block tm (hide p) = resolved_block tm p"
  "retry_block tm (hide p) = retry_block tm p" "payment_details tm (hide p) = payment_details tm p"
  "link_age_entry_block i (hide p) now = link_age_entry_block i p now"
  "bot_delivery_entry_block i (pending_entry t (hide p)) now = bot_delivery_entry_block i (pending_entry t p) now"
  "bot_delivery_entry_block i (delivery_review_entry (hide p)) now = bot_delivery_entry_block i (delivery_review_entry p) now"
  by (simp_all add: payment_block_def recent_block_def review_block_def resolved_block_def retry_block_def payment_details_def
      link_age_entry_block_def bot_delivery_entry_block_def delivery_reason_def Let_def split: option.split)

section \<open>Queries over hidden rows\<close>

lemma hide_counts [simp]:
  "count_by_status (hide_db d) st = count_by_status d st" "count_open_manual_reviews (hide_db d) = count_open_manual_reviews d"
  "count_waiting (hide_db d) cfg now = count_waiting d cfg now" "count_expired (hide_db d) cfg now = count_expired d cfg now"
  "count_other_attention (hide_db d) cfg now = count_other_attention d cfg now"
  "event_count_since (hide_db d) now ty h = event_count_since d now ty h"
  "latest_backup_alert (hide_db d) ty = latest_backup_alert d ty" "errors_summary (hide_db d) now h = errors_summary d now h"
  "select_effective_policy (hide_db d) now = select_effective_policy d now"
  "next_scheduled_policy (hide_db d) now = next_scheduled_policy d now"
  "payment_events_of (hide_db d) i n = payment_events_of d i n"
  by (simp_all add: count_by_status_def count_open_manual_reviews_def count_waiting_def count_expired_def count_other_attention_def
      event_count_since_def latest_backup_alert_def errors_summary_def select_effective_policy_def next_scheduled_policy_def
      payment_events_of_def hidden_list)

lemma hide_listings [simp]:
  "recent_payments (hide_db d) n = map hide (recent_payments d n)"
  "manual_review_payments (hide_db d) n = map hide (manual_review_payments d n)"
  "resolved_review_payments (hide_db d) n = map hide (resolved_review_payments d n)"
  by (simp_all add: recent_payments_def manual_review_payments_def resolved_review_payments_def hidden_list)

lemma hide_retry_queue:
  "retry_queue_snapshot (hide_db d) now n =
     (let q = retry_queue_snapshot d now n
      in \<lparr>rq_due = map hide (rq_due q), rq_scheduled = map hide (rq_scheduled q), rq_claimed = map hide (rq_claimed q),
          rq_retry_limit = map hide (rq_retry_limit q)\<rparr>)"
  by (simp add: retry_queue_snapshot_def Let_def hidden_list)

lemma hide_bot_delivery:
  "ov_total (bot_delivery_of cfg (hide_db d) now n) = ov_total (bot_delivery_of cfg d now n)"
  "length (ov_entries (bot_delivery_of cfg (hide_db d) now n)) = length (ov_entries (bot_delivery_of cfg d now n))"
  "map (\<lambda>(i, e). bot_delivery_entry_block i e t) (zip is (take k (ov_entries (bot_delivery_of cfg (hide_db d) now n))))
   = map (\<lambda>(i, e). bot_delivery_entry_block i e t) (zip is (take k (ov_entries (bot_delivery_of cfg d now n))))"
proof -
  define rows where "rows = attention_rows bot_delivery_manual_review_conditions d (now - of_int (60 * 30))"
  have "attention_rows bot_delivery_manual_review_conditions (hide_db d) (now - of_int (60 * 30)) = map hide rows"
    by (simp add: rows_def attention_rows_def hidden_list filter_map comp_def)
  moreover have "first_n_by (snapshot_order bot_delivery_manual_review_conditions (hide_db d)) n (map hide rows)
      = map hide (first_n_by (snapshot_order bot_delivery_manual_review_conditions d) n rows)"
    by (rule first_n_by_map) (simp add: snapshot_order_def)
  ultimately have o: "bot_delivery_of cfg (hide_db d) now n =
      (let shown = first_n_by (snapshot_order bot_delivery_manual_review_conditions d) n rows
       in \<lparr>ov_total = (if shown = [] then 0 else length rows),
           ov_entries = map (\<lambda>p. if bot_delivery_manual_review_conditions p then delivery_review_entry (hide p)
              else pending_entry (now - bot_notify_claim_timeout_seconds cfg) (hide p)) shown\<rparr>)"
    by (simp add: bot_delivery_of_def bot_delivery_snapshot_def attention_overview_of_def Let_def)
  have o': "bot_delivery_of cfg d now n =
      (let shown = first_n_by (snapshot_order bot_delivery_manual_review_conditions d) n rows
       in \<lparr>ov_total = (if shown = [] then 0 else length rows),
           ov_entries = map (\<lambda>p. if bot_delivery_manual_review_conditions p then delivery_review_entry p
              else pending_entry (now - bot_notify_claim_timeout_seconds cfg) p) shown\<rparr>)"
    by (simp add: bot_delivery_of_def bot_delivery_snapshot_def attention_overview_of_def Let_def rows_def)
  show "ov_total (bot_delivery_of cfg (hide_db d) now n) = ov_total (bot_delivery_of cfg d now n)"
    "length (ov_entries (bot_delivery_of cfg (hide_db d) now n)) = length (ov_entries (bot_delivery_of cfg d now n))"
    by (simp_all add: o o' Let_def)
  show "map (\<lambda>(i, e). bot_delivery_entry_block i e t) (zip is (take k (ov_entries (bot_delivery_of cfg (hide_db d) now n))))
   = map (\<lambda>(i, e). bot_delivery_entry_block i e t) (zip is (take k (ov_entries (bot_delivery_of cfg d now n))))"
    by (simp add: o o' Let_def take_map zip_map2 comp_def split_beta)
qed

lemma hide_snapshots:
  "link_age_reply (waiting_snapshot (hide_db d) cfg now n) t = link_age_reply (waiting_snapshot d cfg now n) t"
  "link_age_reply (expired_snapshot (hide_db d) cfg now n) t = link_age_reply (expired_snapshot d cfg now n) t"
  by (simp_all add: link_age_reply_def waiting_snapshot_def expired_snapshot_def rows_with_exact_total_def Let_def hidden_list
      zip_map2 comp_def split_beta)

lemma hide_find_payment:
  "find_payment (hide_db d) i = map_sum id (map_option hide) (find_payment d i)"
proof -
  have find: "find_payment_by_order_id (hide_db d) i = map_sum id (map_option hide) (find_payment_by_order_id d i)"
    by (simp add: find_payment_by_order_id_def payment_by_bot_order_id_def payment_by_gateway_order_id_def Let_def find_map_same
        split: option.split)
  have refs: "filter (\<lambda>p. p_reference_id p = Some i) (map hide (payments d)) = map hide (filter (\<lambda>p. p_reference_id p = Some i) (payments d))"
    by (rule filter_map_same) simp
  show ?thesis
    unfolding find_payment_def find hide_db_sel refs by (simp add: take_map split: sum.split option.split list.split)
qed

section \<open>Commands over hidden rows\<close>

lemma hide_commands [simp]:
  "cmd_fee tm ce (hide_db d) = cmd_fee tm ce d" "cmd_status cfg tm ce (hide_db d) = cmd_status cfg tm ce d"
  "cmd_health tm ce (hide_db d) = cmd_health tm ce d" "cmd_recent tm (hide_db d) args = cmd_recent tm d args"
  "cmd_stuck cfg len m ce (hide_db d) args = cmd_stuck cfg len m ce d args"
  "cmd_waiting cfg ce (hide_db d) args = cmd_waiting cfg ce d args" "cmd_expired cfg ce (hide_db d) args = cmd_expired cfg ce d args"
  "cmd_manual_review ce (hide_db d) = cmd_manual_review ce d" "cmd_resolved_reviews tm (hide_db d) args = cmd_resolved_reviews tm d args"
  "cmd_errors ce (hide_db d) = cmd_errors ce d" "cmd_retry_queue tm ce (hide_db d) = cmd_retry_queue tm ce d"
  "cmd_backup_status tm ps (hide_db d) = cmd_backup_status tm ps d"
  by (simp_all add: cmd_fee_def cmd_status_def cmd_health_def cmd_recent_def cmd_stuck_def stuck_view_of_def cmd_waiting_def cmd_expired_def
      cmd_manual_review_def cmd_resolved_reviews_def cmd_errors_def cmd_retry_queue_def cmd_backup_status_def hide_retry_queue
      hide_bot_delivery hide_snapshots take_map comp_def Let_def split: sum.split option.split)

section \<open>The session\<close>

definition hide_session :: "session \<Rightarrow> session" where
  "hide_session s = s\<lparr>durable := hide_db (durable s), work := hide_db (work s)\<rparr>"

lemma hide_session_sel [simp]:
  "work (hide_session s) = hide_db (work s)" "durable (hide_session s) = hide_db (durable s)"
  "seq (hide_session s) = seq s" "clock (hide_session s) = clock s" "request_id (hide_session s) = request_id s"
  "alert_policy (hide_session s) = alert_policy s"
  by (simp_all add: hide_session_def)

lemma hide_insert_event [simp]: "insert_event (hide_session s) pid ty lv data = hide_session (insert_event s pid ty lv data)"
  by (simp add: insert_event_def hide_session_def hide_db_def Let_def)

lemma hide_create_alert [simp]:
  "fst (create_alert (hide_session s) ty sev pid dedup payload m now) = hide_session (fst (create_alert s ty sev pid dedup payload m now))"
proof -
  have "new_alert_status (hide_session s) dedup m now = new_alert_status s dedup m now"
    by (simp add: new_alert_status_def Let_def split: option.split)
  then show ?thesis
    by (simp add: create_alert_def create_alert_with_def insert_event_def hide_session_def hide_db_def Let_def)
qed

lemma hide_record_event [simp]: "record_event (hide_session s) pid ty lv data = hide_session (record_event s pid ty lv data)"
proof -
  have "map_event (hide_session t) pol ty pid data = hide_session (map_event t pol ty pid data)" for t pol
    by (simp only: map_event_def Let_def hide_session_sel hide_create_alert if_distrib [of hide_session])
  then show ?thesis by (simp add: record_event_def on_audit_event_def split: option.split)
qed

lemma hide_commit [simp]: "commit (hide_session s) = hide_session (commit s)" "rollback (hide_session s) = hide_session (rollback s)"
  by (simp_all add: commit_def rollback_def hide_session_def)

lemma hide_audit [simp]: "audit (hide_session s) ty lv data = hide_session (audit s ty lv data)"
  by (simp add: audit_def)

lemma hide_cmd_payment [simp]: "cmd_payment tm (hide_session s) args = map_prod hide_session id (cmd_payment tm s args)"
  by (simp add: cmd_payment_def hide_find_payment Let_def split: list.split sum.split option.split lookup_error.split)

lemma hide_resend_unconfirmed:
  assumes "\<not> confirms_resend cfg ''resend_failed'' args"
  shows "cmd_resend_failed cfg ce ctx (hide_session s) args = map_option (map_prod hide_session id) (cmd_resend_failed cfg ce ctx s args)"
proof -
  have "sort_key resend_order (filter eligible_predicate (map hide xs)) = map hide (sort_key resend_order (filter eligible_predicate xs))" for xs
    by (simp add: hidden_list sort_key_map comp_def resend_order_def [abs_def])
  then have "preview_bulk_resend (hide_session s) = map_prod hide_session id (preview_bulk_resend s)"
    by (simp add: preview_bulk_resend_def Let_def take_map comp_def)
  then show ?thesis using assms by (simp add: cmd_resend_failed_def confirms_resend_def Let_def split_beta)
qed

lemma hide_registry:
  assumes "\<not> confirms_resend cfg command args" "registry cfg mo ct ce ctx command = Some handler"
  shows "handler (hide_session s) args = map_option (map_prod hide_session id) (handler s args)"
proof (cases "command = ''resend_failed''")
  case True
  then have "handler = cmd_resend_failed cfg ce ctx" using assms(2) by (simp add: registry_def)
  then show ?thesis using hide_resend_unconfirmed assms(1) True by simp
next
  case False
  then show ?thesis
    using map_of_SomeD [OF assms(2) [unfolded registry_def Let_def]]
    unfolding list.set insert_iff prod.inject empty_iff
    by (elim disjE conjE FalseE; hypsubst; simp)
qed



end
