(* ===== verification/Admin_Health.thy ===== *)
theory Admin_Health
  imports Admin_Commands Config
begin

text \<open>
  The background work of the admin bot: the health monitor with its thresholds (\<open>app/adminbot/health.py\<close>),
  the daily report (\<open>app/adminbot/reports.py\<close>), the loop around them (\<open>app/adminbot/runner.py\<close>) and
  the process (\<open>app/adminbot/__main__.py\<close>). Telegram polling, signals, the sleep and the liveness
  file are left out.
\<close>

section \<open>Health checks\<close>

record admin_service_settings =
  ad_health_failure_threshold :: int
  ad_health_recovery_threshold :: int
  ad_daily_report_enabled :: bool
  ad_daily_report_time :: string
  ad_health_check_interval_seconds :: rat

record health_result =
  hr_check :: string
  hr_ok :: bool
  hr_detail :: string

definition health_result_of :: "string \<Rightarrow> bool \<Rightarrow> string \<Rightarrow> health_result" where
  "health_result_of check ok detail = \<lparr>hr_check = check, hr_ok = ok, hr_detail = detail\<rparr>"

definition stalled_notification :: "time \<Rightarrow> payment \<Rightarrow> bool" where
  "stalled_notification cutoff p \<longleftrightarrow>
     p_status p = BOT_NOTIFY_PENDING \<and> p_notification_claimed_at p = None
   \<and> (case p_next_retry_at p of None \<Rightarrow> False | Some t \<Rightarrow> t \<le> cutoff)"

definition stalled_alert :: "time \<Rightarrow> admin_alert \<Rightarrow> bool" where
  "stalled_alert cutoff a \<longleftrightarrow> al_status a = AL_PENDING \<and> al_created_at a \<le> cutoff"

text \<open>\<open>api\<close> is the readiness of the probe, \<open>None\<close> when it raises.\<close>

definition run_health_checks ::
  "monitor_settings \<Rightarrow> bool option \<Rightarrow> bool \<Rightarrow> worker_heartbeat list \<Rightarrow> db \<Rightarrow> time \<Rightarrow> health_result list" where
  "run_health_checks mo api database_ok beats d now =
     (let heartbeat_age = worker_heartbeat_age_seconds beats now;
          stalled = count_where (stalled_notification (now - 600)) (payments d);
          backup_ok = (case latest_backup_alert d ''backup_succeeded'' of None \<Rightarrow> False | Some a \<Rightarrow> now - al_created_at a < 26 * 3600);
          stuck_alerts = count_where (stalled_alert (now - 900)) (admin_alerts d)
      in [health_result_of ''api_ready'' (api = Some True) ''readiness probe'',
          health_result_of ''database'' database_ok ''SELECT 1'',
          health_result_of ''worker_heartbeat''
            (case heartbeat_age of None \<Rightarrow> False | Some a \<Rightarrow> a < max (bot_notify_worker_interval_seconds mo * 6) 120)
            (case heartbeat_age of None \<Rightarrow> ''no heartbeat'' | Some a \<Rightarrow> ''age='' @ show_int (py_trunc a) @ ''s''),
          health_result_of ''retry_queue'' (stalled = 0) (''stalled='' @ show_nat stalled),
          health_result_of ''backup'' backup_ok (if backup_ok then ''recent backup found'' else ''overdue''),
          health_result_of ''alert_queue'' (stuck_alerts = 0) (''stalled='' @ show_nat stuck_alerts)])"

section \<open>The monitor\<close>

text \<open>The counters are dictionaries that are read with the default 0.\<close>

record health_monitor =
  hm_failure_counts :: "string \<Rightarrow> int"
  hm_success_counts :: "string \<Rightarrow> int"
  hm_alerted :: "string list"

definition new_health_monitor :: health_monitor where
  "new_health_monitor = \<lparr>hm_failure_counts = (\<lambda>_. 0), hm_success_counts = (\<lambda>_. 0), hm_alerted = []\<rparr>"

definition health_payload :: "health_result \<Rightarrow> jdict" where
  "health_payload r = [(''check'', JStr (hr_check r)), (''detail'', JStr (hr_detail r))]"

definition process ::
  "admin_service_settings \<Rightarrow> monitor_settings \<Rightarrow> time \<Rightarrow> health_monitor \<times> session \<Rightarrow> health_result \<Rightarrow> health_monitor \<times> session" where
  "process ad mo now ms r =
     (let (m, s) = ms; name = hr_check r
      in if hr_ok r then
           (let m1 = m\<lparr>hm_failure_counts := (hm_failure_counts m)(name := 0),
                       hm_success_counts := (hm_success_counts m)(name := hm_success_counts m name + 1)\<rparr>
            in if name \<in> set (hm_alerted m1) \<and> hm_success_counts m1 name \<ge> ad_health_recovery_threshold ad then
                 (m1\<lparr>hm_alerted := removeAll name (hm_alerted m1)\<rparr>,
                  if admin_bot_health_alerts mo
                  then fst (create_alert s ''service_recovered'' ''info'' None None (health_payload r) None now) else s)
               else (m1, s))
         else
           (let m1 = m\<lparr>hm_success_counts := (hm_success_counts m)(name := 0),
                       hm_failure_counts := (hm_failure_counts m)(name := hm_failure_counts m name + 1)\<rparr>
            in if name \<notin> set (hm_alerted m1) \<and> hm_failure_counts m1 name \<ge> ad_health_failure_threshold ad then
                 (m1\<lparr>hm_alerted := name # hm_alerted m1\<rparr>,
                  if admin_bot_health_alerts mo
                  then fst (create_alert s ''service_unhealthy'' ''error'' None (Some (''service_unhealthy:'' @ name)) (health_payload r) None now)
                  else s)
               else (m1, s)))"

text \<open>
  A failed commit rolls the alerts back and raises; the counters in memory stay. \<open>commit_error\<close> is the
  exception of the commit, if any.
\<close>

definition run_once ::
  "admin_service_settings \<Rightarrow> monitor_settings \<Rightarrow> time \<Rightarrow> health_result list \<Rightarrow> string option \<Rightarrow> health_monitor \<Rightarrow> session \<Rightarrow>
   health_monitor \<times> session \<times> string option" where
  "run_once ad mo now results commit_error m s =
     (let (m1, s1) = foldl (process ad mo now) (m, rollback s) results
      in case commit_error of None \<Rightarrow> (m1, commit s1, None) | Some e \<Rightarrow> (m1, rollback s1, Some e))"

section \<open>The daily report\<close>

definition report_time_parts :: "string \<Rightarrow> (int \<times> int) option" where
  "report_time_parts s =
     (case split_at (CHR '':'') s of
        [h, m] \<Rightarrow> (if is_ascii_decimal h \<and> is_ascii_decimal m then Some (int (digits_to_nat h), int (digits_to_nat m)) else None)
      | _ \<Rightarrow> None)"

text \<open>\<open>local_now t\<close> is the date (ISO), hour and minute of an instant in the configured zone.\<close>

definition report_due :: "admin_service_settings \<Rightarrow> (time \<Rightarrow> string \<times> int \<times> int) \<Rightarrow> time \<Rightarrow> string option + string option" where
  "report_due ad local_now now =
     (if \<not> ad_daily_report_enabled ad then Inr None
      else case report_time_parts (ad_daily_report_time ad) of
             None \<Rightarrow> Inl (Some ''ValueError'')
           | Some (hour, minute) \<Rightarrow>
               (case local_now now of
                  (date, h, m) \<Rightarrow> Inr (if h > hour \<or> (h = hour \<and> m \<ge> minute) then Some date else None)))"

definition report_key :: "string \<Rightarrow> string" where
  "report_key date = ''daily_report:'' @ date"

fun backup_label_value :: "backup_label \<Rightarrow> string" where
  "backup_label_value Backup_Unknown = ''unknown''"
| "backup_label_value Backup_Succeeded = ''succeeded''"
| "backup_label_value Backup_Failed = ''failed''"

definition report_json :: "daily_report \<Rightarrow> jdict" where
  "report_json r =
     [(''report_date'', JStr (dr_report_date r)), (''backup_status'', JStr (backup_label_value (dr_backup_status r))),
      (''links_created'', JInt (int (dr_links_created r))), (''gateway_verified'', JInt (int (dr_gateway_verified r))),
      (''bot_accepted'', JInt (int (dr_bot_accepted r))), (''total_verified_toman'', JInt (dr_total_verified_toman r)),
      (''total_original_invoices_toman'', JInt (dr_total_original_invoices_toman r)), (''total_fees_toman'', JInt (dr_total_fees_toman r)),
      (''total_collected_via_gateway_toman'', JInt (dr_total_collected_via_gateway_toman r)),
      (''manual_review'', JInt (int (dr_manual_review r))), (''pending_retry'', JInt (int (dr_pending_retry r))),
      (''getlink_failures'', JInt (int (dr_getlink_failures r))), (''verify_failures'', JInt (int (dr_verify_failures r))),
      (''bot_delivery_failures'', JInt (int (dr_bot_delivery_failures r))), (''health_summary'', JStr ''see /status'')]"

definition maybe_queue_daily_report ::
  "admin_service_settings \<Rightarrow> (time \<Rightarrow> string \<times> int \<times> int) \<Rightarrow> time \<Rightarrow> session \<Rightarrow> session \<times> (string option + bool)" where
  "maybe_queue_daily_report ad local_now now s =
     (case report_due ad local_now now of
        Inl e \<Rightarrow> (s, Inl e)
      | Inr None \<Rightarrow> (s, Inr False)
      | Inr (Some date) \<Rightarrow>
          if list_ex (\<lambda>a. al_deduplication_key a = Some (report_key date)) (admin_alerts (work s)) then (s, Inr False)
          else let s1 = fst (create_alert s ''daily_report'' ''info'' None (Some (report_key date))
                               (report_json (daily_report_payload (work s) now date 24)) (Some (60 * 48)) now)
               in (commit (record_event s1 None ''daily_report_delivered'' ''info''
                     [(''report_date'', JStr date), (''queued'', JBool True)]), Inr True))"

section \<open>The loop\<close>

definition DELIVERY_WORKER_NAME :: string where
  "DELIVERY_WORKER_NAME = ''admin-bot-delivery''"

definition health_every :: "admin_service_settings \<Rightarrow> monitor_settings \<Rightarrow> int" where
  "health_every ad mo = max 1 \<lfloor>ad_health_check_interval_seconds ad / admin_bot_alert_poll_interval_seconds mo\<rfloor>"

text \<open>
  What a tick meets: the environment of the delivery pass and an exception that ends it, the inputs of
  the health checks with an exception of their queries or of their commit, the clock, and the heartbeat
  write.
\<close>

record background_env =
  be_alerts :: alert_env
  be_pass_error :: "string option"
  be_now :: time
  be_api :: "bool option"
  be_database_ok :: bool
  be_query_error :: "string option"
  be_commit_error :: "string option"
  be_heartbeat_others :: "worker_heartbeat list \<Rightarrow> worker_heartbeat list"
  be_heartbeat_next :: int
  be_heartbeat_fails :: bool

record background_state =
  bs_session :: session
  bs_monitor :: health_monitor
  bs_heartbeats :: "worker_heartbeat list"
  bs_tick :: int

definition tick_work ::
  "settings \<Rightarrow> monitor_settings \<Rightarrow> admin_service_settings \<Rightarrow> (time \<Rightarrow> string \<times> int \<times> int) \<Rightarrow> int list \<Rightarrow> string \<Rightarrow> background_env \<Rightarrow>
   background_state \<Rightarrow> health_monitor \<times> session \<times> string option" where
  "tick_work cfg mo ad local_now admin_ids worker be st =
     (case (be_pass_error be, alert_delivery_pass cfg (be_alerts be) admin_ids worker (bs_session st)) of
        (Some e, _) \<Rightarrow> (bs_monitor st, rollback (bs_session st), Some e)
      | (None, None) \<Rightarrow> (bs_monitor st, rollback (bs_session st), Some ''NoResultFound'')
      | (None, Some (s, _)) \<Rightarrow>
          if bs_tick st mod health_every ad mo \<noteq> 0 then (bs_monitor st, s, None)
          else case be_query_error be of
                 Some e \<Rightarrow> (bs_monitor st, rollback s, Some e)
               | None \<Rightarrow>
                   (case run_once ad mo (be_now be)
                           (run_health_checks mo (be_api be) (be_database_ok be) (bs_heartbeats st) (durable s) (be_now be))
                           (be_commit_error be) (bs_monitor st) s of
                      (m, s, Some e) \<Rightarrow> (m, s, Some e)
                    | (m, s, None) \<Rightarrow>
                        (case maybe_queue_daily_report ad local_now (be_now be) s of
                           (s, Inl e) \<Rightarrow> (m, s, Some (coalesce e []))
                         | (s, Inr _) \<Rightarrow> (m, s, None))))"

definition background_tick ::
  "settings \<Rightarrow> monitor_settings \<Rightarrow> admin_service_settings \<Rightarrow> (time \<Rightarrow> string \<times> int \<times> int) \<Rightarrow> int list \<Rightarrow> string \<Rightarrow> string \<Rightarrow> string \<Rightarrow>
   background_state \<Rightarrow> background_env \<Rightarrow> background_state" where
  "background_tick cfg mo ad local_now admin_ids worker version instance st be =
     (let (m, s, error_code) = tick_work cfg mo ad local_now admin_ids worker be st;
          beats = (if be_heartbeat_fails be then bs_heartbeats st
                   else fst (record_worker_heartbeat (be_heartbeat_others be) version (be_heartbeat_next be) (bs_heartbeats st)
                          DELIVERY_WORKER_NAME instance (be_now be) (error_code = None) error_code))
      in \<lparr>bs_session = s, bs_monitor = m, bs_heartbeats = beats, bs_tick = bs_tick st + 1\<rparr>)"

definition background_loop ::
  "settings \<Rightarrow> monitor_settings \<Rightarrow> admin_service_settings \<Rightarrow> (time \<Rightarrow> string \<times> int \<times> int) \<Rightarrow> int list \<Rightarrow> string \<Rightarrow> string \<Rightarrow> string \<Rightarrow>
   session \<Rightarrow> worker_heartbeat list \<Rightarrow> background_env list \<Rightarrow> background_state" where
  "background_loop cfg mo ad local_now admin_ids worker version instance s beats bes =
     foldl (background_tick cfg mo ad local_now admin_ids worker version instance)
       \<lparr>bs_session = s, bs_monitor = new_health_monitor, bs_heartbeats = beats, bs_tick = 0\<rparr> bes"

text \<open>The process: exit code 2 for a refused configuration, otherwise the two audit events around the loop.\<close>

definition admin_main ::
  "settings \<Rightarrow> startup_settings \<Rightarrow> monitor_settings \<Rightarrow> admin_service_settings \<Rightarrow> (time \<Rightarrow> string \<times> int \<times> int) \<Rightarrow> string \<Rightarrow> string \<Rightarrow> string \<Rightarrow>
   session \<Rightarrow> worker_heartbeat list \<Rightarrow> background_env list \<Rightarrow> int \<times> session" where
  "admin_main cfg su mo ad local_now worker version instance s beats bes =
     (case validate_admin_bot_settings cfg su of
        Inl _ \<Rightarrow> (2, s)
      | Inr admin_ids \<Rightarrow>
          (let s0 = configure_alert_creation cfg s;
               s1 = commit (record_event s0 None ''admin_bot_started'' ''info'' [(''administrators'', JInt (int (length admin_ids)))]);
               st = background_loop cfg mo ad local_now admin_ids worker version instance s1 beats bes
           in (0, commit (record_event (rollback (bs_session st)) None ''admin_bot_stopped'' ''info'' []))))"

section \<open>Messages to the bot\<close>

text \<open>
  An update's message with its sender (id, user name) and chat (id, type). \<open>lay_out\<close> is the text of a
  reply, split into messages; the refusal is one fixed text.
\<close>

record telegram_message =
  tm_text :: "string option"
  tm_user :: "(int \<times> string option) option"
  tm_chat :: "(int \<times> string) option"

definition build_update_context :: "telegram_message option \<Rightarrow> update_context option" where
  "build_update_context message =
     map_option (\<lambda>m. \<lparr>uc_user_id = map_option fst (tm_user m), uc_chat_id = map_option fst (tm_chat m),
                      uc_chat_type = map_option snd (tm_chat m), uc_username = (case tm_user m of None \<Rightarrow> None | Some u \<Rightarrow> snd u)\<rparr>)
       message"

definition GENERIC_DENIAL :: string where
  "GENERIC_DENIAL = ''GENERIC_DENIAL''"

definition reply_chunks :: "(admin_reply \<Rightarrow> string list) \<Rightarrow> admin_reply \<Rightarrow> string list" where
  "reply_chunks lay_out reply = (case reply of Denial_Reply \<Rightarrow> [GENERIC_DENIAL] | _ \<Rightarrow> lay_out reply)"

definition on_message ::
  "settings \<Rightarrow> monitor_settings \<Rightarrow> command_texts \<Rightarrow> (admin_reply \<Rightarrow> string list) \<Rightarrow> command_env \<Rightarrow> int list \<Rightarrow>
   (nat \<Rightarrow> reply_message \<Rightarrow> telegram_exception option) \<Rightarrow> session \<Rightarrow> telegram_message option \<Rightarrow> (session \<times> reply_action list) option" where
  "on_message cfg mo ct lay_out ce admin_ids send s message =
     (case (message, build_update_context message) of
        (Some m, Some ctx) \<Rightarrow>
          (case tm_text m of
             None \<Rightarrow> Some (s, [])
           | Some body \<Rightarrow>
               if body = [] then Some (s, [])
               else case parse_command body of
                      None \<Rightarrow> Some (s, [])
                    | Some (command, args) \<Rightarrow>
                        map_option (\<lambda>(s', reply). (s', deliver_reply_chunks send (reply_chunks lay_out reply)))
                          (handle cfg mo ct ce admin_ids s ctx command args))
      | _ \<Rightarrow> Some (s, []))"

section \<open>What the thresholds promise\<close>

text \<open>
  The promise of the module for one check: quiet until a run of failures reaches the threshold, then
  raised until a run of successes reaches the recovery threshold, one alert on each change.
\<close>

datatype health_phase = Quiet int | Raised int

fun health_step :: "int \<Rightarrow> int \<Rightarrow> health_phase \<Rightarrow> bool \<Rightarrow> health_phase \<times> string list" where
  "health_step failures recoveries (Quiet f) True = (Quiet 0, [])"
| "health_step failures recoveries (Quiet f) False =
     (if f + 1 \<ge> failures then (Raised 0, [''service_unhealthy'']) else (Quiet (f + 1), []))"
| "health_step failures recoveries (Raised k) False = (Raised 0, [])"
| "health_step failures recoveries (Raised k) True =
     (if k + 1 \<ge> recoveries then (Quiet 0, [''service_recovered'']) else (Raised (k + 1), []))"

fun health_run :: "int \<Rightarrow> int \<Rightarrow> health_phase \<Rightarrow> bool list \<Rightarrow> health_phase \<times> string list" where
  "health_run failures recoveries ph [] = (ph, [])"
| "health_run failures recoveries ph (ok # oks) =
     (let (ph1, out1) = health_step failures recoveries ph ok;
          (ph2, out2) = health_run failures recoveries ph1 oks
      in (ph2, out1 @ out2))"

definition health_phase_of :: "health_monitor \<Rightarrow> string \<Rightarrow> health_phase" where
  "health_phase_of m c = (if c \<in> set (hm_alerted m) then Raised (hm_success_counts m c) else Quiet (hm_failure_counts m c))"

definition alerts_about :: "string \<Rightarrow> session \<Rightarrow> string list" where
  "alerts_about c s = map al_alert_type (filter (\<lambda>a. map_of (al_payload a) ''check'' = Some (JStr c)) (admin_alerts (work s)))"

definition process_all ::
  "admin_service_settings \<Rightarrow> monitor_settings \<Rightarrow> health_monitor \<times> session \<Rightarrow> (time \<times> health_result) list \<Rightarrow> health_monitor \<times> session" where
  "process_all ad mo = foldl (\<lambda>ms (now, r). process ad mo now ms r)"

definition outcomes_of :: "string \<Rightarrow> (time \<times> health_result) list \<Rightarrow> bool list" where
  "outcomes_of c rs = map (hr_ok \<circ> snd) (filter (\<lambda>(_, r). hr_check r = c) rs)"

lemma create_alert_alerts:
  "\<exists>a. admin_alerts (work (fst (create_alert s ty sev pid k pl dm now))) = admin_alerts (work s) @ [a]
     \<and> al_alert_type a = ty \<and> al_payload a = pl \<and> al_deduplication_key a = k"
  by (simp add: create_alert_def create_alert_with_def insert_event_def Let_def)

lemma alerts_about_create_alert:
  "alerts_about c (fst (create_alert s ty sev pid k (health_payload r) dm now))
     = alerts_about c s @ (if hr_check r = c then [ty] else [])"
  using create_alert_alerts [of s ty sev pid k "health_payload r" dm now]
  by (auto simp: alerts_about_def health_payload_def)

lemma process_other_check:
  assumes "hr_check r \<noteq> c"
  shows "health_phase_of (fst (process ad mo now (m, s) r)) c = health_phase_of m c"
    and "alerts_about c (snd (process ad mo now (m, s) r)) = alerts_about c s"
  using assms by (simp_all add: process_def Let_def health_phase_of_def alerts_about_create_alert)

lemma process_own_check:
  assumes "hr_check r = c"
  shows "health_phase_of (fst (process ad mo now (m, s) r)) c
           = fst (health_step (ad_health_failure_threshold ad) (ad_health_recovery_threshold ad) (health_phase_of m c) (hr_ok r))"
    and "alerts_about c (snd (process ad mo now (m, s) r))
           = alerts_about c s @ (if admin_bot_health_alerts mo
               then snd (health_step (ad_health_failure_threshold ad) (ad_health_recovery_threshold ad) (health_phase_of m c) (hr_ok r))
               else [])"
  using assms by (cases "hr_ok r"; simp add: process_def Let_def health_phase_of_def alerts_about_create_alert)+

lemma process_all_simps [simp]:
  "process_all ad mo ms [] = ms"
  "process_all ad mo ms ((now, r) # rs) = process_all ad mo (process ad mo now ms r) rs"
  by (simp_all add: process_all_def)

lemma outcomes_of_simps [simp]:
  "outcomes_of c [] = []"
  "outcomes_of c ((now, r) # rs) = (if hr_check r = c then hr_ok r # outcomes_of c rs else outcomes_of c rs)"
  by (simp_all add: outcomes_of_def)

lemma process_all_refines:
  "health_phase_of (fst (process_all ad mo ms rs)) c
     = fst (health_run (ad_health_failure_threshold ad) (ad_health_recovery_threshold ad) (health_phase_of (fst ms) c) (outcomes_of c rs))
   \<and> alerts_about c (snd (process_all ad mo ms rs))
     = alerts_about c (snd ms) @ (if admin_bot_health_alerts mo
         then snd (health_run (ad_health_failure_threshold ad) (ad_health_recovery_threshold ad) (health_phase_of (fst ms) c) (outcomes_of c rs))
         else [])"
proof (induction rs arbitrary: ms)
  case (Cons x rs)
  obtain now r where x: "x = (now, r)" by fastforce
  obtain m s where ms: "ms = (m, s)" by fastforce
  note own = process_own_check [of r c ad mo now m s] and other = process_other_check [of r c ad mo now m s]
  show ?case
    using Cons.IH [of "process ad mo now ms r"] own other
    by (cases "hr_check r = c") (simp_all add: x ms case_prod_unfold Let_def)
qed simp

lemma health_run_raised_failing:
  "(\<forall>ok \<in> set oks. \<not> ok) \<Longrightarrow> health_run n k (Raised j) oks = (Raised (if oks = [] then j else 0), [])"
  by (induction oks arbitrary: j) auto

text \<open>
  C31. The health monitor implements its thresholds, check by check, whatever the order in which the
  results of the checks arrive: the counters and the set of alerted checks follow the two-phase
  automaton, and the alerts queued about a check are exactly the ones the automaton emits, one
  \<open>service_unhealthy\<close> when the run of failures reaches the threshold and one \<open>service_recovered\<close>
  when the run of successes after it does, none when health alerts are switched off.
\<close>

theorem health_monitor_refines:
  fixes ad :: admin_service_settings
  defines "n \<equiv> ad_health_failure_threshold ad" and "k \<equiv> ad_health_recovery_threshold ad"
  shows "health_phase_of (fst (process_all ad mo (m, s) rs)) c = fst (health_run n k (health_phase_of m c) (outcomes_of c rs))
       \<and> alerts_about c (snd (process_all ad mo (m, s) rs))
           = alerts_about c s @ (if admin_bot_health_alerts mo then snd (health_run n k (health_phase_of m c) (outcomes_of c rs)) else [])"
  using process_all_refines [of ad mo "(m, s)" rs c] by (simp add: n_def k_def)

lemma run_once_process_all:
  "run_once ad mo now results None m s
     = (case process_all ad mo (m, rollback s) (map (Pair now) results) of (m1, s1) \<Rightarrow> (m1, commit s1, None))"
  "run_once ad mo now results (Some e) m s
     = (case process_all ad mo (m, rollback s) (map (Pair now) results) of (m1, s1) \<Rightarrow> (m1, rollback s1, Some e))"
  by (simp_all add: run_once_def process_all_def foldl_map)

lemma process_durable [simp]: "durable (snd (process ad mo now (m, s) r)) = durable s"
  by (simp add: process_def Let_def)

lemma process_all_durable: "durable (snd (process_all ad mo ms rs)) = durable (snd ms)"
proof (induction rs arbitrary: ms)
  case (Cons x rs)
  then show ?case by (cases x; cases ms) simp
qed simp

text \<open>
  C32. An unhealthy alert can be lost for good. The monitor marks the check as alerted in memory before
  the transaction that holds the alert is committed: when that commit fails, nothing is stored, the
  check stays marked, and however often it goes on failing no alert about it is ever queued.
\<close>

theorem lost_health_alert:
  fixes ad :: admin_service_settings
  assumes run: "run_once ad mo now results (Some e) m s = (m1, s1, outcome)"
    and raised: "c \<notin> set (hm_alerted m)" "c \<in> set (hm_alerted m1)"
    and failing: "\<forall>ok \<in> set (outcomes_of c rs). \<not> ok"
  shows "durable s1 = durable s \<and> work s1 = durable s \<and> outcome = Some e
    \<and> alerts_about c (snd (process_all ad mo (m1, s1) rs)) = alerts_about c s1
    \<and> c \<in> set (hm_alerted (fst (process_all ad mo (m1, s1) rs)))"
proof -
  let ?rs = "map (Pair now) results"
  have s1: "s1 = rollback (snd (process_all ad mo (m, rollback s) ?rs))" "outcome = Some e"
    using run by (simp_all add: run_once_process_all case_prod_unfold)
  have "health_phase_of m1 c = Raised (hm_success_counts m1 c)" using raised by (simp add: health_phase_of_def)
  then obtain j where "health_run (ad_health_failure_threshold ad) (ad_health_recovery_threshold ad) (health_phase_of m1 c) (outcomes_of c rs) = (Raised j, [])"
    using health_run_raised_failing [OF failing] by simp
  then have "health_phase_of (fst (process_all ad mo (m1, s1) rs)) c = Raised j \<and> alerts_about c (snd (process_all ad mo (m1, s1) rs)) = alerts_about c s1"
    using process_all_refines [of ad mo "(m1, s1)" rs c] by simp
  then show ?thesis
    using process_all_durable [of ad mo "(m, rollback s)" ?rs] by (simp add: s1 health_phase_of_def split: if_splits)
qed

definition demo_service :: admin_service_settings where
  "demo_service = \<lparr>ad_health_failure_threshold = 3, ad_health_recovery_threshold = 2, ad_daily_report_enabled = True,
     ad_daily_report_time = ''23:30'', ad_health_check_interval_seconds = 60\<rparr>"

definition demo_failure :: health_result where
  "demo_failure = health_result_of ''database'' False ''SELECT 1''"

theorem lost_health_alert_witness:
  "let (m1, s1, _) = run_once demo_service demo_monitor 10 [demo_failure] (Some ''OperationalError'')
         (new_health_monitor\<lparr>hm_failure_counts := (\<lambda>_. 2)\<rparr>) demo_failed
   in alerts_about ''database'' (snd (process_all demo_service demo_monitor (m1, s1) (replicate 4 (20, demo_failure)))) = alerts_about ''database'' s1"
proof -
  let ?m = "new_health_monitor\<lparr>hm_failure_counts := (\<lambda>_. 2)\<rparr>"
  obtain m1 s1 out where run: "run_once demo_service demo_monitor 10 [demo_failure] (Some ''OperationalError'') ?m demo_failed = (m1, s1, out)"
    by (metis prod_cases3)
  have m1: "''database'' \<in> set (hm_alerted m1)"
    using run by (auto simp: run_once_def process_def demo_failure_def health_result_of_def demo_service_def new_health_monitor_def Let_def)
  have "\<forall>ok \<in> set (outcomes_of ''database'' (replicate 4 (20, demo_failure))). \<not> ok"
    by (simp add: demo_failure_def health_result_of_def outcomes_of_def)
  then show ?thesis
    unfolding run Let_def prod.case using lost_health_alert [OF run _ m1] by (simp add: new_health_monitor_def)
qed

section \<open>One report a day\<close>

definition reports_for :: "string \<Rightarrow> db \<Rightarrow> nat" where
  "reports_for date d = count_where (\<lambda>a. al_deduplication_key a = Some (report_key date)) (admin_alerts d)"

definition queue_reports :: "admin_service_settings \<Rightarrow> (time \<Rightarrow> string \<times> int \<times> int) \<Rightarrow> session \<Rightarrow> time list \<Rightarrow> session" where
  "queue_reports ad local_now = foldl (\<lambda>s now. fst (maybe_queue_daily_report ad local_now now (rollback s)))"

lemma report_key_inj [simp]: "report_key a = report_key b \<longleftrightarrow> a = b"
  by (simp add: report_key_def)

lemma record_event_daily_report [simp]:
  "record_event s pid ''daily_report_delivered'' lv data = insert_event s pid ''daily_report_delivered'' lv data"
  by (simp add: record_event_def on_audit_event_def map_event_def Let_def mismatch_reasons_def split: option.split)

lemma report_event_alerts: "admin_alerts (work (insert_event s pid ty lv data)) = admin_alerts (work s)"
  by (simp add: insert_event_def Let_def)

lemma maybe_queue_reports:
  "reports_for date (durable (fst (maybe_queue_daily_report ad local_now now (rollback s))))
     = (if reports_for date (durable s) = 0 \<and> report_due ad local_now now = Inr (Some date) then 1 else reports_for date (durable s))"
proof (cases "report_due ad local_now now")
  case (Inr due)
  show ?thesis
  proof (cases due)
    case (Some d)
    let ?queued = "list_ex (\<lambda>a. al_deduplication_key a = Some (report_key d)) (admin_alerts (durable s))"
    have queued: "?queued \<longleftrightarrow> reports_for d (durable s) \<noteq> 0"
      by (auto simp: reports_for_def count_where_def list_ex_iff filter_empty_conv)
    let ?r = "report_json (daily_report_payload (durable s) now d 24)"
    obtain a where a: "admin_alerts (work (fst (create_alert (rollback s) ''daily_report'' ''info'' None (Some (report_key d)) ?r (Some 2880) now)))
        = admin_alerts (durable s) @ [a]" and k: "al_deduplication_key a = Some (report_key d)"
      using create_alert_alerts [of "rollback s" "''daily_report''" "''info''" None "Some (report_key d)" ?r "Some 2880" now]
      by auto
    show ?thesis
    proof (cases ?queued)
      case True
      then show ?thesis using queued by (auto simp: maybe_queue_daily_report_def Inr Some)
    next
      case False
      then have "reports_for date (durable (fst (maybe_queue_daily_report ad local_now now (rollback s))))
          = reports_for date (durable s) + (if d = date then 1 else 0)"
        by (simp add: maybe_queue_daily_report_def Inr Some report_event_alerts a k reports_for_def count_where_def)
      then show ?thesis using False queued by (auto simp: Inr Some)
    qed
  qed (simp add: maybe_queue_daily_report_def Inr)
qed (simp add: maybe_queue_daily_report_def)

text \<open>
  The daily report of a date is queued exactly once. Over any sequence of ticks, each in a session
  of its own, the store holds one report of a local date if some tick found it due and there was none
  before, and otherwise as many as before; a report stored by an earlier process counts too.
\<close>

theorem daily_report_exactly_once:
  "reports_for date (durable (queue_reports ad local_now s nows))
     = (if reports_for date (durable s) = 0 \<and> list_ex (\<lambda>now. report_due ad local_now now = Inr (Some date)) nows
        then 1 else reports_for date (durable s))"
proof (induction nows arbitrary: s)
  case (Cons now nows)
  show ?case
    using Cons.IH [of "fst (maybe_queue_daily_report ad local_now now (rollback s))"] maybe_queue_reports [of date ad local_now now s]
    by (auto simp: queue_reports_def)
qed (simp add: queue_reports_def)

section \<open>Two limits for one heartbeat\<close>

text \<open>
  The commands and the health monitor judge the notification worker by different limits. With a
  worker interval above twenty seconds, a heartbeat between two minutes and six intervals old is healthy
  for the monitor, which therefore sends no alert, while \<open>/status\<close> shows the worker as down.
\<close>

theorem heartbeat_limits_disagree:
  assumes age: "worker_heartbeat_age_seconds (ce_heartbeats ce) (ce_now ce) = Some a"
    and between: "120 \<le> a" "a < 6 * bot_notify_worker_interval_seconds mo"
  shows "(\<exists>r \<in> set (run_health_checks mo api database_ok (ce_heartbeats ce) d (ce_now ce)). hr_check r = ''worker_heartbeat'' \<and> hr_ok r)
    \<and> (\<exists>v. cmd_status cfg fmt_time ce d = Status_Reply v \<and> \<not> sv_worker_ok v)"
  using assms by (simp add: run_health_checks_def health_result_of_def cmd_status_def Let_def mult.commute)

theorem heartbeat_limits_disagree_witness:
  "(let ce = demo_env\<lparr>ce_now := 1000, ce_heartbeats := [\<lparr>hb_id = 1, hb_worker_name = ''notification-worker'', hb_instance_id = ''w'',
           hb_last_heartbeat_at = 850, hb_last_cycle_at = None, hb_last_error_code = None, hb_version = None\<rparr>]\<rparr>
    in \<exists>v. cmd_status demo_settings (\<lambda>_. ''t'') ce (durable demo_failed) = Status_Reply v \<and> \<not> sv_worker_ok v)"
proof -
  let ?ce = "demo_env\<lparr>ce_now := 1000, ce_heartbeats := [\<lparr>hb_id = 1, hb_worker_name = ''notification-worker'', hb_instance_id = ''w'',
           hb_last_heartbeat_at = 850, hb_last_cycle_at = None, hb_last_error_code = None, hb_version = None\<rparr>]\<rparr>"
  have "worker_heartbeat_age_seconds (ce_heartbeats ?ce) (ce_now ?ce) = Some 150"
    by (simp add: worker_heartbeat_age_seconds_def latest_worker_heartbeat_def first_by_def)
  then show ?thesis
    unfolding Let_def by (rule heartbeat_limits_disagree [of ?ce 150 "demo_monitor\<lparr>bot_notify_worker_interval_seconds := 30\<rparr>", THEN conjunct2]) simp_all
qed

section \<open>Strangers\<close>

lemma deliver_attempts_sends:
  "Sent msg ok \<in> set (fst (deliver_attempts send k chunk attempts budget)) \<Longrightarrow> msg = Chunk chunk"
proof (induction attempts arbitrary: k budget)
  case (Cons attempt attempts)
  have ih: "msg = Chunk chunk" if "deliver_attempts send k' chunk attempts b' = (actions, r)" "Sent msg ok \<in> set actions" for k' b' actions r
    using Cons.IH [of k' b'] that by simp
  show ?case using Cons.prems by (auto simp: Let_def dest: ih split: option.splits if_splits prod.splits)
qed simp

lemma deliver_chunks_sends:
  "Sent msg ok \<in> set (deliver_chunks send k chunks budget) \<Longrightarrow> msg \<in> Chunk ` set chunks \<union> {Incomplete_Warning}"
proof (induction send k chunks budget rule: deliver_chunks.induct)
  case (2 send k chunk chunks budget)
  obtain actions k' result b where one: "deliver_one_chunk send k chunk budget = (actions, k', result, b)" by (metis prod_cases4)
  have "msg = Chunk chunk" if "Sent msg ok \<in> set actions"
    using that one deliver_attempts_sends [of msg ok send k chunk _ budget] by (metis deliver_one_chunk_def fst_conv)
  moreover have "msg = Incomplete_Warning" if "Sent msg ok \<in> set (send_incomplete_warning send k')"
    using that by (simp add: send_incomplete_warning_def)
  ultimately show ?case using 2 by (auto simp: one split: if_splits)
qed simp

text \<open>
  A stranger learns and changes nothing. Whatever a sender who is not an administrator writes, or
  an administrator writes outside a private chat, the payments, fee policies and payer identities stay
  as they are, and the only texts the chat can receive are the fixed refusal and the fixed warning of an
  incomplete reply; the attempt is recorded when the text was a command.
\<close>

theorem stranger_sees_denial_only:
  assumes "message = Some m" and "build_update_context message = Some ctx" and "\<not> is_authorized admin_ids ctx"
  shows "\<exists>s' actions. on_message cfg mo ct lay_out ce admin_ids send s message = Some (s', actions)
     \<and> payments (durable s') = payments (durable s) \<and> fee_policies (durable s') = fee_policies (durable s)
     \<and> payer_identities (durable s') = payer_identities (durable s)
     \<and> (\<forall>msg ok. Sent msg ok \<in> set actions \<longrightarrow> msg = Chunk GENERIC_DENIAL \<or> msg = Incomplete_Warning)
     \<and> (\<forall>body. tm_text m = Some body \<and> parse_command body \<noteq> None \<and> body \<noteq> [] \<longrightarrow> has_event s' None ''admin_bot_unauthorized_access'')"
proof (cases "\<exists>body command args. tm_text m = Some body \<and> body \<noteq> [] \<and> parse_command body = Some (command, args)")
  case True
  then obtain body command args where body: "tm_text m = Some body" "body \<noteq> []" "parse_command body = Some (command, args)" by blast
  obtain s' where s': "handle cfg mo ct ce admin_ids s ctx command args = Some (s', Denial_Reply)"
      "payments (durable s') = payments (durable s)" "fee_policies (durable s') = fee_policies (durable s)"
      "payer_identities (durable s') = payer_identities (durable s)" "has_event s' None ''admin_bot_unauthorized_access''"
    using unauthorized_command_inert [OF assms(3)] by blast
  have "on_message cfg mo ct lay_out ce admin_ids send s message = Some (s', deliver_reply_chunks send [GENERIC_DENIAL])"
    unfolding on_message_def assms(2) by (simp add: assms(1) body s'(1) reply_chunks_def)
  moreover have "msg = Chunk GENERIC_DENIAL \<or> msg = Incomplete_Warning" if "Sent msg ok \<in> set (deliver_reply_chunks send [GENERIC_DENIAL])" for msg ok
    using deliver_chunks_sends [OF that [unfolded deliver_reply_chunks_def]] by auto
  ultimately show ?thesis using s' by blast
next
  case False
  have "on_message cfg mo ct lay_out ce admin_ids send s message = Some (s, [])"
    using False unfolding on_message_def assms(2) by (auto simp: assms(1) split: option.splits)
  then show ?thesis using False by auto
qed

theorem stranger_sees_denial_only_witness:
  "\<exists>s' actions. on_message demo_settings demo_monitor demo_texts (\<lambda>_. []) demo_env [7] flaky demo_failed
       (Some \<lparr>tm_text = Some ''/resend_failed confirm'', tm_user = Some (8, None), tm_chat = Some (8, ''private'')\<rparr>) = Some (s', actions)
     \<and> payments (durable s') = payments (durable demo_failed)"
proof -
  let ?m = "\<lparr>tm_text = Some ''/resend_failed confirm'', tm_user = Some (8, None), tm_chat = Some (8, ''private'')\<rparr>"
  let ?ctx = "\<lparr>uc_user_id = Some 8, uc_chat_id = Some 8, uc_chat_type = Some ''private'', uc_username = None\<rparr>"
  have "build_update_context (Some ?m) = Some ?ctx" by (simp add: build_update_context_def)
  moreover have "\<not> is_authorized [7] ?ctx" by (simp add: is_authorized_def)
  ultimately show ?thesis using stranger_sees_denial_only [OF refl, of ?m ?ctx "[7]"] by blast
qed

end
