(* ===== verification/Cli.thy ===== *)
theory Cli
  imports Recovery Operator Monitor_Incidents Admin_Privacy
begin

text \<open>
  The inspection commands of the command line (\<open>app/cli.py\<close>): what each prints, as JSON or as a report, and
  its exit code. Nothing but a confirmed recovery writes. Shown: the output never depends on the columns that
  hold secrets, and the \<open>stuck\<close> report is honest about what it leaves out.

  A printed line is a JSON object or a text; what goes to stderr is kept apart. The interpreter's own
  renderings are arguments (\<open>cli_format\<close>): the ISO text and the wall clock of an instant, the text of a
  float and of a JSON value, and each word or sign outside ASCII, by an ASCII name. The column \<open>updated_at\<close>, which
  these commands only print, is an argument too. A closed pipe on stdout is left out.
\<close>

datatype out_line = Json jdict | Line string | Stderr string

record cli_format =
  cf_sym :: "string \<Rightarrow> string"
  cf_iso :: "time \<Rightarrow> string"
  cf_hms :: "time \<Rightarrow> string"
  cf_float :: "rat \<Rightarrow> string"
  cf_value :: "json \<Rightarrow> string"
  cf_window_hours :: "int \<Rightarrow> string"
  cf_updated_at :: "int \<Rightarrow> time"

definition jopt_time :: "time option \<Rightarrow> json" where
  "jopt_time v = (case v of None \<Rightarrow> JNull | Some t \<Rightarrow> JTime t)"

definition jopt_float :: "rat option \<Rightarrow> json" where
  "jopt_float v = (case v of None \<Rightarrow> JNull | Some x \<Rightarrow> JFloat (Some x))"

definition jopt_bool :: "bool option \<Rightarrow> json" where
  "jopt_bool v = (case v of None \<Rightarrow> JNull | Some b \<Rightarrow> JBool b)"

definition jnat :: "nat \<Rightarrow> json" where
  "jnat n = JInt (int n)"

definition yes_no :: "bool \<Rightarrow> string" where
  "yes_no b = (if b then ''yes'' else ''no'')"

section \<open>Listings\<close>

definition payment_summary :: "cli_format \<Rightarrow> payment \<Rightarrow> jdict" where
  "payment_summary fm p =
     [(''bot_order_id'', JStr (p_bot_order_id p)), (''gateway_order_id'', JInt (p_gateway_order_id p)),
      (''status'', JStr (status_value (p_status p))), (''original_bot_invoice'', JInt (p_amount p)), (''amount'', JInt (p_amount p)),
      (''fee_rate_bps'', JInt (p_fee_rate_bps p)), (''fee_amount'', JInt (p_fee_amount p)),
      (''paid_through_gateway'', JInt (p_payable_amount p)),
      (''gateway_verified'', JBool (p_gateway_verified_at p \<noteq> None)), (''gateway_verified_at'', jopt_time (p_gateway_verified_at p)),
      (''reference_id'', jopt_str (p_reference_id p)),
      (''bot_notify_reason'', jopt_str (map_option reason_value (p_bot_notify_reason p))),
      (''bot_notify_attempts'', JInt (p_bot_notify_attempts p)), (''bot_last_http_status'', jopt_int (p_bot_last_http_status p)),
      (''bot_last_error_code'', jopt_str (p_bot_last_error_code p)), (''next_retry_at'', jopt_time (p_next_retry_at p)),
      (''bot_notify_started_at'', jopt_time (p_bot_notify_started_at p)), (''bot_notify_accepted_at'', jopt_time (p_bot_notify_accepted_at p)),
      (''manual_review_at'', jopt_time (p_manual_review_at p)), (''review_acknowledged_at'', jopt_time (p_review_acknowledged_at p)),
      (''review_resolved_at'', jopt_time (p_review_resolved_at p)), (''review_resolution'', jopt_str (p_review_resolution p)),
      (''attention_resolved_at'', jopt_time (p_attention_resolved_at p)), (''attention_resolution'', jopt_str (p_attention_resolution p)),
      (''attention_resolved_by'', jopt_str (p_attention_resolved_by p)), (''attention_resolution_note'', jopt_str (p_attention_resolution_note p)),
      (''created_at'', JTime (p_created_at p)), (''updated_at'', JTime (cf_updated_at fm (p_id p)))]"

definition summaries :: "cli_format \<Rightarrow> payment list \<Rightarrow> out_line list \<times> command_result" where
  "summaries fm ps = (map (Json \<circ> payment_summary fm) ps, Exit 0)"

text \<open>PostgreSQL refuses a negative \<open>LIMIT\<close> and the driver a number beyond \<open>BIGINT\<close>.\<close>

definition bad_limit :: "int \<Rightarrow> bool" where
  "bad_limit n \<longleftrightarrow> n < 0 \<or> n > POSTGRES_BIGINT_MAX"

definition cli_recent :: "cli_format \<Rightarrow> db \<Rightarrow> int \<Rightarrow> out_line list \<times> command_result" where
  "cli_recent fm d limit =
     (if bad_limit limit then ([], Uncaught ''DataError'')
      else summaries fm (first_n_by (\<lambda>p. - p_created_at p) (nat limit) (payments d)))"

definition lookup_failure :: "string \<Rightarrow> string \<Rightarrow> out_line list \<times> command_result" where
  "lookup_failure code order_id = ([Json [(''error'', JStr code), (''order_id'', JStr order_id)]], Exit 1)"

definition not_found :: "string \<Rightarrow> out_line list \<times> command_result" where
  "not_found order_id = lookup_failure ''payment_not_found'' order_id"

definition lookup_error_output :: "string \<Rightarrow> lookup_error \<Rightarrow> out_line list \<times> command_result" where
  "lookup_error_output order_id e =
     (case e of
        AmbiguousOrderIdError \<Rightarrow> lookup_failure ''ambiguous_order_id'' order_id
      | OrderIdValueError \<Rightarrow> ([], Uncaught ''ValueError''))"

definition event_line :: "payment_event \<Rightarrow> jdict" where
  "event_line e =
     [(''event_type'', JStr (ev_event_type e)), (''level'', JStr (ev_level e)), (''request_id'', jopt_str (ev_request_id e)),
      (''created_at'', JTime (ev_created_at e)), (''data'', JObj (ev_data e))]"

definition cli_payment :: "cli_format \<Rightarrow> db \<Rightarrow> string \<Rightarrow> out_line list \<times> command_result" where
  "cli_payment fm d order_id =
     (case find_payment_by_order_id d order_id of
        Inl e \<Rightarrow> lookup_error_output order_id e
      | Inr None \<Rightarrow> not_found order_id
      | Inr (Some p) \<Rightarrow>
          (Json (payment_summary fm p)
           # map (Json \<circ> event_line) (sort_key ev_id (filter (\<lambda>e. ev_payment_id e = Some (p_id p)) (payment_events d))), Exit 0))"

definition cli_retry_queue :: "cli_format \<Rightarrow> db \<Rightarrow> out_line list \<times> command_result" where
  "cli_retry_queue fm d =
     summaries fm (sort_key (\<lambda>p. nulls_last (p_next_retry_at p)) (filter (\<lambda>p. p_status p = BOT_NOTIFY_PENDING) (payments d)))"

definition cli_manual_review :: "cli_format \<Rightarrow> db \<Rightarrow> bool \<Rightarrow> out_line list \<times> command_result" where
  "cli_manual_review fm d include_resolved =
     summaries fm (sort_key (\<lambda>p. nulls_last (p_manual_review_at p))
       (filter (if include_resolved then manual_review_history_conditions else open_manual_review_conditions) (payments d)))"

section \<open>Stuck payments\<close>

definition STUCK_DISPLAY_LIMIT_MAX :: int where
  "STUCK_DISPLAY_LIMIT_MAX = 200"

fun stuck_category_value :: "stuck_category \<Rightarrow> string" where
  "stuck_category_value NEEDS_ATTENTION = ''needs_attention''"
| "stuck_category_value WAITING_GATEWAY = ''waiting_gateway''"
| "stuck_category_value EXPIRED = ''expired''"

fun STUCK_CATEGORY_EMOJI :: "stuck_category \<Rightarrow> string" where
  "STUCK_CATEGORY_EMOJI NEEDS_ATTENTION = ''red''"
| "STUCK_CATEGORY_EMOJI WAITING_GATEWAY = ''yellow''"
| "STUCK_CATEGORY_EMOJI EXPIRED = ''black''"

fun STUCK_CATEGORY_LABEL :: "stuck_category \<Rightarrow> string" where
  "STUCK_CATEGORY_LABEL NEEDS_ATTENTION = ''Need attention''"
| "STUCK_CATEGORY_LABEL WAITING_GATEWAY = ''Waiting gateway''"
| "STUCK_CATEGORY_LABEL EXPIRED = ''Expired links''"

definition age_anchor :: "payment \<Rightarrow> time" where
  "age_anchor p = coalesce (p_callback_token_issued_at p) (p_created_at p)"

definition plural :: "string \<Rightarrow> int \<Rightarrow> string" where
  "plural unit n = show_int n @ '' '' @ unit @ (if n \<noteq> 1 then ''s'' else [])"

definition humanize_duration :: "rat \<Rightarrow> string" where
  "humanize_duration seconds =
     (let minutes = \<lfloor>max seconds 0 / 60\<rfloor>
      in if minutes < 1 then ''less than a minute''
         else if minutes < 60 then plural ''minute'' minutes
         else let hours = minutes div 60; remaining_minutes = minutes mod 60
              in if remaining_minutes \<noteq> 0 then show_int hours @ ''h '' @ show_int remaining_minutes @ ''m''
                 else plural ''hour'' hours)"

definition humanize_ago :: "time option \<Rightarrow> time \<Rightarrow> string option" where
  "humanize_ago v now = map_option (\<lambda>t. humanize_duration (now - t) @ '' ago'') v"

definition entry_attempts :: "payment \<Rightarrow> int" where
  "entry_attempts p = (if p_status p = LINK_CREATED then p_reconciliation_attempts p else p_bot_notify_attempts p)"

definition entry_next_retry :: "payment \<Rightarrow> time option" where
  "entry_next_retry p = (if p_status p = LINK_CREATED then p_reconciliation_next_at p else p_next_retry_at p)"

definition stuck_entry_dict :: "overview_entry \<Rightarrow> time \<Rightarrow> jdict" where
  "stuck_entry_dict e now =
     (let p = oe_payment e
      in [(''category'', JStr (stuck_category_value (oe_category e))), (''reason'', JStr (oe_reason e)),
          (''order'', JStr (p_bot_order_id p)), (''gateway_order_id'', JInt (p_gateway_order_id p)), (''amount'', JInt (p_amount p)),
          (''age_seconds'', JInt (py_trunc (now - age_anchor p))), (''status'', JStr (status_value (p_status p))),
          (''gateway_state'', jopt_str (oe_gateway_state e)), (''attempts'', JInt (entry_attempts p)),
          (''last_check_at'', if p_status p = LINK_CREATED then jopt_time (p_reconciliation_last_at p) else JNull),
          (''next_retry_at'', jopt_time (entry_next_retry p))])"

definition stuck_entry_lines :: "cli_format \<Rightarrow> nat \<Rightarrow> overview_entry \<Rightarrow> time \<Rightarrow> string list" where
  "stuck_entry_lines fm index e now =
     (let p = oe_payment e; attempts = entry_attempts p;
          lines =
            [show_nat index @ '') '' @ cf_sym fm (STUCK_CATEGORY_EMOJI (oe_category e)) @ '' '' @ STUCK_CATEGORY_LABEL (oe_category e), [],
             ''Order:'', p_bot_order_id p, [],
             ''Amount:'', fmt_int (p_amount p) @ '' '' @ cf_sym fm ''toman'', [],
             ''Age:'', humanize_duration (now - age_anchor p), [],
             ''Status:'', status_value (p_status p), []]
          @ (case oe_gateway_state e of None \<Rightarrow> [] | Some g \<Rightarrow> [''Gateway:'', g, []])
          @ (if attempts \<noteq> 0 then [''Attempts:'', show_int attempts, []] else [])
          @ (case (if p_status p = LINK_CREATED then humanize_ago (p_reconciliation_last_at p) now else None) of
               None \<Rightarrow> [] | Some l \<Rightarrow> [''Last check:'', l, []])
          @ (case entry_next_retry p of None \<Rightarrow> [] | Some t \<Rightarrow> [''Next retry:'', cf_hms fm t, []])
          @ (if oe_category e = NEEDS_ATTENTION then [''Reason:'', oe_reason e, []]
             else if oe_category e = WAITING_GATEWAY \<and> attempts = 0 then [''No action needed'', []] else [])
      in rev (dropWhile (\<lambda>l. l = []) (rev lines)))"

definition so_total :: "stuck_overview \<Rightarrow> nat" where
  "so_total ov = so_total_needs_attention ov + so_total_waiting_gateway ov + so_total_expired ov"

definition stuck_summary_dict :: "stuck_overview \<Rightarrow> nat \<Rightarrow> jdict" where
  "stuck_summary_dict ov shown_count =
     [(''needs_attention'', jnat (so_total_needs_attention ov)), (''waiting_gateway'', jnat (so_total_waiting_gateway ov)),
      (''expired'', jnat (so_total_expired ov)), (''shown'', jnat shown_count), (''total'', jnat (so_total ov)),
      (''materialized_total'', jnat (length (so_ordered ov))), (''truncated'', JBool (shown_count < so_total ov))]"

definition can_raise_limit :: "nat \<Rightarrow> nat \<Rightarrow> bool" where
  "can_raise_limit ordered_count shown_count \<longleftrightarrow> ordered_count > shown_count \<and> int shown_count < STUCK_DISPLAY_LIMIT_MAX"

definition raise_limit_note :: "nat \<Rightarrow> string" where
  "raise_limit_note remaining = ''... '' @ show_nat remaining @ '' more not shown (raise --limit to see more)''"

definition capped_note :: "nat \<Rightarrow> string" where
  "capped_note remaining =
     ''... '' @ show_nat remaining @ '' more not shown. `--limit` is capped at '' @ show_int STUCK_DISPLAY_LIMIT_MAX
     @ '' and each category materializes at most '' @ show_int STUCK_DISPLAY_LIMIT_MAX
     @ '' rows, so it cannot reveal them; the summary counts above are still exact. Use `centralpay ''
     @ ''reconciliation status`, or the admin bot's /waiting and /expired, to page through one category.''"

definition print_stuck_truncation_note :: "stuck_overview \<Rightarrow> nat \<Rightarrow> nat \<Rightarrow> out_line list" where
  "print_stuck_truncation_note ov ordered_count shown_count =
     (let total = so_total ov; remaining = total - shown_count
      in if total \<le> shown_count then []
         else if can_raise_limit ordered_count shown_count then [Line [], Line (raise_limit_note remaining)]
         else [Line [], Line (capped_note remaining)])"

definition stuck_limit :: "int \<Rightarrow> nat" where
  "stuck_limit limit = nat (max 1 (min limit STUCK_DISPLAY_LIMIT_MAX))"

definition stuck_shown :: "stuck_overview \<Rightarrow> int \<Rightarrow> overview_entry list" where
  "stuck_shown ov limit = take (stuck_limit limit) (so_ordered ov)"

text \<open>\<open>queried\<close> is the clock of the query, \<open>now\<close> the clock read after it.\<close>

definition cli_stuck :: "cli_format \<Rightarrow> settings \<Rightarrow> db \<Rightarrow> time \<Rightarrow> time \<Rightarrow> int \<Rightarrow> bool \<Rightarrow> out_line list \<times> command_result" where
  "cli_stuck fm cfg d queried now limit as_json =
     (let ov = stuck_payments_overview d cfg queried; ordered = so_ordered ov; shown = stuck_shown ov limit
      in (if as_json then
            Json ((''type'', JStr ''summary'') # stuck_summary_dict ov (length shown))
            # map (\<lambda>e. Json ((''type'', JStr ''entry'') # stuck_entry_dict e now)) shown
          else
            [Line (cf_sym fm ''siren'' @ '' Stuck Payments''), Line [], Line ''Summary:'', Line ''----------------'',
             Line (cf_sym fm ''red'' @ '' Need attention: '' @ show_nat (so_total_needs_attention ov)),
             Line (cf_sym fm ''yellow'' @ '' Waiting gateway: '' @ show_nat (so_total_waiting_gateway ov)),
             Line (cf_sym fm ''black'' @ '' Expired links: '' @ show_nat (so_total_expired ov)), Line []]
            @ (if shown = [] then [Line [], Line ''Nothing needs attention.'']
               else concat (map (\<lambda>(i, e). Line [] # map Line (stuck_entry_lines fm i e now)) (enumerate 1 shown))
                    @ print_stuck_truncation_note ov (length ordered) (length shown)),
          Exit 0))"

section \<open>Reconciliation status\<close>

text \<open>\<open>f"{value:.0f}"\<close> rounds half to even.\<close>

definition round_half_even :: "rat \<Rightarrow> int" where
  "round_half_even x =
     (let f = \<lfloor>x\<rfloor>; r = x - of_int f in if r < 1 / 2 then f else if r > 1 / 2 then f + 1 else if even f then f else f + 1)"

definition fmt_seconds :: "cli_format \<Rightarrow> rat option \<Rightarrow> string" where
  "fmt_seconds fm v = (case v of None \<Rightarrow> cf_sym fm ''em dash'' | Some x \<Rightarrow> show_int (round_half_even x) @ ''s'')"

definition fmt_bool_na :: "bool option \<Rightarrow> string" where
  "fmt_bool_na v = (case v of None \<Rightarrow> ''n/a'' | Some b \<Rightarrow> yes_no b)"

fun config_source_value :: "config_source \<Rightarrow> string" where
  "config_source_value CONFIG_SOURCE_WORKER_CONTAINER = ''worker_container_process_env''"
| "config_source_value CONFIG_SOURCE_UNCONFIRMED = ''process_environment''"

definition reconciliation_status_dict :: "reconciliation_status_snapshot \<Rightarrow> jdict" where
  "reconciliation_status_dict s =
     (let rt = ss_runtime s; rc = ss_config s; pb = ss_buckets s; qh = ss_queue s; rcs = ss_recent s
      in [(''generated_at'', JTime (ss_generated_at s)),
          (''runtime'', JObj
            [(''enabled'', JBool (rt_enabled rt)), (''config_source'', JStr (config_source_value (rt_config_source rt))),
             (''heartbeat_present'', JBool (rt_heartbeat_present rt)),
             (''heartbeat_age_seconds'', jopt_float (rt_heartbeat_age_seconds rt)), (''heartbeat_fresh'', jopt_bool (rt_heartbeat_fresh rt)),
             (''last_successful_cycle_at'', jopt_time (rt_last_successful_cycle_at rt)),
             (''last_successful_cycle_age_seconds'', jopt_float (rt_last_successful_cycle_age_seconds rt)),
             (''last_error_code'', jopt_str (rt_last_error_code rt))]),
          (''config'', JObj
            [(''min_age_seconds'', JInt (rc_min_age_seconds rc)), (''fast_window_seconds'', JInt (rc_fast_window_seconds rc)),
             (''max_age_seconds'', JInt (rc_max_age_seconds rc)), (''fast_interval_seconds'', JInt (rc_fast_interval_seconds rc)),
             (''slow_interval_seconds'', JInt (rc_slow_interval_seconds rc)),
             (''scan_interval_seconds'', JFloat (Some (rc_scan_interval_seconds rc))), (''batch_size'', JInt (rc_batch_size rc)),
             (''max_attempts'', JInt (rc_max_attempts rc)), (''slow_tier_reserved_slots'', JInt (rc_slow_tier_reserved_slots rc))]),
          (''buckets'', JObj
            [(''total_unverified'', jnat (pb_total_unverified pb)), (''active'', jnat (pb_active pb)), (''expiring'', jnat (pb_expiring pb)),
             (''aged_out'', jnat (pb_aged_out pb))]),
          (''queue'', JObj
            [(''active_due'', jnat (qh_active_due qh)), (''expiring_due'', jnat (qh_expiring_due qh)),
             (''exhausted_not_aged_out'', jnat (qh_exhausted_not_aged_out qh)), (''exhausted_recent'', jnat (qh_exhausted_recent qh)),
             (''exhausted_actionable_total'', jnat (qh_exhausted_actionable_total qh)),
             (''exhausted_historical_total'', jnat (qh_exhausted_historical_total qh)),
             (''oldest_active_due_age_seconds'', jopt_float (qh_oldest_active_due_age_seconds qh)),
             (''oldest_expiring_due_age_seconds'', jopt_float (qh_oldest_expiring_due_age_seconds qh)),
             (''oldest_due_age_seconds'', jopt_float (qh_oldest_due_age_seconds qh)),
             (''oldest_overdue_seconds'', jopt_float (qh_oldest_overdue_seconds qh))]),
          (''recent'', JObj
            [(''window_hours'', JInt (rcs_window_hours rcs)), (''verified'', jnat (rcs_verified rcs)),
             (''retry_scheduled'', jnat (rcs_retry_scheduled rcs)), (''gateway_not_paid'', jnat (rcs_gateway_not_paid rcs)),
             (''transport_failed'', jnat (rcs_transport_failed rcs)), (''exhausted'', jnat (rcs_exhausted rcs))])])"

definition heartbeat_line :: "cli_format \<Rightarrow> reconciliation_runtime \<Rightarrow> string" where
  "heartbeat_line fm rt =
     (if rt_heartbeat_present rt then
        ''present, age '' @ fmt_seconds fm (rt_heartbeat_age_seconds rt) @ '', fresh: '' @ fmt_bool_na (rt_heartbeat_fresh rt)
      else if \<not> rt_enabled rt then ''none recorded (reconciliation disabled)''
      else ''MISSING '' @ cf_sym fm ''em dash'' @ '' reconciliation is enabled but has never heartbeated'')"

definition last_cycle_line :: "cli_format \<Rightarrow> reconciliation_runtime \<Rightarrow> string" where
  "last_cycle_line fm rt =
     (case rt_last_successful_cycle_at rt of
        None \<Rightarrow> ''never recorded''
      | Some t \<Rightarrow> cf_iso fm t @ '' ('' @ fmt_seconds fm (rt_last_successful_cycle_age_seconds rt) @ '' ago)'')"

text \<open>\<open>window\<close> is \<open>monitor_reconciliation_exhausted_recent_window_seconds\<close>.\<close>

definition print_reconciliation_status_human :: "cli_format \<Rightarrow> int \<Rightarrow> reconciliation_status_snapshot \<Rightarrow> out_line list" where
  "print_reconciliation_status_human fm window s =
     (let rt = ss_runtime s; rc = ss_config s; pb = ss_buckets s; qh = ss_queue s; rcs = ss_recent s
      in map Line (
          [cf_sym fm ''arrows'' @ '' Reconciliation Status'', ''========================'',
           ''(config source: '' @ (if rt_config_source rt = CONFIG_SOURCE_WORKER_CONTAINER then ''running worker container''
              else ''this process's environment (NOT confirmed to be the worker container)'') @ '')'', [],
           ''Runtime:'',
           ''  enabled:                  '' @ yes_no (rt_enabled rt),
           ''  heartbeat:                '' @ heartbeat_line fm rt,
           ''  last successful pass:     '' @ last_cycle_line fm rt]
         @ (case str_or (rt_last_error_code rt) None of None \<Rightarrow> [] | Some e \<Rightarrow> [''  last pass error:          '' @ e])
         @ [[], ''Effective configuration:'',
            ''  min_age:                  '' @ show_int (rc_min_age_seconds rc) @ ''s'',
            ''  active window:            < '' @ show_int (rc_fast_window_seconds rc) @ ''s'',
            ''  expiring window:          '' @ show_int (rc_fast_window_seconds rc) @ ''s - '' @ show_int (rc_max_age_seconds rc) @ ''s'',
            ''  max_age:                  '' @ show_int (rc_max_age_seconds rc) @ ''s'',
            ''  fast_interval:            '' @ show_int (rc_fast_interval_seconds rc) @ ''s'',
            ''  slow_interval:            '' @ show_int (rc_slow_interval_seconds rc) @ ''s'',
            ''  scan_interval:            '' @ cf_float fm (rc_scan_interval_seconds rc) @ ''s'',
            ''  batch_size:               '' @ show_int (rc_batch_size rc),
            ''  max_attempts:             '' @ show_int (rc_max_attempts rc),
            ''  slow_tier_reserved_slots: '' @ show_int (rc_slow_tier_reserved_slots rc), [],
            ''Payment buckets (link_created, unverified):'',
            ''  total:                    '' @ show_nat (pb_total_unverified pb),
            ''  active:                   '' @ show_nat (pb_active pb),
            ''  expiring:                 '' @ show_nat (pb_expiring pb),
            ''  aged_out:                 '' @ show_nat (pb_aged_out pb), [],
            ''Queue health (due now):'',
            ''  active_due:               '' @ show_nat (qh_active_due qh),
            ''  expiring_due:             '' @ show_nat (qh_expiring_due qh),
            ''  exhausted (within auto-reconciliation lifetime): '' @ show_nat (qh_exhausted_not_aged_out qh),
            ''  exhausted (recent, last '' @ cf_window_hours fm window @ ''h): '' @ show_nat (qh_exhausted_recent qh),
            ''  exhausted (actionable total -- union of the above two, drives monitor CRITICAL): ''
              @ show_nat (qh_exhausted_actionable_total qh),
            ''  exhausted (historical total, all-time, informational only): '' @ show_nat (qh_exhausted_historical_total qh),
            ''  oldest active due age:    '' @ fmt_seconds fm (qh_oldest_active_due_age_seconds qh),
            ''  oldest expiring due age:  '' @ fmt_seconds fm (qh_oldest_expiring_due_age_seconds qh),
            ''  oldest due age (overall): '' @ fmt_seconds fm (qh_oldest_due_age_seconds qh), [],
            ''Recent activity (last '' @ show_int (rcs_window_hours rcs) @ ''h):'',
            ''  verified:                 '' @ show_nat (rcs_verified rcs),
            ''  retry_scheduled:          '' @ show_nat (rcs_retry_scheduled rcs) @ ''  (normal polling)'',
            ''  gateway_not_paid:         '' @ show_nat (rcs_gateway_not_paid rcs) @ ''  (informational '' @ cf_sym fm ''em dash''
              @ '' gateway not yet confirming payment)'',
            ''  transport_failed:         '' @ show_nat (rcs_transport_failed rcs) @ ''  (attention)'',
            ''  exhausted:                '' @ show_nat (rcs_exhausted rcs) @ ''  (attention)'']))"

definition cli_reconciliation_status ::
  "cli_format \<Rightarrow> settings \<Rightarrow> int \<Rightarrow> db \<Rightarrow> worker_heartbeat list \<Rightarrow> time option \<Rightarrow> time \<Rightarrow> bool \<Rightarrow> out_line list \<times> command_result" where
  "cli_reconciliation_status fm cfg window d rows file_age now as_json =
     (let s = build_reconciliation_status_snapshot d cfg window rows file_age now 24
      in (if as_json then [Json (reconciliation_status_dict s)] else print_reconciliation_status_human fm window s, Exit 0))"

section \<open>Reconcile\<close>

definition NO_LOCAL_CHANGES_LINE :: string where
  "NO_LOCAL_CHANGES_LINE = ''NO LOCAL CHANGES WERE MADE.''"

fun verify_refusal_value :: "verify_refusal \<Rightarrow> string" where
  "verify_refusal_value DIAGNOSTIC_VERIFY_DISABLED = ''diagnostic_verify_not_enabled''"
| "verify_refusal_value VR_ALREADY_VERIFIED = ''already_gateway_verified''"
| "verify_refusal_value VR_MANUAL_REVIEW_OWNED = ''manual_review_owned''"
| "verify_refusal_value VR_AGED_OUT = ''aged_out''"

fun VERIFY_REFUSAL_MESSAGE :: "verify_refusal \<Rightarrow> string" where
  "VERIFY_REFUSAL_MESSAGE DIAGNOSTIC_VERIFY_DISABLED =
     ''Refusing to verify: diagnostic gateway verification is disabled (CENTRALPAY_DIAGNOSTIC_VERIFY_ENABLED=false). Real CentralPay ''
     @ ''verify.php verify-after-verify/idempotency behavior has not been confirmed against the production gateway (see ''
     @ ''STAGING_VALIDATION.md); enable only after that staging validation closes. No gateway call was made.''"
| "VERIFY_REFUSAL_MESSAGE VR_ALREADY_VERIFIED =
     ''Refusing to re-verify: local state already denotes successful gateway verification (verified status or ''
     @ ''gateway_verified_at). No gateway call was made.''"
| "VERIFY_REFUSAL_MESSAGE VR_MANUAL_REVIEW_OWNED =
     ''Refusing to verify: this payment is in manual_review -- an administrator already owns it. No gateway call was made.''"
| "VERIFY_REFUSAL_MESSAGE VR_AGED_OUT =
     ''Refusing to verify: this payment's link is aged out (>= RECONCILIATION_MAX_AGE_SECONDS old) and unverified. Pass ''
     @ ''--verify --confirm-aged-out to force one diagnostic gateway query anyway. No gateway call was made.''"

fun age_bucket_value :: "age_bucket \<Rightarrow> string" where
  "age_bucket_value Bucket_Active = ''active''"
| "age_bucket_value Bucket_Expiring = ''expiring''"
| "age_bucket_value Bucket_Aged_Out = ''aged_out''"

definition reconcile_local_dict :: "payment \<Rightarrow> local_snapshot \<Rightarrow> jdict" where
  "reconcile_local_dict p loc =
     [(''bot_order_id'', JStr (p_bot_order_id p)), (''gateway_order_id'', JInt (p_gateway_order_id p)),
      (''status'', JStr (status_value (p_status p))), (''gateway_verified'', JBool (ls_is_gateway_verified loc)),
      (''gateway_verified_at'', jopt_time (p_gateway_verified_at p)), (''original_amount'', JInt (p_amount p)),
      (''fee_rate_bps'', JInt (p_fee_rate_bps p)), (''fee_amount'', JInt (p_fee_amount p)), (''payable_amount'', JInt (p_payable_amount p)),
      (''link_age_seconds'', JFloat (Some (ls_link_age_seconds loc))),
      (''reconciliation'', JObj
        [(''age_bucket'', jopt_str (map_option age_bucket_value (ls_age_bucket loc))), (''attempts'', JInt (p_reconciliation_attempts p)),
         (''last_at'', jopt_time (p_reconciliation_last_at p)), (''next_at'', jopt_time (p_reconciliation_next_at p)),
         (''last_error_code'', jopt_str (p_reconciliation_last_error_code p)), (''enabled'', JBool (ls_reconciliation_enabled loc)),
         (''schedule_due'', JBool (ls_schedule_due loc)), (''auto_reconciliation_due'', JBool (ls_auto_reconciliation_due loc)),
         (''aged_out'', JBool (ls_age_bucket loc = Some Bucket_Aged_Out)), (''attempts_exhausted'', JBool (ls_attempts_exhausted loc))]),
      (''verify_aged_out'', JBool (ls_verify_aged_out loc))]"

definition toman :: "cli_format \<Rightarrow> int \<Rightarrow> string" where
  "toman fm n = fmt_int n @ '' '' @ cf_sym fm ''toman''"

definition print_reconcile_local_human :: "cli_format \<Rightarrow> payment \<Rightarrow> local_snapshot \<Rightarrow> out_line list" where
  "print_reconcile_local_human fm p loc =
     map Line
      [cf_sym fm ''magnifier'' @ '' Reconcile: '' @ p_bot_order_id p, replicate (14 + length (p_bot_order_id p)) (CHR ''=''),
       ''  gateway order id:        '' @ show_int (p_gateway_order_id p),
       ''  local status:            '' @ status_value (p_status p),
       ''  gateway_verified:        '' @ yes_no (ls_is_gateway_verified loc)
         @ (case p_gateway_verified_at p of None \<Rightarrow> [] | Some t \<Rightarrow> '' ('' @ cf_iso fm t @ '')''),
       ''  original amount:         '' @ toman fm (p_amount p),
       ''  fee:                     '' @ toman fm (p_fee_amount p) @ '' ('' @ show_int (p_fee_rate_bps p) @ '' bps)'',
       ''  payable amount:          '' @ toman fm (p_payable_amount p),
       ''  link age:                '' @ humanize_duration (ls_link_age_seconds loc),
       ''  reconciliation tier:     '' @ coalesce (map_option age_bucket_value (ls_age_bucket loc)) ''n/a'',
       ''  reconciliation attempts: '' @ show_int (p_reconciliation_attempts p),
       ''  last reconciliation:     '' @ coalesce (map_option (cf_iso fm) (p_reconciliation_last_at p)) ''never'',
       ''  next reconciliation:     '' @ coalesce (map_option (cf_iso fm) (p_reconciliation_next_at p)) ''none scheduled'',
       ''  last error code:         '' @ coalesce (str_or (p_reconciliation_last_error_code p) (Some ''none'')) [],
       ''  reconciliation enabled:  '' @ yes_no (ls_reconciliation_enabled loc),
       ''  auto-reconciliation due: '' @ yes_no (ls_auto_reconciliation_due loc),
       ''  aged out (reconciliation): '' @ yes_no (ls_age_bucket loc = Some Bucket_Aged_Out),
       ''  aged out (verify gate):  '' @ yes_no (ls_verify_aged_out loc) @ '' (broader -- any unverified status, used by --verify)'',
       ''  attempts exhausted:      '' @ yes_no (ls_attempts_exhausted loc)]"

fun verify_assessment_value :: "verify_assessment \<Rightarrow> string" where
  "verify_assessment_value WOULD_VERIFY = ''WOULD_VERIFY''"
| "verify_assessment_value WOULD_REQUIRE_MANUAL_REVIEW = ''WOULD_REQUIRE_MANUAL_REVIEW''"
| "verify_assessment_value NOT_SUCCESSFUL = ''NOT_SUCCESSFUL''"

fun review_reason_value :: "review_reason \<Rightarrow> string" where
  "review_reason_value REASON_MISSING_REFERENCE_ID = ''missing_reference_id''"
| "review_reason_value REASON_INVALID_REFERENCE_ID = ''invalid_reference_id''"
| "review_reason_value REASON_PAYABLE_AMOUNT_MISMATCH = ''payable_amount_mismatch''"
| "review_reason_value REASON_USER_ID_MISMATCH = ''user_id_mismatch''"
| "review_reason_value REASON_REFERENCE_ID_COLLISION = ''reference_id_collision''"

definition verify_comparison_dict :: "verify_comparison \<Rightarrow> jdict" where
  "verify_comparison_dict c =
     [(''gateway_success'', JBool (vc_gateway_success c)), (''assessment'', JStr (verify_assessment_value (vc_assessment c))),
      (''reason_code'', jopt_str (map_option review_reason_value (vc_reason_code c))),
      (''gateway_failure_reason'', jopt_str (vc_gateway_failure_reason c)),
      (''reference_id_present'', JBool (vc_reference_id_present c)), (''reference_id_valid'', JBool (vc_reference_id_valid c)),
      (''reported_reference_id'', jopt_str (vc_reported_reference_id c)), (''amount_matches'', jopt_bool (vc_amount_matches c)),
      (''expected_payable_amount'', JInt (vc_expected_payable_amount c)), (''reported_amount'', jopt_int (vc_reported_amount c)),
      (''user_id_matches'', jopt_bool (vc_user_id_matches c)), (''reference_id_collision'', JBool (vc_reference_id_collision c)),
      (''field_errors'', JArr (map JStr (vc_field_errors c)))]"

definition comma_join :: "string list \<Rightarrow> string" where
  "comma_join xs = (case xs of [] \<Rightarrow> [] | y # ys \<Rightarrow> y @ concat (map (\<lambda>z. '', '' @ z) ys))"

definition print_verify_comparison_human :: "verify_comparison \<Rightarrow> out_line list" where
  "print_verify_comparison_human c =
     map Line (
      [[], ''--- --verify: fresh diagnostic gateway check (no LOCAL database mutation) ---'',
       ''  gateway response:        '' @ verify_assessment_value (vc_assessment c)]
    @ (if \<not> vc_gateway_success c then
         [''  internal failure reason: '' @ coalesce (str_or (vc_gateway_failure_reason c) (Some ''unknown'')) []]
       else
         [''  reference_id present:    '' @ yes_no (vc_reference_id_present c),
          ''  reference_id valid:      '' @ yes_no (vc_reference_id_valid c)]
       @ (case vc_reported_reference_id c of None \<Rightarrow> [] | Some r \<Rightarrow> [''  reported reference_id:   '' @ r])
       @ (case vc_amount_matches c of
            None \<Rightarrow> []
          | Some m \<Rightarrow>
              [''  amount matches:          '' @ yes_no m
               @ (case vc_reported_amount c of
                    None \<Rightarrow> []
                  | Some a \<Rightarrow> '' (expected payable '' @ fmt_int (vc_expected_payable_amount c) @ '', gateway reported '' @ fmt_int a @ '')'')])
       @ (case vc_user_id_matches c of None \<Rightarrow> [] | Some m \<Rightarrow> [''  user_id matches:         '' @ yes_no m])
       @ (if vc_reference_id_collision c then [''  reference_id collision:  yes (already used by another payment)''] else [])
       @ (if vc_field_errors c \<noteq> [] then [''  field errors:            '' @ comma_join (vc_field_errors c)] else []))
    @ (case vc_reason_code c of None \<Rightarrow> [] | Some r \<Rightarrow> [''  reason code:             '' @ review_reason_value r])
    @ [''  assessment:              '' @ verify_assessment_value (vc_assessment c),
       ''  NOTE: this is a diagnostic prediction only -- the payment was NOT settled.'', ''  '' @ NO_LOCAL_CHANGES_LINE])"

text \<open>What \<open>reconcile\<close> prints for each way \<open>cmd_reconcile\<close> can end, and its exit code.\<close>

definition with_local :: "cli_format \<Rightarrow> bool \<Rightarrow> payment \<Rightarrow> local_snapshot \<Rightarrow> json \<Rightarrow> out_line list \<Rightarrow> out_line list" where
  "with_local fm as_json p loc verify_part text_part =
     (if as_json then [Json [(''local'', JObj (reconcile_local_dict p loc)), (''verify'', verify_part)]]
      else print_reconcile_local_human fm p loc @ text_part)"

definition note_line :: out_line where
  "note_line = Line (''  '' @ NO_LOCAL_CHANGES_LINE)"

fun reconcile_output :: "cli_format \<Rightarrow> bool \<Rightarrow> string \<Rightarrow> reconcile_report \<Rightarrow> out_line list \<times> command_result" where
  "reconcile_output fm as_json order_id Bad_Flags = ([Stderr ''--confirm-aged-out requires --verify''], Exit 1)"
| "reconcile_output fm as_json order_id (Lookup_Failed e) = lookup_error_output order_id e"
| "reconcile_output fm as_json order_id Not_Found = not_found order_id"
| "reconcile_output fm as_json order_id (Local_Only p loc) = (with_local fm as_json p loc JNull [], Exit 0)"
| "reconcile_output fm as_json order_id (Verify_Refused p loc refusal) =
     (with_local fm as_json p loc
        (JObj [(''requested'', JBool True), (''performed'', JBool False), (''refused'', JStr (verify_refusal_value refusal)),
               (''note'', JStr NO_LOCAL_CHANGES_LINE)])
        [Line [], Line ''--- --verify: refused ---'', Line (''  '' @ VERIFY_REFUSAL_MESSAGE refusal), note_line], Exit 0)"
| "reconcile_output fm as_json order_id (Verify_Failed p loc performed code) =
     (with_local fm as_json p loc
        (JObj [(''requested'', JBool True), (''performed'', jopt_bool performed), (''delivery_uncertain'', JBool (performed = None)),
               (''refused'', JNull), (''transport_error_code'', JStr code), (''note'', JStr NO_LOCAL_CHANGES_LINE)])
        [Line [], Line ''--- --verify: gateway call failed (transport/protocol) ---'', Line (''  error code:              '' @ code),
         Line (if performed = None then ''  delivery uncertain:      the request may or may not have reached the gateway''
               else ''  request reached gateway: yes (response could not be used)''), note_line], Exit 1)"
| "reconcile_output fm as_json order_id (Verify_Compared p loc c) =
     (with_local fm as_json p loc
        (JObj ([(''requested'', JBool True), (''performed'', JBool True), (''refused'', JNull)] @ verify_comparison_dict c
               @ [(''note'', JStr NO_LOCAL_CHANGES_LINE)]))
        (print_verify_comparison_human c), Exit 0)"

section \<open>Recovery\<close>

fun RECOVERY_REFUSAL_MESSAGE :: "recovery_refusal \<Rightarrow> string" where
  "RECOVERY_REFUSAL_MESSAGE RR_MANUAL_REVIEW_OWNED =
     ''Refusing to recover: this payment is in manual_review -- an administrator already owns it.''"
| "RECOVERY_REFUSAL_MESSAGE RR_ALREADY_VERIFIED =
     ''Refusing to recover: local state already denotes successful gateway verification (verified status or gateway_verified_at).''"
| "RECOVERY_REFUSAL_MESSAGE RR_NOT_LINK_CREATED = ''Refusing to recover: this payment is not in link_created.''"
| "RECOVERY_REFUSAL_MESSAGE RR_NOT_AGED_OUT =
     ''Refusing to recover: this payment has not aged out (link age < RECONCILIATION_MAX_AGE_SECONDS). This recovery command only ''
     @ ''applies after the max-age boundary. Use `centralpay reconcile ORDER_ID` to inspect the current reconciliation state.''"

fun recovery_kind_value :: "recovery_kind \<Rightarrow> string" where
  "recovery_kind_value RK_REFUSED = ''refused''"
| "recovery_kind_value RK_VERIFIED = ''verified''"
| "recovery_kind_value RK_GATEWAY_NOT_PAID = ''gateway_not_paid''"
| "recovery_kind_value RK_MANUAL_REVIEW = ''manual_review''"
| "recovery_kind_value RK_TRANSPORT_FAILED = ''transport_failed''"

text \<open>Defined for the three settled kinds only, like the dictionary.\<close>

fun RECOVERY_OUTCOME_MESSAGE :: "recovery_kind \<Rightarrow> string option" where
  "RECOVERY_OUTCOME_MESSAGE RK_VERIFIED = Some (
     ''Gateway confirmed the payment; the canonical settlement function was applied. The normal bot notification has been queued.'')"
| "RECOVERY_OUTCOME_MESSAGE RK_GATEWAY_NOT_PAID = Some (
     ''Gateway reports this order is NOT paid. The payment remains link_created/unverified; no notification was queued, and it is NOT ''
     @ ''re-inserted into automatic reconciliation polling.'')"
| "RECOVERY_OUTCOME_MESSAGE RK_MANUAL_REVIEW = Some (
     ''Gateway responded but a financial check failed (invalid/missing reference id, amount mismatch, user mismatch, or reference-id ''
     @ ''collision) -- exactly the same canonical behavior as any other settlement. The payment moved to manual_review; see ''
     @ ''`centralpay payment ORDER_ID` for the specific mismatch event. No notification was queued.'')"
| "RECOVERY_OUTCOME_MESSAGE RK_REFUSED = None"
| "RECOVERY_OUTCOME_MESSAGE RK_TRANSPORT_FAILED = None"

definition recovery_snapshot_dict :: "settings \<Rightarrow> recovery_snapshot \<Rightarrow> jdict" where
  "recovery_snapshot_dict cfg s =
     [(''bot_order_id'', JStr (rs_bot_order_id s)), (''gateway_order_id'', JInt (rs_gateway_order_id s)),
      (''status'', JStr (status_value (rs_status s))), (''gateway_verified'', JBool (rs_gateway_verified s)),
      (''link_age_seconds'', JFloat (Some (rs_link_age_seconds s))),
      (''reconciliation_max_age_seconds'', JInt (reconciliation_max_age_seconds cfg)), (''aged_out'', JBool (rs_aged_out s)),
      (''reconciliation_attempts'', JInt (rs_reconciliation_attempts s)),
      (''reconciliation_max_attempts'', JInt (reconciliation_max_attempts cfg))]"

definition print_recovery_snapshot_human :: "cli_format \<Rightarrow> settings \<Rightarrow> recovery_snapshot \<Rightarrow> bool \<Rightarrow> out_line list" where
  "print_recovery_snapshot_human fm cfg s pre_attempt =
     map Line (
      [cf_sym fm ''lifebuoy'' @ '' Aged-out recovery: '' @ rs_bot_order_id s, replicate (23 + length (rs_bot_order_id s)) (CHR ''=''),
       ''  gateway order id:        '' @ show_int (rs_gateway_order_id s)]
    @ (if pre_attempt then
         [''  pre-attempt status:      '' @ status_value (rs_status s), ''  pre-attempt gateway_verified: '' @ yes_no (rs_gateway_verified s)]
       else
         [''  current status:          '' @ status_value (rs_status s), ''  gateway_verified:        '' @ yes_no (rs_gateway_verified s)])
    @ [''  link age:                '' @ humanize_duration (rs_link_age_seconds s),
       ''  reconciliation max age:  '' @ humanize_duration (of_int (reconciliation_max_age_seconds cfg)),
       ''  aged out:                '' @ yes_no (rs_aged_out s),
       ''  reconciliation attempts: '' @ show_int (rs_reconciliation_attempts s),
       ''  attempts cap:            '' @ show_int (reconciliation_max_attempts cfg)])"

definition confirm_would_text :: string where
  "confirm_would_text =
     ''acquire the row lock and re-evaluate current eligibility; if still ineligible it will refuse with zero gateway requests, ''
     @ ''otherwise it may perform the one canonical settlement attempt.''"

definition preview_output :: "cli_format \<Rightarrow> settings \<Rightarrow> bool \<Rightarrow> recovery_snapshot \<Rightarrow> recovery_refusal option \<Rightarrow> out_line list" where
  "preview_output fm cfg as_json s refusal =
     (if as_json then
        [Json ([(''preview'', JBool True), (''confirm_requested'', JBool False)] @ recovery_snapshot_dict cfg s
          @ [(''eligible'', JBool (refusal = None)), (''refusal_reason'', jopt_str (map_option recovery_refusal_value refusal)),
             (''confirm_would'', JStr confirm_would_text), (''note'', JStr NO_LOCAL_CHANGES_LINE)])]
      else
        print_recovery_snapshot_human fm cfg s False
        @ [Line (''  eligible:                '' @ yes_no (refusal = None))]
        @ (case refusal of
             None \<Rightarrow> []
           | Some r \<Rightarrow> [Line (''  refusal reason:          '' @ recovery_refusal_value r), Line (''  '' @ RECOVERY_REFUSAL_MESSAGE r)])
        @ [Line (''  --confirm would:         '' @ confirm_would_text), Line [],
           Line ''PREVIEW ONLY. Pass --confirm to attempt recovery.'', note_line])"

definition outcome_lines :: "recovery_outcome \<Rightarrow> string list" where
  "outcome_lines out =
     (if ro_kind out = RK_REFUSED then
        [''--- --confirm: refused ---'', ''  '' @ (case ro_refusal out of None \<Rightarrow> [] | Some r \<Rightarrow> RECOVERY_REFUSAL_MESSAGE r),
         ''  Zero gateway requests were made.'']
      else if ro_kind out = RK_TRANSPORT_FAILED then
        [''--- --confirm: transport_failed ---'', ''  error code:              '' @ coalesce (ro_transport_error_code out) ''None'',
         ''  No local settlement was applied.'',
         if ro_delivery_uncertain out then ''  delivery uncertain:      the request may or may not have reached the gateway''
         else ''  request reached gateway: yes (response could not be used)'',
         ''  This command does not auto-retry. Before running --confirm again, consider that CentralPay's behavior when verify.php is ''
         @ ''queried again for an order it may already have processed has never been confirmed safe (see STAGING_VALIDATION.md) -- ''
         @ ''investigate this order with CentralPay directly if unsure.'']
      else [''--- --confirm: '' @ recovery_kind_value (ro_kind out) @ '' ---'', ''  '' @ coalesce (RECOVERY_OUTCOME_MESSAGE (ro_kind out)) []])"

definition confirm_output :: "cli_format \<Rightarrow> settings \<Rightarrow> bool \<Rightarrow> recovery_snapshot \<Rightarrow> recovery_outcome \<Rightarrow> out_line list" where
  "confirm_output fm cfg as_json s out =
     (let eligible_at_attempt = (ro_kind out \<noteq> RK_REFUSED)
      in if as_json then
           [Json [(''preview'', JBool False), (''confirm_requested'', JBool True),
                  (''pre_attempt'', JObj (recovery_snapshot_dict cfg s
                     @ [(''eligible'', JBool eligible_at_attempt),
                        (''refusal_reason'', jopt_str (map_option recovery_refusal_value (ro_refusal out)))])),
                  (''outcome'', JStr (recovery_kind_value (ro_kind out))),
                  (''gateway_request_performed'', jopt_bool (ro_gateway_request_performed out)),
                  (''delivery_uncertain'', JBool (ro_delivery_uncertain out)), (''transport_error_code'', jopt_str (ro_transport_error_code out))]]
         else
           print_recovery_snapshot_human fm cfg s True
           @ map Line ([''  eligible at attempt:     '' @ yes_no eligible_at_attempt, []] @ outcome_lines out))"

definition cli_recover_aged_out ::
  "cli_format \<Rightarrow> centralpay_client \<Rightarrow> transport \<Rightarrow> settings \<Rightarrow> session \<Rightarrow> string \<Rightarrow> bool \<Rightarrow> bool \<Rightarrow> session \<times> out_line list \<times> command_result" where
  "cli_recover_aged_out fm cl http cfg s order_id confirm as_json =
     (case find_payment_by_order_id (work s) order_id of
        Inl e \<Rightarrow> (rollback s, lookup_error_output order_id e)
      | Inr None \<Rightarrow> (rollback s, not_found order_id)
      | Inr (Some found) \<Rightarrow>
          if \<not> confirm then
            (rollback s,
             case build_preview (work s) cfg (p_id found) (clock s) of
               None \<Rightarrow> not_found order_id
             | Some (snap, refusal) \<Rightarrow> (preview_output fm cfg as_json snap refusal, Exit 0))
          else case execute_confirmed_recovery cl http cfg (configure_alert_creation cfg s) (p_id found) of
                 (s1, None) \<Rightarrow> (rollback s1, not_found order_id)
               | (s1, Some (snap, out)) \<Rightarrow>
                   (s1, confirm_output fm cfg as_json snap out, Exit (if ro_kind out = RK_TRANSPORT_FAILED then 1 else 0)))"

section \<open>Monitor\<close>

fun check_status_upper :: "check_status \<Rightarrow> string" where
  "check_status_upper STATUS_OK = ''OK''"
| "check_status_upper STATUS_WARNING = ''WARNING''"
| "check_status_upper STATUS_CRITICAL = ''CRITICAL''"

fun MONITOR_STATUS_ICON :: "check_status \<Rightarrow> string" where
  "MONITOR_STATUS_ICON STATUS_OK = ''green''"
| "MONITOR_STATUS_ICON STATUS_WARNING = ''orange''"
| "MONITOR_STATUS_ICON STATUS_CRITICAL = ''red''"

definition check_result_dict :: "check_result \<Rightarrow> jdict" where
  "check_result_dict r =
     [(''key'', JStr (chk_key r)), (''status'', JStr (check_status_value (chk_status r))), (''reason'', JStr (chk_reason r)),
      (''details'', JObj (chk_details r))]"

definition cli_monitor_check ::
  "cli_format \<Rightarrow> settings \<Rightarrow> monitor_settings \<Rightarrow> monitor_env \<Rightarrow> time \<Rightarrow> bool \<Rightarrow> out_line list \<times> command_result" where
  "cli_monitor_check fm cfg m env now as_json =
     (case run_all_checks cfg m env now True of
        Inl e \<Rightarrow> ([], Uncaught e)
      | Inr results \<Rightarrow>
          (let st = overall_status results; code = Exit (if st = STATUS_OK then 0 else 1)
           in if as_json then
                ([Json [(''status'', JStr (check_status_value st)),
                        (''checks'', JObj (map (\<lambda>r. (chk_key r, JObj (check_result_dict r))) results)),
                        (''failures'', JArr (map (JStr \<circ> chk_key) (filter (\<lambda>r. chk_status r \<noteq> STATUS_OK) results)))]], code)
              else
                (Line (cf_sym fm (MONITOR_STATUS_ICON st) @ '' CentralPay Monitor '' @ cf_sym fm ''em dash'' @ '' overall: '' @ check_status_upper st)
                 # Line []
                 # concat (map (\<lambda>r.
                     Line (cf_sym fm (MONITOR_STATUS_ICON (chk_status r)) @ '' '' @ chk_key r @ '': '' @ check_status_value (chk_status r) @ '' ''
                           @ cf_sym fm ''em dash'' @ '' '' @ chk_reason r)
                     # map (\<lambda>(k, v). Line (''    '' @ k @ '': '' @ cf_value fm v)) (chk_details r)) results), code)))"

fun incident_status_value :: "incident_status \<Rightarrow> string" where
  "incident_status_value Incident_Open = ''open''"
| "incident_status_value Incident_Resolved = ''resolved''"

fun incident_status_upper :: "incident_status \<Rightarrow> string" where
  "incident_status_upper Incident_Open = ''OPEN''"
| "incident_status_upper Incident_Resolved = ''RESOLVED''"

definition incident_dict :: "incident \<Rightarrow> jdict" where
  "incident_dict i =
     [(''id'', JInt (mi_id i)), (''check_key'', JStr (mi_check_key i)), (''severity'', JStr (check_status_value (mi_severity i))),
      (''status'', JStr (incident_status_value (mi_status i))), (''opened_at'', JTime (mi_opened_at i)),
      (''last_seen_at'', JTime (mi_last_seen_at i)), (''resolved_at'', jopt_time (mi_resolved_at i)),
      (''last_alerted_at'', jopt_time (mi_last_alerted_at i)), (''details'', JObj (mi_details i))]"

definition incident_lines :: "cli_format \<Rightarrow> incident \<Rightarrow> string list" where
  "incident_lines fm i =
     [cf_sym fm (MONITOR_STATUS_ICON (mi_severity i)) @ '' ['' @ incident_status_upper (mi_status i) @ ''] '' @ mi_check_key i
        @ '' ('' @ check_status_value (mi_severity i) @ '')'',
      ''    opened:    '' @ cf_iso fm (mi_opened_at i), ''    last seen: '' @ cf_iso fm (mi_last_seen_at i)]
   @ (case mi_resolved_at i of None \<Rightarrow> [] | Some t \<Rightarrow> [''    resolved:  '' @ cf_iso fm t]) @ [[]]"

definition cli_monitor_incidents :: "cli_format \<Rightarrow> incident list \<Rightarrow> bool \<Rightarrow> bool \<Rightarrow> int \<Rightarrow> out_line list \<times> command_result" where
  "cli_monitor_incidents fm rows as_json include_resolved limit =
     (if bad_limit limit then ([], Uncaught ''DataError'')
      else let incidents = list_incidents rows include_resolved (nat limit)
           in (if as_json then map (Json \<circ> incident_dict) incidents
               else if incidents = [] then [Line (if include_resolved then ''No incidents recorded.'' else ''No open incidents.'')]
               else map Line (concat (map (incident_lines fm) incidents)), Exit 0))"

section \<open>Dispatch\<close>

datatype cli_command =
    Recent int
  | Show_Payment string
  | Retry_Queue
  | List_Manual_Review bool
  | Reconciliation_Status bool
  | Reconcile string bool bool bool
  | Recover_Aged_Out string bool bool
  | Monitor_Check bool
  | List_Incidents bool bool int
  | Stuck_Report int bool

text \<open>
  What a command finds around it: settings, the gateway, the tables beside the payments, the database once the row
  lock of \<open>reconcile --verify\<close> is granted, and the clock when it is read a second time.
\<close>

record cli_context =
  cx_format :: cli_format
  cx_client :: centralpay_client
  cx_http :: transport
  cx_settings :: settings
  cx_monitor :: monitor_settings
  cx_verify_enabled :: bool
  cx_exhausted_window :: int
  cx_heartbeats :: "worker_heartbeat list"
  cx_liveness_file_age :: "time option"
  cx_incidents :: "incident list"
  cx_probes :: monitor_env
  cx_locked :: "db \<Rightarrow> db"
  cx_later :: time

fun cli_read :: "cli_context \<Rightarrow> db \<Rightarrow> time \<Rightarrow> cli_command \<Rightarrow> out_line list \<times> command_result" where
  "cli_read cx d now (Recent limit) = cli_recent (cx_format cx) d limit"
| "cli_read cx d now (Show_Payment order_id) = cli_payment (cx_format cx) d order_id"
| "cli_read cx d now Retry_Queue = cli_retry_queue (cx_format cx) d"
| "cli_read cx d now (List_Manual_Review include_resolved) = cli_manual_review (cx_format cx) d include_resolved"
| "cli_read cx d now (Reconciliation_Status as_json) =
     cli_reconciliation_status (cx_format cx) (cx_settings cx) (cx_exhausted_window cx) d (cx_heartbeats cx) (cx_liveness_file_age cx) now as_json"
| "cli_read cx d now (Reconcile order_id want_verify confirm_aged_out as_json) =
     reconcile_output (cx_format cx) as_json order_id
       (cmd_reconcile (cx_client cx) (cx_http cx) (cx_settings cx) (cx_verify_enabled cx) d (cx_locked cx d) now order_id
          want_verify confirm_aged_out)"
| "cli_read cx d now (Monitor_Check as_json) =
     cli_monitor_check (cx_format cx) (cx_settings cx) (cx_monitor cx) (cx_probes cx) now as_json"
| "cli_read cx d now (List_Incidents as_json include_resolved limit) =
     cli_monitor_incidents (cx_format cx) (cx_incidents cx) as_json include_resolved limit"
| "cli_read cx d now (Stuck_Report limit as_json) = cli_stuck (cx_format cx) (cx_settings cx) d now (cx_later cx) limit as_json"
| "cli_read cx d now (Recover_Aged_Out order_id confirm as_json) = ([], Exit 0)"

text \<open>\<open>db.close()\<close> in the \<open>finally\<close> clause drops what was not committed.\<close>

definition cli_main :: "cli_context \<Rightarrow> session \<Rightarrow> cli_command \<Rightarrow> session \<times> out_line list \<times> command_result" where
  "cli_main cx s c =
     (case c of
        Recover_Aged_Out order_id confirm as_json \<Rightarrow>
          cli_recover_aged_out (cx_format cx) (cx_client cx) (cx_http cx) (cx_settings cx) s order_id confirm as_json
      | _ \<Rightarrow> (rollback s, cli_read cx (work s) (clock s) c))"

end
