(* ===== verification/Cli_Laws.thy ===== *)
theory Cli_Laws
  imports Cli
begin

text \<open>
  What the inspection commands promise: the \<open>stuck\<close> report counts exactly and says truthfully what it leaves out
  and what would reveal it; no printed line depends on a secret column; the recovery command behaves as its model
  without output does, and its report never contradicts what it did.
\<close>

section \<open>The stuck report\<close>

text \<open>What the report is about: the payments of its categories.\<close>

definition listed :: "db \<Rightarrow> settings \<Rightarrow> time \<Rightarrow> payment \<Rightarrow> bool" where
  "listed d cfg t p \<longleftrightarrow>
     open_manual_review_conditions p \<or> stale_bot_notify_pending_conditions d (t - 1800) p
   \<or> reconciliation_exhausted_conditions cfg t p \<or> unexpected_status_conditions d t p
   \<or> waiting_conditions cfg t p \<or> expired_conditions cfg t p"

lemma so_total_counts: "so_total (stuck_payments_overview d cfg t) = count_where (listed d cfg t) (payments d)"
proof -
  have "count_where (listed d cfg t) (payments d) =
      count_where open_manual_review_conditions (payments d)
    + (count_where (stale_bot_notify_pending_conditions d (t - 1800)) (payments d)
    + (count_where (reconciliation_exhausted_conditions cfg t) (payments d)
    + (count_where (unexpected_status_conditions d t) (payments d)
    + (count_where (waiting_conditions cfg t) (payments d) + count_where (expired_conditions cfg t) (payments d)))))"
    unfolding listed_def [abs_def] by (subst count_where_disj, force simp: category_defs)+ simp
  then show ?thesis
    by (simp add: so_total_def overview_totals count_open_manual_reviews_def count_waiting_def count_expired_def)
qed

lemma count_where_card: "distinct xs \<Longrightarrow> count_where P xs = card (set (filter P xs))"
  unfolding count_where_def by (metis distinct_card distinct_filter)

text \<open>The rows behind the entries, in the order they are printed.\<close>

definition capped :: "(payment \<Rightarrow> bool) \<Rightarrow> (payment \<Rightarrow> 'k::linorder) \<Rightarrow> db \<Rightarrow> payment list" where
  "capped conditions order d = first_n_by order QUERY_CAP (filter conditions (payments d))"

lemma ordered_payments:
  "map oe_payment (so_ordered (stuck_payments_overview d cfg t)) =
     capped (\<lambda>p. open_manual_review_conditions p \<or> stale_bot_notify_pending_conditions d (t - 1800) p)
       (snapshot_order open_manual_review_conditions d) d
   @ capped (reconciliation_exhausted_conditions cfg t) link_age_anchor d
   @ capped (unexpected_status_conditions d t) p_created_at d
   @ capped (waiting_conditions cfg t) link_age_anchor d
   @ capped (expired_conditions cfg t) link_age_anchor d"
proof -
  have "se_payment (if open_manual_review_conditions p then review_entry p else pending_entry t' p) = p" for p t'
    by (simp add: review_entry_def pending_entry_def)
  then show ?thesis
    by (simp add: so_ordered_def stuck_payments_overview_def reused_needs_attention_def open_attention_snapshot_def
        attention_overview_of_def attention_rows_def rows_with_exact_total_def capped_def Let_def comp_def
        exhausted_entry_def unexpected_entry_def waiting_entry_def expired_entry_def)
qed

lemma capped_in: "p \<in> set (capped P order d) \<Longrightarrow> p \<in> set (payments d) \<and> P p"
  using set_first_n_by [of order QUERY_CAP "filter P (payments d)"] by (auto simp: capped_def)

lemma capped_distinct: "distinct (payments d) \<Longrightarrow> distinct (capped P order d)"
  using distinct_first_n_by [of id "filter P (payments d)" order QUERY_CAP] by (simp add: capped_def)

lemma ordered_listed:
  "p \<in> set (map oe_payment (so_ordered (stuck_payments_overview d cfg t))) \<Longrightarrow> p \<in> set (payments d) \<and> listed d cfg t p"
  unfolding ordered_payments by (auto simp: listed_def dest!: capped_in)

lemma ordered_distinct:
  assumes "distinct (payments d)"
  shows "distinct (map oe_payment (so_ordered (stuck_payments_overview d cfg t)))"
  unfolding ordered_payments distinct_append
  using assms by (auto simp: capped_distinct category_defs dest!: capped_in)

lemma stuck_shown_prefix: "map oe_payment (stuck_shown ov limit) = take (stuck_limit limit) (map oe_payment (so_ordered ov))"
  by (simp add: stuck_shown_def take_map)

lemma raise_limit_iff:
  "can_raise_limit (length (so_ordered ov)) (length (stuck_shown ov limit))
   \<longleftrightarrow> (\<exists>limit'. length (stuck_shown ov limit') > length (stuck_shown ov limit))"
proof -
  have "stuck_limit limit' \<le> 200" for limit' by (simp add: stuck_limit_def STUCK_DISPLAY_LIMIT_MAX_def)
  moreover have "stuck_limit 200 = 200" by (simp add: stuck_limit_def STUCK_DISPLAY_LIMIT_MAX_def)
  ultimately show ?thesis
    unfolding can_raise_limit_def stuck_shown_def STUCK_DISPLAY_LIMIT_MAX_def length_take
    by (auto intro: exI [of _ 200] simp: min_def split: if_splits) (smt (verit) le_trans linorder_not_le)+
qed

lemma shown_all_iff:
  assumes "distinct (payments d)"
  shows "length (stuck_shown (stuck_payments_overview d cfg t) limit) < count_where (listed d cfg t) (payments d)
     \<longleftrightarrow> (\<exists>p \<in> set (payments d). listed d cfg t p \<and> p \<notin> oe_payment ` set (stuck_shown (stuck_payments_overview d cfg t) limit))"
proof -
  let ?shown = "map oe_payment (stuck_shown (stuck_payments_overview d cfg t) limit)"
  have sub: "set ?shown \<subseteq> set (filter (listed d cfg t) (payments d))"
    unfolding stuck_shown_prefix using ordered_listed [of _ d cfg t] by (auto dest!: in_set_takeD)
  have "length ?shown = card (set ?shown)"
    using ordered_distinct [OF assms, of cfg t] unfolding stuck_shown_prefix by (simp add: distinct_card)
  moreover have "count_where (listed d cfg t) (payments d) = card (set (filter (listed d cfg t) (payments d)))"
    by (rule count_where_card [OF assms])
  moreover have "card (set ?shown) < card (set (filter (listed d cfg t) (payments d))) \<longleftrightarrow> set ?shown \<noteq> set (filter (listed d cfg t) (payments d))"
    using sub by (metis finite_set less_irrefl psubset_card_mono psubsetI)
  ultimately show ?thesis using sub by auto
qed

lemma materialized_le_total:
  assumes "distinct (payments d)"
  shows "length (so_ordered (stuck_payments_overview d cfg t)) \<le> so_total (stuck_payments_overview d cfg t)"
proof -
  let ?ps = "map oe_payment (so_ordered (stuck_payments_overview d cfg t))"
  have "length ?ps = card (set ?ps)" using ordered_distinct [OF assms] by (metis distinct_card)
  also have "\<dots> \<le> card (set (filter (listed d cfg t) (payments d)))"
    using ordered_listed [of _ d cfg t] by (intro card_mono) auto
  also have "\<dots> = so_total (stuck_payments_overview d cfg t)"
    by (simp only: so_total_counts count_where_card [OF assms])
  finally show ?thesis by simp
qed

lemma raise_note_iff:
  assumes "length (so_ordered ov) \<le> so_total ov"
  shows "print_stuck_truncation_note ov (length (so_ordered ov)) (length (stuck_shown ov limit)) =
           [Line [], Line (raise_limit_note (so_total ov - length (stuck_shown ov limit)))]
         \<longleftrightarrow> can_raise_limit (length (so_ordered ov)) (length (stuck_shown ov limit))"
  using assms by (auto simp: print_stuck_truncation_note_def Let_def can_raise_limit_def raise_limit_note_def capped_note_def)

lemma py_trunc_ge: "of_int n \<le> x \<Longrightarrow> 0 \<le> x \<Longrightarrow> n \<le> py_trunc x"
  by (simp add: py_trunc_def le_floor_iff)

lemma expired_entry_age:
  assumes "e \<in> set (so_ordered (stuck_payments_overview d cfg t))" "oe_category e = EXPIRED" "t \<le> now"
  shows "of_int (reconciliation_max_age_seconds cfg) \<le> now - age_anchor (oe_payment e)"
proof -
  have "oe_payment e \<in> set (capped (expired_conditions cfg t) link_age_anchor d)"
    using assms(1,2)
    by (auto simp: so_ordered_def stuck_payments_overview_def reused_needs_attention_def rows_with_exact_total_def capped_def Let_def
        exhausted_entry_def unexpected_entry_def waiting_entry_def expired_entry_def)
  then have "expired_conditions cfg t (oe_payment e)" using capped_in by blast
  then show ?thesis
    using assms(3) by (simp add: expired_conditions_def aged_out_conditions_def aged_out_age_condition_def link_age_anchor_def age_anchor_def)
qed

text \<open>
  C36. The \<open>stuck\<close> report is honest. Its \<open>total\<close> is the exact number of payments in the categories; the
  entries it prints are different payments of these categories; \<open>truncated\<close> is true exactly when some payment of
  them is not printed; the advice to raise \<open>--limit\<close> is given exactly when some other \<open>--limit\<close> would print more;
  and an entry called expired shows an age of at least the maximum age of a link.
\<close>

theorem stuck_report_honest:
  assumes "distinct (payments d)" "0 \<le> reconciliation_max_age_seconds cfg"
    and ov_def: "ov = stuck_payments_overview d cfg t"
  shows "map_of (stuck_summary_dict ov (length (stuck_shown ov limit))) ''total'' = Some (jnat (count_where (listed d cfg t) (payments d)))
       \<and> distinct (map oe_payment (stuck_shown ov limit))
       \<and> oe_payment ` set (stuck_shown ov limit) \<subseteq> {p \<in> set (payments d). listed d cfg t p}
       \<and> (map_of (stuck_summary_dict ov (length (stuck_shown ov limit))) ''truncated'' = Some (JBool True)
            \<longleftrightarrow> (\<exists>p \<in> set (payments d). listed d cfg t p \<and> p \<notin> oe_payment ` set (stuck_shown ov limit)))
       \<and> (print_stuck_truncation_note ov (length (so_ordered ov)) (length (stuck_shown ov limit)) =
            [Line [], Line (raise_limit_note (so_total ov - length (stuck_shown ov limit)))]
            \<longleftrightarrow> (\<exists>limit'. length (stuck_shown ov limit') > length (stuck_shown ov limit)))
       \<and> (\<forall>e \<in> set (stuck_shown ov limit). oe_category e = EXPIRED \<longrightarrow> t \<le> now \<longrightarrow>
            (\<exists>a. map_of (stuck_entry_dict e now) ''age_seconds'' = Some (JInt a) \<and> a \<ge> reconciliation_max_age_seconds cfg))"
proof (intro conjI ballI impI)
  show "map_of (stuck_summary_dict ov (length (stuck_shown ov limit))) ''total'' = Some (jnat (count_where (listed d cfg t) (payments d)))"
    by (simp add: stuck_summary_dict_def ov_def so_total_counts)
  show "distinct (map oe_payment (stuck_shown ov limit))"
    unfolding stuck_shown_prefix ov_def using ordered_distinct [OF assms(1)] by simp
  show "oe_payment ` set (stuck_shown ov limit) \<subseteq> {p \<in> set (payments d). listed d cfg t p}"
    using ordered_listed [of _ d cfg t] by (auto simp: stuck_shown_def ov_def dest!: in_set_takeD)
  show "map_of (stuck_summary_dict ov (length (stuck_shown ov limit))) ''truncated'' = Some (JBool True)
      \<longleftrightarrow> (\<exists>p \<in> set (payments d). listed d cfg t p \<and> p \<notin> oe_payment ` set (stuck_shown ov limit))"
    using shown_all_iff [OF assms(1), of cfg t limit] by (simp add: stuck_summary_dict_def ov_def so_total_counts)
  show "print_stuck_truncation_note ov (length (so_ordered ov)) (length (stuck_shown ov limit)) =
      [Line [], Line (raise_limit_note (so_total ov - length (stuck_shown ov limit)))]
      \<longleftrightarrow> (\<exists>limit'. length (stuck_shown ov limit') > length (stuck_shown ov limit))"
    using raise_note_iff [of ov limit] materialized_le_total [OF assms(1), of cfg t] raise_limit_iff [of ov limit]
    by (simp add: ov_def)
next
  fix e assume "e \<in> set (stuck_shown ov limit)" "oe_category e = EXPIRED" "t \<le> now"
  then have age: "of_int (reconciliation_max_age_seconds cfg) \<le> now - age_anchor (oe_payment e)"
    using expired_entry_age [of e d cfg t now] by (auto simp: stuck_shown_def ov_def dest!: in_set_takeD)
  moreover have "0 \<le> now - age_anchor (oe_payment e)" using age assms(2) by (meson of_int_0_le_iff order_trans)
  ultimately show "\<exists>a. map_of (stuck_entry_dict e now) ''age_seconds'' = Some (JInt a) \<and> a \<ge> reconciliation_max_age_seconds cfg"
    using py_trunc_ge by (simp add: stuck_entry_dict_def Let_def)
qed

definition stuck_report_demo :: db where
  "stuck_report_demo = empty_db\<lparr>payments :=
     [demo_payment 1 ''a'', (demo_payment 2 ''b'')\<lparr>p_callback_token_issued_at := Some 80000\<rparr>,
      (demo_payment 3 ''c'')\<lparr>p_status := MANUAL_REVIEW\<rparr>]\<rparr>"

theorem stuck_report_honest_witness:
  "(let ov = stuck_payments_overview stuck_report_demo demo_settings 90000
    in map (p_id \<circ> oe_payment) (so_ordered ov) = [3, 2, 1]
     \<and> map_of (stuck_summary_dict ov (length (stuck_shown ov 1))) ''truncated'' = Some (JBool True)
     \<and> (\<exists>p \<in> set (payments stuck_report_demo). p \<notin> oe_payment ` set (stuck_shown ov 1))
     \<and> (\<exists>limit'. length (stuck_shown ov limit') > length (stuck_shown ov 1)))"
proof -
  let ?ov = "stuck_payments_overview stuck_report_demo demo_settings 90000"
  have hyps: "distinct (payments stuck_report_demo)" "0 \<le> reconciliation_max_age_seconds demo_settings"
    by (simp_all add: stuck_report_demo_def demo_payment_def demo_settings_def)
  have facts: "map (p_id \<circ> oe_payment) (so_ordered ?ov) = [3, 2, 1]"
    "map_of (stuck_summary_dict ?ov (length (stuck_shown ?ov 1))) ''truncated'' = Some (JBool True)"
    "print_stuck_truncation_note ?ov (length (so_ordered ?ov)) (length (stuck_shown ?ov 1)) =
       [Line [], Line (raise_limit_note (so_total ?ov - length (stuck_shown ?ov 1)))]"
    by code_simp+
  show ?thesis
    using facts stuck_report_honest [OF hyps refl, of 90000 1 90000] unfolding Let_def by blast
qed

section \<open>No output depends on a secret column\<close>

definition blank :: "payment \<Rightarrow> payment" where
  "blank p = p\<lparr>p_gateway_user_id := 0, p_payer_identity_id := None, p_payer_identity_type := None, p_payer_derivation_version := None,
     p_fee_policy_id := None, p_redirect_url := None, p_callback_token_hash := None, p_card_last4 := None,
     p_notification_claimed_by := None, p_reconciliation_claimed_by := None\<rparr>"

definition blank_db :: "db \<Rightarrow> db" where
  "blank_db d = d\<lparr>payments := map blank (payments d), payer_identities := []\<rparr>"

lemma blank_sel [simp]:
  "p_id (blank p) = p_id p" "p_bot_order_id (blank p) = p_bot_order_id p" "p_gateway_order_id (blank p) = p_gateway_order_id p"
  "p_amount (blank p) = p_amount p" "p_fee_rate_bps (blank p) = p_fee_rate_bps p" "p_fee_amount (blank p) = p_fee_amount p"
  "p_payable_amount (blank p) = p_payable_amount p" "p_status (blank p) = p_status p" "p_reference_id (blank p) = p_reference_id p"
  "p_callback_token_issued_at (blank p) = p_callback_token_issued_at p" "p_review_acknowledged_at (blank p) = p_review_acknowledged_at p"
  "p_review_resolved_at (blank p) = p_review_resolved_at p" "p_review_resolution (blank p) = p_review_resolution p"
  "p_attention_resolved_at (blank p) = p_attention_resolved_at p" "p_attention_resolution (blank p) = p_attention_resolution p"
  "p_attention_resolved_by (blank p) = p_attention_resolved_by p" "p_attention_resolution_note (blank p) = p_attention_resolution_note p"
  "p_last_error (blank p) = p_last_error p" "p_gateway_verified_at (blank p) = p_gateway_verified_at p"
  "p_bot_notify_reason (blank p) = p_bot_notify_reason p" "p_bot_notify_attempts (blank p) = p_bot_notify_attempts p"
  "p_bot_last_http_status (blank p) = p_bot_last_http_status p" "p_bot_last_error_code (blank p) = p_bot_last_error_code p"
  "p_bot_notify_started_at (blank p) = p_bot_notify_started_at p" "p_bot_notify_accepted_at (blank p) = p_bot_notify_accepted_at p"
  "p_next_retry_at (blank p) = p_next_retry_at p" "p_manual_review_at (blank p) = p_manual_review_at p"
  "p_notification_claimed_at (blank p) = p_notification_claimed_at p" "p_reconciliation_attempts (blank p) = p_reconciliation_attempts p"
  "p_reconciliation_next_at (blank p) = p_reconciliation_next_at p" "p_reconciliation_last_at (blank p) = p_reconciliation_last_at p"
  "p_reconciliation_last_error_code (blank p) = p_reconciliation_last_error_code p" "p_created_at (blank p) = p_created_at p"
  by (simp_all add: blank_def)

lemma blank_db_sel [simp]: "payments (blank_db d) = map blank (payments d)" "payment_events (blank_db d) = payment_events d"
  by (simp_all add: blank_db_def)

lemma blank_conditions [simp]:
  "open_manual_review_conditions (blank p) = open_manual_review_conditions p"
  "manual_review_history_conditions (blank p) = manual_review_history_conditions p"
  "notification_age_anchor (blank_db d) (blank p) = notification_age_anchor d p"
  "stale_bot_notify_pending_conditions (blank_db d) t (blank p) = stale_bot_notify_pending_conditions d t p"
  "unexpected_status_conditions (blank_db d) now (blank p) = unexpected_status_conditions d now p"
  "link_age_anchor (blank p) = link_age_anchor p" "aged_out_age_condition cfg now (blank p) = aged_out_age_condition cfg now p"
  "tier_age_conditions now lo hi (blank p) = tier_age_conditions now lo hi p"
  by (simp_all add: open_manual_review_conditions_def manual_review_history_conditions_def entry_event_def [abs_def]
      notification_age_anchor_def stale_bot_notify_pending_conditions_def unexpected_status_conditions_def unresolved_attention_condition_def
      latest_event_id_def event_ids_def Let_def link_age_anchor_def aged_out_age_condition_def tier_age_conditions_def
      split: option.split)

lemma blank_tiers [simp]:
  "aged_out_conditions cfg now (blank p) = aged_out_conditions cfg now p"
  "active_tier_age_conditions cfg now (blank p) = active_tier_age_conditions cfg now p"
  "expiring_tier_age_conditions cfg now (blank p) = expiring_tier_age_conditions cfg now p"
  "active_tier_due_conditions cfg now (blank p) = active_tier_due_conditions cfg now p"
  "expiring_tier_due_conditions cfg now (blank p) = expiring_tier_due_conditions cfg now p"
  "reconciliation_exhausted_conditions cfg now (blank p) = reconciliation_exhausted_conditions cfg now p"
  "reconciliation_exhausted_ever_conditions cfg (blank p) = reconciliation_exhausted_ever_conditions cfg p"
  "reconciliation_recently_exhausted_conditions cfg now w (blank p) = reconciliation_recently_exhausted_conditions cfg now w p"
  "reconciliation_actionable_exhausted_conditions cfg now w (blank p) = reconciliation_actionable_exhausted_conditions cfg now w p"
  "waiting_conditions cfg now (blank p) = waiting_conditions cfg now p" "expired_conditions cfg now (blank p) = expired_conditions cfg now p"
  "verify_aged_out_conditions cfg now (blank p) = verify_aged_out_conditions cfg now p"
  "due_since_anchor (blank p) = due_since_anchor p"
  by (simp_all add: aged_out_conditions_def active_tier_age_conditions_def expiring_tier_age_conditions_def active_tier_due_conditions_def
      expiring_tier_due_conditions_def tier_due_conditions_def reconciliation_exhausted_conditions_def reconciliation_exhausted_ever_conditions_def
      reconciliation_recently_exhausted_conditions_def reconciliation_actionable_exhausted_conditions_def waiting_conditions_def
      expired_conditions_def verify_aged_out_conditions_def due_since_anchor_def)

lemma sort_key_map_same: "(\<And>x. key (h x) = key x) \<Longrightarrow> sort_key key (map h xs) = map h (sort_key key xs)"
  by (simp add: sort_key_map comp_def)

lemmas blanked_list = first_n_by_map [where h = blank] filter_map_same [where h = blank] count_where_map [where h = blank]
  sort_key_map_same [where h = blank]

lemma blank_summary [simp]: "payment_summary fm (blank p) = payment_summary fm p"
  by (simp add: payment_summary_def)

lemma blank_listings [simp]:
  "cli_recent fm (blank_db d) limit = cli_recent fm d limit" "cli_retry_queue fm (blank_db d) = cli_retry_queue fm d"
  "cli_manual_review fm (blank_db d) b = cli_manual_review fm d b"
  by (simp_all add: cli_recent_def cli_retry_queue_def cli_manual_review_def summaries_def blanked_list comp_def)

lemma blank_lookup [simp]:
  "find_payment_by_order_id (blank_db d) i = map_sum id (map_option blank) (find_payment_by_order_id d i)"
  "payment_by_id (blank_db d) k = map_option blank (payment_by_id d k)"
  by (simp_all add: find_payment_by_order_id_def payment_by_bot_order_id_def payment_by_gateway_order_id_def payment_by_id_def find_row_def
      Let_def find_map_same split: option.split)

lemma blank_payment [simp]: "cli_payment fm (blank_db d) i = cli_payment fm d i"
  by (simp add: cli_payment_def split: sum.split option.split)

lemma blank_oldest [simp]: "(\<And>p. anchor (blank p) = anchor p) \<Longrightarrow> (\<And>p. c (blank p) = c p) \<Longrightarrow> oldest_by (blank_db d) now anchor c = oldest_by d now anchor c"
  by (simp add: oldest_by_def blanked_list comp_def)

lemma blank_status [simp]: "cli_reconciliation_status fm cfg w (blank_db d) rows fa now j = cli_reconciliation_status fm cfg w d rows fa now j"
  by (simp add: cli_reconciliation_status_def build_reconciliation_status_snapshot_def buckets_of_def queue_of_def recent_stats_of_def
      blanked_list Let_def)

lemma blank_local [simp]:
  "local_snapshot_of cfg now (blank p) = local_snapshot_of cfg now p" "reconcile_local_dict (blank p) loc = reconcile_local_dict p loc"
  "print_reconcile_local_human fm (blank p) loc = print_reconcile_local_human fm p loc"
  by (simp_all add: local_snapshot_of_def reconcile_local_dict_def print_reconcile_local_human_def Let_def)

lemma blank_preview [simp]: "build_preview (blank_db d) cfg i now = build_preview d cfg i now"
  by (cases "payment_by_id d i")
    (simp_all add: build_preview_def build_local_snapshot_def recovery_snapshot_of_def determine_recovery_refusal_def)

lemma blank_reconcile:
  assumes "\<not> (w \<and> enabled)"
  shows "reconcile_output fm j i (cmd_reconcile cl http cfg enabled (blank_db d) d' now i w c)
       = reconcile_output fm j i (cmd_reconcile cl http cfg enabled d d'' now i w c)"
  using assms by (auto simp: cmd_reconcile_def build_local_snapshot_def with_local_def split: sum.split option.split)

text \<open>Every entry of the report stays what it is, over blanked payments.\<close>

definition blank_entry :: "overview_entry \<Rightarrow> overview_entry" where
  "blank_entry e = e\<lparr>oe_payment := blank (oe_payment e)\<rparr>"

lemma blank_entries [simp]:
  "waiting_entry (blank p) = blank_entry (waiting_entry p)" "expired_entry (blank p) = blank_entry (expired_entry p)"
  "exhausted_entry (blank p) = blank_entry (exhausted_entry p)" "unexpected_entry (blank p) = blank_entry (unexpected_entry p)"
  "stuck_entry_dict (blank_entry e) now = stuck_entry_dict e now" "stuck_entry_lines fm i (blank_entry e) now = stuck_entry_lines fm i e now"
  by (simp_all add: blank_entry_def waiting_entry_def expired_entry_def exhausted_entry_def unexpected_entry_def gateway_state_def
      stuck_entry_dict_def stuck_entry_lines_def entry_attempts_def entry_next_retry_def age_anchor_def Let_def cong: option.case_cong)

lemma blank_rows:
  assumes "\<And>p. c' (blank p) = c p" "\<And>p. order (blank p) = order p"
  shows "rows_with_exact_total c' order n (blank_db d) = map_prod (map blank) id (rows_with_exact_total c order n d)"
  using assms by (simp add: rows_with_exact_total_def Let_def filter_map comp_def first_n_by_map [where key' = order])

lemma blank_reused:
  "reused_needs_attention (blank_db d) cfg t = map_prod (map blank_entry) id (reused_needs_attention d cfg t)"
proof -
  let ?is = open_manual_review_conditions
  have rows: "attention_rows ?is (blank_db d) c = map blank (attention_rows ?is d c)" for c
    by (simp add: attention_rows_def filter_map comp_def)
  have order: "first_n_by (snapshot_order ?is (blank_db d)) n (map blank xs) = map blank (first_n_by (snapshot_order ?is d) n xs)" for n xs
    by (rule first_n_by_map) (simp add: snapshot_order_def)
  have entry: "se_category (if ?is p then review_entry (blank p) else pending_entry c (blank p)) = se_category (if ?is p then review_entry p else pending_entry c p)"
    "se_payment (if ?is p then review_entry (blank p) else pending_entry c (blank p)) = blank p"
    "se_payment (if ?is p then review_entry p else pending_entry c p) = p" for p c
    by (simp_all add: review_entry_def pending_entry_def split: option.split)
  show ?thesis
    by (simp add: reused_needs_attention_def open_attention_snapshot_def attention_overview_of_def Let_def rows order comp_def entry blank_entry_def)
qed

lemma blank_stuck [simp]: "cli_stuck fm cfg (blank_db d) t now limit j = cli_stuck fm cfg d t now limit j"
proof -
  let ?ov = "stuck_payments_overview d cfg t"
  have ov: "stuck_payments_overview (blank_db d) cfg t =
      ?ov\<lparr>so_needs_attention := map blank_entry (so_needs_attention ?ov), so_waiting_gateway := map blank_entry (so_waiting_gateway ?ov),
          so_expired := map blank_entry (so_expired ?ov)\<rparr>"
    by (simp add: stuck_payments_overview_def blank_reused Let_def split_beta comp_def
        blank_rows [where c = "reconciliation_exhausted_conditions cfg t"] blank_rows [where c = "waiting_conditions cfg t"]
        blank_rows [where c = "expired_conditions cfg t"] blank_rows [where c = "unexpected_status_conditions d t"])
  have ordered: "so_ordered (stuck_payments_overview (blank_db d) cfg t) = map blank_entry (so_ordered ?ov)"
    by (simp add: ov so_ordered_def)
  then have shown: "stuck_shown (stuck_payments_overview (blank_db d) cfg t) limit = map blank_entry (stuck_shown ?ov limit)"
    by (simp add: stuck_shown_def take_map)
  have lines: "concat (map (\<lambda>(i, e). Line [] # map Line (stuck_entry_lines fm i e now)) (enumerate k (map blank_entry es)))
      = concat (map (\<lambda>(i, e). Line [] # map Line (stuck_entry_lines fm i e now)) (enumerate k es))" for k es
    by (induction es arbitrary: k) simp_all
  have counts: "stuck_summary_dict (stuck_payments_overview (blank_db d) cfg t) n = stuck_summary_dict ?ov n"
    "print_stuck_truncation_note (stuck_payments_overview (blank_db d) cfg t) m n = print_stuck_truncation_note ?ov m n"
    "so_total_needs_attention (stuck_payments_overview (blank_db d) cfg t) = so_total_needs_attention ?ov"
    "so_total_waiting_gateway (stuck_payments_overview (blank_db d) cfg t) = so_total_waiting_gateway ?ov"
    "so_total_expired (stuck_payments_overview (blank_db d) cfg t) = so_total_expired ?ov" for m n
    by (simp_all add: stuck_summary_dict_def print_stuck_truncation_note_def so_total_def so_ordered_def ov)
  show ?thesis by (simp add: cli_stuck_def Let_def ordered shown counts lines comp_def)
qed

text \<open>The commands that ask the gateway: the diagnostic check, where it is enabled, and a confirmed recovery.\<close>

fun asks_gateway :: "cli_context \<Rightarrow> cli_command \<Rightarrow> bool" where
  "asks_gateway cx (Reconcile order_id want_verify confirm_aged_out as_json) \<longleftrightarrow> want_verify \<and> cx_verify_enabled cx"
| "asks_gateway cx (Recover_Aged_Out order_id confirm as_json) \<longleftrightarrow> confirm"
| "asks_gateway cx _ \<longleftrightarrow> False"



section \<open>The recovery report\<close>

text \<open>Printing apart, the command is \<open>cmd_recover_aged_out\<close>.\<close>

fun exit_of :: "lookup_error + int \<Rightarrow> command_result" where
  "exit_of (Inl e) = Uncaught ''ValueError''"
| "exit_of (Inr n) = Exit n"

lemma recover_refines:
  "map_prod id snd (cli_recover_aged_out fm cl http cfg s i confirm j) = map_prod id exit_of (cmd_recover_aged_out cl http cfg s i confirm)"
  by (auto simp: cli_recover_aged_out_def cmd_recover_aged_out_def lookup_error_output_def lookup_failure_def not_found_def
      split: sum.split option.split lookup_error.split prod.split)

text \<open>What the messages of the report say of the row.\<close>

fun report_true :: "settings \<Rightarrow> time \<Rightarrow> payment \<Rightarrow> recovery_kind \<Rightarrow> payment \<Rightarrow> bool" where
  "report_true cfg now p RK_REFUSED q \<longleftrightarrow> q = p \<and> \<not> aged_out_conditions cfg now p"
| "report_true cfg now p RK_VERIFIED q \<longleftrightarrow> p_status q = BOT_NOTIFY_PENDING \<and> p_gateway_verified_at q = Some now \<and> p_next_retry_at q = Some now"
| "report_true cfg now p RK_MANUAL_REVIEW q \<longleftrightarrow> p_status q = MANUAL_REVIEW \<and> p_gateway_verified_at q = None"
| "report_true cfg now p RK_GATEWAY_NOT_PAID q \<longleftrightarrow>
     p_status q = LINK_CREATED \<and> p_gateway_verified_at q = None \<and> (\<exists>e. q = p\<lparr>p_last_error := e\<rparr>)
   \<and> (\<forall>t \<ge> now. \<not> active_tier_due_conditions cfg t q \<and> \<not> expiring_tier_due_conditions cfg t q)"
| "report_true cfg now p RK_TRANSPORT_FAILED q \<longleftrightarrow>
     p_status q = LINK_CREATED \<and> p_gateway_verified_at q = None \<and> (\<exists>e. q = p\<lparr>p_last_error := e\<rparr>)
   \<and> (\<forall>t \<ge> now. \<not> active_tier_due_conditions cfg t q \<and> \<not> expiring_tier_due_conditions cfg t q)"

lemma never_due_again:
  assumes "aged_out_conditions cfg now p" "now \<le> t" "reconciliation_fast_window_seconds cfg \<le> reconciliation_max_age_seconds cfg"
  shows "\<not> active_tier_due_conditions cfg t (p\<lparr>p_last_error := e\<rparr>) \<and> \<not> expiring_tier_due_conditions cfg t (p\<lparr>p_last_error := e\<rparr>)"
proof -
  have "link_age_anchor p \<le> t - of_int (reconciliation_max_age_seconds cfg)"
    using assms(1,2) by (simp add: aged_out_conditions_def aged_out_age_condition_def)
  moreover have "of_int (reconciliation_fast_window_seconds cfg) \<le> (of_int (reconciliation_max_age_seconds cfg) :: rat)" using assms(3) by simp
  ultimately show ?thesis
    by (auto simp: active_tier_due_conditions_def expiring_tier_due_conditions_def tier_due_conditions_def tier_age_conditions_def link_age_anchor_def)
qed

lemma settled_row_true:
  assumes "payment_by_id (work s) (p_id p) = Some p" "aged_out_conditions cfg (clock s) p"
    "reconciliation_fast_window_seconds cfg \<le> reconciliation_max_age_seconds cfg"
  shows "\<exists>q. payment_by_id (durable (fst (verify_and_settle cl http (Some cfg) Recovery_Source s p))) (p_id p) = Some q
    \<and> report_true cfg (clock s) p
        (case snd (verify_and_settle cl http (Some cfg) Recovery_Source s p) of Inl _ \<Rightarrow> RK_TRANSPORT_FAILED | Inr out \<Rightarrow> fst (settled_kind out)) q"
proof -
  have p: "p_status p = LINK_CREATED" "p_gateway_verified_at p = None" using assms(2) by (simp_all add: aged_out_conditions_def)
  have there: "find_row p_id (payments (work s)) (p_id p) = Some p" using assms(1) by (simp add: payment_by_id_def)
  show ?thesis
  proof (cases rule: verify_and_settle_cases [of cl http p s "Some cfg" Recovery_Source])
    case (settled r)
    have "payment_by_id (durable (fst (validate_and_apply_verification (Some cfg) s p r))) (p_id p) = Some (queued_state p r (clock s))"
      using there by (simp add: apply_settles(2,3) [OF settled(2)] payment_by_id_def find_row_put_row)
    then show ?thesis unfolding settled(3) by (simp add: queued_state_def settled_state_def)
  next
    case (review r m d)
    show ?thesis unfolding review(3) using there p by (simp add: payment_by_id_def find_row_put_row)
  next
    case (noted e s' out)
    then have "payment_by_id (durable s') (p_id p) = Some (p\<lparr>p_last_error := Some e\<rparr>)"
      using there by (simp add: payment_by_id_def find_row_put_row)
    moreover have "report_true cfg (clock s) p k (p\<lparr>p_last_error := Some e\<rparr>)" if "k = RK_TRANSPORT_FAILED \<or> k = RK_GATEWAY_NOT_PAID" for k
    proof -
      have "\<exists>e'. p\<lparr>p_last_error := Some e\<rparr> = p\<lparr>p_last_error := e'\<rparr>" by blast
      moreover have "\<forall>t \<ge> clock s. \<not> active_tier_due_conditions cfg t (p\<lparr>p_last_error := Some e\<rparr>)
          \<and> \<not> expiring_tier_due_conditions cfg t (p\<lparr>p_last_error := Some e\<rparr>)"
        using never_due_again [OF assms(2) _ assms(3)] by blast
      ultimately show ?thesis using that p by (elim disjE) simp_all
    qed
    moreover have "(case out of Inl _ \<Rightarrow> RK_TRANSPORT_FAILED | Inr out \<Rightarrow> fst (settled_kind out)) \<in> {RK_TRANSPORT_FAILED, RK_GATEWAY_NOT_PAID}"
      using noted(2) by auto
    ultimately show ?thesis unfolding noted(1) fst_conv snd_conv by blast
  qed
qed

lemma confirmed_recovery_row:
  assumes "work s = durable s" "payment_by_id (durable s) (p_id p) = Some p"
    "reconciliation_fast_window_seconds cfg \<le> reconciliation_max_age_seconds cfg"
  shows "\<exists>s1 snap out q. execute_confirmed_recovery cl http cfg s (p_id p) = (s1, Some (snap, out))
    \<and> payment_by_id (durable s1) (p_id p) = Some q \<and> report_true cfg (clock s) p (ro_kind out) q"
proof (cases "aged_out_conditions cfg (clock s) p")
  case False
  then obtain refusal where "determine_recovery_refusal p (local_snapshot_of cfg (clock s) p) = Some refusal"
    using recovery_eligible by (metis not_None_eq)
  then show ?thesis
    using False assms(1,2) by (simp add: execute_confirmed_recovery_def build_local_snapshot_def Let_def payment_by_id_def)
next
  case True
  let ?s1 = "record_event s (Some (p_id p)) ''aged_out_recovery_requested'' ''info'' [(''gateway_order_id'', JInt (p_gateway_order_id p))]"
  obtain s2 r where vs: "verify_and_settle cl http (Some cfg) Recovery_Source ?s1 p = (s2, r)" by fastforce
  have "payment_by_id (work ?s1) (p_id p) = Some p" "aged_out_conditions cfg (clock ?s1) p" using assms(1,2) True by (simp_all add: payment_by_id_def)
  from settled_row_true [OF this assms(3), of cl http] obtain q where
    q: "payment_by_id (durable s2) (p_id p) = Some q"
      "report_true cfg (clock s) p (case r of Inl _ \<Rightarrow> RK_TRANSPORT_FAILED | Inr out \<Rightarrow> fst (settled_kind out)) q"
    unfolding vs by auto
  have "durable s2 = work s2" using verify_and_settle_clean [of cl http "Some cfg" Recovery_Source ?s1 p] vs by simp
  moreover have "determine_recovery_refusal p (local_snapshot_of cfg (clock s) p) = None" using True by (simp add: recovery_eligible)
  ultimately show ?thesis
    using q assms(1,2) vs by (cases r) (simp_all add: execute_confirmed_recovery_def build_local_snapshot_def Let_def payment_by_id_def recovered_def)
qed

text \<open>
  C38. What \<open>recover-aged-out --confirm\<close> reports is what happened to the row, as committed: refused means the payment is not
  of the aged-out tier and is unchanged; verified means it is verified and queued for the bot; manual review means it
  is held there, unverified; not paid and a failed call leave the link as it was but for the error text, and
  automatic reconciliation never polls it again. The exit code is 1 for a failed call and 0 otherwise.
\<close>

theorem recovery_report_true:
  assumes "work s = durable s" "find_payment_by_order_id (durable s) order_id = Inr (Some p)" "payment_by_id (durable s) (p_id p) = Some p"
    "reconciliation_fast_window_seconds cfg \<le> reconciliation_max_age_seconds cfg"
  shows "\<exists>s' snap out q. cli_recover_aged_out fm cl http cfg s order_id True as_json
             = (s', confirm_output fm cfg as_json snap out, Exit (if ro_kind out = RK_TRANSPORT_FAILED then 1 else 0))
         \<and> payment_by_id (durable s') (p_id p) = Some q \<and> report_true cfg (clock s) p (ro_kind out) q"
proof -
  let ?c = "configure_alert_creation cfg s"
  have "work ?c = durable ?c" "payment_by_id (durable ?c) (p_id p) = Some p" "clock ?c = clock s"
    using assms(1,3) by (simp_all add: configure_alert_creation_def)
  then obtain s1 snap out q where "execute_confirmed_recovery cl http cfg ?c (p_id p) = (s1, Some (snap, out))"
    "payment_by_id (durable s1) (p_id p) = Some q" "report_true cfg (clock s) p (ro_kind out) q"
    using confirmed_recovery_row [of ?c p cfg cl http] assms(4) by auto
  moreover from this(1) have "cli_recover_aged_out fm cl http cfg s order_id True as_json
      = (s1, confirm_output fm cfg as_json snap out, Exit (if ro_kind out = RK_TRANSPORT_FAILED then 1 else 0))"
    using assms(1,2) by (simp add: cli_recover_aged_out_def)
  ultimately show ?thesis by blast
qed

theorem recovery_report_true_witness:
  "\<forall>fm. \<exists>s' snap out q.
     cli_recover_aged_out fm demo_client (paid_reply good_data) demo_settings (new_session (empty_db\<lparr>payments := [demo_payment 1 ''a'']\<rparr>) 90000) ''a'' True True
       = (s', confirm_output fm demo_settings True snap out, Exit (if ro_kind out = RK_TRANSPORT_FAILED then 1 else 0))
   \<and> payment_by_id (durable s') 1 = Some q \<and> report_true demo_settings 90000 (demo_payment 1 ''a'') (ro_kind out) q"
proof
  fix fm
  let ?s = "new_session (empty_db\<lparr>payments := [demo_payment 1 ''a'']\<rparr>) 90000" and ?p = "demo_payment 1 ''a''"
  have hyps: "work ?s = durable ?s" "find_payment_by_order_id (durable ?s) ''a'' = Inr (Some ?p)"
    "payment_by_id (durable ?s) (p_id ?p) = Some ?p"
    "reconciliation_fast_window_seconds demo_settings \<le> reconciliation_max_age_seconds demo_settings"
    by code_simp+
  have "p_id ?p = 1" "clock ?s = 90000" by code_simp+
  then show "\<exists>s' snap out q.
     cli_recover_aged_out fm demo_client (paid_reply good_data) demo_settings ?s ''a'' True True
       = (s', confirm_output fm demo_settings True snap out, Exit (if ro_kind out = RK_TRANSPORT_FAILED then 1 else 0))
   \<and> payment_by_id (durable s') 1 = Some q \<and> report_true demo_settings 90000 ?p (ro_kind out) q"
    using recovery_report_true [OF hyps, of fm demo_client "paid_reply good_data" True] by simp
qed

end
