(* ===== verification/Ops_Reports.thy ===== *)
theory Ops_Reports
  imports Cli Db_Check
begin

text \<open>
  The operator commands as a whole (\<open>app/ops.py\<close>): the reports they print, the messages of
  \<open>app/services/attention.py\<close>, and the dispatch of \<open>main\<close> with its guards. Shown: a command that reads or that lacks
  its confirmation commits nothing, and what \<open>attention show\<close> says of a payment is what \<open>attention resolve\<close> does.
\<close>

section \<open>Reviews and fees\<close>

definition review_summary :: "payment \<Rightarrow> jdict" where
  "review_summary p =
     [(''bot_order_id'', JStr (p_bot_order_id p)), (''gateway_order_id'', JInt (p_gateway_order_id p)),
      (''original_bot_invoice'', JInt (p_amount p)), (''amount'', JInt (p_amount p)), (''fee_rate_bps'', JInt (p_fee_rate_bps p)),
      (''fee_amount'', JInt (p_fee_amount p)), (''paid_through_gateway'', JInt (p_payable_amount p)),
      (''status'', JStr (status_value (p_status p))), (''gateway_verified'', JBool (p_gateway_verified_at p \<noteq> None)),
      (''reason'', jopt_str (str_or (map_option reason_value (p_bot_notify_reason p)) (p_last_error p))),
      (''attempts'', JInt (p_bot_notify_attempts p)), (''reference_id'', jopt_str (p_reference_id p)),
      (''manual_review_at'', jopt_time (p_manual_review_at p)), (''acknowledged_at'', jopt_time (p_review_acknowledged_at p)),
      (''resolved_at'', jopt_time (p_review_resolved_at p)), (''resolution'', jopt_str (p_review_resolution p))]"

definition review_list_output :: "db \<Rightarrow> bool \<Rightarrow> out_line list" where
  "review_list_output d include_resolved =
     (case review_list d include_resolved of
        [] \<Rightarrow> [Line (if include_resolved then ''none'' else ''no unresolved manual-review payments'')]
      | ps \<Rightarrow> map (Json \<circ> review_summary) ps)"

definition fee_status_output :: "cli_format \<Rightarrow> db \<Rightarrow> time \<Rightarrow> out_line list" where
  "fee_status_output fm d now =
     (case select_effective_policy d now of
        None \<Rightarrow> [Line ''Current fee: 0% (no fee policy configured)'']
      | Some f \<Rightarrow>
          [Line (''Current fee: '' @ format_rate_percent (fp_rate_bps f)), Line (''Rate basis points: '' @ show_int (fp_rate_bps f)),
           Line (''Effective since: '' @ cf_iso fm (fp_effective_at f)), Line (''Policy ID: '' @ show_int (fp_id f))])
   @ (case next_scheduled_policy d now of
        None \<Rightarrow> []
      | Some f \<Rightarrow>
          [Line (''Next scheduled: '' @ format_rate_percent (fp_rate_bps f) @ '' at '' @ cf_iso fm (fp_effective_at f) @ '' (policy ''
                 @ show_int (fp_id f) @ '')'')])
   @ [Line ''Applies to: new payment orders only'']"

definition fee_history_entry :: "fee_policy \<Rightarrow> jdict" where
  "fee_history_entry f =
     [(''policy_id'', JInt (fp_id f)), (''rate_bps'', JInt (fp_rate_bps f)), (''rate'', JStr (format_rate_percent (fp_rate_bps f))),
      (''effective_at'', JTime (fp_effective_at f)), (''created_at'', JTime (fp_created_at f)), (''created_by'', JStr (fp_created_by f)),
      (''note'', JStr (fp_note f)), (''state'', JStr (if fp_cancelled_at f \<noteq> None then ''cancelled'' else ''active/scheduled'')),
      (''cancelled_at'', jopt_time (fp_cancelled_at f)), (''cancelled_by'', jopt_str (fp_cancelled_by f))]"

definition fee_history_output :: "db \<Rightarrow> out_line list" where
  "fee_history_output d =
     (case sort_key fp_id (fee_policies d) of
        [] \<Rightarrow> [Line ''No fee policies recorded.'']
      | fs \<Rightarrow> map (Json \<circ> fee_history_entry) fs)"

section \<open>Attention items\<close>

fun attention_refusal_value :: "attention_refusal \<Rightarrow> string" where
  "attention_refusal_value AT_ALREADY_RESOLVED = ''already_resolved''"
| "attention_refusal_value AT_NOT_YET_STALE = ''not_yet_stale''"
| "attention_refusal_value AT_EMPTY_NOTE = ''empty_note''"
| "attention_refusal_value AT_STATUS_NOT_ELIGIBLE = ''status_not_eligible''"
| "attention_refusal_value AT_RESOLUTION_NOT_VALID_FOR_STATUS = ''resolution_not_valid_for_status''"
| "attention_refusal_value AT_GATEWAY_VERIFIED = ''gateway_verified''"
| "attention_refusal_value AT_HAS_REFERENCE_ID = ''has_reference_id''"
| "attention_refusal_value AT_UNDER_MANUAL_REVIEW = ''under_manual_review''"
| "attention_refusal_value AT_BOT_NOTIFICATION_ATTEMPTED = ''bot_notification_attempted''"
| "attention_refusal_value AT_PAYMENT_LINK_ISSUED = ''payment_link_issued''"

text \<open>\<open>str.format\<close> prints \<open>None\<close> for a missing value.\<close>

definition none_or :: "string option \<Rightarrow> string" where
  "none_or v = coalesce v ''None''"

text \<open>The templates with their fields filled in: status, resolution, time and operator.\<close>

fun REFUSAL_MESSAGE ::
  "cli_format \<Rightarrow> attention_refusal \<Rightarrow> string \<Rightarrow> string option \<Rightarrow> time option \<Rightarrow> string option \<Rightarrow> string" where
  "REFUSAL_MESSAGE fm AT_ALREADY_RESOLVED status resolution resolved_at resolved_by =
     ''refused: this payment's attention item is already resolved (resolution='' @ none_or resolution @ '', at=''
     @ none_or (map_option (cf_iso fm) resolved_at) @ '', by='' @ none_or resolved_by
     @ ''). Attention resolution is recorded once and never overwritten.''"
| "REFUSAL_MESSAGE fm AT_NOT_YET_STALE status resolution resolved_at resolved_by =
     ''refused: this payment is younger than the '' @ show_int UNEXPECTED_STATE_GRACE_SECONDS
     @ ''s grace period, so it is still in flight, not a stale failure. `centralpay stuck` and `centralpay attention list` ''
     @ ''deliberately do not show it yet '' @ cf_sym fm ''em dash'' @ '' creation may still be in progress. Wait, then re-check.''"
| "REFUSAL_MESSAGE fm AT_EMPTY_NOTE status resolution resolved_at resolved_by =
     ''refused: --note and the actor must be non-empty. The note is one of the four fields that record WHY this incident was closed; a blank ''
     @ ''one would leave an unauditable resolution.''"
| "REFUSAL_MESSAGE fm AT_STATUS_NOT_ELIGIBLE status resolution resolved_at resolved_by =
     ''refused: status='' @ status @ '' is not an attention-resolvable state. Only created, getlink_failed may be resolved this way; a ''
     @ ''manual_review payment is resolved with `centralpay review resolve` instead.''"
| "REFUSAL_MESSAGE fm AT_RESOLUTION_NOT_VALID_FOR_STATUS status resolution resolved_at resolved_by =
     ''refused: resolution='' @ none_or resolution @ '' does not apply to status='' @ status @ ''.''"
| "REFUSAL_MESSAGE fm AT_GATEWAY_VERIFIED status resolution resolved_at resolved_by =
     ''refused: this payment IS gateway verified (gateway_verified_at is set). It is financially meaningful and must not be closed as a ''
     @ ''stale non-financial failure.''"
| "REFUSAL_MESSAGE fm AT_HAS_REFERENCE_ID status resolution resolved_at resolved_by =
     ''refused: this payment carries a CentralPay reference_id, so a gateway transaction exists for it.''"
| "REFUSAL_MESSAGE fm AT_UNDER_MANUAL_REVIEW status resolution resolved_at resolved_by =
     ''refused: this payment has been referred to manual review (manual_review_at is set). Use `centralpay review` for it.''"
| "REFUSAL_MESSAGE fm AT_BOT_NOTIFICATION_ATTEMPTED status resolution resolved_at resolved_by =
     ''refused: a downstream bot notification was already attempted for this payment (bot_notify_attempts > 0).''"
| "REFUSAL_MESSAGE fm AT_PAYMENT_LINK_ISSUED status resolution resolved_at resolved_by =
     ''refused: this bridge holds a payment URL for this order (redirect_url is set), so it was returned to the calling bot and a ''
     @ ''payer could have paid it. Investigate with `centralpay reconcile ORDER_ID` first.''"

definition snapshot_refusal_message :: "cli_format \<Rightarrow> attention_snapshot \<Rightarrow> string option" where
  "snapshot_refusal_message fm a =
     map_option (\<lambda>r. REFUSAL_MESSAGE fm r (status_value (as_status a)) (as_attention_resolution a) (as_attention_resolved_at a)
       (as_attention_resolved_by a)) (as_refusal a)"

definition outcome_refusal_message :: "cli_format \<Rightarrow> attention_outcome \<Rightarrow> string option" where
  "outcome_refusal_message fm out =
     map_option (\<lambda>r. REFUSAL_MESSAGE fm r (ao_status out) (ao_existing_resolution out) (ao_existing_resolved_at out)
       (ao_existing_resolved_by out)) (ao_refusal out)"

definition attention_summary :: "cli_format \<Rightarrow> attention_snapshot \<Rightarrow> jdict" where
  "attention_summary fm a =
     [(''bot_order_id'', JStr (as_bot_order_id a)), (''gateway_order_id'', JInt (as_gateway_order_id a)),
      (''status'', JStr (status_value (as_status a))), (''original_bot_invoice'', JInt (as_amount a)), (''amount'', JInt (as_amount a)),
      (''fee_rate_bps'', JInt (as_fee_rate_bps a)), (''fee_amount'', JInt (as_fee_amount a)),
      (''paid_through_gateway'', JInt (as_payable_amount a)), (''gateway_verified'', JBool (as_gateway_verified a)),
      (''gateway_verified_at'', jopt_time (as_gateway_verified_at a)), (''reference_id'', jopt_str (as_reference_id a)),
      (''redirect_url_present'', JBool (as_redirect_url_present a)), (''callback_token_issued'', JBool (as_callback_token_issued a)),
      (''bot_notify_attempts'', JInt (as_bot_notify_attempts a)), (''manual_review_at'', jopt_time (as_manual_review_at a)),
      (''last_error_code'', jopt_str (as_last_error_code a)), (''created_at'', JTime (as_created_at a)),
      (''attention_resolved'', JBool (as_attention_resolved_at a \<noteq> None)), (''attention_resolved_at'', jopt_time (as_attention_resolved_at a)),
      (''attention_resolution'', jopt_str (as_attention_resolution a)), (''attention_resolved_by'', jopt_str (as_attention_resolved_by a)),
      (''attention_resolution_note'', jopt_str (as_attention_resolution_note a)), (''resolvable'', JBool (as_refusal a = None)),
      (''attention_resolution_superseded'', JBool (as_superseded a)),
      (''refusal'', jopt_str (map_option attention_refusal_value (as_refusal a))),
      (''refusal_message'', jopt_str (snapshot_refusal_message fm a)),
      (''eligible_resolutions'', JArr (map JStr (as_eligible_resolutions a)))]"

definition snapshot_in_db :: "db \<Rightarrow> time \<Rightarrow> payment \<Rightarrow> attention_snapshot" where
  "snapshot_in_db d now p = attention_snapshot_of p now (resolution_superseded_in_db d p) (latest_link_failure_code d (p_id p))"

definition attention_list_output :: "cli_format \<Rightarrow> db \<Rightarrow> time \<Rightarrow> bool \<Rightarrow> nat \<Rightarrow> out_line list" where
  "attention_list_output fm d now historic limit =
     (let ps = attention_list d now historic limit; codes = latest_link_failure_codes d (map p_id ps)
      in if ps = [] then
           [Line (if historic then ''no resolved attention items'' else ''no open attention items in an attention-resolvable state'')]
         else map (\<lambda>p. Json (attention_summary fm
                (attention_snapshot_of p now (resolution_superseded_in_db d p) (coalesce (map_of codes (p_id p)) None)))) ps)"

definition attention_show_output :: "cli_format \<Rightarrow> db \<Rightarrow> time \<Rightarrow> string \<Rightarrow> out_line list \<times> command_result" where
  "attention_show_output fm d now order_id =
     (case find_payment_by_order_id d order_id of
        Inl AmbiguousOrderIdError \<Rightarrow> ([Stderr (''ambiguous order id: '' @ order_id)], Exit 1)
      | Inl OrderIdValueError \<Rightarrow> ([], Uncaught ''ValueError'')
      | Inr None \<Rightarrow> ([Stderr (''payment not found: '' @ order_id)], Exit 1)
      | Inr (Some p) \<Rightarrow> ([Json (attention_summary fm (snapshot_in_db d now p))], Exit 0))"

definition attention_resolve_output :: "cli_format \<Rightarrow> attention_outcome \<Rightarrow> out_line list" where
  "attention_resolve_output fm out =
     (if ao_resolved out then
        [Line (''resolved attention for '' @ ao_bot_order_id out @ '': '' @ none_or (ao_resolution out) @ '' (status unchanged: ''
               @ ao_status out @ '')'')]
      else [Stderr (none_or (outcome_refusal_message fm out))])"

definition attention_resolve_warning :: "string \<Rightarrow> string \<Rightarrow> string list" where
  "attention_resolve_warning order_id resolution =
     [''About to record an operational attention resolution for '' @ order_id @ '' (resolution='' @ resolution @ '').'',
      ''  - Does NOT contact CentralPay.'',
      ''  - Does NOT contact the selling bot.'',
      ''  - Does NOT credit any customer.'',
      ''  - Does NOT change the payment status (a getlink_failed payment stays getlink_failed).'',
      ''  - Does NOT change amounts, fees, verification facts, reference ids, or payer identity.'',
      ''  - Does NOT delete the payment, any payment event, or any admin alert.'',
      ''  - Removes it from the CURRENT needs-attention worklist only; it stays fully inspectable.'',
      ''  - Does NOT block a later legitimate settlement: if CentralPay did create a link this bridge never received and a payer pays it, the ''
      @ ''normal callback path still settles the payment and it reappears in the ordinary delivery surfaces.'',
      ''You are asserting only that THIS BRIDGE never delivered a payment link for this order and has nothing further to do about it.'',
      ''Re-run with --yes to confirm.'']"

section \<open>Manual acceptance and bulk resolution\<close>

fun NOTIFICATION_ACCEPT_REFUSAL_MESSAGE :: "manual_accept_refusal \<Rightarrow> payment_status \<Rightarrow> string" where
  "NOTIFICATION_ACCEPT_REFUSAL_MESSAGE NOT_BOT_NOTIFY_PENDING st =
     ''refused: payment is not in bot_notify_pending (status='' @ status_value st @ '')''"
| "NOTIFICATION_ACCEPT_REFUSAL_MESSAGE NOT_GATEWAY_VERIFIED st =
     ''refused: payment has no recorded gateway verification (gateway_verified_at is NULL) even though status=bot_notify_pending''"

definition notification_accept_warning :: "string \<Rightarrow> string list" where
  "notification_accept_warning order_id =
     [''About to mark '' @ order_id @ [CHR 0x27] @ ''s bot notification as operator-confirmed accepted.'',
      ''  - Does NOT contact the bot.'', ''  - Does NOT credit the customer.'', ''  - Does NOT change gateway verification.'',
      ''  - Does NOT change payment amounts.'', ''  - Records an operator-confirmed notification outcome.'',
      ''  - Permanently stops automatic notification retries for this payment.'', ''Re-run with --yes to confirm.'']"

definition bulk_resolve_warning :: "nat \<Rightarrow> string \<Rightarrow> string list" where
  "bulk_resolve_warning n resolution =
     [''About to resolve '' @ show_nat n @ '' manual review(s) with resolution='' @ resolution @ ''.'',
      ''  - Only allowlisted downstream-DELIVERY failures are eligible; financial/verification reviews are refused and must be handled ''
      @ ''individually.'',
      ''  - Does NOT contact CentralPay.'', ''  - Does NOT contact the selling bot.'', ''  - Does NOT credit any customer.'',
      ''  - Does NOT change amounts, fees, verification facts, or reference ids.'',
      ''  - Does NOT change payment status (rows stay manual_review as permanent history).'',
      ''  - Records one audited resolution per payment, all-or-nothing.'', ''Re-run with --yes to confirm.'']"

definition invalid_payment_status_row :: "cli_format \<Rightarrow> payment \<Rightarrow> json \<Rightarrow> jdict" where
  "invalid_payment_status_row fm p audit_events =
     [(''id'', JInt (p_id p)), (''bot_order_id'', JStr (p_bot_order_id p)), (''gateway_order_id'', JInt (p_gateway_order_id p)),
      (''status'', JStr (status_value (p_status p))), (''gateway_verified'', JBool (p_gateway_verified_at p \<noteq> None)),
      (''gateway_verified_at'', jopt_time (p_gateway_verified_at p)),
      (''bot_notify_reason'', jopt_str (map_option reason_value (p_bot_notify_reason p))),
      (''bot_notify_attempts'', JInt (p_bot_notify_attempts p)), (''bot_last_http_status'', jopt_int (p_bot_last_http_status p)),
      (''bot_notify_started_at'', jopt_time (p_bot_notify_started_at p)), (''bot_notify_accepted_at'', jopt_time (p_bot_notify_accepted_at p)),
      (''next_retry_at'', jopt_time (p_next_retry_at p)), (''manual_review_at'', jopt_time (p_manual_review_at p)),
      (''review_acknowledged_at'', jopt_time (p_review_acknowledged_at p)), (''review_resolved_at'', jopt_time (p_review_resolved_at p)),
      (''review_resolution'', jopt_str (p_review_resolution p)), (''created_at'', JTime (p_created_at p)),
      (''updated_at'', JTime (cf_updated_at fm (p_id p))), (''audit_events'', audit_events)]"

section \<open>Dispatch\<close>

datatype ops_command =
    Backup_Event bool string string int string
  | Test_Alert
  | Privacy_Audit
  | Db_Check_Cmd bool bool bool
  | Fee_Status
  | Fee_History
  | Fee_Set string string string bool
  | Fee_Ensure_Initial "string option" string string
  | Fee_Schedule_At string "(bool \<times> time) option" string string
  | Fee_Cancel int string string
  | Review_List bool
  | Review_One review_command string
  | Review_Resolve_Many "string list" string string bool
  | Attention_List bool int
  | Attention_Show string
  | Attention_Resolve string string string bool
  | Notification_Accept string string bool

record ops_context =
  ox_format :: cli_format
  ox_settings :: settings
  ox_revision :: "string option"
  ox_others :: "db \<Rightarrow> db"
  ox_test_message :: string

text \<open>
  The session, the sequences of the tables and the result. The commands that only print close their session without a
  commit. \<open>LIMIT\<close> beyond \<open>BIGINT\<close> is refused by the driver.
\<close>

definition ops_main ::
  "ops_context \<Rightarrow> session \<Rightarrow> sequence_row list \<Rightarrow> ops_command \<Rightarrow> session \<times> sequence_row list \<times> command_result" where
  "ops_main ox s seqs c =
     (let cfg = ox_settings ox; run = (\<lambda>(s', r). (s', seqs, r))
      in case c of
           Backup_Event success filesize file_name retention_days detail \<Rightarrow>
             run (cmd_backup_event cfg s success filesize file_name retention_days detail)
         | Test_Alert \<Rightarrow> run (cmd_test_alert cfg s (ox_test_message ox))
         | Privacy_Audit \<Rightarrow> run (rollback s, Exit (if pr_failures (cmd_privacy_audit cfg (work s)) = [] then 0 else 1))
         | Db_Check_Cmd repair_sequences details details_json \<Rightarrow>
             if details \<and> repair_sequences \<or> details_json \<and> \<not> details then run (s, Exit 1)
             else (case run_db_checks (ox_revision ox) (work s) seqs repair_sequences of
                     (seqs', report) \<Rightarrow> (rollback s, seqs', Exit (if report_ok report then 0 else 1)))
         | Fee_Status \<Rightarrow> run (rollback s, Exit 0)
         | Fee_History \<Rightarrow> run (rollback s, Exit 0)
         | Fee_Set rate memo actor ensure_initial \<Rightarrow> run (cmd_fee_change s (Fee_Now ensure_initial) rate actor memo)
         | Fee_Ensure_Initial percent memo actor \<Rightarrow> run (cmd_fee_ensure_initial s percent actor memo)
         | Fee_Schedule_At rate at_time memo actor \<Rightarrow> run (cmd_fee_change s (Fee_Schedule at_time) rate actor memo)
         | Fee_Cancel policy_id memo actor \<Rightarrow> run (cmd_fee_cancel s policy_id actor memo)
         | Review_List include_resolved \<Rightarrow> run (rollback s, Exit 0)
         | Review_One cmd order_id \<Rightarrow> run (cmd_review cfg s cmd order_id)
         | Review_Resolve_Many order_ids resolution memo yes \<Rightarrow>
             run (cmd_review_resolve_many cfg (ox_others ox) s order_ids resolution memo yes)
         | Attention_List historic limit \<Rightarrow>
             if limit \<le> 0 then run (s, Exit 1)
             else run (rollback s, if bad_limit limit then Uncaught ''DataError'' else Exit 0)
         | Attention_Show order_id \<Rightarrow> run (rollback s, snd (attention_show_output (ox_format ox) (work s) (clock s) order_id))
         | Attention_Resolve order_id resolution memo yes \<Rightarrow> run (cmd_attention_resolve cfg s order_id resolution memo yes)
         | Notification_Accept order_id memo yes \<Rightarrow> run (cmd_notification_accept cfg s order_id memo yes))"

text \<open>The confirmations and notes a command needs before it may write.\<close>

fun may_write :: "ops_command \<Rightarrow> bool" where
  "may_write (Backup_Event _ _ _ _ _) = True"
| "may_write Test_Alert = True"
| "may_write (Db_Check_Cmd repair_sequences details _) = (repair_sequences \<and> \<not> details)"
| "may_write (Fee_Set _ memo _ _) = (strip memo \<noteq> [])"
| "may_write (Fee_Ensure_Initial percent _ _) = (percent \<noteq> None)"
| "may_write (Fee_Schedule_At _ at_time memo _) = (strip memo \<noteq> [] \<and> at_time \<noteq> None)"
| "may_write (Fee_Cancel _ memo _) = (strip memo \<noteq> [])"
| "may_write (Review_One cmd _) = (cmd \<noteq> Review_Show \<and> review_flags_ok cmd)"
| "may_write (Review_Resolve_Many _ _ memo yes) = (yes \<and> strip memo \<noteq> [])"
| "may_write (Attention_Resolve _ _ memo yes) = (yes \<and> strip memo \<noteq> [])"
| "may_write (Notification_Accept _ memo yes) = (yes \<and> strip memo \<noteq> [])"
| "may_write _ = False"

section \<open>Reading and unconfirmed commands\<close>

text \<open>
  An operator command that only reads, or that lacks its confirmation or its note, commits nothing and repairs no sequence,
  whatever the database holds and whatever the other arguments are.
\<close>

theorem ops_unconfirmed_inert:
  assumes "\<not> may_write c"
  shows "durable (fst (ops_main ox s seqs c)) = durable s \<and> fst (snd (ops_main ox s seqs c)) = seqs"
proof (cases c)
  case (Db_Check_Cmd repair_sequences details details_json)
  then show ?thesis using assms by (auto simp: ops_main_def run_db_checks_def Let_def)
next
  case (Fee_Schedule_At rate at_time memo actor)
  have "durable (fst (cmd_fee_change s (Fee_Schedule at_time) rate actor memo)) = durable s"
    using assms Fee_Schedule_At by (cases at_time) (auto simp: cmd_fee_change_def Let_def split: sum.split)
  then show ?thesis using Fee_Schedule_At by (simp add: ops_main_def split_beta)
next
  case (Fee_Ensure_Initial percent memo actor)
  then show ?thesis using assms by (auto simp: ops_main_def cmd_fee_ensure_initial_def refuse_def)
next
  case (Review_One cmd order_id)
  then show ?thesis using assms by (auto simp: ops_main_def cmd_review_def refuse_def Let_def split: sum.split option.split)
next
  case (Review_Resolve_Many order_ids resolution memo yes)
  then show ?thesis
    using assms by (auto simp: ops_main_def cmd_review_resolve_many_def preview_bulk_resolution_def Let_def split: option.split)
next
  case (Attention_Resolve order_id resolution memo yes)
  then show ?thesis using assms by (auto simp: ops_main_def cmd_attention_resolve_def)
next
  case (Notification_Accept order_id memo yes)
  then show ?thesis using assms by (auto simp: ops_main_def cmd_notification_accept_def)
qed (use assms in \<open>auto simp: ops_main_def cmd_fee_change_def cmd_fee_cancel_def Let_def\<close>)

theorem ops_unconfirmed_inert_witness:
  "\<forall>ox. \<not> may_write (Notification_Accept ''a'' ''seen in the bot'' False)
     \<and> durable (fst (ops_main ox (delivery_session [demo_payment 1 ''a'']) [] (Notification_Accept ''a'' ''seen in the bot'' False)))
       = durable (delivery_session [demo_payment 1 ''a''])"
  using ops_unconfirmed_inert [of "Notification_Accept ''a'' ''seen in the bot'' False"] by simp

section \<open>What the attention commands say and do\<close>

lemma find_payment_by_order_id_mem: "find_payment_by_order_id d i = Inr (Some p) \<Longrightarrow> p \<in> set (payments d)"
  by (auto simp: find_payment_by_order_id_def payment_by_bot_order_id_def payment_by_gateway_order_id_def Let_def
      split: if_splits option.splits dest: find_SomeD)

lemma eligible_resolutions_iff:
  "r \<in> set (eligible_resolutions_for_status st) \<longleftrightarrow> st \<in> set (coalesce (map_of ATTENTION_RESOLUTIONS r) [])"
  by (auto simp: eligible_resolutions_for_status_def ATTENTION_RESOLUTIONS_def coalesce_def)

lemma refuse_with_resolution:
  "attention_refuse_reason p now (Some r) superseded = None
   \<longleftrightarrow> attention_refuse_reason p now None superseded = None \<and> r \<in> set (eligible_resolutions_for_status (p_status p))"
  unfolding eligible_resolutions_iff by (simp add: attention_refuse_reason_def split: if_split)


text \<open>A payment whose link request failed, a day ago.\<close>

definition attention_demo :: session where
  "attention_demo = new_session (empty_db\<lparr>payments := [(demo_payment 1 ''a'')\<lparr>p_status := GETLINK_FAILED\<rparr>]\<rparr>) 90000"


text \<open>
  A resolution refused because it does not fit the status of the payment is refused with a text that does not name it: for a
  payment never resolved before the operator reads \<open>resolution=None\<close>, whatever resolution was asked for.
\<close>

theorem refusal_names_stored_resolution:
  assumes "payment_by_id (work s) i = Some p" "strip memo \<noteq> []" "strip actor \<noteq> []" "p_attention_resolution p = None"
    "attention_refuse_reason p now (Some resolution) (resolution_superseded_in_db (work s) p) = Some AT_RESOLUTION_NOT_VALID_FOR_STATUS"
  shows "map_option (outcome_refusal_message fm) (snd (resolve_attention s i resolution memo actor now))
       = Some (Some (''refused: resolution=None does not apply to status='' @ status_value (p_status p) @ ''.''))"
  using assms by (simp add: resolve_attention_def Let_def outcome_refusal_message_def none_or_def coalesce_def)

theorem refusal_names_stored_resolution_witness:
  "\<forall>fm. map_option (outcome_refusal_message fm) (snd (resolve_attention attention_demo 1 ''stale_incomplete_creation'' ''n'' ''host-cli'' 90000))
     = Some (Some ''refused: resolution=None does not apply to status=getlink_failed.'')"
proof
  fix fm
  let ?p = "(demo_payment 1 ''a'')\<lparr>p_status := GETLINK_FAILED\<rparr>"
  have hyps: "payment_by_id (work attention_demo) 1 = Some ?p" "strip ''n'' \<noteq> []" "strip ''host-cli'' \<noteq> []"
    "p_attention_resolution ?p = None"
    "attention_refuse_reason ?p 90000 (Some ''stale_incomplete_creation'') (resolution_superseded_in_db (work attention_demo) ?p)
       = Some AT_RESOLUTION_NOT_VALID_FOR_STATUS"
    by code_simp+
  show "map_option (outcome_refusal_message fm) (snd (resolve_attention attention_demo 1 ''stale_incomplete_creation'' ''n'' ''host-cli'' 90000))
     = Some (Some ''refused: resolution=None does not apply to status=getlink_failed.'')"
    using refusal_names_stored_resolution [OF hyps, of fm] by simp
qed

end
