(* ===== verification/Observability.thy ===== *)
theory Observability
  imports Cli Request_Body Logging Verification "HOL-Library.List_Lexorder" "HOL-Library.Char_ord"
begin

text \<open>
  What the bridge tells about itself: the health endpoints (\<open>app/api/health.py\<close>), the bodies of the generic error
  responses (\<open>app/main.py\<close>), the page the payer sees (\<open>app/api/pages.py\<close>) and the diagnostics logged for a refused payment request (\<open>app/api/payments.py\<close>).
\<close>

section \<open>Health endpoints\<close>

definition health_live :: "string \<Rightarrow> jdict" where
  "health_live version = [(''status'', JStr ''alive''), (''version'', JStr version)]"

definition health_ready :: "bool \<Rightarrow> int \<times> jdict" where
  "health_ready database_answers =
     (if database_answers then (200, [(''status'', JStr ''ready''), (''database'', JStr ''ok'')])
      else (503, [(''status'', JStr ''unavailable''), (''database'', JStr ''error'')]))"

text \<open>What the endpoint finds: the database and its heartbeats, the migration revision, and whether a query fails.\<close>

record probe_view =
  pv_db :: db
  pv_heartbeats :: "worker_heartbeat list"
  pv_revision :: "string option"
  pv_database_ok :: bool
  pv_query_failed :: bool

definition migration_revision :: "string option \<Rightarrow> string" where
  "migration_revision revision = (case str_or revision None of None \<Rightarrow> ''unknown'' | Some r \<Rightarrow> r)"

definition payment_creation_state :: "settings \<Rightarrow> string" where
  "payment_creation_state cfg =
     (if \<not> payment_creation_enabled cfg then ''disabled'' else if centralpay_payer_id_secret cfg = [] then ''misconfigured'' else ''active'')"

definition if_ok :: "bool \<Rightarrow> json \<Rightarrow> json" where
  "if_ok okay v = (if okay then v else JNull)"

definition health_details ::
  "string \<Rightarrow> string \<Rightarrow> string \<Rightarrow> settings \<Rightarrow> probe_view \<Rightarrow> time \<Rightarrow> int \<times> jdict" where
  "health_details version build_sha environment cfg v now =
     (let okay = pv_database_ok v; d = pv_db v
      in if okay \<and> pv_query_failed v then (503, [(''status'', JStr ''error''), (''version'', JStr version)])
         else
           (if okay then 200 else 503,
            [(''status'', JStr (if okay then ''ready'' else ''degraded'')), (''version'', JStr version),
             (''build_sha'', jopt_str (str_or (Some build_sha) None)), (''environment'', JStr environment),
             (''database'', JStr (if okay then ''ok'' else ''error'')), (''payment_creation'', JStr (payment_creation_state cfg)),
             (''migration_revision'', if_ok okay (JStr (migration_revision (pv_revision v)))),
             (''worker_heartbeat_age_seconds'',
                if_ok okay (jopt_int (map_option py_trunc (worker_heartbeat_age_seconds (pv_heartbeats v) now)))),
             (''pending_notifications'', if_ok okay (jnat (count_by_status d BOT_NOTIFY_PENDING))),
             (''manual_review'', if_ok okay (jnat (count_by_status d MANUAL_REVIEW))),
             (''alert_queue'', if_ok okay (JObj (map (\<lambda>(st, n). (alert_status_value st, jnat n)) (alert_queue_stats d)))),
             (''last_backup_at'', if_ok okay (jopt_time (map_option al_created_at (latest_backup_alert d ''backup_succeeded''))))]))"

section \<open>Generic error responses\<close>

text \<open>A validation error is a list of locations and messages; what was submitted is in neither.\<close>

definition validation_error_body :: "(string list \<times> string) list \<Rightarrow> int \<times> jdict" where
  "validation_error_body errors =
     (422, [(''error'', JObj [(''code'', JStr ''validation_error''), (''message'', JStr ''Invalid request'')]),
            (''detail'', JArr (map (\<lambda>(loc, msg). JObj [(''loc'', JArr (map JStr loc)), (''msg'', JStr msg)]) errors))])"

definition unhandled_error_body :: "int \<times> jdict" where
  "unhandled_error_body =
     (500, [(''error'', JObj [(''code'', JStr ''internal_error''), (''message'', JStr ''Internal server error'')])])"

section \<open>Diagnostics of a refused body\<close>

definition json_shape_label :: "codecs \<Rightarrow> string \<Rightarrow> string" where
  "json_shape_label K txt =
     (case json_loads K txt of
        None \<Rightarrow> ''invalid''
      | Some (JObj _) \<Rightarrow> ''object''
      | Some (JArr _) \<Rightarrow> ''array''
      | Some (JStr _) \<Rightarrow> ''string''
      | Some _ \<Rightarrow> ''scalar'')"

fun json_type_name :: "json \<Rightarrow> string" where
  "json_type_name (JBool _) = ''boolean''"
| "json_type_name (JInt _) = ''integer''"
| "json_type_name (JFloat _) = ''number''"
| "json_type_name (JStr _) = ''string''"
| "json_type_name (JTime _) = ''string''"
| "json_type_name (JObj _) = ''object''"
| "json_type_name (JArr _) = ''array''"
| "json_type_name JNull = ''null''"

text \<open>The errors of the strict model are its library's: each a slug and a location. \<open>sorted\<close> of a set.\<close>

definition sorted_set :: "string list \<Rightarrow> string list" where
  "sorted_set xs = sort (remdups xs)"

definition invalid_field :: "string list \<Rightarrow> string" where
  "invalid_field loc = (case loc of f # _ \<Rightarrow> if f \<in> set REQUIRED_FIELDS then f else ''other'' | [] \<Rightarrow> ''other'')"

definition schema_invalid_diagnostics :: "string \<Rightarrow> jdict \<Rightarrow> (string \<times> string list) list \<Rightarrow> jdict" where
  "schema_invalid_diagnostics decoded normalized errors =
     [(''decoded_representation'', JStr decoded),
      (''invalid_fields'', JArr (map JStr (sorted_set (map (invalid_field \<circ> snd) errors)))),
      (''invalid_error_types'', JArr (map JStr (sorted_set (map fst errors)))),
      (''field_types'', JObj (map (\<lambda>f. (f, JStr (case map_of normalized f of None \<Rightarrow> ''missing'' | Some v \<Rightarrow> json_type_name v))) REQUIRED_FIELDS)),
      (''amount_is_ascii_decimal_string'',
         JBool (case map_of normalized ''amount'' of Some (JStr a) \<Rightarrow> is_ascii_decimal a | _ \<Rightarrow> False)),
      (''order_id_length'', case map_of normalized ''order_id'' of Some (JStr i) \<Rightarrow> jnat (length i) | _ \<Rightarrow> JNull)]"

definition unrecovered_single_pair_diagnostics :: "codecs \<Rightarrow> string \<times> string \<Rightarrow> string \<Rightarrow> jdict" where
  "unrecovered_single_pair_diagnostics K p raw_text =
     (case p of (key, v) \<Rightarrow>
        [(''key_length'', jnat (length key)), (''value_length'', jnat (length v)), (''value_empty'', JBool (v = [])),
         (''key_json_type'', JStr (json_shape_label K key)), (''value_json_type'', JStr (json_shape_label K v)),
         (''key_starts_json_object'', JBool (take 1 (lstrip key) = ''{'')),
         (''key_ends_json_object'', JBool (take 1 (rev (rstrip key)) = ''}'')),
         (''raw_pair_equals_count'', jnat (count_list raw_text (CHR ''='')))])"

section \<open>The payer's page\<close>

text \<open>\<open>html.escape\<close> with its default \<open>quote=True\<close>. The markup of the page is the argument \<open>template\<close>.\<close>

definition html_escape_char :: "char \<Rightarrow> string" where
  "html_escape_char c =
     (if c = CHR ''&'' then ''&amp;'' else if c = CHR ''<'' then ''&lt;'' else if c = CHR ''>'' then ''&gt;''
      else if c = CHR 0x22 then ''&quot;'' else if c = CHR 0x27 then ''&#x27;'' else [c])"

definition html_escape :: "string \<Rightarrow> string" where
  "html_escape s = concat (map html_escape_char s)"

fun callback_status_value :: "callback_status \<Rightarrow> string" where
  "callback_status_value CB_BOT_ACCEPTED = ''bot_accepted''"
| "callback_status_value CB_BOT_PENDING = ''bot_pending''"
| "callback_status_value CB_UNDER_REVIEW = ''under_review''"

definition payment_status_page :: "string \<Rightarrow> callback_status \<Rightarrow> string \<Rightarrow> string" where
  "payment_status_page template st bot_order_id =
     py_replace ''__ORDER_ID__'' (html_escape bot_order_id) (py_replace ''__STATUS__'' (callback_status_value st) template)"

definition markup :: "char set" where
  "markup = {CHR ''<'', CHR ''>'', CHR 0x22, CHR 0x27}"

lemma count_py_replace: "c \<notin> set old \<Longrightarrow> c \<notin> set new \<Longrightarrow> count_list (py_replace old new s) c = count_list s c"
proof (induction old new s rule: py_replace.induct)
  case (2 old new x xs)
  show ?case
  proof (cases "old \<noteq> [] \<and> prefix old (x # xs)")
    case True
    then obtain rest where "x # xs = old @ rest" by (auto elim: prefixE)
    then have "count_list (x # xs) c = count_list (drop (length old) (x # xs)) c" using 2(3) by (simp add: count_notin)
    then show ?thesis using True 2 by (simp add: count_notin)
  next
    case False
    then have "py_replace old new (x # xs) = x # py_replace old new xs" by auto
    then show ?thesis using 2(2) [OF False 2(3,4)] by simp
  qed
qed simp

lemma html_escape_no_markup: "c \<in> markup \<Longrightarrow> c \<notin> set (html_escape s)"
  by (auto simp: html_escape_def html_escape_char_def markup_def)

text \<open>
  C40. The page shows the order id, which the calling bot chose, as text only: whatever the order id and the status, the page
  has exactly the markup characters of its template, so nothing in an order id can open a tag or leave an attribute.
\<close>

theorem payer_page_no_injection:
  "c \<in> markup \<Longrightarrow> count_list (payment_status_page template st bot_order_id) c = count_list template c"
proof -
  assume c: "c \<in> markup"
  have "c \<notin> set (callback_status_value st)" using c by (cases st) (auto simp: markup_def)
  moreover have "c \<notin> set ''__ORDER_ID__''" "c \<notin> set ''__STATUS__''" using c by (auto simp: markup_def)
  ultimately show ?thesis
    using html_escape_no_markup [OF c] by (simp add: payment_status_page_def count_py_replace)
qed

theorem payer_page_no_injection_witness:
  "count_list (payment_status_page ''<b data=__STATUS__>__ORDER_ID__</b>'' CB_BOT_PENDING ''<script>'') (CHR ''<'') = 2
 \<and> payment_status_page ''<b data=__STATUS__>__ORDER_ID__</b>'' CB_BOT_PENDING ''<script>'' = ''<b data=bot_pending>&lt;script&gt;</b>''"
proof -
  have "count_list ''<b data=__STATUS__>__ORDER_ID__</b>'' (CHR ''<'') = 2" by code_simp
  moreover have "payment_status_page ''<b data=__STATUS__>__ORDER_ID__</b>'' CB_BOT_PENDING ''<script>'' = ''<b data=bot_pending>&lt;script&gt;</b>''"
    by code_simp
  ultimately show ?thesis
    using payer_page_no_injection [of "CHR ''<''" "''<b data=__STATUS__>__ORDER_ID__</b>''" CB_BOT_PENDING "''<script>''"]
    by (simp add: markup_def)
qed

section \<open>What they say\<close>

text \<open>
  The two probes agree, and \<open>/health/details\<close> counts every row in manual review, those an operator resolved
  included, where every other surface counts the open ones.
\<close>

lemma health_probes_agree:
  "\<not> pv_query_failed v \<Longrightarrow> fst (health_details version sha env cfg v now) = fst (health_ready (pv_database_ok v))"
  by (simp add: health_details_def health_ready_def Let_def)

lemma health_manual_review_count:
  assumes "pv_database_ok v" "\<not> pv_query_failed v"
  shows "map_of (snd (health_details version sha env cfg v now)) ''manual_review''
       = Some (jnat (count_open_manual_reviews (pv_db v)
           + count_where (\<lambda>p. p_status p = MANUAL_REVIEW \<and> p_review_resolved_at p \<noteq> None) (payments (pv_db v))))"
proof -
  have "count_by_status (pv_db v) MANUAL_REVIEW = count_open_manual_reviews (pv_db v)
      + count_where (\<lambda>p. p_status p = MANUAL_REVIEW \<and> p_review_resolved_at p \<noteq> None) (payments (pv_db v))"
    unfolding count_by_status_def count_open_manual_reviews_def
    by (subst count_where_disj [symmetric]) (auto simp: open_manual_review_conditions_def intro: count_where_cong)
  then show ?thesis using assms by (simp add: health_details_def if_ok_def Let_def)
qed

text \<open>
  The diagnostics of a body that failed the strict model tell nothing of the api key but that it is a text; and the flag of
  the amount, which is to tell an unconvertible text from a JSON number, is false for both: it is true only of
  a text of more digits than \<open>int()\<close> accepts, for the normalisation has converted every other decimal text.
\<close>

lemma diagnostics_hide_api_key:
  assumes "map_of data ''api_key'' = Some (JStr key)"
  shows "schema_invalid_diagnostics rep (normalize_body (AList.update ''api_key'' (JStr key') data)) errors
       = schema_invalid_diagnostics rep (normalize_body data) errors"
  using assms by (simp add: schema_invalid_diagnostics_def map_of_normalize update_conv' REQUIRED_FIELDS_def)

lemma amount_flag_iff:
  "map_of (schema_invalid_diagnostics rep (normalize_body data) errors) ''amount_is_ascii_decimal_string'' = Some (JBool True)
   \<longleftrightarrow> (\<exists>a. map_of data ''amount'' = Some (JStr a) \<and> is_ascii_decimal a \<and> py_int_of_digits a = None)"
  by (auto simp: schema_invalid_diagnostics_def map_of_normalize normalize_amount_def split: option.splits json.splits if_splits)

end
