(* ===== verification/Settings_Bounds.thy ===== *)
theory Settings_Bounds
  imports Config
begin

text \<open>
  The declared bounds and defaults of the settings the services read (class \<open>Settings\<close> of \<open>app/config.py\<close>), and what
  they give together with the cross-field validator: the side conditions under which the services are shown correct hold
  in every process that starts.
\<close>

definition validate_payer_id_secret :: "string \<Rightarrow> bool" where
  "validate_payer_id_secret v \<longleftrightarrow> v = [] \<or> 16 \<le> length v"

definition settings_bounds :: "settings \<Rightarrow> bool" where
  "settings_bounds cfg \<longleftrightarrow>
     16 \<le> length (inbound_api_key cfg) \<and> 16 \<le> length (callback_hmac_secret cfg)
   \<and> 0 < min_payment_amount_toman cfg \<and> 0 < max_payment_amount_toman cfg \<and> 0 < centralpay_user_id cfg
   \<and> validate_payer_id_secret (centralpay_payer_id_secret cfg)
   \<and> 0 < bot_notify_max_attempts cfg \<and> bot_notify_max_attempts cfg \<le> 50 \<and> 0 < bot_notify_claim_timeout_seconds cfg
   \<and> 0 \<le> reconciliation_min_age_seconds cfg \<and> 0 < reconciliation_interval_seconds cfg
   \<and> 0 < reconciliation_batch_size cfg \<and> reconciliation_batch_size cfg \<le> 100 \<and> 0 < reconciliation_slow_tier_reserved_slots cfg
   \<and> 0 < reconciliation_max_attempts cfg \<and> reconciliation_max_attempts cfg \<le> 1000
   \<and> 0 \<le> reconciliation_fast_window_seconds cfg \<and> 0 < reconciliation_fast_interval_seconds cfg
   \<and> 0 < reconciliation_slow_interval_seconds cfg \<and> 0 < reconciliation_max_age_seconds cfg
   \<and> 0 < reconciliation_initial_backoff_seconds cfg \<and> 0 < reconciliation_max_backoff_seconds cfg
   \<and> 1 \<le> admin_bot_alert_dedup_minutes cfg \<and> 0 < admin_bot_alert_max_attempts cfg \<and> admin_bot_alert_max_attempts cfg \<le> 50
   \<and> 0 < admin_bot_alert_claim_timeout_seconds cfg"

text \<open>The values where the environment sets none; the first four arguments have no default.\<close>

definition default_settings :: "string \<Rightarrow> string \<Rightarrow> string \<Rightarrow> int \<Rightarrow> settings" where
  "default_settings api_key hmac_secret base_url user_id =
     \<lparr>inbound_api_key = api_key, callback_hmac_secret = hmac_secret, public_base_url = base_url, min_payment_amount_toman = 1000,
      max_payment_amount_toman = 100000000, centralpay_user_id = user_id, centralpay_payer_id_secret = [], payment_creation_enabled = True,
      bot_notify_retry_mode = Safe, bot_notify_max_attempts = 6, bot_notify_claim_timeout_seconds = 120, reconciliation_enabled = True,
      reconciliation_min_age_seconds = 10, reconciliation_interval_seconds = 5, reconciliation_batch_size = 10,
      reconciliation_slow_tier_reserved_slots = 1, reconciliation_max_attempts = 1000, reconciliation_fast_window_seconds = 900,
      reconciliation_fast_interval_seconds = 10, reconciliation_slow_interval_seconds = 300, reconciliation_max_age_seconds = 7200,
      reconciliation_initial_backoff_seconds = 20, reconciliation_max_backoff_seconds = 900, first_payment_guard_enabled = False,
      admin_bot_enabled = False, admin_bot_alerts_enabled = True, admin_bot_payment_success_alerts = False, admin_bot_error_alerts = True,
      admin_bot_manual_review_alerts = True, admin_bot_backup_alerts = True, admin_bot_alert_dedup_minutes = 30,
      admin_bot_alert_max_attempts = 8, admin_bot_alert_claim_timeout_seconds = 300\<rparr>"

definition startup_defaults :: "string \<Rightarrow> startup_settings" where
  "startup_defaults token =
     \<lparr>su_bot_payment_notify_url = [], su_bot_notify_token = token, su_allow_insecure_bot_notify_url = False, su_telegram_bot_username = [],
      su_bot_notify_connect_timeout_seconds = 5, su_bot_notify_read_timeout_seconds = 15, su_admin_bot_token = [], su_admin_telegram_ids = [],
      su_admin_bot_daily_report_time = ''09:00'', su_timezone_ok = True\<rparr>"

lemma default_settings_accepted:
  assumes "16 \<le> length api_key" "16 \<le> length hmac_secret" "0 < user_id"
  shows "settings_bounds (default_settings api_key hmac_secret base_url user_id)
       \<and> validate_bot_settings L (default_settings api_key hmac_secret base_url user_id) (startup_defaults token) = Inr (startup_defaults token)"
  using assms by (simp add: settings_bounds_def default_settings_def startup_defaults_def validate_bot_settings_def validate_payer_id_secret_def)

text \<open>What the theorems about the services ask of the settings, for every accepted configuration.\<close>

lemma accepted_settings:
  assumes "settings_bounds cfg" "validate_bot_settings L cfg su = Inr su'"
  shows "min_payment_amount_toman cfg < max_payment_amount_toman cfg" "0 < min_payment_amount_toman cfg"
    "reconciliation_fast_window_seconds cfg < reconciliation_max_age_seconds cfg" "0 \<le> reconciliation_fast_window_seconds cfg"
    "0 < reconciliation_slow_tier_reserved_slots cfg" "reconciliation_slow_tier_reserved_slots cfg < reconciliation_batch_size cfg"
    "0 < reconciliation_max_attempts cfg" "0 < bot_notify_max_attempts cfg" "0 < admin_bot_alert_max_attempts cfg"
    "su_bot_notify_connect_timeout_seconds su + su_bot_notify_read_timeout_seconds su < bot_notify_claim_timeout_seconds cfg"
  using assms by (auto simp: settings_bounds_def validate_bot_settings_def split: if_splits sum.splits)

end
