(* ===== verification/Spec2Isabelle.thy ===== *)
theory Spec2Isabelle
  imports Fees Security Gateway Payer_Identity Bot Notification Verification Payments Reconciliation
    Review_Resolution Attention Queries Stuck Operator Recovery Lifecycle Db_Check Status Monitor_Checks Monitor_Incidents Monitor Ratelimit Request_Body Api
    Alert_Delivery Config Worker Migration_Laws Logging Admin_Replies Admin_Format Admin_Commands Admin_Privacy Admin_Health Cli_Laws Ops_Reports Observability Settings_Bounds
begin

text \<open>
  CentralPay Bridge, verified.

  \<^bold>\<open>The program.\<close> The bridge stands between a selling bot and the payment gateway CentralPay. The bot asks for a payment
  link (\<open>POST /api/custom-payment\<close>); the payer pays at the gateway, which sends the browser back to the bridge's signed
  callback; the bridge asks the gateway itself whether the order is paid, settles the payment, and a worker tells the
  bot, with retries. A second loop of the worker polls the gateway for payments whose callback never came.
  Administrators get alerts and commands through a Telegram bot, operators use two command lines, a monitor process
  watches all of it, and migrations build the database. Every part shares one PostgreSQL database: its
  \<open>payments\<close> table, an append-only trail of events, an outbox of alerts, fee policies and payer identities.

  \<^bold>\<open>Foundations.\<close> \<open>Prelude\<close>: strings, digits, orders, options. \<open>Models\<close> (\<open>app/models.py\<close>, \<open>app/reasons.py\<close>,
  \<open>app/exceptions.py\<close>): rows as records, tables as lists of rows, JSON values, the session; the locale \<open>keyed_table\<close>
  states what a table promises. \<open>Audit_Trail\<close> (\<open>app/audit.py\<close>, the creating half of \<open>app/adminbot/alerts.py\<close>): events and the
  alerts they raise in the same transaction. \<open>Contracts\<close>: the locales of operations on the payment table,
  \<open>row_protocol\<close>, \<open>row_operation\<close>, \<open>batch_operation\<close>, \<open>recorded_batch\<close>, interpreted where the operations are defined.

  \<^bold>\<open>Payments.\<close>
  \<^item> \<open>Fees\<close> (\<open>services/fees.py\<close>): rounding half up, rates printed and parsed, effective policies.
  \<^item> \<open>Security\<close>, \<open>Urls\<close> (\<open>security.py\<close>): tokens, signatures, callback addresses. \<open>Gateway\<close> (\<open>centralpay.py\<close>): getLink and
    verify, and every way a reply can be malformed. \<open>Payer_Identity\<close> (\<open>services/payer_identity.py\<close>): one gateway payer per
    end user, so that no payer sees another's cards.
  \<^item> \<open>Payments\<close> (\<open>services/payments.py\<close>): creation, idempotent replay, the race on an order id. \<open>Verification\<close>
    (\<open>services/verification.py\<close>): the callback and the one settlement path. \<open>Reconciliation\<close> (\<open>services/reconciliation.py\<close>): the two age
    tiers, claims, the pass with its budget. \<open>Bot\<close>, \<open>Notification\<close> (\<open>bot.py\<close>, \<open>services/notification.py\<close>): delivery with retries,
    the safe mode that never repeats an ambiguous delivery, claims that a restarted worker takes over.
  \<^item> \<open>Lifecycle\<close>: \<open>bridge_step\<close> collects the transactions of all of these, \<open>life\<close> what they may do to one payment; its
    theorems are about every database the bridge can reach.

  \<^bold>\<open>Operators.\<close> \<open>Bulk_Resend\<close>, \<open>Review_Resolution\<close>, \<open>Attention\<close>, \<open>Recovery\<close> (the services of the same names, \<open>payment_lookup\<close>,
  \<open>reconcile_inspect\<close>, \<open>aged_out_recovery\<close>), \<open>Queries\<close>, \<open>Stuck\<close>, \<open>Status\<close> (\<open>adminbot/queries.py\<close>, \<open>stuck_payments\<close>,
  \<open>reconciliation_status\<close>, \<open>heartbeat\<close>), \<open>Operator\<close>, \<open>Db_Check\<close>, \<open>Ops_Reports\<close> (\<open>ops.py\<close>), \<open>Cli\<close>, \<open>Cli_Laws\<close> (\<open>cli.py\<close>).

  \<^bold>\<open>Processes and edges.\<close> \<open>Ratelimit\<close>, \<open>Request_Body\<close>, \<open>Api\<close>, \<open>Logging\<close>, \<open>Observability\<close> (the HTTP side: \<open>ratelimit.py\<close>,
  \<open>clientip.py\<close>, \<open>api/\<close>, \<open>main.py\<close>, \<open>middleware.py\<close>, \<open>logging_setup.py\<close>), \<open>Config\<close>, \<open>Settings_Bounds\<close> (\<open>config.py\<close>), \<open>Worker\<close>
  (\<open>worker.py\<close>), \<open>Monitor_Checks\<close>, \<open>Monitor_Incidents\<close>, \<open>Monitor\<close> (the monitor), \<open>Alert_Delivery\<close>, \<open>Admin_Format\<close>, \<open>Admin_Replies\<close>,
  \<open>Admin_Commands\<close>, \<open>Admin_Privacy\<close>, \<open>Admin_Health\<close> (\<open>adminbot/\<close>), \<open>Schema\<close>, \<open>Migrations\<close>, \<open>Migration_Laws\<close> (\<open>alembic/\<close>).

  \<^bold>\<open>How state is modelled.\<close>
  \<^item> A session holds the committed database (\<open>durable\<close>), its own working copy (\<open>work\<close>), the sequences, the clock, the request
    id and the alert policy. \<open>commit\<close> publishes the working copy, \<open>rollback\<close> drops it; ids drawn from a sequence are never
    given back. An operation takes a session and returns one. UNIQUE and CHECK constraints are tested where an
    INSERT or UPDATE is flushed, and a violation is the branch the code takes on \<open>IntegrityError\<close>.
  \<^item> Concurrency is explicit. What other sessions commit between two statements is a function (\<open>others\<close>,
    \<open>rollback_seeing\<close>, \<open>mon_see\<close>); rows that others hold locked are a predicate (\<open>locked\<close>, for \<open>SKIP LOCKED\<close>). Theorems that say
    \<open>undisturbed\<close> take these functions to be the identity; the others hold for every choice. The copy of a row that a
    session keeps after a commit (\<open>expire_on_commit=False\<close>) is kept too: the reconciliation decides on it, as the code does.
  \<^item> Errors are values: \<open>bridge_error\<close>, \<open>centralpay_error\<close> and smaller types in sums; an exception nothing catches is a value
    as well (\<open>Uncaught\<close>, \<open>UnhandledError\<close>).
  \<^item> Outside code is an argument: HTTP exchanges, HMAC and randomness (\<open>crypto\<close>), the decoders of JSON, forms, UTF-8 and IP
    addresses, Telegram, files and disks, ISO and calendar texts, jitter. What a theorem needs of them is a named hypothesis.
  \<^item> Python integers are \<open>int\<close>, floats and instants exact rationals; a \<open>str\<close> is a list of code points below 256. Where the width
    of an integer matters (\<open>BIGINT\<close>, the digits \<open>int()\<close> accepts, the payer number space) the bound is written out.
    Fixed texts in Persian and signs outside ASCII are named instead of spelled. Rows with equal ORDER BY keys keep the order of the table.
    Several clock readings inside one query are one reading. \<open>updated_at\<close> and log records that nothing reads are left out.
  \<^item> DDL is modelled on a small schema language with the errors PostgreSQL documents for it.

  \<^bold>\<open>What is shown.\<close> Money: a payment settles exactly when the gateway confirms amount, payer and an unused reference
  (C1), in one commit with its event and its notification (C7), once (C8), and forever (C6); nothing that does not settle
  it changes a settlement fact (C9); every reachable database satisfies the constraints (C5) and passes the operator's
  integrity report (C24). Creation: one row per order with the fee of the effective policy (C4, C18, C19), one payer
  number per end user (C13), only requests that were sent (C15), and forged callbacks change nothing (C14).
  Delivery: never repeated when ambiguous in safe mode (C2), stale results discarded (C3), a refinement of the delivery
  protocol (C10), drained by a pass (C17). Reconciliation: bounds and eligibility (C11, C12), agreement of status and worker
  (C25), of diagnosis and settlement (C23). Operators: bulk operations are complete or void (C21, C22), reports
  say what is there and what will happen (C36, C38, C39) and no secret (C30, C37); only a confirmed resend of the admin bot
  writes (C28). Monitoring: incidents refine their specification and are reported (C26, C27, C31). Schema: the migrations
  build the declared tables and can be rolled back and forward (C33, C34). Processes: the interleaved
  worker only takes steps of the bridge (C35). C20 and C32 state flaws of the code; the findings name the others.

  \<^bold>\<open>Termination and bounds.\<close> Loops over lists and rows are structural. \<open>requeue_loop\<close> may run as long as others feed it and is a
  \<open>partial_function\<close>; C21 shows that it returns. The loops of the passes carry the batch size as their bound, as in the code
  (C11, C17). \<open>order_hmac_loop\<close>, \<open>hard_split\<close> and \<open>py_replace\<close> have measures. The processes (worker, monitor, admin
  bot) are folds over any finite list of iterations: every statement holds after each of them.

  \<^bold>\<open>Not modelled.\<close> Building the FastAPI application, the engine and the ASGI entry point (\<open>create_app\<close>, \<open>db.py\<close>, \<open>deps.py\<close>, \<open>asgi.py\<close>):
  library objects put together. The markup of the payer's page and the Persian wording of bot messages: constants. The argument
  parsers (argparse) beyond the choices they enforce; reading the environment (pydantic-settings); signals, sleeping and the
  joining of threads; timeouts of the HTTP clients, whose outcomes are arguments. \<open>BotNotifier\<close> and the Telegram client post one request;
  the reply is the argument. Shell scripts, containers and Caddy configuration are outside the Python program.
\<close>

end
